(* ===== verification/Prelude.thy ===== *)
theory Prelude
  imports Complex_Main "HOL-Library.Multiset"
begin

text \<open>
  What every component of the model shares: JSON values and error values, the reading of
  Python truthiness and of \<open>str.strip\<close>, and database tables as lists of rows.

  A Python string is a \<open>string\<close> whose characters are its code points; code points above 255
  do not occur in the model. A database table is the list of its rows in insertion order. A
  row is selected by a predicate, and the statements of the program are \<open>find_row\<close>
  (\<open>select ... first()\<close>, \<open>db.get\<close>), \<open>upd_rows\<close> (\<open>update ... where\<close>, assignment to the fields of
  a loaded row) and \<open>del_rows\<close> (\<open>delete ... where\<close>).
\<close>

named_theorems table_simps \<open>rewrite rules for tables of rows\<close>

subsection \<open>JSON values and errors\<close>

datatype json =
    JNull
  | JBool bool
  | JNum rat
  | JStr string
  | JList "json list"
  | JObj "(string \<times> json) list"

text \<open>
  Every way a modelled function can raise. \<open>HTTPException\<close> carries the status code and the
  detail, \<open>ValueError\<close> is what a pydantic validator raises, \<open>FieldError\<close> stands for a
  violated \<open>Field\<close> constraint and names the field, \<open>IntegrityError\<close> is the database's refusal
  of a duplicate key; the others are the Python exceptions an unguarded access can raise.
\<close>

datatype err =
    HTTPException nat json
  | ValueError string
  | FieldError string
  | KeyError string
  | IndexError
  | AttributeError
  | TypeError
  | ZeroDivisionError
  | InvalidOperation
  | StopIteration
  | RuntimeError string
  | IntegrityError

abbreviation http :: "nat \<Rightarrow> string \<Rightarrow> err" where
  "http c s \<equiv> HTTPException c (JStr s)"

text \<open>Sequencing of computations that can raise.\<close>

definition bindE :: "'e + 'a \<Rightarrow> ('a \<Rightarrow> 'e + 'b) \<Rightarrow> 'e + 'b" where
  "bindE m f = (case m of Inl e \<Rightarrow> Inl e | Inr x \<Rightarrow> f x)"

lemma bindE_simps [simp]:
  "bindE (Inl e) f = Inl e"
  "bindE (Inr x) f = f x"
  by (simp_all add: bindE_def)

lemma bindE_Inr_iff: "bindE m f = Inr y \<longleftrightarrow> (\<exists>x. m = Inr x \<and> f x = Inr y)"
  by (cases m) simp_all

lemma bindE_Inl_iff: "bindE m f = Inl e \<longleftrightarrow> m = Inl e \<or> (\<exists>x. m = Inr x \<and> f x = Inl e)"
  by (cases m) auto

definition guardE :: "bool \<Rightarrow> 'e \<Rightarrow> 'e + unit" where
  "guardE b e = (if b then Inr () else Inl e)"

lemma guardE_Inr [simp]: "guardE b e = Inr u \<longleftrightarrow> b"
  by (simp add: guardE_def)

lemma guardE_simps [simp]:
  "guardE True e = Inr ()"
  "guardE False e = Inl e"
  by (simp_all add: guardE_def)

fun mapE :: "('a \<Rightarrow> 'e + 'b) \<Rightarrow> 'a list \<Rightarrow> 'e + 'b list" where
  "mapE f [] = Inr []"
| "mapE f (x # xs) =
     (case f x of Inl e \<Rightarrow> Inl e
      | Inr y \<Rightarrow> (case mapE f xs of Inl e \<Rightarrow> Inl e | Inr ys \<Rightarrow> Inr (y # ys)))"

lemma mapE_Inr_list_all2: "mapE f xs = Inr ys \<Longrightarrow> list_all2 (\<lambda>x y. f x = Inr y) xs ys"
  by (induction xs arbitrary: ys) (auto split: sum.splits)

lemma mapE_cong: "(\<And>x. x \<in> set xs \<Longrightarrow> f x = g x) \<Longrightarrow> mapE f xs = mapE g xs"
  by (induction xs) (simp_all split: sum.split)

lemma mapE_length: "mapE f xs = Inr ys \<Longrightarrow> length ys = length xs"
  by (drule mapE_Inr_list_all2) (simp add: list_all2_lengthD)

fun foldE :: "('a \<Rightarrow> 's \<Rightarrow> 'e + 's) \<Rightarrow> 'a list \<Rightarrow> 's \<Rightarrow> 'e + 's" where
  "foldE f [] s = Inr s"
| "foldE f (x # xs) s = bindE (f x s) (foldE f xs)"

lemma foldE_append: "foldE f (xs @ ys) s = bindE (foldE f xs s) (foldE f ys)"
  by (induction xs arbitrary: s) (auto simp: bindE_def split: sum.splits)

lemma foldE_invariant:
  assumes "foldE f xs s = Inr s'" and "P s"
    and "\<And>x s s'. x \<in> set xs \<Longrightarrow> P s \<Longrightarrow> f x s = Inr s' \<Longrightarrow> P s'"
  shows "P s'"
  using assms
proof (induction xs arbitrary: s)
  case Nil
  then show ?case by simp
next
  case (Cons x xs)
  then obtain t where t: "f x s = Inr t" "foldE f xs t = Inr s'" by (auto simp: bindE_Inr_iff)
  have "P t" by (rule Cons.prems(3) [OF _ Cons.prems(2) t(1)]) simp
  show ?case by (rule Cons.IH [OF t(2) \<open>P t\<close>]) (rule Cons.prems(3), auto)
qed

lemma foldE_total:
  assumes "P s" and "\<And>x s. x \<in> set xs \<Longrightarrow> P s \<Longrightarrow> \<exists>s'. f x s = Inr s' \<and> P s'"
  shows "\<exists>s'. foldE f xs s = Inr s' \<and> P s'"
  using assms
proof (induction xs arbitrary: s)
  case Nil
  then show ?case by simp
next
  case (Cons x xs)
  obtain t where "f x s = Inr t" "P t" using Cons.prems(2) [of x s] Cons.prems(1) by auto
  then show ?case using Cons.IH [of t] Cons.prems(2) by simp
qed

subsection \<open>Python values\<close>

text \<open>\<open>bool(x)\<close> for an optional integer and an optional string, and \<open>x or y\<close> on integers.\<close>

definition truthy_int :: "int option \<Rightarrow> bool" where
  "truthy_int x = (case x of None \<Rightarrow> False | Some v \<Rightarrow> v \<noteq> 0)"

definition truthy_str :: "string option \<Rightarrow> bool" where
  "truthy_str x = (case x of None \<Rightarrow> False | Some v \<Rightarrow> v \<noteq> [])"

definition or_int :: "int option \<Rightarrow> int \<Rightarrow> int" where
  "or_int x y = (case x of None \<Rightarrow> y | Some v \<Rightarrow> if v \<noteq> 0 then v else y)"

definition or_str :: "string option \<Rightarrow> string \<Rightarrow> string" where
  "or_str x y = (case x of None \<Rightarrow> y | Some v \<Rightarrow> if v \<noteq> [] then v else y)"

lemma truthy_simps [simp]:
  "truthy_int None = False" "truthy_int (Some v) = (v \<noteq> 0)"
  "truthy_str None = False" "truthy_str (Some s) = (s \<noteq> [])"
  by (simp_all add: truthy_int_def truthy_str_def)

lemma or_simps [simp]:
  "or_int None y = y" "or_str None z = z"
  "v \<noteq> 0 \<Longrightarrow> or_int (Some v) y = v"
  "s \<noteq> [] \<Longrightarrow> or_str (Some s) z = s"
  "or_str (Some s) [] = s"
  by (simp_all add: or_int_def or_str_def)

text \<open>\<open>str.strip()\<close>: the white space below code point 256.\<close>

definition py_space :: "char \<Rightarrow> bool" where
  "py_space c = (let n = (of_char c :: nat) in
     (9 \<le> n \<and> n \<le> 13) \<or> (28 \<le> n \<and> n \<le> 32) \<or> n = 133 \<or> n = 160)"

definition py_strip :: "string \<Rightarrow> string" where
  "py_strip s = rev (dropWhile py_space (rev (dropWhile py_space s)))"

lemma dropWhile_stripped: "dropWhile P (dropWhile P xs) = dropWhile P xs"
  by (induction xs) auto

lemma hd_dropWhile_rev:
  "dropWhile P xs = xs \<Longrightarrow> dropWhile P (rev (dropWhile P (rev xs))) = rev (dropWhile P (rev xs))"
proof (induction xs rule: rev_induct)
  case Nil
  then show ?case by simp
next
  case (snoc x xs)
  show ?case
  proof (cases "P x")
    case True
    have "dropWhile P xs = xs"
    proof (cases xs)
      case (Cons y ys)
      with snoc.prems have "\<not> P y"
        by (auto split: if_splits dest: arg_cong [where f = length])
           (metis Suc_n_not_le_n length_Cons length_dropWhile_le length_append_singleton)
      with Cons show ?thesis by simp
    qed simp
    with snoc.IH True show ?thesis by simp
  next
    case False
    with snoc.prems show ?thesis by simp
  qed
qed

lemma py_strip_idem [simp]: "py_strip (py_strip s) = py_strip s"
proof -
  have "dropWhile py_space (py_strip s) = py_strip s"
    unfolding py_strip_def by (rule hd_dropWhile_rev) (rule dropWhile_stripped)
  then show ?thesis
    by (simp add: py_strip_def dropWhile_stripped)
qed

lemma py_strip_Nil_iff: "py_strip s = [] \<longleftrightarrow> list_all py_space s"
proof
  assume "py_strip s = []"
  then have "\<forall>c \<in> set (dropWhile py_space s). py_space c"
    by (simp add: py_strip_def)
  then have "dropWhile py_space s = []"
    by (metis hd_dropWhile list.set_sel(1))
  then show "list_all py_space s"
    by (simp add: list_all_iff)
next
  assume "list_all py_space s"
  then show "py_strip s = []"
    by (auto simp: py_strip_def list_all_iff dest: set_dropWhileD)
qed

lemma length_py_strip: "length (py_strip s) \<le> length s"
  unfolding py_strip_def length_rev
  by (rule order_trans [OF length_dropWhile_le]) (simp add: length_dropWhile_le)

text \<open>The digits of a natural number, as an f-string writes it.\<close>

fun nat_str :: "nat \<Rightarrow> string" where
  "nat_str n = (if n < 10 then [char_of (48 + n)] else nat_str (n div 10) @ [char_of (48 + n mod 10)])"

declare nat_str.simps [simp del]

definition int_str :: "int \<Rightarrow> string" where
  "int_str i = (if i < 0 then CHR ''-'' # nat_str (nat (- i)) else nat_str (nat i))"

subsection \<open>Tables\<close>

definition find_row :: "('r \<Rightarrow> bool) \<Rightarrow> 'r list \<Rightarrow> 'r option" where
  "find_row P rows = List.find P rows"

definition upd_rows :: "('r \<Rightarrow> bool) \<Rightarrow> ('r \<Rightarrow> 'r) \<Rightarrow> 'r list \<Rightarrow> 'r list" where
  "upd_rows P f rows = map (\<lambda>r. if P r then f r else r) rows"

definition del_rows :: "('r \<Rightarrow> bool) \<Rightarrow> 'r list \<Rightarrow> 'r list" where
  "del_rows P rows = filter (\<lambda>r. \<not> P r) rows"

text \<open>\<open>order_by(key)\<close> and \<open>order_by(key.desc())\<close>; rows with equal keys keep their table order.\<close>

definition order_by :: "('r \<Rightarrow> int) \<Rightarrow> 'r list \<Rightarrow> 'r list" where
  "order_by key rows = sort_key key rows"

definition order_desc :: "('r \<Rightarrow> int) \<Rightarrow> 'r list \<Rightarrow> 'r list" where
  "order_desc key rows = sort_key (\<lambda>r. - key r) rows"

definition first_row :: "'r list \<Rightarrow> 'r option" where
  "first_row rows = (case rows of [] \<Rightarrow> None | r # _ \<Rightarrow> Some r)"

text \<open>\<open>select(func.max(key))\<close>: \<open>None\<close> on no rows.\<close>

definition max_of :: "('r \<Rightarrow> int) \<Rightarrow> 'r list \<Rightarrow> int option" where
  "max_of key rows = (if rows = [] then None else Some (Max (set (map key rows))))"

lemma max_of_code [simp]:
  "max_of key [] = None"
  "max_of key (r # rows) =
     Some (case max_of key rows of None \<Rightarrow> key r | Some m \<Rightarrow> max (key r) m)"
  by (auto simp: max_of_def)

lemma max_of_ge: "r \<in> set rows \<Longrightarrow> \<exists>m. max_of key rows = Some m \<and> key r \<le> m"
  by (auto simp: max_of_def)

lemma max_of_in: "max_of key rows = Some m \<Longrightarrow> \<exists>r \<in> set rows. key r = m"
proof (induction rows arbitrary: m)
  case Nil
  then show ?case by simp
next
  case (Cons r rows)
  then show ?case
    by (cases "max_of key rows") (auto simp: max_def split: if_splits)
qed

lemma find_row_code [simp]:
  "find_row P [] = None"
  "find_row P (r # rows) = (if P r then Some r else find_row P rows)"
  by (simp_all add: find_row_def)

lemma upd_rows_code [simp]:
  "upd_rows P f [] = []"
  "upd_rows P f (r # rows) = (if P r then f r else r) # upd_rows P f rows"
  by (simp_all add: upd_rows_def)

lemma del_rows_code [simp]:
  "del_rows P [] = []"
  "del_rows P (r # rows) = (if P r then del_rows P rows else r # del_rows P rows)"
  by (simp_all add: del_rows_def)

lemma first_row_code [simp]:
  "first_row [] = None"
  "first_row (r # rows) = Some r"
  by (simp_all add: first_row_def)

lemma find_row_Some: "find_row P rows = Some r \<Longrightarrow> r \<in> set rows \<and> P r"
  by (induction rows) (auto split: if_splits)

lemma find_row_None: "find_row P rows = None \<longleftrightarrow> (\<forall>r \<in> set rows. \<not> P r)"
  by (induction rows) auto

lemma find_row_append [table_simps]:
  "find_row P (xs @ ys) = (case find_row P xs of None \<Rightarrow> find_row P ys | Some r \<Rightarrow> Some r)"
  by (induction xs) auto

lemma find_row_upd [table_simps]:
  "(\<And>r. P (f r) = P r) \<Longrightarrow> find_row P (upd_rows Q f rows) =
     map_option (\<lambda>r. if Q r then f r else r) (find_row P rows)"
  by (induction rows) auto

lemma length_upd_rows [table_simps]: "length (upd_rows P f rows) = length rows"
  by (simp add: upd_rows_def)

lemma map_upd_rows [table_simps]:
  "(\<And>r. k (f r) = k r) \<Longrightarrow> map k (upd_rows P f rows) = map k rows"
  by (induction rows) auto

lemma set_upd_rows:
  "set (upd_rows P f rows) = (\<lambda>r. if P r then f r else r) ` set rows"
  by (simp add: upd_rows_def)

lemma upd_rows_append [table_simps]: "upd_rows P f (xs @ ys) = upd_rows P f xs @ upd_rows P f ys"
  by (simp add: upd_rows_def)

lemma upd_rows_idle [table_simps]: "(\<And>r. r \<in> set rows \<Longrightarrow> \<not> P r) \<Longrightarrow> upd_rows P f rows = rows"
  by (induction rows) auto

lemma set_del_rows [table_simps]: "set (del_rows P rows) = {r \<in> set rows. \<not> P r}"
  by (simp add: del_rows_def)

lemma set_order_by [table_simps]: "set (order_by key rows) = set rows"
  by (simp add: order_by_def)

lemma sorted_order_by: "sorted (map key (order_by key rows))"
  by (simp add: order_by_def)

lemma length_order_by [table_simps]: "length (order_by key rows) = length rows"
  by (simp add: order_by_def)

lemma order_by_sorted: "sorted (map key rows) \<Longrightarrow> order_by key rows = rows"
  by (simp add: order_by_def sorted_sort_id sort_key_id_if_sorted)

lemma first_order_desc_max:
  "first_row (order_desc key rows) = Some r \<Longrightarrow>
     r \<in> set rows \<and> (\<forall>x \<in> set rows. key x \<le> key r)"
proof -
  assume h: "first_row (order_desc key rows) = Some r"
  then obtain rs where rs: "order_desc key rows = r # rs"
    by (auto simp: first_row_def split: list.splits)
  have st: "sorted (map (\<lambda>r. - key r) (r # rs))"
    using rs by (metis order_desc_def sorted_sort_key)
  have "set (r # rs) = set rows"
    using rs by (metis order_desc_def set_sort)
  with st show ?thesis by auto
qed

subsection \<open>The interface of a keyed table\<close>

text \<open>
  What a client of a keyed table relies on: a primary-key lookup that finds inserted rows and
  an update that replaces exactly one row. The laws are stated for the lookup only, so that a
  client never looks at the order of the rows.
\<close>

locale keyed_table =
  fixes key :: "'r \<Rightarrow> 'k"
    and get :: "'k \<Rightarrow> 'r list \<Rightarrow> 'r option"
    and ins :: "'r \<Rightarrow> 'r list \<Rightarrow> 'r list"
    and upd :: "'k \<Rightarrow> ('r \<Rightarrow> 'r) \<Rightarrow> 'r list \<Rightarrow> 'r list"
  assumes get_key: "get k t = Some r \<Longrightarrow> key r = k"
    and get_ins: "get k (ins r t) =
      (case get k t of Some r' \<Rightarrow> Some r' | None \<Rightarrow> if key r = k then Some r else None)"
    and get_upd: "(\<And>r. key (f r) = key r) \<Longrightarrow>
      get k (upd k' f t) = (if k = k' then map_option f (get k t) else get k t)"
begin

lemma get_ins_fresh: "get (key r) t = None \<Longrightarrow> get (key r) (ins r t) = Some r"
  by (simp add: get_ins)

lemma get_ins_other: "key r \<noteq> k \<Longrightarrow> get k (ins r t) = get k t"
  by (simp add: get_ins split: option.splits)

lemma get_upd_same:
  assumes "\<And>r. key (f r) = key r" and "get k t = Some r"
  shows "get k (upd k f t) = Some (f r)"
  using get_upd [OF assms(1), of k k t] assms(2) by simp

lemma get_upd_other:
  assumes "\<And>r. key (f r) = key r" and "k \<noteq> k'"
  shows "get k (upd k' f t) = get k t"
  using get_upd [OF assms(1), of k k' t] assms(2) by simp

lemma upd_comm:
  assumes f: "\<And>r. key (f r) = key r" and g: "\<And>r. key (g r) = key r" and ne: "k \<noteq> k'"
  shows "get j (upd k f (upd k' g t)) = get j (upd k' g (upd k f t))"
  using get_upd [OF f] get_upd [OF g] ne by simp

end

definition get_by :: "('r \<Rightarrow> 'k) \<Rightarrow> 'k \<Rightarrow> 'r list \<Rightarrow> 'r option" where
  "get_by key k rows = find_row (\<lambda>r. key r = k) rows"

definition add_row :: "'r \<Rightarrow> 'r list \<Rightarrow> 'r list" where
  "add_row r rows = rows @ [r]"

definition upd_by :: "('r \<Rightarrow> 'k) \<Rightarrow> 'k \<Rightarrow> ('r \<Rightarrow> 'r) \<Rightarrow> 'r list \<Rightarrow> 'r list" where
  "upd_by key k f rows = upd_rows (\<lambda>r. key r = k) f rows"

lemma get_by_code [simp]:
  "get_by key k [] = None"
  "get_by key k (r # rows) = (if key r = k then Some r else get_by key k rows)"
  by (simp_all add: get_by_def)

lemma upd_by_code [simp]:
  "upd_by key k f [] = []"
  "upd_by key k f (r # rows) = (if key r = k then f r else r) # upd_by key k f rows"
  by (simp_all add: upd_by_def)

interpretation table: keyed_table key "get_by key" add_row "upd_by key" for key
proof unfold_locales
  fix k t r assume "get_by key k t = Some r"
  then show "key r = k" by (auto simp: get_by_def dest: find_row_Some)
next
  fix k r t
  show "get_by key k (add_row r t) =
      (case get_by key k t of Some r' \<Rightarrow> Some r' | None \<Rightarrow> if key r = k then Some r else None)"
    by (induction t) (auto simp: add_row_def)
next
  fix f :: "'a \<Rightarrow> 'a" and k k' t
  assume "\<And>r. key (f r) = key r"
  then show "get_by key k (upd_by key k' f t) =
      (if k = k' then map_option f (get_by key k t) else get_by key k t)"
    by (induction t) auto
qed

lemma get_by_Some: "get_by key k rows = Some r \<Longrightarrow> r \<in> set rows \<and> key r = k"
  by (auto simp: get_by_def dest: find_row_Some)

lemma get_by_None: "get_by key k rows = None \<longleftrightarrow> k \<notin> key ` set rows"
  by (auto simp: get_by_def find_row_None)

lemma get_by_distinct:
  "distinct (map key rows) \<Longrightarrow> r \<in> set rows \<Longrightarrow> get_by key (key r) rows = Some r"
  by (induction rows) (auto simp: rev_image_eqI)

lemma set_upd_by:
  "set (upd_by key k f rows) = (\<lambda>r. if key r = k then f r else r) ` set rows"
  by (simp add: upd_by_def set_upd_rows)

lemma map_upd_by [table_simps]:
  "(\<And>r. g (f r) = g r) \<Longrightarrow> map g (upd_by key k f rows) = map g rows"
  by (simp add: upd_by_def map_upd_rows)

lemma in_upd_by: "x \<in> set (upd_by key k f rows) \<longleftrightarrow>
    (\<exists>r \<in> set rows. x = (if key r = k then f r else r))"
  by (induction rows) auto

lemma ball_upd_by [table_simps]: "(\<forall>x \<in> set (upd_by key k f rows). P x) \<longleftrightarrow>
    (\<forall>r \<in> set rows. P (if key r = k then f r else r))"
  by (induction rows) auto

lemma ball_upd_rows [table_simps]: "(\<forall>x \<in> set (upd_rows Q f rows). P x) \<longleftrightarrow>
    (\<forall>r \<in> set rows. P (if Q r then f r else r))"
  by (induction rows) auto

lemma image_upd_by [table_simps]:
  "(\<And>r. g (f r) = g r) \<Longrightarrow> g ` set (upd_by key k f rows) = g ` set rows"
  by (metis list.set_map map_upd_by)

lemma image_upd_rows [table_simps]:
  "(\<And>r. g (f r) = g r) \<Longrightarrow> g ` set (upd_rows Q f rows) = g ` set rows"
  by (metis list.set_map map_upd_rows)

lemma row_unique:
  "distinct (map key rows) \<Longrightarrow> r \<in> set rows \<Longrightarrow> r' \<in> set rows \<Longrightarrow> key r = key r' \<Longrightarrow> r = r'"
  by (metis get_by_distinct option.inject)

lemma length_upd_by [table_simps]: "length (upd_by key k f rows) = length rows"
  by (simp add: upd_by_def length_upd_rows)

lemma set_add_row [table_simps]: "set (add_row r rows) = insert r (set rows)"
  by (simp add: add_row_def)

lemma map_add_row [table_simps]: "map g (add_row r rows) = map g rows @ [g r]"
  by (simp add: add_row_def)

lemma filter_not_owner: "k \<notin> g ` set rows \<Longrightarrow> filter (\<lambda>r. g r = k) rows = []"
  by (induction rows) auto

text \<open>Counting the rows that satisfy a predicate, before and after an update.\<close>

definition count_rows :: "('r \<Rightarrow> bool) \<Rightarrow> 'r list \<Rightarrow> int" where
  "count_rows P rows = int (length (filter P rows))"

lemma count_rows_code [simp]:
  "count_rows P [] = 0"
  "count_rows P (r # rows) = (if P r then 1 else 0) + count_rows P rows"
  by (simp_all add: count_rows_def)

lemma count_rows_nonneg [simp]: "0 \<le> count_rows P rows"
  by (simp add: count_rows_def)

lemma count_add_row [table_simps]:
  "count_rows P (add_row r rows) = count_rows P rows + (if P r then 1 else 0)"
  by (simp add: add_row_def count_rows_def)

lemma upd_by_absent [table_simps]: "k \<notin> key ` set rows \<Longrightarrow> upd_by key k f rows = rows"
  by (induction rows) auto

lemma count_upd_by:
  "distinct (map key rows) \<Longrightarrow> get_by key k rows = Some r \<Longrightarrow>
   count_rows P (upd_by key k f rows) =
     count_rows P rows - (if P r then 1 else 0) + (if P (f r) then 1 else 0)"
proof (induction rows)
  case Nil
  then show ?case by simp
next
  case (Cons x rows)
  show ?case
  proof (cases "key x = k")
    case True
    with Cons.prems have "k \<notin> key ` set rows" and "x = r" by auto
    with True show ?thesis by (simp add: upd_by_absent)
  next
    case False
    with Cons show ?thesis by simp
  qed
qed

lemma count_upd_rows:
  "count_rows P (upd_rows Q f rows) =
     count_rows (\<lambda>r. \<not> Q r \<and> P r) rows + count_rows (\<lambda>r. Q r \<and> P (f r)) rows"
  by (induction rows) auto

lemma count_rows_split:
  "count_rows P rows = count_rows (\<lambda>r. \<not> Q r \<and> P r) rows + count_rows (\<lambda>r. Q r \<and> P r) rows"
  by (induction rows) auto

lemma count_rows_zero: "(\<And>r. r \<in> set rows \<Longrightarrow> \<not> P r) \<Longrightarrow> count_rows P rows = 0"
  by (induction rows) auto

lemma count_rows_cong: "(\<And>r. r \<in> set rows \<Longrightarrow> P r = Q r) \<Longrightarrow> count_rows P rows = count_rows Q rows"
  by (induction rows) auto

lemma count_rows_pos: "r \<in> set rows \<Longrightarrow> P r \<Longrightarrow> 0 < count_rows P rows"
  by (induction rows) (auto simp: add_pos_nonneg)

end
