(* ===== verification/Prompt_Budget.thy ===== *)
theory Prompt_Budget
  imports Prelude "HOL-Library.AList"
begin

text \<open>
  The prompt budgets of experiment tasks: the configuration
  (\<open>models/experiment_prompt_budgets.py\<close>) and the ledger of buckets and reservations
  (\<open>utils/experiment_prompt_budgets.py\<close>).

  A dictionary is the list of its items in insertion order. Every function that reads the
  clock takes the reading as an argument (nanoseconds), and every function that draws a UUID
  takes the drawn value. A function of type \<open>ledger \<Rightarrow> (err + 'a) \<times> ledger\<close> is a whole
  transaction: the second component is what it leaves committed, also when it raises.
\<close>

subsection \<open>Configuration\<close>

datatype budget_mode = TASK_MODE | PER_QUESTION

record prompt_budget =
  bmode :: budget_mode
  blimit :: "int option"
  question_limits :: "(string \<times> int) list"

definition prompt_limit_ok :: "int \<Rightarrow> bool" where
  "prompt_limit_ok n \<longleftrightarrow> 0 \<le> n \<and> n \<le> 2147483647"

definition LLMPromptBudget_default :: prompt_budget where
  "LLMPromptBudget_default = \<lparr>bmode = TASK_MODE, blimit = Some 100, question_limits = []\<rparr>"

definition validate_mode :: "prompt_budget \<Rightarrow> err + prompt_budget" where
  "validate_mode b =
     (if bmode b = TASK_MODE then
        (if blimit b = None \<or> question_limits b \<noteq> []
         then Inl (ValueError ''A task budget requires a limit and no question limits.'')
         else Inr b)
      else if blimit b \<noteq> None \<or> question_limits b = []
      then Inl (ValueError ''A per-question budget requires question limits and a null task limit.'')
      else Inr b)"

definition model_validate_budget :: "prompt_budget \<Rightarrow> err + prompt_budget" where
  "model_validate_budget b =
     (if \<not> (case blimit b of None \<Rightarrow> True | Some n \<Rightarrow> prompt_limit_ok n)
      then Inl (FieldError ''limit'')
      else if \<not> list_all (\<lambda>(k, n). prompt_limit_ok n) (question_limits b)
      then Inl (FieldError ''question_limits'')
      else validate_mode b)"

definition default_prompt_budget :: prompt_budget where
  "default_prompt_budget = LLMPromptBudget_default"

text \<open>A dictionary comprehension: a later item overwrites the value of an equal key.\<close>

definition dict_of :: "('k \<times> 'v) list \<Rightarrow> ('k \<times> 'v) list" where
  "dict_of items = foldl (\<lambda>d (k, v). AList.update k v d) [] items"

definition remap_prompt_budget ::
    "prompt_budget option \<Rightarrow> (string \<times> string) list \<Rightarrow> err + prompt_budget" where
  "remap_prompt_budget value question_ids =
     bindE (model_validate_budget (case value of None \<Rightarrow> default_prompt_budget | Some b \<Rightarrow> b)) (\<lambda>b.
       if bmode b = PER_QUESTION then
         (if \<not> set (map fst (question_limits b)) \<subseteq> set (map fst question_ids)
          then Inl (ValueError ''Prompt budget references an unavailable question.'')
          else Inr (b\<lparr>question_limits :=
            dict_of (map (\<lambda>(k, n). (the (map_of question_ids k), n)) (question_limits b))\<rparr>))
       else Inr b)"

subsection \<open>Rows\<close>

record bucket =
  bk_id :: string
  bk_session_task_id :: string
  bk_scope_key :: string
  bk_used :: int
  bk_pending :: int

datatype reservation_status = R_PENDING | R_COMPLETED | R_RELEASED | R_EXPIRED

record reservation =
  rs_id :: string
  rs_bucket_id :: string
  rs_status :: reservation_status
  rs_lease_expires_at :: int
  rs_created_at :: int

record ledger =
  buckets :: "bucket list"
  reservations :: "reservation list"

definition LEASE_SECONDS :: int where
  "LEASE_SECONDS = 120"

definition HEARTBEAT_SECONDS :: int where
  "HEARTBEAT_SECONDS = 30"

text \<open>
  What the ledger reads of a session task. Its \<open>llm_prompt_budget\<close> is a validated model
  (on a \<open>SessionTaskModel\<close>), a stored dictionary (on a row), or absent.
\<close>

datatype raw_budget = BudgetModel prompt_budget | BudgetDict prompt_budget | NoBudget

record budget_task =
  bt_id :: string
  bt_survey :: bool
  bt_budget :: raw_budget

definition budget_config :: "budget_task \<Rightarrow> err + prompt_budget" where
  "budget_config task =
     (case bt_budget task of
        BudgetModel b \<Rightarrow> Inr b
      | BudgetDict b \<Rightarrow> model_validate_budget b
      | NoBudget \<Rightarrow> model_validate_budget LLMPromptBudget_default)"

definition resolve_scope :: "budget_task \<Rightarrow> string option \<Rightarrow> err + (string \<times> int option)" where
  "resolve_scope task question_id =
     bindE (budget_config task) (\<lambda>b.
       if bmode b = TASK_MODE then Inr (''TASK'', blimit b)
       else case question_id of
           None \<Rightarrow> Inl (http 422 ''Select a question belonging to this task before using chat.'')
         | Some q \<Rightarrow>
             (if q = [] then Inl (http 422 ''Select a question belonging to this task before using chat.'')
              else case map_of (question_limits b) q of
                  None \<Rightarrow> Inl (http 422 ''Select a question belonging to this task before using chat.'')
                | Some n \<Rightarrow> Inr (q, Some n)))"

definition bucket_id :: "string \<Rightarrow> string \<Rightarrow> string" where
  "bucket_id task_id scope = task_id @ '':'' @ scope"

subsection \<open>The ledger\<close>

definition ensure_bucket :: "string \<Rightarrow> string \<Rightarrow> ledger \<Rightarrow> ledger" where
  "ensure_bucket task_id scope d =
     (let key = bucket_id task_id scope in
      case get_by bk_id key (buckets d) of
        Some _ \<Rightarrow> d
      | None \<Rightarrow> d\<lparr>buckets := add_row
          \<lparr>bk_id = key, bk_session_task_id = task_id, bk_scope_key = scope, bk_used = 0, bk_pending = 0\<rparr>
          (buckets d)\<rparr>)"

definition expired :: "int \<Rightarrow> string \<Rightarrow> reservation \<Rightarrow> bool" where
  "expired now key r \<longleftrightarrow>
     rs_bucket_id r = key \<and> rs_status r = R_PENDING \<and> rs_lease_expires_at r \<le> now"

text \<open>
  \<open>_locked_bucket\<close>: lock the bucket, expire the overdue reservations of the bucket, and take
  them off \<open>pending\<close>. \<open>None\<close> is the missing row, on which the assignment raises.
\<close>

definition locked_bucket :: "int \<Rightarrow> string \<Rightarrow> ledger \<Rightarrow> (bucket \<times> ledger) option" where
  "locked_bucket now key d =
     (case get_by bk_id key (buckets d) of
        None \<Rightarrow> None
      | Some row \<Rightarrow>
          let n = int (length (filter (expired now key) (reservations d)));
              d' = d\<lparr>buckets := upd_by bk_id key (\<lambda>b. b\<lparr>bk_pending := bk_pending b - n\<rparr>) (buckets d),
                     reservations := upd_rows (expired now key) (\<lambda>r. r\<lparr>rs_status := R_EXPIRED\<rparr>) (reservations d)\<rparr>
          in Some (row\<lparr>bk_pending := bk_pending row - n\<rparr>, d'))"

record usage =
  us_limit :: int
  us_used :: int
  us_pending :: int
  us_remaining :: int
  us_available :: int

definition usage_value :: "int \<Rightarrow> int \<Rightarrow> int \<Rightarrow> usage" where
  "usage_value limit used pending =
     \<lparr>us_limit = limit, us_used = used, us_pending = pending,
      us_remaining = max 0 (limit - used), us_available = max 0 (limit - used - pending)\<rparr>"

definition usage_items :: "usage \<Rightarrow> (string \<times> json) list" where
  "usage_items u =
     [(''limit'', JNum (of_int (us_limit u))), (''used'', JNum (of_int (us_used u))),
      (''pending'', JNum (of_int (us_pending u))), (''remaining'', JNum (of_int (us_remaining u))),
      (''available'', JNum (of_int (us_available u)))]"

definition limit_reached :: "string \<Rightarrow> string \<Rightarrow> usage \<Rightarrow> err" where
  "limit_reached task_id scope u = HTTPException 429 (JObj
     ([(''code'', JStr ''EXPERIMENT_PROMPT_LIMIT_REACHED''),
       (''message'', JStr ''No prompts are available for this task or question.''),
       (''task_id'', JStr task_id), (''scope'', JStr scope)] @ usage_items u))"

definition task_usage ::
    "int \<Rightarrow> budget_task \<Rightarrow> ledger \<Rightarrow> err + (budget_mode \<times> (string \<times> usage) list) option" where
  "task_usage now task d =
     (if bt_survey task then Inr None
      else bindE (budget_config task) (\<lambda>budget.
        let rows = filter (\<lambda>b. bk_session_task_id b = bt_id task) (buckets d);
            pending = map rs_bucket_id (filter (\<lambda>r. rs_bucket_id r \<in> set (map bk_id rows)
                \<and> rs_status r = R_PENDING \<and> now < rs_lease_expires_at r) (reservations d));
            counts = dict_of (map (\<lambda>b. (bk_scope_key b, (bk_used b, int (count_list pending (bk_id b))))) rows);
            value = (\<lambda>key limit. case map_of counts key of
                None \<Rightarrow> usage_value limit 0 0 | Some (u, p) \<Rightarrow> usage_value limit u p)
        in if bmode budget = TASK_MODE
           then (case blimit budget of None \<Rightarrow> Inl TypeError
                 | Some limit \<Rightarrow> Inr (Some (TASK_MODE, [(''TASK'', value ''TASK'' limit)])))
           else Inr (Some (PER_QUESTION, map (\<lambda>(key, limit). (key, value key limit)) (question_limits budget)))))"

text \<open>The second transaction of \<open>reserve\<close>: \<open>t0\<close> is read in \<open>_locked_bucket\<close>, \<open>t1\<close> after it.\<close>

definition reserve_locked ::
    "string \<Rightarrow> string \<Rightarrow> int \<Rightarrow> int \<Rightarrow> int \<Rightarrow> string \<Rightarrow> ledger \<Rightarrow> (err + string) \<times> ledger" where
  "reserve_locked task_id scope limit t0 t1 rid d =
     (case locked_bucket t0 (bucket_id task_id scope) d of
        None \<Rightarrow> (Inl AttributeError, d)
      | Some (row, d1) \<Rightarrow>
          if bk_used row + bk_pending row \<ge> limit
          then (Inl (limit_reached task_id scope (usage_value limit (bk_used row) (bk_pending row))), d1)
          else (Inr rid,
            d1\<lparr>buckets := upd_by bk_id (bk_id row) (\<lambda>b. b\<lparr>bk_pending := bk_pending b + 1\<rparr>) (buckets d1),
               reservations := add_row
                 \<lparr>rs_id = rid, rs_bucket_id = bk_id row, rs_status = R_PENDING,
                  rs_lease_expires_at = t1 + LEASE_SECONDS * 10 ^ 9, rs_created_at = t1\<rparr>
                 (reservations d1)\<rparr>))"

definition reserve ::
    "budget_task \<Rightarrow> string option \<Rightarrow> int \<Rightarrow> int \<Rightarrow> string \<Rightarrow> ledger \<Rightarrow> (err + string) \<times> ledger" where
  "reserve task question_id t0 t1 rid d =
     (case resolve_scope task question_id of
        Inl e \<Rightarrow> (Inl e, d)
      | Inr (scope, limit) \<Rightarrow>
          let d0 = ensure_bucket (bt_id task) scope d in
          (case limit of None \<Rightarrow> (Inl TypeError, d0)
           | Some n \<Rightarrow> reserve_locked (bt_id task) scope n t0 t1 rid d0))"

definition renewable :: "int \<Rightarrow> string \<Rightarrow> reservation \<Rightarrow> bool" where
  "renewable now rid r \<longleftrightarrow> rs_id r = rid \<and> rs_status r = R_PENDING \<and> now < rs_lease_expires_at r"

definition renew :: "string \<Rightarrow> int \<Rightarrow> ledger \<Rightarrow> bool \<times> ledger" where
  "renew rid now d =
     (filter (renewable now rid) (reservations d) \<noteq> [],
      d\<lparr>reservations := upd_rows (renewable now rid)
          (\<lambda>r. r\<lparr>rs_lease_expires_at := now + LEASE_SECONDS * 10 ^ 9\<rparr>) (reservations d)\<rparr>)"

definition settle :: "string \<Rightarrow> bool \<Rightarrow> int \<Rightarrow> ledger \<Rightarrow> (err + bool) \<times> ledger" where
  "settle rid success t0 d =
     (case get_by rs_id rid (reservations d) of
        None \<Rightarrow> (Inr False, d)
      | Some r0 \<Rightarrow>
         (case locked_bucket t0 (rs_bucket_id r0) d of
            None \<Rightarrow> (Inl AttributeError, d)
          | Some (row, d1) \<Rightarrow>
             (case get_by rs_id rid (reservations d1) of
                None \<Rightarrow> (Inl AttributeError, d)
              | Some r \<Rightarrow>
                 if rs_status r \<noteq> R_PENDING then (Inr False, d1)
                 else (Inr True,
                   d1\<lparr>reservations := upd_by rs_id rid
                         (\<lambda>x. x\<lparr>rs_status := (if success then R_COMPLETED else R_RELEASED)\<rparr>) (reservations d1),
                      buckets := upd_by bk_id (bk_id row)
                         (\<lambda>b. b\<lparr>bk_pending := bk_pending b - 1, bk_used := bk_used b + (if success then 1 else 0)\<rparr>)
                         (buckets d1)\<rparr>))))"

end
