(* ===== verification/Prompt_Ledger.thy ===== *)
theory Prompt_Ledger
  imports Prompt_Budget
begin

text \<open>
  The ledger of prompt reservations as a state machine. A step is one committed transaction of
  \<open>utils/experiment_prompt_budgets.py\<close>: creating a bucket, reserving, renewing or settling,
  at any clock reading and in any order, so every interleaving of concurrent requests is a
  run. \<open>ledger_inv\<close> relates the counters of the buckets to the reservations; it holds in
  every reachable ledger.
\<close>

definition live :: "string \<Rightarrow> reservation \<Rightarrow> bool" where
  "live key r \<longleftrightarrow> rs_bucket_id r = key \<and> rs_status r = R_PENDING"

definition charged :: "string \<Rightarrow> reservation \<Rightarrow> bool" where
  "charged key r \<longleftrightarrow> rs_bucket_id r = key \<and> rs_status r = R_COMPLETED"

definition bucket_ok :: "(string \<Rightarrow> int) \<Rightarrow> reservation list \<Rightarrow> bucket \<Rightarrow> bool" where
  "bucket_ok cap rs b \<longleftrightarrow>
     bk_pending b = count_rows (live (bk_id b)) rs \<and>
     bk_used b = count_rows (charged (bk_id b)) rs \<and>
     bk_used b + bk_pending b \<le> cap (bk_id b)"

definition ledger_inv :: "(string \<Rightarrow> int) \<Rightarrow> ledger \<Rightarrow> bool" where
  "ledger_inv cap d \<longleftrightarrow>
     distinct (map bk_id (buckets d)) \<and>
     distinct (map rs_id (reservations d)) \<and>
     (\<forall>r \<in> set (reservations d). rs_bucket_id r \<in> bk_id ` set (buckets d)) \<and>
     (\<forall>b \<in> set (buckets d). bucket_ok cap (reservations d) b)"

inductive ledger_step :: "(string \<Rightarrow> int) \<Rightarrow> ledger \<Rightarrow> ledger \<Rightarrow> bool" for cap where
  step_ensure: "0 \<le> cap (bucket_id task scope) \<Longrightarrow> ledger_step cap d (ensure_bucket task scope d)"
| step_reserve: "rid \<notin> rs_id ` set (reservations d) \<Longrightarrow>
    ledger_step cap d (snd (reserve_locked task scope (cap (bucket_id task scope)) t0 t1 rid d))"
| step_renew: "ledger_step cap d (snd (renew rid now d))"
| step_settle: "ledger_step cap d (snd (settle rid success t0 d))"

inductive ledger_reachable :: "(string \<Rightarrow> int) \<Rightarrow> ledger \<Rightarrow> bool" for cap where
  ledger_start: "ledger_reachable cap \<lparr>buckets = [], reservations = []\<rparr>"
| ledger_next: "ledger_reachable cap d \<Longrightarrow> ledger_step cap d d' \<Longrightarrow> ledger_reachable cap d'"

inductive_cases ledger_stepE: "ledger_step cap d d'"

subsection \<open>The bucket lock\<close>

lemma live_expired: "expired now key r \<Longrightarrow> live key r"
  by (simp add: expired_def live_def)

lemma count_live_expire:
  "count_rows (live k) (upd_rows (expired now key) (\<lambda>r. r\<lparr>rs_status := R_EXPIRED\<rparr>) rs) =
     count_rows (live k) rs - (if k = key then count_rows (expired now key) rs else 0)"
  by (induction rs) (auto simp: live_def expired_def)

lemma count_charged_expire:
  "count_rows (charged k) (upd_rows (expired now key) (\<lambda>r. r\<lparr>rs_status := R_EXPIRED\<rparr>) rs) =
     count_rows (charged k) rs"
  by (induction rs) (auto simp: charged_def expired_def)

lemma locked_bucket_cases:
  assumes "locked_bucket now key d = Some (row, d1)"
  obtains row0 where "get_by bk_id key (buckets d) = Some row0"
    and "row = row0\<lparr>bk_pending := bk_pending row0 - count_rows (expired now key) (reservations d)\<rparr>"
    and "buckets d1 = upd_by bk_id key
      (\<lambda>b. b\<lparr>bk_pending := bk_pending b - count_rows (expired now key) (reservations d)\<rparr>) (buckets d)"
    and "reservations d1 = upd_rows (expired now key) (\<lambda>r. r\<lparr>rs_status := R_EXPIRED\<rparr>) (reservations d)"
    and "bk_id row = key"
  using assms
  by (auto simp: locked_bucket_def count_rows_def Let_def split: option.splits dest: get_by_Some)

lemma bucket_ok_expire:
  assumes "bucket_ok cap rs b"
  shows "bucket_ok cap (upd_rows (expired now key) (\<lambda>r. r\<lparr>rs_status := R_EXPIRED\<rparr>) rs)
    (if bk_id b = key then b\<lparr>bk_pending := bk_pending b - count_rows (expired now key) rs\<rparr> else b)"
  using assms count_rows_nonneg [of "expired now key" rs]
  by (auto simp: bucket_ok_def count_live_expire count_charged_expire simp del: count_rows_nonneg)

lemma locked_bucket_inv:
  assumes inv: "ledger_inv cap d" and lock: "locked_bucket now key d = Some (row, d1)"
  shows "ledger_inv cap d1" and "row \<in> set (buckets d1)" and "bk_id row = key"
    and "map rs_id (reservations d1) = map rs_id (reservations d)"
proof -
  obtain row0 where get: "get_by bk_id key (buckets d) = Some row0"
    and row: "row = row0\<lparr>bk_pending := bk_pending row0 - count_rows (expired now key) (reservations d)\<rparr>"
    and bs: "buckets d1 = upd_by bk_id key
      (\<lambda>b. b\<lparr>bk_pending := bk_pending b - count_rows (expired now key) (reservations d)\<rparr>) (buckets d)"
    and rs: "reservations d1 = upd_rows (expired now key) (\<lambda>r. r\<lparr>rs_status := R_EXPIRED\<rparr>) (reservations d)"
    and key: "bk_id row = key"
    using lock by (rule locked_bucket_cases)
  show "bk_id row = key" by (rule key)
  show "map rs_id (reservations d1) = map rs_id (reservations d)"
    by (simp add: rs map_upd_rows)
  show "row \<in> set (buckets d1)"
    using get_by_Some [OF get] by (auto simp: bs set_upd_by row image_iff)
  have ids: "map bk_id (buckets d1) = map bk_id (buckets d)"
    by (simp add: bs map_upd_by)
  have "bucket_ok cap (reservations d1)
      (if bk_id b = key then b\<lparr>bk_pending := bk_pending b - count_rows (expired now key) (reservations d)\<rparr> else b)"
    if "b \<in> set (buckets d)" for b
    unfolding rs using inv that by (intro bucket_ok_expire) (simp add: ledger_inv_def)
  then have "\<forall>b \<in> set (buckets d1). bucket_ok cap (reservations d1) b"
    by (simp add: bs ball_upd_by)
  moreover have "\<forall>r \<in> set (reservations d1). rs_bucket_id r \<in> bk_id ` set (buckets d1)"
    using inv by (auto simp: ledger_inv_def bs rs table_simps)
  ultimately show "ledger_inv cap d1"
    using inv by (simp add: ledger_inv_def ids rs map_upd_rows)
qed

subsection \<open>Every transaction keeps the invariant\<close>

lemma ensure_bucket_inv:
  assumes inv: "ledger_inv cap d" and cap: "0 \<le> cap (bucket_id task scope)"
  shows "ledger_inv cap (ensure_bucket task scope d)"
proof (cases "get_by bk_id (bucket_id task scope) (buckets d)")
  case None
  then have fresh: "bucket_id task scope \<notin> bk_id ` set (buckets d)"
    by (simp add: get_by_None)
  then have no: "\<And>r. r \<in> set (reservations d) \<Longrightarrow> rs_bucket_id r \<noteq> bucket_id task scope"
    using inv fresh by (force simp: ledger_inv_def)
  have "count_rows (live (bucket_id task scope)) (reservations d) = 0"
    and "count_rows (charged (bucket_id task scope)) (reservations d) = 0"
    using no by (auto intro!: count_rows_zero simp: live_def charged_def)
  with inv cap fresh None show ?thesis
    by (auto simp: ensure_bucket_def Let_def ledger_inv_def bucket_ok_def table_simps)
qed (use inv in \<open>simp add: ensure_bucket_def\<close>)

lemma reserve_locked_inv:
  assumes inv: "ledger_inv cap d" and fresh: "rid \<notin> rs_id ` set (reservations d)"
  shows "ledger_inv cap (snd (reserve_locked task scope (cap (bucket_id task scope)) t0 t1 rid d))"
proof (cases "locked_bucket t0 (bucket_id task scope) d")
  case None
  then show ?thesis using inv by (simp add: reserve_locked_def)
next
  case (Some p)
  obtain row d1 where p: "p = (row, d1)" by (cases p)
  note lock = Some [unfolded p]
  note facts = locked_bucket_inv [OF inv lock]
  let ?key = "bucket_id task scope"
  show ?thesis
  proof (cases "bk_used row + bk_pending row \<ge> cap ?key")
    case True
    with lock facts show ?thesis by (simp add: reserve_locked_def)
  next
    case False
    define new where "new = \<lparr>rs_id = rid, rs_bucket_id = ?key, rs_status = R_PENDING,
      rs_lease_expires_at = t1 + LEASE_SECONDS * 10 ^ 9, rs_created_at = t1\<rparr>"
    define d2 where "d2 = d1\<lparr>buckets := upd_by bk_id ?key (\<lambda>b. b\<lparr>bk_pending := bk_pending b + 1\<rparr>) (buckets d1),
      reservations := add_row new (reservations d1)\<rparr>"
    have res: "reserve_locked task scope (cap ?key) t0 t1 rid d = (Inr rid, d2)"
      using False lock facts(3) by (simp add: reserve_locked_def d2_def new_def)
    have ok: "bucket_ok cap (reservations d2) b" if b: "b \<in> set (buckets d2)" for b
    proof -
      from b obtain b0 where b0: "b0 \<in> set (buckets d1)"
        and eq: "b = (if bk_id b0 = ?key then b0\<lparr>bk_pending := bk_pending b0 + 1\<rparr> else b0)"
        by (auto simp: d2_def in_upd_by)
      have ok0: "bucket_ok cap (reservations d1) b0"
        using facts(1) b0 by (simp add: ledger_inv_def)
      show ?thesis
      proof (cases "bk_id b0 = ?key")
        case True
        have "b0 = row"
          using facts b0 True by (metis ledger_inv_def row_unique)
        with ok0 False True eq show ?thesis
          by (simp add: bucket_ok_def d2_def new_def table_simps live_def charged_def)
      next
        case False
        with ok0 eq show ?thesis
          by (auto simp: bucket_ok_def d2_def new_def table_simps live_def charged_def)
      qed
    qed
    have "map bk_id (buckets d2) = map bk_id (buckets d1)"
      by (simp add: d2_def map_upd_by)
    have "?key \<in> bk_id ` set (buckets d1)"
      using facts(2,3) by (metis imageI)
    moreover have "rid \<notin> rs_id ` set (reservations d1)"
      using fresh facts(4) by (metis list.set_map)
    ultimately have "ledger_inv cap d2"
      using facts(1) ok \<open>map bk_id (buckets d2) = map bk_id (buckets d1)\<close>
      by (auto simp: ledger_inv_def d2_def new_def table_simps)
    with res show ?thesis by simp
  qed
qed

lemma renew_inv:
  assumes "ledger_inv cap d"
  shows "ledger_inv cap (snd (renew rid now d))"
proof -
  let ?f = "\<lambda>r. r\<lparr>rs_lease_expires_at := now + LEASE_SECONDS * 10 ^ 9\<rparr>"
  have "count_rows (live k) (upd_rows (renewable now rid) ?f rs) = count_rows (live k) rs"
    and "count_rows (charged k) (upd_rows (renewable now rid) ?f rs) = count_rows (charged k) rs"
    for k rs by (induction rs) (auto simp: live_def charged_def)
  with assms show ?thesis
    by (auto simp: renew_def ledger_inv_def bucket_ok_def table_simps)
qed

lemma settle_inv:
  assumes inv: "ledger_inv cap d"
  shows "ledger_inv cap (snd (settle rid success t0 d))"
proof (cases "get_by rs_id rid (reservations d)")
  case None
  then show ?thesis using inv by (simp add: settle_def)
next
  case (Some r0)
  show ?thesis
  proof (cases "locked_bucket t0 (rs_bucket_id r0) d")
    case None
    then show ?thesis using inv Some by (simp add: settle_def)
  next
    case lock': (Some p)
    obtain row d1 where p: "p = (row, d1)" by (cases p)
    note lock = lock' [unfolded p]
    note facts = locked_bucket_inv [OF inv lock]
    show ?thesis
    proof (cases "get_by rs_id rid (reservations d1)")
      case None
      then show ?thesis using inv Some lock by (simp add: settle_def)
    next
      case get: (Some r)
      show ?thesis
      proof (cases "rs_status r = R_PENDING")
        case False
        then show ?thesis using facts Some lock get by (simp add: settle_def)
      next
        case True
        have same: "rs_bucket_id r = bk_id row"
        proof -
          have "reservations d1 = upd_rows (expired t0 (rs_bucket_id r0)) (\<lambda>r. r\<lparr>rs_status := R_EXPIRED\<rparr>) (reservations d)"
            using lock by (rule locked_bucket_cases)
          with get have "map_option rs_bucket_id (Some r) = map_option rs_bucket_id (get_by rs_id rid (reservations d))"
            by (simp add: get_by_def find_row_upd) (auto split: if_splits)
          with Some facts(3) show ?thesis by simp
        qed
        let ?f = "\<lambda>x. x\<lparr>rs_status := (if success then R_COMPLETED else R_RELEASED)\<rparr>"
        let ?g = "\<lambda>b. b\<lparr>bk_pending := bk_pending b - 1, bk_used := bk_used b + (if success then 1 else 0)\<rparr>"
        define d2 where "d2 = d1\<lparr>reservations := upd_by rs_id rid ?f (reservations d1),
            buckets := upd_by bk_id (bk_id row) ?g (buckets d1)\<rparr>"
        have res: "settle rid success t0 d = (Inr True, d2)"
          using True Some lock get by (simp add: settle_def d2_def)
        have dist: "distinct (map rs_id (reservations d1))"
          using facts(1) by (simp add: ledger_inv_def)
        have "\<And>b. b \<in> set (buckets d2) \<Longrightarrow> bucket_ok cap (reservations d2) b"
        proof -
          fix b assume "b \<in> set (buckets d2)"
          then obtain b0 where b0: "b0 \<in> set (buckets d1)"
            and eq: "b = (if bk_id b0 = bk_id row then ?g b0 else b0)"
            by (auto simp: d2_def in_upd_by)
          have "bucket_ok cap (reservations d1) b0"
            using facts(1) b0 by (simp add: ledger_inv_def)
          then show "bucket_ok cap (reservations d2) b"
            using eq True same
            by (auto simp: bucket_ok_def d2_def count_upd_by [OF dist get] live_def charged_def)
        qed
        then have "ledger_inv cap d2"
          using facts(1) by (auto simp: ledger_inv_def d2_def table_simps)
        with res show ?thesis by simp
      qed
    qed
  qed
qed

lemma ledger_step_inv: "ledger_step cap d d' \<Longrightarrow> ledger_inv cap d \<Longrightarrow> ledger_inv cap d'"
  by (induction rule: ledger_step.induct)
     (auto intro: ensure_bucket_inv reserve_locked_inv renew_inv settle_inv)

lemma ledger_reachable_inv: "ledger_reachable cap d \<Longrightarrow> ledger_inv cap d"
proof (induction rule: ledger_reachable.induct)
  case ledger_start
  show ?case by (simp add: ledger_inv_def)
next
  case (ledger_next d d')
  then show ?case by (blast intro: ledger_step_inv)
qed

end
