(* ===== verification/Completion_Observer.thy ===== *)
theory Completion_Observer
  imports Prompt_Budget
begin

text \<open>
  \<open>CompletionObserver\<close> and \<open>BudgetRun\<close> of \<open>utils/experiment_prompt_budgets.py\<close>: watching a
  stream of server-sent events for the end of a generation, and settling the reservation when
  the response has been delivered.

  \<open>json.loads\<close> is the parameter \<open>loads\<close> (\<open>None\<close> is its \<open>ValueError\<close>). A chunk is the decoded
  text: the incremental UTF-8 decoder has already joined the bytes of a character.
\<close>

subsection \<open>Text of a stream\<close>

abbreviation CR :: char where "CR \<equiv> CHR 0x0D"

abbreviation LF :: char where "LF \<equiv> CHR 0x0A"

text \<open>\<open>buffer.replace('\r\n', '\n')\<close>\<close>

fun crlf :: "string \<Rightarrow> string" where
  "crlf [] = []"
| "crlf [c] = [c]"
| "crlf (c # c' # s) = (if c = CR \<and> c' = LF then LF # crlf s else c # crlf (c' # s))"

text \<open>\<open>buffer.split('\n\n', 1)\<close> when the separator occurs.\<close>

fun split_event :: "string \<Rightarrow> (string \<times> string) option" where
  "split_event [] = None"
| "split_event [c] = None"
| "split_event (c # c' # s) =
     (if c = LF \<and> c' = LF then Some ([], s)
      else map_option (\<lambda>(ev, rest). (c # ev, rest)) (split_event (c' # s)))"

definition line_break :: "char \<Rightarrow> bool" where
  "line_break c \<longleftrightarrow> (let n = (of_char c :: nat) in (10 \<le> n \<and> n \<le> 13) \<or> (28 \<le> n \<and> n \<le> 30) \<or> n = 133)"

text \<open>\<open>str.splitlines()\<close>: the current line is the accumulator.\<close>

fun splitlines_acc :: "string \<Rightarrow> string \<Rightarrow> string list" where
  "splitlines_acc cur [] = (if cur = [] then [] else [cur])"
| "splitlines_acc cur [c] = (if line_break c then [cur] else [cur @ [c]])"
| "splitlines_acc cur (c # c' # s) =
     (if c = CR \<and> c' = LF then cur # splitlines_acc [] s
      else if line_break c then cur # splitlines_acc [] (c' # s)
      else splitlines_acc (cur @ [c]) (c' # s))"

definition splitlines :: "string \<Rightarrow> string list" where
  "splitlines s = splitlines_acc [] s"

definition starts_with :: "string \<Rightarrow> string \<Rightarrow> bool" where
  "starts_with p s \<longleftrightarrow> take (length p) s = p"

fun join :: "string \<Rightarrow> string list \<Rightarrow> string" where
  "join sep [] = []"
| "join sep [x] = x"
| "join sep (x # y # xs) = x @ sep @ join sep (y # xs)"

definition event_data :: "string \<Rightarrow> string" where
  "event_data ev = join [LF]
     (map (\<lambda>line. dropWhile py_space (drop 5 line)) (filter (starts_with ''data:'') (splitlines ev)))"

subsection \<open>JSON payloads\<close>

fun truthy_json :: "json \<Rightarrow> bool" where
  "truthy_json JNull = False"
| "truthy_json (JBool b) = b"
| "truthy_json (JNum n) = (n \<noteq> 0)"
| "truthy_json (JStr s) = (s \<noteq> [])"
| "truthy_json (JList xs) = (xs \<noteq> [])"
| "truthy_json (JObj xs) = (xs \<noteq> [])"

text \<open>\<open>payload.get(key)\<close>, with \<open>JNull\<close> for Python's \<open>None\<close>.\<close>

definition jget :: "(string \<times> json) list \<Rightarrow> string \<Rightarrow> json" where
  "jget items key = (case map_of items key of None \<Rightarrow> JNull | Some v \<Rightarrow> v)"

definition has_finish_reason :: "json \<Rightarrow> bool" where
  "has_finish_reason choice =
     (case choice of JObj items \<Rightarrow> jget items ''finish_reason'' \<noteq> JNull | _ \<Rightarrow> False)"

text \<open>
  \<open>any(... for choice in (payload.get('choices') or []) if isinstance(choice, dict))\<close>. The
  keys of an object and the characters of a string are strings, so they pass no test; a number
  or \<open>True\<close> is not iterable.
\<close>

definition any_finished :: "json \<Rightarrow> err + bool" where
  "any_finished choices =
     (if \<not> truthy_json choices then Inr False
      else case choices of
          JList xs \<Rightarrow> Inr (list_ex has_finish_reason xs)
        | JObj _ \<Rightarrow> Inr False
        | JStr _ \<Rightarrow> Inr False
        | _ \<Rightarrow> Inl TypeError)"

record observer =
  ob_buffer :: string
  ob_completed :: bool
  ob_failed :: bool

definition new_observer :: observer where
  "new_observer = \<lparr>ob_buffer = [], ob_completed = False, ob_failed = False\<rparr>"

definition payload_failed :: "(string \<times> json) list \<Rightarrow> bool" where
  "payload_failed p \<longleftrightarrow> truthy_json (jget p ''error'') \<or>
     jget p ''type'' \<in> {JStr ''error'', JStr ''response.failed'', JStr ''response.cancelled''}"

definition payload_completed :: "(string \<times> json) list \<Rightarrow> err + bool" where
  "payload_completed p =
     (if jget p ''done'' = JBool True \<or>
         jget p ''type'' \<in> {JStr ''response.completed'', JStr ''response.incomplete'', JStr ''message_stop''}
      then Inr True else any_finished (jget p ''choices''))"

text \<open>The body of the loop of \<open>feed\<close>, for one complete event.\<close>

definition on_event :: "(string \<Rightarrow> json option) \<Rightarrow> string \<Rightarrow> observer \<Rightarrow> err + observer" where
  "on_event loads ev ob =
     (let data = event_data ev in
      if data = ''[DONE]'' then Inr (ob\<lparr>ob_completed := True\<rparr>)
      else if data = [] then Inr ob
      else case loads data of
          Some (JObj p) \<Rightarrow>
            let ob' = (if payload_failed p then ob\<lparr>ob_failed := True\<rparr> else ob)
            in bindE (payload_completed p) (\<lambda>c. Inr (if c then ob'\<lparr>ob_completed := True\<rparr> else ob'))
        | _ \<Rightarrow> Inr ob)"

lemma split_event_shorter: "split_event s = Some (ev, rest) \<Longrightarrow> length rest < length s"
proof (induction s arbitrary: ev rest rule: split_event.induct)
  case (3 c c' s)
  show ?case
  proof (cases "c = LF \<and> c' = LF")
    case False
    with "3.prems" obtain ev' where "split_event (c' # s) = Some (ev', rest)"
      by (auto simp del: split_event.simps(3) simp: split_event.simps(3) [of c c' s])
    from "3.IH" [OF False this] show ?thesis by simp
  qed (use "3.prems" in simp)
qed simp_all

function drain :: "(string \<Rightarrow> json option) \<Rightarrow> observer \<Rightarrow> err + observer" where
  "drain loads ob =
     (case split_event (ob_buffer ob) of
        None \<Rightarrow> Inr ob
      | Some (ev, rest) \<Rightarrow>
          (case on_event loads ev ob of
             Inl e \<Rightarrow> Inl e
           | Inr ob' \<Rightarrow> drain loads (ob'\<lparr>ob_buffer := rest\<rparr>)))"
  by pat_completeness auto
termination
  by (relation "measure (\<lambda>(loads, ob). length (ob_buffer ob))") (auto dest: split_event_shorter)

declare drain.simps [simp del]

definition feed :: "(string \<Rightarrow> json option) \<Rightarrow> string \<Rightarrow> observer \<Rightarrow> err + observer" where
  "feed loads chunk ob = drain loads (ob\<lparr>ob_buffer := crlf (ob_buffer ob @ chunk)\<rparr>)"

subsection \<open>A stream of events as a reference\<close>

text \<open>The events of a text and what is left of it; \<open>drain\<close> handles them one after the other.\<close>

function events :: "string \<Rightarrow> string list \<times> string" where
  "events s =
     (case split_event s of
        None \<Rightarrow> ([], s)
      | Some (ev, rest) \<Rightarrow> (case events rest of (evs, r) \<Rightarrow> (ev # evs, r)))"
  by pat_completeness auto
termination
  by (relation "measure length") (auto dest: split_event_shorter)

declare events.simps [simp del]

fun handle_events :: "(string \<Rightarrow> json option) \<Rightarrow> string list \<Rightarrow> observer \<Rightarrow> err + observer" where
  "handle_events loads [] ob = Inr ob"
| "handle_events loads (ev # evs) ob =
     (case on_event loads ev ob of Inl e \<Rightarrow> Inl e | Inr ob' \<Rightarrow> handle_events loads evs ob')"

lemma on_event_buffer:
  "on_event loads ev (ob\<lparr>ob_buffer := b\<rparr>) =
     (case on_event loads ev ob of Inl e \<Rightarrow> Inl e | Inr ob' \<Rightarrow> Inr (ob'\<lparr>ob_buffer := b\<rparr>))"
  by (cases ob) (auto simp: on_event_def Let_def bindE_def split: option.splits json.splits sum.splits)

lemma handle_events_buffer:
  "handle_events loads evs (ob\<lparr>ob_buffer := b\<rparr>) =
     (case handle_events loads evs ob of Inl e \<Rightarrow> Inl e | Inr ob' \<Rightarrow> Inr (ob'\<lparr>ob_buffer := b\<rparr>))"
  by (induction evs arbitrary: ob) (auto simp: on_event_buffer split: sum.splits)

lemma handle_events_append:
  "handle_events loads (xs @ ys) ob =
     (case handle_events loads xs ob of Inl e \<Rightarrow> Inl e | Inr ob' \<Rightarrow> handle_events loads ys ob')"
  by (induction xs arbitrary: ob) (auto split: sum.splits)

lemma drain_events:
  "drain loads ob =
     (case events (ob_buffer ob) of (evs, r) \<Rightarrow>
        (case handle_events loads evs ob of Inl e \<Rightarrow> Inl e | Inr ob' \<Rightarrow> Inr (ob'\<lparr>ob_buffer := r\<rparr>)))"
proof (induction loads ob rule: drain.induct)
  case (1 loads ob)
  show ?case
  proof (cases "split_event (ob_buffer ob)")
    case None
    then show ?thesis by (simp add: drain.simps [of loads ob] events.simps [of "ob_buffer ob"])
  next
    case (Some p)
    obtain ev rest where p: "p = (ev, rest)" by (cases p)
    show ?thesis
    proof (cases "on_event loads ev ob")
      case (Inl e)
      with Some p show ?thesis
        by (simp add: drain.simps [of loads ob] events.simps [of "ob_buffer ob"] split: prod.splits)
    next
      case (Inr ob')
      from "1.IH" [OF Some [unfolded p] refl Inr]
      show ?thesis using Some p Inr
        by (auto simp: drain.simps [of loads ob] events.simps [of "ob_buffer ob"] handle_events_buffer
            split: prod.splits sum.splits)
    qed
  qed
qed

subsection \<open>Chunks\<close>

text \<open>Where the stream has no \<open>\r\r\n\<close>, it does not matter how it is cut into chunks.\<close>

fun has_crcrlf :: "string \<Rightarrow> bool" where
  "has_crcrlf (a # b # c # s) = ((a = CR \<and> b = CR \<and> c = LF) \<or> has_crcrlf (b # c # s))"
| "has_crcrlf _ = False"

fun has_crlf :: "string \<Rightarrow> bool" where
  "has_crlf (a # b # s) = ((a = CR \<and> b = LF) \<or> has_crlf (b # s))"
| "has_crlf _ = False"

lemma has_crcrlf_tl: "\<not> has_crcrlf (c # s) \<Longrightarrow> \<not> has_crcrlf s"
  by (cases "c # s" rule: has_crcrlf.cases) auto

lemma has_crlf_tl: "\<not> has_crlf (c # s) \<Longrightarrow> \<not> has_crlf s"
  by (cases "c # s" rule: has_crlf.cases) auto

lemma has_crlf_suffix: "\<not> has_crlf (p @ s) \<Longrightarrow> \<not> has_crlf s"
  by (induction p) (auto dest: has_crlf_tl)

lemma crlf_Cons: "crlf (c # s) =
    (if c = CR \<and> s \<noteq> [] \<and> hd s = LF then LF # crlf (tl s) else c # crlf s)"
  by (cases s) auto

declare crlf.simps(3) [simp del]

lemma hd_crlf: "hd (crlf (c # s)) = (if c = CR \<and> s \<noteq> [] \<and> hd s = LF then LF else c)"
  by (simp add: crlf_Cons)

lemma crlf_eq_Nil [simp]: "crlf s = [] \<longleftrightarrow> s = []"
  by (cases s) (auto simp: crlf_Cons)

lemma has_crcrlf_Cons: "has_crcrlf (c # s) \<longleftrightarrow>
    (c = CR \<and> s \<noteq> [] \<and> hd s = CR \<and> tl s \<noteq> [] \<and> hd (tl s) = LF) \<or> has_crcrlf s"
  by (cases "c # s" rule: has_crcrlf.cases) auto

lemma has_crlf_Cons: "has_crlf (c # s) \<longleftrightarrow> (c = CR \<and> s \<noteq> [] \<and> hd s = LF) \<or> has_crlf s"
  by (cases "c # s" rule: has_crlf.cases) auto

lemma crlf_no_crlf: "\<not> has_crcrlf s \<Longrightarrow> \<not> has_crlf (crlf s)"
proof (induction s rule: crlf.induct)
  case (3 c c' s)
  show ?case
  proof (cases "c = CR \<and> c' = LF")
    case True
    with 3 show ?thesis by (simp add: crlf_Cons [of CR] has_crlf_Cons has_crcrlf_Cons)
  next
    case False
    have "\<not> has_crcrlf (c' # s)" using 3(3) by (simp add: has_crcrlf_Cons)
    with 3(2) False have "\<not> has_crlf (crlf (c' # s))" by blast
    moreover have "\<not> (c = CR \<and> hd (crlf (c' # s)) = LF)"
      using False 3(3) by (auto simp: hd_crlf has_crcrlf_Cons)
    ultimately show ?thesis using False by (auto simp: crlf_Cons [of c] has_crlf_Cons)
  qed
qed simp_all

lemma crlf_crlf_append: "\<not> has_crcrlf (s @ b) \<Longrightarrow> crlf (crlf s @ b) = crlf (s @ b)"
proof (induction s rule: crlf.induct)
  case (3 c c' s)
  show ?case
  proof (cases "c = CR \<and> c' = LF")
    case True
    with 3 show ?thesis by (simp add: crlf_Cons [of CR] crlf_Cons [of LF] has_crcrlf_Cons)
  next
    case False
    have "\<not> has_crcrlf ((c' # s) @ b)" using 3(3) by (simp add: has_crcrlf_Cons)
    with 3(2) False have IH: "crlf (crlf (c' # s) @ b) = crlf ((c' # s) @ b)" by blast
    have "\<not> (c = CR \<and> hd (crlf (c' # s)) = LF)"
      using False 3(3) by (auto simp: hd_crlf has_crcrlf_Cons)
    with IH False show ?thesis by (auto simp: crlf_Cons [of c] crlf_eq_Nil)
  qed
qed simp_all

lemma crlf_append:
  "\<not> has_crlf x \<Longrightarrow> crlf (x @ b) =
     (if x \<noteq> [] \<and> last x = CR \<and> b \<noteq> [] \<and> hd b = LF then butlast x @ LF # crlf (tl b) else x @ crlf b)"
proof (induction x)
  case Nil
  then show ?case by simp
next
  case (Cons c x)
  have "\<not> has_crlf x" and c: "\<not> (c = CR \<and> x \<noteq> [] \<and> hd x = LF)"
    using Cons.prems by (auto simp: has_crlf_Cons)
  with Cons.IH show ?case by (cases "x = []") (auto simp: crlf_Cons)
qed

lemma split_event_append:
  "split_event s = Some (ev, rest) \<Longrightarrow> split_event (s @ t) = Some (ev, rest @ t)"
  by (induction s arbitrary: ev rest rule: split_event.induct) (auto split: if_splits)

lemma split_event_snoc_CR: "split_event s = None \<Longrightarrow> split_event (s @ [CR]) = None"
  by (induction s rule: split_event.induct) (auto split: if_splits)

lemma split_event_suffix: "split_event s = Some (ev, rest) \<Longrightarrow> \<exists>p. s = p @ rest"
proof (induction s arbitrary: ev rest rule: split_event.induct)
  case (3 c c' s)
  show ?case
  proof (cases "c = LF \<and> c' = LF")
    case True
    with 3(2) show ?thesis by (intro exI [of _ "[c, c']"]) simp
  next
    case False
    with 3(2) obtain ev' where "split_event (c' # s) = Some (ev', rest)" by auto
    from 3(1) [OF False this] obtain p where "c' # s = p @ rest" ..
    then show ?thesis by (intro exI [of _ "c # p"]) simp
  qed
qed simp_all

lemma events_append:
  "events (s @ t) = (case events s of (es, r) \<Rightarrow> (case events (r @ t) of (es', r') \<Rightarrow> (es @ es', r')))"
proof (induction s rule: events.induct)
  case (1 s)
  show ?case
  proof (cases "split_event s")
    case None
    then show ?thesis by (simp add: events.simps [of s] split: prod.splits)
  next
    case (Some p)
    obtain ev rest where p: "p = (ev, rest)" by (cases p)
    from "1.IH" [OF Some [unfolded p] refl] show ?thesis
      using Some p split_event_append [of s ev rest t]
      by (simp add: events.simps [of s] events.simps [of "s @ t"] split: prod.splits)
  qed
qed

lemma events_rest: "events s = (es, r) \<Longrightarrow> split_event r = None \<and> (\<exists>p. s = p @ r)"
proof (induction s arbitrary: es rule: events.induct)
  case (1 s)
  show ?case
  proof (cases "split_event s")
    case None
    with "1.prems" show ?thesis by (simp add: events.simps [of s])
  next
    case (Some p)
    obtain ev rest where p: "p = (ev, rest)" by (cases p)
    with "1.prems" Some obtain es' where "events rest = (es', r)"
      by (auto simp: events.simps [of s] split: prod.splits)
    from "1.IH" [OF Some [unfolded p] refl this]
    obtain q where r: "split_event r = None" and q: "rest = q @ r" by blast
    obtain p' where "s = p' @ rest" using split_event_suffix [OF Some [unfolded p]] by blast
    with q have "s = (p' @ q) @ r" by simp
    with r show ?thesis by blast
  qed
qed

lemma events_crlf_append:
  assumes x: "\<not> has_crlf x" and ev: "events x = (es, r)" and ev2: "events (crlf (r @ b)) = (es2, r2)"
  shows "events (crlf (x @ b)) = (es @ es2, r2)"
proof -
  obtain p where p: "x = p @ r" using events_rest [OF ev] by blast
  have r: "\<not> has_crlf r" using x p by (auto dest: has_crlf_suffix)
  show ?thesis
  proof (cases "x \<noteq> [] \<and> last x = CR \<and> b \<noteq> [] \<and> hd b = LF")
    case False
    then have "crlf (x @ b) = x @ crlf b" using crlf_append [OF x] by auto
    moreover have "crlf (r @ b) = r @ crlf b"
      using crlf_append [OF r] False p by auto
    ultimately show ?thesis using ev ev2 by (simp add: events_append [of x "crlf b"])
  next
    case True
    define w where "w = butlast x"
    have w: "x = w @ [CR]" using True by (metis append_butlast_last_id w_def)
    obtain es' v where v: "events w = (es', v)" by (cases "events w")
    have "split_event (v @ [CR]) = None"
      using events_rest [OF v] by (simp add: split_event_snoc_CR)
    then have "events (v @ [CR]) = ([], v @ [CR])" by (simp add: events.simps)
    with ev v w have rv: "r = v @ [CR]" and es: "es = es'"
      by (auto simp: events_append [of w "[CR]"])
    have "crlf (x @ b) = w @ LF # crlf (tl b)" using crlf_append [OF x] True by (auto simp: w_def)
    moreover have "crlf (r @ b) = v @ LF # crlf (tl b)"
      using crlf_append [OF r] True by (auto simp: rv)
    ultimately show ?thesis using v ev2 es by (simp add: events_append [of w "LF # crlf (tl b)"])
  qed
qed

lemma feed_events:
  "feed loads a ob =
     (case events (crlf (ob_buffer ob @ a)) of (evs, r) \<Rightarrow>
        (case handle_events loads evs ob of Inl e \<Rightarrow> Inl e | Inr ob' \<Rightarrow> Inr (ob'\<lparr>ob_buffer := r\<rparr>)))"
  by (auto simp: feed_def drain_events handle_events_buffer split: prod.splits sum.splits)

lemma feed_append:
  assumes "\<not> has_crcrlf (ob_buffer ob @ a @ b)"
  shows "bindE (feed loads a ob) (feed loads b) = feed loads (a @ b) ob"
proof -
  have pre: "\<not> has_crcrlf ((ob_buffer ob @ a) @ b) \<Longrightarrow> \<not> has_crcrlf (ob_buffer ob @ a)"
  proof -
    have "has_crcrlf s \<Longrightarrow> has_crcrlf (s @ t)" for s t
      by (induction s rule: has_crcrlf.induct) auto
    then show "\<not> has_crcrlf ((ob_buffer ob @ a) @ b) \<Longrightarrow> \<not> has_crcrlf (ob_buffer ob @ a)" by blast
  qed
  define x where "x = crlf (ob_buffer ob @ a)"
  obtain es r where ev: "events x = (es, r)" by (cases "events x")
  obtain es2 r2 where ev2: "events (crlf (r @ b)) = (es2, r2)" by (cases "events (crlf (r @ b))")
  have "\<not> has_crlf x" unfolding x_def using assms pre by (intro crlf_no_crlf) simp
  from events_crlf_append [OF this ev ev2]
  have "events (crlf (ob_buffer ob @ a @ b)) = (es @ es2, r2)"
    unfolding x_def using assms crlf_crlf_append [of "ob_buffer ob @ a" b] by simp
  with ev ev2 show ?thesis
    by (auto simp: feed_events x_def handle_events_append handle_events_buffer split: sum.splits)
qed

text \<open>Feeding a list of chunks one after the other.\<close>

fun feed_all :: "(string \<Rightarrow> json option) \<Rightarrow> string list \<Rightarrow> observer \<Rightarrow> err + observer" where
  "feed_all loads [] ob = Inr ob"
| "feed_all loads (c # cs) ob = bindE (feed loads c ob) (feed_all loads cs)"

end
