(* ===== verification/Prompt_Accounting.thy ===== *)
theory Prompt_Accounting
  imports Prompt_Ledger
begin

text \<open>
  What the ledger promises to the requests that use it: a reservation is granted exactly when
  the published usage shows an available prompt, a settled reservation charges its bucket at
  most once, and a reservation whose lease has run out is never charged. The promises a
  request relies on are the locale \<open>charge_ledger\<close>, interpreted on the model's \<open>settle\<close>.
\<close>

subsection \<open>Charges\<close>

definition used_of :: "ledger \<Rightarrow> string \<Rightarrow> int" where
  "used_of d k = (case get_by bk_id k (buckets d) of None \<Rightarrow> 0 | Some b \<Rightarrow> bk_used b)"

definition owner_of :: "ledger \<Rightarrow> string \<Rightarrow> string option" where
  "owner_of d rid = map_option rs_bucket_id (get_by rs_id rid (reservations d))"

definition is_open :: "ledger \<Rightarrow> string \<Rightarrow> bool" where
  "is_open d rid \<longleftrightarrow> (\<exists>r. get_by rs_id rid (reservations d) = Some r \<and> rs_status r = R_PENDING)"

lemma get_expire:
  "get_by rs_id rid (upd_rows (expired now key) (\<lambda>r. r\<lparr>rs_status := R_EXPIRED\<rparr>) rs) =
     map_option (\<lambda>r. if expired now key r then r\<lparr>rs_status := R_EXPIRED\<rparr> else r) (get_by rs_id rid rs)"
  by (simp add: get_by_def find_row_upd)

lemma used_of_locked:
  "locked_bucket now key d = Some (row, d1) \<Longrightarrow> used_of d1 k = used_of d k"
  by (erule locked_bucket_cases) (simp add: used_of_def table.get_upd split: option.splits)

lemma settle_cases:
  assumes inv: "ledger_inv cap d"
  obtains (absent) "get_by rs_id rid (reservations d) = None" "settle rid s t d = (Inr False, d)"
  | (closed) r row d1 where "get_by rs_id rid (reservations d) = Some r"
      "locked_bucket t (rs_bucket_id r) d = Some (row, d1)"
      "rs_status r \<noteq> R_PENDING \<or> rs_lease_expires_at r \<le> t"
      "settle rid s t d = (Inr False, d1)"
  | (charge) r row d1 where "get_by rs_id rid (reservations d) = Some r"
      "rs_status r = R_PENDING" "t < rs_lease_expires_at r"
      "locked_bucket t (rs_bucket_id r) d = Some (row, d1)" "bk_id row = rs_bucket_id r"
      "get_by rs_id rid (reservations d1) = Some r"
      "settle rid s t d = (Inr True,
         d1\<lparr>reservations := upd_by rs_id rid
              (\<lambda>x. x\<lparr>rs_status := (if s then R_COMPLETED else R_RELEASED)\<rparr>) (reservations d1),
            buckets := upd_by bk_id (rs_bucket_id r)
              (\<lambda>b. b\<lparr>bk_pending := bk_pending b - 1, bk_used := bk_used b + (if s then 1 else 0)\<rparr>)
              (buckets d1)\<rparr>)"
proof (cases "get_by rs_id rid (reservations d)")
  case None
  with absent show ?thesis by (simp add: settle_def)
next
  case (Some r)
  then have "rs_bucket_id r \<in> bk_id ` set (buckets d)"
    using inv by (auto simp: ledger_inv_def dest: get_by_Some)
  then obtain row d1 where lock: "locked_bucket t (rs_bucket_id r) d = Some (row, d1)"
    by (cases "get_by bk_id (rs_bucket_id r) (buckets d)")
       (auto simp: locked_bucket_def get_by_None Let_def)
  have rs: "reservations d1 = upd_rows (expired t (rs_bucket_id r)) (\<lambda>r. r\<lparr>rs_status := R_EXPIRED\<rparr>) (reservations d)"
    using lock by (rule locked_bucket_cases)
  have key: "bk_id row = rs_bucket_id r"
    using lock by (rule locked_bucket_cases)
  show ?thesis
  proof (cases "rs_status r \<noteq> R_PENDING \<or> rs_lease_expires_at r \<le> t")
    case True
    define r' where "r' = (if expired t (rs_bucket_id r) r then r\<lparr>rs_status := R_EXPIRED\<rparr> else r)"
    have get: "get_by rs_id rid (reservations d1) = Some r'"
      by (simp add: rs get_expire Some r'_def)
    moreover have "rs_status r' \<noteq> R_PENDING"
      using True by (auto simp: r'_def expired_def)
    ultimately have "settle rid s t d = (Inr False, d1)"
      using Some lock by (simp add: settle_def)
    then show ?thesis by (rule closed [OF Some lock True])
  next
    case False
    then have get: "get_by rs_id rid (reservations d1) = Some r"
      by (simp add: rs get_expire Some expired_def)
    have pend: "rs_status r = R_PENDING" and later: "t < rs_lease_expires_at r"
      using False by auto
    show ?thesis
      by (rule charge [OF Some pend later lock key get])
         (simp add: settle_def Some lock get pend key)
  qed
qed

lemma settle_total:
  assumes "ledger_inv cap d"
  shows "\<exists>ok. fst (settle rid s t d) = Inr ok"
  by (rule settle_cases [OF assms, of rid s t]) auto

lemma used_of_charge:
  assumes "get_by bk_id k (buckets d) \<noteq> None"
  shows "used_of (d\<lparr>reservations := rs, buckets := upd_by bk_id k
      (\<lambda>b. b\<lparr>bk_pending := bk_pending b - 1, bk_used := bk_used b + n\<rparr>) (buckets d)\<rparr>) j =
    used_of d j + (if j = k then n else 0)"
  using assms by (auto simp: used_of_def table.get_upd split: option.splits)

lemma settle_used:
  assumes inv: "ledger_inv cap d" and st: "settle rid s t d = (Inr ok, d')"
  shows "used_of d' k = used_of d k + (if ok \<and> s \<and> owner_of d rid = Some k then 1 else 0)"
proof (rule settle_cases [OF inv, of rid s t])
  assume "get_by rs_id rid (reservations d) = None" "settle rid s t d = (Inr False, d)"
  with st show ?thesis by simp
next
  fix r row d1
  assume "locked_bucket t (rs_bucket_id r) d = Some (row, d1)" "settle rid s t d = (Inr False, d1)"
  with st show ?thesis by (simp add: used_of_locked)
next
  fix r row d1
  assume get: "get_by rs_id rid (reservations d) = Some r"
    and lock: "locked_bucket t (rs_bucket_id r) d = Some (row, d1)" and key: "bk_id row = rs_bucket_id r"
    and res: "settle rid s t d = (Inr True,
         d1\<lparr>reservations := upd_by rs_id rid
              (\<lambda>x. x\<lparr>rs_status := (if s then R_COMPLETED else R_RELEASED)\<rparr>) (reservations d1),
            buckets := upd_by bk_id (rs_bucket_id r)
              (\<lambda>b. b\<lparr>bk_pending := bk_pending b - 1, bk_used := bk_used b + (if s then 1 else 0)\<rparr>)
              (buckets d1)\<rparr>)"
  have "get_by bk_id (rs_bucket_id r) (buckets d1) \<noteq> None"
    using locked_bucket_inv(2,3) [OF inv lock] by (auto simp: get_by_None) (metis image_eqI)
  note charge = used_of_charge [OF this]
  have ok: ok
    and d': "d' = d1\<lparr>reservations := upd_by rs_id rid
              (\<lambda>x. x\<lparr>rs_status := (if s then R_COMPLETED else R_RELEASED)\<rparr>) (reservations d1),
            buckets := upd_by bk_id (rs_bucket_id r)
              (\<lambda>b. b\<lparr>bk_pending := bk_pending b - 1, bk_used := bk_used b + (if s then 1 else 0)\<rparr>)
              (buckets d1)\<rparr>"
    using st unfolding res by simp_all
  show ?thesis
    unfolding d' charge using ok get by (simp add: owner_of_def used_of_locked [OF lock])
qed

lemma settle_closes:
  assumes inv: "ledger_inv cap d"
  shows "\<not> is_open (snd (settle rid s t d)) rid"
proof (rule settle_cases [OF inv, of rid s t])
  fix r row d1
  assume get: "get_by rs_id rid (reservations d) = Some r"
    and lock: "locked_bucket t (rs_bucket_id r) d = Some (row, d1)"
    and late: "rs_status r \<noteq> R_PENDING \<or> rs_lease_expires_at r \<le> t"
    and res: "settle rid s t d = (Inr False, d1)"
  have "reservations d1 = upd_rows (expired t (rs_bucket_id r)) (\<lambda>r. r\<lparr>rs_status := R_EXPIRED\<rparr>) (reservations d)"
    using lock by (rule locked_bucket_cases)
  with get late res show ?thesis by (auto simp: is_open_def get_expire expired_def)
qed (auto simp: is_open_def table.get_upd)

lemma settle_closed:
  assumes inv: "ledger_inv cap d" and "\<not> is_open d rid"
  shows "fst (settle rid s t d) = Inr False"
  using assms(2) by (cases rule: settle_cases [OF inv, of rid s t]) (auto simp: is_open_def)

lemma settle_owner:
  assumes inv: "ledger_inv cap d"
  shows "owner_of (snd (settle rid s t d)) rid = owner_of d rid"
proof (rule settle_cases [OF inv, of rid s t])
  fix r row d1
  assume get: "get_by rs_id rid (reservations d) = Some r"
    and lock: "locked_bucket t (rs_bucket_id r) d = Some (row, d1)"
    and res: "settle rid s t d = (Inr False, d1)"
  have "reservations d1 = upd_rows (expired t (rs_bucket_id r)) (\<lambda>r. r\<lparr>rs_status := R_EXPIRED\<rparr>) (reservations d)"
    using lock by (rule locked_bucket_cases)
  with get res show ?thesis by (auto simp: owner_of_def get_expire)
qed (auto simp: owner_of_def table.get_upd)

subsection \<open>The interface a request relies on\<close>

locale charge_ledger =
  fixes inv :: "'l \<Rightarrow> bool"
    and used :: "'l \<Rightarrow> string \<Rightarrow> int"
    and opened :: "'l \<Rightarrow> string \<Rightarrow> bool"
    and owner :: "'l \<Rightarrow> string \<Rightarrow> string option"
    and close :: "string \<Rightarrow> bool \<Rightarrow> int \<Rightarrow> 'l \<Rightarrow> (err + bool) \<times> 'l"
  assumes close_inv: "inv l \<Longrightarrow> inv (snd (close rid s t l))"
    and close_total: "inv l \<Longrightarrow> \<exists>ok. fst (close rid s t l) = Inr ok"
    and close_used: "inv l \<Longrightarrow> close rid s t l = (Inr ok, l') \<Longrightarrow>
      used l' k = used l k + (if ok \<and> s \<and> owner l rid = Some k then 1 else 0)"
    and close_closes: "inv l \<Longrightarrow> \<not> opened (snd (close rid s t l)) rid"
    and close_closed: "inv l \<Longrightarrow> \<not> opened l rid \<Longrightarrow> fst (close rid s t l) = Inr False"
    and close_owner: "inv l \<Longrightarrow> owner (snd (close rid s t l)) rid = owner l rid"
begin

text \<open>Any number of further attempts to close a closed reservation charges nothing.\<close>

lemma closed_again:
  "inv l \<Longrightarrow> \<not> opened l rid \<Longrightarrow>
     used (fold (\<lambda>(s, t) l. snd (close rid s t l)) calls l) k = used l k"
proof (induction calls arbitrary: l)
  case Nil
  then show ?case by simp
next
  case (Cons c calls)
  obtain s t where c: "c = (s, t)" by (cases c)
  have res: "close rid s t l = (Inr False, snd (close rid s t l))"
    using close_closed [OF Cons.prems] by (metis prod.collapse)
  have "used (snd (close rid s t l)) k = used l k"
    using close_used [OF Cons.prems(1) res] by simp
  with Cons.IH [OF close_inv close_closes] Cons.prems(1) c show ?case by simp
qed

lemma charged_at_most_once:
  assumes "inv l"
  shows "used (fold (\<lambda>(s, t) l. snd (close rid s t l)) calls l) k \<le> used l k + 1
    \<and> used l k \<le> used (fold (\<lambda>(s, t) l. snd (close rid s t l)) calls l) k"
proof (cases calls)
  case Nil
  then show ?thesis by simp
next
  case (Cons c cs)
  obtain s t where c: "c = (s, t)" by (cases c)
  obtain ok where ok: "close rid s t l = (Inr ok, snd (close rid s t l))"
    using close_total [OF assms] by (metis prod.collapse)
  have "used (fold (\<lambda>(s, t) l. snd (close rid s t l)) calls l) k = used (snd (close rid s t l)) k"
    unfolding Cons c using closed_again [OF close_inv close_closes] assms by simp
  with close_used [OF assms ok] show ?thesis by simp
qed

end

interpretation prompts: charge_ledger "ledger_inv cap" used_of is_open owner_of settle for cap
proof unfold_locales
  fix l rid s t assume "ledger_inv cap l"
  then show "ledger_inv cap (snd (settle rid s t l))" by (rule settle_inv)
next
  fix l rid s t assume "ledger_inv cap l"
  then show "\<exists>ok. fst (settle rid s t l) = Inr ok" by (rule settle_total)
next
  fix l rid s t ok l' k
  assume "ledger_inv cap l" "settle rid s t l = (Inr ok, l')"
  then show "used_of l' k = used_of l k + (if ok \<and> s \<and> owner_of l rid = Some k then 1 else 0)"
    by (rule settle_used)
next
  fix l rid s t assume "ledger_inv cap l"
  then show "\<not> is_open (snd (settle rid s t l)) rid" by (rule settle_closes)
next
  fix l rid s t assume "ledger_inv cap l" "\<not> is_open l rid"
  then show "fst (settle rid s t l) = Inr False" by (rule settle_closed)
next
  fix l rid s t assume "ledger_inv cap l"
  then show "owner_of (snd (settle rid s t l)) rid = owner_of l rid" by (rule settle_owner)
qed

subsection \<open>Published usage and granted reservations\<close>

definition keys_ok :: "ledger \<Rightarrow> bool" where
  "keys_ok d \<longleftrightarrow> (\<forall>b \<in> set (buckets d).
     bk_id b = bucket_id (bk_session_task_id b) (bk_scope_key b) \<and> CHR '':'' \<notin> set (bk_session_task_id b))"

lemma bucket_id_inject:
  assumes "CHR '':'' \<notin> set a" and "CHR '':'' \<notin> set b"
  shows "bucket_id a s = bucket_id b t \<longleftrightarrow> a = b \<and> s = t"
proof
  assume eq: "bucket_id a s = bucket_id b t"
  have "takeWhile (\<lambda>c. c \<noteq> CHR '':'') (bucket_id x y) = x" if "CHR '':'' \<notin> set x" for x y
    using that by (simp add: bucket_id_def takeWhile_tail) (metis takeWhile_eq_all_conv)
  with eq assms have "a = b" by metis
  with eq show "a = b \<and> s = t" by (simp add: bucket_id_def)
qed simp

lemma map_of_dict_of: "map_of (dict_of items) = map_of (rev items)"
proof -
  have "map_of (foldl (\<lambda>d (k, v). AList.update k v d) d items) = map_of d ++ map_of (rev items)" for d
    by (induction items arbitrary: d) (auto simp: AList.update_conv' map_add_assoc [symmetric])
  from this [of "[]"] show ?thesis by (simp add: dict_of_def)
qed

lemma map_of_rev_distinct:
  assumes "distinct (map fst items)"
  shows "map_of (rev items) = map_of items"
proof -
  have "distinct (map fst (rev items))"
    using assms by (simp add: rev_map [symmetric])
  then show ?thesis
    using assms by (intro map_of_inject_set [THEN iffD2]) simp_all
qed

lemma count_list_filter:
  "int (count_list (map g (filter Q rs)) k) = count_rows (\<lambda>r. Q r \<and> g r = k) rs"
  by (induction rs) auto

definition unexpired :: "int \<Rightarrow> string \<Rightarrow> reservation \<Rightarrow> bool" where
  "unexpired now key r \<longleftrightarrow> live key r \<and> now < rs_lease_expires_at r"

lemma live_split: "count_rows (live key) rs = count_rows (expired now key) rs + count_rows (unexpired now key) rs"
  by (induction rs) (auto simp: live_def expired_def unexpired_def)

text \<open>The pair of counters \<open>task_usage\<close> publishes for a scope of a task.\<close>

definition published :: "int \<Rightarrow> string \<Rightarrow> ledger \<Rightarrow> int \<times> int" where
  "published now key d =
     (case get_by bk_id key (buckets d) of None \<Rightarrow> (0, 0)
      | Some b \<Rightarrow> (bk_used b, count_rows (unexpired now key) (reservations d)))"

lemma counts_lookup:
  assumes inv: "ledger_inv cap d" and keys: "keys_ok d" and t: "CHR '':'' \<notin> set tid"
    and rows: "rows = filter (\<lambda>b. bk_session_task_id b = tid) (buckets d)"
    and pending: "pending = map rs_bucket_id (filter (\<lambda>r. rs_bucket_id r \<in> set (map bk_id rows)
        \<and> rs_status r = R_PENDING \<and> now < rs_lease_expires_at r) (reservations d))"
  shows "(case map_of (dict_of (map (\<lambda>b. (bk_scope_key b, (bk_used b, int (count_list pending (bk_id b))))) rows)) scope
      of None \<Rightarrow> (0, 0) | Some p \<Rightarrow> p) = published now (bucket_id tid scope) d"
proof -
  let ?item = "\<lambda>b. (bk_scope_key b, (bk_used b, int (count_list pending (bk_id b))))"
  let ?key = "bucket_id tid scope"
  have id_of: "bk_id b = bucket_id tid (bk_scope_key b)" if "b \<in> set rows" for b
    using keys that by (auto simp: keys_ok_def rows)
  have "distinct (map bk_id rows)"
    using inv by (simp add: ledger_inv_def rows distinct_map_filter)
  moreover have "map bk_id rows = map (bucket_id tid) (map bk_scope_key rows)"
    using id_of by simp
  ultimately have "distinct (map bk_scope_key rows)"
    by (metis distinct_map)
  then have dist: "distinct (map fst (map ?item rows))"
    by (simp add: comp_def)
  note lookup = map_of_dict_of [of "map ?item rows"] map_of_rev_distinct [OF dist]
  show ?thesis
  proof (cases "get_by bk_id ?key (buckets d)")
    case None
    have "scope \<notin> bk_scope_key ` set rows"
    proof
      assume "scope \<in> bk_scope_key ` set rows"
      then obtain b where "b \<in> set rows" "bk_id b = ?key" using id_of by auto
      moreover from this have "b \<in> set (buckets d)" by (simp add: rows)
      ultimately have "?key \<in> bk_id ` set (buckets d)" by (metis image_eqI)
      with None show False by (simp add: get_by_None)
    qed
    then have "map_of (map ?item rows) scope = None"
      by (auto simp: map_of_eq_None_iff image_comp comp_def)
    with None show ?thesis by (simp add: lookup published_def)
  next
    case (Some b)
    then have b: "b \<in> set (buckets d)" "bk_id b = ?key" by (auto dest: get_by_Some)
    with keys have "bk_session_task_id b = tid \<and> bk_scope_key b = scope"
      using bucket_id_inject [OF _ t] by (metis keys_ok_def)
    with b have mem: "b \<in> set rows" and sc: "bk_scope_key b = scope" by (auto simp: rows)
    then have "(scope, snd (?item b)) \<in> set (map ?item rows)"
      by (force simp: image_iff)
    with dist have "map_of (map ?item rows) scope = Some (snd (?item b))"
      by (rule map_of_is_SomeI)
    moreover have "int (count_list pending (bk_id b)) = count_rows (unexpired now ?key) (reservations d)"
    proof -
      have "?key \<in> bk_id ` set rows" using mem b(2) by (metis image_eqI)
      then show ?thesis
        unfolding pending count_list_filter b(2)
        by (intro count_rows_cong) (auto simp: unexpired_def live_def)
    qed
    ultimately show ?thesis using Some by (simp add: lookup published_def)
  qed
qed

lemma reserve_locked_granted:
  assumes inv: "ledger_inv cap d" and ex: "get_by bk_id (bucket_id tid scope) (buckets d) \<noteq> None"
  shows "(\<exists>r. fst (reserve_locked tid scope n now t1 rid d) = Inr r) \<longleftrightarrow>
    fst (published now (bucket_id tid scope) d) + snd (published now (bucket_id tid scope) d) < n"
proof -
  let ?key = "bucket_id tid scope"
  obtain b where b: "get_by bk_id ?key (buckets d) = Some b" using ex by auto
  then have "bk_pending b = count_rows (live ?key) (reservations d)"
    using inv by (auto simp: ledger_inv_def bucket_ok_def dest!: get_by_Some)
  then have "bk_pending b - count_rows (expired now ?key) (reservations d) =
      count_rows (unexpired now ?key) (reservations d)"
    using live_split [of ?key "reservations d" now] by simp
  with b show ?thesis
    by (simp add: reserve_locked_def locked_bucket_def Let_def published_def count_rows_def)
qed

lemma no_orphans:
  assumes "ledger_inv cap d" and "get_by bk_id key (buckets d) = None"
  shows "count_rows (unexpired now key) (reservations d) = 0"
proof (rule count_rows_zero)
  fix r assume r: "r \<in> set (reservations d)"
  then have "rs_bucket_id r \<in> bk_id ` set (buckets d)"
    using assms(1) by (simp add: ledger_inv_def)
  then show "\<not> unexpired now key r"
    using assms(2) by (auto simp: get_by_None unexpired_def live_def)
qed

lemma published_ensure:
  assumes "ledger_inv cap d"
  shows "published now key (ensure_bucket tid scope d) = published now key d"
proof (cases "get_by bk_id (bucket_id tid scope) (buckets d)")
  case None
  then show ?thesis
    using no_orphans [OF assms None, of now]
    by (auto simp: published_def ensure_bucket_def Let_def table.get_ins split: option.splits)
qed (simp add: ensure_bucket_def)

lemma ensure_bucket_present: "get_by bk_id (bucket_id tid scope) (buckets (ensure_bucket tid scope d)) \<noteq> None"
  by (auto simp: ensure_bucket_def Let_def table.get_ins split: option.splits)

text \<open>
  The number a client is shown: \<open>available\<close> of the scope that \<open>resolve_scope\<close> selects.
\<close>

definition shown_available :: "int \<Rightarrow> budget_task \<Rightarrow> string \<Rightarrow> ledger \<Rightarrow> int option" where
  "shown_available now task scope d =
     (case task_usage now task d of
        Inr (Some (m, us)) \<Rightarrow> map_option us_available (map_of us scope)
      | _ \<Rightarrow> None)"

lemma shown_available_published:
  assumes inv: "ledger_inv cap d" and keys: "keys_ok d" and t: "CHR '':'' \<notin> set (bt_id task)"
    and task: "\<not> bt_survey task" and scope: "resolve_scope task q = Inr (scope, Some n)"
  shows "shown_available now task scope d =
    Some (max 0 (n - fst (published now (bucket_id (bt_id task) scope) d)
                   - snd (published now (bucket_id (bt_id task) scope) d)))"
proof -
  let ?rows = "filter (\<lambda>b. bk_session_task_id b = bt_id task) (buckets d)"
  let ?pending = "map rs_bucket_id (filter (\<lambda>r. rs_bucket_id r \<in> set (map bk_id ?rows)
                \<and> rs_status r = R_PENDING \<and> now < rs_lease_expires_at r) (reservations d))"
  let ?counts = "dict_of (map (\<lambda>b. (bk_scope_key b, (bk_used b, int (count_list ?pending (bk_id b))))) ?rows)"
  let ?val = "\<lambda>key limit. case map_of ?counts key of
                None \<Rightarrow> usage_value limit 0 0 | Some (u, p) \<Rightarrow> usage_value limit u p"
  have shown: "us_available (?val scope n) =
      max 0 (n - fst (published now (bucket_id (bt_id task) scope) d)
               - snd (published now (bucket_id (bt_id task) scope) d))"
    unfolding counts_lookup [OF inv keys t refl refl, symmetric]
    by (auto simp: usage_value_def split: option.splits prod.splits)
  obtain b where b: "budget_config task = Inr b"
    using scope by (auto simp: resolve_scope_def bindE_Inr_iff)
  have per: "map_of (map (\<lambda>(key, limit). (key, ?val key limit)) xs) scope = Some (?val scope n)"
    if "map_of xs scope = Some n" for xs
    using that by (induction xs) auto
  show ?thesis
  proof (cases "bmode b = TASK_MODE")
    case True
    with scope b have "scope = ''TASK'' \<and> blimit b = Some n" by (simp add: resolve_scope_def)
    with True b task shown show ?thesis by (simp add: shown_available_def task_usage_def Let_def)
  next
    case False
    with scope b have "map_of (question_limits b) scope = Some n"
      by (auto simp: resolve_scope_def split: option.splits if_splits)
    from per [OF this] False b task shown show ?thesis
      by (simp add: shown_available_def task_usage_def Let_def)
  qed
qed

end
