(* ===== verification/Budget_Run.thy ===== *)
theory Budget_Run
  imports Completion_Observer Prompt_Accounting
begin

text \<open>
  \<open>BudgetRun\<close> of \<open>utils/experiment_prompt_budgets.py\<close>: one generation, from its reservation to
  its settlement. The provider's stream is the list of its chunks and the exception that ended
  it, if one did (a cancellation of the request is such an exception). The heartbeat is
  the \<open>renew\<close> step of the ledger; the socket notification changes no state.
\<close>

record budget_run =
  br_task :: budget_task
  br_question_id :: "string option"
  br_reservation_id :: "string option"
  br_observer :: observer
  br_finished :: bool

definition new_run :: "budget_task \<Rightarrow> string option \<Rightarrow> budget_run" where
  "new_run task question_id =
     \<lparr>br_task = task, br_question_id = question_id, br_reservation_id = None,
      br_observer = new_observer, br_finished = False\<rparr>"

definition start_run :: "int \<Rightarrow> int \<Rightarrow> string \<Rightarrow> budget_run \<Rightarrow> ledger \<Rightarrow> (err + budget_run) \<times> ledger" where
  "start_run t0 t1 rid run d =
     (case reserve (br_task run) (br_question_id run) t0 t1 rid d of
        (Inl e, d') \<Rightarrow> (Inl e, d')
      | (Inr r, d') \<Rightarrow> (Inr (run\<lparr>br_reservation_id := Some r\<rparr>), d'))"

text \<open>
  The generator that \<open>observe\<close> puts around a streaming response: the chunks it yields, the
  exception that ends it, and the observer it leaves. \<open>perr\<close> is the provider's exception.
\<close>

fun observed_stream ::
    "(string \<Rightarrow> json option) \<Rightarrow> string list \<Rightarrow> err option \<Rightarrow> observer \<Rightarrow> string list \<times> err option \<times> observer" where
  "observed_stream loads [] perr ob =
     (case perr of
        Some e \<Rightarrow> ([], Some e, ob)
      | None \<Rightarrow> if ob_completed ob then ([], None, ob)
                else ([], Some (RuntimeError ''Provider stream ended before completion.''), ob))"
| "observed_stream loads (c # cs) perr ob =
     (case feed loads c ob of
        Inl e \<Rightarrow> ([], Some e, ob)
      | Inr ob' \<Rightarrow>
          if ob_failed ob' then ([], Some (RuntimeError ''Provider returned a streaming error.''), ob')
          else (case observed_stream loads cs perr ob' of (out, e, ob'') \<Rightarrow> (c # out, e, ob'')))"

text \<open>\<open>observe\<close> on a response that is not a stream: its status code and its decoded body.\<close>

definition observe_body :: "nat \<Rightarrow> json option \<Rightarrow> budget_run \<Rightarrow> budget_run" where
  "observe_body status_code data run =
     (let failed = (status_code \<ge> 400 \<or>
            (case data of Some (JObj p) \<Rightarrow> truthy_json (jget p ''error'') | _ \<Rightarrow> True))
      in run\<lparr>br_observer := \<lparr>ob_buffer = [], ob_completed = \<not> failed, ob_failed = failed\<rparr>\<rparr>)"

definition finish :: "bool \<Rightarrow> int \<Rightarrow> budget_run \<Rightarrow> ledger \<Rightarrow> err option \<times> budget_run \<times> ledger" where
  "finish success t run d =
     (case br_reservation_id run of
        None \<Rightarrow> (None, run, d)
      | Some rid \<Rightarrow>
          if br_finished run \<or> rid = [] then (None, run, d)
          else (case settle rid (success \<and> ob_completed (br_observer run) \<and> \<not> ob_failed (br_observer run)) t d of
                  (Inl e, d') \<Rightarrow> (Some e, run\<lparr>br_finished := True\<rparr>, d')
                | (Inr _, d') \<Rightarrow> (None, run\<lparr>br_finished := True\<rparr>, d')))"

text \<open>
  \<open>wrap_delivery\<close> around an observed stream: the chunks that reach the client, and the
  settlement in the \<open>finally\<close> block with \<open>success\<close> set only after the last chunk. The client can
  stop reading: \<open>stop = Some (n, x)\<close> throws \<open>x\<close> (\<open>GeneratorExit\<close>, or the cancellation of the task) into
  the generators at the yield of chunk \<open>n\<close>, when the observer has seen the chunks up to that one.
\<close>

definition client_reads ::
    "(string \<Rightarrow> json option) \<Rightarrow> string list \<Rightarrow> err option \<Rightarrow> (nat \<times> err) option \<Rightarrow> string list \<times> err option \<times> observer" where
  "client_reads loads chunks perr stop =
     (case observed_stream loads chunks perr new_observer of (out, e, ob) \<Rightarrow>
        (case stop of
           None \<Rightarrow> (out, e, ob)
         | Some (n, x) \<Rightarrow>
             if n < length out
             then (take (n + 1) out, Some x, snd (snd (observed_stream loads (take (n + 1) chunks) perr new_observer)))
             else (out, e, ob)))"

definition deliver_stream ::
    "(string \<Rightarrow> json option) \<Rightarrow> string list \<Rightarrow> err option \<Rightarrow> (nat \<times> err) option \<Rightarrow> int \<Rightarrow> budget_run \<Rightarrow> ledger \<Rightarrow>
      string list \<times> err option \<times> budget_run \<times> ledger" where
  "deliver_stream loads chunks perr stop t run d =
     (case client_reads loads chunks perr stop of (out, e, ob) \<Rightarrow>
        (case finish (e = None) t (run\<lparr>br_observer := ob\<rparr>) d of (e', run', d') \<Rightarrow>
           (out, (case e' of Some x \<Rightarrow> Some x | None \<Rightarrow> e), run', d')))"

lemma observed_stream_ok:
  "observed_stream loads cs perr ob = (out, None, ob') \<Longrightarrow> \<not> ob_failed ob \<Longrightarrow>
     out = cs \<and> perr = None \<and> ob_completed ob' \<and> \<not> ob_failed ob' \<and> feed_all loads cs ob = Inr ob'"
  by (induction loads cs perr ob arbitrary: out rule: observed_stream.induct)
     (auto split: sum.splits if_splits option.splits prod.splits)

lemma client_reads_ok:
  "client_reads loads cs perr stop = (out, None, ob) \<longleftrightarrow>
     observed_stream loads cs perr new_observer = (out, None, ob) \<and>
     (case stop of None \<Rightarrow> True | Some (n, x) \<Rightarrow> length out \<le> n)"
  by (auto simp: client_reads_def split: prod.splits option.splits)

lemma observed_stream_complete:
  "feed_all loads cs ob = Inr ob' \<Longrightarrow> \<not> ob_failed ob' \<Longrightarrow> ob_completed ob' \<Longrightarrow>
   (\<And>n obn. feed_all loads (take n cs) ob = Inr obn \<Longrightarrow> \<not> ob_failed obn) \<Longrightarrow>
     observed_stream loads cs None ob = (cs, None, ob')"
proof (induction cs arbitrary: ob)
  case Nil
  then show ?case by simp
next
  case (Cons c cs)
  from Cons.prems(1) obtain ob1 where ob1: "feed loads c ob = Inr ob1"
    by (auto simp: bindE_Inr_iff)
  have step: "\<not> ob_failed obn" if "feed_all loads (take n cs) ob1 = Inr obn" for n obn
    using Cons.prems(4) [of "Suc n" obn] that ob1 by simp
  have "\<not> ob_failed ob1" using step [of 0 ob1] by simp
  moreover have "observed_stream loads cs None ob1 = (cs, None, ob')"
    using Cons.IH [of ob1] Cons.prems ob1 step by simp
  ultimately show ?case using ob1 by simp
qed

lemma finish_used:
  assumes inv: "ledger_inv cap d" and rid: "br_reservation_id run = Some rid" and ne: "rid \<noteq> []"
    and nf: "\<not> br_finished run" and opn: "is_open d rid" and own: "owner_of d rid = Some k"
    and lease: "\<And>r. get_by rs_id rid (reservations d) = Some r \<Longrightarrow> t < rs_lease_expires_at r"
    and fin: "finish success t run d = (e, run', d')"
  shows "e = None" and "br_finished run'"
    and "used_of d' k = used_of d k +
      (if success \<and> ob_completed (br_observer run) \<and> \<not> ob_failed (br_observer run) then 1 else 0)"
proof -
  let ?s = "success \<and> ob_completed (br_observer run) \<and> \<not> ob_failed (br_observer run)"
  have true: "fst (settle rid ?s t d) = Inr True"
    by (cases rule: settle_cases [OF inv, of rid ?s t]) (use opn lease in \<open>auto simp: is_open_def\<close>)
  then have st: "settle rid ?s t d = (Inr True, snd (settle rid ?s t d))"
    by (metis prod.collapse)
  have fin': "finish success t run d = (None, run\<lparr>br_finished := True\<rparr>, snd (settle rid ?s t d))"
    unfolding finish_def using rid ne nf st by (auto split: prod.splits)
  then show "e = None" "br_finished run'" using fin by auto
  have d': "d' = snd (settle rid ?s t d)" using fin fin' by simp
  show "used_of d' k = used_of d k + (if ?s then 1 else 0)"
    unfolding d' using settle_used [OF inv st, of k] own by simp
qed

lemma finish_again: "br_finished run \<Longrightarrow> finish success t run d = (None, run, d)"
  by (simp add: finish_def split: option.splits)

end
