(* ===== verification/Budget_Properties.thy ===== *)
theory Budget_Properties
  imports Prompt_Ledger Budget_Run
begin

text \<open>
  The properties of the prompt budgets: the ledger stays within its limits whatever the order of
  the calls, the number a client is shown decides whether it gets a prompt, a reservation is
  charged at most once and only for a delivered and completed response, and the observer's
  verdict does not depend on how the provider's stream is cut into chunks (except in the one
  case that is proved to make a difference).
\<close>

subsection \<open>The ledger\<close>

text \<open>
  C1. In every ledger that any interleaving of bucket creation, reserving, renewing and
  settling can reach, a bucket's pending counter is the number of its open reservations, its
  used counter the number of its completed ones, and their sum never exceeds the limit.
\<close>

theorem ledger_within_limit:
  assumes "ledger_reachable cap d" and "b \<in> set (buckets d)"
  shows "bk_pending b = count_rows (live (bk_id b)) (reservations d) \<and>
         bk_used b = count_rows (charged (bk_id b)) (reservations d) \<and>
         bk_used b + bk_pending b \<le> cap (bk_id b)"
  using ledger_reachable_inv [OF assms(1)] assms(2) by (auto simp: ledger_inv_def bucket_ok_def)

definition one_prompt :: ledger where
  "one_prompt = snd (settle ''r1'' True 20 (snd (reserve_locked ''t'' ''TASK'' 1 10 10 ''r1''
     (ensure_bucket ''t'' ''TASK'' \<lparr>buckets = [], reservations = []\<rparr>))))"

lemma one_prompt_reachable: "ledger_reachable (\<lambda>_. 1) one_prompt"
  unfolding one_prompt_def
  by (rule ledger_next [OF ledger_next [OF ledger_next [OF ledger_start]]],
      rule step_ensure, simp, rule step_reserve, simp add: ensure_bucket_def add_row_def, rule step_settle)

lemma ledger_within_limit_witness:
  "\<exists>b \<in> set (buckets one_prompt). bk_used b = 1 \<and> bk_used b + bk_pending b \<le> 1"
proof -
  have "list_ex (\<lambda>b. bk_used b = 1) (buckets one_prompt)" by code_simp
  then obtain b where "b \<in> set (buckets one_prompt)" "bk_used b = 1" by (auto simp: list_ex_iff)
  with ledger_within_limit [OF one_prompt_reachable this(1)] show ?thesis by auto
qed

text \<open>
  C2. Reserving a prompt succeeds exactly when the usage a client is shown at that moment
  lists a positive \<open>available\<close> for the task's or question's scope.
\<close>

theorem reserve_granted_iff_available:
  assumes inv: "ledger_inv cap d" and keys: "keys_ok d" and t: "CHR '':'' \<notin> set (bt_id task)"
    and task: "\<not> bt_survey task" and scope: "resolve_scope task q = Inr (scope, Some n)"
    and cap: "0 \<le> cap (bucket_id (bt_id task) scope)"
  shows "(\<exists>r. fst (reserve task q t0 t1 rid d) = Inr r) \<longleftrightarrow>
         (\<exists>a. shown_available t0 task scope d = Some a \<and> 0 < a)"
proof -
  let ?d0 = "ensure_bucket (bt_id task) scope d" and ?k = "bucket_id (bt_id task) scope"
  have r: "reserve task q t0 t1 rid d = reserve_locked (bt_id task) scope n t0 t1 rid ?d0"
    by (simp add: reserve_def scope)
  have "(\<exists>r. fst (reserve task q t0 t1 rid d) = Inr r) \<longleftrightarrow>
      fst (published t0 ?k d) + snd (published t0 ?k d) < n"
    unfolding r using reserve_locked_granted [OF ensure_bucket_inv [OF inv cap] ensure_bucket_present]
    by (simp add: published_ensure [OF inv])
  then show ?thesis by (auto simp: shown_available_published [OF inv keys t task scope] max_def)
qed

definition budget_task_1 :: budget_task where
  "budget_task_1 = \<lparr>bt_id = ''t'', bt_survey = False,
     bt_budget = BudgetModel \<lparr>bmode = TASK_MODE, blimit = Some 1, question_limits = []\<rparr>\<rparr>"

lemma one_prompt_inv: "ledger_inv (\<lambda>_. 1) one_prompt"
  by (rule ledger_reachable_inv [OF one_prompt_reachable])

lemma reserve_granted_iff_available_witness:
  "\<not> (\<exists>r. fst (reserve budget_task_1 None 30 31 ''r2'' one_prompt) = Inr r) \<and>
   shown_available 30 budget_task_1 ''TASK'' one_prompt = Some 0"
proof -
  have s: "shown_available 30 budget_task_1 ''TASK'' one_prompt = Some 0" by code_simp
  have "keys_ok one_prompt" by code_simp
  then show ?thesis
    using s reserve_granted_iff_available [of "\<lambda>_. 1" one_prompt budget_task_1 None
        "''TASK''" 1 30 31 "''r2''"]
    by (simp add: one_prompt_inv budget_task_1_def resolve_scope_def budget_config_def)
qed

text \<open>
  C3. However often and in whatever way one reservation is settled, retried or settled by
  racing handlers, its bucket is charged at most one prompt in total, and never refunded.
\<close>

theorem settle_charges_once:
  assumes "ledger_inv cap d"
  shows "used_of d k \<le> used_of (fold (\<lambda>(s, t) d. snd (settle rid s t d)) calls d) k \<and>
         used_of (fold (\<lambda>(s, t) d. snd (settle rid s t d)) calls d) k \<le> used_of d k + 1"
  using prompts.charged_at_most_once [OF assms] by blast

definition open_prompt :: ledger where
  "open_prompt = snd (reserve_locked ''t'' ''TASK'' 1 10 10 ''r1''
     (ensure_bucket ''t'' ''TASK'' \<lparr>buckets = [], reservations = []\<rparr>))"

lemma open_prompt_inv: "ledger_inv (\<lambda>_. 1) open_prompt"
  unfolding open_prompt_def
  by (rule ledger_reachable_inv, rule ledger_next [OF ledger_next [OF ledger_start]], rule step_ensure, simp,
      rule step_reserve, simp add: ensure_bucket_def add_row_def)

lemma settle_charges_once_witness:
  "used_of (fold (\<lambda>(s, t) d. snd (settle ''r1'' s t d)) [(True, 20), (True, 21), (False, 22)] open_prompt) ''t:TASK''
     \<le> used_of open_prompt ''t:TASK'' + 1 \<and>
   used_of (fold (\<lambda>(s, t) d. snd (settle ''r1'' s t d)) [(True, 20), (True, 21), (False, 22)] open_prompt) ''t:TASK'' = 1"
proof
  show "used_of (fold (\<lambda>(s, t) d. snd (settle ''r1'' s t d)) [(True, 20), (True, 21), (False, 22)] open_prompt) ''t:TASK''
     \<le> used_of open_prompt ''t:TASK'' + 1"
    using settle_charges_once [OF open_prompt_inv] by blast
  show "used_of (fold (\<lambda>(s, t) d. snd (settle ''r1'' s t d)) [(True, 20), (True, 21), (False, 22)] open_prompt) ''t:TASK'' = 1"
    by code_simp
qed

text \<open>
  A response that arrives after its lease ran out is not charged: settling then reports
  failure, no bucket's used counter changes, and the reservation is closed for good.
\<close>

theorem late_settle_not_charged:
  assumes inv: "ledger_inv cap d" and r: "get_by rs_id rid (reservations d) = Some r"
    and late: "rs_lease_expires_at r \<le> t"
  shows "fst (settle rid True t d) = Inr False \<and>
         used_of (snd (settle rid True t d)) k = used_of d k \<and>
         \<not> is_open (snd (settle rid True t d)) rid"
proof -
  have f: "fst (settle rid True t d) = Inr False"
    by (cases rule: settle_cases [OF inv, of rid True t]) (use r late in auto)
  then have "settle rid True t d = (Inr False, snd (settle rid True t d))" by (metis prod.collapse)
  from settle_used [OF inv this, of k] f settle_closes [OF inv, of rid True t] show ?thesis by simp
qed

lemma late_settle_not_charged_witness:
  "fst (settle ''r1'' True (121 * 10 ^ 9) open_prompt) = Inr False \<and>
   used_of (snd (settle ''r1'' True (121 * 10 ^ 9) open_prompt)) ''t:TASK'' = 0"
proof -
  have r: "get_by rs_id ''r1'' (reservations open_prompt) =
      Some \<lparr>rs_id = ''r1'', rs_bucket_id = ''t:TASK'', rs_status = R_PENDING,
            rs_lease_expires_at = 120000000010, rs_created_at = 10\<rparr>"
    and u: "used_of open_prompt ''t:TASK'' = 0" by code_simp+
  from late_settle_not_charged [OF open_prompt_inv r, of "121 * 10 ^ 9" "''t:TASK''"] u show ?thesis
    by simp
qed

subsection \<open>Streams\<close>

lemma feed_all_concat:
  "\<not> has_crcrlf (ob_buffer ob @ c @ concat cs) \<Longrightarrow> feed_all loads (c # cs) ob = feed loads (c @ concat cs) ob"
proof (induction cs arbitrary: c)
  case Nil
  then show ?case by (simp add: bindE_def split: sum.splits)
next
  case (Cons c' cs)
  have "feed_all loads (c # c' # cs) ob = bindE (bindE (feed loads c ob) (feed loads c')) (feed_all loads cs)"
    by (simp add: bindE_def split: sum.splits)
  also have "bindE (feed loads c ob) (feed loads c') = feed loads (c @ c') ob"
  proof (rule feed_append)
    have "has_crcrlf s \<Longrightarrow> has_crcrlf (s @ t)" for s t
      by (induction s rule: has_crcrlf.induct) auto
    then show "\<not> has_crcrlf (ob_buffer ob @ c @ c')" using Cons.prems
      by (metis append.assoc concat.simps(2))
  qed
  also have "bindE (feed loads (c @ c') ob) (feed_all loads cs) = feed_all loads ((c @ c') # cs) ob"
    by simp
  also have "\<dots> = feed loads ((c @ c') @ concat cs) ob"
    by (rule Cons.IH) (use Cons.prems in simp)
  finally show ?case by simp
qed

text \<open>
  C12. Cutting the same text into chunks in two different ways leaves the observer in the same
  state, with the same verdict on completion and failure, as long as the text has no carriage
  return followed by a carriage return and line feed.
\<close>

theorem chunks_do_not_matter:
  assumes "concat cs = concat cs'" and "cs \<noteq> []" and "cs' \<noteq> []"
    and "\<not> has_crcrlf (ob_buffer ob @ concat cs)"
  shows "feed_all loads cs ob = feed_all loads cs' ob"
proof -
  obtain c ds c' ds' where "cs = c # ds" "cs' = c' # ds'" using assms(2,3) by (meson neq_Nil_conv)
  with assms feed_all_concat [of ob c ds loads] feed_all_concat [of ob c' ds' loads] show ?thesis by simp
qed

lemma chunks_do_not_matter_witness:
  "feed_all (\<lambda>_. None) [''data: [DO'', ''NE]'' @ [CR], [LF, CR], [LF]] new_observer =
   feed_all (\<lambda>_. None) [''data: [DONE]'' @ [CR, LF, CR, LF]] new_observer"
  by (rule chunks_do_not_matter) (simp_all add: new_observer_def)

text \<open>
  In the remaining case the chunking does matter: the stream
  \<open>data: [DONE]\r\r\n\r\r\n\<close> in one chunk is not seen as completed, and the same stream followed
  by an empty chunk is.
\<close>

theorem chunk_boundary_matters:
  "map_sum id ob_completed (feed_all loads [''data: [DONE]'' @ [CR, CR, LF, CR, CR, LF]] new_observer) = Inr False \<and>
   map_sum id ob_completed (feed_all loads [''data: [DONE]'' @ [CR, CR, LF, CR, CR, LF], []] new_observer) = Inr True"
  by (simp add: new_observer_def feed_def drain.simps crlf_Cons on_event_def event_data_def splitlines_def
      starts_with_def line_break_def py_space_def Let_def)

text \<open>
  C4. Delivering a stream under an open reservation whose lease has not run out settles it exactly
  once and charges one prompt if and only if every chunk reached the client, the client did not stop
  reading, the provider raised nothing, and the observed events completed without failing; in every
  other case the prompt is released.
\<close>

theorem delivered_stream_charges:
  assumes inv: "ledger_inv cap d" and rid: "br_reservation_id run = Some rid" "rid \<noteq> []"
    and fresh: "\<not> br_finished run" and opn: "is_open d rid" and own: "owner_of d rid = Some k"
    and lease: "\<And>r. get_by rs_id rid (reservations d) = Some r \<Longrightarrow> t < rs_lease_expires_at r"
    and del: "deliver_stream loads cs perr stop t run d = (out, e, run', d')"
  shows "br_finished run' \<and> \<not> is_open d' rid \<and>
         used_of d' k = used_of d k + (if e = None then 1 else 0) \<and>
         (e = None \<longleftrightarrow> (\<exists>ob. observed_stream loads cs perr new_observer = (cs, None, ob)) \<and>
           (case stop of None \<Rightarrow> True | Some (n, x) \<Rightarrow> length cs \<le> n)) \<and>
         (e = None \<longrightarrow> out = cs \<and> perr = None)"
proof -
  obtain e0 ob where os: "client_reads loads cs perr stop = (out, e0, ob)"
    using del by (cases "client_reads loads cs perr stop") (auto simp: deliver_stream_def split: prod.splits)
  let ?run = "run\<lparr>br_observer := ob\<rparr>"
  obtain e' where fin: "finish (e0 = None) t ?run d = (e', run', d')"
    using del os by (auto simp: deliver_stream_def split: prod.splits)
  have rid': "br_reservation_id ?run = Some rid" and nf: "\<not> br_finished ?run"
    using rid fresh by simp_all
  note f = finish_used [OF inv rid' rid(2) nf opn own lease fin]
  have e: "e = e0" using del os fin f(1) by (simp add: deliver_stream_def)
  have ok: "out = cs \<and> perr = None \<and> ob_completed ob \<and> \<not> ob_failed ob" if "e0 = None"
    using observed_stream_ok [of loads cs perr new_observer out ob] os that
    by (simp add: client_reads_ok new_observer_def)
  have "d' = snd (settle rid ((e0 = None) \<and> ob_completed ob \<and> \<not> ob_failed ob) t d)"
    using fin rid nf by (auto simp: finish_def split: prod.splits sum.splits)
  then have "\<not> is_open d' rid" by (simp add: settle_closes [OF inv])
  moreover have "e0 = None \<longleftrightarrow> (\<exists>ob. client_reads loads cs perr stop = (cs, None, ob))"
    using os ok by auto
  then have "e0 = None \<longleftrightarrow> (\<exists>ob. observed_stream loads cs perr new_observer = (cs, None, ob)) \<and>
      (case stop of None \<Rightarrow> True | Some (n, x) \<Rightarrow> length cs \<le> n)"
    by (simp add: client_reads_ok)
  ultimately show ?thesis using f ok e by auto
qed

definition open_run :: budget_run where
  "open_run = (new_run budget_task_1 None)\<lparr>br_reservation_id := Some ''r1''\<rparr>"

lemma delivered_stream_charges_witness:
  "used_of (snd (snd (snd (deliver_stream (\<lambda>_. None) [''data: [DONE]'', [LF, LF]] None None 20 open_run open_prompt)))) ''t:TASK'' = 1"
proof -
  have o: "owner_of open_prompt ''r1'' = Some ''t:TASK''" "used_of open_prompt ''t:TASK'' = 0"
    and r: "get_by rs_id ''r1'' (reservations open_prompt) =
      Some \<lparr>rs_id = ''r1'', rs_bucket_id = ''t:TASK'', rs_status = R_PENDING,
            rs_lease_expires_at = 120000000010, rs_created_at = 10\<rparr>"
    by code_simp+
  have opn: "is_open open_prompt ''r1''" using r by (simp add: is_open_def)
  obtain out e run' d' where del:
    "deliver_stream (\<lambda>_. None) [''data: [DONE]'', [LF, LF]] None None 20 open_run open_prompt = (out, e, run', d')"
    by (metis prod_cases4)
  have "map_option (\<lambda>_. ()) (fst (snd (deliver_stream (\<lambda>_. None) [''data: [DONE]'', [LF, LF]] None None 20 open_run open_prompt))) = None"
    by code_simp
  then have "e = None" using del by simp
  with delivered_stream_charges [OF open_prompt_inv _ _ _ opn o(1) _ del] del o(2) r
  show ?thesis by (simp add: open_run_def new_run_def)
qed

end
