(* ===== verification/Question_Forms.thy ===== *)
theory Question_Forms
  imports Prelude
begin

text \<open>
  The forms of question tasks (\<open>models/question_tasks.py\<close>): the enumerations, the pydantic
  forms with their field constraints and validators, and the scanner that finds the blanks of
  an instruction text. A validator takes the form as it was sent and returns the normalised
  form or the first error; a violated \<open>Field\<close> constraint is a \<open>FieldError\<close> naming the field.
\<close>

subsection \<open>Enumerations and forms\<close>

datatype question_type = SINGLE_CHOICE | MULTIPLE_SELECT | FILL_BLANK | FREE_TEXT

datatype grading_mode = AUTOMATIC | MANUAL | LLM_ASSISTED

datatype grading_strictness = LENIENT | BALANCED | STRICT

datatype question_task_status = QT_DRAFT | QT_PUBLISHED | QT_ARCHIVED

datatype question_clone_mode = VERSION | DUPLICATE

datatype grading_status = NOT_STARTED | AWAITING_REVIEW | G_PENDING | G_RUNNING | GRADED | G_FAILED

definition MAX_QUESTION_SCORE :: rat where
  "MAX_QUESTION_SCORE = 10000"

record choice_form =
  cf_id :: "string option"
  cf_text :: string
  cf_is_correct :: bool

record blank_form =
  bf_id :: "string option"
  bf_key :: string
  bf_accepted_answers :: "string list"

record question_form =
  qf_id :: "string option"
  qf_title :: string
  qf_description :: string
  qf_question_type :: question_type
  qf_max_score :: rat
  qf_grading_mode :: grading_mode
  qf_image_file_id :: "string option"
  qf_case_sensitive :: bool
  qf_choices :: "choice_form list"
  qf_blanks :: "blank_form list"
  qf_expected_answer :: "string option"
  qf_strictness :: "grading_strictness option"

record question_task_form =
  tf_title :: string
  tf_description :: string
  tf_questions :: "question_form list"

subsection \<open>Blank tokens\<close>

text \<open>
  \<open>BLANK_TOKEN.findall\<close> for \<open>{{name}}\<close>. The name's characters exclude the closing brace, so
  the greedy repetition never has to give a character back.
\<close>

definition is_alpha :: "char \<Rightarrow> bool" where
  "is_alpha c = (let n = (of_char c :: nat) in (65 \<le> n \<and> n \<le> 90) \<or> (97 \<le> n \<and> n \<le> 122))"

definition is_word :: "char \<Rightarrow> bool" where
  "is_word c = (is_alpha c \<or> (let n = (of_char c :: nat) in (48 \<le> n \<and> n \<le> 57) \<or> n = 95))"

definition is_key :: "string \<Rightarrow> bool" where
  "is_key k = (case k of [] \<Rightarrow> False | c # cs \<Rightarrow> is_alpha c \<and> list_all is_word cs)"

definition match_token :: "string \<Rightarrow> (string \<times> string) option" where
  "match_token s =
     (case s of
        a # b # c # cs \<Rightarrow>
          if a = CHR ''{'' \<and> b = CHR ''{'' \<and> is_alpha c then
            (case dropWhile is_word cs of
               x # y # rest \<Rightarrow>
                 if x = CHR ''}'' \<and> y = CHR ''}'' then Some (c # takeWhile is_word cs, rest) else None
             | _ \<Rightarrow> None)
          else None
      | _ \<Rightarrow> None)"

lemma match_token_split:
  "match_token s = Some (k, rest) \<Longrightarrow> s = ''{{'' @ k @ ''}}'' @ rest \<and> is_key k"
  by (auto simp: match_token_def is_key_def list_all_iff split: list.splits if_splits
      dest: set_takeWhileD)
     (metis takeWhile_dropWhile_id)+

lemma match_token_shorter: "match_token s = Some (k, rest) \<Longrightarrow> length rest < length s"
  by (drule match_token_split) simp

function find_tokens :: "string \<Rightarrow> string list" where
  "find_tokens s =
     (case match_token s of
        Some (k, rest) \<Rightarrow> k # find_tokens rest
      | None \<Rightarrow> (case s of [] \<Rightarrow> [] | _ # t \<Rightarrow> find_tokens t))"
  by pat_completeness auto
termination
  by (relation "measure length") (auto dest: match_token_shorter)

declare find_tokens.simps [simp del]

text \<open>
  The reference reading of an instruction text: literal text and tokens in turn. Printing such
  a list and scanning the result finds the tokens again, provided that no literal contains an
  opening brace.
\<close>

datatype piece = Lit string | Tok string

primrec print_piece :: "piece \<Rightarrow> string" where
  "print_piece (Lit s) = s"
| "print_piece (Tok k) = ''{{'' @ k @ ''}}''"

definition print_pieces :: "piece list \<Rightarrow> string" where
  "print_pieces ps = concat (map print_piece ps)"

fun tokens_of :: "piece list \<Rightarrow> string list" where
  "tokens_of [] = []"
| "tokens_of (Lit s # ps) = tokens_of ps"
| "tokens_of (Tok k # ps) = k # tokens_of ps"

fun piece_ok :: "piece \<Rightarrow> bool" where
  "piece_ok (Lit s) = (CHR ''{'' \<notin> set s)"
| "piece_ok (Tok k) = is_key k"

lemma is_word_brace [simp]: "\<not> is_word (CHR ''}'')"
  by (simp add: is_word_def is_alpha_def Let_def)

lemma match_token_print:
  assumes "is_key k" shows "match_token (''{{'' @ k @ ''}}'' @ rest) = Some (k, rest)"
proof -
  obtain c cs where k: "k = c # cs" "is_alpha c" "\<forall>x \<in> set cs. is_word x"
    using assms by (auto simp: is_key_def list_all_iff split: list.splits)
  have "dropWhile is_word (cs @ ''}}'' @ rest) = ''}}'' @ rest"
    and "takeWhile is_word (cs @ ''}}'' @ rest) = cs"
    using k(3) by (simp_all add: dropWhile_append2 takeWhile_append2)
  with k show ?thesis by (simp add: match_token_def)
qed

lemma find_tokens_skip: "c \<noteq> CHR ''{'' \<Longrightarrow> find_tokens (c # s) = find_tokens s"
  by (subst find_tokens.simps) (auto simp: match_token_def split: list.splits)

lemma find_tokens_literal: "CHR ''{'' \<notin> set s \<Longrightarrow> find_tokens (s @ t) = find_tokens t"
  by (induction s) (auto simp: find_tokens_skip)

lemma find_tokens_token:
  assumes "is_key k" shows "find_tokens (''{{'' @ k @ ''}}'' @ rest) = k # find_tokens rest"
  using match_token_print [OF assms, of rest] by (subst find_tokens.simps) simp

lemma find_tokens_Nil [simp]: "find_tokens [] = []"
  by (simp add: find_tokens.simps match_token_def)

lemma find_tokens_keys: "k \<in> set (find_tokens s) \<Longrightarrow> is_key k"
proof (induction s rule: find_tokens.induct)
  case (1 s)
  then show ?case
    by (subst (asm) find_tokens.simps)
       (auto split: option.splits list.splits dest: match_token_split)
qed

lemma find_tokens_print:
  "list_all piece_ok ps \<Longrightarrow> find_tokens (print_pieces ps) = tokens_of ps"
proof (induction ps rule: tokens_of.induct)
  case 1
  then show ?case by (simp add: print_pieces_def)
next
  case (2 s ps)
  then show ?case by (simp add: print_pieces_def find_tokens_literal)
next
  case (3 k ps)
  then show ?case using find_tokens_token [of k "print_pieces ps"] by (simp add: print_pieces_def)
qed

subsection \<open>Validators\<close>

definition strip_text :: "string \<Rightarrow> err + string" where
  "strip_text v =
     (let v = py_strip v in if v = [] then Inl (ValueError ''Choice text is required.'') else Inr v)"

definition validate_choice :: "choice_form \<Rightarrow> err + choice_form" where
  "validate_choice c =
     (if \<not> (1 \<le> length (cf_text c) \<and> length (cf_text c) \<le> 4000) then Inl (FieldError ''text'')
      else bindE (strip_text (cf_text c)) (\<lambda>t. Inr (c\<lparr>cf_text := t\<rparr>)))"

fun normalize_loop :: "string list \<Rightarrow> string list \<Rightarrow> string list" where
  "normalize_loop normalized [] = normalized"
| "normalize_loop normalized (v # vs) =
     (let v = py_strip v in
      normalize_loop (if v \<noteq> [] \<and> v \<notin> set normalized then normalized @ [v] else normalized) vs)"

definition normalize_answers :: "string list \<Rightarrow> err + string list" where
  "normalize_answers vs =
     (let normalized = normalize_loop [] vs in
      if normalized = [] then Inl (ValueError ''At least one accepted answer is required.'')
      else Inr normalized)"

definition validate_blank :: "blank_form \<Rightarrow> err + blank_form" where
  "validate_blank b =
     (if \<not> (is_key (bf_key b) \<and> length (bf_key b) \<le> 80) then Inl (FieldError ''key'')
      else if \<not> (1 \<le> length (bf_accepted_answers b) \<and> length (bf_accepted_answers b) \<le> 100)
      then Inl (FieldError ''accepted_answers'')
      else bindE (normalize_answers (bf_accepted_answers b)) (\<lambda>vs.
        Inr (b\<lparr>bf_accepted_answers := vs\<rparr>)))"

definition score_precision :: "rat \<Rightarrow> err + rat" where
  "score_precision v =
     (if of_int \<lfloor>v * 100\<rfloor> \<noteq> v * 100
      then Inl (ValueError ''Scores support at most two decimal places.'') else Inr v)"

definition validate_configuration :: "question_form \<Rightarrow> err + question_form" where
  "validate_configuration q =
     (case qf_question_type q of
        SINGLE_CHOICE \<Rightarrow>
          if length (qf_choices q) < 2 \<or> length (filter cf_is_correct (qf_choices q)) \<noteq> 1
          then Inl (ValueError ''Single-choice questions require at least two choices and exactly one correct choice.'')
          else if qf_grading_mode q \<notin> {AUTOMATIC, MANUAL}
          then Inl (ValueError ''Single-choice grading must be automatic or manual.'')
          else Inr q
      | MULTIPLE_SELECT \<Rightarrow>
          let correct = length (filter cf_is_correct (qf_choices q)) in
          if length (qf_choices q) < 2 \<or> correct < 1 \<or> correct = length (qf_choices q)
          then Inl (ValueError ''Multiple-select questions require at least one correct and one incorrect choice.'')
          else if qf_grading_mode q \<notin> {AUTOMATIC, MANUAL}
          then Inl (ValueError ''Multiple-select grading must be automatic or manual.'')
          else Inr q
      | FILL_BLANK \<Rightarrow>
          let keys = map bf_key (qf_blanks q); tokens = find_tokens (qf_description q) in
          if keys = [] \<or> \<not> distinct keys \<or> mset tokens \<noteq> mset keys
          then Inl (ValueError ''Every configured blank token must appear exactly once in the instructions.'')
          else if qf_grading_mode q \<notin> {AUTOMATIC, MANUAL}
          then Inl (ValueError ''Fill-in grading must be automatic or manual.'')
          else Inr q
      | FREE_TEXT \<Rightarrow>
          if qf_grading_mode q = AUTOMATIC
          then Inl (ValueError ''Free-text questions must use manual or LLM-assisted grading.'')
          else if qf_grading_mode q = LLM_ASSISTED then
            let expected = py_strip (or_str (qf_expected_answer q) []) in
            if expected = [] \<or> qf_strictness q = None
            then Inl (ValueError ''LLM-assisted grading requires an expected answer and strictness.'')
            else Inr (q\<lparr>qf_expected_answer := Some expected\<rparr>)
          else Inr q)"

definition validate_question :: "question_form \<Rightarrow> err + question_form" where
  "validate_question q =
     (if \<not> (1 \<le> length (qf_title q) \<and> length (qf_title q) \<le> 500) then Inl (FieldError ''title'')
      else if 20000 < length (qf_description q) then Inl (FieldError ''description'')
      else if \<not> (0 < qf_max_score q \<and> qf_max_score q \<le> MAX_QUESTION_SCORE)
      then Inl (FieldError ''max_score'')
      else bindE (score_precision (qf_max_score q)) (\<lambda>score.
        if 100 < length (qf_choices q) then Inl (FieldError ''choices'')
        else bindE (mapE validate_choice (qf_choices q)) (\<lambda>cs.
          if 100 < length (qf_blanks q) then Inl (FieldError ''blanks'')
          else bindE (mapE validate_blank (qf_blanks q)) (\<lambda>bs.
            if (case qf_expected_answer q of None \<Rightarrow> False | Some e \<Rightarrow> 20000 < length e)
            then Inl (FieldError ''expected_answer'')
            else validate_configuration (q\<lparr>
              qf_title := py_strip (qf_title q),
              qf_description := py_strip (qf_description q),
              qf_choices := cs, qf_blanks := bs\<rparr>)))))"

definition validate_question_task :: "question_task_form \<Rightarrow> err + question_task_form" where
  "validate_question_task f =
     (if \<not> (1 \<le> length (tf_title f) \<and> length (tf_title f) \<le> 500) then Inl (FieldError ''title'')
      else if 20000 < length (tf_description f) then Inl (FieldError ''description'')
      else if 500 < length (tf_questions f) then Inl (FieldError ''questions'')
      else bindE (mapE validate_question (tf_questions f)) (\<lambda>qs.
        Inr (f\<lparr>tf_title := py_strip (tf_title f), tf_description := py_strip (tf_description f),
               tf_questions := qs\<rparr>)))"

subsection \<open>What validation establishes\<close>

lemma normalize_loop_spec:
  "distinct acc \<Longrightarrow> distinct (normalize_loop acc vs) \<and>
   set (normalize_loop acc vs) = set acc \<union> (py_strip ` set vs - {[]})"
  by (induction vs arbitrary: acc) (auto simp: Let_def)

lemma normalize_answers_ok:
  assumes "normalize_answers vs = Inr ws"
  shows "ws \<noteq> [] \<and> distinct ws \<and> set ws = py_strip ` set vs - {[]}"
  using assms normalize_loop_spec [of "[]" vs]
  by (auto simp: normalize_answers_def Let_def split: if_splits)

lemma normalize_loop_stripped:
  assumes "\<forall>v \<in> set vs. py_strip v = v \<and> v \<noteq> []" and "distinct (acc @ vs)"
  shows "normalize_loop acc vs = acc @ vs"
  using assms by (induction vs arbitrary: acc) (auto simp: Let_def)

text \<open>The answers a validator returned pass it again unchanged.\<close>

lemma normalize_answers_idem:
  assumes "normalize_answers vs = Inr ws" shows "normalize_answers ws = Inr ws"
proof -
  note ok = normalize_answers_ok [OF assms]
  have "normalize_loop [] ws = ws"
    by (rule normalize_loop_stripped [of ws "[]", simplified]) (use ok in auto)
  with ok show ?thesis by (simp add: normalize_answers_def)
qed

text \<open>The content of a validated question, and what each question type guarantees.\<close>

definition choice_form_ok :: "choice_form \<Rightarrow> bool" where
  "choice_form_ok c \<longleftrightarrow> cf_text c \<noteq> [] \<and> py_strip (cf_text c) = cf_text c \<and> length (cf_text c) \<le> 4000"

definition blank_form_ok :: "blank_form \<Rightarrow> bool" where
  "blank_form_ok b \<longleftrightarrow> is_key (bf_key b) \<and> length (bf_key b) \<le> 80 \<and> bf_accepted_answers b \<noteq> [] \<and>
     distinct (bf_accepted_answers b) \<and> list_all (\<lambda>a. a \<noteq> [] \<and> py_strip a = a) (bf_accepted_answers b)"

definition configuration_ok :: "question_form \<Rightarrow> bool" where
  "configuration_ok q \<longleftrightarrow>
     (case qf_question_type q of
        SINGLE_CHOICE \<Rightarrow> 2 \<le> length (qf_choices q) \<and>
          length (filter cf_is_correct (qf_choices q)) = 1 \<and> qf_grading_mode q \<noteq> LLM_ASSISTED
      | MULTIPLE_SELECT \<Rightarrow> filter cf_is_correct (qf_choices q) \<noteq> [] \<and>
          filter (\<lambda>c. \<not> cf_is_correct c) (qf_choices q) \<noteq> [] \<and> qf_grading_mode q \<noteq> LLM_ASSISTED
      | FILL_BLANK \<Rightarrow> qf_blanks q \<noteq> [] \<and> distinct (map bf_key (qf_blanks q)) \<and>
          mset (find_tokens (qf_description q)) = mset (map bf_key (qf_blanks q)) \<and>
          qf_grading_mode q \<noteq> LLM_ASSISTED
      | FREE_TEXT \<Rightarrow> qf_grading_mode q \<noteq> AUTOMATIC \<and>
          (qf_grading_mode q = LLM_ASSISTED \<longrightarrow>
             truthy_str (qf_expected_answer q) \<and> qf_strictness q \<noteq> None))"

definition question_form_ok :: "question_form \<Rightarrow> bool" where
  "question_form_ok q \<longleftrightarrow>
     0 < qf_max_score q \<and> qf_max_score q \<le> MAX_QUESTION_SCORE \<and>
     of_int \<lfloor>qf_max_score q * 100\<rfloor> = qf_max_score q * 100 \<and>
     length (qf_choices q) \<le> 100 \<and> length (qf_blanks q) \<le> 100 \<and>
     list_all choice_form_ok (qf_choices q) \<and> list_all blank_form_ok (qf_blanks q) \<and>
     configuration_ok q"

lemma mode_cases: "m \<noteq> LLM_ASSISTED \<longleftrightarrow> m \<in> {AUTOMATIC, MANUAL}"
  by (cases m) auto

lemma validate_choice_ok: "validate_choice c = Inr c' \<Longrightarrow> choice_form_ok c'"
  using length_py_strip [of "cf_text c"]
  by (auto simp: validate_choice_def strip_text_def choice_form_ok_def Let_def split: if_splits)

lemma validate_blank_ok: "validate_blank b = Inr b' \<Longrightarrow> blank_form_ok b'"
  by (auto simp: validate_blank_def blank_form_ok_def bindE_Inr_iff list_all_iff
      split: if_splits dest!: normalize_answers_ok)

lemma filter_complement: "length (filter P xs) \<noteq> length xs \<longleftrightarrow> filter (\<lambda>x. \<not> P x) xs \<noteq> []"
  using sum_length_filter_compl [of P xs] by auto

lemma validate_configuration_ok:
  assumes "validate_configuration q = Inr q'"
  shows "configuration_ok q' \<and> (\<exists>e. q' = q\<lparr>qf_expected_answer := e\<rparr>)"
proof
  show "\<exists>e. q' = q\<lparr>qf_expected_answer := e\<rparr>"
    using assms by (cases q) (auto simp: validate_configuration_def Let_def
        split: question_type.splits if_splits)
  show "configuration_ok q'"
  proof (cases "qf_question_type q")
    case MULTIPLE_SELECT
    with assms show ?thesis
      by (auto simp: validate_configuration_def configuration_ok_def Let_def mode_cases
          filter_complement split: if_splits)
  qed (use assms in \<open>auto simp: validate_configuration_def configuration_ok_def Let_def mode_cases
      split: if_splits\<close>)
qed

lemma mapE_all: "mapE f xs = Inr ys \<Longrightarrow> (\<And>x y. f x = Inr y \<Longrightarrow> P y) \<Longrightarrow> list_all P ys"
  by (drule mapE_Inr_list_all2) (auto simp: list_all2_conv_all_nth list_all_length)

lemma validate_question_ok: "validate_question q = Inr q' \<Longrightarrow> question_form_ok q'"
  by (auto simp: validate_question_def bindE_Inr_iff score_precision_def question_form_ok_def
      validate_choice_ok validate_blank_ok mapE_length split: if_splits
      dest!: validate_configuration_ok intro: mapE_all dest: arg_cong [where f = configuration_ok])

lemma validate_question_task_ok:
  "validate_question_task f = Inr f' \<Longrightarrow> list_all question_form_ok (tf_questions f')"
  by (auto simp: validate_question_task_def bindE_Inr_iff validate_question_ok
      split: if_splits intro: mapE_all)

end
