(* ===== verification/Decimal_Arith.thy ===== *)
theory Decimal_Arith
  imports Prelude
begin

text \<open>
  The part of Python's \<open>decimal\<close> the scores use: values are rationals, the arithmetic
  operators round their exact result to 28 significant digits, half to even (the default
  context), and \<open>quantize(Decimal('0.01'), ROUND_HALF_UP)\<close> rounds to cents. Exponent limits are
  not modelled: the scores stay far inside them.
\<close>

fun ndigits :: "nat \<Rightarrow> nat" where
  "ndigits n = (if n = 0 then 0 else Suc (ndigits (n div 10)))"

declare ndigits.simps [simp del]

lemma less_power_ndigits: "n < 10 ^ k \<longleftrightarrow> ndigits n \<le> k"
proof (induction n arbitrary: k rule: ndigits.induct)
  case (1 n)
  show ?case
  proof (cases "n = 0")
    case True
    then show ?thesis by (simp add: ndigits.simps)
  next
    case False
    show ?thesis
    proof (cases k)
      case 0
      with False show ?thesis by (simp add: ndigits.simps [of n])
    next
      case (Suc j)
      have "n < 10 ^ k \<longleftrightarrow> n div 10 < 10 ^ j" using Suc by (simp add: div_less_iff_less_mult mult.commute)
      with 1 [OF False, of j] False Suc show ?thesis by (simp add: ndigits.simps [of n])
    qed
  qed
qed

text \<open>The adjusted exponent of a positive value: \<open>10 powi e \<le> x < 10 powi (e + 1)\<close>.\<close>

definition dec_exp :: "rat \<Rightarrow> int" where
  "dec_exp x =
     (if x \<ge> 1 then int (ndigits (nat \<lfloor>x\<rfloor>)) - 1 else - int (ndigits (nat (\<lceil>1 / x\<rceil> - 1))))"

definition round_half_even :: "rat \<Rightarrow> int" where
  "round_half_even x =
     (let f = \<lfloor>x\<rfloor>; r = x - of_int f in
      if r < 1 / 2 then f else if r > 1 / 2 then f + 1 else if even f then f else f + 1)"

definition dec_quantum :: "rat \<Rightarrow> rat" where
  "dec_quantum x = 10 powi (dec_exp \<bar>x\<bar> - 27)"

definition dec_round :: "rat \<Rightarrow> rat" where
  "dec_round x = (if x = 0 then 0 else of_int (round_half_even (x / dec_quantum x)) * dec_quantum x)"

definition dec_add :: "rat \<Rightarrow> rat \<Rightarrow> rat" where
  "dec_add a b = dec_round (a + b)"

definition dec_sub :: "rat \<Rightarrow> rat \<Rightarrow> rat" where
  "dec_sub a b = dec_round (a - b)"

definition dec_mul :: "rat \<Rightarrow> rat \<Rightarrow> rat" where
  "dec_mul a b = dec_round (a * b)"

definition dec_div :: "rat \<Rightarrow> rat \<Rightarrow> err + rat" where
  "dec_div a b =
     (if b = 0 then Inl (if a = 0 then InvalidOperation else ZeroDivisionError)
      else Inr (dec_round (a / b)))"

text \<open>\<open>quantize\<close> signals \<open>InvalidOperation\<close> when the result has more than 28 digits.\<close>

definition quantize_cents :: "rat \<Rightarrow> err + rat" where
  "quantize_cents v =
     (let m = (if v \<ge> 0 then \<lfloor>v * 100 + 1 / 2\<rfloor> else - \<lfloor>- v * 100 + 1 / 2\<rfloor>) in
      if \<bar>m\<bar> < 10 ^ 28 then Inr (of_int m / 100) else Inl InvalidOperation)"

definition is_cents :: "rat \<Rightarrow> bool" where
  "is_cents v \<longleftrightarrow> of_int \<lfloor>v * 100\<rfloor> = v * 100"

subsection \<open>Bounds\<close>

lemma dec_exp_lt:
  assumes "0 < x" "x < 10 ^ k" "0 < k"
  shows "dec_exp x < int k"
proof (cases "x \<ge> 1")
  case True
  have "nat \<lfloor>x\<rfloor> < 10 ^ k"
    using assms True by (simp add: nat_less_iff floor_less_iff)
  then have "ndigits (nat \<lfloor>x\<rfloor>) \<le> k" by (simp add: less_power_ndigits)
  with True show ?thesis by (simp add: dec_exp_def)
qed (use assms in \<open>simp add: dec_exp_def\<close>)

lemma dec_exp_nonpos: "0 < x \<Longrightarrow> x < 1 \<Longrightarrow> dec_exp x \<le> 0"
  by (simp add: dec_exp_def)

lemma round_half_even_le: "x \<le> of_int n \<Longrightarrow> round_half_even x \<le> n"
proof -
  assume h: "x \<le> of_int n"
  show ?thesis
  proof (cases "\<lfloor>x\<rfloor> = n")
    case True
    with h have "x = of_int n" by (metis antisym floor_le_iff of_int_floor_le)
    then show ?thesis by (simp add: round_half_even_def)
  next
    case False
    with h have "\<lfloor>x\<rfloor> < n" by (metis floor_mono floor_of_int order_le_imp_less_or_eq)
    then show ?thesis by (simp add: round_half_even_def Let_def)
  qed
qed

lemma round_half_even_ge: "of_int n \<le> x \<Longrightarrow> n \<le> round_half_even x"
proof -
  assume "of_int n \<le> x"
  then have "n \<le> \<lfloor>x\<rfloor>" by (simp add: le_floor_iff)
  then show ?thesis by (auto simp: round_half_even_def Let_def)
qed

lemma round_half_even_of_int [simp]: "round_half_even (of_int n) = n"
  by (simp add: round_half_even_def)

lemma round_half_even_error: "\<bar>of_int (round_half_even x) - x\<bar> \<le> 1 / 2"
proof -
  have "0 \<le> x - of_int \<lfloor>x\<rfloor>" "x - of_int \<lfloor>x\<rfloor> < 1"
    by (simp, linarith)
  then show ?thesis by (auto simp: round_half_even_def Let_def abs_le_iff)
qed

lemma dec_quantum_pos [simp]: "0 < dec_quantum x"
  by (simp add: dec_quantum_def)

lemma dec_round_nonneg: "0 \<le> x \<Longrightarrow> 0 \<le> dec_round x"
  using round_half_even_ge [of 0 "x / dec_quantum x"] dec_quantum_pos [of x]
  by (auto simp: dec_round_def less_imp_le)

lemma dec_round_error: "\<bar>dec_round x - x\<bar> \<le> dec_quantum x / 2"
proof (cases "x = 0")
  case True
  then show ?thesis by (simp add: dec_round_def less_imp_le)
next
  case False
  have q: "0 < dec_quantum x" by simp
  have "dec_round x - x = (of_int (round_half_even (x / dec_quantum x)) - x / dec_quantum x) * dec_quantum x"
    using False q less_imp_neq [OF q] by (simp add: dec_round_def left_diff_distrib)
  then have "\<bar>dec_round x - x\<bar> = \<bar>of_int (round_half_even (x / dec_quantum x)) - x / dec_quantum x\<bar> * dec_quantum x"
    using q by (simp only: abs_mult abs_of_pos)
  also have "\<dots> \<le> 1 / 2 * dec_quantum x"
    by (intro mult_right_mono round_half_even_error) (simp add: less_imp_le)
  finally show ?thesis by simp
qed

lemma dec_round_le:
  assumes "x \<le> y" and "0 < x" and y: "y = of_int n * dec_quantum x"
  shows "dec_round x \<le> y"
proof -
  have "x / dec_quantum x \<le> of_int n"
    using assms by (simp add: pos_divide_le_eq)
  then have "round_half_even (x / dec_quantum x) \<le> n" by (rule round_half_even_le)
  then show ?thesis
    using assms by (simp add: dec_round_def mult_right_mono less_imp_le)
qed

text \<open>A multiple of a cent is a multiple of the quantum of every value below \<open>10 ^ 25\<close>.\<close>

lemma cents_multiple:
  assumes "is_cents y" "0 < x" "x < 10 ^ 25"
  shows "\<exists>n. y = of_int n * dec_quantum x"
proof -
  have e: "dec_exp x \<le> 24" using dec_exp_lt [of x 25] assms by simp
  define j where "j = nat (25 - dec_exp x)"
  have j: "dec_exp x - 27 = - int (j + 2)" using e by (simp add: j_def)
  have "dec_quantum x * 10 ^ (j + 2) = 1"
  proof -
    have "dec_exp \<bar>x\<bar> - 27 = - int (j + 2)" using j assms(2) by simp
    then show ?thesis unfolding dec_quantum_def by (simp only: power_int_minus power_int_of_nat) simp
  qed
  then have "y = y * (dec_quantum x * (100 * 10 ^ j))" by (simp add: power_add mult.commute mult.left_commute)
  also have "\<dots> = (y * 100) * 10 ^ j * dec_quantum x" by (simp add: algebra_simps)
  also have "\<dots> = of_int (\<lfloor>y * 100\<rfloor> * 10 ^ j) * dec_quantum x"
    using assms(1) by (simp only: is_cents_def of_int_mult of_int_power of_int_numeral)
  finally show ?thesis by blast
qed

lemma one_multiple:
  assumes "0 < x" "x < 10 ^ 25"
  shows "\<exists>n. 1 = of_int n * dec_quantum x"
  by (rule cents_multiple) (use assms in \<open>simp_all add: is_cents_def\<close>)

lemma dec_round_le_cents:
  assumes "0 \<le> x" "x \<le> y" "is_cents y" "y < 10 ^ 25"
  shows "dec_round x \<le> y"
proof (cases "x = 0")
  case True
  with assms show ?thesis by (simp add: dec_round_def)
next
  case False
  then have x: "0 < x" "x < 10 ^ 25" using assms by auto
  obtain n where "y = of_int n * dec_quantum x" using cents_multiple [OF assms(3) x] by blast
  with assms x show ?thesis by (intro dec_round_le) auto
qed

text \<open>A multiple of a cent is left alone by every rounding.\<close>

lemma dec_round_cents [simp]:
  assumes "is_cents x" "0 \<le> x" "x < 10 ^ 25"
  shows "dec_round x = x"
proof (cases "x = 0")
  case True
  then show ?thesis by (simp add: dec_round_def)
next
  case False
  with assms obtain n where n: "x = of_int n * dec_quantum x" using cents_multiple [of x x] by auto
  have "dec_quantum x \<noteq> 0" using dec_quantum_pos [of x] by linarith
  then have "x / dec_quantum x = of_int n" using n by (metis nonzero_mult_div_cancel_right)
  with n False show ?thesis by (simp add: dec_round_def)
qed

lemma dec_round_nonpos: "x \<le> 0 \<Longrightarrow> dec_round x \<le> 0"
proof -
  assume "x \<le> 0"
  then have "x / dec_quantum x \<le> of_int 0"
    using dec_quantum_pos [of x] by (simp add: divide_nonpos_pos)
  then have "round_half_even (x / dec_quantum x) \<le> 0" by (rule round_half_even_le)
  then show ?thesis
    using dec_quantum_pos [of x] by (auto simp: dec_round_def mult_nonpos_nonneg less_imp_le)
qed

lemma dec_quantum_le:
  assumes "x \<noteq> 0" "\<bar>x\<bar> < 10 ^ k" "k \<le> 27" "0 < k"
  shows "dec_quantum x \<le> 1 / 10 ^ (28 - k)"
proof -
  have "dec_exp \<bar>x\<bar> < int k" by (rule dec_exp_lt) (use assms in auto)
  then have "dec_exp \<bar>x\<bar> - 27 \<le> - int (28 - k)" using assms(3) by simp
  then have "dec_quantum x \<le> 10 powi (- int (28 - k))"
    unfolding dec_quantum_def by (intro power_int_increasing) auto
  then show ?thesis by (simp only: power_int_minus power_int_of_nat inverse_eq_divide)
qed

lemma dec_round_close:
  assumes "\<bar>x\<bar> < 10 ^ k" "k \<le> 27" "0 < k"
  shows "\<bar>dec_round x - x\<bar> \<le> 1 / (2 * 10 ^ (28 - k))"
proof (cases "x = 0")
  case True
  then show ?thesis by (simp add: dec_round_def)
next
  case False
  have "\<bar>dec_round x - x\<bar> \<le> dec_quantum x / 2" by (rule dec_round_error)
  also have "\<dots> \<le> 1 / 10 ^ (28 - k) / 2"
    by (intro divide_right_mono dec_quantum_le) (use False assms in auto)
  finally show ?thesis by simp
qed

lemma is_cents_iff: "is_cents x \<longleftrightarrow> (\<exists>n. x * 100 = of_int n)"
  unfolding is_cents_def by (metis floor_of_int)

lemma is_cents_simps [simp]: "is_cents 0" "is_cents 1" "is_cents (of_int n)" "is_cents (of_nat k)"
proof -
  have "is_cents (of_int n)" for n
    using floor_of_int [of "n * 100", where 'a = rat] by (simp add: is_cents_def)
  from this [of 0] this [of 1] this [of n] this [of "int k"]
  show "is_cents 0" "is_cents 1" "is_cents (of_int n)" "is_cents (of_nat k)" by simp_all
qed

lemma dec_div_unit:
  assumes "a \<le> b" "0 < b"
  shows "\<exists>c. dec_div (of_nat a) (of_nat b) = Inr c \<and> 0 \<le> c \<and> c \<le> 1"
proof -
  have "0 \<le> (of_nat a / of_nat b :: rat)" "(of_nat a / of_nat b :: rat) \<le> 1"
    using assms by simp_all
  with assms show ?thesis
    by (simp add: dec_div_def dec_round_nonneg dec_round_le_cents)
qed

lemma quantize_cents_nonneg:
  assumes "0 \<le> v" "v \<le> m" "is_cents m" "m \<le> 10 ^ 20"
  shows "\<exists>s. quantize_cents v = Inr s \<and> 0 \<le> s \<and> s \<le> m \<and> is_cents s \<and> \<bar>s - v\<bar> \<le> 1 / 200"
proof -
  define k where "k = \<lfloor>v * 100 + 1 / 2\<rfloor>"
  have m: "of_int \<lfloor>m * 100\<rfloor> = m * 100" using assms(3) by (simp add: is_cents_def)
  have k0: "0 \<le> k" using assms by (simp add: k_def le_floor_iff)
  have "v * 100 + 1 / 2 < of_int (\<lfloor>m * 100\<rfloor> + 1)"
    using assms(2) unfolding of_int_add m by simp
  then have "k < \<lfloor>m * 100\<rfloor> + 1" unfolding k_def by (simp only: floor_less_iff)
  then have km: "k \<le> \<lfloor>m * 100\<rfloor>" by simp
  have "\<lfloor>m * 100\<rfloor> \<le> 10 ^ 22"
    using assms(4) by (simp add: floor_le_iff)
  with km have "k \<le> 10 ^ 22" by (rule order_trans)
  with k0 have small: "\<bar>k\<bar> < 10 ^ 28" by simp
  have err: "\<bar>of_int k / 100 - v\<bar> \<le> 1 / 200"
  proof -
    have "of_int k \<le> v * 100 + 1 / 2" "v * 100 + 1 / 2 < of_int k + 1"
      unfolding k_def by (rule of_int_floor_le, rule floor_correct [THEN conjunct2, simplified])
    then show ?thesis unfolding abs_le_iff by linarith
  qed
  have "(of_int k :: rat) \<le> m * 100" using km m by (metis of_int_le_iff)
  then have le: "of_int k / 100 \<le> m" by simp
  have "quantize_cents v = Inr (of_int k / 100)"
    using small assms(1) by (simp add: quantize_cents_def k_def)
  moreover have "is_cents (of_int k / 100)" by (simp add: is_cents_def)
  moreover have "0 \<le> (of_int k / 100 :: rat)" using k0 by simp
  ultimately show ?thesis using le err by blast
qed

end
