(* ===== verification/Question_Grade.thy ===== *)
theory Question_Grade
  imports Decimal_Arith
begin

text \<open>
  Automatic grading (\<open>models/question_tasks.py\<close>, \<open>score_value\<close> to \<open>grade_fill_blanks\<close>). A set of
  identifiers is a set, a dictionary the list of its items in insertion order with distinct
  keys. Every grade is computed with the \<open>decimal\<close> arithmetic of \<open>Decimal_Arith\<close>, so a grade can
  raise (a division by zero, a quantized value of more than 28 digits).
\<close>

definition score_value :: "rat \<Rightarrow> err + rat" where
  "score_value v = quantize_cents (max 0 v)"

definition grade_single_choice :: "rat \<Rightarrow> string set \<Rightarrow> string \<Rightarrow> err + rat" where
  "grade_single_choice max_score selected_ids correct_id =
     score_value (if selected_ids = {correct_id} then max_score else 0)"

definition grade_multiple_select ::
    "rat \<Rightarrow> string set \<Rightarrow> string set \<Rightarrow> string set \<Rightarrow> err + rat" where
  "grade_multiple_select max_score selected_ids correct_ids all_ids =
     (let incorrect_ids = all_ids - correct_ids in
      bindE (dec_div (of_nat (card (selected_ids \<inter> correct_ids))) (of_nat (card correct_ids))) (\<lambda>credit.
      bindE (dec_div (of_nat (card (selected_ids \<inter> incorrect_ids))) (of_nat (card incorrect_ids))) (\<lambda>penalty.
        score_value (dec_mul max_score (max 0 (dec_sub credit penalty))))))"

text \<open>
  \<open>str.casefold\<close> on code points up to 255. The micro sign, which folds to a Greek letter
  outside that range, is kept: no other character folds to it, so folded strings are equal in
  the model exactly when they are equal in Python.
\<close>

definition fold_char :: "char \<Rightarrow> string" where
  "fold_char c =
     (let n = (of_char c :: nat) in
      if n = 223 then ''ss''
      else if (65 \<le> n \<and> n \<le> 90) \<or> (192 \<le> n \<and> n \<le> 222 \<and> n \<noteq> 215) then [char_of (n + 32)]
      else [c])"

definition casefold :: "string \<Rightarrow> string" where
  "casefold s = concat (map fold_char s)"

definition normalize_blank :: "string \<Rightarrow> bool \<Rightarrow> string" where
  "normalize_blank v case_sensitive =
     (let v = py_strip v in if case_sensitive then v else casefold v)"

definition dict_get :: "'k \<Rightarrow> 'v \<Rightarrow> ('k \<times> 'v) list \<Rightarrow> 'v" where
  "dict_get k d items = (case map_of items k of None \<Rightarrow> d | Some v \<Rightarrow> v)"

definition blank_matches :: "(string \<times> string) list \<Rightarrow> bool \<Rightarrow> string \<times> string list \<Rightarrow> bool" where
  "blank_matches answers case_sensitive =
     (\<lambda>(blank_id, candidates).
        let supplied = normalize_blank (dict_get blank_id [] answers) case_sensitive in
        supplied \<noteq> [] \<and> supplied \<in> set (map (\<lambda>c. normalize_blank c case_sensitive) candidates))"

definition grade_fill_blanks ::
    "rat \<Rightarrow> (string \<times> string) list \<Rightarrow> (string \<times> string list) list \<Rightarrow> bool \<Rightarrow> err + rat" where
  "grade_fill_blanks max_score answers accepted case_sensitive =
     (let correct = length (filter (blank_matches answers case_sensitive) accepted) in
      bindE (dec_div (dec_mul max_score (of_nat correct)) (of_nat (length accepted))) score_value)"

subsection \<open>The grader interface\<close>

text \<open>
  What the submission component relies on: for a valid maximum (a positive number of cents up
  to the form's bound) and a gradable answer the grade exists, is a number of cents between 0
  and the maximum, is the maximum on an ideal answer and 0 on a hopeless one.
\<close>

definition score_ok :: "rat \<Rightarrow> bool" where
  "score_ok m \<longleftrightarrow> 0 < m \<and> m \<le> 10000 \<and> is_cents m"

locale grader =
  fixes grade :: "rat \<Rightarrow> 'a \<Rightarrow> err + rat"
    and gradable :: "'a \<Rightarrow> bool"
    and ideal :: "'a \<Rightarrow> bool"
    and hopeless :: "'a \<Rightarrow> bool"
  assumes grade_bounds: "score_ok m \<Longrightarrow> gradable a \<Longrightarrow>
      \<exists>s. grade m a = Inr s \<and> 0 \<le> s \<and> s \<le> m \<and> is_cents s"
    and grade_ideal: "score_ok m \<Longrightarrow> gradable a \<Longrightarrow> ideal a \<Longrightarrow> grade m a = Inr m"
    and grade_hopeless: "score_ok m \<Longrightarrow> gradable a \<Longrightarrow> hopeless a \<Longrightarrow> grade m a = Inr 0"
begin

lemma never_both: "score_ok m \<Longrightarrow> gradable a \<Longrightarrow> \<not> (ideal a \<and> hopeless a)"
  using grade_ideal grade_hopeless by (fastforce simp: score_ok_def)

text \<open>The grades of a whole paper.\<close>

lemma grade_all:
  assumes "list_all (\<lambda>(m, a). score_ok m \<and> gradable a) qs"
  shows "\<exists>ss. mapE (\<lambda>(m, a). grade m a) qs = Inr ss \<and> 0 \<le> sum_list ss \<and>
           sum_list ss \<le> sum_list (map fst qs)"
  using assms
proof (induction qs)
  case Nil
  then show ?case by simp
next
  case (Cons q qs)
  obtain m a where q: "q = (m, a)" by force
  obtain s where "grade m a = Inr s" "0 \<le> s" "s \<le> m"
    using grade_bounds [of m a] Cons.prems q by auto
  moreover obtain ss where "mapE (\<lambda>(m, a). grade m a) qs = Inr ss" "0 \<le> sum_list ss"
      "sum_list ss \<le> sum_list (map fst qs)"
    using Cons by auto
  ultimately show ?case by (simp add: q)
qed

end

subsection \<open>The three graders\<close>

lemma quantize_cents_id: "is_cents v \<Longrightarrow> 0 \<le> v \<Longrightarrow> v \<le> 10 ^ 20 \<Longrightarrow> quantize_cents v = Inr v"
proof -
  assume h: "is_cents v" "0 \<le> v" "v \<le> 10 ^ 20"
  then obtain k where k: "v * 100 = of_int k" by (metis is_cents_def)
  have "\<lfloor>of_int k + 1 / 2 :: rat\<rfloor> = k" by (simp add: floor_unique)
  moreover have "0 \<le> k" using h(2) k by (metis mult_nonneg_nonneg of_int_0_le_iff zero_le_numeral)
  moreover have "(of_int k :: rat) \<le> of_int (10 ^ 22)" using h(3) k by simp
  then have "k \<le> 10 ^ 22" by (simp only: of_int_le_iff)
  ultimately have "quantize_cents v = Inr (of_int k / 100)"
    using h(2) k by (simp add: quantize_cents_def)
  also have "of_int k / 100 = v" using k by (simp add: field_simps)
  finally show ?thesis .
qed

lemma score_value_cents: "is_cents v \<Longrightarrow> 0 \<le> v \<Longrightarrow> v \<le> 10 ^ 20 \<Longrightarrow> score_value v = Inr v"
  by (simp add: score_value_def max_def quantize_cents_id)

lemma score_ok_cents: "score_ok m \<Longrightarrow> score_value m = Inr m"
  by (rule score_value_cents) (auto simp: score_ok_def)

lemma score_zero [simp]: "score_value 0 = Inr 0"
  by (rule score_value_cents) simp_all

lemma score_value_bounds:
  assumes "0 \<le> v" "v \<le> m" "score_ok m"
  shows "\<exists>s. score_value v = Inr s \<and> 0 \<le> s \<and> s \<le> m \<and> is_cents s \<and> \<bar>s - v\<bar> \<le> 1 / 200"
  using quantize_cents_nonneg [of v m] assms by (simp add: score_value_def score_ok_def max_def)

lemma scaled_bounds:
  assumes "score_ok m" "0 \<le> f" "f \<le> 1"
  shows "0 \<le> dec_mul m f" and "dec_mul m f \<le> m"
proof -
  from assms have "0 \<le> m * f" "m * f \<le> m" by (simp_all add: score_ok_def mult_left_le)
  then show "0 \<le> dec_mul m f" "dec_mul m f \<le> m"
    using assms by (auto simp: dec_mul_def score_ok_def intro: dec_round_nonneg dec_round_le_cents)
qed

lemma dec_div_frac:
  assumes "a \<le> b" "0 < b"
  shows "dec_div (of_nat a) (of_nat b) = Inr (dec_round (of_nat a / of_nat b))"
    and "0 \<le> dec_round (of_nat a / of_nat b)" and "dec_round (of_nat a / of_nat b) \<le> 1"
proof -
  have "0 \<le> (of_nat a / of_nat b :: rat)" "(of_nat a / of_nat b :: rat) \<le> 1"
    using assms by simp_all
  with assms show "dec_div (of_nat a) (of_nat b) = Inr (dec_round (of_nat a / of_nat b))"
    "0 \<le> dec_round (of_nat a / of_nat b)" "dec_round (of_nat a / of_nat b) \<le> 1"
    by (simp_all add: dec_div_def dec_round_nonneg dec_round_le_cents)
qed

lemma single_choice_value:
  "score_ok m \<Longrightarrow> grade_single_choice m selected c = Inr (if selected = {c} then m else 0)"
  by (simp add: grade_single_choice_def score_ok_cents)

interpretation single: grader
  "\<lambda>m (selected, correct). grade_single_choice m selected correct"
  "\<lambda>_. True"
  "\<lambda>(selected, correct). selected = {correct}"
  "\<lambda>(selected, correct). selected \<noteq> {correct}"
proof
  fix m and a :: "string set \<times> string" assume m: "score_ok m"
  obtain selected correct where [simp]: "a = (selected, correct)" by (cases a)
  show "\<exists>s. (case a of (selected, correct) \<Rightarrow> grade_single_choice m selected correct) = Inr s \<and>
      0 \<le> s \<and> s \<le> m \<and> is_cents s"
    using m by (simp add: single_choice_value [OF m]) (simp add: score_ok_def)
  { assume "case a of (selected, correct) \<Rightarrow> selected = {correct}"
    then show "(case a of (selected, correct) \<Rightarrow> grade_single_choice m selected correct) = Inr m"
      by (simp add: single_choice_value [OF m]) }
  { assume "case a of (selected, correct) \<Rightarrow> selected \<noteq> {correct}"
    then show "(case a of (selected, correct) \<Rightarrow> grade_single_choice m selected correct) = Inr 0"
      by (simp add: single_choice_value [OF m]) }
qed

definition selectable :: "string set \<times> string set \<times> string set \<Rightarrow> bool" where
  "selectable = (\<lambda>(selected, correct, all). finite all \<and> correct \<subseteq> all \<and> correct \<noteq> {} \<and> correct \<noteq> all)"

text \<open>The value the two divisions leave for \<open>score_value\<close>.\<close>

definition select_factor :: "string set \<Rightarrow> string set \<Rightarrow> string set \<Rightarrow> rat" where
  "select_factor selected correct all =
     max 0 (dec_sub (dec_round (of_nat (card (selected \<inter> correct)) / of_nat (card correct)))
                    (dec_round (of_nat (card (selected \<inter> (all - correct))) / of_nat (card (all - correct)))))"

lemma card_inter:
  assumes "finite c" "c \<noteq> {}" shows "card (s \<inter> c) \<le> card c" and "0 < card c"
  using assms by (auto intro: card_mono)

lemma multiple_select_value:
  assumes "selectable (selected, correct, all)"
  shows "grade_multiple_select m selected correct all =
           score_value (dec_mul m (select_factor selected correct all))"
    and "0 \<le> select_factor selected correct all" and "select_factor selected correct all \<le> 1"
proof -
  have c: "finite correct" "correct \<noteq> {}" "finite (all - correct)" "all - correct \<noteq> {}"
    using assms by (auto simp: selectable_def intro: finite_subset)
  note credit = dec_div_frac [OF card_inter [OF c(1,2)], of selected]
  note penalty = dec_div_frac [OF card_inter [OF c(3,4)], of selected]
  show "grade_multiple_select m selected correct all =
      score_value (dec_mul m (select_factor selected correct all))"
    by (simp only: grade_multiple_select_def Let_def credit(1) penalty(1) bindE_simps select_factor_def)
  show "0 \<le> select_factor selected correct all" by (simp add: select_factor_def)
  let ?d = "dec_round (of_nat (card (selected \<inter> correct)) / of_nat (card correct)) -
      dec_round (of_nat (card (selected \<inter> (all - correct))) / of_nat (card (all - correct)))"
  have "?d \<le> 1" using credit(3) penalty(2) by linarith
  then have "dec_round ?d \<le> 1"
    by (cases "0 \<le> ?d") (auto intro: dec_round_le_cents order_trans [OF dec_round_nonpos])
  then show "select_factor selected correct all \<le> 1"
    by (simp add: select_factor_def dec_sub_def)
qed

lemma frac_one: "finite c \<Longrightarrow> c \<noteq> {} \<Longrightarrow> c \<subseteq> s \<Longrightarrow>
    (of_nat (card (s \<inter> c)) / of_nat (card c) :: rat) = 1"
  by (simp add: Int_absorb1)

interpretation multiple: grader
  "\<lambda>m (selected, correct, all). grade_multiple_select m selected correct all"
  selectable
  "\<lambda>(selected, correct, all). selected = correct"
  "\<lambda>(selected, correct, all). all \<subseteq> selected \<or> selected \<inter> correct = {}"
proof
  fix m a assume m: "score_ok m" and a: "selectable a"
  obtain selected correct all where [simp]: "a = (selected, correct, all)" by (cases a)
  from a have v: "selectable (selected, correct, all)" by simp
  note val = multiple_select_value [OF v]
  have c: "finite correct" "correct \<noteq> {}" "finite (all - correct)" "all - correct \<noteq> {}"
    using v by (auto simp: selectable_def intro: finite_subset)
  show "\<exists>s. (case a of (selected, correct, all) \<Rightarrow> grade_multiple_select m selected correct all) = Inr s \<and>
      0 \<le> s \<and> s \<le> m \<and> is_cents s"
    using score_value_bounds [OF scaled_bounds [OF m val(2,3)] m] by (auto simp: val(1))
  { assume "case a of (selected, correct, all) \<Rightarrow> selected = correct"
    then have "select_factor selected correct all = 1"
      using c by (simp add: select_factor_def dec_sub_def)
    then show "(case a of (selected, correct, all) \<Rightarrow> grade_multiple_select m selected correct all) = Inr m"
      using m by (simp add: val(1) dec_mul_def score_ok_cents score_ok_def) }
  { assume h: "case a of (selected, correct, all) \<Rightarrow> all \<subseteq> selected \<or> selected \<inter> correct = {}"
    have "select_factor selected correct all = 0"
    proof (cases "selected \<inter> correct = {}")
      case True
      have "0 \<le> dec_round (of_nat (card (selected \<inter> (all - correct))) / of_nat (card (all - correct)))"
        by (rule dec_round_nonneg) simp
      then have "dec_round (- dec_round (of_nat (card (selected \<inter> (all - correct))) / of_nat (card (all - correct)))) \<le> 0"
        by (simp add: dec_round_nonpos)
      then show ?thesis using True by (simp add: select_factor_def dec_sub_def max_absorb1)
    next
      case False
      with h v have "correct \<subseteq> selected" "all - correct \<subseteq> selected" by (auto simp: selectable_def)
      then show ?thesis
        by (simp only: select_factor_def dec_sub_def frac_one [OF c(1,2)] frac_one [OF c(3,4)]) simp
    qed
    then show "(case a of (selected, correct, all) \<Rightarrow> grade_multiple_select m selected correct all) = Inr 0"
      by (simp add: val(1) dec_mul_def) }
qed

text \<open>The rounding of the operators moves a multiple-select grade by less than a billionth beyond
  the half cent of \<open>quantize\<close>.\<close>

definition exact_select :: "rat \<Rightarrow> string set \<Rightarrow> string set \<Rightarrow> string set \<Rightarrow> rat" where
  "exact_select m selected correct all =
     m * max 0 (of_nat (card (selected \<inter> correct)) / of_nat (card correct) -
                of_nat (card (selected \<inter> (all - correct))) / of_nat (card (all - correct)))"

lemma max_diff: "\<bar>max 0 a - max 0 b\<bar> \<le> \<bar>a - b :: rat\<bar>"
  by (simp add: max_def abs_if)

lemma select_factor_close:
  assumes "selectable (selected, correct, all)"
  shows "\<bar>m * select_factor selected correct all - exact_select m selected correct all\<bar>
           \<le> \<bar>m\<bar> * (3 / 10 ^ 25)"
proof -
  have c: "finite correct" "correct \<noteq> {}" "finite (all - correct)" "all - correct \<noteq> {}"
    using assms by (auto simp: selectable_def intro: finite_subset)
  define x y where "x = (of_nat (card (selected \<inter> correct)) / of_nat (card correct) :: rat)"
    and "y = (of_nat (card (selected \<inter> (all - correct))) / of_nat (card (all - correct)) :: rat)"
  have xy: "0 \<le> x" "x \<le> 1" "0 \<le> y" "y \<le> 1"
    using card_inter(1) [OF c(1,2), of selected] card_inter(2) [OF c(1,2)]
      card_inter(1) [OF c(3,4), of selected] card_inter(2) [OF c(3,4)]
    by (simp_all add: x_def y_def)
  have r: "0 \<le> dec_round x" "dec_round x \<le> 1" "0 \<le> dec_round y" "dec_round y \<le> 1"
    using xy by (simp_all add: dec_round_nonneg dec_round_le_cents)
  have small: "\<bar>dec_round z - z\<bar> \<le> 1 / 10 ^ 25" if "\<bar>z\<bar> \<le> 1" for z
  proof -
    have "\<bar>dec_round z - z\<bar> \<le> 1 / (2 * 10 ^ (28 - 2))"
      by (rule dec_round_close) (use that in \<open>auto intro: le_less_trans\<close>)
    then show ?thesis by (rule order_trans) simp
  qed
  have "\<bar>dec_round x - dec_round y\<bar> \<le> 1" using r unfolding abs_le_iff by linarith
  then have dx: "\<bar>dec_round x - x\<bar> \<le> 1 / 10 ^ 25" "\<bar>dec_round y - y\<bar> \<le> 1 / 10 ^ 25"
      "\<bar>dec_round (dec_round x - dec_round y) - (dec_round x - dec_round y)\<bar> \<le> 1 / 10 ^ 25"
    using xy by (simp_all only: small abs_of_nonneg)
  have "\<bar>dec_sub (dec_round x) (dec_round y) - (x - y)\<bar> \<le> 3 / 10 ^ 25"
    using dx unfolding dec_sub_def abs_le_iff by linarith
  then have "\<bar>max 0 (dec_sub (dec_round x) (dec_round y)) - max 0 (x - y)\<bar> \<le> 3 / 10 ^ 25"
    by (rule order_trans [OF max_diff])
  then have "\<bar>m * (max 0 (dec_sub (dec_round x) (dec_round y)) - max 0 (x - y))\<bar> \<le> \<bar>m\<bar> * (3 / 10 ^ 25)"
    unfolding abs_mult by (intro mult_left_mono) auto
  then show ?thesis
    by (simp add: select_factor_def exact_select_def x_def y_def right_diff_distrib)
qed

lemma multiple_select_close:
  assumes m: "score_ok m" and v: "selectable (selected, correct, all)"
  shows "\<exists>s. grade_multiple_select m selected correct all = Inr s \<and>
           \<bar>s - exact_select m selected correct all\<bar> \<le> 1 / 200 + 1 / 10 ^ 9"
proof -
  note val = multiple_select_value [OF v]
  let ?p = "m * select_factor selected correct all"
  obtain s where s: "grade_multiple_select m selected correct all = Inr s"
      "\<bar>s - dec_round ?p\<bar> \<le> 1 / 200"
    using score_value_bounds [OF scaled_bounds [OF m val(2,3)] m] by (auto simp: val(1) dec_mul_def)
  have "0 \<le> ?p" "?p \<le> 10000"
    using m val(2,3) mult_mono [of m 10000 "select_factor selected correct all" 1]
    by (simp_all add: score_ok_def)
  then have "\<bar>dec_round ?p - ?p\<bar> \<le> 1 / 10 ^ 10"
    using dec_round_close [of ?p 5] by simp
  moreover have "\<bar>?p - exact_select m selected correct all\<bar> \<le> 1 / 10 ^ 10"
    using select_factor_close [OF v, of m] m by (simp add: score_ok_def)
  ultimately have "\<bar>s - exact_select m selected correct all\<bar> \<le> 1 / 200 + (1 / 10 ^ 10 + 1 / 10 ^ 10)"
    using s(2) unfolding abs_le_iff by linarith
  then have "\<bar>s - exact_select m selected correct all\<bar> \<le> 1 / 200 + 1 / 10 ^ 9"
    by simp
  with s(1) show ?thesis by blast
qed

text \<open>Fill-in grading.\<close>

lemma blanks_value:
  assumes "accepted \<noteq> []"
  shows "grade_fill_blanks m answers accepted cs =
           score_value (dec_round (dec_mul m (of_nat (length (filter (blank_matches answers cs) accepted))) /
                                   of_nat (length accepted)))"
  using assms by (simp add: grade_fill_blanks_def dec_div_def)

lemma cents_times_nat: "is_cents m \<Longrightarrow> is_cents (m * of_nat k)"
proof -
  assume "is_cents m"
  then obtain n where "m * 100 = of_int n" by (auto simp: is_cents_iff)
  then have "m * of_nat k * 100 = of_int (n * int k)" by (metis mult.assoc mult.commute of_int_mult of_int_of_nat_eq)
  then show ?thesis unfolding is_cents_iff by blast
qed

lemma blanks_product:
  assumes "score_ok m" "k \<le> 10 ^ 10"
  shows "dec_mul m (of_nat k) = m * of_nat k"
proof -
  have k: "(of_nat k :: rat) \<le> 10 ^ 10"
    using assms(2) by (metis of_nat_le_iff of_nat_numeral of_nat_power)
  have "m * of_nat k \<le> 10000 * 10 ^ 10"
    by (intro mult_mono k) (use assms in \<open>auto simp: score_ok_def\<close>)
  with assms(1) show ?thesis
    by (simp add: dec_mul_def score_ok_def cents_times_nat)
qed

definition blanks_ok :: "(string \<times> string) list \<times> (string \<times> string list) list \<times> bool \<Rightarrow> bool" where
  "blanks_ok = (\<lambda>(answers, accepted, cs). accepted \<noteq> [] \<and> length accepted \<le> 100)"

interpretation blanks: grader
  "\<lambda>m (answers, accepted, cs). grade_fill_blanks m answers accepted cs"
  blanks_ok
  "\<lambda>(answers, accepted, cs). list_all (blank_matches answers cs) accepted"
  "\<lambda>(answers, accepted, cs). \<not> list_ex (blank_matches answers cs) accepted"
proof
  fix m a assume m: "score_ok m" and a: "blanks_ok a"
  obtain answers accepted cs where [simp]: "a = (answers, accepted, cs)" by (cases a)
  define k where "k = length (filter (blank_matches answers cs) accepted)"
  have n: "accepted \<noteq> []" "length accepted \<le> 100" using a by (simp_all add: blanks_ok_def)
  have k: "k \<le> length accepted" by (simp add: k_def)
  have prod: "dec_mul m (of_nat k) = m * of_nat k"
    by (rule blanks_product [OF m]) (use n k in simp)
  have val: "grade_fill_blanks m answers accepted cs =
      score_value (dec_round (m * of_nat k / of_nat (length accepted)))"
    using blanks_value [OF n(1), of m answers cs] prod by (simp add: k_def)
  have "m * (of_nat k / of_nat (length accepted)) \<le> m"
    using m k n by (intro mult_left_le) (auto simp: score_ok_def)
  then have "dec_round (m * of_nat k / of_nat (length accepted)) \<le> m"
    using m by (intro dec_round_le_cents) (auto simp: score_ok_def)
  then show "\<exists>s. (case a of (answers, accepted, cs) \<Rightarrow> grade_fill_blanks m answers accepted cs) = Inr s \<and>
      0 \<le> s \<and> s \<le> m \<and> is_cents s"
    using score_value_bounds [OF dec_round_nonneg _ m, of "m * of_nat k / of_nat (length accepted)"] m
    by (auto simp: val score_ok_def)
  { assume "case a of (answers, accepted, cs) \<Rightarrow> list_all (blank_matches answers cs) accepted"
    then have "k = length accepted" by (simp add: k_def list_all_iff)
    then show "(case a of (answers, accepted, cs) \<Rightarrow> grade_fill_blanks m answers accepted cs) = Inr m"
      using m n score_ok_cents [OF m] by (simp add: val score_ok_def) }
  { assume "case a of (answers, accepted, cs) \<Rightarrow> \<not> list_ex (blank_matches answers cs) accepted"
    then have "k = 0" by (simp add: k_def list_ex_iff)
    then show "(case a of (answers, accepted, cs) \<Rightarrow> grade_fill_blanks m answers accepted cs) = Inr 0"
      by (simp add: val) }
qed

end
