(* ===== verification/Question_Task.thy ===== *)
theory Question_Task
  imports Question_Forms Question_Grade
begin

text \<open>
  The authoring of question tasks (\<open>QuestionTaskTable\<close> in \<open>models/question_tasks.py\<close>): its six
  tables, the reading of a task with its questions, and the operations that create, change,
  clone, publish and archive a task. An operation is one transaction on the store; an \<open>Inl\<close>
  leaves the store as it was. The UUIDs a call draws are named by what they are drawn for, and
  \<open>commit_content\<close> refuses a duplicate primary key. Files of images are outside the model.
\<close>

subsection \<open>Tables\<close>

record question_task_row =
  qt_id :: string
  qt_family_id :: string
  qt_version :: int
  qt_title :: string
  qt_description :: string
  qt_status :: question_task_status
  qt_locked_at :: "int option"
  qt_archived_at :: "int option"
  qt_workflow_managed :: bool
  qt_created_at :: int
  qt_updated_at :: int

record question_row =
  tq_id :: string
  tq_task_id :: string
  tq_title :: string
  tq_description :: string
  tq_question_type :: question_type
  tq_position :: int
  tq_max_score :: rat
  tq_grading_mode :: grading_mode
  tq_image_file_id :: "string option"
  tq_case_sensitive :: bool
  tq_created_at :: int
  tq_updated_at :: int

record choice_row =
  ch_id :: string
  ch_question_id :: string
  ch_text :: string
  ch_position :: int
  ch_is_correct :: bool

record blank_row =
  bl_id :: string
  bl_question_id :: string
  bl_blank_key :: string
  bl_position :: int

record accepted_row =
  aa_id :: string
  aa_blank_id :: string
  aa_answer :: string
  aa_position :: int

record config_row =
  cg_question_id :: string
  cg_expected_answer :: string
  cg_strictness :: grading_strictness

record question_db =
  db_tasks :: "question_task_row list"
  db_questions :: "question_row list"
  db_choices :: "choice_row list"
  db_blanks :: "blank_row list"
  db_accepted :: "accepted_row list"
  db_configs :: "config_row list"

text \<open>The primary keys, checked when the rows are written.\<close>

definition content_keys :: "question_db \<Rightarrow> bool" where
  "content_keys d \<longleftrightarrow>
     distinct (map qt_id (db_tasks d)) \<and> distinct (map tq_id (db_questions d)) \<and>
     distinct (map ch_id (db_choices d)) \<and> distinct (map bl_id (db_blanks d)) \<and>
     distinct (map aa_id (db_accepted d)) \<and> distinct (map cg_question_id (db_configs d))"

definition commit_content :: "question_db \<Rightarrow> err + question_db" where
  "commit_content d = (if content_keys d then Inr d else Inl IntegrityError)"

subsection \<open>Reading a task\<close>

record choice_model =
  cm_id :: string
  cm_text :: string
  cm_position :: int
  cm_is_correct :: bool

record blank_model =
  bm_id :: string
  bm_key :: string
  bm_position :: int
  bm_accepted_answers :: "string list"

record question_model =
  qm_id :: string
  qm_title :: string
  qm_description :: string
  qm_question_type :: question_type
  qm_position :: int
  qm_max_score :: rat
  qm_grading_mode :: grading_mode
  qm_image_file_id :: "string option"
  qm_case_sensitive :: bool
  qm_choices :: "choice_model list"
  qm_blanks :: "blank_model list"
  qm_expected_answer :: "string option"
  qm_strictness :: "grading_strictness option"

record question_task_model =
  tm_id :: string
  tm_family_id :: string
  tm_version :: int
  tm_latest_version :: int
  tm_title :: string
  tm_description :: string
  tm_status :: question_task_status
  tm_locked_at :: "int option"
  tm_archived_at :: "int option"
  tm_created_at :: int
  tm_updated_at :: int
  tm_questions :: "question_model list"

definition choice_model_of :: "choice_row \<Rightarrow> choice_model" where
  "choice_model_of c =
     \<lparr>cm_id = ch_id c, cm_text = ch_text c, cm_position = ch_position c, cm_is_correct = ch_is_correct c\<rparr>"

definition blank_model_of :: "accepted_row list \<Rightarrow> blank_row \<Rightarrow> blank_model" where
  "blank_model_of accepted b =
     \<lparr>bm_id = bl_id b, bm_key = bl_blank_key b, bm_position = bl_position b,
      bm_accepted_answers = map aa_answer (filter (\<lambda>a. aa_blank_id a = bl_id b) accepted)\<rparr>"

definition question_model_of ::
    "choice_row list \<Rightarrow> blank_row list \<Rightarrow> accepted_row list \<Rightarrow> config_row list \<Rightarrow>
     question_row \<Rightarrow> question_model" where
  "question_model_of choices blanks accepted configs q =
     (let config = get_by cg_question_id (tq_id q) configs in
      \<lparr>qm_id = tq_id q, qm_title = tq_title q, qm_description = tq_description q,
       qm_question_type = tq_question_type q, qm_position = tq_position q,
       qm_max_score = tq_max_score q, qm_grading_mode = tq_grading_mode q,
       qm_image_file_id = tq_image_file_id q, qm_case_sensitive = tq_case_sensitive q,
       qm_choices = map choice_model_of (filter (\<lambda>c. ch_question_id c = tq_id q) choices),
       qm_blanks = map (blank_model_of accepted) (filter (\<lambda>b. bl_question_id b = tq_id q) blanks),
       qm_expected_answer = map_option cg_expected_answer config,
       qm_strictness = map_option cg_strictness config\<rparr>)"

definition load_questions :: "string \<Rightarrow> question_db \<Rightarrow> question_model list" where
  "load_questions task_id d =
     (let questions = order_by tq_position (filter (\<lambda>q. tq_task_id q = task_id) (db_questions d));
          question_ids = map tq_id questions;
          choices = order_by ch_position
            (filter (\<lambda>c. ch_question_id c \<in> set question_ids) (db_choices d));
          blanks = order_by bl_position
            (filter (\<lambda>b. bl_question_id b \<in> set question_ids) (db_blanks d));
          blank_ids = map bl_id blanks;
          accepted = order_by aa_position
            (filter (\<lambda>a. aa_blank_id a \<in> set blank_ids) (db_accepted d));
          configs = filter (\<lambda>c. cg_question_id c \<in> set question_ids) (db_configs d)
      in map (question_model_of choices blanks accepted configs) questions)"

definition latest_version :: "string \<Rightarrow> question_db \<Rightarrow> int option" where
  "latest_version family d =
     max_of qt_version (filter (\<lambda>t. qt_family_id t = family) (db_tasks d))"

definition get_question_task :: "string \<Rightarrow> question_db \<Rightarrow> question_task_model option" where
  "get_question_task task_id d =
     (case get_by qt_id task_id (db_tasks d) of
        None \<Rightarrow> None
      | Some task \<Rightarrow> Some
          \<lparr>tm_id = qt_id task, tm_family_id = qt_family_id task, tm_version = qt_version task,
           tm_latest_version = or_int (latest_version (qt_family_id task) d) (qt_version task),
           tm_title = qt_title task, tm_description = qt_description task,
           tm_status = qt_status task, tm_locked_at = qt_locked_at task,
           tm_archived_at = qt_archived_at task, tm_created_at = qt_created_at task,
           tm_updated_at = qt_updated_at task, tm_questions = load_questions task_id d\<rparr>)"

definition list_question_tasks :: "bool \<Rightarrow> question_db \<Rightarrow> question_task_model option list" where
  "list_question_tasks include_archived d =
     map (\<lambda>t. get_question_task (qt_id t) d)
       (order_desc qt_updated_at
         (filter (\<lambda>t. \<not> qt_workflow_managed t \<and> (include_archived \<or> qt_status t \<noteq> QT_ARCHIVED))
           (db_tasks d)))"

subsection \<open>Writing questions\<close>

datatype draw = DTask | DQuestion nat | DChoice nat nat | DBlank nat nat | DAccepted nat nat nat

definition question_key :: "(draw \<Rightarrow> string) \<Rightarrow> nat \<times> question_form \<Rightarrow> string" where
  "question_key uid = (\<lambda>(p, f). or_str (qf_id f) (uid (DQuestion p)))"

definition blank_key :: "(draw \<Rightarrow> string) \<Rightarrow> nat \<Rightarrow> nat \<times> blank_form \<Rightarrow> string" where
  "blank_key uid p = (\<lambda>(i, b). or_str (bf_id b) (uid (DBlank p i)))"

definition new_question ::
    "(draw \<Rightarrow> string) \<Rightarrow> int \<Rightarrow> string \<Rightarrow> nat \<times> question_form \<Rightarrow> question_row" where
  "new_question uid now task_id = (\<lambda>(p, f).
     \<lparr>tq_id = question_key uid (p, f), tq_task_id = task_id, tq_title = qf_title f,
      tq_description = qf_description f, tq_question_type = qf_question_type f,
      tq_position = int p, tq_max_score = qf_max_score f, tq_grading_mode = qf_grading_mode f,
      tq_image_file_id = qf_image_file_id f, tq_case_sensitive = qf_case_sensitive f,
      tq_created_at = now, tq_updated_at = now\<rparr>)"

definition new_choices :: "(draw \<Rightarrow> string) \<Rightarrow> nat \<times> question_form \<Rightarrow> choice_row list" where
  "new_choices uid = (\<lambda>(p, f). map (\<lambda>(i, c).
     \<lparr>ch_id = or_str (cf_id c) (uid (DChoice p i)), ch_question_id = question_key uid (p, f),
      ch_text = cf_text c, ch_position = int i, ch_is_correct = cf_is_correct c\<rparr>)
     (enumerate 0 (qf_choices f)))"

definition new_blanks :: "(draw \<Rightarrow> string) \<Rightarrow> nat \<times> question_form \<Rightarrow> blank_row list" where
  "new_blanks uid = (\<lambda>(p, f). map (\<lambda>(i, b).
     \<lparr>bl_id = blank_key uid p (i, b), bl_question_id = question_key uid (p, f),
      bl_blank_key = bf_key b, bl_position = int i\<rparr>)
     (enumerate 0 (qf_blanks f)))"

definition new_accepted_of ::
    "(draw \<Rightarrow> string) \<Rightarrow> nat \<Rightarrow> nat \<times> blank_form \<Rightarrow> accepted_row list" where
  "new_accepted_of uid p = (\<lambda>(i, b). map (\<lambda>(j, a).
     \<lparr>aa_id = uid (DAccepted p i j), aa_blank_id = blank_key uid p (i, b),
      aa_answer = a, aa_position = int j\<rparr>)
     (enumerate 0 (bf_accepted_answers b)))"

definition new_accepted :: "(draw \<Rightarrow> string) \<Rightarrow> nat \<times> question_form \<Rightarrow> accepted_row list" where
  "new_accepted uid = (\<lambda>(p, f). concat (map (new_accepted_of uid p) (enumerate 0 (qf_blanks f))))"

definition new_config :: "(draw \<Rightarrow> string) \<Rightarrow> nat \<times> question_form \<Rightarrow> config_row list" where
  "new_config uid = (\<lambda>(p, f).
     if qf_question_type f = FREE_TEXT then
       [\<lparr>cg_question_id = question_key uid (p, f),
         cg_expected_answer = or_str (qf_expected_answer f) [],
         cg_strictness = (case qf_strictness f of None \<Rightarrow> BALANCED | Some s \<Rightarrow> s)\<rparr>]
     else [])"

definition replace_questions ::
    "(draw \<Rightarrow> string) \<Rightarrow> int \<Rightarrow> string \<Rightarrow> question_form list \<Rightarrow> question_db \<Rightarrow> question_db" where
  "replace_questions uid now task_id forms d =
     (let fs = enumerate 0 forms in
      d\<lparr>db_questions := db_questions d @ map (new_question uid now task_id) fs,
        db_choices := db_choices d @ concat (map (new_choices uid) fs),
        db_blanks := db_blanks d @ concat (map (new_blanks uid) fs),
        db_accepted := db_accepted d @ concat (map (new_accepted uid) fs),
        db_configs := db_configs d @ concat (map (new_config uid) fs)\<rparr>)"

definition delete_questions :: "string \<Rightarrow> question_db \<Rightarrow> question_db" where
  "delete_questions task_id d =
     (let ids = map tq_id (filter (\<lambda>q. tq_task_id q = task_id) (db_questions d)) in
      if ids = [] then d
      else
        let blank_ids = map bl_id (filter (\<lambda>b. bl_question_id b \<in> set ids) (db_blanks d)) in
        d\<lparr>db_accepted := (if blank_ids = [] then db_accepted d
                          else del_rows (\<lambda>a. aa_blank_id a \<in> set blank_ids) (db_accepted d)),
          db_blanks := del_rows (\<lambda>b. bl_question_id b \<in> set ids) (db_blanks d),
          db_choices := del_rows (\<lambda>c. ch_question_id c \<in> set ids) (db_choices d),
          db_configs := del_rows (\<lambda>c. cg_question_id c \<in> set ids) (db_configs d),
          db_questions := del_rows (\<lambda>q. tq_id q \<in> set ids) (db_questions d)\<rparr>)"

subsection \<open>Operations\<close>

definition create_question_task ::
    "(draw \<Rightarrow> string) \<Rightarrow> int \<Rightarrow> int \<Rightarrow> question_task_form \<Rightarrow> question_db \<Rightarrow>
     err + (question_task_model option \<times> question_db)" where
  "create_question_task uid now now' form d =
     (let task_id = uid DTask;
          task = \<lparr>qt_id = task_id, qt_family_id = task_id, qt_version = 1, qt_title = tf_title form,
                  qt_description = tf_description form, qt_status = QT_DRAFT, qt_locked_at = None,
                  qt_archived_at = None, qt_workflow_managed = False,
                  qt_created_at = now, qt_updated_at = now\<rparr>;
          d = d\<lparr>db_tasks := add_row task (db_tasks d)\<rparr>
      in bindE (commit_content (replace_questions uid now' task_id (tf_questions form) d)) (\<lambda>d.
           Inr (get_question_task task_id d, d)))"

definition update_question_task ::
    "(draw \<Rightarrow> string) \<Rightarrow> int \<Rightarrow> int \<Rightarrow> string \<Rightarrow> question_task_form \<Rightarrow> question_db \<Rightarrow>
     err + (question_task_model option \<times> question_db)" where
  "update_question_task uid now now' task_id form d =
     (case get_by qt_id task_id (db_tasks d) of
        None \<Rightarrow> Inr (None, d)
      | Some task \<Rightarrow>
          if qt_status task \<noteq> QT_DRAFT \<or> truthy_int (qt_locked_at task)
          then Inl (http 409 ''Published Question Tasks are immutable. Create a new version or duplicate instead.'')
          else
            let d = d\<lparr>db_tasks := upd_by qt_id task_id (\<lambda>t. t\<lparr>qt_title := tf_title form,
                      qt_description := tf_description form, qt_status := QT_DRAFT,
                      qt_updated_at := now\<rparr>) (db_tasks d)\<rparr>;
                d = delete_questions task_id d
            in bindE (commit_content (replace_questions uid now' task_id (tf_questions form) d)) (\<lambda>d.
                 Inr (get_question_task task_id d, d)))"

definition form_of_model :: "question_model \<Rightarrow> question_form" where
  "form_of_model q =
     \<lparr>qf_id = None, qf_title = qm_title q, qf_description = qm_description q,
      qf_question_type = qm_question_type q, qf_max_score = qm_max_score q,
      qf_grading_mode = qm_grading_mode q, qf_image_file_id = qm_image_file_id q,
      qf_case_sensitive = qm_case_sensitive q,
      qf_choices = map (\<lambda>c. \<lparr>cf_id = None, cf_text = cm_text c, cf_is_correct = cm_is_correct c\<rparr>)
        (qm_choices q),
      qf_blanks = map (\<lambda>b. \<lparr>bf_id = None, bf_key = bm_key b, bf_accepted_answers = bm_accepted_answers b\<rparr>)
        (qm_blanks q),
      qf_expected_answer = qm_expected_answer q, qf_strictness = qm_strictness q\<rparr>"

definition clone_question_task ::
    "(draw \<Rightarrow> string) \<Rightarrow> int \<Rightarrow> int \<Rightarrow> string \<Rightarrow> question_clone_mode \<Rightarrow> question_db \<Rightarrow>
     err + (question_task_model option \<times> question_db)" where
  "clone_question_task uid now now' task_id mode d =
     (case get_question_task task_id d of
        None \<Rightarrow> Inr (None, d)
      | Some source \<Rightarrow>
          let new_id = uid DTask;
              family_id = (if mode = VERSION then tm_family_id source else new_id);
              version = (if mode = DUPLICATE then 1 else or_int (latest_version family_id d) 0 + 1);
              row = \<lparr>qt_id = new_id, qt_family_id = family_id, qt_version = version,
                     qt_title = (if mode = VERSION then tm_title source else tm_title source @ '' (copy)''),
                     qt_description = tm_description source, qt_status = QT_DRAFT,
                     qt_locked_at = None, qt_archived_at = None, qt_workflow_managed = False,
                     qt_created_at = now, qt_updated_at = now\<rparr>;
              d = d\<lparr>db_tasks := add_row row (db_tasks d)\<rparr>
          in bindE (commit_content d) (\<lambda>d.
             bindE (mapE validate_question (map form_of_model (tm_questions source))) (\<lambda>forms.
             bindE (commit_content (replace_questions uid now' new_id forms d)) (\<lambda>d.
               Inr (get_question_task new_id d, d)))))"

definition publish_question_task ::
    "int \<Rightarrow> string \<Rightarrow> bool \<Rightarrow> question_db \<Rightarrow> err + (question_task_model option \<times> question_db)" where
  "publish_question_task now task_id task_model_available d =
     (case get_question_task task_id d of
        None \<Rightarrow> Inr (None, d)
      | Some task \<Rightarrow>
          if tm_questions task = []
          then Inl (http 422 ''A Question Task must contain at least one question.'')
          else if list_ex (\<lambda>q. qm_grading_mode q = LLM_ASSISTED) (tm_questions task)
                  \<and> \<not> task_model_available
          then Inl (http 422 ''Configure an available global task model before publishing LLM-graded questions.'')
          else
            let d = d\<lparr>db_tasks := upd_by qt_id task_id (\<lambda>t. t\<lparr>qt_status := QT_PUBLISHED,
                      qt_archived_at := None, qt_updated_at := now\<rparr>) (db_tasks d)\<rparr>
            in Inr (get_question_task task_id d, d))"

definition archive_question_task :: "int \<Rightarrow> string \<Rightarrow> question_db \<Rightarrow> bool \<times> question_db" where
  "archive_question_task now task_id d =
     (case get_by qt_id task_id (db_tasks d) of
        None \<Rightarrow> (False, d)
      | Some _ \<Rightarrow> (True, d\<lparr>db_tasks := upd_by qt_id task_id (\<lambda>t. t\<lparr>qt_status := QT_ARCHIVED,
                   qt_archived_at := Some now, qt_updated_at := now\<rparr>) (db_tasks d)\<rparr>))"

subsection \<open>The participant's view\<close>

record participant_choice =
  pc_id :: string
  pc_text :: string
  pc_position :: int

record participant_blank =
  pb_id :: string
  pb_key :: string
  pb_position :: int

record participant_question =
  pq_id :: string
  pq_title :: string
  pq_description :: string
  pq_question_type :: question_type
  pq_position :: int
  pq_max_score :: rat
  pq_image_file_id :: "string option"
  pq_choices :: "participant_choice list"
  pq_blanks :: "participant_blank list"

record participant_task_model =
  pt_id :: string
  pt_title :: string
  pt_description :: string
  pt_questions :: "participant_question list"

definition participant_question_of :: "question_model \<Rightarrow> participant_question" where
  "participant_question_of q =
     \<lparr>pq_id = qm_id q, pq_title = qm_title q, pq_description = qm_description q,
      pq_question_type = qm_question_type q, pq_position = qm_position q,
      pq_max_score = qm_max_score q, pq_image_file_id = qm_image_file_id q,
      pq_choices = map (\<lambda>c. \<lparr>pc_id = cm_id c, pc_text = cm_text c, pc_position = cm_position c\<rparr>)
        (qm_choices q),
      pq_blanks = map (\<lambda>b. \<lparr>pb_id = bm_id b, pb_key = bm_key b, pb_position = bm_position b\<rparr>)
        (qm_blanks q)\<rparr>"

definition participant_task :: "string \<Rightarrow> question_db \<Rightarrow> participant_task_model option" where
  "participant_task task_id d =
     map_option (\<lambda>t. \<lparr>pt_id = tm_id t, pt_title = tm_title t, pt_description = tm_description t,
                     pt_questions = map participant_question_of (tm_questions t)\<rparr>)
       (get_question_task task_id d)"

end
