(* ===== verification/Question_Store.thy ===== *)
theory Question_Store
  imports Question_Task
begin

text \<open>
  What authoring keeps: a task reads back as the form that was stored, an update or a clone
  changes no other task, and the rows keep their references. The lemmas read a task question by
  question (\<open>load_questions_alt\<close>), so that each operation only has to say what it does to the rows
  of one question.
\<close>

subsection \<open>Reading question by question\<close>

definition choices_of :: "question_db \<Rightarrow> string \<Rightarrow> choice_row list" where
  "choices_of d q = order_by ch_position (filter (\<lambda>c. ch_question_id c = q) (db_choices d))"

definition blanks_of :: "question_db \<Rightarrow> string \<Rightarrow> blank_row list" where
  "blanks_of d q = order_by bl_position (filter (\<lambda>b. bl_question_id b = q) (db_blanks d))"

definition accepted_of :: "question_db \<Rightarrow> string \<Rightarrow> accepted_row list" where
  "accepted_of d b = order_by aa_position (filter (\<lambda>a. aa_blank_id a = b) (db_accepted d))"

definition blank_view :: "question_db \<Rightarrow> blank_row \<Rightarrow> blank_model" where
  "blank_view d b =
     \<lparr>bm_id = bl_id b, bm_key = bl_blank_key b, bm_position = bl_position b,
      bm_accepted_answers = map aa_answer (accepted_of d (bl_id b))\<rparr>"

definition question_view :: "question_db \<Rightarrow> question_row \<Rightarrow> question_model" where
  "question_view d q =
     (let config = get_by cg_question_id (tq_id q) (db_configs d) in
      \<lparr>qm_id = tq_id q, qm_title = tq_title q, qm_description = tq_description q,
       qm_question_type = tq_question_type q, qm_position = tq_position q,
       qm_max_score = tq_max_score q, qm_grading_mode = tq_grading_mode q,
       qm_image_file_id = tq_image_file_id q, qm_case_sensitive = tq_case_sensitive q,
       qm_choices = map choice_model_of (choices_of d (tq_id q)),
       qm_blanks = map (blank_view d) (blanks_of d (tq_id q)),
       qm_expected_answer = map_option cg_expected_answer config,
       qm_strictness = map_option cg_strictness config\<rparr>)"

definition questions_of :: "question_db \<Rightarrow> string \<Rightarrow> question_row list" where
  "questions_of d t = order_by tq_position (filter (\<lambda>q. tq_task_id q = t) (db_questions d))"

lemma filter_order_by: "filter P (order_by k xs) = order_by k (filter P xs)"
  by (simp add: order_by_def filter_sort)

lemma filter_in: "x \<in> S \<Longrightarrow> filter (\<lambda>r. g r = x) (filter (\<lambda>r. g r \<in> S) rows) = filter (\<lambda>r. g r = x) rows"
  by (induction rows) auto

lemma get_by_filter: "x \<in> S \<Longrightarrow> get_by k x (filter (\<lambda>r. k r \<in> S) rows) = get_by k x rows"
  by (induction rows) auto

lemma load_questions_alt: "load_questions t d = map (question_view d) (questions_of d t)"
proof -
  let ?S = "set (map tq_id (questions_of d t))"
  let ?B = "set (map bl_id (order_by bl_position (filter (\<lambda>b. bl_question_id b \<in> ?S) (db_blanks d))))"
  have "question_model_of
          (order_by ch_position (filter (\<lambda>c. ch_question_id c \<in> ?S) (db_choices d)))
          (order_by bl_position (filter (\<lambda>b. bl_question_id b \<in> ?S) (db_blanks d)))
          (order_by aa_position (filter (\<lambda>a. aa_blank_id a \<in> ?B) (db_accepted d)))
          (filter (\<lambda>c. cg_question_id c \<in> ?S) (db_configs d)) q = question_view d q"
    if q: "q \<in> set (questions_of d t)" for q
  proof -
    have S: "tq_id q \<in> ?S" using q by simp
    have "blank_model_of (order_by aa_position (filter (\<lambda>a. aa_blank_id a \<in> ?B) (db_accepted d))) b
            = blank_view d b" if "b \<in> set (blanks_of d (tq_id q))" for b
    proof -
      have "bl_id b \<in> ?B" using that S by (auto simp: blanks_of_def set_order_by)
      then show ?thesis
        by (simp only: blank_model_of_def blank_view_def filter_order_by filter_in accepted_of_def)
    qed
    then show ?thesis using S
      by (simp add: question_model_of_def question_view_def filter_order_by filter_in get_by_filter
          choices_of_def blanks_of_def Let_def del: set_map filter_filter cong: map_cong)
  qed
  then show ?thesis
    by (auto simp: load_questions_def questions_of_def Let_def intro!: map_cong)
qed

lemma load_questions_cong:
  assumes "questions_of d t = questions_of d' t"
    and "\<And>q. q \<in> set (questions_of d t) \<Longrightarrow> question_view d q = question_view d' q"
  shows "load_questions t d = load_questions t d'"
  using assms by (simp add: load_questions_alt)

subsection \<open>References between the tables\<close>

definition refs_ok :: "question_db \<Rightarrow> bool" where
  "refs_ok d \<longleftrightarrow>
     tq_task_id ` set (db_questions d) \<subseteq> qt_id ` set (db_tasks d) \<and>
     ch_question_id ` set (db_choices d) \<subseteq> tq_id ` set (db_questions d) \<and>
     bl_question_id ` set (db_blanks d) \<subseteq> tq_id ` set (db_questions d) \<and>
     aa_blank_id ` set (db_accepted d) \<subseteq> bl_id ` set (db_blanks d) \<and>
     cg_question_id ` set (db_configs d) \<subseteq> tq_id ` set (db_questions d)"

lemma refs_okD:
  assumes "refs_ok d"
  shows "tq_task_id ` set (db_questions d) \<subseteq> qt_id ` set (db_tasks d)"
    and "ch_question_id ` set (db_choices d) \<subseteq> tq_id ` set (db_questions d)"
    and "bl_question_id ` set (db_blanks d) \<subseteq> tq_id ` set (db_questions d)"
    and "aa_blank_id ` set (db_accepted d) \<subseteq> bl_id ` set (db_blanks d)"
    and "cg_question_id ` set (db_configs d) \<subseteq> tq_id ` set (db_questions d)"
  using assms by (simp_all add: refs_ok_def)

definition content_ok :: "question_db \<Rightarrow> bool" where
  "content_ok d \<longleftrightarrow> content_keys d \<and> refs_ok d"

lemma commit_content_Inr [simp]: "commit_content d = Inr d' \<longleftrightarrow> content_keys d \<and> d' = d"
  by (auto simp: commit_content_def)

text \<open>The rows written for one owner among the rows written for all of them.\<close>

lemma filter_concat_owner:
  assumes "distinct (map own xs)" "x \<in> set xs"
    and "\<And>y r. y \<in> set xs \<Longrightarrow> r \<in> set (rows y) \<Longrightarrow> owner r = own y"
  shows "filter (\<lambda>r. owner r = own x) (concat (map rows xs)) = rows x"
  using assms
proof (induction xs)
  case Nil
  then show ?case by simp
next
  case (Cons y xs)
  have other: "filter (\<lambda>r. owner r = own x) (concat (map rows zs)) = []"
    if "own x \<notin> own ` set zs" "set zs \<subseteq> set (y # xs)" for zs
  proof -
    have "owner r \<noteq> own x" if "z \<in> set zs" "r \<in> set (rows z)" for z r
      using that Cons.prems(3) [of z r] \<open>own x \<notin> own ` set zs\<close> \<open>set zs \<subseteq> set (y # xs)\<close> by force
    then show ?thesis by (auto simp: filter_empty_conv)
  qed
  show ?case
  proof (cases "x = y")
    case True
    have "filter (\<lambda>r. owner r = own x) (rows y) = rows y"
      using Cons.prems(3) True by (auto simp: filter_id_conv)
    moreover have "filter (\<lambda>r. owner r = own x) (concat (map rows xs)) = []"
      by (rule other) (use Cons.prems(1) True in auto)
    ultimately show ?thesis using True by simp
  next
    case False
    then have x: "x \<in> set xs" using Cons.prems by simp
    have "own x \<noteq> own y" using Cons.prems(1) x by (force simp: image_iff)
    moreover have "owner r = own y" if "r \<in> set (rows y)" for r
      using Cons.prems(3) [of y r] that by simp
    ultimately have "filter (\<lambda>r. owner r = own x) (rows y) = []"
      by (auto simp: filter_empty_conv)
    then show ?thesis using Cons.IH [OF _ x] Cons.prems by simp
  qed
qed

lemma filter_concat_none:
  assumes "k \<notin> own ` set xs" and "\<And>y r. y \<in> set xs \<Longrightarrow> r \<in> set (rows y) \<Longrightarrow> owner r = own y"
  shows "filter (\<lambda>r. owner r = k) (concat (map rows xs)) = []"
  using assms by (auto simp: filter_empty_conv)

lemma sorted_enumerate: "sorted (map (\<lambda>(i, x). int i) (enumerate n xs))"
  by (induction xs arbitrary: n) (auto simp: in_set_enumerate_eq)

lemma order_by_enumerate:
  assumes "\<And>i x. key (f (i, x)) = int i"
  shows "order_by key (map f (enumerate n xs)) = map f (enumerate n xs)"
proof (rule order_by_sorted)
  have "map key (map f (enumerate n xs)) = map (\<lambda>(i, x). int i) (enumerate n xs)"
    using assms by (auto simp: comp_def)
  then show "sorted (map key (map f (enumerate n xs)))" by (simp only: sorted_enumerate)
qed

lemmas new_rows = new_question_def new_choices_def new_blanks_def new_accepted_def
  new_accepted_of_def new_config_def

subsection \<open>The rows of one question after \<open>replace_questions\<close>\<close>

lemma new_owners:
  "r \<in> set (new_choices uid y) \<Longrightarrow> ch_question_id r = question_key uid y"
  "s \<in> set (new_blanks uid y) \<Longrightarrow> bl_question_id s = question_key uid y"
  "c \<in> set (new_config uid y) \<Longrightarrow> cg_question_id c = question_key uid y"
  "a \<in> set (new_accepted_of uid p z) \<Longrightarrow> aa_blank_id a = blank_key uid p z"
  by (auto simp: new_rows split: prod.splits if_splits)

lemma new_question_key [simp]: "tq_id (new_question uid now t y) = question_key uid y"
  by (auto simp: new_question_def split: prod.splits)

lemma new_question_task [simp]: "tq_task_id (new_question uid now t y) = t"
  by (auto simp: new_question_def split: prod.splits)

lemma replace_tables [simp]:
  "db_tasks (replace_questions uid now t forms d) = db_tasks d"
  "db_questions (replace_questions uid now t forms d) =
     db_questions d @ map (new_question uid now t) (enumerate 0 forms)"
  "db_choices (replace_questions uid now t forms d) =
     db_choices d @ concat (map (new_choices uid) (enumerate 0 forms))"
  "db_blanks (replace_questions uid now t forms d) =
     db_blanks d @ concat (map (new_blanks uid) (enumerate 0 forms))"
  "db_accepted (replace_questions uid now t forms d) =
     db_accepted d @ concat (map (new_accepted uid) (enumerate 0 forms))"
  "db_configs (replace_questions uid now t forms d) =
     db_configs d @ concat (map (new_config uid) (enumerate 0 forms))"
  by (simp_all add: replace_questions_def Let_def)

definition question_keys :: "(draw \<Rightarrow> string) \<Rightarrow> question_form list \<Rightarrow> string set" where
  "question_keys uid forms = question_key uid ` set (enumerate 0 forms)"

definition blank_keys :: "(draw \<Rightarrow> string) \<Rightarrow> question_form list \<Rightarrow> string set" where
  "blank_keys uid forms = bl_id ` set (concat (map (new_blanks uid) (enumerate 0 forms)))"

lemma replace_other_question:
  fixes d :: question_db and t :: string and now :: int
  assumes "q \<notin> question_keys uid forms"
  defines "d' \<equiv> replace_questions uid now t forms d"
  shows "choices_of d' q = choices_of d q" and "blanks_of d' q = blanks_of d q"
    and "get_by cg_question_id q (db_configs d') = get_by cg_question_id q (db_configs d)"
proof -
  note q = assms(1) [unfolded question_keys_def]
  show "choices_of d' q = choices_of d q"
    using filter_concat_none [where rows = "new_choices uid", OF q new_owners(1)]
    by (simp add: choices_of_def d'_def)
  show "blanks_of d' q = blanks_of d q"
    using filter_concat_none [where rows = "new_blanks uid", OF q new_owners(2)]
    by (simp add: blanks_of_def d'_def)
  have "filter (\<lambda>c. cg_question_id c = q) (concat (map (new_config uid) (enumerate 0 forms))) = []"
    by (rule filter_concat_none [OF q new_owners(3)])
  then have "get_by cg_question_id q (concat (map (new_config uid) (enumerate 0 forms))) = None"
    by (auto simp: get_by_None filter_empty_conv)
  then show "get_by cg_question_id q (db_configs d') = get_by cg_question_id q (db_configs d)"
    by (simp add: d'_def get_by_def find_row_append split: option.splits)
qed

lemma new_accepted_blank:
  "a \<in> set (new_accepted uid y) \<Longrightarrow> \<exists>b \<in> set (new_blanks uid y). aa_blank_id a = bl_id b"
  by (fastforce simp: new_rows split: prod.splits)

lemma replace_other_blank:
  assumes "b \<notin> blank_keys uid forms"
  shows "accepted_of (replace_questions uid now t forms d) b = accepted_of d b"
proof -
  have "filter (\<lambda>a. aa_blank_id a = b) (concat (map (new_accepted uid) (enumerate 0 forms))) = []"
    using assms by (auto simp: filter_empty_conv blank_keys_def dest!: new_accepted_blank)
  then show ?thesis by (simp add: accepted_of_def)
qed

subsection \<open>Round trip\<close>

text \<open>A freshly written question: its key is used by no other row and no older row refers to it.\<close>

definition blank_pairs :: "question_form list \<Rightarrow> (nat \<times> nat \<times> blank_form) list" where
  "blank_pairs forms =
     concat (map (\<lambda>(p, f). map (Pair p) (enumerate 0 (qf_blanks f))) (enumerate 0 forms))"

lemma new_accepted_pairs:
  "concat (map (new_accepted uid) ys) =
     concat (map (\<lambda>(p, z). new_accepted_of uid p z)
       (concat (map (\<lambda>(p, f). map (Pair p) (enumerate 0 (qf_blanks f))) ys)))"
  by (induction ys) (auto simp: new_accepted_def comp_def split: prod.splits)

lemma new_blank_ids:
  "map bl_id (concat (map (new_blanks uid) ys)) =
     map (\<lambda>(p, z). blank_key uid p z)
       (concat (map (\<lambda>(p, f). map (Pair p) (enumerate 0 (qf_blanks f))) ys))"
  by (induction ys) (auto simp: new_blanks_def comp_def split: prod.splits)

definition written ::
    "(draw \<Rightarrow> string) \<Rightarrow> int \<Rightarrow> string \<Rightarrow> question_form list \<Rightarrow> question_db \<Rightarrow> question_db \<Rightarrow> bool" where
  "written uid now t forms d d' \<longleftrightarrow>
     d' = replace_questions uid now t forms d \<and> content_keys d' \<and> refs_ok d"

lemma written_replaced: "written uid now t forms d d' \<Longrightarrow> d' = replace_questions uid now t forms d"
  by (simp add: written_def)

lemma written_refs: "written uid now t forms d d' \<Longrightarrow> refs_ok d"
  by (simp add: written_def)

lemma fresh_keys:
  assumes "written uid now t forms d d'"
  shows "distinct (map (question_key uid) (enumerate 0 forms))"
    and "\<And>y. y \<in> set (enumerate 0 forms) \<Longrightarrow> question_key uid y \<notin> tq_id ` set (db_questions d)"
proof -
  have "distinct (map tq_id (db_questions d'))" "d' = replace_questions uid now t forms d"
    using assms unfolding written_def content_keys_def by blast+
  then have "distinct (map tq_id (db_questions d) @ map (question_key uid) (enumerate 0 forms))"
    by (simp add: comp_def)
  then show "distinct (map (question_key uid) (enumerate 0 forms))"
    and "\<And>y. y \<in> set (enumerate 0 forms) \<Longrightarrow> question_key uid y \<notin> tq_id ` set (db_questions d)"
    by (simp, simp only: distinct_append set_map) blast
qed

lemma fresh_children:
  assumes w: "written uid now t forms d d'" and y: "y \<in> set (enumerate 0 forms)"
  shows "filter (\<lambda>c. ch_question_id c = question_key uid y) (db_choices d) = []"
    and "filter (\<lambda>c. bl_question_id c = question_key uid y) (db_blanks d) = []"
    and "get_by cg_question_id (question_key uid y) (db_configs d) = None"
proof -
  note fresh = fresh_keys(2) [OF w y]
  note sub = refs_okD(2,3,5) [OF written_refs [OF w]]
  have "question_key uid y \<notin> ch_question_id ` set (db_choices d)"
    "question_key uid y \<notin> bl_question_id ` set (db_blanks d)"
    "question_key uid y \<notin> cg_question_id ` set (db_configs d)"
    by (rule contra_subsetD [OF sub(1) fresh] contra_subsetD [OF sub(2) fresh]
        contra_subsetD [OF sub(3) fresh])+
  then show "filter (\<lambda>c. ch_question_id c = question_key uid y) (db_choices d) = []"
    and "filter (\<lambda>c. bl_question_id c = question_key uid y) (db_blanks d) = []"
    and "get_by cg_question_id (question_key uid y) (db_configs d) = None"
    by (simp_all only: filter_not_owner get_by_None not_False_eq_True)
qed

lemma written_choices:
  assumes w: "written uid now t forms d d'" and y: "y \<in> set (enumerate 0 forms)"
  shows "choices_of d' (question_key uid y) = new_choices uid y"
proof -
  obtain p f where py: "y = (p, f)" by force
  have "filter (\<lambda>c. ch_question_id c = question_key uid y)
      (concat (map (new_choices uid) (enumerate 0 forms))) = new_choices uid y"
    by (rule filter_concat_owner [OF fresh_keys(1) [OF w] y new_owners(1)])
  moreover have "order_by ch_position (new_choices uid y) = new_choices uid y"
    unfolding py new_choices_def prod.case by (rule order_by_enumerate) simp
  ultimately show ?thesis
    by (simp add: choices_of_def written_replaced [OF w] fresh_children(1) [OF w y])
qed

lemma written_blanks:
  assumes w: "written uid now t forms d d'" and y: "y \<in> set (enumerate 0 forms)"
  shows "blanks_of d' (question_key uid y) = new_blanks uid y"
proof -
  obtain p f where py: "y = (p, f)" by force
  have "filter (\<lambda>c. bl_question_id c = question_key uid y)
      (concat (map (new_blanks uid) (enumerate 0 forms))) = new_blanks uid y"
    by (rule filter_concat_owner [OF fresh_keys(1) [OF w] y new_owners(2)])
  moreover have "order_by bl_position (new_blanks uid y) = new_blanks uid y"
    unfolding py new_blanks_def prod.case by (rule order_by_enumerate) simp
  ultimately show ?thesis
    by (simp add: blanks_of_def written_replaced [OF w] fresh_children(2) [OF w y])
qed

lemma written_config:
  assumes w: "written uid now t forms d d'" and y: "y \<in> set (enumerate 0 forms)"
  shows "get_by cg_question_id (question_key uid y) (db_configs d') = first_row (new_config uid y)"
proof -
  have "filter (\<lambda>c. cg_question_id c = question_key uid y)
      (concat (map (new_config uid) (enumerate 0 forms))) = new_config uid y"
    by (rule filter_concat_owner [OF fresh_keys(1) [OF w] y new_owners(3)])
  moreover have "get_by cg_question_id x rows = first_row (filter (\<lambda>r. cg_question_id r = x) rows)" for x rows
    by (induction rows) auto
  ultimately have "get_by cg_question_id (question_key uid y)
      (concat (map (new_config uid) (enumerate 0 forms))) = first_row (new_config uid y)"
    by metis
  then show ?thesis
    using fresh_children(3) [OF w y]
    by (simp add: written_replaced [OF w] get_by_def find_row_append del: filter_append)
qed

lemma written_accepted:
  assumes w: "written uid now t forms d d'" and y: "(p, f) \<in> set (enumerate 0 forms)" and z: "z \<in> set (enumerate 0 (qf_blanks f))"
  shows "accepted_of d' (blank_key uid p z) = new_accepted_of uid p z"
proof -
  have dist: "distinct (map (\<lambda>(p, z). blank_key uid p z) (blank_pairs forms))"
    and new: "\<forall>b \<in> set (blank_pairs forms). (case b of (p, z) \<Rightarrow> blank_key uid p z) \<notin> bl_id ` set (db_blanks d)"
  proof -
    have ids: "map (\<lambda>(p, z). blank_key uid p z) (blank_pairs forms) =
        map bl_id (concat (map (new_blanks uid) (enumerate 0 forms)))"
      by (simp only: blank_pairs_def new_blank_ids)
    have "distinct (map bl_id (db_blanks d'))" using w unfolding written_def content_keys_def by blast
    then have "distinct (map bl_id (db_blanks d) @ map bl_id (concat (map (new_blanks uid) (enumerate 0 forms))))"
      by (simp only: written_replaced [OF w] replace_tables map_append)
    then have "distinct (map bl_id (db_blanks d) @ map (\<lambda>(p, z). blank_key uid p z) (blank_pairs forms))"
      by (simp only: ids)
    then show "distinct (map (\<lambda>(p, z). blank_key uid p z) (blank_pairs forms))"
      and "\<forall>b \<in> set (blank_pairs forms). (case b of (p, z) \<Rightarrow> blank_key uid p z) \<notin> bl_id ` set (db_blanks d)"
      by auto
  qed
  have pz: "(p, z) \<in> set (blank_pairs forms)"
    using y z by (force simp: blank_pairs_def)
  have "filter (\<lambda>a. aa_blank_id a = (case (p, z) of (p, z) \<Rightarrow> blank_key uid p z))
      (concat (map (\<lambda>(p, z). new_accepted_of uid p z) (blank_pairs forms))) =
      (case (p, z) of (p, z) \<Rightarrow> new_accepted_of uid p z)"
    by (rule filter_concat_owner [OF dist pz]) (auto dest: new_owners(4))
  moreover have "filter (\<lambda>a. aa_blank_id a = blank_key uid p z) (db_accepted d) = []"
  proof -
    have "blank_key uid p z \<notin> bl_id ` set (db_blanks d)" using bspec [OF new pz] by simp
    then have "blank_key uid p z \<notin> aa_blank_id ` set (db_accepted d)" by (rule contra_subsetD [OF refs_okD(4) [OF written_refs [OF w]]])
    then show ?thesis by (rule filter_not_owner)
  qed
  moreover have "order_by aa_position (new_accepted_of uid p z) = new_accepted_of uid p z"
    unfolding new_accepted_of_def by (cases z) (auto intro: order_by_enumerate)
  ultimately show ?thesis
    by (simp add: accepted_of_def written_replaced [OF w] new_accepted_pairs blank_pairs_def)
qed

text \<open>What the tables keep of a form: its content without the identifiers the client may send.\<close>

definition stored_form :: "question_form \<Rightarrow> question_form" where
  "stored_form f = f\<lparr>qf_id := None,
     qf_choices := map (\<lambda>c. c\<lparr>cf_id := None\<rparr>) (qf_choices f),
     qf_blanks := map (\<lambda>b. b\<lparr>bf_id := None\<rparr>) (qf_blanks f),
     qf_expected_answer :=
       (if qf_question_type f = FREE_TEXT then Some (or_str (qf_expected_answer f) []) else None),
     qf_strictness :=
       (if qf_question_type f = FREE_TEXT
        then Some (case qf_strictness f of None \<Rightarrow> BALANCED | Some s \<Rightarrow> s) else None)\<rparr>"

lemma written_blank_view:
  assumes w: "written uid now t forms d d'"
    and y: "(p, f) \<in> set (enumerate 0 forms)" and z: "(i, b) \<in> set (enumerate 0 (qf_blanks f))"
  shows "bm_accepted_answers (blank_view d' \<lparr>bl_id = blank_key uid p (i, b), bl_question_id = q,
           bl_blank_key = k, bl_position = n\<rparr>) = bf_accepted_answers b"
proof -
  have "map aa_answer (new_accepted_of uid p (i, b)) = bf_accepted_answers b"
    by (simp add: new_accepted_of_def comp_def prod.case_distrib) (simp add: case_prod_unfold)
  then show ?thesis by (simp add: blank_view_def written_accepted [OF w y z])
qed

lemma written_question_view:
  assumes w: "written uid now t forms d d'" and y: "(p, f) \<in> set (enumerate 0 forms)"
  shows "form_of_model (question_view d' (new_question uid now t (p, f))) = stored_form f"
proof -
  let ?q = "question_key uid (p, f)"
  have cs: "map (\<lambda>c. \<lparr>cf_id = None, cf_text = cm_text c, cf_is_correct = cm_is_correct c\<rparr>)
      (map choice_model_of (choices_of d' ?q)) = map (\<lambda>c. c\<lparr>cf_id := None\<rparr>) (qf_choices f)"
    unfolding written_choices [OF w y]
    by (rule nth_equalityI) (auto simp: new_choices_def choice_model_of_def nth_enumerate_eq)
  have bs: "map (\<lambda>b. \<lparr>bf_id = None, bf_key = bm_key b, bf_accepted_answers = bm_accepted_answers b\<rparr>)
      (map (blank_view d') (blanks_of d' ?q)) = map (\<lambda>b. b\<lparr>bf_id := None\<rparr>) (qf_blanks f)"
    unfolding written_blanks [OF w y]
  proof (rule nth_equalityI)
    fix i assume "i < length (map (\<lambda>b. \<lparr>bf_id = None, bf_key = bm_key b, bf_accepted_answers = bm_accepted_answers b\<rparr>)
      (map (blank_view d') (new_blanks uid (p, f))))"
    then have i: "i < length (qf_blanks f)" by (simp add: new_blanks_def)
    then have "(i, qf_blanks f ! i) \<in> set (enumerate 0 (qf_blanks f))" by (simp add: in_set_enumerate_eq)
    from written_blank_view [OF w y this] i
    show "map (\<lambda>b. \<lparr>bf_id = None, bf_key = bm_key b, bf_accepted_answers = bm_accepted_answers b\<rparr>)
        (map (blank_view d') (new_blanks uid (p, f))) ! i = map (\<lambda>b. b\<lparr>bf_id := None\<rparr>) (qf_blanks f) ! i"
      by (simp add: new_blanks_def nth_enumerate_eq) (simp add: blank_view_def)
  qed (simp add: new_blanks_def)
  show ?thesis
    using cs bs
    by (simp add: form_of_model_def question_view_def stored_form_def new_question_def
        written_config [OF w y] new_config_def comp_def)
qed

lemma written_load:
  assumes w: "written uid now t forms d d'"
    and fresh: "filter (\<lambda>q. tq_task_id q = t) (db_questions d) = []"
  shows "map form_of_model (load_questions t d') = map stored_form forms"
proof -
  have "filter (\<lambda>q. tq_task_id q = t) (map (new_question uid now t) (enumerate 0 forms)) =
      map (new_question uid now t) (enumerate 0 forms)"
    by (simp add: filter_map comp_def)
  moreover have "order_by tq_position (map (new_question uid now t) (enumerate 0 forms)) =
      map (new_question uid now t) (enumerate 0 forms)"
    by (rule order_by_enumerate) (simp add: new_question_def)
  ultimately have "questions_of d' t = map (new_question uid now t) (enumerate 0 forms)"
    using fresh by (simp add: questions_of_def written_replaced [OF w])
  then have "map form_of_model (load_questions t d') =
      map (\<lambda>y. form_of_model (question_view d' (new_question uid now t y))) (enumerate 0 forms)"
    by (simp add: load_questions_alt comp_def)
  also have "\<dots> = map (\<lambda>y. stored_form (snd y)) (enumerate 0 forms)"
    by (rule map_cong [OF refl]) (auto simp: written_question_view [OF w])
  also have "\<dots> = map stored_form (map snd (enumerate 0 forms))" by (simp only: map_map comp_def)
  finally show ?thesis by simp
qed

subsection \<open>What the other tasks see\<close>

lemma question_view_cong:
  assumes "choices_of d' (tq_id q) = choices_of d (tq_id q)"
    and "blanks_of d' (tq_id q) = blanks_of d (tq_id q)"
    and "get_by cg_question_id (tq_id q) (db_configs d') = get_by cg_question_id (tq_id q) (db_configs d)"
    and "\<And>b. b \<in> set (blanks_of d (tq_id q)) \<Longrightarrow> accepted_of d' (bl_id b) = accepted_of d (bl_id b)"
  shows "question_view d' q = question_view d q"
proof -
  have "map (blank_view d') (blanks_of d (tq_id q)) = map (blank_view d) (blanks_of d (tq_id q))"
    by (rule map_cong [OF refl]) (simp add: blank_view_def assms(4))
  then show ?thesis using assms(1-3) by (simp add: question_view_def Let_def)
qed

lemma questions_of_in: "q \<in> set (questions_of d t) \<longleftrightarrow> q \<in> set (db_questions d) \<and> tq_task_id q = t"
  by (auto simp: questions_of_def set_order_by)

lemma blanks_of_in: "b \<in> set (blanks_of d q) \<longleftrightarrow> b \<in> set (db_blanks d) \<and> bl_question_id b = q"
  by (auto simp: blanks_of_def set_order_by)

lemma written_other:
  assumes w: "written uid now t forms d d'" and other: "t' \<noteq> t"
  shows "load_questions t' d' = load_questions t' d"
proof -
  have "filter (\<lambda>q. tq_task_id q = t') (map (new_question uid now t) (enumerate 0 forms)) = []"
    using other by (simp add: filter_map comp_def)
  then have qs: "questions_of d' t' = questions_of d t'"
    by (simp add: questions_of_def written_replaced [OF w])
  have "question_view d' q = question_view d q" if "q \<in> set (questions_of d t')" for q
  proof -
    have "tq_id q \<in> tq_id ` set (db_questions d)" using that by (simp add: questions_of_in)
    then have q: "tq_id q \<notin> question_keys uid forms"
      using fresh_keys(2) [OF w] unfolding question_keys_def by (metis imageE)
    have "distinct (map bl_id (db_blanks d'))" using w unfolding written_def content_keys_def by blast
    then have b: "bl_id ` set (db_blanks d) \<inter> blank_keys uid forms = {}"
      by (simp only: written_replaced [OF w] replace_tables map_append distinct_append blank_keys_def set_map)
    show ?thesis
      unfolding written_replaced [OF w]
      by (intro question_view_cong replace_other_question q replace_other_blank)
         (use b in \<open>auto simp: blanks_of_in\<close>)
  qed
  with qs show ?thesis by (simp add: load_questions_alt)
qed

definition own_questions :: "string \<Rightarrow> question_db \<Rightarrow> string set" where
  "own_questions t d = tq_id ` {q \<in> set (db_questions d). tq_task_id q = t}"

definition own_blanks :: "string \<Rightarrow> question_db \<Rightarrow> string set" where
  "own_blanks t d = bl_id ` {b \<in> set (db_blanks d). bl_question_id b \<in> own_questions t d}"

lemma del_rows_none: "del_rows (\<lambda>_. False) rows = rows"
  by (simp add: del_rows_def)

lemma delete_tables:
  "db_tasks (delete_questions t d) = db_tasks d"
  "db_questions (delete_questions t d) = del_rows (\<lambda>q. tq_id q \<in> own_questions t d) (db_questions d)"
  "db_choices (delete_questions t d) = del_rows (\<lambda>c. ch_question_id c \<in> own_questions t d) (db_choices d)"
  "db_blanks (delete_questions t d) = del_rows (\<lambda>b. bl_question_id b \<in> own_questions t d) (db_blanks d)"
  "db_accepted (delete_questions t d) = del_rows (\<lambda>a. aa_blank_id a \<in> own_blanks t d) (db_accepted d)"
  "db_configs (delete_questions t d) = del_rows (\<lambda>c. cg_question_id c \<in> own_questions t d) (db_configs d)"
proof -
  have ids: "set (map tq_id (filter (\<lambda>q. tq_task_id q = t) (db_questions d))) = own_questions t d"
    by (auto simp: own_questions_def)
  have bids: "set (map bl_id (filter (\<lambda>b. bl_question_id b \<in> own_questions t d) (db_blanks d))) = own_blanks t d"
    by (auto simp: own_blanks_def)
  have none: "own_questions t d = {}" if "filter (\<lambda>q. tq_task_id q = t) (db_questions d) = []"
    using that by (auto simp: own_questions_def filter_empty_conv)
  have nob: "own_blanks t d = {}"
    if "filter (\<lambda>b. bl_question_id b \<in> own_questions t d) (db_blanks d) = []"
    using that by (auto simp: own_blanks_def filter_empty_conv)
  have nob': "own_blanks t d = {}" if "own_questions t d = {}"
    using that by (simp add: own_blanks_def)
  show "db_tasks (delete_questions t d) = db_tasks d"
    "db_questions (delete_questions t d) = del_rows (\<lambda>q. tq_id q \<in> own_questions t d) (db_questions d)"
    "db_choices (delete_questions t d) = del_rows (\<lambda>c. ch_question_id c \<in> own_questions t d) (db_choices d)"
    "db_blanks (delete_questions t d) = del_rows (\<lambda>b. bl_question_id b \<in> own_questions t d) (db_blanks d)"
    "db_accepted (delete_questions t d) = del_rows (\<lambda>a. aa_blank_id a \<in> own_blanks t d) (db_accepted d)"
    "db_configs (delete_questions t d) = del_rows (\<lambda>c. cg_question_id c \<in> own_questions t d) (db_configs d)"
    unfolding delete_questions_def Let_def ids bids map_is_Nil_conv
    by (cases "filter (\<lambda>q. tq_task_id q = t) (db_questions d) = []";
        cases "filter (\<lambda>b. bl_question_id b \<in> own_questions t d) (db_blanks d) = []";
        simp add: none nob nob' del_rows_none)+
qed

lemma filter_del_rows: "(\<And>r. r \<in> set rows \<Longrightarrow> P r \<Longrightarrow> \<not> Q r) \<Longrightarrow> filter P (del_rows Q rows) = filter P rows"
  by (induction rows) auto

lemma filter_del_owner:
  "x \<notin> S \<Longrightarrow> filter (\<lambda>r. g r = x) (del_rows (\<lambda>r. g r \<in> S) rows) = filter (\<lambda>r. g r = x) rows"
  by (induction rows) auto

lemma get_by_del_owner:
  "x \<notin> S \<Longrightarrow> get_by key x (del_rows (\<lambda>r. key r \<in> S) rows) = get_by key x rows"
  by (induction rows) auto

lemma distinct_del_rows: "distinct (map k rows) \<Longrightarrow> distinct (map k (del_rows Q rows))"
  by (auto simp: del_rows_def intro: distinct_map_filter)

lemma own_questions_other:
  assumes "distinct (map tq_id (db_questions d))" "q \<in> set (db_questions d)" "tq_task_id q \<noteq> t"
  shows "tq_id q \<notin> own_questions t d"
  using assms row_unique [of tq_id "db_questions d" q] by (auto simp: own_questions_def)

lemma delete_own: "filter (\<lambda>q. tq_task_id q = t) (db_questions (delete_questions t d)) = []"
  by (auto simp: delete_tables filter_empty_conv set_del_rows own_questions_def)

lemma delete_other:
  assumes keys: "content_keys d" and other: "t' \<noteq> t"
  shows "load_questions t' (delete_questions t d) = load_questions t' d"
proof -
  let ?d = "delete_questions t d"
  have kq: "distinct (map tq_id (db_questions d))" and kb: "distinct (map bl_id (db_blanks d))"
    using keys unfolding content_keys_def by blast+
  have "tq_id q \<notin> own_questions t d" if "q \<in> set (db_questions d)" "tq_task_id q = t'" for q
    using own_questions_other [OF kq] other that by simp
  then have "questions_of ?d t' = questions_of d t'"
    by (simp add: questions_of_def delete_tables filter_del_rows)
  moreover have "question_view ?d q = question_view d q" if "q \<in> set (questions_of d t')" for q
  proof -
    have q: "tq_id q \<notin> own_questions t d"
      using own_questions_other [OF kq] that other by (simp add: questions_of_in)
    have b: "bl_id b \<notin> own_blanks t d" if "b \<in> set (blanks_of d (tq_id q))" for b
    proof
      assume "bl_id b \<in> own_blanks t d"
      then obtain b' where "b' \<in> set (db_blanks d)" "bl_id b' = bl_id b" "bl_question_id b' \<in> own_questions t d"
        by (auto simp: own_blanks_def)
      moreover have "b \<in> set (db_blanks d)" "bl_question_id b = tq_id q" using that by (simp_all add: blanks_of_in)
      ultimately show False using row_unique [OF kb] q by metis
    qed
    show ?thesis
      by (rule question_view_cong)
         (use q b in \<open>simp_all add: choices_of_def blanks_of_def accepted_of_def delete_tables
           filter_del_owner get_by_del_owner set_order_by\<close>)
  qed
  ultimately show ?thesis by (simp add: load_questions_alt)
qed

lemma del_rows_refs:
  assumes "g ` set as \<subseteq> k ` set bs" and "\<And>b. b \<in> set bs \<Longrightarrow> Q b \<Longrightarrow> k b \<in> S"
  shows "g ` set (del_rows (\<lambda>a. g a \<in> S) as) \<subseteq> k ` set (del_rows Q bs)"
proof
  fix x assume "x \<in> g ` set (del_rows (\<lambda>a. g a \<in> S) as)"
  then have "x \<in> g ` set as" "x \<notin> S" by (auto simp: set_del_rows)
  then obtain b where "b \<in> set bs" "k b = x" using assms(1) by (metis imageE subsetD)
  moreover have "\<not> Q b" using assms(2) \<open>x \<notin> S\<close> calculation by blast
  ultimately show "x \<in> k ` set (del_rows Q bs)" by (force simp: set_del_rows)
qed

text \<open>Both keep the keys and the references.\<close>

lemma delete_content_ok: "content_ok d \<Longrightarrow> content_ok (delete_questions t d)"
proof -
  assume h: "content_ok d"
  note r = refs_okD [of d]
  have d: "refs_ok d" using h by (simp add: content_ok_def)
  from h have "content_keys (delete_questions t d)"
    by (simp add: content_ok_def content_keys_def delete_tables distinct_del_rows)
  moreover have "refs_ok (delete_questions t d)"
    unfolding refs_ok_def
  proof (intro conjI)
    show "tq_task_id ` set (db_questions (delete_questions t d)) \<subseteq> qt_id ` set (db_tasks (delete_questions t d))"
      using r(1) [OF d] by (auto simp: delete_tables set_del_rows)
  qed (unfold delete_tables, rule del_rows_refs [OF r(2) [OF d]], simp,
       rule del_rows_refs [OF r(3) [OF d]], simp,
       rule del_rows_refs [OF r(4) [OF d]], simp add: own_blanks_def,
       rule del_rows_refs [OF r(5) [OF d]], simp)
  ultimately show ?thesis by (simp add: content_ok_def)
qed

lemma written_content_ok:
  assumes w: "written uid now t forms d d'" and t: "t \<in> qt_id ` set (db_tasks d)"
  shows "content_ok d'"
proof -
  note r = refs_okD [OF written_refs [OF w]]
  note owners = new_owners [of _ uid]
  have "refs_ok d'"
    unfolding refs_ok_def written_replaced [OF w] replace_tables set_append image_Un Un_subset_iff
  proof (intro conjI)
    show "tq_task_id ` set (map (new_question uid now t) (enumerate 0 forms)) \<subseteq> qt_id ` set (db_tasks d)"
      using t by auto
    show "ch_question_id ` set (concat (map (new_choices uid) (enumerate 0 forms))) \<subseteq>
        tq_id ` set (db_questions d) \<union> tq_id ` set (map (new_question uid now t) (enumerate 0 forms))"
      by (auto simp: image_image dest!: owners(1))
    show "bl_question_id ` set (concat (map (new_blanks uid) (enumerate 0 forms))) \<subseteq>
        tq_id ` set (db_questions d) \<union> tq_id ` set (map (new_question uid now t) (enumerate 0 forms))"
      by (auto simp: image_image dest!: owners(2))
    show "aa_blank_id ` set (concat (map (new_accepted uid) (enumerate 0 forms))) \<subseteq>
        bl_id ` set (db_blanks d) \<union> bl_id ` set (concat (map (new_blanks uid) (enumerate 0 forms)))"
      by (auto dest!: new_accepted_blank)
    show "cg_question_id ` set (concat (map (new_config uid) (enumerate 0 forms))) \<subseteq>
        tq_id ` set (db_questions d) \<union> tq_id ` set (map (new_question uid now t) (enumerate 0 forms))"
      by (auto simp: image_image dest!: owners(3))
  qed (use r in auto)
  moreover have "content_keys d'" using w unfolding written_def by blast
  ultimately show ?thesis by (simp only: content_ok_def)
qed

end
