(* ===== verification/Question_Authoring.thy ===== *)
theory Question_Authoring
  imports Question_Store
begin

text \<open>
  The properties of the authoring operations: a created or updated task reads back as its form
  and leaves every other task alone, a published task is immutable, a clone continues its
  family's versions, and what a participant sees of a task does not depend on its answer key.
\<close>

subsection \<open>Reading after writing\<close>

lemma latest_version_other:
  assumes "\<And>t. qt_family_id (f t) = qt_family_id t \<and> qt_version (f t) = qt_version t"
  shows "latest_version fam (d\<lparr>db_tasks := upd_by qt_id k f (db_tasks d)\<rparr>) = latest_version fam d"
proof -
  have "map qt_version (filter (\<lambda>t. qt_family_id t = fam) (upd_by qt_id k f rows)) =
      map qt_version (filter (\<lambda>t. qt_family_id t = fam) rows)" for rows
    using assms by (induction rows) auto
  moreover have "max_of qt_version rows = max_of (\<lambda>v. v) (map qt_version rows)" for rows
    by (simp add: max_of_def)
  ultimately have "max_of qt_version (filter (\<lambda>t. qt_family_id t = fam) (upd_by qt_id k f rows)) =
      max_of qt_version (filter (\<lambda>t. qt_family_id t = fam) rows)" for rows
    by metis
  then show ?thesis by (simp add: latest_version_def)
qed

lemma latest_version_tasks: "db_tasks d = db_tasks d' \<Longrightarrow> latest_version fam d = latest_version fam d'"
  by (simp add: latest_version_def)

lemma get_task_other:
  assumes "get_by qt_id t (db_tasks d') = get_by qt_id t (db_tasks d)"
    and "\<And>fam. fam \<in> qt_family_id ` set (db_tasks d) \<Longrightarrow> latest_version fam d' = latest_version fam d"
    and "load_questions t d' = load_questions t d"
  shows "get_question_task t d' = get_question_task t d"
proof (cases "get_by qt_id t (db_tasks d)")
  case (Some row)
  then have "qt_family_id row \<in> qt_family_id ` set (db_tasks d)" by (auto dest: get_by_Some)
  with Some assms show ?thesis by (simp add: get_question_task_def)
qed (use assms in \<open>simp add: get_question_task_def\<close>)

lemma load_tasks_only: "load_questions t (d\<lparr>db_tasks := rows\<rparr>) = load_questions t d"
  by (simp add: load_questions_def)

lemma content_keys_tasks:
  "map qt_id rows = map qt_id (db_tasks d) \<Longrightarrow> content_keys (d\<lparr>db_tasks := rows\<rparr>) = content_keys d"
  by (simp add: content_keys_def)

lemma refs_ok_tasks:
  assumes "qt_id ` set (db_tasks d) \<subseteq> qt_id ` set rows" and "refs_ok d"
  shows "refs_ok (d\<lparr>db_tasks := rows\<rparr>)"
  using order_trans [OF refs_okD(1) [OF assms(2)] assms(1)] refs_okD(2-5) [OF assms(2)]
  by (simp add: refs_ok_def)

lemma content_keys_sub:
  "content_keys (replace_questions uid now t forms d) \<Longrightarrow> content_keys d"
  by (simp add: content_keys_def)

lemma no_questions:
  assumes "refs_ok d" and "t \<notin> qt_id ` set (db_tasks d)"
  shows "filter (\<lambda>q. tq_task_id q = t) (db_questions d) = []"
  by (rule filter_not_owner, rule contra_subsetD [OF refs_okD(1) [OF assms(1)] assms(2)])

subsection \<open>Creating\<close>

definition draft_row :: "string \<Rightarrow> string \<Rightarrow> int \<Rightarrow> string \<Rightarrow> string \<Rightarrow> int \<Rightarrow> question_task_row" where
  "draft_row i fam v title desc now =
     \<lparr>qt_id = i, qt_family_id = fam, qt_version = v, qt_title = title, qt_description = desc,
      qt_status = QT_DRAFT, qt_locked_at = None, qt_archived_at = None,
      qt_workflow_managed = False, qt_created_at = now, qt_updated_at = now\<rparr>"

text \<open>Adding a draft with its questions, as creating and cloning do.\<close>

lemma add_draft:
  assumes ok: "content_ok d"
    and row: "row = draft_row t fam v title desc now"
    and d': "d' = replace_questions uid now' t forms (d\<lparr>db_tasks := add_row row (db_tasks d)\<rparr>)"
    and keys: "content_keys d'"
  shows "content_ok d'"
    and "map form_of_model (load_questions t d') = map stored_form forms"
    and "get_by qt_id t (db_tasks d') = Some row"
    and "t' \<noteq> t \<Longrightarrow>
           load_questions t' d' = load_questions t' d \<and>
           get_by qt_id t' (db_tasks d') = get_by qt_id t' (db_tasks d)"
proof -
  let ?d = "d\<lparr>db_tasks := add_row row (db_tasks d)\<rparr>"
  have refs: "refs_ok d" using ok by (simp add: content_ok_def)
  have refs': "refs_ok ?d" by (rule refs_ok_tasks [OF _ refs]) (auto simp: set_add_row)
  have w: "written uid now' t forms ?d d'" using d' keys refs' by (simp add: written_def)
  have idr: "qt_id row = t" by (simp add: row draft_row_def)
  have "content_keys ?d" using keys unfolding d' by (rule content_keys_sub)
  then have fresh: "t \<notin> qt_id ` set (db_tasks d)"
    by (simp add: content_keys_def map_add_row idr)
  show "content_ok d'"
    by (rule written_content_ok [OF w]) (simp add: set_add_row idr)
  show "map form_of_model (load_questions t d') = map stored_form forms"
    by (rule written_load [OF w]) (simp add: no_questions [OF refs fresh])
  have "get_by qt_id t (db_tasks d) = None" using fresh by (simp add: get_by_None)
  then show "get_by qt_id t (db_tasks d') = Some row"
    using table.get_ins [of qt_id t row "db_tasks d"] by (simp add: d' idr)
  assume other: "t' \<noteq> t"
  have "load_questions t' d' = load_questions t' d"
    using written_other [OF w other] by (simp add: load_tasks_only)
  moreover have "get_by qt_id t' (db_tasks d') = get_by qt_id t' (db_tasks d)"
    using table.get_ins [of qt_id t' row "db_tasks d"] other
    by (simp add: d' idr split: option.splits)
  ultimately show "load_questions t' d' = load_questions t' d \<and>
      get_by qt_id t' (db_tasks d') = get_by qt_id t' (db_tasks d)" by blast
qed

definition question_uid :: "draw \<Rightarrow> string" where
  "question_uid x =
     (case x of DTask \<Rightarrow> ''t'' | DQuestion p \<Rightarrow> ''q'' @ nat_str p
      | DChoice p i \<Rightarrow> ''c'' @ nat_str p @ ''-'' @ nat_str i
      | DBlank p i \<Rightarrow> ''b'' @ nat_str p @ ''-'' @ nat_str i
      | DAccepted p i j \<Rightarrow> ''a'' @ nat_str p @ ''-'' @ nat_str i @ ''-'' @ nat_str j)"

definition empty_questions :: question_db where
  "empty_questions = \<lparr>db_tasks = [], db_questions = [], db_choices = [], db_blanks = [],
     db_accepted = [], db_configs = []\<rparr>"

definition sample_form :: question_task_form where
  "sample_form = \<lparr>tf_title = ''Quiz'', tf_description = '''', tf_questions =
     [\<lparr>qf_id = None, qf_title = ''Q'', qf_description = ''2+2={{n}}'', qf_question_type = FILL_BLANK,
       qf_max_score = 3 / 2, qf_grading_mode = AUTOMATIC, qf_image_file_id = None,
       qf_case_sensitive = False, qf_choices = [],
       qf_blanks = [\<lparr>bf_id = None, bf_key = ''n'', bf_accepted_answers = [''4'', ''four'']\<rparr>],
       qf_expected_answer = None, qf_strictness = None\<rparr>,
      \<lparr>qf_id = None, qf_title = ''R'', qf_description = '''', qf_question_type = FREE_TEXT,
       qf_max_score = 5, qf_grading_mode = MANUAL, qf_image_file_id = None,
       qf_case_sensitive = False, qf_choices = [], qf_blanks = [],
       qf_expected_answer = None, qf_strictness = None\<rparr>]\<rparr>"

lemma empty_questions_ok: "content_ok empty_questions"
  by (simp add: content_ok_def content_keys_def refs_ok_def empty_questions_def)

text \<open>
  C10. A created question task is a draft that reads back exactly as the stored content of its
  form, question by question and in the form's order; the tables keep their keys and
  references, and the content of every other task stays as it was.
\<close>

theorem create_reads_back:
  assumes ok: "content_ok d"
    and created: "create_question_task uid now now' form d = Inr (r, d')"
  shows "content_ok d' \<and> r = get_question_task (uid DTask) d' \<and>
         (\<exists>m. r = Some m \<and> tm_status m = QT_DRAFT \<and> tm_version m = 1 \<and>
           tm_title m = tf_title form \<and>
           map form_of_model (tm_questions m) = map stored_form (tf_questions form)) \<and>
         (\<forall>t. t \<noteq> uid DTask \<longrightarrow> load_questions t d' = load_questions t d \<and>
           get_by qt_id t (db_tasks d') = get_by qt_id t (db_tasks d))"
proof -
  let ?t = "uid DTask"
  let ?row = "draft_row ?t ?t 1 (tf_title form) (tf_description form) now"
  have d': "d' = replace_questions uid now' ?t (tf_questions form) (d\<lparr>db_tasks := add_row ?row (db_tasks d)\<rparr>)"
    and keys: "content_keys d'" and r: "r = get_question_task ?t d'"
    using created by (auto simp: create_question_task_def draft_row_def Let_def bindE_Inr_iff)
  note add = add_draft [OF ok refl d' keys]
  show ?thesis
    using add r by (simp add: get_question_task_def draft_row_def)
qed

lemma create_reads_back_witness:
  "\<exists>m d'. create_question_task question_uid 1 2 sample_form empty_questions = Inr (Some m, d') \<and>
     map form_of_model (tm_questions m) = map stored_form (tf_questions sample_form)"
proof -
  have "\<not> isl (create_question_task question_uid 1 2 sample_form empty_questions)"
    by code_simp
  then obtain r d' where c: "create_question_task question_uid 1 2 sample_form empty_questions = Inr (r, d')"
    by (cases "create_question_task question_uid 1 2 sample_form empty_questions") auto
  from create_reads_back [OF empty_questions_ok c] c show ?thesis by auto
qed

subsection \<open>Updating\<close>

text \<open>
  An update succeeds only on an existing unlocked draft, after which the task reads back
  as the new form with its version unchanged; a task that does not exist is left absent. No
  other task changes in any way.
\<close>

theorem update_only_drafts:
  assumes ok: "content_ok d"
    and updated: "update_question_task uid now now' t form d = Inr (r, d')"
  shows "content_ok d' \<and>
         (case get_by qt_id t (db_tasks d) of
            None \<Rightarrow> r = None \<and> d' = d
          | Some row \<Rightarrow> qt_status row = QT_DRAFT \<and> \<not> truthy_int (qt_locked_at row) \<and>
              (\<exists>m. r = Some m \<and> get_question_task t d' = Some m \<and> tm_version m = qt_version row \<and>
                map form_of_model (tm_questions m) = map stored_form (tf_questions form))) \<and>
         (\<forall>t'. t' \<noteq> t \<longrightarrow> get_question_task t' d' = get_question_task t' d)"
proof (cases "get_by qt_id t (db_tasks d)")
  case None
  with updated ok show ?thesis by (simp add: update_question_task_def)
next
  case (Some row)
  define f :: "question_task_row \<Rightarrow> question_task_row" where "f = (\<lambda>t. t\<lparr>qt_title := tf_title form, qt_description := tf_description form,
      qt_status := QT_DRAFT, qt_updated_at := now\<rparr>)"
  let ?e = "d\<lparr>db_tasks := upd_by qt_id t f (db_tasks d)\<rparr>"
  let ?d = "delete_questions t ?e"
  from updated Some have st: "qt_status row = QT_DRAFT" "\<not> truthy_int (qt_locked_at row)"
    by (auto simp: update_question_task_def Let_def split: if_splits)
  with updated Some have d': "d' = replace_questions uid now' t (tf_questions form) ?d"
    and keys: "content_keys d'" and r: "r = get_question_task t d'"
    by (auto simp: update_question_task_def f_def Let_def bindE_Inr_iff)
  have fk: "qt_id (f x) = qt_id x" for x by (simp add: f_def)
  have e: "content_ok ?e"
    using ok by (simp add: content_ok_def content_keys_tasks refs_ok_tasks map_upd_by fk image_upd_by)
  have w: "written uid now' t (tf_questions form) ?d d'"
    using d' keys delete_content_ok [OF e] by (simp add: written_def content_ok_def)
  have "t \<in> qt_id ` set (db_tasks d)" using get_by_Some [OF Some] by auto
  then have ok': "content_ok d'"
    by (intro written_content_ok [OF w]) (simp add: delete_tables image_upd_by fk)
  have tasks: "db_tasks d' = upd_by qt_id t f (db_tasks d)" by (simp add: d' delete_tables)
  have row: "get_by qt_id t (db_tasks d') = Some (f row)"
    unfolding tasks by (rule table.get_upd_same) (simp_all add: fk Some)
  have load: "map form_of_model (load_questions t d') = map stored_form (tf_questions form)"
    by (rule written_load [OF w delete_own])
  have "get_question_task t' d' = get_question_task t' d" if "t' \<noteq> t" for t'
  proof (rule get_task_other)
    show "get_by qt_id t' (db_tasks d') = get_by qt_id t' (db_tasks d)"
      unfolding tasks by (rule table.get_upd_other) (simp_all add: fk that)
    have "load_questions t' d' = load_questions t' ?d" by (rule written_other [OF w that])
    also have "\<dots> = load_questions t' ?e"
      by (rule delete_other [OF _ that]) (use e in \<open>simp add: content_ok_def\<close>)
    finally show "load_questions t' d' = load_questions t' d" by (simp add: load_tasks_only)
    show "latest_version fam d' = latest_version fam d" for fam
      using latest_version_other [of f fam t d] latest_version_tasks [of d' ?e fam] tasks
      by (simp add: f_def)
  qed
  moreover have "\<exists>m. get_question_task t d' = Some m \<and> tm_version m = qt_version row \<and>
      tm_questions m = load_questions t d'"
    by (simp add: get_question_task_def row) (simp add: f_def)
  ultimately show ?thesis using Some st r ok' load by auto
qed

definition sample_db :: question_db where
  "sample_db = (case create_question_task question_uid 1 2 sample_form empty_questions of
     Inl _ \<Rightarrow> empty_questions | Inr (_, d) \<Rightarrow> d)"

lemma sample_db_ok: "content_ok sample_db"
  by code_simp

lemma update_only_drafts_witness:
  "\<exists>m d'. update_question_task question_uid 3 4 ''t'' sample_form sample_db = Inr (Some m, d') \<and>
     tm_version m = 1 \<and> get_question_task ''other'' d' = get_question_task ''other'' sample_db"
proof -
  have "\<not> isl (update_question_task question_uid 3 4 ''t'' sample_form sample_db)"
    by code_simp
  then obtain r d' where u: "update_question_task question_uid 3 4 ''t'' sample_form sample_db = Inr (r, d')"
    by (cases "update_question_task question_uid 3 4 ''t'' sample_form sample_db") auto
  have "map_option qt_version (get_by qt_id ''t'' (db_tasks sample_db)) = Some 1" by code_simp
  with update_only_drafts [OF sample_db_ok u] u show ?thesis by (auto split: option.splits)
qed

subsection \<open>Cloning\<close>

text \<open>Content that passes validation again as it is stored.\<close>

definition revalidates :: "question_model \<Rightarrow> bool" where
  "revalidates q \<longleftrightarrow> validate_question (form_of_model q) = Inr (form_of_model q)"

lemma mapE_id: "(\<And>x. x \<in> set xs \<Longrightarrow> f x = Inr x) \<Longrightarrow> mapE f xs = Inr xs"
  by (induction xs) auto

lemma stored_form_of_model:
  assumes "qm_question_type q = FREE_TEXT \<longleftrightarrow> qm_expected_answer q \<noteq> None"
    and "qm_question_type q = FREE_TEXT \<longleftrightarrow> qm_strictness q \<noteq> None"
  shows "stored_form (form_of_model q) = form_of_model q"
  using assms by (cases "qm_expected_answer q") (auto simp: stored_form_def form_of_model_def comp_def or_str_def)

definition config_shape :: "question_model \<Rightarrow> bool" where
  "config_shape q \<longleftrightarrow> (qm_question_type q = FREE_TEXT \<longleftrightarrow> qm_expected_answer q \<noteq> None) \<and>
     (qm_question_type q = FREE_TEXT \<longleftrightarrow> qm_strictness q \<noteq> None)"

lemma latest_version_ge:
  "row \<in> set (db_tasks d) \<Longrightarrow> qt_family_id row = fam \<Longrightarrow>
   \<exists>v. latest_version fam d = Some v \<and> qt_version row \<le> v"
  using max_of_ge [of row "filter (\<lambda>t. qt_family_id t = fam) (db_tasks d)" qt_version]
  by (simp add: latest_version_def)

text \<open>
  A new version of a task whose questions still pass validation carries exactly the
  source's content, joins the source's family as a draft and gets a version number above every
  version the family had; the source keeps its content.
\<close>

theorem clone_new_version:
  assumes ok: "content_ok d"
    and source: "get_question_task t d = Some source"
    and valid: "\<forall>q \<in> set (tm_questions source). revalidates q \<and> config_shape q"
    and cloned: "clone_question_task uid now now' t VERSION d = Inr (r, d')"
  shows "content_ok d' \<and>
         (\<exists>m. r = Some m \<and> tm_id m = uid DTask \<and> tm_family_id m = tm_family_id source \<and>
            tm_status m = QT_DRAFT \<and> tm_title m = tm_title source \<and>
            map form_of_model (tm_questions m) = map form_of_model (tm_questions source) \<and>
            (\<forall>row \<in> set (db_tasks d). qt_family_id row = tm_family_id source \<longrightarrow>
               qt_version row < tm_version m)) \<and>
         load_questions t d' = tm_questions source"
proof -
  let ?n = "uid DTask" and ?fam = "tm_family_id source"
  let ?v = "or_int (latest_version ?fam d) 0 + 1"
  let ?row = "draft_row ?n ?fam ?v (tm_title source) (tm_description source) now"
  let ?d = "d\<lparr>db_tasks := add_row ?row (db_tasks d)\<rparr>"
  let ?forms = "map form_of_model (tm_questions source)"
  have again: "mapE validate_question ?forms = Inr ?forms"
    by (rule mapE_id) (use valid in \<open>auto simp: revalidates_def\<close>)
  from cloned source again have keys0: "content_keys ?d"
    and d': "d' = replace_questions uid now' ?n ?forms ?d"
    and keys: "content_keys d'" and r: "r = get_question_task ?n d'"
    by (auto simp: clone_question_task_def draft_row_def Let_def bindE_Inr_iff)
  note add = add_draft [OF ok refl d' keys]
  have src: "t \<in> qt_id ` set (db_tasks d)"
    using source by (auto simp: get_question_task_def split: option.splits dest!: get_by_Some)
  have "?n \<notin> qt_id ` set (db_tasks d)"
    using keys0 by (simp add: content_keys_def map_add_row draft_row_def)
  then have "t \<noteq> ?n" using src by metis
  then have "load_questions t d' = tm_questions source"
    using add(4) source by (auto simp: get_question_task_def split: option.splits)
  moreover have "map stored_form ?forms = ?forms"
    using valid by (auto simp: config_shape_def intro!: stored_form_of_model)
  moreover have "qt_version row < ?v" if "row \<in> set (db_tasks d)" "qt_family_id row = ?fam" for row
    using latest_version_ge [OF that] by (auto simp: or_int_def)
  ultimately show ?thesis
    using add(1-3) r by (auto simp: get_question_task_def draft_row_def)
qed

definition clone_uid :: "draw \<Rightarrow> string" where
  "clone_uid x = CHR ''n'' # question_uid x"

lemma clone_new_version_witness:
  "\<exists>m d'. clone_question_task clone_uid 5 6 ''t'' VERSION sample_db = Inr (Some m, d') \<and>
     tm_family_id m = ''t'' \<and> 1 < tm_version m \<and>
     load_questions ''t'' d' = load_questions ''t'' sample_db"
proof -
  obtain source where s: "get_question_task ''t'' sample_db = Some source"
    and f: "tm_family_id source = ''t''" and l: "load_questions ''t'' sample_db = tm_questions source"
    and v: "list_all (\<lambda>q. revalidates q \<and> config_shape q) (tm_questions source)"
  proof -
    have "case get_question_task ''t'' sample_db of None \<Rightarrow> False
        | Some m \<Rightarrow> tm_family_id m = ''t'' \<and> load_questions ''t'' sample_db = tm_questions m \<and>
            list_all (\<lambda>q. revalidates q \<and> config_shape q) (tm_questions m)"
      by code_simp
    then show thesis using that by (auto split: option.splits)
  qed
  have "\<not> isl (clone_question_task clone_uid 5 6 ''t'' VERSION sample_db)" by code_simp
  then obtain r d' where c: "clone_question_task clone_uid 5 6 ''t'' VERSION sample_db = Inr (r, d')"
    by (cases "clone_question_task clone_uid 5 6 ''t'' VERSION sample_db") auto
  have "list_ex (\<lambda>row. qt_family_id row = ''t'' \<and> qt_version row = 1) (db_tasks sample_db)" by code_simp
  then obtain row where "row \<in> set (db_tasks sample_db)" "qt_family_id row = ''t''" "qt_version row = 1"
    by (auto simp: list_ex_iff)
  with clone_new_version [OF sample_db_ok s _ c] v f l c show ?thesis
    by (fastforce simp: list_all_iff)
qed

text \<open>
  A task that holds a question with an empty title can never be cloned: the clone builds
  its forms from the stored titles, and their length check fails. Validation lets such titles
  in, because it checks the length of a title before it strips it.
\<close>

theorem blank_title_blocks_clone:
  assumes "get_question_task t d = Some source"
    and "q \<in> set (tm_questions source)" and "qm_title q = []"
  shows "isl (clone_question_task uid now now' t mode d)"
proof -
  have "\<nexists>y. validate_question (form_of_model q) = Inr y"
    using assms(3) by (simp add: validate_question_def form_of_model_def)
  then have "mapE validate_question (map form_of_model (tm_questions source)) \<noteq> Inr fs" for fs
    using assms(2) by (auto dest!: mapE_Inr_list_all2 simp: list_all2_conv_all_nth in_set_conv_nth)
  then show ?thesis
    using assms(1) by (cases "clone_question_task uid now now' t mode d")
      (auto simp: clone_question_task_def Let_def bindE_Inr_iff)
qed

definition blank_form :: question_task_form where
  "blank_form = sample_form\<lparr>tf_questions := map (\<lambda>q. q\<lparr>qf_title := '' ''\<rparr>) (tf_questions sample_form)\<rparr>"

lemma blank_title_blocks_clone_witness:
  "\<exists>form d m. validate_question_task blank_form = Inr form \<and>
     create_question_task question_uid 1 2 form empty_questions = Inr (Some m, d) \<and>
     isl (clone_question_task clone_uid 5 6 ''t'' DUPLICATE d)"
proof -
  have "case validate_question_task blank_form of Inl _ \<Rightarrow> False
    | Inr f \<Rightarrow> (case create_question_task question_uid 1 2 f empty_questions of Inl _ \<Rightarrow> False
        | Inr (r, d) \<Rightarrow> (case get_question_task ''t'' d of None \<Rightarrow> False
            | Some m \<Rightarrow> r \<noteq> None \<and> tm_questions m \<noteq> [] \<and> qm_title (hd (tm_questions m)) = []))"
    by code_simp
  then obtain f m d s where "validate_question_task blank_form = Inr f"
    "create_question_task question_uid 1 2 f empty_questions = Inr (Some m, d)"
    "get_question_task ''t'' d = Some s" "tm_questions s \<noteq> []" "qm_title (hd (tm_questions s)) = []"
    by (auto split: sum.splits option.splits prod.splits)
  moreover from this have "isl (clone_question_task clone_uid 5 6 ''t'' DUPLICATE d)"
    by (intro blank_title_blocks_clone) auto
  ultimately show ?thesis by blast
qed

subsection \<open>What a participant sees\<close>

text \<open>Two stores that differ only in the answer key: the correct choices, the accepted answers,
  the grading modes, the case rule and the free-text configurations.\<close>

definition public_question :: "question_row \<Rightarrow> question_row" where
  "public_question q = q\<lparr>tq_grading_mode := MANUAL, tq_case_sensitive := False\<rparr>"

definition public_choice :: "choice_row \<Rightarrow> choice_row" where
  "public_choice c = c\<lparr>ch_is_correct := False\<rparr>"

definition same_public :: "question_db \<Rightarrow> question_db \<Rightarrow> bool" where
  "same_public d d' \<longleftrightarrow> db_tasks d = db_tasks d' \<and> db_blanks d = db_blanks d' \<and>
     map public_question (db_questions d) = map public_question (db_questions d') \<and>
     map public_choice (db_choices d) = map public_choice (db_choices d')"

lemma insort_key_map: "insort_key k (f x) (map f xs) = map f (insort_key (\<lambda>x. k (f x)) x xs)"
  by (induction xs) auto

lemma order_by_map: "order_by k (map f xs) = map f (order_by (\<lambda>x. k (f x)) xs)"
  unfolding order_by_def by (induction xs) (auto simp: insort_key_map)

lemma public_fields [simp]:
  "tq_id (public_question q) = tq_id q" "tq_task_id (public_question q) = tq_task_id q"
  "tq_title (public_question q) = tq_title q" "tq_description (public_question q) = tq_description q"
  "tq_question_type (public_question q) = tq_question_type q"
  "tq_position (public_question q) = tq_position q" "tq_max_score (public_question q) = tq_max_score q"
  "tq_image_file_id (public_question q) = tq_image_file_id q"
  "ch_id (public_choice c) = ch_id c" "ch_question_id (public_choice c) = ch_question_id c"
  "ch_text (public_choice c) = ch_text c" "ch_position (public_choice c) = ch_position c"
  by (simp_all add: public_question_def public_choice_def)

lemma public_filter_choices:
  "map public_choice (choices_of d q) =
     order_by ch_position (filter (\<lambda>c. ch_question_id c = q) (map public_choice (db_choices d)))"
  by (simp add: choices_of_def order_by_map filter_map comp_def)

lemma public_filter_questions:
  "map public_question (questions_of d t) =
     order_by tq_position (filter (\<lambda>q. tq_task_id q = t) (map public_question (db_questions d)))"
  by (simp add: questions_of_def order_by_map filter_map comp_def)

text \<open>The participant's view of a question as a function of its public rows.\<close>

definition public_view :: "question_db \<Rightarrow> question_row \<Rightarrow> participant_question" where
  "public_view d q =
     \<lparr>pq_id = tq_id q, pq_title = tq_title q, pq_description = tq_description q,
      pq_question_type = tq_question_type q, pq_position = tq_position q,
      pq_max_score = tq_max_score q, pq_image_file_id = tq_image_file_id q,
      pq_choices = map (\<lambda>c. \<lparr>pc_id = ch_id c, pc_text = ch_text c, pc_position = ch_position c\<rparr>)
        (map public_choice (choices_of d (tq_id q))),
      pq_blanks = map (\<lambda>b. \<lparr>pb_id = bl_id b, pb_key = bl_blank_key b, pb_position = bl_position b\<rparr>)
        (blanks_of d (tq_id q))\<rparr>"

lemma participant_question_view: "participant_question_of (question_view d q) = public_view d q"
  by (simp add: participant_question_of_def question_view_def public_view_def Let_def
      choice_model_of_def blank_view_def comp_def)

lemma public_view_public: "public_view d (public_question q) = public_view d q"
  by (simp add: public_view_def)

lemma same_public_view: "same_public d d' \<Longrightarrow> public_view d q = public_view d' q"
  by (simp add: same_public_def public_view_def public_filter_choices blanks_of_def)

text \<open>
  C11. What a participant is shown of a task is the same for any two stores that differ only
  in the answer key: correct choices, accepted answers, expected free-text answers, strictness,
  grading modes and the case rule never reach the participant's model.
\<close>

theorem participant_sees_no_key:
  assumes "same_public d d'"
  shows "participant_task t d = participant_task t d'"
proof -
  have tasks: "db_tasks d = db_tasks d'" using assms by (simp add: same_public_def)
  have view: "map participant_question_of (load_questions t e) =
      map (public_view e) (map public_question (questions_of e t))" for e
    by (simp add: load_questions_alt comp_def participant_question_view public_view_public)
  have "map public_question (questions_of d t) = map public_question (questions_of d' t)"
    using assms by (simp only: public_filter_questions same_public_def)
  then have "map participant_question_of (load_questions t d) =
      map participant_question_of (load_questions t d')"
    using same_public_view [OF assms] by (simp add: view del: map_map)
  then show ?thesis
    by (simp add: participant_task_def get_question_task_def tasks split: option.splits)
qed

definition other_key_db :: question_db where
  "other_key_db = sample_db\<lparr>db_accepted := [], db_configs := []\<rparr>"

lemma participant_sees_no_key_witness:
  "participant_task ''t'' sample_db = participant_task ''t'' other_key_db \<and>
   get_question_task ''t'' sample_db \<noteq> get_question_task ''t'' other_key_db"
proof
  show "participant_task ''t'' sample_db = participant_task ''t'' other_key_db"
    by (rule participant_sees_no_key) (simp add: same_public_def other_key_db_def)
  have "map_option (\<lambda>m. map qm_strictness (tm_questions m)) (get_question_task ''t'' sample_db) \<noteq>
      map_option (\<lambda>m. map qm_strictness (tm_questions m)) (get_question_task ''t'' other_key_db)"
    by code_simp
  then show "get_question_task ''t'' sample_db \<noteq> get_question_task ''t'' other_key_db" by metis
qed

end
