(* ===== verification/Session_Task.thy ===== *)
theory Session_Task
  imports Prompt_Budget
begin

text \<open>
  The tasks of a running session: the enumerations and the row of
  \<open>models/experiment_plans.py\<close> that the plan, the session and both submission components share.
\<close>

datatype experiment_task_type = ESSAY | QUESTION | SURVEY

datatype session_task_status = LOCKED | AVAILABLE | ACTIVE | COMPLETED | FINALIZED | SKIPPED

record session_task =
  st_id :: string
  st_experiment_session_id :: string
  st_plan_item_id :: "string option"
  st_position :: int
  st_task_type :: experiment_task_type
  st_title :: string
  st_llm_prompt_budget :: "prompt_budget option"
  st_status :: session_task_status
  st_essay_topic_id :: "string option"
  st_essay_topic_title :: "string option"
  st_essay_topic_question :: "string option"
  st_question_task_id :: "string option"
  st_survey_task_id :: "string option"
  st_survey_required :: bool
  st_essay_id :: "string option"
  st_essay_draft :: "string option"
  st_started_at :: "int option"
  st_completed_at :: "int option"
  st_finalized_at :: "int option"
  st_created_at :: int
  st_updated_at :: int

end
