(* ===== verification/Question_Submission.thy ===== *)
theory Question_Submission
  imports Question_Store Session_Task
begin

text \<open>
  Submissions of question tasks (\<open>models/question_submissions.py\<close>). The operations change the
  submission tables and read two stores of other components: the question content and the rows
  of the session tasks. They run inside the caller's transaction (\<open>_submission_db_context\<close>
  reuses its session), so an \<open>Inl\<close> leaves nothing of the call behind. UUIDs are named by what
  they are drawn for.
\<close>

subsection \<open>Tables and forms\<close>

datatype submission_status = S_DRAFT | S_FINALIZED

record question_submission =
  qs_id :: string
  qs_session_task_id :: string
  qs_user_id :: string
  qs_status :: submission_status
  qs_grading_status :: grading_status
  qs_current_score :: "rat option"
  qs_provisional_score :: rat
  qs_has_grading_error :: bool
  qs_maximum_score :: rat
  qs_submitted_at :: "int option"
  qs_created_at :: int
  qs_updated_at :: int

text \<open>How the effective score of a response came about: by the mode of its question or by an
  administrator.\<close>

datatype response_method = Mode grading_mode | ADMIN_OVERRIDE

record question_response =
  qr_id :: string
  qr_submission_id :: string
  qr_question_id :: string
  qr_free_text_answer :: "string option"
  qr_is_answered :: bool
  qr_grading_status :: grading_status
  qr_generated_score :: "rat option"
  qr_effective_score :: "rat option"
  qr_grading_method :: "response_method option"
  qr_rationale :: "string option"
  qr_created_at :: int
  qr_updated_at :: int

record response_choice =
  rc_response_id :: string
  rc_choice_id :: string

record response_blank =
  rb_response_id :: string
  rb_blank_id :: string
  rb_answer :: string

record grading_attempt =
  ga_id :: string
  ga_response_id :: string
  ga_method :: grading_mode
  ga_status :: grading_status
  ga_model_id :: "string option"
  ga_awarded_score :: "rat option"
  ga_rationale :: "string option"
  ga_error_code :: "string option"
  ga_started_at :: "int option"
  ga_completed_at :: "int option"
  ga_created_at :: int

record score_override =
  so_id :: string
  so_response_id :: string
  so_admin_id :: string
  so_previous_score :: "rat option"
  so_new_score :: rat
  so_note :: "string option"
  so_created_at :: int

record submission_db =
  sd_submissions :: "question_submission list"
  sd_responses :: "question_response list"
  sd_choices :: "response_choice list"
  sd_blanks :: "response_blank list"
  sd_attempts :: "grading_attempt list"
  sd_overrides :: "score_override list"

record blank_answer =
  ba_blank_id :: string
  ba_value :: string

record answer_form =
  af_question_id :: string
  af_choice_ids :: "string list"
  af_blank_answers :: "blank_answer list"
  af_text :: "string option"

definition empty_answer :: "string \<Rightarrow> answer_form" where
  "empty_answer q = \<lparr>af_question_id = q, af_choice_ids = [], af_blank_answers = [], af_text = None\<rparr>"

definition validate_answer :: "answer_form \<Rightarrow> err + answer_form" where
  "validate_answer a =
     (if 100 < length (af_choice_ids a) then Inl (FieldError ''choice_ids'')
      else if 100 < length (af_blank_answers a) then Inl (FieldError ''blank_answers'')
      else if list_ex (\<lambda>b. 20000 < length (ba_value b)) (af_blank_answers a) then Inl (FieldError ''value'')
      else if (case af_text a of None \<Rightarrow> False | Some t \<Rightarrow> 100000 < length t) then Inl (FieldError ''text'')
      else if \<not> distinct (af_choice_ids a) then Inl (ValueError ''Choice IDs must be unique.'')
      else if \<not> distinct (map ba_blank_id (af_blank_answers a))
      then Inl (ValueError ''Blank IDs must be unique.'')
      else Inr a)"

definition validate_draft :: "answer_form list \<Rightarrow> err + answer_form list" where
  "validate_draft answers =
     (if 500 < length answers then Inl (FieldError ''answers'')
      else bindE (mapE validate_answer answers) (\<lambda>answers.
        if \<not> distinct (map af_question_id answers)
        then Inl (ValueError ''Question answers must be unique.'') else Inr answers))"

record submission_response_model =
  sr_id :: string
  sr_question_id :: string
  sr_is_answered :: bool
  sr_grading_status :: grading_status
  sr_selected_choice_ids :: "string list"
  sr_blank_answers :: "blank_answer list"
  sr_text :: "string option"

record participant_submission =
  ps_id :: string
  ps_session_task_id :: string
  ps_status :: submission_status
  ps_grading_status :: grading_status
  ps_submitted_at :: "int option"
  ps_responses :: "submission_response_model list"

datatype sub_draw = DSubmission | DResponse string | DAttempt string

subsection \<open>\<open>get_or_create\<close>\<close>

definition new_response ::
    "(sub_draw \<Rightarrow> string) \<Rightarrow> int \<Rightarrow> string \<Rightarrow> question_model \<Rightarrow> question_response" where
  "new_response uid now submission_id q =
     \<lparr>qr_id = uid (DResponse (qm_id q)), qr_submission_id = submission_id,
      qr_question_id = qm_id q, qr_free_text_answer = None, qr_is_answered = False,
      qr_grading_status = NOT_STARTED, qr_generated_score = None, qr_effective_score = None,
      qr_grading_method = None, qr_rationale = None, qr_created_at = now, qr_updated_at = now\<rparr>"

definition find_task :: "question_db \<Rightarrow> session_task \<Rightarrow> question_task_model option" where
  "find_task content session_task =
     (case st_question_task_id session_task of
        None \<Rightarrow> None
      | Some t \<Rightarrow> get_question_task t content)"

definition submission_get_or_create ::
    "(sub_draw \<Rightarrow> string) \<Rightarrow> int \<Rightarrow> question_db \<Rightarrow> session_task \<Rightarrow> string \<Rightarrow> submission_db \<Rightarrow>
     err + (question_submission \<times> submission_db)" where
  "submission_get_or_create uid now content session_task user_id d =
     (case get_by qs_session_task_id (st_id session_task) (sd_submissions d) of
        Some submission \<Rightarrow>
          if qs_user_id submission \<noteq> user_id
          then Inl (http 403 ''Submission is not owned by user.'') else Inr (submission, d)
      | None \<Rightarrow>
          (case find_task content session_task of
             None \<Rightarrow> Inl (http 404 ''Question Task is unavailable.'')
           | Some task \<Rightarrow>
               let submission =
                     \<lparr>qs_id = uid DSubmission, qs_session_task_id = st_id session_task,
                      qs_user_id = user_id, qs_status = S_DRAFT, qs_grading_status = NOT_STARTED,
                      qs_current_score = None, qs_provisional_score = 0,
                      qs_has_grading_error = False,
                      qs_maximum_score = foldl dec_add 0 (map qm_max_score (tm_questions task)),
                      qs_submitted_at = None, qs_created_at = now, qs_updated_at = now\<rparr>
               in Inr (submission,
                    d\<lparr>sd_submissions := add_row submission (sd_submissions d),
                      sd_responses := sd_responses d @
                        map (new_response uid now (uid DSubmission)) (tm_questions task)\<rparr>)))"

subsection \<open>\<open>participant_model\<close>\<close>

text \<open>The join with the question rows drops a response whose question is gone and orders the
  others by the position of their question.\<close>

definition submission_participant_model ::
    "question_db \<Rightarrow> string \<Rightarrow> string \<Rightarrow> submission_db \<Rightarrow> participant_submission option" where
  "submission_participant_model content submission_id user_id d =
     (case get_by qs_id submission_id (sd_submissions d) of
        None \<Rightarrow> None
      | Some submission \<Rightarrow>
          if qs_user_id submission \<noteq> user_id then None
          else
            let question = (\<lambda>r. get_by tq_id (qr_question_id r) (db_questions content));
                rows = order_by (\<lambda>r. case question r of None \<Rightarrow> 0 | Some q \<Rightarrow> tq_position q)
                  (filter (\<lambda>r. qr_submission_id r = submission_id \<and> question r \<noteq> None)
                    (sd_responses d));
                selected = filter (\<lambda>c. rc_response_id c \<in> set (map qr_id rows)) (sd_choices d);
                blanks = filter (\<lambda>b. rb_response_id b \<in> set (map qr_id rows)) (sd_blanks d)
            in Some
              \<lparr>ps_id = qs_id submission, ps_session_task_id = qs_session_task_id submission,
               ps_status = qs_status submission, ps_grading_status = qs_grading_status submission,
               ps_submitted_at = qs_submitted_at submission,
               ps_responses = map (\<lambda>r.
                 \<lparr>sr_id = qr_id r, sr_question_id = qr_question_id r,
                  sr_is_answered = qr_is_answered r, sr_grading_status = qr_grading_status r,
                  sr_selected_choice_ids =
                    map rc_choice_id (filter (\<lambda>c. rc_response_id c = qr_id r) selected),
                  sr_blank_answers = map (\<lambda>b. \<lparr>ba_blank_id = rb_blank_id b, ba_value = rb_answer b\<rparr>)
                    (filter (\<lambda>b. rb_response_id b = qr_id r) blanks),
                  sr_text = qr_free_text_answer r\<rparr>) rows\<rparr>)"

subsection \<open>\<open>save_draft\<close>\<close>

definition set_response ::
    "string \<Rightarrow> (question_response \<Rightarrow> question_response) \<Rightarrow> submission_db \<Rightarrow> submission_db" where
  "set_response rid f d = d\<lparr>sd_responses := upd_by qr_id rid f (sd_responses d)\<rparr>"

definition clear_answer :: "string \<Rightarrow> submission_db \<Rightarrow> submission_db" where
  "clear_answer rid d =
     d\<lparr>sd_choices := del_rows (\<lambda>c. rc_response_id c = rid) (sd_choices d),
       sd_blanks := del_rows (\<lambda>b. rb_response_id b = rid) (sd_blanks d)\<rparr>"

text \<open>One round of the loop over the questions, with the answer the form has for it.\<close>

definition save_answer ::
    "int \<Rightarrow> question_model \<Rightarrow> answer_form \<Rightarrow> string \<Rightarrow> submission_db \<Rightarrow> err + submission_db" where
  "save_answer now question answer rid d =
     (let d = clear_answer rid d in
      if qm_question_type question \<in> {SINGLE_CHOICE, MULTIPLE_SELECT} then
        if \<not> set (af_choice_ids answer) \<subseteq> set (map cm_id (qm_choices question))
        then Inl (http 422 ''Submission contains an invalid choice.'')
        else if qm_question_type question = SINGLE_CHOICE \<and> 1 < length (af_choice_ids answer)
        then Inl (http 422 ''Single-choice questions accept at most one choice.'')
        else Inr (set_response rid
               (\<lambda>r. r\<lparr>qr_free_text_answer := None, qr_is_answered := af_choice_ids answer \<noteq> [],
                      qr_updated_at := now\<rparr>)
               (d\<lparr>sd_choices := sd_choices d @
                   map (\<lambda>c. \<lparr>rc_response_id = rid, rc_choice_id = c\<rparr>) (af_choice_ids answer)\<rparr>))
      else if qm_question_type question = FILL_BLANK then
        let supplied = dict_of (map (\<lambda>a. (ba_blank_id a, ba_value a)) (af_blank_answers answer)) in
        if \<not> set (map fst supplied) \<subseteq> set (map bm_id (qm_blanks question))
        then Inl (http 422 ''Submission contains an invalid blank.'')
        else Inr (set_response rid
               (\<lambda>r. r\<lparr>qr_free_text_answer := None,
                      qr_is_answered := list_ex (\<lambda>(k, v). py_strip v \<noteq> []) supplied,
                      qr_updated_at := now\<rparr>)
               (d\<lparr>sd_blanks := sd_blanks d @
                   map (\<lambda>b. \<lparr>rb_response_id = rid, rb_blank_id = bm_id b,
                             rb_answer = dict_get (bm_id b) [] supplied\<rparr>) (qm_blanks question)\<rparr>))
      else Inr (set_response rid
             (\<lambda>r. r\<lparr>qr_free_text_answer := Some (or_str (af_text answer) []),
                    qr_is_answered := py_strip (or_str (af_text answer) []) \<noteq> [],
                    qr_updated_at := now\<rparr>) d))"

definition find_answer :: "answer_form list \<Rightarrow> string \<Rightarrow> answer_form" where
  "find_answer answers q =
     (case get_by af_question_id q (rev answers) of None \<Rightarrow> empty_answer q | Some a \<Rightarrow> a)"

definition save_answers ::
    "int \<Rightarrow> answer_form list \<Rightarrow> question_response list \<Rightarrow> question_model list \<Rightarrow> submission_db \<Rightarrow>
     err + submission_db" where
  "save_answers now answers responses questions =
     foldE (\<lambda>q d. case get_by qr_question_id (qm_id q) (rev responses) of
                     None \<Rightarrow> Inl (KeyError (qm_id q))
                   | Some r \<Rightarrow> save_answer now q (find_answer answers (qm_id q)) (qr_id r) d) questions"

definition submission_save_draft ::
    "(sub_draw \<Rightarrow> string) \<Rightarrow> int \<Rightarrow> int \<Rightarrow> question_db \<Rightarrow> session_task list \<Rightarrow>
     string \<Rightarrow> string \<Rightarrow> answer_form list \<Rightarrow> submission_db \<Rightarrow>
     err + (participant_submission option \<times> submission_db)" where
  "submission_save_draft uid now now' content session_tasks session_task_id user_id answers d =
     (case get_by st_id session_task_id session_tasks of
        None \<Rightarrow> Inl (http 404 ''Question session task not found.'')
      | Some session_task \<Rightarrow>
          if st_task_type session_task \<noteq> QUESTION
          then Inl (http 404 ''Question session task not found.'')
          else bindE (submission_get_or_create uid now content session_task user_id d) (\<lambda>(submission, d).
            if qs_status submission = S_FINALIZED
            then Inl (http 409 ''This submission is finalized.'')
            else case find_task content session_task of
                None \<Rightarrow> Inl AttributeError
              | Some task \<Rightarrow>
                  if \<not> set (map af_question_id answers) \<subseteq> set (map qm_id (tm_questions task))
                  then Inl (http 422 ''Submission contains a question outside this task.'')
                  else
                    let responses = filter (\<lambda>r. qr_submission_id r = qs_id submission) (sd_responses d)
                    in bindE (save_answers now' answers responses (tm_questions task) d) (\<lambda>d.
                       let d = d\<lparr>sd_submissions := upd_by qs_id (qs_id submission)
                                 (\<lambda>s. s\<lparr>qs_updated_at := now'\<rparr>) (sd_submissions d)\<rparr>
                       in Inr (submission_participant_model content (qs_id submission) user_id d, d))))"

subsection \<open>\<open>recalculate\<close> and \<open>finalize\<close>\<close>

definition grading_summary :: "submission_status \<Rightarrow> grading_status set \<Rightarrow> grading_status" where
  "grading_summary status statuses =
     (if status \<noteq> S_FINALIZED then NOT_STARTED
      else if G_RUNNING \<in> statuses \<or> G_PENDING \<in> statuses \<or> G_FAILED \<in> statuses then G_PENDING
      else if AWAITING_REVIEW \<in> statuses then AWAITING_REVIEW
      else GRADED)"

definition recalculate :: "string \<Rightarrow> submission_db \<Rightarrow> err + submission_db" where
  "recalculate submission_id d =
     (case get_by qs_id submission_id (sd_submissions d) of
        None \<Rightarrow> Inl AttributeError
      | Some submission \<Rightarrow>
          let rows = filter (\<lambda>r. qr_submission_id r = submission_id) (sd_responses d);
              provisional = foldl dec_add 0
                (map (\<lambda>r. case qr_effective_score r of None \<Rightarrow> 0 | Some s \<Rightarrow> s) rows);
              statuses = set (map qr_grading_status rows);
              grading = grading_summary (qs_status submission) statuses
          in Inr (d\<lparr>sd_submissions := upd_by qs_id submission_id
               (\<lambda>s. s\<lparr>qs_provisional_score := provisional,
                      qs_has_grading_error := G_FAILED \<in> statuses,
                      qs_grading_status := grading,
                      qs_current_score := (if grading = GRADED then Some provisional else None)\<rparr>)
               (sd_submissions d)\<rparr>))"

definition apply_auto :: "rat \<Rightarrow> question_response \<Rightarrow> question_response" where
  "apply_auto result r =
     r\<lparr>qr_generated_score := Some result, qr_effective_score := Some result,
       qr_grading_status := GRADED, qr_grading_method := Some (Mode AUTOMATIC)\<rparr>"

text \<open>The automatic branches of \<open>finalize\<close>; \<open>None\<close> where no branch applies.\<close>

definition auto_grade ::
    "question_model \<Rightarrow> string set \<Rightarrow> (string \<times> string) list \<Rightarrow> err + rat option" where
  "auto_grade question selected blanks =
     (case qm_question_type question of
        SINGLE_CHOICE \<Rightarrow>
          (case find_row cm_is_correct (qm_choices question) of
             None \<Rightarrow> Inl (RuntimeError ''coroutine raised StopIteration'')
           | Some c \<Rightarrow> bindE (grade_single_choice (qm_max_score question) selected (cm_id c)) (\<lambda>s. Inr (Some s)))
      | MULTIPLE_SELECT \<Rightarrow>
          bindE (grade_multiple_select (qm_max_score question) selected
                   (set (map cm_id (filter cm_is_correct (qm_choices question))))
                   (set (map cm_id (qm_choices question)))) (\<lambda>s. Inr (Some s))
      | FILL_BLANK \<Rightarrow>
          bindE (grade_fill_blanks (qm_max_score question) blanks
                   (dict_of (map (\<lambda>b. (bm_id b, bm_accepted_answers b)) (qm_blanks question)))
                   (qm_case_sensitive question)) (\<lambda>s. Inr (Some s))
      | FREE_TEXT \<Rightarrow> Inr None)"

definition new_attempt :: "(sub_draw \<Rightarrow> string) \<Rightarrow> int \<Rightarrow> string \<Rightarrow> grading_attempt" where
  "new_attempt uid now rid =
     \<lparr>ga_id = uid (DAttempt rid), ga_response_id = rid, ga_method = LLM_ASSISTED,
      ga_status = G_PENDING, ga_model_id = None, ga_awarded_score = None, ga_rationale = None,
      ga_error_code = None, ga_started_at = None, ga_completed_at = None, ga_created_at = now\<rparr>"

text \<open>What \<open>finalize\<close> makes of one response, and whether it is left to the grading model.\<close>

definition finalize_response ::
    "int \<Rightarrow> question_model \<Rightarrow> string set \<Rightarrow> (string \<times> string) list \<Rightarrow> question_response \<Rightarrow>
     err + (question_response \<times> bool)" where
  "finalize_response now question selected blanks r =
     bindE
       (if qm_grading_mode question = MANUAL
        then Inr (r\<lparr>qr_grading_status := AWAITING_REVIEW, qr_grading_method := Some (Mode MANUAL)\<rparr>, False)
        else if qm_grading_mode question = LLM_ASSISTED then
          (if \<not> qr_is_answered r
           then Inr (r\<lparr>qr_generated_score := Some 0, qr_effective_score := Some 0,
                       qr_grading_status := GRADED, qr_grading_method := Some (Mode LLM_ASSISTED),
                       qr_rationale := Some ''No answer was submitted.''\<rparr>, False)
           else Inr (r\<lparr>qr_grading_status := G_PENDING, qr_grading_method := Some (Mode LLM_ASSISTED)\<rparr>, True))
        else bindE (auto_grade question selected blanks) (\<lambda>result.
          Inr (case result of None \<Rightarrow> r | Some s \<Rightarrow> apply_auto s r, False)))
       (\<lambda>(r, pending). Inr (r\<lparr>qr_updated_at := now\<rparr>, pending))"

text \<open>The body of the loop over the responses, up to the rows it writes.\<close>

definition finalize_row ::
    "int \<Rightarrow> question_model list \<Rightarrow> response_choice list \<Rightarrow> response_blank list \<Rightarrow>
     question_response \<Rightarrow> err + (question_response \<times> bool)" where
  "finalize_row now questions choices blanks r =
     (case get_by qm_id (qr_question_id r) (rev questions) of
        None \<Rightarrow> Inl (KeyError (qr_question_id r))
      | Some question \<Rightarrow>
          finalize_response now question
            (set (map rc_choice_id (filter (\<lambda>c. rc_response_id c = qr_id r) choices)))
            (dict_of (map (\<lambda>b. (rb_blank_id b, rb_answer b))
              (filter (\<lambda>b. rb_response_id b = qr_id r) blanks))) r)"

definition finalize_responses ::
    "(sub_draw \<Rightarrow> string) \<Rightarrow> int \<Rightarrow> question_model list \<Rightarrow> question_response list \<Rightarrow>
     submission_db \<Rightarrow> string list \<Rightarrow> err + (submission_db \<times> string list)" where
  "finalize_responses uid now questions responses d pending =
     foldE (\<lambda>r (d, pending).
       bindE (finalize_row now questions (sd_choices d) (sd_blanks d) r) (\<lambda>(r', waits).
         let d = set_response (qr_id r) (\<lambda>_. r') d in
         Inr (if waits
              then (d\<lparr>sd_attempts := add_row (new_attempt uid now (qr_id r)) (sd_attempts d)\<rparr>,
                    pending @ [qr_id r])
              else (d, pending)))) responses (d, pending)"

definition submission_finalize ::
    "(sub_draw \<Rightarrow> string) \<Rightarrow> int \<Rightarrow> question_db \<Rightarrow> session_task list \<Rightarrow> string \<Rightarrow> string \<Rightarrow>
     submission_db \<Rightarrow> err + ((string list \<times> participant_submission option) \<times> submission_db)" where
  "submission_finalize uid now content session_tasks submission_id user_id d =
     (case get_by qs_id submission_id (sd_submissions d) of
        None \<Rightarrow> Inl (http 404 ''Question submission not found.'')
      | Some submission \<Rightarrow>
          if qs_user_id submission \<noteq> user_id
          then Inl (http 404 ''Question submission not found.'')
          else if qs_status submission = S_FINALIZED
          then Inr (([], submission_participant_model content submission_id user_id d), d)
          else case get_by st_id (qs_session_task_id submission) session_tasks of
              None \<Rightarrow> Inl AttributeError
            | Some session_task \<Rightarrow>
                (case find_task content session_task of
                   None \<Rightarrow> Inl AttributeError
                 | Some task \<Rightarrow>
                     let responses = filter (\<lambda>r. qr_submission_id r = submission_id) (sd_responses d)
                     in bindE (finalize_responses uid now (tm_questions task) responses d []) (\<lambda>(d, pending).
                        let d = d\<lparr>sd_submissions := upd_by qs_id submission_id
                               (\<lambda>s. s\<lparr>qs_status := S_FINALIZED, qs_submitted_at := Some now,
                                      qs_updated_at := now\<rparr>) (sd_submissions d)\<rparr>
                        in bindE (recalculate submission_id d) (\<lambda>d.
                             Inr ((pending, submission_participant_model content submission_id user_id d), d)))))"

end
