(* ===== verification/Submission_Grading.thy ===== *)
theory Submission_Grading
  imports Question_Submission Question_Authoring
begin

text \<open>
  Finalizing a submission: on content that passed validation every automatic grade exists and
  stays inside its bounds (through the graders' common interface), so \<open>finalize\<close> returns, grades
  every response the way its question asks for and records the sum of the grades.
\<close>

subsection \<open>Automatic grades\<close>

definition question_ready :: "question_model \<Rightarrow> bool" where
  "question_ready q \<longleftrightarrow> question_form_ok (form_of_model q) \<and>
     distinct (map cm_id (qm_choices q)) \<and> distinct (map bm_id (qm_blanks q))"

lemma ready_score: "question_ready q \<Longrightarrow> score_ok (qm_max_score q)"
  by (auto simp: question_ready_def question_form_ok_def form_of_model_def score_ok_def is_cents_def
      MAX_QUESTION_SCORE_def)

lemma dict_of_distinct: "distinct (map fst xs) \<Longrightarrow> dict_of xs = xs"
proof -
  have "distinct (map fst (acc @ xs)) \<Longrightarrow> foldl (\<lambda>d (k, v). AList.update k v d) acc xs = acc @ xs" for acc
  proof (induction xs arbitrary: acc)
    case Nil
    then show ?case by simp
  next
    case (Cons x xs)
    obtain k v where x: "x = (k, v)" by force
    have "AList.update k v acc = acc @ [(k, v)]" using Cons.prems x
      by (induction acc) auto
    then show ?case using Cons.IH [of "acc @ [(k, v)]"] Cons.prems x by simp
  qed
  from this [of "[]"] show "distinct (map fst xs) \<Longrightarrow> dict_of xs = xs" by (simp add: dict_of_def)
qed

lemma ready_multiple:
  assumes r: "question_ready q" and t: "qm_question_type q = MULTIPLE_SELECT"
  shows "selectable (selected, set (map cm_id (filter cm_is_correct (qm_choices q))), set (map cm_id (qm_choices q)))"
proof -
  have c: "filter cm_is_correct (qm_choices q) \<noteq> []" "filter (\<lambda>c. \<not> cm_is_correct c) (qm_choices q) \<noteq> []"
    using r t by (auto simp: question_ready_def question_form_ok_def configuration_ok_def
        form_of_model_def filter_map comp_def)
  then obtain x y where x: "x \<in> set (qm_choices q)" "cm_is_correct x"
    and y: "y \<in> set (qm_choices q)" "\<not> cm_is_correct y"
    by (metis (mono_tags, lifting) filter_empty_conv)
  have "distinct (map cm_id (qm_choices q))" using r by (simp add: question_ready_def)
  then have "cm_id y \<notin> cm_id ` {c \<in> set (qm_choices q). cm_is_correct c}"
    using y row_unique [of cm_id "qm_choices q" y] by auto
  with x y show ?thesis by (fastforce simp: selectable_def)
qed

lemma auto_grade_bounds:
  assumes r: "question_ready q" and m: "qm_grading_mode q = AUTOMATIC"
  shows "\<exists>s. auto_grade q selected answers = Inr (Some s) \<and> 0 \<le> s \<and> s \<le> qm_max_score q \<and> is_cents s"
proof (cases "qm_question_type q")
  case SINGLE_CHOICE
  have "filter cm_is_correct (qm_choices q) \<noteq> []"
    using r SINGLE_CHOICE by (auto simp: question_ready_def question_form_ok_def
        configuration_ok_def form_of_model_def filter_map comp_def)
  then obtain c where "find_row cm_is_correct (qm_choices q) = Some c"
    by (metis (mono_tags, lifting) filter_empty_conv find_row_None not_None_eq)
  with SINGLE_CHOICE single.grade_bounds [OF ready_score [OF r] TrueI, of "(selected, cm_id c)"]
  show ?thesis by (auto simp: auto_grade_def)
next
  case MULTIPLE_SELECT
  with multiple.grade_bounds [OF ready_score [OF r] ready_multiple [OF r MULTIPLE_SELECT], of selected]
  show ?thesis by (auto simp: auto_grade_def)
next
  case FILL_BLANK
  let ?acc = "map (\<lambda>b. (bm_id b, bm_accepted_answers b)) (qm_blanks q)"
  have "dict_of ?acc = ?acc"
    by (rule dict_of_distinct) (use r in \<open>simp add: question_ready_def comp_def\<close>)
  moreover have "blanks_ok (answers, ?acc, qm_case_sensitive q)"
    using r FILL_BLANK by (auto simp: blanks_ok_def question_ready_def question_form_ok_def
        configuration_ok_def form_of_model_def)
  ultimately show ?thesis
    using blanks.grade_bounds [OF ready_score [OF r], of "(answers, ?acc, qm_case_sensitive q)"] FILL_BLANK
    by (auto simp: auto_grade_def)
next
  case FREE_TEXT
  with r m show ?thesis
    by (auto simp: question_ready_def question_form_ok_def configuration_ok_def form_of_model_def)
qed

text \<open>
  C6. The automatic grade of a validated question always exists: no division by zero, no
  missing correct choice and no over-long decimal can occur, and the grade is a number of cents
  between zero and the question's maximum.
\<close>

theorem auto_grade_total:
  assumes r: "question_ready q" and m: "qm_grading_mode q = AUTOMATIC"
  shows "\<exists>s. auto_grade q selected answers = Inr (Some s) \<and> 0 \<le> s \<and> s \<le> qm_max_score q \<and> is_cents s"  by (rule auto_grade_bounds [OF assms])

definition sample_question :: question_model where
  "sample_question = \<lparr>qm_id = ''q'', qm_title = ''Q'', qm_description = '''',
     qm_question_type = MULTIPLE_SELECT, qm_position = 0, qm_max_score = 81 / 50,
     qm_grading_mode = AUTOMATIC, qm_image_file_id = None, qm_case_sensitive = False,
     qm_choices = map (\<lambda>i. \<lparr>cm_id = nat_str i, cm_text = ''x'', cm_position = int i, cm_is_correct = i < 12\<rparr>)
       [0..<13],
     qm_blanks = [], qm_expected_answer = None, qm_strictness = None\<rparr>"

lemma sample_question_ready: "question_ready sample_question"
  by code_simp

lemma auto_grade_total_witness:
  "\<exists>s. auto_grade sample_question {''0'', ''1''} [] = Inr (Some s) \<and> 0 \<le> s \<and> s \<le> 81 / 50"
  using auto_grade_total [OF sample_question_ready, of "{''0'', ''1''}" "[]"]
  by (auto simp: sample_question_def)

subsection \<open>The loop over the responses\<close>

lemma finalize_response_id:
  "finalize_response now q sel bl r = Inr (r', w) \<Longrightarrow> qr_id r' = qr_id r \<and> qr_submission_id r' = qr_submission_id r \<and>
     qr_question_id r' = qr_question_id r"
  by (auto simp: finalize_response_def bindE_Inr_iff apply_auto_def split: if_splits option.splits prod.splits)

lemma finalize_row_id:
  "finalize_row now qs cs bs r = Inr (r', w) \<Longrightarrow> qr_id r' = qr_id r \<and> qr_submission_id r' = qr_submission_id r \<and>
     qr_question_id r' = qr_question_id r"
  by (auto simp: finalize_row_def finalize_response_id split: option.splits)

lemma upd_by_row:
  assumes "distinct (map k rows)" "r \<in> set rows"
  shows "upd_by k (k r) (\<lambda>_. x) rows = map (\<lambda>y. if y = r then x else y) rows"
  unfolding upd_by_def upd_rows_def
  by (rule map_cong [OF refl]) (use row_unique [OF assms(1) _ assms(2)] in auto)

lemma finalize_responses_spec:
  assumes "\<And>r. r \<in> set rs \<Longrightarrow> finalize_row now qs (sd_choices d) (sd_blanks d) r = Inr (F r, W r)"
    and "distinct (map qr_id (sd_responses d))" and "set rs \<subseteq> set (sd_responses d)"
    and "distinct (map qr_id rs)"
  shows "finalize_responses uid now qs rs d pending =
    Inr (d\<lparr>sd_responses := map (\<lambda>x. if x \<in> set rs then F x else x) (sd_responses d),
           sd_attempts := sd_attempts d @ map (\<lambda>r. new_attempt uid now (qr_id r)) (filter W rs)\<rparr>,
         pending @ map qr_id (filter W rs))"
  using assms
proof (induction rs arbitrary: d pending)
  case Nil
  then show ?case by (simp add: finalize_responses_def)
next
  case (Cons r rs)
  define e where "e = d\<lparr>sd_responses := map (\<lambda>y. if y = r then F r else y) (sd_responses d),
      sd_attempts := sd_attempts d @ (if W r then [new_attempt uid now (qr_id r)] else [])\<rparr>"
  have row: "finalize_row now qs (sd_choices d) (sd_blanks d) r = Inr (F r, W r)"
    by (rule Cons.prems(1)) simp
  have rin: "r \<in> set (sd_responses d)" using Cons.prems(3) by simp
  have idF: "qr_id (F r) = qr_id r" using finalize_row_id [OF row] by simp
  have step: "finalize_responses uid now qs (r # rs) d pending =
      finalize_responses uid now qs rs e (pending @ (if W r then [qr_id r] else []))"
    using row by (simp add: finalize_responses_def e_def set_response_def add_row_def
        upd_by_row [OF Cons.prems(2) rin] Let_def)
  have ids: "map qr_id (sd_responses e) = map qr_id (sd_responses d)"
    using idF by (auto simp: e_def)
  have notin: "r \<notin> set rs" "F r \<notin> set rs" using Cons.prems(4) idF by (auto simp: rev_image_eqI)
  have "finalize_responses uid now qs rs e (pending @ (if W r then [qr_id r] else [])) =
    Inr (e\<lparr>sd_responses := map (\<lambda>x. if x \<in> set rs then F x else x) (sd_responses e),
           sd_attempts := sd_attempts e @ map (\<lambda>r. new_attempt uid now (qr_id r)) (filter W rs)\<rparr>,
         (pending @ (if W r then [qr_id r] else [])) @ map qr_id (filter W rs))"
  proof (rule Cons.IH)
    show "finalize_row now qs (sd_choices e) (sd_blanks e) x = Inr (F x, W x)" if "x \<in> set rs" for x
      using Cons.prems(1) [of x] that by (simp add: e_def)
    show "distinct (map qr_id (sd_responses e))" using Cons.prems(2) ids by simp
    show "set rs \<subseteq> set (sd_responses e)" using Cons.prems(3) notin(1) by (force simp: e_def)
    show "distinct (map qr_id rs)" using Cons.prems(4) by simp
  qed
  also have "map (\<lambda>x. if x \<in> set rs then F x else x) (sd_responses e) =
      map (\<lambda>x. if x \<in> set (r # rs) then F x else x) (sd_responses d)"
    using notin by (auto simp: e_def)
  finally show ?case using step by (simp add: e_def)
qed

subsection \<open>Sums of grades\<close>

lemma is_cents_add: "is_cents a \<Longrightarrow> is_cents b \<Longrightarrow> is_cents (a + b)"
  unfolding is_cents_iff by (metis distrib_right of_int_add)

lemma foldl_dec_add:
  assumes "list_all (\<lambda>x. is_cents x \<and> 0 \<le> x) xs" "is_cents a" "0 \<le> a" "a + sum_list xs < 10 ^ 25"
  shows "foldl dec_add a xs = a + sum_list xs"
  using assms
proof (induction xs arbitrary: a)
  case Nil
  then show ?case by simp
next
  case (Cons x xs)
  have "0 \<le> sum_list xs" using Cons.prems(1) by (intro sum_list_nonneg) (auto simp: list_all_iff)
  then have "dec_add a x = a + x"
    using Cons.prems by (simp add: dec_add_def is_cents_add)
  then show ?case using Cons.IH [of "a + x"] Cons.prems by (simp add: is_cents_add add.assoc)
qed

subsection \<open>The whole submission\<close>

text \<open>A draft that can be finalized: its session task and its task exist, the questions passed
  validation, and there is one ungraded response per question, as \<open>get_or_create\<close> leaves them.\<close>

definition paper_ready ::
    "question_db \<Rightarrow> session_task list \<Rightarrow> question_submission \<Rightarrow> question_task_model \<Rightarrow> submission_db \<Rightarrow> bool" where
  "paper_ready content session_tasks submission task d \<longleftrightarrow>
     get_by qs_id (qs_id submission) (sd_submissions d) = Some submission \<and>
     qs_status submission = S_DRAFT \<and>
     (case get_by st_id (qs_session_task_id submission) session_tasks of
        None \<Rightarrow> False | Some st \<Rightarrow> find_task content st = Some task) \<and>
     list_all question_ready (tm_questions task) \<and> distinct (map qm_id (tm_questions task)) \<and>
     length (tm_questions task) \<le> 500 \<and>
     qs_maximum_score submission = sum_list (map qm_max_score (tm_questions task)) \<and>
     distinct (map qr_id (sd_responses d)) \<and>
     (let rows = filter (\<lambda>r. qr_submission_id r = qs_id submission) (sd_responses d) in
        map qr_question_id rows = map qm_id (tm_questions task) \<and>
        list_all (\<lambda>r. qr_effective_score r = None) rows)"

definition response_outcome :: "question_model \<Rightarrow> question_response \<Rightarrow> question_response \<Rightarrow> bool" where
  "response_outcome q r r' \<longleftrightarrow>
     qr_id r' = qr_id r \<and> qr_grading_method r' = Some (Mode (qm_grading_mode q)) \<and>
     (case qm_grading_mode q of
        MANUAL \<Rightarrow> qr_grading_status r' = AWAITING_REVIEW \<and> qr_effective_score r' = None
      | LLM_ASSISTED \<Rightarrow>
          if qr_is_answered r then qr_grading_status r' = G_PENDING \<and> qr_effective_score r' = None
          else qr_grading_status r' = GRADED \<and> qr_effective_score r' = Some 0
      | AUTOMATIC \<Rightarrow> qr_grading_status r' = GRADED \<and>
          (case qr_effective_score r' of None \<Rightarrow> False
           | Some s \<Rightarrow> 0 \<le> s \<and> s \<le> qm_max_score q \<and> is_cents s))"

definition score_or_0 :: "question_response \<Rightarrow> rat" where
  "score_or_0 r = (case qr_effective_score r of None \<Rightarrow> 0 | Some s \<Rightarrow> s)"

lemma finalize_response_total:
  assumes "question_ready q" and "qr_effective_score r = None"
  shows "\<exists>r'. finalize_response now q sel bl r =
           Inr (r', qm_grading_mode q = LLM_ASSISTED \<and> qr_is_answered r) \<and> response_outcome q r r'"
proof (cases "qm_grading_mode q")
  case AUTOMATIC
  obtain s where "auto_grade q sel bl = Inr (Some s)" "0 \<le> s" "s \<le> qm_max_score q" "is_cents s"
    using auto_grade_bounds [OF assms(1) AUTOMATIC] by blast
  with AUTOMATIC show ?thesis
    by (simp add: finalize_response_def response_outcome_def apply_auto_def)
qed (use assms in \<open>auto simp: finalize_response_def response_outcome_def\<close>)

lemma get_by_rev: "distinct (map k rows) \<Longrightarrow> get_by k x (rev rows) = get_by k x rows"
proof (cases "get_by k x rows")
  case None
  then have "get_by k x (rev rows) = None" by (simp add: get_by_None)
  with None show ?thesis by simp
next
  case (Some r)
  assume "distinct (map k rows)"
  then have "distinct (map k (rev rows))" by (simp add: rev_map [symmetric])
  with Some show ?thesis using get_by_distinct [of k "rev rows" r] get_by_Some [OF Some] by simp
qed

lemma outcome_not_failed: "response_outcome q r r' \<Longrightarrow> qr_grading_status r' \<noteq> G_FAILED"
  by (auto simp: response_outcome_def split: grading_mode.splits if_splits)

lemma list_all2_right: "list_all2 R xs ys \<Longrightarrow> y \<in> set ys \<Longrightarrow> \<exists>x \<in> set xs. R x y"
  by (induction rule: list_all2_induct) auto

lemma outcome_score:
  assumes "response_outcome q r r'" and "question_ready q"
  shows "is_cents (score_or_0 r') \<and> 0 \<le> score_or_0 r' \<and> score_or_0 r' \<le> qm_max_score q"
  using assms ready_score [OF assms(2)]
  by (auto simp: response_outcome_def score_or_0_def score_ok_def less_imp_le
      split: grading_mode.splits option.splits if_splits)

lemma outcome_sum:
  assumes "list_all question_ready qs" and "list_all2 (\<lambda>q x. \<exists>r. response_outcome q r x) qs xs"
  shows "list_all (\<lambda>v. is_cents v \<and> 0 \<le> v) (map score_or_0 xs) \<and>
         sum_list (map score_or_0 xs) \<le> sum_list (map qm_max_score qs) \<and>
         sum_list (map qm_max_score qs) \<le> 10000 * of_nat (length qs)"
  using assms(2,1)
proof (induction rule: list_all2_induct)
  case Nil
  then show ?case by simp
next
  case (Cons q qs x xs)
  then obtain r where "response_outcome q r x" by blast
  with Cons outcome_score [of q r x] ready_score [of q] show ?case
    by (auto simp: score_ok_def algebra_simps)
qed

definition rows_of :: "question_submission \<Rightarrow> submission_db \<Rightarrow> question_response list" where
  "rows_of submission d = filter (\<lambda>r. qr_submission_id r = qs_id submission) (sd_responses d)"

lemma paper_rows:
  assumes "paper_ready content sts submission task d"
  shows "\<exists>F. (\<forall>r \<in> set (rows_of submission d). \<exists>q \<in> set (tm_questions task).
      finalize_row now (tm_questions task) (sd_choices d) (sd_blanks d) r =
        Inr (F r, qm_grading_mode q = LLM_ASSISTED \<and> qr_is_answered r) \<and>
      qm_id q = qr_question_id r \<and> response_outcome q r (F r))"
proof -
  let ?qs = "tm_questions task"
  have dist: "distinct (map qm_id ?qs)" and ready: "list_all question_ready ?qs"
    and qids: "map qr_question_id (rows_of submission d) = map qm_id ?qs"
    and none: "list_all (\<lambda>r. qr_effective_score r = None) (rows_of submission d)"
    using assms by (simp_all add: paper_ready_def rows_of_def Let_def)
  have "\<exists>x. \<exists>q \<in> set ?qs.
      finalize_row now ?qs (sd_choices d) (sd_blanks d) r =
        Inr (x, qm_grading_mode q = LLM_ASSISTED \<and> qr_is_answered r) \<and>
      qm_id q = qr_question_id r \<and> response_outcome q r x" if r: "r \<in> set (rows_of submission d)" for r
  proof -
    have "qr_question_id r \<in> set (map qm_id ?qs)"
      using r by (metis imageI list.set_map qids)
    then obtain q where q: "q \<in> set ?qs" "qm_id q = qr_question_id r" by auto
    have "get_by qm_id (qr_question_id r) (rev ?qs) = Some q"
      using get_by_distinct [OF dist q(1)] q(2) by (simp add: get_by_rev [OF dist])
    moreover have "question_ready q" "qr_effective_score r = None"
      using ready none q r by (auto simp: list_all_iff)
    ultimately show ?thesis
      using finalize_response_total [of q r] q by (fastforce simp: finalize_row_def)
  qed
  then show ?thesis by metis
qed

text \<open>The same, question by question.\<close>

lemma paper_rel:
  assumes ready: "paper_ready content sts submission task d"
  shows "\<exists>F W. (\<forall>r \<in> set (rows_of submission d).
        finalize_row now (tm_questions task) (sd_choices d) (sd_blanks d) r = Inr (F r, W r)) \<and>
      list_all2 (\<lambda>q r. qm_id q = qr_question_id r \<and> response_outcome q r (F r) \<and>
        W r = (qm_grading_mode q = LLM_ASSISTED \<and> qr_is_answered r))
        (tm_questions task) (rows_of submission d)"
proof -
  let ?qs = "tm_questions task" and ?rows = "rows_of submission d"
  have dist: "distinct (map qm_id ?qs)" and qids: "map qr_question_id ?rows = map qm_id ?qs"
    using ready by (simp_all add: paper_ready_def rows_of_def Let_def)
  obtain F where F: "\<forall>r \<in> set ?rows. \<exists>q \<in> set ?qs.
      finalize_row now ?qs (sd_choices d) (sd_blanks d) r =
        Inr (F r, qm_grading_mode q = LLM_ASSISTED \<and> qr_is_answered r) \<and>
      qm_id q = qr_question_id r \<and> response_outcome q r (F r)"
    using paper_rows [OF ready] by blast
  define W where "W r = (case finalize_row now ?qs (sd_choices d) (sd_blanks d) r of
      Inl _ \<Rightarrow> False | Inr (_, w) \<Rightarrow> w)" for r
  have one: "finalize_row now ?qs (sd_choices d) (sd_blanks d) r = Inr (F r, W r) \<and>
      response_outcome q r (F r) \<and> W r = (qm_grading_mode q = LLM_ASSISTED \<and> qr_is_answered r)"
    if "r \<in> set ?rows" "q \<in> set ?qs" "qm_id q = qr_question_id r" for q r
  proof -
    from bspec [OF F that(1)] obtain q' where q': "q' \<in> set ?qs" "qm_id q' = qr_question_id r"
      "finalize_row now ?qs (sd_choices d) (sd_blanks d) r =
        Inr (F r, qm_grading_mode q' = LLM_ASSISTED \<and> qr_is_answered r)" "response_outcome q' r (F r)"
      by (elim bexE conjE)
    have "q' = q" by (rule row_unique [OF dist q'(1) that(2)]) (simp only: q'(2) that(3))
    then show ?thesis using q'(3,4) by (simp only: W_def sum.case prod.case)
  qed
  have "list_all2 (\<lambda>q r. qm_id q = qr_question_id r) ?qs ?rows"
  proof -
    have "list_all2 (=) (map qm_id ?qs) (map qr_question_id ?rows)" by (simp only: qids list.rel_eq)
    then show ?thesis by (simp only: list.rel_map)
  qed
  then have "list_all2 (\<lambda>q r. qm_id q = qr_question_id r \<and> response_outcome q r (F r) \<and>
      W r = (qm_grading_mode q = LLM_ASSISTED \<and> qr_is_answered r)) ?qs ?rows"
    by (rule list.rel_mono_strong) (simp add: one)
  moreover have "\<forall>r \<in> set ?rows. finalize_row now ?qs (sd_choices d) (sd_blanks d) r = Inr (F r, W r)"
    using F one by metis
  ultimately show ?thesis by blast
qed

lemma pending_zip:
  "list_all2 (\<lambda>q r. R q r \<and> W r = P q r) qs rs \<Longrightarrow>
   map f (filter W rs) = map (\<lambda>(q, r). f r) (filter (\<lambda>(q, r). P q r) (zip qs rs))"
  by (induction rule: list_all2_induct) auto

lemma zip_outcomes:
  "list_all2 (\<lambda>q r. Q q r (F r)) qs rs \<Longrightarrow> list_all2 (\<lambda>q (r, r'). Q q r r') qs (zip rs (map F rs))"
  by (induction rule: list_all2_induct) auto

lemma filter_map_in:
  assumes "\<And>x. x \<in> set xs \<Longrightarrow> P x \<Longrightarrow> P (F x)"
  shows "filter P (map (\<lambda>x. if x \<in> set (filter P xs) then F x else x) xs) = map F (filter P xs)"
proof -
  have "filter P (map (\<lambda>x. if P x then F x else x) ys) = map F (filter P ys)" if "set ys \<subseteq> set xs" for ys
    using that assms by (induction ys) auto
  moreover have "map (\<lambda>x. if x \<in> set (filter P xs) then F x else x) xs = map (\<lambda>x. if P x then F x else x) xs"
    by (rule map_cong [OF refl]) simp
  ultimately show ?thesis by (simp only: subset_refl)
qed

text \<open>The execution of \<open>finalize\<close>: the responses it writes and the row it leaves.\<close>

lemma finalize_exec:
  assumes ready: "paper_ready content sts submission task d"
  shows "\<exists>F W d' s. list_all2 (\<lambda>q r. (qm_id q = qr_question_id r \<and> response_outcome q r (F r)) \<and>
        W r = (qm_grading_mode q = LLM_ASSISTED \<and> qr_is_answered r)) (tm_questions task) (rows_of submission d) \<and>
    submission_finalize uid now content sts (qs_id submission) (qs_user_id submission) d =
      Inr ((map qr_id (filter W (rows_of submission d)),
            submission_participant_model content (qs_id submission) (qs_user_id submission) d'), d') \<and>
    rows_of submission d' = map F (rows_of submission d) \<and>
    get_by qs_id (qs_id submission) (sd_submissions d') = Some s \<and>
    qs_status s = S_FINALIZED \<and> qs_submitted_at s = Some now \<and>
    qs_maximum_score s = qs_maximum_score submission \<and>
    qs_provisional_score s = foldl dec_add 0 (map score_or_0 (rows_of submission d')) \<and>
    qs_has_grading_error s = (G_FAILED \<in> qr_grading_status ` set (rows_of submission d')) \<and>
    qs_grading_status s = grading_summary S_FINALIZED (qr_grading_status ` set (rows_of submission d')) \<and>
    qs_current_score s = (if qs_grading_status s = GRADED then Some (qs_provisional_score s) else None)"
proof -
  let ?qs = "tm_questions task" and ?rows = "rows_of submission d" and ?sid = "qs_id submission"
  obtain F W where fr: "\<forall>r \<in> set ?rows. finalize_row now ?qs (sd_choices d) (sd_blanks d) r = Inr (F r, W r)"
    and rel: "list_all2 (\<lambda>q r. (qm_id q = qr_question_id r \<and> response_outcome q r (F r)) \<and>
        W r = (qm_grading_mode q = LLM_ASSISTED \<and> qr_is_answered r)) ?qs ?rows"
    using paper_rel [OF ready, of now] by (auto simp: conj_assoc)
  obtain st where get: "get_by qs_id ?sid (sd_submissions d) = Some submission"
    and draft: "qs_status submission = S_DRAFT" and dist: "distinct (map qr_id (sd_responses d))"
    and st: "get_by st_id (qs_session_task_id submission) sts = Some st" "find_task content st = Some task"
    using ready by (auto simp: paper_ready_def Let_def split: option.splits)
  let ?d1 = "d\<lparr>sd_responses := map (\<lambda>x. if x \<in> set ?rows then F x else x) (sd_responses d),
      sd_attempts := sd_attempts d @ map (\<lambda>r. new_attempt uid now (qr_id r)) (filter W ?rows)\<rparr>"
  have loop: "finalize_responses uid now ?qs ?rows d [] = Inr (?d1, [] @ map qr_id (filter W ?rows))"
    by (rule finalize_responses_spec)
       (use fr dist in \<open>auto simp: rows_of_def intro: distinct_map_filter\<close>)
  have same: "qr_submission_id (F x) = ?sid" if "x \<in> set (sd_responses d)" "qr_submission_id x = ?sid" for x
    using finalize_row_id [of now ?qs "sd_choices d" "sd_blanks d" x "F x" "W x"] fr that
    by (simp add: rows_of_def)
  then have rows1: "rows_of submission ?d1 = map F ?rows"
    using filter_map_in [of "sd_responses d" "\<lambda>r. qr_submission_id r = ?sid" F]
    by (simp add: rows_of_def)
  define p where "p = foldl dec_add 0 (map score_or_0 (map F ?rows))"
  define b where "b = (G_FAILED \<in> qr_grading_status ` set (map F ?rows))"
  define g where "g = grading_summary S_FINALIZED (qr_grading_status ` set (map F ?rows))"
  let ?f = "\<lambda>s. s\<lparr>qs_status := S_FINALIZED, qs_submitted_at := Some now, qs_updated_at := now\<rparr>"
  let ?h = "\<lambda>s. s\<lparr>qs_provisional_score := p, qs_has_grading_error := b,
      qs_grading_status := g, qs_current_score := (if g = GRADED then Some p else None)\<rparr>"
  let ?d2 = "?d1\<lparr>sd_submissions := upd_by qs_id ?sid ?f (sd_submissions d)\<rparr>"
  let ?d3 = "?d2\<lparr>sd_submissions := upd_by qs_id ?sid ?h (upd_by qs_id ?sid ?f (sd_submissions d))\<rparr>"
  have get2: "get_by qs_id ?sid (sd_submissions ?d2) = Some (?f submission)"
    using table.get_upd_same [of qs_id ?f, OF _ get] by simp
  have rows2: "filter (\<lambda>r. qr_submission_id r = ?sid) (sd_responses ?d2) = map F ?rows"
    using rows1 by (simp add: rows_of_def)
  have rec: "recalculate ?sid ?d2 = Inr ?d3"
    unfolding recalculate_def get2 rows2
    by (simp add: g_def p_def b_def score_or_0_def [abs_def] comp_def Let_def)
  have get3: "get_by qs_id ?sid (sd_submissions ?d3) = Some (?h (?f submission))"
    using table.get_upd_same [of qs_id ?h, OF _ get2] by simp
  have rows3: "rows_of submission ?d3 = map F ?rows" using rows2 by (simp add: rows_of_def)
  have fin: "submission_finalize uid now content sts ?sid (qs_user_id submission) d =
      Inr ((map qr_id (filter W ?rows), submission_participant_model content ?sid (qs_user_id submission) ?d3), ?d3)"
    using get draft st loop rec by (simp add: submission_finalize_def rows_of_def Let_def)
  show ?thesis
    by (intro exI conjI) (rule rel, rule fin, rule rows3, rule get3,
        unfold rows3, simp_all add: p_def b_def g_def)
qed

text \<open>The recorded sum of the outcomes.\<close>

lemma outcome_total:
  assumes "list_all question_ready qs" and "length qs \<le> 500"
    and "list_all2 (\<lambda>q x. \<exists>r. response_outcome q r x) qs xs"
  shows "foldl dec_add 0 (map score_or_0 xs) = sum_list (map score_or_0 xs) \<and>
         0 \<le> sum_list (map score_or_0 xs) \<and>
         sum_list (map score_or_0 xs) \<le> sum_list (map qm_max_score qs) \<and>
         G_FAILED \<notin> qr_grading_status ` set xs"
proof -
  note sums = outcome_sum [OF assms(1,3)]
  have "(of_nat (length qs) :: rat) \<le> of_nat 500" using assms(2) unfolding of_nat_le_iff .
  then have "(10000 :: rat) * of_nat (length qs) \<le> 10000 * of_nat 500" by (rule mult_left_mono) simp
  then have "foldl dec_add 0 (map score_or_0 xs) = sum_list (map score_or_0 xs)"
    using foldl_dec_add [of "map score_or_0 xs" 0] sums by simp
  moreover have "0 \<le> sum_list (map score_or_0 xs)"
    by (rule sum_list_nonneg) (use sums in \<open>auto simp: list_all_iff\<close>)
  moreover have "G_FAILED \<noteq> qr_grading_status x" if "x \<in> set xs" for x
    using list_all2_right [OF assms(3) that] outcome_not_failed by fastforce
  then have "G_FAILED \<notin> qr_grading_status ` set xs" by (metis imageE)
  ultimately show ?thesis using sums by simp
qed

text \<open>
  C5. Finalizing a ready submission always succeeds. Every response ends as its question asks:
  graded automatically within its bounds, put up for manual review, or left to the grading
  model (an unanswered one gets zero at once); exactly the answered model-graded responses are
  returned as pending. The submission is finalized, its provisional score is the exact sum of
  the recorded scores, lies between zero and the maximum, and is the current score just when
  every response is graded.
\<close>

theorem finalize_grades:
  assumes ready: "paper_ready content sts submission task d"
  shows "\<exists>pending view d' s.
    submission_finalize uid now content sts (qs_id submission) (qs_user_id submission) d =
      Inr ((pending, view), d') \<and>
    list_all2 (\<lambda>q (r, r'). qm_id q = qr_question_id r \<and> response_outcome q r r') (tm_questions task)
      (zip (rows_of submission d) (rows_of submission d')) \<and>
    pending = map (\<lambda>(q, r). qr_id r) (filter (\<lambda>(q, r). qm_grading_mode q = LLM_ASSISTED \<and> qr_is_answered r)
      (zip (tm_questions task) (rows_of submission d))) \<and>
    get_by qs_id (qs_id submission) (sd_submissions d') = Some s \<and>
    qs_status s = S_FINALIZED \<and> qs_submitted_at s = Some now \<and>
    qs_provisional_score s = sum_list (map score_or_0 (rows_of submission d')) \<and>
    0 \<le> qs_provisional_score s \<and> qs_provisional_score s \<le> qs_maximum_score s \<and>
    \<not> qs_has_grading_error s \<and>
    qs_grading_status s = grading_summary S_FINALIZED (qr_grading_status ` set (rows_of submission d')) \<and>
    qs_current_score s = (if qs_grading_status s = GRADED then Some (qs_provisional_score s) else None)"
proof -
  obtain F W d' s where rel: "list_all2 (\<lambda>q r. (qm_id q = qr_question_id r \<and> response_outcome q r (F r)) \<and>
        W r = (qm_grading_mode q = LLM_ASSISTED \<and> qr_is_answered r)) (tm_questions task) (rows_of submission d)"
    and fin: "submission_finalize uid now content sts (qs_id submission) (qs_user_id submission) d =
      Inr ((map qr_id (filter W (rows_of submission d)),
            submission_participant_model content (qs_id submission) (qs_user_id submission) d'), d')"
    and rows: "rows_of submission d' = map F (rows_of submission d)"
    and get: "get_by qs_id (qs_id submission) (sd_submissions d') = Some s"
    and s: "qs_status s = S_FINALIZED" "qs_submitted_at s = Some now"
      "qs_maximum_score s = qs_maximum_score submission"
      "qs_provisional_score s = foldl dec_add 0 (map score_or_0 (rows_of submission d'))"
      "qs_has_grading_error s = (G_FAILED \<in> qr_grading_status ` set (rows_of submission d'))"
      "qs_grading_status s = grading_summary S_FINALIZED (qr_grading_status ` set (rows_of submission d'))"
      "qs_current_score s = (if qs_grading_status s = GRADED then Some (qs_provisional_score s) else None)"
    using finalize_exec [OF ready, of uid now] by blast
  have z: "list_all2 (\<lambda>q (r, r'). qm_id q = qr_question_id r \<and> response_outcome q r r') (tm_questions task)
      (zip (rows_of submission d) (map F (rows_of submission d)))"
    by (rule zip_outcomes [where Q = "\<lambda>q r r'. qm_id q = qr_question_id r \<and> response_outcome q r r'"])
       (use rel in \<open>auto elim!: list_all2_mono\<close>)
  have "list_all2 (\<lambda>q x. \<exists>r. response_outcome q r x) (tm_questions task) (rows_of submission d')"
    unfolding rows using rel by (auto simp: list_all2_map2 elim!: list_all2_mono)
  then have t: "foldl dec_add 0 (map score_or_0 (rows_of submission d')) = sum_list (map score_or_0 (rows_of submission d'))"
    "0 \<le> sum_list (map score_or_0 (rows_of submission d'))"
    "sum_list (map score_or_0 (rows_of submission d')) \<le> qs_maximum_score s"
    "\<not> qs_has_grading_error s"
    using outcome_total [of "tm_questions task" "rows_of submission d'"] ready s(3,5)
    by (simp_all add: paper_ready_def Let_def)
  show ?thesis
    by (intro exI conjI) (rule fin, unfold rows, rule z, rule pending_zip [OF rel], rule get,
        use s t rows in simp_all)
qed

definition sample_session_task :: session_task where
  "sample_session_task = \<lparr>st_id = ''st'', st_experiment_session_id = ''s'', st_plan_item_id = None,
     st_position = 0, st_task_type = QUESTION, st_title = ''Quiz'', st_llm_prompt_budget = None,
     st_status = ACTIVE, st_essay_topic_id = None, st_essay_topic_title = None,
     st_essay_topic_question = None, st_question_task_id = Some ''t'', st_survey_task_id = None,
     st_survey_required = True, st_essay_id = None, st_essay_draft = None, st_started_at = None,
     st_completed_at = None, st_finalized_at = None, st_created_at = 0, st_updated_at = 0\<rparr>"

definition sub_uid :: "sub_draw \<Rightarrow> string" where
  "sub_uid x = (case x of DSubmission \<Rightarrow> ''sub'' | DResponse q \<Rightarrow> ''r-'' @ q | DAttempt r \<Rightarrow> ''a-'' @ r)"

definition empty_submissions :: submission_db where
  "empty_submissions = \<lparr>sd_submissions = [], sd_responses = [], sd_choices = [], sd_blanks = [],
     sd_attempts = [], sd_overrides = []\<rparr>"

definition sample_submission :: "question_submission \<times> submission_db" where
  "sample_submission =
     (case submission_get_or_create sub_uid 7 sample_db sample_session_task ''u'' empty_submissions of
        Inr x \<Rightarrow> x | Inl _ \<Rightarrow> undefined)"

lemma sample_paper_ready:
  "\<exists>task. paper_ready sample_db [sample_session_task] (fst sample_submission) task (snd sample_submission)"
proof -
  have "case get_question_task ''t'' sample_db of None \<Rightarrow> False
      | Some task \<Rightarrow> paper_ready sample_db [sample_session_task] (fst sample_submission) task (snd sample_submission)"
    by code_simp
  then show ?thesis by (auto split: option.splits)
qed

lemma finalize_grades_witness:
  "\<exists>pending view d' s.
     submission_finalize sub_uid 9 sample_db [sample_session_task] (qs_id (fst sample_submission))
       (qs_user_id (fst sample_submission)) (snd sample_submission) = Inr ((pending, view), d') \<and>
     get_by qs_id (qs_id (fst sample_submission)) (sd_submissions d') = Some s \<and>
     qs_status s = S_FINALIZED \<and> 0 \<le> qs_provisional_score s"
proof -
  obtain task where "paper_ready sample_db [sample_session_task] (fst sample_submission) task (snd sample_submission)"
    using sample_paper_ready by (elim exE)
  from finalize_grades [OF this, of sub_uid 9] show ?thesis by (elim exE conjE) (intro exI conjI)
qed

subsection \<open>A finalized submission is final\<close>

lemma recalculate_submissions:
  assumes "recalculate sid d = Inr d'"
  shows "map qs_session_task_id (sd_submissions d') = map qs_session_task_id (sd_submissions d)"
    and "get_by qs_id sid (sd_submissions d) = Some s \<Longrightarrow> \<exists>s'. get_by qs_id sid (sd_submissions d') = Some s' \<and>
      qs_status s' = qs_status s \<and> qs_user_id s' = qs_user_id s \<and> qs_session_task_id s' = qs_session_task_id s"
  using assms
  by (auto simp: recalculate_def Let_def map_upd_by table.get_upd split: option.splits)

lemma finalize_responses_submissions:
  assumes "finalize_responses uid now qs rs d p = Inr (d', p')"
  shows "sd_submissions d' = sd_submissions d"
proof -
  have "(\<lambda>(e, p). sd_submissions e = sd_submissions d) (d', p')"
    by (rule foldE_invariant [OF assms [unfolded finalize_responses_def]])
       (auto simp: bindE_Inr_iff set_response_def Let_def split: prod.splits if_splits)
  then show ?thesis by simp
qed

text \<open>
  C7. Once finalizing has returned, the submission is final: finalizing again, at any later
  time, changes nothing, returns no pending response and shows the same result, and saving a
  draft for its session task is refused with a conflict.
\<close>

theorem finalized_is_final:
  assumes one: "distinct (map qs_session_task_id (sd_submissions d))"
    and fin: "submission_finalize uid now content sts sid user d = Inr ((pending, view), d')"
  shows "submission_finalize uid' now' content sts sid user d' = Inr (([], view), d') \<and>
         (\<forall>s st answers. get_by qs_id sid (sd_submissions d') = Some s \<longrightarrow>
            get_by st_id (qs_session_task_id s) sts = Some st \<longrightarrow> st_task_type st = QUESTION \<longrightarrow>
            submission_save_draft uid' now' now'' content sts (qs_session_task_id s) user answers d' =
              Inl (http 409 ''This submission is finalized.''))"
proof -
  have res: "\<exists>s. get_by qs_id sid (sd_submissions d') = Some s \<and> qs_user_id s = user \<and>
      qs_status s = S_FINALIZED \<and> view = submission_participant_model content sid user d' \<and>
      map qs_session_task_id (sd_submissions d') = map qs_session_task_id (sd_submissions d)"
  proof -
    from fin obtain submission where sub: "get_by qs_id sid (sd_submissions d) = Some submission"
      "qs_user_id submission = user"
      by (auto simp: submission_finalize_def split: option.splits if_splits)
    show ?thesis
    proof (cases "qs_status submission = S_FINALIZED")
      case True
      with fin sub show ?thesis by (auto simp: submission_finalize_def)
    next
      case False
      let ?f = "\<lambda>s. s\<lparr>qs_status := S_FINALIZED, qs_submitted_at := Some now, qs_updated_at := now\<rparr>"
      from fin sub False obtain qs rs e p where
        loop: "finalize_responses uid now qs rs d [] = Inr (e, p)"
        and rec: "recalculate sid (e\<lparr>sd_submissions := upd_by qs_id sid ?f (sd_submissions e)\<rparr>) = Inr d'"
        and view: "view = submission_participant_model content sid user d'"
        by (auto simp: submission_finalize_def Let_def bindE_Inr_iff split: option.splits)
      have e: "sd_submissions e = sd_submissions d" by (rule finalize_responses_submissions [OF loop])
      have "get_by qs_id sid (upd_by qs_id sid ?f (sd_submissions e)) = Some (?f submission)"
        unfolding e by (rule table.get_upd_same) (use sub in simp_all)
      with recalculate_submissions [OF rec] view sub e show ?thesis
        by (auto simp: map_upd_by)
    qed
  qed
  then obtain s where s: "get_by qs_id sid (sd_submissions d') = Some s" "qs_user_id s = user"
      "qs_status s = S_FINALIZED" and view: "view = submission_participant_model content sid user d'"
    and ids: "map qs_session_task_id (sd_submissions d') = map qs_session_task_id (sd_submissions d)"
    by blast
  have "get_by qs_session_task_id (qs_session_task_id s) (sd_submissions d') = Some s"
    by (rule get_by_distinct) (use one ids get_by_Some [OF s(1)] in simp_all)
  then have "submission_save_draft uid' now' now'' content sts (qs_session_task_id s) user answers d' =
      Inl (http 409 ''This submission is finalized.'')"
    if "get_by st_id (qs_session_task_id s) sts = Some st" "st_task_type st = QUESTION" for st answers
    using that s get_by_Some [OF that(1)]
    by (simp add: submission_save_draft_def submission_get_or_create_def)
  with s view show ?thesis by (simp add: submission_finalize_def)
qed

lemma finalized_is_final_witness:
  "\<exists>d' view pending. submission_finalize sub_uid 9 sample_db [sample_session_task] ''sub'' ''u''
       (snd sample_submission) = Inr ((pending, view), d') \<and>
     submission_finalize sub_uid 11 sample_db [sample_session_task] ''sub'' ''u'' d' = Inr (([], view), d')"
proof -
  have f: "qs_id (fst sample_submission) = ''sub''" "qs_user_id (fst sample_submission) = ''u''"
    "distinct (map qs_session_task_id (sd_submissions (snd sample_submission)))"
    by code_simp+
  have "\<not> isl (submission_finalize sub_uid 9 sample_db [sample_session_task] ''sub'' ''u'' (snd sample_submission))"
    by code_simp
  then obtain p v d' where
    fin: "submission_finalize sub_uid 9 sample_db [sample_session_task] ''sub'' ''u'' (snd sample_submission) =
      Inr ((p, v), d')"
    by (cases "submission_finalize sub_uid 9 sample_db [sample_session_task] ''sub'' ''u'' (snd sample_submission)") auto
  from finalized_is_final [OF f(3) fin] fin show ?thesis by blast
qed

end
