(* ===== verification/Perturbation_Config.thy ===== *)
theory Perturbation_Config
  imports Prelude
begin

text \<open>
  The perturbation configuration of an experiment condition
  (\<open>models/experiment_perturbations.py\<close>): enumerations, forms with their validators, and the
  rows. A float is the rational it denotes. \<open>extra='forbid'\<close> has no counterpart, because a record
  has no extra fields.
\<close>

subsection \<open>Enumerations\<close>

datatype insertion_position = SYSTEM | BEFORE_PARTICIPANT | AFTER_PARTICIPANT

datatype activation_mode = EVERY_REQUEST | FIRST_REQUEST | AFTER_PROMPT_COUNT | A_EVERY_N_PROMPTS | PROMPT_RANGE

datatype perturbation_scope = ALL_TASKS | SELECTED_TASKS

datatype warning_cadence = BEGINNING | W_EVERY_N_PROMPTS | PROMPT_LIST | ONCE_AFTER_PROMPT
  | EVERY_N_ACTIVE_MINUTES | AFTER_ACTIVE_MINUTES | ONCE_AFTER_ACTIVE_DELAY

datatype timing_mode = NORMAL | DELAYED | SLOW | FAST

datatype reveal_style = FULL | QUICK_STREAM

datatype stream_unit = CHARACTER | WORD | CHUNK

datatype rate_unit = CHARACTERS_PER_SECOND | WORDS_PER_SECOND | TARGET_DURATION

subsection \<open>Forms\<close>

record activation_rule =
  ar_mode :: activation_mode
  ar_count :: "int option"
  ar_range_start :: "int option"
  ar_range_end :: "int option"
  ar_probability :: rat
  ar_scope :: perturbation_scope
  ar_plan_item_ids :: "string list"

record prompt_injection =
  pi_enabled :: bool
  pi_instruction :: string
  pi_position :: insertion_position
  pi_activation :: activation_rule

record warning_modal =
  wm_enabled :: bool
  wm_title :: string
  wm_message :: string
  wm_confirmation_text :: string
  wm_must_acknowledge :: bool
  wm_cadence :: warning_cadence
  wm_cadence_value :: "int option"
  wm_prompt_numbers :: "int list"

record response_timing =
  rt_mode :: timing_mode
  rt_delay_seconds :: "rat option"
  rt_show_loading :: bool
  rt_reveal_style :: reveal_style
  rt_target_duration_seconds :: "rat option"
  rt_stream_unit :: stream_unit
  rt_minimum_chunk_size :: int
  rt_maximum_chunk_size :: int
  rt_punctuation_pauses :: bool
  rt_rate_value :: "rat option"
  rt_rate_unit :: rate_unit

record condition_form =
  cd_id :: "string option"
  cd_name :: string
  cd_allocation_percent :: int
  cd_enabled :: bool
  cd_is_control :: bool
  cd_prompt_injection :: prompt_injection
  cd_warning_modal :: warning_modal
  cd_response_timing :: response_timing

definition default_activation :: activation_rule where
  "default_activation = \<lparr>ar_mode = EVERY_REQUEST, ar_count = None, ar_range_start = None,
     ar_range_end = None, ar_probability = 1, ar_scope = ALL_TASKS, ar_plan_item_ids = []\<rparr>"

definition default_injection :: prompt_injection where
  "default_injection = \<lparr>pi_enabled = False, pi_instruction = [], pi_position = SYSTEM,
     pi_activation = default_activation\<rparr>"

definition default_warning :: warning_modal where
  "default_warning = \<lparr>wm_enabled = False, wm_title = ''Important reminder'',
     wm_message = ''LLMs can make mistakes. Double-check important answers.'',
     wm_confirmation_text = ''Continue'', wm_must_acknowledge = True, wm_cadence = BEGINNING,
     wm_cadence_value = None, wm_prompt_numbers = []\<rparr>"

definition default_timing :: response_timing where
  "default_timing = \<lparr>rt_mode = NORMAL, rt_delay_seconds = None, rt_show_loading = True,
     rt_reveal_style = FULL, rt_target_duration_seconds = None, rt_stream_unit = CHARACTER,
     rt_minimum_chunk_size = 1, rt_maximum_chunk_size = 20, rt_punctuation_pauses = False,
     rt_rate_value = None, rt_rate_unit = CHARACTERS_PER_SECOND\<rparr>"

definition default_control_condition :: condition_form where
  "default_control_condition = \<lparr>cd_id = None, cd_name = ''Control'', cd_allocation_percent = 100,
     cd_enabled = True, cd_is_control = True, cd_prompt_injection = default_injection,
     cd_warning_modal = default_warning, cd_response_timing = default_timing\<rparr>"

subsection \<open>Validators\<close>

definition opt_ok :: "('a \<Rightarrow> bool) \<Rightarrow> 'a option \<Rightarrow> bool" where
  "opt_ok P v = (case v of None \<Rightarrow> True | Some x \<Rightarrow> P x)"

definition small_count :: "int \<Rightarrow> bool" where
  "small_count n \<longleftrightarrow> 1 \<le> n \<and> n \<le> 100000"

definition validate_rule :: "activation_rule \<Rightarrow> err + activation_rule" where
  "validate_rule a =
     (if ar_mode a \<in> {AFTER_PROMPT_COUNT, A_EVERY_N_PROMPTS} \<and> ar_count a = None
      then Inl (ValueError ''This activation mode requires a prompt count.'')
      else if ar_mode a = PROMPT_RANGE \<and>
        (case (ar_range_start a, ar_range_end a) of (Some x, Some y) \<Rightarrow> x > y | _ \<Rightarrow> True)
      then Inl (ValueError ''Prompt range requires an ordered start and end.'')
      else if ar_scope a = SELECTED_TASKS \<and> ar_plan_item_ids a = []
      then Inl (ValueError ''Selected-task scope requires at least one task.'')
      else Inr (if ar_scope a = ALL_TASKS then a\<lparr>ar_plan_item_ids := []\<rparr> else a))"

definition validate_activation :: "activation_rule \<Rightarrow> err + activation_rule" where
  "validate_activation a =
     (if \<not> opt_ok small_count (ar_count a) then Inl (FieldError ''count'')
      else if \<not> opt_ok small_count (ar_range_start a) then Inl (FieldError ''range_start'')
      else if \<not> opt_ok small_count (ar_range_end a) then Inl (FieldError ''range_end'')
      else if \<not> (0 \<le> ar_probability a \<and> ar_probability a \<le> 1) then Inl (FieldError ''probability'')
      else if 100 < length (ar_plan_item_ids a) then Inl (FieldError ''plan_item_ids'')
      else validate_rule a)"

definition validate_prompt :: "prompt_injection \<Rightarrow> err + prompt_injection" where
  "validate_prompt p =
     (if 50000 < length (pi_instruction p) then Inl (FieldError ''instruction'')
      else bindE (validate_activation (pi_activation p)) (\<lambda>a.
        let i = py_strip (pi_instruction p) in
        if pi_enabled p \<and> i = []
        then Inl (ValueError ''Enabled prompt injection requires an instruction.'')
        else Inr (p\<lparr>pi_instruction := i, pi_activation := a\<rparr>)))"

definition needs_value :: "warning_cadence \<Rightarrow> bool" where
  "needs_value c \<longleftrightarrow> c \<in> {W_EVERY_N_PROMPTS, ONCE_AFTER_PROMPT, EVERY_N_ACTIVE_MINUTES,
     AFTER_ACTIVE_MINUTES, ONCE_AFTER_ACTIVE_DELAY}"

definition validate_warning :: "warning_modal \<Rightarrow> err + warning_modal" where
  "validate_warning w =
     (if 500 < length (wm_title w) then Inl (FieldError ''title'')
      else if 10000 < length (wm_message w) then Inl (FieldError ''message'')
      else if 200 < length (wm_confirmation_text w) then Inl (FieldError ''confirmation_text'')
      else if \<not> opt_ok small_count (wm_cadence_value w) then Inl (FieldError ''cadence_value'')
      else if 1000 < length (wm_prompt_numbers w) then Inl (FieldError ''prompt_numbers'')
      else
        let title = py_strip (wm_title w); message = py_strip (wm_message w);
            confirm = py_strip (wm_confirmation_text w) in
        if wm_enabled w \<and> (title = [] \<or> message = [] \<or> confirm = [])
        then Inl (ValueError ''Enabled warning modal requires title, message, and confirmation text.'')
        else if needs_value (wm_cadence w) \<and> wm_cadence_value w = None
        then Inl (ValueError ''This warning cadence requires a value.'')
        else if wm_cadence w = PROMPT_LIST \<and>
          (wm_prompt_numbers w = [] \<or> list_ex (\<lambda>n. n < 1) (wm_prompt_numbers w))
        then Inl (ValueError ''Prompt-list cadence requires positive prompt numbers.'')
        else Inr (w\<lparr>wm_title := title, wm_message := message, wm_confirmation_text := confirm,
          wm_prompt_numbers := (if wm_cadence w = PROMPT_LIST
             then sort (remdups (wm_prompt_numbers w)) else [])\<rparr>))"

text \<open>The lower bound of a delay is the double nearest to 0.1.\<close>

definition min_delay :: rat where
  "min_delay = 3602879701896397 / 36028797018963968"

definition validate_timing :: "response_timing \<Rightarrow> err + response_timing" where
  "validate_timing t =
     (if \<not> opt_ok (\<lambda>x. min_delay \<le> x \<and> x \<le> 300) (rt_delay_seconds t) then Inl (FieldError ''delay_seconds'')
      else if \<not> opt_ok (\<lambda>x. 1 \<le> x \<and> x \<le> 600) (rt_target_duration_seconds t)
      then Inl (FieldError ''target_duration_seconds'')
      else if \<not> (1 \<le> rt_minimum_chunk_size t \<and> rt_minimum_chunk_size t \<le> 1000)
      then Inl (FieldError ''minimum_chunk_size'')
      else if \<not> (1 \<le> rt_maximum_chunk_size t \<and> rt_maximum_chunk_size t \<le> 1000)
      then Inl (FieldError ''maximum_chunk_size'')
      else if \<not> opt_ok (\<lambda>x. 0 < x \<and> x \<le> 5000) (rt_rate_value t) then Inl (FieldError ''rate_value'')
      else if rt_minimum_chunk_size t > rt_maximum_chunk_size t
      then Inl (ValueError ''Minimum chunk size cannot exceed maximum chunk size.'')
      else
        (case rt_mode t of
           NORMAL \<Rightarrow> Inr (t\<lparr>rt_delay_seconds := None, rt_target_duration_seconds := None,
                            rt_rate_value := None\<rparr>)
         | DELAYED \<Rightarrow>
             if rt_delay_seconds t = None then Inl (ValueError ''Delayed reveal requires a delay.'')
             else Inr (t\<lparr>rt_target_duration_seconds := None, rt_rate_value := None\<rparr>)
         | SLOW \<Rightarrow>
             if rt_target_duration_seconds t = None
             then Inl (ValueError ''Slow streaming requires a target duration.'')
             else Inr (t\<lparr>rt_delay_seconds := None, rt_rate_value := None\<rparr>)
         | FAST \<Rightarrow>
             if rt_rate_unit t = TARGET_DURATION then
               if rt_target_duration_seconds t = None
               then Inl (ValueError ''Target-duration fast reveal requires a target duration.'')
               else Inr (t\<lparr>rt_delay_seconds := None, rt_rate_value := None\<rparr>)
             else if rt_rate_value t = None then Inl (ValueError ''Fast reveal requires a rate.'')
             else Inr (t\<lparr>rt_delay_seconds := None, rt_target_duration_seconds := None\<rparr>)))"

definition validate_condition :: "condition_form \<Rightarrow> err + condition_form" where
  "validate_condition c =
     (if \<not> (1 \<le> length (cd_name c) \<and> length (cd_name c) \<le> 500) then Inl (FieldError ''name'')
      else if \<not> (0 \<le> cd_allocation_percent c \<and> cd_allocation_percent c \<le> 100)
      then Inl (FieldError ''allocation_percent'')
      else bindE (validate_prompt (cd_prompt_injection c)) (\<lambda>p.
           bindE (validate_warning (cd_warning_modal c)) (\<lambda>w.
           bindE (validate_timing (cd_response_timing c)) (\<lambda>t.
             if cd_is_control c \<and> (pi_enabled p \<or> wm_enabled w \<or> rt_mode t \<noteq> NORMAL)
             then Inl (ValueError ''The control condition must use normal, non-perturbed behavior.'')
             else Inr (c\<lparr>cd_name := py_strip (cd_name c), cd_prompt_injection := p,
                         cd_warning_modal := w, cd_response_timing := t\<rparr>)))))"

subsection \<open>Rows\<close>

record condition_row =
  ec_id :: string
  ec_source_condition_key :: "string option"
  ec_plan_id :: string
  ec_name :: string
  ec_position :: int
  ec_allocation_percent :: int
  ec_enabled :: bool
  ec_is_control :: bool
  ec_created_at :: int

record injection_row =
  ei_condition_id :: string
  ei_enabled :: bool
  ei_instruction :: string
  ei_position :: insertion_position
  ei_activation_mode :: activation_mode
  ei_activation_count :: "int option"
  ei_range_start :: "int option"
  ei_range_end :: "int option"
  ei_probability :: rat
  ei_scope :: perturbation_scope

record warning_row =
  ew_condition_id :: string
  ew_enabled :: bool
  ew_title :: string
  ew_message :: string
  ew_confirmation_text :: string
  ew_must_acknowledge :: bool
  ew_cadence :: warning_cadence
  ew_cadence_value :: "int option"
  ew_prompt_numbers :: "int list"

record timing_row =
  et_condition_id :: string
  et_mode :: timing_mode
  et_delay_seconds :: "rat option"
  et_show_loading :: bool
  et_reveal_style :: reveal_style
  et_target_duration_seconds :: "rat option"
  et_stream_unit :: stream_unit
  et_minimum_chunk_size :: int
  et_maximum_chunk_size :: int
  et_punctuation_pauses :: bool
  et_rate_value :: "rat option"
  et_rate_unit :: rate_unit

datatype perturbation_type = P_PROMPT | P_OTHER string

record scope_row =
  es_condition_id :: string
  es_perturbation_type :: perturbation_type
  es_plan_item_id :: string

record llm_request =
  lr_id :: string
  lr_experiment_session_id :: string
  lr_condition_id :: "string option"
  lr_plan_id :: "string option"
  lr_plan_version :: "int option"
  lr_session_task_id :: "string option"
  lr_chat_id :: "string option"
  lr_user_message_id :: "string option"
  lr_assistant_message_id :: "string option"
  lr_request_sequence :: int
  lr_prompt_number :: int
  lr_assignment_identifier :: "string option"
  lr_prompt_active :: bool
  lr_prompt_draw :: "rat option"
  lr_prompt_randomization_id :: "string option"
  lr_timing_mode :: timing_mode
  lr_timing_parameters :: response_timing
  lr_request_at :: int
  lr_provider_started_at :: "int option"
  lr_provider_first_token_at :: "int option"
  lr_provider_completed_at :: "int option"
  lr_artificial_delay_started_at :: "int option"
  lr_artificial_delay_ended_at :: "int option"
  lr_server_first_emit_at :: "int option"
  lr_server_completed_emit_at :: "int option"
  lr_client_first_visible_at :: "int option"
  lr_client_completed_visible_at :: "int option"
  lr_buffered :: bool
  lr_streaming_completed_normally :: "bool option"
  lr_navigated_away :: bool
  lr_status :: string
  lr_error_type :: "string option"
  lr_buffered_output :: "json option"
  lr_reveal_cursor :: int
  lr_created_at :: int
  lr_updated_at :: int

record warning_state =
  ws_id :: string
  ws_experiment_session_id :: string
  ws_condition_id :: string
  ws_plan_id :: string
  ws_active_elapsed_ms :: int
  ws_last_trigger_key :: "string option"
  ws_last_token :: "string option"
  ws_pending_token :: "string option"
  ws_pending_reason :: "string option"
  ws_pending_trigger_key :: "string option"
  ws_pending_prompt_count :: "int option"
  ws_pending_active_elapsed_ms :: "int option"
  ws_displayed_at :: "int option"
  ws_acknowledged_at :: "int option"
  ws_created_at :: int
  ws_updated_at :: int

definition new_warning_state :: "string \<Rightarrow> int \<Rightarrow> string \<Rightarrow> string \<Rightarrow> string \<Rightarrow> warning_state" where
  "new_warning_state uid now session_id condition_id plan_id =
     \<lparr>ws_id = uid, ws_experiment_session_id = session_id, ws_condition_id = condition_id,
      ws_plan_id = plan_id, ws_active_elapsed_ms = 0, ws_last_trigger_key = None,
      ws_last_token = None, ws_pending_token = None, ws_pending_reason = None,
      ws_pending_trigger_key = None, ws_pending_prompt_count = None,
      ws_pending_active_elapsed_ms = None, ws_displayed_at = None, ws_acknowledged_at = None,
      ws_created_at = now, ws_updated_at = now\<rparr>"

subsection \<open>What validation establishes\<close>

lemma validate_rule_idem: "validate_rule a = Inr b \<Longrightarrow> validate_rule b = Inr b"
  by (auto simp: validate_rule_def split: if_splits option.splits)

lemma validate_activation_idem: "validate_activation a = Inr b \<Longrightarrow> validate_activation b = Inr b"
proof -
  assume h: "validate_activation a = Inr b"
  then have r: "validate_rule a = Inr b" by (auto simp: validate_activation_def split: if_splits)
  then have "b = a \<or> b = a\<lparr>ar_plan_item_ids := []\<rparr>"
    by (auto simp: validate_rule_def split: if_splits)
  then show ?thesis
    using h validate_rule_idem [OF r] by (auto simp: validate_activation_def split: if_splits)
qed

lemma validate_prompt_idem: "validate_prompt p = Inr q \<Longrightarrow> validate_prompt q = Inr q"
  using length_py_strip [of "pi_instruction p"]
  by (cases p) (auto simp: validate_prompt_def bindE_Inr_iff Let_def validate_activation_idem split: if_splits)

lemma sort_remdups_idem: "sort (remdups (sort (remdups xs))) = sort (remdups (xs :: int list))"
  by (metis distinct_remdups distinct_remdups_id distinct_sort sorted_sort sorted_sort_id)

lemma validate_warning_idem:
  assumes h: "validate_warning w = Inr v" shows "validate_warning v = Inr v"
proof -
  define ns where "ns = (if wm_cadence w = PROMPT_LIST then sort (remdups (wm_prompt_numbers w)) else [])"
  have v: "v = w\<lparr>wm_title := py_strip (wm_title w), wm_message := py_strip (wm_message w),
      wm_confirmation_text := py_strip (wm_confirmation_text w), wm_prompt_numbers := ns\<rparr>"
    using h by (simp add: validate_warning_def Let_def ns_def split: if_splits)
  have ns: "(if wm_cadence w = PROMPT_LIST then sort (remdups ns) else []) = ns"
    by (simp add: ns_def sort_remdups_idem)
  have len: "length ns \<le> length (wm_prompt_numbers w)" by (simp add: ns_def length_remdups_leq)
  have list: "wm_cadence w = PROMPT_LIST \<Longrightarrow> (ns = [] \<or> list_ex (\<lambda>n. n < 1) ns) =
      (wm_prompt_numbers w = [] \<or> list_ex (\<lambda>n. n < 1) (wm_prompt_numbers w))"
    by (simp add: ns_def list_ex_iff) (metis remdups_eq_nil_iff set_empty set_sort)
  note strips = length_py_strip [of "wm_title w"] length_py_strip [of "wm_message w"]
    length_py_strip [of "wm_confirmation_text w"]
  have g: "\<not> 500 < length (wm_title w)" "\<not> 10000 < length (wm_message w)"
    "\<not> 200 < length (wm_confirmation_text w)" "opt_ok small_count (wm_cadence_value w)"
    "\<not> 1000 < length (wm_prompt_numbers w)"
    "\<not> (wm_enabled w \<and> (py_strip (wm_title w) = [] \<or> py_strip (wm_message w) = [] \<or>
        py_strip (wm_confirmation_text w) = []))"
    "\<not> (needs_value (wm_cadence w) \<and> wm_cadence_value w = None)"
    "\<not> (wm_cadence w = PROMPT_LIST \<and> (wm_prompt_numbers w = [] \<or> list_ex (\<lambda>n. n < 1) (wm_prompt_numbers w)))"
    using h unfolding validate_warning_def Let_def by (simp_all split: if_split_asm)
  have g': "\<not> (wm_cadence w = PROMPT_LIST \<and> (ns = [] \<or> list_ex (\<lambda>n. n < 1) ns))"
    using g(8) list by blast
  show ?thesis
    unfolding v validate_warning_def Let_def
    using g g' len strips ns by (cases "wm_cadence w = PROMPT_LIST") simp_all
qed

lemma validate_timing_idem:
  assumes "validate_timing t = Inr u" shows "validate_timing u = Inr u"
proof (cases "rt_mode t")
  case NORMAL
  with assms show ?thesis by (auto simp: validate_timing_def opt_ok_def split: if_splits)
next
  case DELAYED
  with assms show ?thesis by (auto simp: validate_timing_def opt_ok_def split: if_splits)
next
  case SLOW
  with assms show ?thesis by (auto simp: validate_timing_def opt_ok_def split: if_splits)
next
  case FAST
  show ?thesis
  proof (cases "rt_rate_unit t = TARGET_DURATION")
    case True
    with assms FAST show ?thesis by (simp add: validate_timing_def opt_ok_def split: if_split_asm) auto
  next
    case False
    with assms FAST show ?thesis by (simp add: validate_timing_def opt_ok_def split: if_split_asm) auto
  qed
qed

text \<open>A validated condition passes again unchanged, unless its name was only white space.\<close>

lemma validate_condition_Inr:
  "validate_condition c = Inr d \<longleftrightarrow>
     1 \<le> length (cd_name c) \<and> length (cd_name c) \<le> 500 \<and>
     0 \<le> cd_allocation_percent c \<and> cd_allocation_percent c \<le> 100 \<and>
     (\<exists>p w t. validate_prompt (cd_prompt_injection c) = Inr p \<and>
        validate_warning (cd_warning_modal c) = Inr w \<and> validate_timing (cd_response_timing c) = Inr t \<and>
        \<not> (cd_is_control c \<and> (pi_enabled p \<or> wm_enabled w \<or> rt_mode t \<noteq> NORMAL)) \<and>
        d = c\<lparr>cd_name := py_strip (cd_name c), cd_prompt_injection := p, cd_warning_modal := w,
              cd_response_timing := t\<rparr>)"
  unfolding validate_condition_def by (simp add: bindE_Inr_iff) blast

lemma validate_condition_idem:
  assumes h: "validate_condition c = Inr d" and n: "cd_name d \<noteq> []"
  shows "validate_condition d = Inr d"
proof -
  obtain p w t where v: "validate_prompt (cd_prompt_injection c) = Inr p"
      "validate_warning (cd_warning_modal c) = Inr w" "validate_timing (cd_response_timing c) = Inr t"
    and k: "\<not> (cd_is_control c \<and> (pi_enabled p \<or> wm_enabled w \<or> rt_mode t \<noteq> NORMAL))"
    and d: "d = c\<lparr>cd_name := py_strip (cd_name c), cd_prompt_injection := p, cd_warning_modal := w,
        cd_response_timing := t\<rparr>"
    and b: "length (cd_name c) \<le> 500" "0 \<le> cd_allocation_percent c" "cd_allocation_percent c \<le> 100"
    using h unfolding validate_condition_Inr by blast
  have len: "length (py_strip (cd_name c)) \<le> 500" "1 \<le> length (py_strip (cd_name c))"
    using length_py_strip [of "cd_name c"] b(1) n d by (auto simp: Suc_le_eq)
  note v' = validate_prompt_idem [OF v(1)] validate_warning_idem [OF v(2)] validate_timing_idem [OF v(3)]
  show ?thesis
    unfolding validate_condition_Inr
    by (intro conjI exI [of _ p] exI [of _ w] exI [of _ t]) (use len b v' k in \<open>simp_all add: d\<close>)
qed

end
