(* ===== verification/Survey_Task.thy ===== *)
theory Survey_Task
  imports Question_Grade
begin

text \<open>
  Survey tasks (\<open>models/survey_tasks.py\<close>): the forms with their validators, the three tables and
  the authoring operations. As for question tasks an operation is one transaction and an \<open>Inl\<close>
  leaves the store unchanged; UUIDs are named by what they are drawn for.
\<close>

subsection \<open>Forms\<close>

datatype survey_question_type = SV_SINGLE_CHOICE | SV_MULTIPLE_SELECT | SV_SCALE | SV_SHORT_TEXT | SV_LONG_TEXT

datatype survey_task_status = SV_DRAFT | SV_PUBLISHED | SV_ARCHIVED

datatype survey_clone_mode = SV_VERSION | SV_DUPLICATE

record survey_choice_form =
  scf_id :: "string option"
  scf_text :: string

record survey_question_form =
  sqf_id :: "string option"
  sqf_prompt :: string
  sqf_description :: string
  sqf_question_type :: survey_question_type
  sqf_required :: bool
  sqf_enabled :: bool
  sqf_choices :: "survey_choice_form list"
  sqf_scale_low_label :: "string option"
  sqf_scale_high_label :: "string option"

record survey_task_form =
  stf_title :: string
  stf_description :: string
  stf_questions :: "survey_question_form list"

definition validate_survey_choice :: "survey_choice_form \<Rightarrow> err + survey_choice_form" where
  "validate_survey_choice c =
     (if \<not> (1 \<le> length (scf_text c) \<and> length (scf_text c) \<le> 4000) then Inl (FieldError ''text'')
      else let t = py_strip (scf_text c) in
        if t = [] then Inl (ValueError ''Choice text is required.'') else Inr (c\<lparr>scf_text := t\<rparr>))"

definition strip_optional :: "string option \<Rightarrow> string option" where
  "strip_optional v = (if truthy_str v then map_option py_strip v else None)"

definition validate_survey_configuration :: "survey_question_form \<Rightarrow> err + survey_question_form" where
  "validate_survey_configuration q =
     (let choice_type = (sqf_question_type q \<in> {SV_SINGLE_CHOICE, SV_MULTIPLE_SELECT}) in
      if choice_type \<and> length (sqf_choices q) < 2
      then Inl (ValueError ''Choice survey questions require at least two choices.'')
      else if choice_type \<and> \<not> distinct (map (\<lambda>c. casefold (scf_text c)) (sqf_choices q))
      then Inl (ValueError ''Survey choices must be unique.'')
      else if \<not> choice_type \<and> sqf_choices q \<noteq> []
      then Inl (ValueError ''Only choice survey questions may define choices.'')
      else if sqf_question_type q = SV_SCALE then
        (if \<not> truthy_str (sqf_scale_low_label q) \<or> \<not> truthy_str (sqf_scale_high_label q)
         then Inl (ValueError ''Scale survey questions require both endpoint labels.'') else Inr q)
      else if truthy_str (sqf_scale_low_label q) \<or> truthy_str (sqf_scale_high_label q)
      then Inl (ValueError ''Only scale survey questions may define endpoint labels.'')
      else Inr q)"

definition validate_survey_question :: "survey_question_form \<Rightarrow> err + survey_question_form" where
  "validate_survey_question q =
     (if \<not> (1 \<le> length (sqf_prompt q) \<and> length (sqf_prompt q) \<le> 1000) then Inl (FieldError ''prompt'')
      else if 20000 < length (sqf_description q) then Inl (FieldError ''description'')
      else if 100 < length (sqf_choices q) then Inl (FieldError ''choices'')
      else bindE (mapE validate_survey_choice (sqf_choices q)) (\<lambda>cs.
        if (case sqf_scale_low_label q of None \<Rightarrow> False | Some s \<Rightarrow> 200 < length s)
        then Inl (FieldError ''scale_low_label'')
        else if (case sqf_scale_high_label q of None \<Rightarrow> False | Some s \<Rightarrow> 200 < length s)
        then Inl (FieldError ''scale_high_label'')
        else validate_survey_configuration (q\<lparr>
          sqf_prompt := py_strip (sqf_prompt q), sqf_description := py_strip (sqf_description q),
          sqf_choices := cs, sqf_scale_low_label := strip_optional (sqf_scale_low_label q),
          sqf_scale_high_label := strip_optional (sqf_scale_high_label q)\<rparr>)))"

definition validate_survey_task :: "survey_task_form \<Rightarrow> err + survey_task_form" where
  "validate_survey_task f =
     (if \<not> (1 \<le> length (stf_title f) \<and> length (stf_title f) \<le> 500) then Inl (FieldError ''title'')
      else if 20000 < length (stf_description f) then Inl (FieldError ''description'')
      else if 500 < length (stf_questions f) then Inl (FieldError ''questions'')
      else bindE (mapE validate_survey_question (stf_questions f)) (\<lambda>qs.
        Inr (f\<lparr>stf_title := py_strip (stf_title f), stf_description := py_strip (stf_description f),
               stf_questions := qs\<rparr>)))"

subsection \<open>Tables\<close>

record survey_task_row =
  sv_id :: string
  sv_family_id :: string
  sv_version :: int
  sv_title :: string
  sv_description :: string
  sv_status :: survey_task_status
  sv_locked_at :: "int option"
  sv_archived_at :: "int option"
  sv_workflow_managed :: bool
  sv_created_at :: int
  sv_updated_at :: int

record survey_question_row =
  sq_id :: string
  sq_task_id :: string
  sq_prompt :: string
  sq_description :: string
  sq_question_type :: survey_question_type
  sq_position :: int
  sq_required :: bool
  sq_enabled :: bool
  sq_scale_low_label :: "string option"
  sq_scale_high_label :: "string option"
  sq_created_at :: int
  sq_updated_at :: int

record survey_choice_row =
  sc_id :: string
  sc_question_id :: string
  sc_text :: string
  sc_position :: int

record survey_db =
  svd_tasks :: "survey_task_row list"
  svd_questions :: "survey_question_row list"
  svd_choices :: "survey_choice_row list"

definition survey_keys :: "survey_db \<Rightarrow> bool" where
  "survey_keys d \<longleftrightarrow> distinct (map sv_id (svd_tasks d)) \<and> distinct (map sq_id (svd_questions d)) \<and>
     distinct (map sc_id (svd_choices d))"

definition commit_survey :: "survey_db \<Rightarrow> err + survey_db" where
  "commit_survey d = (if survey_keys d then Inr d else Inl IntegrityError)"

record survey_choice_model =
  scm_id :: string
  scm_text :: string
  scm_position :: int

record survey_question_model =
  sqm_id :: string
  sqm_prompt :: string
  sqm_description :: string
  sqm_question_type :: survey_question_type
  sqm_position :: int
  sqm_required :: bool
  sqm_enabled :: bool
  sqm_choices :: "survey_choice_model list"
  sqm_scale_low_label :: "string option"
  sqm_scale_high_label :: "string option"

record survey_task_model =
  stm_id :: string
  stm_family_id :: string
  stm_version :: int
  stm_latest_version :: int
  stm_title :: string
  stm_description :: string
  stm_status :: survey_task_status
  stm_locked_at :: "int option"
  stm_archived_at :: "int option"
  stm_created_at :: int
  stm_updated_at :: int
  stm_questions :: "survey_question_model list"

subsection \<open>Reading\<close>

definition survey_question_model_of :: "survey_choice_row list \<Rightarrow> survey_question_row \<Rightarrow> survey_question_model" where
  "survey_question_model_of choices q =
     \<lparr>sqm_id = sq_id q, sqm_prompt = sq_prompt q, sqm_description = sq_description q,
      sqm_question_type = sq_question_type q, sqm_position = sq_position q,
      sqm_required = sq_required q, sqm_enabled = sq_enabled q,
      sqm_choices = map (\<lambda>c. \<lparr>scm_id = sc_id c, scm_text = sc_text c, scm_position = sc_position c\<rparr>)
        (filter (\<lambda>c. sc_question_id c = sq_id q) choices),
      sqm_scale_low_label = sq_scale_low_label q, sqm_scale_high_label = sq_scale_high_label q\<rparr>"

definition load_survey_questions :: "string \<Rightarrow> survey_db \<Rightarrow> survey_question_model list" where
  "load_survey_questions task_id d =
     (let questions = order_by sq_position (filter (\<lambda>q. sq_task_id q = task_id) (svd_questions d));
          choices = order_by sc_position
            (filter (\<lambda>c. sc_question_id c \<in> set (map sq_id questions)) (svd_choices d))
      in map (survey_question_model_of choices) questions)"

definition latest_survey_version :: "string \<Rightarrow> survey_db \<Rightarrow> int option" where
  "latest_survey_version family d =
     max_of sv_version (filter (\<lambda>t. sv_family_id t = family) (svd_tasks d))"

definition get_survey_task :: "string \<Rightarrow> survey_db \<Rightarrow> survey_task_model option" where
  "get_survey_task task_id d =
     (case get_by sv_id task_id (svd_tasks d) of
        None \<Rightarrow> None
      | Some task \<Rightarrow> Some
          \<lparr>stm_id = sv_id task, stm_family_id = sv_family_id task, stm_version = sv_version task,
           stm_latest_version = or_int (latest_survey_version (sv_family_id task) d) (sv_version task),
           stm_title = sv_title task, stm_description = sv_description task,
           stm_status = sv_status task, stm_locked_at = sv_locked_at task,
           stm_archived_at = sv_archived_at task, stm_created_at = sv_created_at task,
           stm_updated_at = sv_updated_at task, stm_questions = load_survey_questions task_id d\<rparr>)"

definition list_survey_tasks :: "bool \<Rightarrow> survey_db \<Rightarrow> survey_task_model option list" where
  "list_survey_tasks include_archived d =
     map (\<lambda>t. get_survey_task (sv_id t) d)
       (order_desc sv_updated_at
         (filter (\<lambda>t. \<not> sv_workflow_managed t \<and> (include_archived \<or> sv_status t \<noteq> SV_ARCHIVED))
           (svd_tasks d)))"

record participant_survey_question =
  psq_id :: string
  psq_prompt :: string
  psq_description :: string
  psq_question_type :: survey_question_type
  psq_position :: int
  psq_required :: bool
  psq_choices :: "survey_choice_model list"
  psq_scale_low_label :: "string option"
  psq_scale_high_label :: "string option"

record participant_survey_task_model =
  pst_id :: string
  pst_title :: string
  pst_description :: string
  pst_version :: int
  pst_questions :: "participant_survey_question list"

definition participant_survey_task :: "string \<Rightarrow> survey_db \<Rightarrow> participant_survey_task_model option" where
  "participant_survey_task task_id d =
     map_option (\<lambda>t. \<lparr>pst_id = stm_id t, pst_title = stm_title t, pst_description = stm_description t,
        pst_version = stm_version t,
        pst_questions = map (\<lambda>q. \<lparr>psq_id = sqm_id q, psq_prompt = sqm_prompt q,
            psq_description = sqm_description q, psq_question_type = sqm_question_type q,
            psq_position = sqm_position q, psq_required = sqm_required q,
            psq_choices = sqm_choices q, psq_scale_low_label = sqm_scale_low_label q,
            psq_scale_high_label = sqm_scale_high_label q\<rparr>)
          (filter sqm_enabled (stm_questions t))\<rparr>)
       (get_survey_task task_id d)"

subsection \<open>Writing\<close>

datatype survey_draw = DSurvey | DSurveyQuestion nat | DSurveyChoice nat nat

definition survey_question_key :: "(survey_draw \<Rightarrow> string) \<Rightarrow> nat \<times> survey_question_form \<Rightarrow> string" where
  "survey_question_key uid = (\<lambda>(p, f). or_str (sqf_id f) (uid (DSurveyQuestion p)))"

definition new_survey_question ::
    "(survey_draw \<Rightarrow> string) \<Rightarrow> int \<Rightarrow> string \<Rightarrow> nat \<times> survey_question_form \<Rightarrow> survey_question_row" where
  "new_survey_question uid now task_id = (\<lambda>(p, f).
     \<lparr>sq_id = survey_question_key uid (p, f), sq_task_id = task_id, sq_prompt = sqf_prompt f,
      sq_description = sqf_description f, sq_question_type = sqf_question_type f,
      sq_position = int p, sq_required = sqf_required f, sq_enabled = sqf_enabled f,
      sq_scale_low_label = sqf_scale_low_label f, sq_scale_high_label = sqf_scale_high_label f,
      sq_created_at = now, sq_updated_at = now\<rparr>)"

definition new_survey_choices ::
    "(survey_draw \<Rightarrow> string) \<Rightarrow> nat \<times> survey_question_form \<Rightarrow> survey_choice_row list" where
  "new_survey_choices uid = (\<lambda>(p, f). map (\<lambda>(i, c).
     \<lparr>sc_id = or_str (scf_id c) (uid (DSurveyChoice p i)),
      sc_question_id = survey_question_key uid (p, f), sc_text = scf_text c, sc_position = int i\<rparr>)
     (enumerate 0 (sqf_choices f)))"

definition replace_survey_questions ::
    "(survey_draw \<Rightarrow> string) \<Rightarrow> int \<Rightarrow> string \<Rightarrow> survey_question_form list \<Rightarrow> survey_db \<Rightarrow> survey_db" where
  "replace_survey_questions uid now task_id forms d =
     (let fs = enumerate 0 forms in
      d\<lparr>svd_questions := svd_questions d @ map (new_survey_question uid now task_id) fs,
        svd_choices := svd_choices d @ concat (map (new_survey_choices uid) fs)\<rparr>)"

definition delete_survey_questions :: "string \<Rightarrow> survey_db \<Rightarrow> survey_db" where
  "delete_survey_questions task_id d =
     (let ids = map sq_id (filter (\<lambda>q. sq_task_id q = task_id) (svd_questions d)) in
      if ids = [] then d
      else d\<lparr>svd_choices := del_rows (\<lambda>c. sc_question_id c \<in> set ids) (svd_choices d),
             svd_questions := del_rows (\<lambda>q. sq_id q \<in> set ids) (svd_questions d)\<rparr>)"

definition create_survey_task ::
    "(survey_draw \<Rightarrow> string) \<Rightarrow> int \<Rightarrow> int \<Rightarrow> survey_task_form \<Rightarrow> survey_db \<Rightarrow>
     err + (survey_task_model option \<times> survey_db)" where
  "create_survey_task uid now now' form d =
     (let task_id = uid DSurvey;
          row = \<lparr>sv_id = task_id, sv_family_id = task_id, sv_version = 1, sv_title = stf_title form,
                 sv_description = stf_description form, sv_status = SV_DRAFT, sv_locked_at = None,
                 sv_archived_at = None, sv_workflow_managed = False,
                 sv_created_at = now, sv_updated_at = now\<rparr>;
          d = d\<lparr>svd_tasks := add_row row (svd_tasks d)\<rparr>
      in bindE (commit_survey (replace_survey_questions uid now' task_id (stf_questions form) d)) (\<lambda>d.
           Inr (get_survey_task task_id d, d)))"

definition update_survey_task ::
    "(survey_draw \<Rightarrow> string) \<Rightarrow> int \<Rightarrow> int \<Rightarrow> string \<Rightarrow> survey_task_form \<Rightarrow> survey_db \<Rightarrow>
     err + (survey_task_model option \<times> survey_db)" where
  "update_survey_task uid now now' task_id form d =
     (case get_by sv_id task_id (svd_tasks d) of
        None \<Rightarrow> Inr (None, d)
      | Some row \<Rightarrow>
          if sv_status row \<noteq> SV_DRAFT \<or> truthy_int (sv_locked_at row)
          then Inl (http 409 ''Published Survey Tasks are immutable. Create a new version or duplicate instead.'')
          else
            let d = d\<lparr>svd_tasks := upd_by sv_id task_id (\<lambda>t. t\<lparr>sv_title := stf_title form,
                      sv_description := stf_description form, sv_updated_at := now\<rparr>) (svd_tasks d)\<rparr>;
                d = delete_survey_questions task_id d
            in bindE (commit_survey (replace_survey_questions uid now' task_id (stf_questions form) d)) (\<lambda>d.
                 Inr (get_survey_task task_id d, d)))"

definition survey_form_of_model :: "survey_question_model \<Rightarrow> survey_question_form" where
  "survey_form_of_model q =
     \<lparr>sqf_id = None, sqf_prompt = sqm_prompt q, sqf_description = sqm_description q,
      sqf_question_type = sqm_question_type q, sqf_required = sqm_required q, sqf_enabled = sqm_enabled q,
      sqf_choices = map (\<lambda>c. \<lparr>scf_id = None, scf_text = scm_text c\<rparr>) (sqm_choices q),
      sqf_scale_low_label = sqm_scale_low_label q, sqf_scale_high_label = sqm_scale_high_label q\<rparr>"

definition clone_survey_task ::
    "(survey_draw \<Rightarrow> string) \<Rightarrow> int \<Rightarrow> int \<Rightarrow> string \<Rightarrow> survey_clone_mode \<Rightarrow> survey_db \<Rightarrow>
     err + (survey_task_model option \<times> survey_db)" where
  "clone_survey_task uid now now' task_id mode d =
     (case get_survey_task task_id d of
        None \<Rightarrow> Inr (None, d)
      | Some source \<Rightarrow>
          let new_id = uid DSurvey;
              family_id = (if mode = SV_VERSION then stm_family_id source else new_id);
              version = (if mode = SV_DUPLICATE then 1 else or_int (latest_survey_version family_id d) 0 + 1);
              row = \<lparr>sv_id = new_id, sv_family_id = family_id, sv_version = version,
                     sv_title = (if mode = SV_VERSION then stm_title source else stm_title source @ '' (copy)''),
                     sv_description = stm_description source, sv_status = SV_DRAFT,
                     sv_locked_at = None, sv_archived_at = None, sv_workflow_managed = False,
                     sv_created_at = now, sv_updated_at = now\<rparr>;
              d = d\<lparr>svd_tasks := add_row row (svd_tasks d)\<rparr>
          in bindE (commit_survey d) (\<lambda>d.
             bindE (mapE validate_survey_question (map survey_form_of_model (stm_questions source))) (\<lambda>forms.
             bindE (commit_survey (replace_survey_questions uid now' new_id forms d)) (\<lambda>d.
               Inr (get_survey_task new_id d, d)))))"

definition publish_survey_task ::
    "int \<Rightarrow> string \<Rightarrow> survey_db \<Rightarrow> err + (survey_task_model option \<times> survey_db)" where
  "publish_survey_task now task_id d =
     (case get_survey_task task_id d of
        None \<Rightarrow> Inr (None, d)
      | Some task \<Rightarrow>
          if stm_status task \<noteq> SV_DRAFT then Inr (Some task, d)
          else if \<not> list_ex sqm_enabled (stm_questions task)
          then Inl (http 422 ''A Survey Task must contain an enabled question.'')
          else
            let d = d\<lparr>svd_tasks := upd_by sv_id task_id
                      (\<lambda>t. t\<lparr>sv_status := SV_PUBLISHED, sv_updated_at := now\<rparr>) (svd_tasks d)\<rparr>
            in Inr (get_survey_task task_id d, d))"

definition archive_survey_task :: "int \<Rightarrow> string \<Rightarrow> survey_db \<Rightarrow> bool \<times> survey_db" where
  "archive_survey_task now task_id d =
     (case get_by sv_id task_id (svd_tasks d) of
        None \<Rightarrow> (False, d)
      | Some _ \<Rightarrow> (True, d\<lparr>svd_tasks := upd_by sv_id task_id (\<lambda>t. t\<lparr>sv_status := SV_ARCHIVED,
                   sv_archived_at := Some now, sv_updated_at := now\<rparr>) (svd_tasks d)\<rparr>))"

end
