(* ===== verification/Survey_Submission.thy ===== *)
theory Survey_Submission
  imports Survey_Task Session_Task
begin

text \<open>
  Submissions of survey tasks (\<open>models/survey_submissions.py\<close>). The operations read the survey
  content and get the row of the session task from their caller; they run inside the caller's
  transaction, so an \<open>Inl\<close> leaves nothing of the call behind.
\<close>

datatype survey_submission_status = SS_DRAFT | SS_SUBMITTED | SS_SKIPPED

record survey_submission =
  ss_id :: string
  ss_session_task_id :: string
  ss_user_id :: string
  ss_status :: survey_submission_status
  ss_submitted_at :: "int option"
  ss_skipped_at :: "int option"
  ss_created_at :: int
  ss_updated_at :: int

record survey_response =
  vr_id :: string
  vr_submission_id :: string
  vr_question_id :: string
  vr_text_answer :: "string option"
  vr_scale_answer :: "int option"
  vr_is_answered :: bool
  vr_created_at :: int
  vr_updated_at :: int

record survey_response_choice =
  vc_response_id :: string
  vc_choice_id :: string

record survey_submission_db =
  ssd_submissions :: "survey_submission list"
  ssd_responses :: "survey_response list"
  ssd_choices :: "survey_response_choice list"

record survey_answer =
  sa_question_id :: string
  sa_choice_ids :: "string list"
  sa_text :: "string option"
  sa_scale :: "int option"

definition empty_survey_answer :: "string \<Rightarrow> survey_answer" where
  "empty_survey_answer q = \<lparr>sa_question_id = q, sa_choice_ids = [], sa_text = None, sa_scale = None\<rparr>"

definition validate_survey_answer :: "survey_answer \<Rightarrow> err + survey_answer" where
  "validate_survey_answer a =
     (if 100 < length (sa_choice_ids a) then Inl (FieldError ''choice_ids'')
      else if (case sa_text a of None \<Rightarrow> False | Some t \<Rightarrow> 4000 < length t) then Inl (FieldError ''text'')
      else if (case sa_scale a of None \<Rightarrow> False | Some n \<Rightarrow> \<not> (1 \<le> n \<and> n \<le> 5)) then Inl (FieldError ''scale'')
      else if \<not> distinct (sa_choice_ids a) then Inl (ValueError ''Choice IDs must be unique.'')
      else Inr a)"

definition validate_survey_draft :: "survey_answer list \<Rightarrow> err + survey_answer list" where
  "validate_survey_draft answers =
     (if 500 < length answers then Inl (FieldError ''answers'')
      else bindE (mapE validate_survey_answer answers) (\<lambda>answers.
        if \<not> distinct (map sa_question_id answers) then Inl (ValueError ''Question IDs must be unique.'')
        else Inr answers))"

record participant_survey_response =
  pvr_question_id :: string
  pvr_choice_ids :: "string list"
  pvr_text :: "string option"
  pvr_scale :: "int option"

record participant_survey_submission =
  pvs_id :: string
  pvs_session_task_id :: string
  pvs_status :: survey_submission_status
  pvs_submitted_at :: "int option"
  pvs_skipped_at :: "int option"
  pvs_responses :: "participant_survey_response list"

datatype survey_sub_draw = DSurveySubmission | DSurveyResponse string

subsection \<open>Reading\<close>

definition survey_participant_model ::
    "survey_db \<Rightarrow> string \<Rightarrow> string \<Rightarrow> survey_submission_db \<Rightarrow> participant_survey_submission option" where
  "survey_participant_model content submission_id user_id d =
     (case get_by ss_id submission_id (ssd_submissions d) of
        None \<Rightarrow> None
      | Some submission \<Rightarrow>
          if ss_user_id submission \<noteq> user_id then None
          else
            let question = (\<lambda>r. get_by sq_id (vr_question_id r) (svd_questions content));
                responses = order_by (\<lambda>r. case question r of None \<Rightarrow> 0 | Some q \<Rightarrow> sq_position q)
                  (filter (\<lambda>r. vr_submission_id r = submission_id \<and> question r \<noteq> None)
                    (ssd_responses d));
                selected = filter (\<lambda>c. vc_response_id c \<in> set (map vr_id responses)) (ssd_choices d)
            in Some
              \<lparr>pvs_id = ss_id submission, pvs_session_task_id = ss_session_task_id submission,
               pvs_status = ss_status submission, pvs_submitted_at = ss_submitted_at submission,
               pvs_skipped_at = ss_skipped_at submission,
               pvs_responses = map (\<lambda>r. \<lparr>pvr_question_id = vr_question_id r,
                 pvr_choice_ids = map vc_choice_id (filter (\<lambda>c. vc_response_id c = vr_id r) selected),
                 pvr_text = vr_text_answer r, pvr_scale = vr_scale_answer r\<rparr>) responses\<rparr>)"

definition survey_for_session_task ::
    "survey_db \<Rightarrow> string \<Rightarrow> string \<Rightarrow> survey_submission_db \<Rightarrow> participant_survey_submission option" where
  "survey_for_session_task content session_task_id user_id d =
     (case get_by ss_session_task_id session_task_id (ssd_submissions d) of
        None \<Rightarrow> None
      | Some submission \<Rightarrow>
          if ss_user_id submission \<noteq> user_id then None
          else survey_participant_model content (ss_id submission) user_id d)"

definition find_survey :: "survey_db \<Rightarrow> session_task \<Rightarrow> survey_task_model option" where
  "find_survey content session_task =
     (case st_survey_task_id session_task of None \<Rightarrow> None | Some t \<Rightarrow> get_survey_task t content)"

subsection \<open>Writing\<close>

definition survey_get_or_create ::
    "(survey_sub_draw \<Rightarrow> string) \<Rightarrow> int \<Rightarrow> survey_db \<Rightarrow> session_task \<Rightarrow> string \<Rightarrow> survey_submission_db \<Rightarrow>
     err + (survey_submission \<times> survey_submission_db)" where
  "survey_get_or_create uid now content session_task user_id d =
     (case get_by ss_session_task_id (st_id session_task) (ssd_submissions d) of
        Some submission \<Rightarrow>
          if ss_user_id submission \<noteq> user_id
          then Inl (http 403 ''Survey submission is not available.'') else Inr (submission, d)
      | None \<Rightarrow>
          (case find_survey content session_task of
             None \<Rightarrow> Inl AttributeError
           | Some task \<Rightarrow>
               let submission =
                     \<lparr>ss_id = uid DSurveySubmission, ss_session_task_id = st_id session_task,
                      ss_user_id = user_id, ss_status = SS_DRAFT, ss_submitted_at = None,
                      ss_skipped_at = None, ss_created_at = now, ss_updated_at = now\<rparr>
               in Inr (submission,
                    d\<lparr>ssd_submissions := add_row submission (ssd_submissions d),
                      ssd_responses := ssd_responses d @
                        map (\<lambda>q. \<lparr>vr_id = uid (DSurveyResponse (sqm_id q)),
                                  vr_submission_id = uid DSurveySubmission,
                                  vr_question_id = sqm_id q, vr_text_answer = None,
                                  vr_scale_answer = None, vr_is_answered = False,
                                  vr_created_at = now, vr_updated_at = now\<rparr>)
                          (filter sqm_enabled (stm_questions task))\<rparr>)))"

text \<open>The fields one round of the loop of \<open>save_draft\<close> writes: selected choices, text, scale and
  whether the question counts as answered.\<close>

definition survey_answer_value ::
    "survey_question_model \<Rightarrow> survey_answer \<Rightarrow> err + (string list \<times> string option \<times> int option \<times> bool)" where
  "survey_answer_value question answer =
     (if sqm_question_type question \<in> {SV_SINGLE_CHOICE, SV_MULTIPLE_SELECT} then
        if sa_text answer \<noteq> None \<or> sa_scale answer \<noteq> None
        then Inl (http 422 ''Choice survey answers accept only choice IDs.'')
        else if \<not> set (sa_choice_ids answer) \<subseteq> set (map scm_id (sqm_choices question))
        then Inl (http 422 ''Survey answer contains an unknown choice.'')
        else if sqm_question_type question = SV_SINGLE_CHOICE \<and> 1 < length (sa_choice_ids answer)
        then Inl (http 422 ''Single-choice survey questions accept one choice.'')
        else Inr (sa_choice_ids answer, None, None, sa_choice_ids answer \<noteq> [])
      else if sqm_question_type question = SV_SCALE then
        if sa_choice_ids answer \<noteq> [] \<or> sa_text answer \<noteq> None
        then Inl (http 422 ''Scale survey answers accept only a value from 1 to 5.'')
        else Inr ([], None, sa_scale answer, sa_scale answer \<noteq> None)
      else if sa_choice_ids answer \<noteq> [] \<or> sa_scale answer \<noteq> None
      then Inl (http 422 ''Text survey answers accept only text.'')
      else
        let limit = (if sqm_question_type question = SV_SHORT_TEXT then 500 else 4000);
            v = py_strip (or_str (sa_text answer) [])
        in if limit < length v
           then Inl (http 422 (''Survey text answer must be '' @ nat_str limit @ '' characters or fewer.''))
           else Inr ([], if v = [] then None else Some v, None, v \<noteq> []))"

definition save_survey_answer ::
    "int \<Rightarrow> survey_question_model \<Rightarrow> survey_answer \<Rightarrow> string \<Rightarrow> survey_submission_db \<Rightarrow>
     err + survey_submission_db" where
  "save_survey_answer now question answer rid d =
     bindE (survey_answer_value question answer) (\<lambda>(choices, text_answer, scale, answered).
       Inr (d\<lparr>ssd_choices := del_rows (\<lambda>c. vc_response_id c = rid) (ssd_choices d) @
                map (\<lambda>c. \<lparr>vc_response_id = rid, vc_choice_id = c\<rparr>) choices,
              ssd_responses := upd_by vr_id rid (\<lambda>r. r\<lparr>vr_text_answer := text_answer,
                vr_scale_answer := scale, vr_is_answered := answered, vr_updated_at := now\<rparr>)
                (ssd_responses d)\<rparr>))"

definition find_survey_answer :: "survey_answer list \<Rightarrow> string \<Rightarrow> survey_answer" where
  "find_survey_answer answers q =
     (case get_by sa_question_id q (rev answers) of None \<Rightarrow> empty_survey_answer q | Some a \<Rightarrow> a)"

definition save_survey_answers ::
    "int \<Rightarrow> survey_answer list \<Rightarrow> survey_response list \<Rightarrow> survey_question_model list \<Rightarrow>
     survey_submission_db \<Rightarrow> err + survey_submission_db" where
  "save_survey_answers now answers rows questions =
     foldE (\<lambda>q d. case get_by vr_question_id (sqm_id q) (rev rows) of
                     None \<Rightarrow> Inl (KeyError (sqm_id q))
                   | Some r \<Rightarrow> save_survey_answer now q (find_survey_answer answers (sqm_id q)) (vr_id r) d)
       questions"

definition survey_save_draft ::
    "(survey_sub_draw \<Rightarrow> string) \<Rightarrow> int \<Rightarrow> int \<Rightarrow> survey_db \<Rightarrow> session_task \<Rightarrow> string \<Rightarrow>
     survey_answer list \<Rightarrow> survey_submission_db \<Rightarrow>
     err + (participant_survey_submission option \<times> survey_submission_db)" where
  "survey_save_draft uid now now' content session_task user_id answers d =
     bindE (survey_get_or_create uid now content session_task user_id d) (\<lambda>(submission, d).
       if ss_status submission \<noteq> SS_DRAFT then Inl (http 409 ''Survey is already finalized.'')
       else case find_survey content session_task of
           None \<Rightarrow> Inl AttributeError
         | Some task \<Rightarrow>
             let questions = filter sqm_enabled (stm_questions task) in
             if \<not> set (map sa_question_id answers) \<subseteq> set (map sqm_id questions)
             then Inl (http 422 ''Survey contains an unknown or disabled question.'')
             else
               let rows = filter (\<lambda>r. vr_submission_id r = ss_id submission) (ssd_responses d)
               in bindE (save_survey_answers now' answers rows questions d) (\<lambda>d.
                  let d = d\<lparr>ssd_submissions := upd_by ss_id (ss_id submission)
                            (\<lambda>s. s\<lparr>ss_updated_at := now'\<rparr>) (ssd_submissions d)\<rparr>
                  in Inr (survey_participant_model content (ss_id submission) user_id d, d)))"

definition survey_finalize ::
    "(survey_sub_draw \<Rightarrow> string) \<Rightarrow> int \<Rightarrow> int \<Rightarrow> int \<Rightarrow> survey_db \<Rightarrow> session_task \<Rightarrow> string \<Rightarrow>
     survey_answer list \<Rightarrow> survey_submission_db \<Rightarrow>
     err + (participant_survey_submission option \<times> survey_submission_db)" where
  "survey_finalize uid now now' now'' content session_task user_id answers d =
     bindE (survey_save_draft uid now now' content session_task user_id answers d) (\<lambda>(_, d).
       case get_by ss_session_task_id (st_id session_task) (ssd_submissions d) of
         None \<Rightarrow> Inl AttributeError
       | Some submission \<Rightarrow>
           (case find_survey content session_task of
              None \<Rightarrow> Inl AttributeError
            | Some task \<Rightarrow>
                let required_ids = set (map sqm_id
                      (filter (\<lambda>q. sqm_enabled q \<and> sqm_required q) (stm_questions task)));
                    answered_ids = set (map vr_question_id
                      (filter (\<lambda>r. vr_submission_id r = ss_id submission \<and> vr_is_answered r) (ssd_responses d)))
                in if \<not> required_ids \<subseteq> answered_ids
                   then Inl (http 422 ''Answer every required survey question.'')
                   else
                     let d = d\<lparr>ssd_submissions := upd_by ss_id (ss_id submission)
                           (\<lambda>s. s\<lparr>ss_status := SS_SUBMITTED, ss_submitted_at := Some now'',
                                  ss_updated_at := now''\<rparr>) (ssd_submissions d)\<rparr>
                     in Inr (survey_participant_model content (ss_id submission) user_id d, d)))"

definition survey_skip ::
    "(survey_sub_draw \<Rightarrow> string) \<Rightarrow> int \<Rightarrow> int \<Rightarrow> survey_db \<Rightarrow> session_task \<Rightarrow> string \<Rightarrow>
     survey_submission_db \<Rightarrow> err + (participant_survey_submission option \<times> survey_submission_db)" where
  "survey_skip uid now now' content session_task user_id d =
     (if st_survey_required session_task
      then Inl (http 409 ''This survey is required and cannot be skipped.'')
      else bindE (survey_get_or_create uid now content session_task user_id d) (\<lambda>(submission, d).
        let d = d\<lparr>ssd_submissions := upd_by ss_id (ss_id submission)
              (\<lambda>s. s\<lparr>ss_status := SS_SKIPPED, ss_skipped_at := Some now', ss_updated_at := now'\<rparr>)
              (ssd_submissions d)\<rparr>
        in Inr (survey_participant_model content (ss_id submission) user_id d, d)))"

end
