(* ===== verification/Experiment_Plan.thy ===== *)
theory Experiment_Plan
  imports Perturbation_Config Question_Submission Survey_Submission
begin

text \<open>
  Experiment plans (\<open>models/experiment_plans.py\<close>) and the store that the plan, the session and
  the route components share. \<open>get_plan\<close> and \<open>get_task\<close> read the caller's own session. Saving a
  plan is a whole request: it commits and then reads the plan back, so its result is an error or
  the plan together with what is committed in either case.
\<close>

subsection \<open>Enumerations, forms and rows\<close>

datatype progression_mode = STRICT_SEQUENTIAL | FREE_NAVIGATION | SEQUENTIAL_REVIEW

datatype chat_mode = SHARED_EXPERIMENT | FRESH_PER_TASK

datatype essay_topic_mode = SPECIFIC | RANDOM_ALL | RANDOM_SELECTED

datatype plan_status = PN_DRAFT | PN_PUBLISHED | PN_SUPERSEDED

datatype survey_variant = ESSAY_VARIANT | TASK_NEUTRAL

record plan_row =
  pn_id :: string
  pn_source_workflow_id :: "string option"
  pn_source_workflow_name :: "string option"
  pn_source_workflow_revision :: "int option"
  pn_workflow_origin :: "string option"
  pn_configuration_fingerprint :: "string option"
  pn_group_id :: string
  pn_version :: int
  pn_status :: plan_status
  pn_progression_mode :: progression_mode
  pn_chat_mode :: chat_mode
  pn_survey_variant :: survey_variant
  pn_consent_enabled :: bool
  pn_locked_at :: "int option"
  pn_created_at :: int
  pn_updated_at :: int

record item_row =
  it_id :: string
  it_source_step_key :: "string option"
  it_plan_id :: string
  it_position :: int
  it_task_type :: experiment_task_type
  it_title :: string
  it_llm_prompt_budget :: "prompt_budget option"
  it_question_task_id :: "string option"
  it_essay_topic_mode :: "essay_topic_mode option"
  it_essay_topic_id :: "string option"
  it_survey_task_id :: "string option"
  it_survey_required :: bool
  it_enabled :: bool

record pool_row =
  po_plan_item_id :: string
  po_topic_id :: string

record plan_item_form =
  pf_id :: "string option"
  pf_task_type :: experiment_task_type
  pf_title :: string
  pf_llm_prompt_budget :: "prompt_budget option"
  pf_question_task_id :: "string option"
  pf_essay_topic_mode :: "essay_topic_mode option"
  pf_essay_topic_id :: "string option"
  pf_essay_topic_ids :: "string list"
  pf_survey_task_id :: "string option"
  pf_survey_required :: bool
  pf_enabled :: bool

record plan_form =
  fm_progression_mode :: progression_mode
  fm_chat_mode :: chat_mode
  fm_consent_enabled :: bool
  fm_items :: "plan_item_form list"
  fm_conditions :: "condition_form list"

definition validate_item :: "plan_item_form \<Rightarrow> err + plan_item_form" where
  "validate_item i =
     (if \<not> (1 \<le> length (pf_title i) \<and> length (pf_title i) \<le> 500) then Inl (FieldError ''title'')
      else bindE (case pf_llm_prompt_budget i of None \<Rightarrow> Inr None
            | Some b \<Rightarrow> bindE (model_validate_budget b) (\<lambda>b. Inr (Some b))) (\<lambda>budget.
        if 1000 < length (pf_essay_topic_ids i) then Inl (FieldError ''essay_topic_ids'')
        else
          let budget = (if pf_task_type i = SURVEY then None
                else Some (case budget of None \<Rightarrow> LLMPromptBudget_default | Some b \<Rightarrow> b));
              i' = i\<lparr>pf_title := py_strip (pf_title i), pf_llm_prompt_budget := budget\<rparr> in
          if pf_task_type i = ESSAY \<and> map_option bmode budget \<noteq> Some TASK_MODE
          then Inl (ValueError ''Essay tasks require a task-wide prompt budget.'')
          else if pf_task_type i = QUESTION then
            (if \<not> truthy_str (pf_question_task_id i) then Inl (ValueError ''Question Task is required.'') else Inr i')
          else if pf_task_type i = SURVEY then
            (if \<not> truthy_str (pf_survey_task_id i) then Inl (ValueError ''Survey Task is required.'') else Inr i')
          else if pf_essay_topic_mode i = None then Inl (ValueError ''Essay topic mode is required.'')
          else if pf_essay_topic_mode i = Some SPECIFIC \<and> \<not> truthy_str (pf_essay_topic_id i)
          then Inl (ValueError ''A specific essay topic is required.'')
          else if pf_essay_topic_mode i = Some RANDOM_SELECTED \<and> card (set (pf_essay_topic_ids i)) < 2
          then Inl (ValueError ''A selected random pool requires at least two essay topics.'')
          else Inr i'))"

text \<open>Surveys may stand only before or after the block from the first to the last task.\<close>

definition survey_inside_block :: "plan_item_form list \<Rightarrow> bool" where
  "survey_inside_block enabled =
     (let tasks = filter (\<lambda>n. pf_task_type (enabled ! n) \<noteq> SURVEY) [0..<length enabled] in
      tasks \<noteq> [] \<and>
      list_ex (\<lambda>i. pf_task_type i = SURVEY)
        (drop (hd tasks) (take (last tasks + 1) enabled)))"

definition validate_plan :: "plan_form \<Rightarrow> err + plan_form" where
  "validate_plan f =
     (let enabled = filter pf_enabled (fm_items f);
          conditions = filter cd_enabled (fm_conditions f);
          item_ids = set (concat (map (\<lambda>i. case pf_id i of None \<Rightarrow> [] | Some x \<Rightarrow> if x = [] then [] else [x])
            (fm_items f)))
      in if fm_progression_mode f \<noteq> STRICT_SEQUENTIAL \<and> survey_inside_block enabled
         then Inl (ValueError ''Free-navigation and sequential-review plans may place surveys only before or after the task block.'')
         else if enabled = [] then Inl (ValueError ''An experiment plan must contain an enabled item.'')
         else if length (filter cd_is_control conditions) \<noteq> 1
         then Inl (ValueError ''An experiment plan must contain exactly one enabled control condition.'')
         else if sum_list (map cd_allocation_percent conditions) \<noteq> 100
         then Inl (ValueError ''Enabled condition allocation percentages must total 100.'')
         else if list_ex (\<lambda>c. let a = pi_activation (cd_prompt_injection c) in
             ar_scope a = SELECTED_TASKS \<and> \<not> set (ar_plan_item_ids a) \<subseteq> item_ids) conditions
         then Inl (ValueError ''Condition task scope references an unavailable plan item.'')
         else Inr f)"

definition validate_plan_form :: "plan_form \<Rightarrow> err + plan_form" where
  "validate_plan_form f =
     (if fm_items f = [] \<or> 100 < length (fm_items f) then Inl (FieldError ''items'')
      else bindE (mapE validate_item (fm_items f)) (\<lambda>items.
           bindE (mapE validate_condition (fm_conditions f)) (\<lambda>conditions.
             validate_plan (f\<lparr>fm_items := items, fm_conditions := conditions\<rparr>))))"

subsection \<open>The shared store\<close>

record essay_topic =
  to_id :: string
  to_title :: string
  to_question :: string
  to_locked_at :: "int option"
  to_workflow_managed :: bool
  to_created_at :: int
  to_updated_at :: int

record topic_assignment =
  ta_id :: string
  ta_user_id :: string
  ta_group_id :: string
  ta_topic_id :: string
  ta_created_at :: int
  ta_updated_at :: int

record essay =
  ey_id :: string
  ey_user_id :: string
  ey_content :: string
  ey_topic_id :: "string option"
  ey_topic_title :: "string option"
  ey_topic_question :: "string option"
  ey_word_count :: "int option"
  ey_character_count :: "int option"
  ey_experiment_session_task_id :: "string option"
  ey_created_at :: int
  ey_updated_at :: int

datatype experiment_state = NOT_APPLICABLE | CONSENT_REQUIRED | PRE_SURVEY_REQUIRED | TOPIC_REQUIRED
  | TASK_REQUIRED | IN_PROGRESS | POST_SURVEY_REQUIRED | THANK_YOU_REQUIRED | X_COMPLETED | CONFIGURATION_ERROR

text \<open>
  The two legacy surveys; \<open>neutral\<close> tells the task-neutral form class from the essay one, and
  with it the \<open>survey_version\<close> of the stored answers. The age range is kept as the list of its
  code points, because some of the ranges are written with an en dash.
\<close>

record pre_survey_form =
  pre_neutral :: bool
  pre_school_class :: string
  pre_ai_familiarity :: int
  pre_schoolwork_frequency :: string
  pre_confidence :: int
  pre_age_range :: "nat list"

record post_survey_form =
  post_neutral :: bool
  post_ai_helpfulness :: int
  post_satisfaction :: int
  post_ai_improvement :: string
  post_chat_ease :: int
  post_comments :: "string option"

record experiment_session =
  xs_id :: string
  xs_user_id :: string
  xs_group_id :: string
  xs_topic_id :: "string option"
  xs_topic_title :: "string option"
  xs_topic_question :: "string option"
  xs_essay_id :: "string option"
  xs_state :: experiment_state
  xs_pre_survey :: "pre_survey_form option"
  xs_post_survey :: "post_survey_form option"
  xs_consented_at :: "int option"
  xs_pre_survey_submitted_at :: "int option"
  xs_topic_shown_at :: "int option"
  xs_writing_started_at :: "int option"
  xs_essay_submitted_at :: "int option"
  xs_post_survey_submitted_at :: "int option"
  xs_completed_at :: "int option"
  xs_created_at :: int
  xs_updated_at :: int
  xs_plan_id :: "string option"
  xs_task_type :: experiment_task_type
  xs_task_submitted_at :: "int option"
  xs_condition_id :: "string option"
  xs_condition_assignment_id :: "string option"
  xs_condition_assignment_draw :: "rat option"

text \<open>The rows of \<open>experiment_telemetry_event\<close> that the server itself writes.\<close>

record runtime_event =
  re_id :: string
  re_user_id :: string
  re_experiment_session_id :: string
  re_event_type :: string
  re_event_time :: int
  re_field_context :: string
  re_payload :: json
  re_created_at :: int
  re_condition_id :: "string option"
  re_plan_id :: "string option"
  re_request_id :: "string option"
  re_chat_id :: "string option"
  re_message_id :: "string option"

text \<open>A group is its identifier with the identifiers of its members; the list is in the order in
  which \<open>Groups.get_groups_by_member_id\<close> returns groups.\<close>

record experiment_db =
  xd_groups :: "(string \<times> string list) list"
  xd_plans :: "plan_row list"
  xd_items :: "item_row list"
  xd_pools :: "pool_row list"
  xd_conditions :: "condition_row list"
  xd_injections :: "injection_row list"
  xd_warning_rows :: "warning_row list"
  xd_timings :: "timing_row list"
  xd_scopes :: "scope_row list"
  xd_topics :: "essay_topic list"
  xd_assignments :: "topic_assignment list"
  xd_questions :: question_db
  xd_surveys :: survey_db
  xd_sessions :: "experiment_session list"
  xd_tasks :: "session_task list"
  xd_essays :: "essay list"
  xd_question_subs :: submission_db
  xd_survey_subs :: survey_submission_db
  xd_requests :: "llm_request list"
  xd_warnings :: "warning_state list"
  xd_events :: "runtime_event list"

subsection \<open>Reading a plan\<close>

record plan_item_model =
  pm_source_step_key :: "string option"
  pm_id :: string
  pm_position :: int
  pm_task_type :: experiment_task_type
  pm_title :: string
  pm_llm_prompt_budget :: "prompt_budget option"
  pm_question_task_id :: "string option"
  pm_essay_topic_mode :: "essay_topic_mode option"
  pm_essay_topic_id :: "string option"
  pm_essay_topic_ids :: "string list"
  pm_survey_task_id :: "string option"
  pm_survey_required :: bool
  pm_enabled :: bool

record plan_model =
  pl_source_workflow_id :: "string option"
  pl_source_workflow_name :: "string option"
  pl_source_workflow_revision :: "int option"
  pl_workflow_origin :: "string option"
  pl_configuration_fingerprint :: "string option"
  pl_id :: string
  pl_group_id :: string
  pl_version :: int
  pl_status :: plan_status
  pl_progression_mode :: progression_mode
  pl_chat_mode :: chat_mode
  pl_survey_variant :: survey_variant
  pl_consent_enabled :: bool
  pl_locked_at :: "int option"
  pl_created_at :: int
  pl_updated_at :: int
  pl_items :: "plan_item_model list"
  pl_conditions :: "condition_form list"

definition load_condition :: "experiment_db \<Rightarrow> condition_row \<Rightarrow> condition_form" where
  "load_condition d c =
     (let scopes = filter (\<lambda>s. es_condition_id s = ec_id c) (xd_scopes d);
          prompt_scope = map es_plan_item_id (filter (\<lambda>s. es_perturbation_type s = P_PROMPT) scopes)
      in \<lparr>cd_id = Some (ec_id c), cd_name = ec_name c, cd_allocation_percent = ec_allocation_percent c,
          cd_enabled = ec_enabled c, cd_is_control = ec_is_control c,
          cd_prompt_injection =
            (case get_by ei_condition_id (ec_id c) (xd_injections d) of
               None \<Rightarrow> default_injection\<lparr>pi_activation := default_activation\<lparr>ar_plan_item_ids := prompt_scope\<rparr>\<rparr>
             | Some p \<Rightarrow> \<lparr>pi_enabled = ei_enabled p, pi_instruction = ei_instruction p,
                 pi_position = ei_position p,
                 pi_activation = \<lparr>ar_mode = ei_activation_mode p, ar_count = ei_activation_count p,
                   ar_range_start = ei_range_start p, ar_range_end = ei_range_end p,
                   ar_probability = ei_probability p, ar_scope = ei_scope p,
                   ar_plan_item_ids = prompt_scope\<rparr>\<rparr>),
          cd_warning_modal =
            (case get_by ew_condition_id (ec_id c) (xd_warning_rows d) of
               None \<Rightarrow> default_warning
             | Some w \<Rightarrow> \<lparr>wm_enabled = ew_enabled w, wm_title = ew_title w, wm_message = ew_message w,
                 wm_confirmation_text = ew_confirmation_text w, wm_must_acknowledge = ew_must_acknowledge w,
                 wm_cadence = ew_cadence w, wm_cadence_value = ew_cadence_value w,
                 wm_prompt_numbers = ew_prompt_numbers w\<rparr>),
          cd_response_timing =
            (case get_by et_condition_id (ec_id c) (xd_timings d) of
               None \<Rightarrow> default_timing
             | Some t \<Rightarrow> \<lparr>rt_mode = et_mode t, rt_delay_seconds = et_delay_seconds t,
                 rt_show_loading = et_show_loading t, rt_reveal_style = et_reveal_style t,
                 rt_target_duration_seconds = et_target_duration_seconds t,
                 rt_stream_unit = et_stream_unit t, rt_minimum_chunk_size = et_minimum_chunk_size t,
                 rt_maximum_chunk_size = et_maximum_chunk_size t,
                 rt_punctuation_pauses = et_punctuation_pauses t, rt_rate_value = et_rate_value t,
                 rt_rate_unit = et_rate_unit t\<rparr>)\<rparr>)"

definition load_item :: "experiment_db \<Rightarrow> item_row \<Rightarrow> err + plan_item_model" where
  "load_item d i =
     bindE (case it_llm_prompt_budget i of None \<Rightarrow> Inr None
         | Some b \<Rightarrow> bindE (model_validate_budget b) (\<lambda>b. Inr (Some b))) (\<lambda>budget.
       Inr \<lparr>pm_source_step_key = it_source_step_key i, pm_id = it_id i, pm_position = it_position i,
            pm_task_type = it_task_type i, pm_title = it_title i, pm_llm_prompt_budget = budget,
            pm_question_task_id = it_question_task_id i, pm_essay_topic_mode = it_essay_topic_mode i,
            pm_essay_topic_id = it_essay_topic_id i,
            pm_essay_topic_ids = map po_topic_id (filter (\<lambda>p. po_plan_item_id p = it_id i) (xd_pools d)),
            pm_survey_task_id = it_survey_task_id i, pm_survey_required = it_survey_required i,
            pm_enabled = it_enabled i\<rparr>)"

text \<open>The rows are validated again while the models are built.\<close>

definition get_plan :: "string \<Rightarrow> experiment_db \<Rightarrow> err + plan_model option" where
  "get_plan plan_id d =
     (case get_by pn_id plan_id (xd_plans d) of
        None \<Rightarrow> Inr None
      | Some plan \<Rightarrow>
          bindE (mapE (\<lambda>c. validate_condition (load_condition d c))
                  (order_by ec_position (filter (\<lambda>c. ec_plan_id c = plan_id) (xd_conditions d)))) (\<lambda>conditions.
          bindE (mapE (load_item d)
                  (order_by it_position (filter (\<lambda>i. it_plan_id i = plan_id) (xd_items d)))) (\<lambda>items.
          Inr (Some
            \<lparr>pl_source_workflow_id = pn_source_workflow_id plan,
             pl_source_workflow_name = pn_source_workflow_name plan,
             pl_source_workflow_revision = pn_source_workflow_revision plan,
             pl_workflow_origin = pn_workflow_origin plan,
             pl_configuration_fingerprint = pn_configuration_fingerprint plan,
             pl_id = pn_id plan, pl_group_id = pn_group_id plan, pl_version = pn_version plan,
             pl_status = pn_status plan, pl_progression_mode = pn_progression_mode plan,
             pl_chat_mode = pn_chat_mode plan, pl_survey_variant = pn_survey_variant plan,
             pl_consent_enabled = pn_consent_enabled plan, pl_locked_at = pn_locked_at plan,
             pl_created_at = pn_created_at plan, pl_updated_at = pn_updated_at plan,
             pl_items = items,
             pl_conditions = (if conditions = []
               then [default_control_condition\<lparr>cd_id := Some ''implicit-control''\<rparr>] else conditions)\<rparr>))))"

definition get_active_for_group :: "string \<Rightarrow> experiment_db \<Rightarrow> err + plan_model option" where
  "get_active_for_group group_id d =
     (case first_row (order_desc pn_version
         (filter (\<lambda>p. pn_group_id p = group_id \<and> pn_status p = PN_PUBLISHED) (xd_plans d))) of
        None \<Rightarrow> Inr None
      | Some plan \<Rightarrow> get_plan (pn_id plan) d)"

end
