(* ===== verification/Plan_Store.thy ===== *)
theory Plan_Store
  imports Experiment_Plan
begin

text \<open>
  The writing half of \<open>ExperimentPlanTable\<close>: saving a plan for a group (in place while it is an
  unlocked draft, as a new version otherwise) and instantiating the tasks of a session.
\<close>

datatype plan_draw = DPlan | DItem nat | DCondition nat | DSessionTask nat

subsection \<open>\<open>save_for_group\<close>: the checks\<close>

definition check_item :: "experiment_db \<Rightarrow> plan_item_form \<Rightarrow> err + unit" where
  "check_item d item =
     (let topic_ids = set (map to_id (xd_topics d)) in
      if pf_task_type item = QUESTION then
        (case (case pf_question_task_id item of None \<Rightarrow> None
               | Some t \<Rightarrow> get_by qt_id t (db_tasks (xd_questions d))) of
           None \<Rightarrow> Inl (http 422 ''Every Question Task item must reference a published task.'')
         | Some task \<Rightarrow>
             if qt_status task \<noteq> QT_PUBLISHED
             then Inl (http 422 ''Every Question Task item must reference a published task.'')
             else (case pf_llm_prompt_budget item of
                 None \<Rightarrow> Inl AttributeError
               | Some b \<Rightarrow>
                   if bmode b = PER_QUESTION \<and> set (map fst (question_limits b)) \<noteq>
                     set (map tq_id (filter (\<lambda>q. tq_task_id q = qt_id task) (db_questions (xd_questions d))))
                   then Inl (http 422 ''Prompt limits must cover exactly the selected task questions.'')
                   else Inr ()))
      else if pf_task_type item = SURVEY then
        (case (case pf_survey_task_id item of None \<Rightarrow> None
               | Some t \<Rightarrow> get_by sv_id t (svd_tasks (xd_surveys d))) of
           None \<Rightarrow> Inl (http 422 ''Every Survey Task item must reference a published survey.'')
         | Some task \<Rightarrow>
             if sv_status task \<noteq> SV_PUBLISHED
             then Inl (http 422 ''Every Survey Task item must reference a published survey.'')
             else Inr ())
      else if pf_essay_topic_mode item = Some SPECIFIC \<and>
        (case pf_essay_topic_id item of None \<Rightarrow> True | Some t \<Rightarrow> t \<notin> topic_ids)
      then Inl (http 422 ''Essay Task references an unavailable topic.'')
      else if pf_essay_topic_mode item = Some RANDOM_SELECTED \<and> \<not> set (pf_essay_topic_ids item) \<subseteq> topic_ids
      then Inl (http 422 ''Essay Task pool contains an unavailable topic.'')
      else if pf_essay_topic_mode item = Some RANDOM_ALL \<and> topic_ids = {}
      then Inl (http 422 ''Random Essay Tasks require at least one essay topic.'')
      else Inr ())"

definition current_plan :: "string \<Rightarrow> experiment_db \<Rightarrow> plan_row option" where
  "current_plan group_id d = first_row (order_desc pn_version
     (filter (\<lambda>p. pn_group_id p = group_id \<and> pn_status p \<in> {PN_DRAFT, PN_PUBLISHED}) (xd_plans d)))"

definition variant_of :: "plan_form \<Rightarrow> survey_variant" where
  "variant_of form =
     (if list_ex (\<lambda>i. pf_task_type i = QUESTION) (fm_items form) \<or> 1 < length (fm_items form)
      then TASK_NEUTRAL else ESSAY_VARIANT)"

subsection \<open>\<open>save_for_group\<close>: the rows\<close>

definition delete_items :: "string \<Rightarrow> experiment_db \<Rightarrow> experiment_db" where
  "delete_items plan_id d =
     (let ids = map it_id (filter (\<lambda>i. it_plan_id i = plan_id) (xd_items d)) in
      if ids = [] then d
      else d\<lparr>xd_scopes := del_rows (\<lambda>s. es_plan_item_id s \<in> set ids) (xd_scopes d),
             xd_pools := del_rows (\<lambda>p. po_plan_item_id p \<in> set ids) (xd_pools d),
             xd_items := del_rows (\<lambda>i. it_id i \<in> set ids) (xd_items d)\<rparr>)"

definition item_key :: "(plan_draw \<Rightarrow> string) \<Rightarrow> bool \<Rightarrow> nat \<times> plan_item_form \<Rightarrow> string" where
  "item_key uid creating = (\<lambda>(p, f). if creating then uid (DItem p) else or_str (pf_id f) (uid (DItem p)))"

definition new_item :: "(plan_draw \<Rightarrow> string) \<Rightarrow> bool \<Rightarrow> string \<Rightarrow> nat \<times> plan_item_form \<Rightarrow> item_row" where
  "new_item uid creating plan_id = (\<lambda>(p, f).
     \<lparr>it_id = item_key uid creating (p, f), it_source_step_key = None, it_plan_id = plan_id,
      it_position = int p, it_task_type = pf_task_type f, it_title = pf_title f,
      it_llm_prompt_budget = pf_llm_prompt_budget f,
      it_question_task_id = (if pf_task_type f = QUESTION then pf_question_task_id f else None),
      it_essay_topic_mode = (if pf_task_type f = ESSAY then pf_essay_topic_mode f else None),
      it_essay_topic_id = (if pf_task_type f = ESSAY \<and> pf_essay_topic_mode f = Some SPECIFIC
        then pf_essay_topic_id f else None),
      it_survey_task_id = (if pf_task_type f = SURVEY then pf_survey_task_id f else None),
      it_survey_required = pf_survey_required f, it_enabled = pf_enabled f\<rparr>)"

text \<open>\<open>dict.fromkeys\<close> keeps the first occurrence of every element.\<close>

definition unique_list :: "'a list \<Rightarrow> 'a list" where
  "unique_list xs = rev (remdups (rev xs))"

definition new_pools :: "(plan_draw \<Rightarrow> string) \<Rightarrow> bool \<Rightarrow> nat \<times> plan_item_form \<Rightarrow> pool_row list" where
  "new_pools uid creating = (\<lambda>(p, f).
     if pf_task_type f = ESSAY \<and> pf_essay_topic_mode f \<in> {Some RANDOM_SELECTED, Some RANDOM_ALL}
     then map (\<lambda>t. \<lparr>po_plan_item_id = item_key uid creating (p, f), po_topic_id = t\<rparr>)
       (unique_list (pf_essay_topic_ids f))
     else [])"

definition delete_conditions :: "string \<Rightarrow> experiment_db \<Rightarrow> experiment_db" where
  "delete_conditions plan_id d =
     (let ids = set (map ec_id (filter (\<lambda>c. ec_plan_id c = plan_id) (xd_conditions d))) in
      if ids = {} then d
      else d\<lparr>xd_scopes := del_rows (\<lambda>s. es_condition_id s \<in> ids) (xd_scopes d),
             xd_timings := del_rows (\<lambda>t. et_condition_id t \<in> ids) (xd_timings d),
             xd_warning_rows := del_rows (\<lambda>w. ew_condition_id w \<in> ids) (xd_warning_rows d),
             xd_injections := del_rows (\<lambda>i. ei_condition_id i \<in> ids) (xd_injections d),
             xd_conditions := del_rows (\<lambda>c. ec_id c \<in> ids) (xd_conditions d)\<rparr>)"

definition condition_key :: "(plan_draw \<Rightarrow> string) \<Rightarrow> bool \<Rightarrow> nat \<times> condition_form \<Rightarrow> string" where
  "condition_key uid creating = (\<lambda>(p, f).
     if creating then uid (DCondition p) else or_str (cd_id f) (uid (DCondition p)))"

definition new_condition ::
    "(plan_draw \<Rightarrow> string) \<Rightarrow> bool \<Rightarrow> int \<Rightarrow> string \<Rightarrow> nat \<times> condition_form \<Rightarrow> condition_row" where
  "new_condition uid creating now plan_id = (\<lambda>(p, f).
     \<lparr>ec_id = condition_key uid creating (p, f), ec_source_condition_key = None,
      ec_plan_id = plan_id, ec_name = cd_name f, ec_position = int p,
      ec_allocation_percent = cd_allocation_percent f, ec_enabled = cd_enabled f,
      ec_is_control = cd_is_control f, ec_created_at = now\<rparr>)"

definition new_injection :: "(plan_draw \<Rightarrow> string) \<Rightarrow> bool \<Rightarrow> nat \<times> condition_form \<Rightarrow> injection_row" where
  "new_injection uid creating = (\<lambda>(p, f).
     let prompt = cd_prompt_injection f; act = pi_activation prompt in
     \<lparr>ei_condition_id = condition_key uid creating (p, f), ei_enabled = pi_enabled prompt,
      ei_instruction = pi_instruction prompt, ei_position = pi_position prompt,
      ei_activation_mode = ar_mode act, ei_activation_count = ar_count act,
      ei_range_start = ar_range_start act, ei_range_end = ar_range_end act,
      ei_probability = ar_probability act, ei_scope = ar_scope act\<rparr>)"

definition new_warning :: "(plan_draw \<Rightarrow> string) \<Rightarrow> bool \<Rightarrow> nat \<times> condition_form \<Rightarrow> warning_row" where
  "new_warning uid creating = (\<lambda>(p, f).
     let w = cd_warning_modal f in
     \<lparr>ew_condition_id = condition_key uid creating (p, f), ew_enabled = wm_enabled w,
      ew_title = wm_title w, ew_message = wm_message w,
      ew_confirmation_text = wm_confirmation_text w, ew_must_acknowledge = wm_must_acknowledge w,
      ew_cadence = wm_cadence w, ew_cadence_value = wm_cadence_value w,
      ew_prompt_numbers = wm_prompt_numbers w\<rparr>)"

definition new_timing :: "(plan_draw \<Rightarrow> string) \<Rightarrow> bool \<Rightarrow> nat \<times> condition_form \<Rightarrow> timing_row" where
  "new_timing uid creating = (\<lambda>(p, f).
     let t = cd_response_timing f in
     \<lparr>et_condition_id = condition_key uid creating (p, f), et_mode = rt_mode t,
      et_delay_seconds = rt_delay_seconds t, et_show_loading = rt_show_loading t,
      et_reveal_style = rt_reveal_style t,
      et_target_duration_seconds = rt_target_duration_seconds t,
      et_stream_unit = rt_stream_unit t, et_minimum_chunk_size = rt_minimum_chunk_size t,
      et_maximum_chunk_size = rt_maximum_chunk_size t,
      et_punctuation_pauses = rt_punctuation_pauses t, et_rate_value = rt_rate_value t,
      et_rate_unit = rt_rate_unit t\<rparr>)"

text \<open>The identifiers a scope names are the form's item identifiers; they are translated to the
  saved ones, and what is not an item of the plan is dropped.\<close>

definition new_scopes ::
    "(plan_draw \<Rightarrow> string) \<Rightarrow> bool \<Rightarrow> (plan_item_form \<times> string) list \<Rightarrow> nat \<times> condition_form \<Rightarrow> scope_row list" where
  "new_scopes uid creating pairs = (\<lambda>(p, f).
     let item_map = dict_of (concat (map (\<lambda>(i, saved). case pf_id i of None \<Rightarrow> []
             | Some k \<Rightarrow> if k = [] then [] else [(k, saved)]) pairs));
         saved_ids = set (map snd pairs)
     in concat (map (\<lambda>k. let mapped = dict_get k k item_map in
          if mapped \<in> saved_ids
          then [\<lparr>es_condition_id = condition_key uid creating (p, f), es_perturbation_type = P_PROMPT,
                 es_plan_item_id = mapped\<rparr>] else [])
        (ar_plan_item_ids (pi_activation (cd_prompt_injection f)))))"

definition save_conditions ::
    "(plan_draw \<Rightarrow> string) \<Rightarrow> int \<Rightarrow> string \<Rightarrow> condition_form list \<Rightarrow> (plan_item_form \<times> string) list \<Rightarrow>
     bool \<Rightarrow> experiment_db \<Rightarrow> experiment_db" where
  "save_conditions uid now plan_id conditions pairs creating d =
     (let d = (if creating then d else delete_conditions plan_id d);
          cs = enumerate 0 conditions
      in d\<lparr>xd_conditions := xd_conditions d @ map (new_condition uid creating now plan_id) cs,
           xd_injections := xd_injections d @ map (new_injection uid creating) cs,
           xd_warning_rows := xd_warning_rows d @ map (new_warning uid creating) cs,
           xd_timings := xd_timings d @ map (new_timing uid creating) cs,
           xd_scopes := xd_scopes d @ concat (map (new_scopes uid creating pairs) cs)\<rparr>)"

definition plan_keys :: "experiment_db \<Rightarrow> bool" where
  "plan_keys d \<longleftrightarrow> distinct (map pn_id (xd_plans d)) \<and> distinct (map it_id (xd_items d)) \<and>
     distinct (xd_pools d) \<and> distinct (map ec_id (xd_conditions d)) \<and>
     distinct (map ei_condition_id (xd_injections d)) \<and>
     distinct (map ew_condition_id (xd_warning_rows d)) \<and>
     distinct (map et_condition_id (xd_timings d)) \<and> distinct (xd_scopes d)"

text \<open>The plan row the form is written to: the current unlocked draft, emptied of its items, or a
  new version beside the superseded one.\<close>

definition choose_plan ::
    "(plan_draw \<Rightarrow> string) \<Rightarrow> int \<Rightarrow> int \<Rightarrow> string \<Rightarrow> plan_form \<Rightarrow> experiment_db \<Rightarrow> string \<times> bool \<times> experiment_db" where
  "choose_plan uid now now' group_id form d =
     (let fresh = (\<lambda>d.
            let plan = \<lparr>pn_id = uid DPlan, pn_source_workflow_id = None,
                  pn_source_workflow_name = None, pn_source_workflow_revision = None,
                  pn_workflow_origin = None, pn_configuration_fingerprint = None,
                  pn_group_id = group_id,
                  pn_version = or_int (max_of pn_version (filter (\<lambda>p. pn_group_id p = group_id) (xd_plans d))) 0 + 1,
                  pn_status = PN_DRAFT, pn_progression_mode = fm_progression_mode form,
                  pn_chat_mode = fm_chat_mode form, pn_survey_variant = variant_of form,
                  pn_consent_enabled = fm_consent_enabled form, pn_locked_at = None,
                  pn_created_at = now', pn_updated_at = now'\<rparr>
            in (uid DPlan, True, d\<lparr>xd_plans := add_row plan (xd_plans d)\<rparr>))
      in case current_plan group_id d of
           None \<Rightarrow> fresh d
         | Some current \<Rightarrow>
             if pn_status current = PN_DRAFT \<and> \<not> truthy_int (pn_locked_at current)
             then (pn_id current, False, delete_items (pn_id current) d)
             else fresh (d\<lparr>xd_plans := upd_by pn_id (pn_id current)
                    (\<lambda>p. p\<lparr>pn_status := PN_SUPERSEDED, pn_updated_at := now\<rparr>) (xd_plans d)\<rparr>))"

text \<open>\<open>clock\<close> gives the successive readings of \<open>time.time_ns\<close>.\<close>

definition save_plan_for_group ::
    "(plan_draw \<Rightarrow> string) \<Rightarrow> (nat \<Rightarrow> int) \<Rightarrow> string \<Rightarrow> plan_form \<Rightarrow> experiment_db \<Rightarrow>
     (err + plan_model option) \<times> experiment_db" where
  "save_plan_for_group uid clock group_id form d =
     (if group_id \<notin> set (map fst (xd_groups d)) then (Inl (http 404 ''Group not found.''), d)
      else case mapE (check_item d) (fm_items form) of
          Inl e \<Rightarrow> (Inl e, d)
        | Inr _ \<Rightarrow>
            (case choose_plan uid (clock 0) (clock 1) group_id form d of (plan_id, creating, d1) \<Rightarrow>
              let d2 = d1\<lparr>xd_plans := upd_by pn_id plan_id (\<lambda>p. p\<lparr>pn_progression_mode := fm_progression_mode form,
                       pn_chat_mode := fm_chat_mode form, pn_consent_enabled := fm_consent_enabled form,
                       pn_survey_variant := variant_of form, pn_status := PN_PUBLISHED,
                       pn_updated_at := clock 2\<rparr>) (xd_plans d1)\<rparr>;
                  is = enumerate 0 (fm_items form);
                  pairs = map (\<lambda>(p, f). (f, item_key uid creating (p, f))) is;
                  d3 = d2\<lparr>xd_items := xd_items d2 @ map (new_item uid creating plan_id) is,
                          xd_pools := xd_pools d2 @ concat (map (new_pools uid creating) is)\<rparr>;
                  d4 = save_conditions uid (clock 3) plan_id (fm_conditions form) pairs creating d3
              in if plan_keys d4 then (get_plan plan_id d4, d4) else (Inl IntegrityError, d)))"

subsection \<open>Session tasks\<close>

record session_task_model =
  sm_id :: string
  sm_experiment_session_id :: string
  sm_position :: int
  sm_task_type :: experiment_task_type
  sm_title :: string
  sm_status :: session_task_status
  sm_essay_topic_id :: "string option"
  sm_essay_topic_title :: "string option"
  sm_essay_topic_question :: "string option"
  sm_llm_prompt_budget :: "prompt_budget option"
  sm_question_task_id :: "string option"
  sm_survey_task_id :: "string option"
  sm_survey_required :: bool
  sm_essay_id :: "string option"
  sm_essay_draft :: "string option"
  sm_started_at :: "int option"
  sm_completed_at :: "int option"
  sm_finalized_at :: "int option"

definition session_task_model_of :: "session_task \<Rightarrow> err + session_task_model" where
  "session_task_model_of r =
     bindE (case st_llm_prompt_budget r of None \<Rightarrow> Inr None
         | Some b \<Rightarrow> bindE (model_validate_budget b) (\<lambda>b. Inr (Some b))) (\<lambda>budget.
       Inr \<lparr>sm_id = st_id r, sm_experiment_session_id = st_experiment_session_id r,
            sm_position = st_position r, sm_task_type = st_task_type r, sm_title = st_title r,
            sm_status = st_status r, sm_essay_topic_id = st_essay_topic_id r,
            sm_essay_topic_title = st_essay_topic_title r,
            sm_essay_topic_question = st_essay_topic_question r, sm_llm_prompt_budget = budget,
            sm_question_task_id = st_question_task_id r, sm_survey_task_id = st_survey_task_id r,
            sm_survey_required = st_survey_required r, sm_essay_id = st_essay_id r,
            sm_essay_draft = st_essay_draft r, sm_started_at = st_started_at r,
            sm_completed_at = st_completed_at r, sm_finalized_at = st_finalized_at r\<rparr>)"

definition session_rows :: "string \<Rightarrow> experiment_db \<Rightarrow> session_task list" where
  "session_rows session_id d =
     order_by st_position (filter (\<lambda>t. st_experiment_session_id t = session_id) (xd_tasks d))"

definition session_tasks :: "string \<Rightarrow> experiment_db \<Rightarrow> err + session_task_model list" where
  "session_tasks session_id d = mapE session_task_model_of (session_rows session_id d)"

text \<open>\<open>random.choice\<close>: the drawn index is \<open>pick p\<close> for the task at position \<open>p\<close>.\<close>

definition random_choice :: "nat \<Rightarrow> 'a list \<Rightarrow> 'a option" where
  "random_choice n xs = (if xs = [] then None else Some (xs ! (n mod length xs)))"

definition known_topics :: "experiment_db \<Rightarrow> string list \<Rightarrow> essay_topic list" where
  "known_topics d ids = concat (map (\<lambda>t. case get_by to_id t (xd_topics d) of None \<Rightarrow> [] | Some r \<Rightarrow> [r]) ids)"

definition item_topic :: "experiment_db \<Rightarrow> nat \<Rightarrow> plan_item_model \<Rightarrow> essay_topic option" where
  "item_topic d n item =
     (if pm_essay_topic_mode item = Some SPECIFIC then
        (case pm_essay_topic_id item of None \<Rightarrow> None | Some t \<Rightarrow> get_by to_id t (xd_topics d))
      else if pm_essay_topic_mode item = Some RANDOM_SELECTED then
        random_choice n (known_topics d (pm_essay_topic_ids item))
      else
        let explicit = known_topics d (pm_essay_topic_ids item) in
        random_choice n (if explicit \<noteq> [] then explicit
                  else filter (\<lambda>t. \<not> to_workflow_managed t) (xd_topics d)))"

definition new_session_task ::
    "string \<Rightarrow> int \<Rightarrow> string \<Rightarrow> nat \<Rightarrow> plan_item_model \<Rightarrow> essay_topic option \<Rightarrow> session_task" where
  "new_session_task i now session_id p item topic =
     \<lparr>st_id = i, st_experiment_session_id = session_id, st_plan_item_id = Some (pm_id item),
      st_position = int p, st_task_type = pm_task_type item, st_title = pm_title item,
      st_llm_prompt_budget = pm_llm_prompt_budget item, st_status = LOCKED,
      st_essay_topic_id = map_option to_id topic, st_essay_topic_title = map_option to_title topic,
      st_essay_topic_question = map_option to_question topic,
      st_question_task_id = pm_question_task_id item, st_survey_task_id = pm_survey_task_id item,
      st_survey_required = pm_survey_required item, st_essay_id = None, st_essay_draft = None,
      st_started_at = None, st_completed_at = None, st_finalized_at = None,
      st_created_at = now, st_updated_at = now\<rparr>"

definition lock_at :: "int \<Rightarrow> int option \<Rightarrow> int option" where
  "lock_at now v = (if truthy_int v then v else Some now)"

text \<open>The body of the loop over the enabled items.\<close>

definition instantiate_item ::
    "(plan_draw \<Rightarrow> string) \<Rightarrow> (nat \<Rightarrow> nat) \<Rightarrow> int \<Rightarrow> string \<Rightarrow> nat \<times> plan_item_model \<Rightarrow>
     experiment_db \<times> session_task list \<Rightarrow> err + experiment_db \<times> session_task list" where
  "instantiate_item uid pick now session_id = (\<lambda>(p, item) (d, rows).
     let add = (\<lambda>d topic.
           let row = new_session_task (uid (DSessionTask p)) now session_id p item topic
           in Inr (d\<lparr>xd_tasks := add_row row (xd_tasks d)\<rparr>, rows @ [row]))
     in if pm_task_type item = ESSAY then
          (case item_topic d (pick p) item of
             None \<Rightarrow> Inl (http 422 ''An Essay Task has no available topic.'')
           | Some topic \<Rightarrow> add d (Some topic))
        else if pm_task_type item = QUESTION then
          (case (case pm_question_task_id item of None \<Rightarrow> None
                 | Some t \<Rightarrow> get_by qt_id t (db_tasks (xd_questions d))) of
             None \<Rightarrow> Inl (http 422 ''A Question Task in this experiment is unavailable.'')
           | Some q \<Rightarrow>
               if qt_status q \<noteq> QT_PUBLISHED
               then Inl (http 422 ''A Question Task in this experiment is unavailable.'')
               else add (d\<lparr>xd_questions := (xd_questions d)\<lparr>db_tasks := upd_by qt_id (qt_id q)
                      (\<lambda>t. t\<lparr>qt_locked_at := lock_at now (qt_locked_at t)\<rparr>)
                      (db_tasks (xd_questions d))\<rparr>\<rparr>) None)
        else
          (case (case pm_survey_task_id item of None \<Rightarrow> None
                 | Some t \<Rightarrow> get_by sv_id t (svd_tasks (xd_surveys d))) of
             None \<Rightarrow> Inl (http 422 ''A Survey Task in this experiment is unavailable.'')
           | Some s \<Rightarrow>
               if sv_status s \<noteq> SV_PUBLISHED
               then Inl (http 422 ''A Survey Task in this experiment is unavailable.'')
               else add (d\<lparr>xd_surveys := (xd_surveys d)\<lparr>svd_tasks := upd_by sv_id (sv_id s)
                      (\<lambda>t. t\<lparr>sv_locked_at := lock_at now (sv_locked_at t)\<rparr>)
                      (svd_tasks (xd_surveys d))\<rparr>\<rparr>) None))"

definition instantiate_session_tasks ::
    "(plan_draw \<Rightarrow> string) \<Rightarrow> (nat \<Rightarrow> nat) \<Rightarrow> int \<Rightarrow> string \<Rightarrow> string \<Rightarrow> experiment_db \<Rightarrow>
     err + (session_task_model list \<times> experiment_db)" where
  "instantiate_session_tasks uid pick now session_id plan_id d =
     (let existing = filter (\<lambda>t. st_experiment_session_id t = session_id) (xd_tasks d) in
      if existing \<noteq> [] then
        bindE (mapE session_task_model_of existing) (\<lambda>ms. Inr (ms, d))
      else bindE (get_plan plan_id d) (\<lambda>plan.
        case plan of
          None \<Rightarrow> Inl (http 422 ''Experiment plan is unavailable.'')
        | Some plan \<Rightarrow>
            bindE (foldE (instantiate_item uid pick now session_id)
                    (enumerate 0 (filter pm_enabled (pl_items plan))) (d, [])) (\<lambda>(d, rows).
              let d = d\<lparr>xd_plans := upd_by pn_id plan_id
                    (\<lambda>p. p\<lparr>pn_locked_at := lock_at now (pn_locked_at p)\<rparr>) (xd_plans d)\<rparr>
              in if \<not> distinct (map st_id (xd_tasks d)) then Inl IntegrityError
                 else bindE (mapE session_task_model_of rows) (\<lambda>ms. Inr (ms, d)))))"

end
