(* ===== verification/Condition_Assignment.thy ===== *)
theory Condition_Assignment
  imports Experiment_Plan "HOL-Library.Word"
begin

text \<open>
  The part of \<open>utils/experiment_perturbations.py\<close> that decides what a participant is exposed to:
  the assignment of a condition, the reservation of the numbers of an LLM request and the
  injection of the experiment's instruction into the messages.

  \<open>_hmac_value\<close> keys an HMAC with the secret of the installation. The digest itself is the
  parameter \<open>hmac\<close>: for a list of parts, its first eight bytes as a 64-bit number and the 24
  characters of the identifier. The draw and the point are doubles; they are kept here as the
  rational numbers they are, and every operation rounds as binary64 does. \<open>race\<close> is what
  other requests commit between the reads of an attempt and its own insert.
\<close>

type_synonym hmac = "string list \<Rightarrow> 64 word \<times> string"

subsection \<open>Doubles\<close>

text \<open>
  Rounding a number to 53 significant bits, ties to even. All doubles of this theory are
  non-negative multiples of \<open>2^-64\<close> below \<open>2^7\<close>, far from underflow and overflow, so
  \<open>round_double\<close> is the rounding of binary64 on them.
\<close>

fun bit_length :: "int \<Rightarrow> nat" where
  "bit_length n = (if n \<le> 0 then 0 else Suc (bit_length (n div 2)))"

declare bit_length.simps [simp del]

definition round53 :: "int \<Rightarrow> int" where
  "round53 n =
     (let b = 2 ^ (bit_length n - 53); q = n div b; r = n mod b in
      (if b < 2 * r \<or> 2 * r = b \<and> odd q then q + 1 else q) * b)"

definition round_double :: "rat \<Rightarrow> rat" where
  "round_double x = of_int (round53 \<lfloor>x * 2 ^ 64\<rfloor>) / 2 ^ 64"

text \<open>\<open>int / float(2**64)\<close>: the number becomes a double and is scaled exactly.\<close>

definition hmac_value :: "hmac \<Rightarrow> string list \<Rightarrow> rat \<times> string" where
  "hmac_value hmac parts = (case hmac parts of (w, s) \<Rightarrow> (round_double (of_int (uint w) / 2 ^ 64), s))"

subsection \<open>Assigning a condition\<close>

text \<open>The loop: the first condition whose cumulated share exceeds the drawn point.\<close>

fun select_condition :: "rat \<Rightarrow> int \<Rightarrow> condition_form \<Rightarrow> condition_form list \<Rightarrow> condition_form" where
  "select_condition point cumulative selected [] = selected"
| "select_condition point cumulative selected (c # cs) =
     (let cumulative = cumulative + cd_allocation_percent c in
      if point < of_int cumulative then c else select_condition point cumulative selected cs)"

definition assign_condition ::
    "hmac \<Rightarrow> plan_model \<Rightarrow> string \<Rightarrow> string option \<times> string option \<times> rat option" where
  "assign_condition hmac plan user_id =
     (let enabled = filter (\<lambda>c. cd_enabled c \<and> 0 < cd_allocation_percent c) (pl_conditions plan) in
      if enabled = [] then (None, None, None)
      else
        let (draw, assignment_id) = hmac_value hmac [''condition'', pl_id plan, user_id];
            selected = select_condition (round_double (draw * 100)) 0 (last enabled) enabled
        in (cd_id selected, Some assignment_id, Some draw))"

subsection \<open>When an instruction is active\<close>

definition cadence_matches :: "activation_rule \<Rightarrow> int \<Rightarrow> int \<Rightarrow> bool" where
  "cadence_matches rule request_sequence prompt_number =
     (case ar_mode rule of
        EVERY_REQUEST \<Rightarrow> True
      | FIRST_REQUEST \<Rightarrow> request_sequence = 1
      | AFTER_PROMPT_COUNT \<Rightarrow> or_int (ar_count rule) 0 < prompt_number
      | A_EVERY_N_PROMPTS \<Rightarrow>
          (case ar_count rule of None \<Rightarrow> False | Some n \<Rightarrow> n \<noteq> 0 \<and> prompt_number mod n = 0)
      | PROMPT_RANGE \<Rightarrow>
          (case (ar_range_start rule, ar_range_end rule) of
             (Some a, Some b) \<Rightarrow> a \<noteq> 0 \<and> b \<noteq> 0 \<and> a \<le> prompt_number \<and> prompt_number \<le> b
           | _ \<Rightarrow> False))"

definition scope_matches :: "activation_rule \<Rightarrow> string option \<Rightarrow> bool" where
  "scope_matches rule plan_item_id \<longleftrightarrow> ar_scope rule = ALL_TASKS \<or>
     (case plan_item_id of None \<Rightarrow> False | Some i \<Rightarrow> i \<noteq> [] \<and> i \<in> set (ar_plan_item_ids rule))"

record request_context =
  rc_request_id :: string
  rc_condition :: condition_form
  rc_prompt_active :: bool
  rc_timing :: response_timing

record request_metadata =
  md_chat_id :: "string option"
  md_user_message_id :: "string option"
  md_message_id :: "string option"

subsection \<open>Reserving the numbers of a request\<close>

definition next_sequence :: "string \<Rightarrow> llm_request list \<Rightarrow> int" where
  "next_sequence session_id reqs =
     or_int (max_of lr_request_sequence (filter (\<lambda>r. lr_experiment_session_id r = session_id) reqs)) 0 + 1"

definition previous_prompt :: "string \<Rightarrow> string option \<Rightarrow> llm_request list \<Rightarrow> int option" where
  "previous_prompt session_id message reqs =
     (if truthy_str message
      then map_option lr_prompt_number (find_row (\<lambda>r. lr_experiment_session_id r = session_id \<and>
             lr_user_message_id r = message) reqs)
      else None)"

definition next_prompt :: "string \<Rightarrow> string option \<Rightarrow> llm_request list \<Rightarrow> int" where
  "next_prompt session_id message reqs =
     or_int (previous_prompt session_id message reqs)
       (or_int (max_of lr_prompt_number (filter (\<lambda>r. lr_experiment_session_id r = session_id) reqs)) 0 + 1)"

definition new_request ::
    "hmac \<Rightarrow> string \<Rightarrow> int \<Rightarrow> experiment_session \<Rightarrow> plan_model \<Rightarrow> session_task option \<Rightarrow> condition_form \<Rightarrow>
     request_metadata \<Rightarrow> llm_request list \<Rightarrow> llm_request" where
  "new_request hmac i now s plan task c md reqs =
     (let sq = next_sequence (xs_id s) reqs;
          number = next_prompt (xs_id s) (md_user_message_id md) reqs;
          rule = pi_activation (cd_prompt_injection c);
          (draw, randomization_id) = hmac_value hmac [''activation'', pl_id plan, xs_id s, int_str sq, ''prompt''];
          active = (pi_enabled (cd_prompt_injection c) \<and>
            scope_matches rule (Option.bind task st_plan_item_id) \<and>
            cadence_matches rule sq number \<and> draw < ar_probability rule)
      in \<lparr>lr_id = i, lr_experiment_session_id = xs_id s, lr_condition_id = cd_id c,
          lr_plan_id = Some (pl_id plan), lr_plan_version = Some (pl_version plan),
          lr_session_task_id = map_option st_id task, lr_chat_id = md_chat_id md,
          lr_user_message_id = md_user_message_id md, lr_assistant_message_id = md_message_id md,
          lr_request_sequence = sq, lr_prompt_number = number,
          lr_assignment_identifier = xs_condition_assignment_id s, lr_prompt_active = active,
          lr_prompt_draw = Some draw, lr_prompt_randomization_id = Some randomization_id,
          lr_timing_mode = rt_mode (cd_response_timing c),
          lr_timing_parameters = cd_response_timing c, lr_request_at = now,
          lr_provider_started_at = None, lr_provider_first_token_at = None,
          lr_provider_completed_at = None, lr_artificial_delay_started_at = None,
          lr_artificial_delay_ended_at = None, lr_server_first_emit_at = None,
          lr_server_completed_emit_at = None, lr_client_first_visible_at = None,
          lr_client_completed_visible_at = None, lr_buffered = False,
          lr_streaming_completed_normally = None, lr_navigated_away = False,
          lr_status = ''PENDING'', lr_error_type = None, lr_buffered_output = None,
          lr_reveal_cursor = 0, lr_created_at = now, lr_updated_at = now\<rparr>)"

definition request_keys :: "llm_request list \<Rightarrow> bool" where
  "request_keys reqs \<longleftrightarrow> distinct (map lr_id reqs) \<and>
     distinct (map (\<lambda>r. (lr_experiment_session_id r, lr_request_sequence r)) reqs)"

text \<open>The body of \<open>for _ in range(3)\<close>: every attempt works on the rows it read, and its insert
  meets the rows committed meanwhile.\<close>

fun reserve_attempts ::
    "hmac \<Rightarrow> (nat \<Rightarrow> string) \<Rightarrow> (nat \<Rightarrow> int) \<Rightarrow> (nat \<Rightarrow> llm_request list \<Rightarrow> llm_request list) \<Rightarrow>
     experiment_session \<Rightarrow> plan_model \<Rightarrow> session_task option \<Rightarrow> condition_form \<Rightarrow> request_metadata \<Rightarrow>
     nat list \<Rightarrow> llm_request list \<Rightarrow> (err + request_context option) \<times> llm_request list" where
  "reserve_attempts hmac uid clock race s plan task c md [] reqs =
     (Inl (RuntimeError ''Unable to reserve an experiment request sequence.''), reqs)"
| "reserve_attempts hmac uid clock race s plan task c md (k # ks) reqs =
     (let row = new_request hmac (uid k) (clock k) s plan task c md reqs;
          met = race k reqs
      in if request_keys (add_row row met)
         then (Inr (Some \<lparr>rc_request_id = lr_id row, rc_condition = c,
                 rc_prompt_active = lr_prompt_active row, rc_timing = cd_response_timing c\<rparr>),
               add_row row met)
         else reserve_attempts hmac uid clock race s plan task c md ks met)"

definition prepare_request ::
    "hmac \<Rightarrow> (nat \<Rightarrow> string) \<Rightarrow> (nat \<Rightarrow> int) \<Rightarrow> (nat \<Rightarrow> llm_request list \<Rightarrow> llm_request list) \<Rightarrow>
     experiment_session option \<Rightarrow> plan_model option \<Rightarrow> session_task option \<Rightarrow> request_metadata \<Rightarrow>
     llm_request list \<Rightarrow> (err + request_context option) \<times> llm_request list" where
  "prepare_request hmac uid clock race session plan task md reqs =
     (case (session, plan) of
        (Some s, Some p) \<Rightarrow>
          (if \<not> truthy_str (xs_condition_id s) then (Inr None, reqs)
           else case find_row (\<lambda>c. cd_id c = xs_condition_id s) (pl_conditions p) of
               None \<Rightarrow> (Inr None, reqs)
             | Some c \<Rightarrow>
                 if \<not> cd_enabled c then (Inr None, reqs)
                 else reserve_attempts hmac uid clock race s p task c md [0..<3] reqs)
      | _ \<Rightarrow> (Inr None, reqs))"

subsection \<open>Injecting the instruction\<close>

text \<open>A message is a dict; \<open>add_or_update_system_message\<close> is that of \<open>utils/misc.py\<close>.\<close>

definition put_key :: "string \<Rightarrow> json \<Rightarrow> (string \<times> json) list \<Rightarrow> (string \<times> json) list" where
  "put_key k v m = AList.update k v m"

text \<open>An f-string writes a string as it is; \<open>show\<close> is \<open>str\<close> on the other values.\<close>

fun formatted :: "(json \<Rightarrow> string) \<Rightarrow> json \<Rightarrow> string" where
  "formatted show (JStr s) = s"
| "formatted show v = show v"

text \<open>One item of a list content; an item that is no dict, or lacks a key, raises.\<close>

definition append_item :: "(json \<Rightarrow> string) \<Rightarrow> string \<Rightarrow> json \<Rightarrow> err + json" where
  "append_item show content item =
     (case item of
        JObj m \<Rightarrow>
          (case map_of m ''type'' of
             None \<Rightarrow> Inl (KeyError ''type'')
           | Some t \<Rightarrow>
               if t = JStr ''text'' then
                 (case map_of m ''text'' of
                    None \<Rightarrow> Inl (KeyError ''text'')
                  | Some v \<Rightarrow>
                      Inr (JObj (put_key ''text'' (JStr (formatted show v @ [CHR 0x0A] @ content)) m)))
               else Inr item)
      | _ \<Rightarrow> Inl TypeError)"

definition append_content ::
    "(json \<Rightarrow> string) \<Rightarrow> string \<Rightarrow> (string \<times> json) list \<Rightarrow> err + (string \<times> json) list" where
  "append_content show content m =
     (case map_of m ''content'' of
        None \<Rightarrow> Inl (KeyError ''content'')
      | Some (JList items) \<Rightarrow>
          bindE (mapE (append_item show content) items) (\<lambda>items. Inr (put_key ''content'' (JList items) m))
      | Some v \<Rightarrow> Inr (put_key ''content'' (JStr (formatted show v @ [CHR 0x0A] @ content)) m))"

definition role_is :: "string \<Rightarrow> (string \<times> json) list \<Rightarrow> bool" where
  "role_is r m \<longleftrightarrow> map_of m ''role'' = Some (JStr r)"

definition add_system_message ::
    "(json \<Rightarrow> string) \<Rightarrow> string \<Rightarrow> (string \<times> json) list list \<Rightarrow> err + (string \<times> json) list list" where
  "add_system_message show content messages =
     (case messages of
        m # ms \<Rightarrow>
          if role_is ''system'' m then bindE (append_content show content m) (\<lambda>m. Inr (m # ms))
          else Inr ([(''role'', JStr ''system''), (''content'', JStr content)] # messages)
      | [] \<Rightarrow> Inr [[(''role'', JStr ''system''), (''content'', JStr content)]])"

definition wrapped_instruction :: "string \<Rightarrow> string" where
  "wrapped_instruction i = ''<experiment_instruction>'' @ [CHR 0x0A] @ i @ [CHR 0x0A] @ ''</experiment_instruction>''"

definition last_user :: "(string \<times> json) list list \<Rightarrow> nat option" where
  "last_user messages =
     (case filter (\<lambda>n. role_is ''user'' (messages ! n)) (rev [0..<length messages]) of
        [] \<Rightarrow> None | n # _ \<Rightarrow> Some n)"

definition insert_at :: "nat \<Rightarrow> 'a \<Rightarrow> 'a list \<Rightarrow> 'a list" where
  "insert_at n x xs = take n xs @ x # drop n xs"

definition apply_request_injections ::
    "(json \<Rightarrow> string) \<Rightarrow> request_context option \<Rightarrow> (string \<times> json) list list \<Rightarrow> err + (string \<times> json) list list" where
  "apply_request_injections show context messages =
     (case context of
        None \<Rightarrow> Inr messages
      | Some ctx \<Rightarrow>
          if \<not> rc_prompt_active ctx then Inr messages
          else
            let prompt = cd_prompt_injection (rc_condition ctx);
                wrapped = wrapped_instruction (pi_instruction prompt)
            in if pi_position prompt = SYSTEM then add_system_message show wrapped messages
               else (case last_user messages of
                   None \<Rightarrow> Inr messages
                 | Some n \<Rightarrow> Inr (insert_at (if pi_position prompt = BEFORE_PARTICIPANT then n else n + 1)
                     [(''role'', JStr ''user''), (''content'', JStr wrapped)] messages)))"

end
