(* ===== verification/Condition_Properties.thy ===== *)
theory Condition_Properties
  imports Condition_Assignment
begin

text \<open>
  The assignment of a condition follows the allocated shares, and the numbers of the LLM
  requests of a session stay unique whatever other requests commit meanwhile.
\<close>

subsection \<open>Shares\<close>

definition share_sum :: "condition_form list \<Rightarrow> int" where
  "share_sum cs = sum_list (map cd_allocation_percent cs)"

definition shared_conditions :: "plan_model \<Rightarrow> condition_form list" where
  "shared_conditions plan = filter (\<lambda>c. cd_enabled c \<and> 0 < cd_allocation_percent c) (pl_conditions plan)"

lemma select_condition_interval:
  assumes "of_int cum \<le> point" and "cs \<noteq> []"
  shows "\<exists>i < length cs. select_condition point cum (last cs) cs = cs ! i \<and>
    of_int (cum + share_sum (take i cs)) \<le> point \<and>
    (point < of_int (cum + share_sum (take (i + 1) cs)) \<or> i + 1 = length cs)"
  using assms
proof (induction cs arbitrary: cum)
  case Nil
  then show ?case by simp
next
  case (Cons c cs)
  show ?case
  proof (cases "point < of_int (cum + cd_allocation_percent c) \<or> cs = []")
    case True
    with Cons.prems(1) show ?thesis by (intro exI [of _ 0]) (auto simp: share_sum_def Let_def)
  next
    case False
    with Cons.IH [of "cum + cd_allocation_percent c"] obtain i where
      "i < length cs" "select_condition point (cum + cd_allocation_percent c) (last cs) cs = cs ! i"
      "of_int (cum + cd_allocation_percent c + share_sum (take i cs)) \<le> point"
      "point < of_int (cum + cd_allocation_percent c + share_sum (take (i + 1) cs)) \<or> i + 1 = length cs"
      by auto
    with False show ?thesis
      by (intro exI [of _ "Suc i"]) (auto simp: share_sum_def Let_def algebra_simps)
  qed
qed

subsection \<open>Rounding\<close>

lemma bit_length_le: "n < 2 ^ k \<Longrightarrow> bit_length n \<le> k"
proof (induction n arbitrary: k rule: bit_length.induct)
  case (1 n)
  show ?case
  proof (cases "n \<le> 0")
    case True
    then show ?thesis by (simp add: bit_length.simps)
  next
    case False
    with 1(2) obtain j where k: "k = Suc j" by (cases k) auto
    with 1(2) have "n div 2 < 2 ^ j" by simp
    from 1(1) [OF False this] False k show ?thesis by (simp add: bit_length.simps [of n])
  qed
qed

lemma bit_length_bound: "n < 2 ^ bit_length n"
proof (induction n rule: bit_length.induct)
  case (1 n)
  then show ?case by (cases "n \<le> 0") (simp_all add: bit_length.simps [of n])
qed

lemma round53_close:
  assumes "n < 2 ^ k" "53 \<le> k"
  shows "2 * \<bar>round53 n - n\<bar> \<le> 2 ^ (k - 53)"
proof -
  define b :: int where "b = 2 ^ (bit_length n - 53)"
  have le: "b \<le> 2 ^ (k - 53)" using bit_length_le [OF assms(1)] by (simp add: b_def)
  define q r where "q = n div b" and "r = n mod b"
  have n: "n = q * b + r" unfolding q_def r_def by simp
  have r: "0 \<le> r" "r < b" by (simp_all add: b_def r_def)
  define u where "u = (if b < 2 * r \<or> 2 * r = b \<and> odd q then b else 0)"
  have "round53 n = q * b + u"
    by (simp add: round53_def Let_def b_def [symmetric] q_def [symmetric] r_def [symmetric] u_def algebra_simps)
  then have "round53 n - n = u - r" using n by simp
  moreover have "2 * \<bar>u - r\<bar> \<le> b" using r by (auto simp: u_def)
  ultimately show ?thesis using le by simp
qed

lemma round53_range:
  assumes "0 \<le> n" "n \<le> 2 ^ k" "53 \<le> k"
  shows "0 \<le> round53 n \<and> round53 n \<le> 2 ^ k"
proof -
  define e where "e = bit_length n - 53"
  define b :: int where "b = 2 ^ e"
  have "n < 2 ^ Suc k" using assms(1,2) by (simp add: order.strict_trans1)
  then have "e \<le> k" using bit_length_le [of n "Suc k"] assms(3) by (simp add: e_def)
  then have dvd: "2 ^ k = 2 ^ (k - e) * b" by (simp add: b_def flip: power_add)
  have b: "0 < b" by (simp add: b_def)
  have r: "round53 n = (if b < 2 * (n mod b) \<or> 2 * (n mod b) = b \<and> odd (n div b) then n div b + 1 else n div b) * b"
    by (simp add: round53_def Let_def e_def [symmetric] b_def [symmetric])
  have q: "0 \<le> n div b" "n div b \<le> 2 ^ (k - e)"
    using zdiv_mono1 [OF assms(2) b] assms(1) b by (simp_all add: dvd pos_imp_zdiv_nonneg_iff)
  have "(if b < 2 * (n mod b) \<or> 2 * (n mod b) = b \<and> odd (n div b) then n div b + 1 else n div b) \<le> 2 ^ (k - e)"
  proof (cases "n div b = 2 ^ (k - e)")
    case True
    then have "n div b * b = 2 ^ k" by (simp add: dvd)
    then have "n mod b = 0"
      using assms(2) div_mult_mod_eq [of n b] pos_mod_sign [OF b, of n] by linarith
    then show ?thesis using True b by simp
  next
    case False
    with q show ?thesis by auto
  qed
  then have "round53 n \<le> 2 ^ (k - e) * b" unfolding r using b by (intro mult_right_mono) auto
  moreover have "0 \<le> round53 n" unfolding r using q b by auto
  ultimately show ?thesis by (simp add: dvd)
qed

lemma floor_scaled: "\<lfloor>(of_int n / 2 ^ 64 :: rat) * 2 ^ 64\<rfloor> = n"
  by simp

lemma round_double_scaled: "round_double (of_int n / 2 ^ 64) = of_int (round53 n) / 2 ^ 64"
  by (simp only: round_double_def floor_scaled)

text \<open>The draw and the point of an HMAC: within the unit interval, the end included, and close to exact.\<close>

lemma hmac_point:
  fixes w :: "64 word"
  defines "draw \<equiv> round_double (of_int (uint w) / 2 ^ 64)"
  shows "0 \<le> draw" "draw \<le> 1" "0 \<le> round_double (draw * 100)" "round_double (draw * 100) \<le> 100"
    and "\<bar>round_double (draw * 100) - 100 * of_int (uint w) / 2 ^ 64\<bar> \<le> 1 / 2 ^ 46"
proof -
  define n where "n = round53 (uint w)"
  have w: "0 \<le> uint w" "uint w < 2 ^ 64" using uint_bounded [of w] by simp_all
  have d: "draw = of_int n / 2 ^ 64" by (simp only: draw_def round_double_scaled n_def)
  have n: "0 \<le> n \<and> n \<le> 2 ^ 64" unfolding n_def using w by (intro round53_range) simp_all
  define m where "m = round53 (n * 100)"
  have "draw * 100 = of_int (n * 100) / 2 ^ 64" by (simp add: d)
  then have p: "round_double (draw * 100) = of_int m / 2 ^ 64" by (simp only: round_double_scaled m_def)
  have c1: "2 * \<bar>n - uint w\<bar> \<le> 2 ^ 11" using round53_close [OF w(2)] by (simp add: n_def)
  have c2: "2 * \<bar>m - n * 100\<bar> \<le> 2 ^ 18" using round53_close [of "n * 100" 71] n by (simp add: m_def)
  have m: "0 \<le> m \<and> m \<le> 100 * 2 ^ 64"
  proof (cases "n = 2 ^ 64")
    case True
    have "round53 (2 ^ 64 * 100) = 2 ^ 64 * 100" by (simp add: round53_def bit_length.simps)
    with True show ?thesis by (simp add: m_def)
  next
    case False
    have "n * 100 \<le> 100 * 2 ^ 64 - 2 ^ 17"
    proof (cases "uint w \<le> 2 ^ 63")
      case True
      with w(1) have "n \<le> 2 ^ 63" unfolding n_def using round53_range [of "uint w" 63] by simp
      then show ?thesis by simp
    next
      case False
      then have "\<not> bit_length (uint w) \<le> 63"
        using bit_length_bound [of "uint w"] power_increasing [of "bit_length (uint w)" 63 "2::int"] by auto
      then have "bit_length (uint w) = 64" using bit_length_le [OF w(2)] by simp
      then obtain q where q: "n = q * 2 ^ 11" by (simp add: n_def round53_def Let_def)
      with n \<open>n \<noteq> 2 ^ 64\<close> show ?thesis by simp
    qed
    with c2 n round53_range [of "n * 100" 71] show ?thesis by (simp add: m_def)
  qed
  show "0 \<le> draw" "draw \<le> 1" using n unfolding d by simp_all
  show "0 \<le> round_double (draw * 100)" using m unfolding p by simp
  show "round_double (draw * 100) \<le> 100" using m unfolding p by simp
  show "\<bar>round_double (draw * 100) - 100 * of_int (uint w) / 2 ^ 64\<bar> \<le> 1 / 2 ^ 46"
  proof -
    have "\<bar>m - 100 * uint w\<bar> \<le> 2 ^ 18" using c1 c2 by simp
    then have "\<bar>of_int (m - 100 * uint w) :: rat\<bar> \<le> of_int (2 ^ 18)" by (metis of_int_abs of_int_le_iff)
    then show ?thesis unfolding p by (simp add: field_simps abs_le_iff)
  qed
qed

text \<open>
  C13. A participant gets the condition in whose slice of the shares the point falls: the point is
  the double nearest to a hundred times the draw, the draw the double nearest to the first eight
  bytes of the digest over \<open>2^64\<close>. A point at or past the end of the shares, which rounding can
  give even when they add up to 100, gets the last condition. The two roundings move the point by at most
  \<open>2^-46\<close>. Only enabled conditions with a share are ever assigned.
\<close>

theorem assignment_follows_shares:
  assumes "hmac [''condition'', pl_id plan, user_id] = (w, aid)" and "shared_conditions plan \<noteq> []"
    and "draw = round_double (of_int (uint w) / 2 ^ 64)" and "point = round_double (draw * 100)"
  shows "\<exists>i < length (shared_conditions plan).
    assign_condition hmac plan user_id = (cd_id (shared_conditions plan ! i), Some aid, Some draw) \<and>
    of_int (share_sum (take i (shared_conditions plan))) \<le> point \<and>
    (point < of_int (share_sum (take (i + 1) (shared_conditions plan))) \<or>
     i + 1 = length (shared_conditions plan)) \<and>
    0 \<le> point \<and> point \<le> 100 \<and> \<bar>point - 100 * of_int (uint w) / 2 ^ 64\<bar> \<le> 1 / 2 ^ 46"
proof -
  have b: "0 \<le> point" "point \<le> 100" "\<bar>point - 100 * of_int (uint w) / 2 ^ 64\<bar> \<le> 1 / 2 ^ 46"
    unfolding assms(3,4) by (rule hmac_point)+
  obtain i where i: "i < length (shared_conditions plan)"
      and c: "select_condition point 0 (last (shared_conditions plan)) (shared_conditions plan) =
        shared_conditions plan ! i"
      and p: "of_int (share_sum (take i (shared_conditions plan))) \<le> point"
        "point < of_int (share_sum (take (i + 1) (shared_conditions plan))) \<or>
         i + 1 = length (shared_conditions plan)"
    using select_condition_interval [of 0 point "shared_conditions plan"] b(1) assms(2) by auto
  have "hmac_value hmac [''condition'', pl_id plan, user_id] = (draw, aid)"
    by (simp only: hmac_value_def assms(1,3) prod.case)
  then have "assign_condition hmac plan user_id = (cd_id (shared_conditions plan ! i), Some aid, Some draw)"
    using assms(2) c by (simp add: assign_condition_def Let_def assms(4) flip: shared_conditions_def)
  with i p b show ?thesis by blast
qed

definition share_plan :: plan_model where
  "share_plan = \<lparr>pl_source_workflow_id = None, pl_source_workflow_name = None,
     pl_source_workflow_revision = None, pl_workflow_origin = None, pl_configuration_fingerprint = None,
     pl_id = ''p'', pl_group_id = ''g'', pl_version = 1, pl_status = PN_PUBLISHED,
     pl_progression_mode = STRICT_SEQUENTIAL, pl_chat_mode = SHARED_EXPERIMENT,
     pl_survey_variant = ESSAY_VARIANT, pl_consent_enabled = True, pl_locked_at = None,
     pl_created_at = 0, pl_updated_at = 0, pl_items = [],
     pl_conditions =
       [default_control_condition\<lparr>cd_id := Some ''a'', cd_allocation_percent := 40\<rparr>,
        default_control_condition\<lparr>cd_id := Some ''b'', cd_allocation_percent := 0\<rparr>,
        default_control_condition\<lparr>cd_id := Some ''c'', cd_allocation_percent := 60\<rparr>]\<rparr>"

text \<open>The digest \<open>0x6666666666666666\<close> lies below 40 percent, and its point is 40 all the same.\<close>

lemma assignment_follows_shares_witness:
  "assign_condition (\<lambda>_. (0x6666666666666666, ''x'')) share_plan ''u'' =
     (Some ''c'', Some ''x'', Some (7378697629483821056 / 2 ^ 64)) \<and>
   100 * (0x6666666666666666 / 2 ^ 64) < (40 :: rat)"
proof -
  let ?d = "7378697629483821056 / 2 ^ 64 :: rat"
  have s: "shared_conditions share_plan =
      [default_control_condition\<lparr>cd_id := Some ''a'', cd_allocation_percent := 40\<rparr>,
       default_control_condition\<lparr>cd_id := Some ''c'', cd_allocation_percent := 60\<rparr>]"
    by (simp add: shared_conditions_def share_plan_def default_control_condition_def)
  have d: "?d = round_double (of_int (uint (0x6666666666666666 :: 64 word)) / 2 ^ 64)"
    by (simp add: round_double_def round53_def bit_length.simps)
  have p: "40 = round_double (?d * 100)"
    by (simp add: round_double_def round53_def bit_length.simps)
  have n: "shared_conditions share_plan \<noteq> []" "length (shared_conditions share_plan) = 2" by (simp_all add: s)
  obtain i where i: "i < 2" and a: "assign_condition (\<lambda>_. (0x6666666666666666, ''x'')) share_plan ''u'' =
        (cd_id (shared_conditions share_plan ! i), Some ''x'', Some ?d)"
    and l: "40 < (of_int (share_sum (take (i + 1) (shared_conditions share_plan))) :: rat) \<or> i + 1 = 2"
    using assignment_follows_shares [where plan = share_plan and hmac = "\<lambda>_. (0x6666666666666666, ''x'')"
        and user_id = "''u''", OF refl n(1) d p] unfolding n(2) by blast
  from i l have "i = 1" by (auto simp: s share_sum_def less_Suc_eq numeral_2_eq_2)
  with a show ?thesis by (simp add: s)
qed

subsection \<open>Request numbers\<close>

lemma next_sequence_fresh:
  "r \<in> set reqs \<Longrightarrow> lr_experiment_session_id r = sid \<Longrightarrow> lr_request_sequence r < next_sequence sid reqs \<or>
     lr_request_sequence r \<le> 0"
  using max_of_ge [of r "filter (\<lambda>r. lr_experiment_session_id r = sid) reqs" lr_request_sequence]
  by (fastforce simp: next_sequence_def or_int_def split: option.splits)

lemma new_request_fields:
  "lr_id (new_request hmac i now s plan task c md reqs) = i"
  "lr_experiment_session_id (new_request hmac i now s plan task c md reqs) = xs_id s"
  "lr_request_sequence (new_request hmac i now s plan task c md reqs) = next_sequence (xs_id s) reqs"
  "lr_prompt_number (new_request hmac i now s plan task c md reqs) =
     next_prompt (xs_id s) (md_user_message_id md) reqs"
  "lr_user_message_id (new_request hmac i now s plan task c md reqs) = md_user_message_id md"
  by (simp_all add: new_request_def Let_def split: prod.splits)

lemma attempts_keys:
  assumes "reserve_attempts hmac uid clock race s plan task c md ks reqs = (res, reqs')"
    and "request_keys reqs" and "\<And>k rs. request_keys rs \<Longrightarrow> request_keys (race k rs)"
  shows "request_keys reqs' \<and>
    ((\<exists>before k ctx. res = Inr (Some ctx) \<and>
        reqs' = add_row (new_request hmac (uid k) (clock k) s plan task c md before) (race k before)) \<or>
     res = Inl (RuntimeError ''Unable to reserve an experiment request sequence.''))"
  using assms(1,2)
proof (induction ks arbitrary: reqs)
  case Nil
  then show ?case by simp
next
  case (Cons k ks)
  show ?case
  proof (cases "request_keys (add_row (new_request hmac (uid k) (clock k) s plan task c md reqs) (race k reqs))")
    case True
    with Cons.prems(1) show ?thesis by (auto simp: Let_def)
  next
    case False
    with Cons.prems(1) have "reserve_attempts hmac uid clock race s plan task c md ks (race k reqs) = (res, reqs')"
      by (simp add: Let_def)
    from Cons.IH [OF this assms(3) [OF Cons.prems(2)]] show ?thesis .
  qed
qed

lemma first_attempt_wins:
  assumes k: "request_keys reqs" and f: "uid 0 \<notin> lr_id ` set reqs"
    and p: "\<And>r. r \<in> set reqs \<Longrightarrow> 0 < lr_request_sequence r"
  shows "request_keys (add_row (new_request hmac (uid 0) now s plan task c md reqs) reqs)"
proof -
  have "(xs_id s, next_sequence (xs_id s) reqs) \<notin>
      (\<lambda>r. (lr_experiment_session_id r, lr_request_sequence r)) ` set reqs"
    using next_sequence_fresh [of _ reqs "xs_id s"] p by fastforce
  with k f show ?thesis by (simp add: request_keys_def map_add_row new_request_fields)
qed

text \<open>
  C14. Whatever other requests commit between the reads and the insert of an attempt, the
  request numbers of every session stay unique, and without such a collision the first
  attempt succeeds: its row carries the next number of the session, and the number of the
  prompt is the one an earlier request gave to the same user message, or the next one.
\<close>

theorem request_numbers_unique:
  assumes "request_keys reqs" and "\<And>k rs. request_keys rs \<Longrightarrow> request_keys (race k rs)"
    and "\<And>r. r \<in> set reqs \<Longrightarrow> 0 < lr_request_sequence r"
    and "uid 0 \<notin> lr_id ` set reqs" and "truthy_str (xs_condition_id s)"
    and "find_row (\<lambda>c. cd_id c = xs_condition_id s) (pl_conditions plan) = Some c" and "cd_enabled c"
  shows "request_keys (snd (prepare_request hmac uid clock race (Some s) (Some plan) task md reqs)) \<and>
    (race 0 reqs = reqs \<longrightarrow> (\<exists>row.
      snd (prepare_request hmac uid clock race (Some s) (Some plan) task md reqs) = add_row row reqs \<and>
      fst (prepare_request hmac uid clock race (Some s) (Some plan) task md reqs) =
        Inr (Some \<lparr>rc_request_id = uid 0, rc_condition = c, rc_prompt_active = lr_prompt_active row,
                   rc_timing = cd_response_timing c\<rparr>) \<and>
      lr_request_sequence row = next_sequence (xs_id s) reqs \<and>
      lr_prompt_number row = next_prompt (xs_id s) (md_user_message_id md) reqs))"
proof -
  have p: "prepare_request hmac uid clock race (Some s) (Some plan) task md reqs =
      reserve_attempts hmac uid clock race s plan task c md [0..<3] reqs"
    using assms(5-7) by (simp add: prepare_request_def)
  have "request_keys (snd (prepare_request hmac uid clock race (Some s) (Some plan) task md reqs))"
    using attempts_keys [OF surjective_pairing assms(1,2)] by (simp add: p)
  moreover have "[0..<3] = 0 # [1..<3]" by (simp add: upt_conv_Cons)
  then have "\<exists>row.
      snd (prepare_request hmac uid clock race (Some s) (Some plan) task md reqs) = add_row row reqs \<and>
      fst (prepare_request hmac uid clock race (Some s) (Some plan) task md reqs) =
        Inr (Some \<lparr>rc_request_id = uid 0, rc_condition = c, rc_prompt_active = lr_prompt_active row,
                   rc_timing = cd_response_timing c\<rparr>) \<and>
      lr_request_sequence row = next_sequence (xs_id s) reqs \<and>
      lr_prompt_number row = next_prompt (xs_id s) (md_user_message_id md) reqs" if r: "race 0 reqs = reqs"
    using first_attempt_wins [where uid = uid, OF assms(1,4,3)]
    by (intro exI [of _ "new_request hmac (uid 0) (clock 0) s plan task c md reqs"])
      (simp add: p r Let_def new_request_fields)
  ultimately show ?thesis by blast
qed

definition sample_participant :: experiment_session where
  "sample_participant = \<lparr>xs_id = ''s'', xs_user_id = ''u'', xs_group_id = ''g'', xs_topic_id = None,
     xs_topic_title = None, xs_topic_question = None, xs_essay_id = None, xs_state = IN_PROGRESS,
     xs_pre_survey = None, xs_post_survey = None, xs_consented_at = None,
     xs_pre_survey_submitted_at = None, xs_topic_shown_at = None, xs_writing_started_at = None,
     xs_essay_submitted_at = None, xs_post_survey_submitted_at = None, xs_completed_at = None,
     xs_created_at = 0, xs_updated_at = 0, xs_plan_id = Some ''p'', xs_task_type = ESSAY,
     xs_task_submitted_at = None, xs_condition_id = Some ''c'', xs_condition_assignment_id = Some ''x'',
     xs_condition_assignment_draw = Some (1 / 2)\<rparr>"

lemma request_numbers_unique_witness:
  "\<exists>row. snd (prepare_request (\<lambda>_. (2 ^ 63, ''x'')) nat_str int (\<lambda>_ rs. rs) (Some sample_participant)
      (Some share_plan) None \<lparr>md_chat_id = None, md_user_message_id = Some ''m'', md_message_id = None\<rparr> []) = [row] \<and>
    lr_request_sequence row = 1 \<and> lr_prompt_number row = 1"
proof -
  let ?c = "default_control_condition\<lparr>cd_id := Some ''c'', cd_allocation_percent := 60\<rparr>"
  have c: "find_row (\<lambda>c. cd_id c = xs_condition_id sample_participant) (pl_conditions share_plan) = Some ?c"
    by (simp add: share_plan_def sample_participant_def default_control_condition_def)
  have "cd_enabled ?c" "truthy_str (xs_condition_id sample_participant)"
    by (simp_all add: default_control_condition_def sample_participant_def)
  then show ?thesis
    using request_numbers_unique [where reqs = "[]" and race = "\<lambda>_ rs. rs" and uid = nat_str
        and s = sample_participant and plan = share_plan and c = ?c and hmac = "\<lambda>_. (2 ^ 63, ''x'')" and clock = int
        and task = None and md = "\<lparr>md_chat_id = None, md_user_message_id = Some ''m'', md_message_id = None\<rparr>"] c
    by (simp add: request_keys_def add_row_def next_sequence_def next_prompt_def previous_prompt_def) blast
qed

end
