(* ===== verification/Response_Chunker.thy ===== *)
theory Response_Chunker
  imports Condition_Assignment Completion_Observer
begin

text \<open>
  How a response is cut into the pieces a participant sees (\<open>utils/experiment_perturbations.py\<close>):
  the sizes of the pieces, the splitting of a complete text and the incremental chunker of a
  stream. SHA-256 is the parameter \<open>sha\<close>, which gives the first four bytes of the digest as a
  number; \<open>json.loads\<close> and \<open>json.dumps\<close> are the parameters \<open>loads\<close> (\<open>None\<close> is its exception)
  and \<open>dumps\<close>.
\<close>

subsection \<open>Words\<close>

text \<open>\<open>re.findall(r'\S+\s*', text)\<close>\<close>

function find_words :: "string \<Rightarrow> string list" where
  "find_words s =
     (let s = dropWhile py_space s in
      if s = [] then []
      else
        let word = takeWhile (\<lambda>c. \<not> py_space c) s;
            rest = dropWhile (\<lambda>c. \<not> py_space c) s
        in (word @ takeWhile py_space rest) # find_words (dropWhile py_space rest))"
  by pat_completeness auto

termination
proof (relation "measure length")
  fix s x and xa xb :: string
  assume "x = dropWhile py_space s" "x \<noteq> []" "xb = dropWhile (\<lambda>c. \<not> py_space c) x"
  then have "\<not> py_space (hd x)" by (metis hd_dropWhile)
  then have "length xb < length x"
    using \<open>x \<noteq> []\<close> \<open>xb = _\<close> by (cases x) (auto simp: less_Suc_eq_le length_dropWhile_le)
  moreover have "length (dropWhile py_space xb) \<le> length xb" by (rule length_dropWhile_le)
  moreover have "length x \<le> length s" using \<open>x = _\<close> by (simp add: length_dropWhile_le)
  ultimately show "(dropWhile py_space xb, s) \<in> measure length" by simp
qed simp

declare find_words.simps [simp del]

subsection \<open>Sizes\<close>

text \<open>\<open>_deterministic_chunk_size\<close>\<close>

definition chunk_size :: "(string \<Rightarrow> nat) \<Rightarrow> string \<Rightarrow> nat \<Rightarrow> int \<Rightarrow> int \<Rightarrow> int" where
  "chunk_size sha seed index minimum maximum =
     (let minimum = max 1 minimum; maximum = max minimum maximum in
      if minimum = maximum then minimum
      else minimum + int (sha (seed @ '':'' @ nat_str index)) mod (maximum - minimum + 1))"

lemma chunk_size_bounds:
  "max 1 lo \<le> chunk_size sha seed i lo hi" "chunk_size sha seed i lo hi \<le> max (max 1 lo) hi"
proof -
  define m where "m = max 1 lo"
  define n where "n = max m hi"
  define x where "x = int (sha (seed @ '':'' @ nat_str i)) mod (n - m + 1)"
  have "m \<le> n" by (simp add: n_def)
  then have pos: "0 < n - m + 1" by linarith
  have "0 \<le> x" unfolding x_def by (rule pos_mod_sign [OF pos])
  moreover have "x < n - m + 1" unfolding x_def by (rule pos_mod_bound [OF pos])
  moreover have "chunk_size sha seed i lo hi = (if m = n then m else m + x)"
    by (simp add: chunk_size_def Let_def m_def n_def x_def)
  ultimately show "max 1 lo \<le> chunk_size sha seed i lo hi"
    "chunk_size sha seed i lo hi \<le> max (max 1 lo) hi"
    by (auto simp: m_def n_def)
qed

lemma chunk_size_pos: "0 < nat (chunk_size sha seed i lo hi)"
  using chunk_size_bounds(1) [of lo sha seed i hi] by auto

subsection \<open>Cutting a complete text\<close>

function cut_pieces ::
    "(string \<Rightarrow> nat) \<Rightarrow> string \<Rightarrow> int \<Rightarrow> int \<Rightarrow> nat \<Rightarrow> string list \<Rightarrow> string list" where
  "cut_pieces sha seed lo hi index [] = []"
| "cut_pieces sha seed lo hi index (p # ps) =
     (let n = nat (chunk_size sha seed index lo hi) in
      concat (take n (p # ps)) # cut_pieces sha seed lo hi (index + 1) (drop n (p # ps)))"
  by pat_completeness auto

termination
  using chunk_size_pos by (relation "measure (\<lambda>(_, _, _, _, _, ps). length ps)") auto

definition bounded_text_chunks :: "(string \<Rightarrow> nat) \<Rightarrow> string \<Rightarrow> string \<Rightarrow> stream_unit \<Rightarrow> int \<Rightarrow> int \<Rightarrow> string list" where
  "bounded_text_chunks sha text seed unit minimum maximum =
     (if text = [] then []
      else
        let pieces = (if unit = WORD then find_words text else map (\<lambda>c. [c]) text);
            chunks = cut_pieces sha seed minimum maximum 0 pieces
        in case chunks of
             [only] \<Rightarrow>
               if 1 < length only then
                 let midpoint = max 1 (length only div 2) in [take midpoint only, drop midpoint only]
               else chunks
           | _ \<Rightarrow> chunks)"

subsection \<open>Text of an event\<close>

text \<open>\<open>x.get(key, default)\<close> on a parsed value: only a dict has \<open>get\<close>.\<close>

definition py_get :: "json \<Rightarrow> string \<Rightarrow> json \<Rightarrow> err + json" where
  "py_get v k dflt =
     (case v of JObj m \<Rightarrow> Inr (case map_of m k of None \<Rightarrow> dflt | Some x \<Rightarrow> x) | _ \<Rightarrow> Inl AttributeError)"

text \<open>\<open>x[0]\<close> on a truthy value.\<close>

definition py_first :: "json \<Rightarrow> err + json" where
  "py_first v =
     (case v of
        JList (x # _) \<Rightarrow> Inr x
      | JStr (c # _) \<Rightarrow> Inr (JStr [c])
      | JObj _ \<Rightarrow> Inl (KeyError ''0'')
      | JList [] \<Rightarrow> Inl IndexError
      | JStr [] \<Rightarrow> Inl IndexError
      | _ \<Rightarrow> Inl TypeError)"

definition is_data :: "string \<Rightarrow> bool" where
  "is_data line \<longleftrightarrow> starts_with ''data:'' line"

definition raw_data :: "string \<Rightarrow> string" where
  "raw_data line = py_strip (drop 5 line)"

definition string_or_empty :: "json \<Rightarrow> string" where
  "string_or_empty v = (case v of JStr s \<Rightarrow> s | _ \<Rightarrow> [])"

definition extract_text :: "(string \<Rightarrow> json option) \<Rightarrow> string \<Rightarrow> err + string" where
  "extract_text loads line =
     (if \<not> is_data line then Inr []
      else if raw_data line = [] \<or> raw_data line = ''[DONE]'' then Inr []
      else case loads (raw_data line) of
          None \<Rightarrow> Inr []
        | Some data \<Rightarrow>
            bindE (py_get data ''choices'' JNull) (\<lambda>choices.
              if truthy_json choices then
                bindE (py_first choices) (\<lambda>choice.
                bindE (py_get choice ''delta'' (JObj [])) (\<lambda>delta.
                bindE (py_get delta ''content'' JNull) (\<lambda>content.
                  if truthy_json content then Inr (string_or_empty content)
                  else
                    bindE (py_get choice ''message'' (JObj [])) (\<lambda>message.
                    bindE (py_get message ''content'' JNull) (\<lambda>content.
                      Inr (if truthy_json content then string_or_empty content else []))))))
              else
                bindE (py_get data ''type'' JNull) (\<lambda>kind.
                  if kind = JStr ''response.output_text.delta'' then
                    bindE (py_get data ''delta'' JNull) (\<lambda>delta.
                      Inr (if truthy_json delta then string_or_empty delta else []))
                  else Inr [])))"

definition contains_provider_error :: "(string \<Rightarrow> json option) \<Rightarrow> string \<Rightarrow> err + bool" where
  "contains_provider_error loads line =
     (if \<not> is_data line \<or> raw_data line = [] \<or> raw_data line = ''[DONE]'' then Inr False
      else case loads (raw_data line) of
          None \<Rightarrow> Inr False
        | Some data \<Rightarrow>
            bindE (py_get data ''error'' JNull) (\<lambda>e.
              if truthy_json e then Inr True
              else bindE (py_get data ''type'' JNull) (\<lambda>kind. Inr (kind = JStr ''response.failed''))))"

text \<open>A list or an object has no hash, so asking whether a set contains it raises \<open>TypeError\<close>; the
  question is asked outside the \<open>try\<close> of \<open>_is_terminal_or_full_output_event\<close>.\<close>

definition hashable :: "json \<Rightarrow> bool" where
  "hashable v = (case v of JList _ \<Rightarrow> False | JObj _ \<Rightarrow> False | _ \<Rightarrow> True)"

definition terminal_event :: "(string \<Rightarrow> json option) \<Rightarrow> string \<Rightarrow> err + bool" where
  "terminal_event loads line =
     (if \<not> is_data line then Inr False
      else if raw_data line = ''[DONE]'' then Inr True
      else case loads (raw_data line) of
          Some (JObj m) \<Rightarrow>
            if \<not> hashable (jget m ''type'') then Inl TypeError
            else Inr (jget m ''type'' \<in> {JStr ''response.content_part.done'',
              JStr ''response.output_text.done'', JStr ''response.output_item.done'',
              JStr ''response.completed''})
        | _ \<Rightarrow> Inr False)"

text \<open>\<open>_replace_sse_content\<close>: \<open>data['choices'][0]['delta']['content'] = content\<close>, or the
  \<open>delta\<close> of an event without choices.\<close>

definition put_content :: "string \<Rightarrow> json \<Rightarrow> err + json" where
  "put_content content data =
     (case data of
        JObj m \<Rightarrow>
          let choices = jget m ''choices'' in
          if truthy_json choices then
            (case choices of
               JList (JObj c # cs) \<Rightarrow>
                 (case map_of c ''delta'' of
                    None \<Rightarrow> Inl (KeyError ''delta'')
                  | Some (JObj delta) \<Rightarrow>
                      Inr (JObj (put_key ''choices''
                        (JList (JObj (put_key ''delta'' (JObj (put_key ''content'' (JStr content) delta)) c) # cs)) m))
                  | Some _ \<Rightarrow> Inl TypeError)
             | JObj _ \<Rightarrow> Inl (KeyError ''0'')
             | _ \<Rightarrow> Inl TypeError)
          else Inr (JObj (put_key ''delta'' (JStr content) m))
      | _ \<Rightarrow> Inl AttributeError)"

definition sse_line :: "(json \<Rightarrow> string) \<Rightarrow> json \<Rightarrow> string" where
  "sse_line dumps v = ''data: '' @ dumps v @ [LF, LF]"

definition replace_sse_content ::
    "(string \<Rightarrow> json option) \<Rightarrow> (json \<Rightarrow> string) \<Rightarrow> string \<Rightarrow> string \<Rightarrow> err + string" where
  "replace_sse_content loads dumps line content =
     (case loads (raw_data line) of
        None \<Rightarrow> Inl (ValueError ''json'')
      | Some data \<Rightarrow> bindE (put_content content data) (\<lambda>data. Inr (sse_line dumps data)))"

subsection \<open>The incremental chunker\<close>

record chunker =
  ck_seed :: string
  ck_unit :: stream_unit
  ck_minimum :: int
  ck_maximum :: int
  ck_index :: nat
  ck_template :: "string option"
  ck_pending_text :: string
  ck_pending_events :: "string list"

definition new_chunker :: "string \<Rightarrow> stream_unit \<Rightarrow> int \<Rightarrow> int \<Rightarrow> chunker" where
  "new_chunker seed unit minimum maximum =
     \<lparr>ck_seed = seed, ck_unit = unit, ck_minimum = minimum, ck_maximum = maximum, ck_index = 0,
      ck_template = None, ck_pending_text = [], ck_pending_events = []\<rparr>"

definition target :: "(string \<Rightarrow> nat) \<Rightarrow> chunker \<Rightarrow> nat" where
  "target sha c = nat (chunk_size sha (ck_seed c) (ck_index c) (ck_minimum c) (ck_maximum c))"

text \<open>One round of the loop of \<open>_drain\<close>: the content it takes, or \<open>None\<close> where it breaks.\<close>

definition take_content :: "(string \<Rightarrow> nat) \<Rightarrow> bool \<Rightarrow> chunker \<Rightarrow> (string \<times> chunker) option" where
  "take_content sha final c =
     (let n = target sha c in
      case ck_unit c of
        CHUNK \<Rightarrow>
          if length (ck_pending_events c) < n \<and> \<not> final \<or> ck_pending_events c = [] then None
          else Some (concat (take n (ck_pending_events c)),
                 c\<lparr>ck_pending_events := drop n (ck_pending_events c)\<rparr>)
      | WORD \<Rightarrow>
          let words = find_words (ck_pending_text c);
              ends = (ck_pending_text c \<noteq> [] \<and> py_space (last (ck_pending_text c)));
              complete = (if final \<or> ends then length words else length words - 1)
          in if complete < n \<and> \<not> final \<or> words = [] then None
             else
               let content = concat (take n words)
               in Some (content, c\<lparr>ck_pending_text := drop (length content) (ck_pending_text c)\<rparr>)
      | CHARACTER \<Rightarrow>
          if length (ck_pending_text c) < n \<and> \<not> final \<or> ck_pending_text c = [] then None
          else Some (take n (ck_pending_text c), c\<lparr>ck_pending_text := drop n (ck_pending_text c)\<rparr>))"

text \<open>A round takes something, so the loop ends: what is pending shrinks.\<close>

definition pending_size :: "chunker \<Rightarrow> nat" where
  "pending_size c = length (ck_pending_text c) + length (ck_pending_events c)"

lemma find_words_Nil: "find_words s = [] \<longleftrightarrow> list_all py_space s"
  by (subst find_words.simps) (auto simp: Let_def list_all_iff dest: set_dropWhileD)

lemma find_words_empty: "dropWhile py_space s = [] \<Longrightarrow> find_words s = []"
  by (subst find_words.simps) (simp only: Let_def simp_thms if_True)

lemma find_words_step:
  "dropWhile py_space s \<noteq> [] \<Longrightarrow> find_words s =
     (takeWhile (\<lambda>c. \<not> py_space c) (dropWhile py_space s) @
        takeWhile py_space (dropWhile (\<lambda>c. \<not> py_space c) (dropWhile py_space s))) #
     find_words (dropWhile py_space (dropWhile (\<lambda>c. \<not> py_space c) (dropWhile py_space s)))"
  by (subst find_words.simps) (simp only: Let_def simp_thms if_False)

lemma find_words_nonempty: "w \<in> set (find_words s) \<Longrightarrow> w \<noteq> []"
proof (induction s rule: find_words.induct)
  case (1 s)
  show ?case
  proof (cases "dropWhile py_space s")
    case Nil
    with 1 show ?thesis by (simp add: find_words.simps)
  next
    case (Cons x xs)
    then have "\<not> py_space x" by (metis hd_dropWhile list.distinct(1) list.sel(1))
    with 1 Cons show ?thesis by (subst (asm) (2) find_words.simps) (auto simp: Let_def)
  qed
qed

lemma take_words_nonempty: "find_words s \<noteq> [] \<Longrightarrow> 0 < n \<Longrightarrow> concat (take n (find_words s)) \<noteq> []"
  using find_words_nonempty [of "hd (find_words s)" s] by (cases "find_words s"; cases n) auto

lemma take_content_shrinks:
  assumes "take_content sha final c = Some (t, c')"
  shows "pending_size c' < pending_size c" and "t \<noteq> [] \<or> ck_unit c = CHUNK"
proof -
  have n: "0 < target sha c" unfolding target_def by (rule chunk_size_pos)
  show "pending_size c' < pending_size c"
  proof (cases "ck_unit c")
    case WORD
    let ?ws = "find_words (ck_pending_text c)"
    from assms WORD have ws: "?ws \<noteq> []"
      and c': "c' = c\<lparr>ck_pending_text := drop (length (concat (take (target sha c) ?ws))) (ck_pending_text c)\<rparr>"
      by (auto simp: take_content_def Let_def split: if_splits)
    have "concat (take (target sha c) ?ws) \<noteq> []"
      by (rule take_words_nonempty [OF ws n])
    moreover have "ck_pending_text c \<noteq> []" using ws by (auto simp: find_words.simps)
    ultimately show ?thesis by (simp add: pending_size_def c')
  qed (use assms n in \<open>auto simp: take_content_def pending_size_def Let_def split: if_splits\<close>)
  show "t \<noteq> [] \<or> ck_unit c = CHUNK"
  proof (cases "ck_unit c")
    case WORD
    let ?ws = "find_words (ck_pending_text c)"
    from assms WORD have "?ws \<noteq> []" "t = concat (take (target sha c) ?ws)"
      by (auto simp: take_content_def Let_def split: if_splits)
    then show ?thesis by (simp only: take_words_nonempty [OF _ n] simp_thms)
  next
    case CHARACTER
    with assms have "t = take (target sha c) (ck_pending_text c)" "ck_pending_text c \<noteq> []"
      by (auto simp: take_content_def Let_def split: if_splits)
    with n show ?thesis by simp
  qed simp
qed

function drain_contents :: "(string \<Rightarrow> nat) \<Rightarrow> bool \<Rightarrow> chunker \<Rightarrow> string list \<times> chunker" where
  "drain_contents sha final c =
     (case take_content sha final c of
        None \<Rightarrow> ([], c)
      | Some (t, c') \<Rightarrow>
          let (ts, d) = drain_contents sha final (c'\<lparr>ck_index := ck_index c' + 1\<rparr>) in (t # ts, d))"
  by pat_completeness auto

termination
proof (relation "measure (\<lambda>x. pending_size (snd (snd x)))", goal_cases)
  case 1
  show ?case by (rule wf_measure)
next
  case (2 sha final c x t c')
  then have "pending_size c' < pending_size c" by (metis take_content_shrinks(1))
  moreover have "pending_size (c'\<lparr>ck_index := ck_index c' + 1\<rparr>) = pending_size c'"
    unfolding pending_size_def by (cases c') simp
  ultimately show ?case by (simp only: in_measure snd_conv)
qed

declare drain_contents.simps [simp del]

text \<open>\<open>_drain\<close>: every content taken is put into the template, the first event that had text.\<close>

definition drain_chunks ::
    "(string \<Rightarrow> json option) \<Rightarrow> (json \<Rightarrow> string) \<Rightarrow> (string \<Rightarrow> nat) \<Rightarrow> bool \<Rightarrow> chunker \<Rightarrow> err + (string list \<times> chunker)" where
  "drain_chunks loads dumps sha final c =
     (case ck_template c of
        None \<Rightarrow> Inr ([], c)
      | Some line \<Rightarrow>
          let (ts, d) = drain_contents sha final c in
          bindE (mapE (replace_sse_content loads dumps line) ts) (\<lambda>lines. Inr (lines, d)))"

definition accept_text :: "string \<Rightarrow> string \<Rightarrow> chunker \<Rightarrow> chunker" where
  "accept_text line text c =
     (let c = (if ck_template c = None then c\<lparr>ck_template := Some line\<rparr> else c) in
      if ck_unit c = CHUNK then c\<lparr>ck_pending_events := ck_pending_events c @ [text]\<rparr>
      else c\<lparr>ck_pending_text := ck_pending_text c @ text\<rparr>)"

definition chunker_feed ::
    "(string \<Rightarrow> json option) \<Rightarrow> (json \<Rightarrow> string) \<Rightarrow> (string \<Rightarrow> nat) \<Rightarrow> string \<Rightarrow> chunker \<Rightarrow> err + (string list \<times> chunker)" where
  "chunker_feed loads dumps sha line c =
     bindE (extract_text loads line) (\<lambda>text.
       if text = [] then Inr ([], c)
       else drain_chunks loads dumps sha False (accept_text line text c))"

definition chunker_flush ::
    "(string \<Rightarrow> json option) \<Rightarrow> (json \<Rightarrow> string) \<Rightarrow> (string \<Rightarrow> nat) \<Rightarrow> chunker \<Rightarrow> err + (string list \<times> chunker)" where
  "chunker_flush loads dumps sha c = drain_chunks loads dumps sha True c"

end
