(* ===== verification/Chunker_Properties.thy ===== *)
theory Chunker_Properties
  imports Response_Chunker
begin

text \<open>
  What the chunker does to the text of a stream: by characters and by events nothing is lost,
  by words nothing is lost as long as white space never starts a pending text, and a stream
  that starts with white space comes out changed.
\<close>

subsection \<open>Words and their concatenation\<close>

definition clean :: "string \<Rightarrow> bool" where
  "clean s \<longleftrightarrow> s = [] \<or> \<not> py_space (hd s)"

lemma clean_dropWhile: "clean (dropWhile py_space s)"
  using hd_dropWhile [of py_space s] by (auto simp: clean_def)

lemma concat_find_words: "concat (find_words s) = dropWhile py_space s"
proof (induction s rule: find_words.induct)
  case (1 s)
  show ?case
  proof (cases "dropWhile py_space s = []")
    case True
    then show ?thesis by (simp only: find_words_empty concat.simps)
  next
    case False
    show ?thesis
      unfolding find_words_step [OF False] concat.simps 1 [OF refl False refl refl] append_assoc
        dropWhile_stripped takeWhile_dropWhile_id by (rule refl)
  qed
qed

lemma concat_find_words_clean: "clean s \<Longrightarrow> concat (find_words s) = s"
  by (cases s) (auto simp: concat_find_words clean_def)

lemma clean_rest: "clean (concat (drop n (find_words s)))"
proof (induction s arbitrary: n rule: find_words.induct)
  case (1 s)
  show ?case
  proof (cases n)
    case 0
    then show ?thesis by (simp add: concat_find_words clean_dropWhile)
  next
    case (Suc m)
    show ?thesis
    proof (cases "dropWhile py_space s = []")
      case True
      then show ?thesis by (simp only: find_words_empty drop_Nil concat.simps) (simp add: clean_def)
    next
      case False
      show ?thesis
        unfolding find_words_step [OF False] Suc drop_Suc_Cons by (rule 1 [OF refl False refl refl])
    qed
  qed
qed

lemma drop_concat_take: "drop (length (concat (take n xs))) (concat xs) = concat (drop n xs)"
  by (metis append_eq_conv_conj append_take_drop_id concat_append)

lemma find_words_trailing: "concat (drop n (find_words s)) = [] \<Longrightarrow> drop n (find_words s) = []"
  using find_words_nonempty [of _ s] in_set_dropD [of _ n "find_words s"]
  by (cases "drop n (find_words s)") fastforce+

subsection \<open>One round\<close>

definition pending :: "chunker \<Rightarrow> string" where
  "pending c = (if ck_unit c = CHUNK then concat (ck_pending_events c) else ck_pending_text c)"

definition intact :: "chunker \<Rightarrow> bool" where
  "intact c \<longleftrightarrow> ck_unit c = WORD \<longrightarrow> clean (ck_pending_text c)"

lemma take_content_intact:
  assumes t: "take_content sha final c = Some (t, c')" and i: "intact c"
  shows "intact c'" and "t @ pending c' = pending c" and "ck_unit c' = ck_unit c"
proof -
  have all: "intact c' \<and> t @ pending c' = pending c \<and> ck_unit c' = ck_unit c"
  proof (cases "ck_unit c")
    case WORD
    let ?ws = "find_words (ck_pending_text c)" and ?n = "target sha c"
    from t WORD have t': "t = concat (take ?n ?ws)"
      and c': "c' = c\<lparr>ck_pending_text := drop (length t) (ck_pending_text c)\<rparr>"
      by (auto simp: take_content_def Let_def split: if_splits)
    have p: "concat ?ws = ck_pending_text c"
      using i WORD by (simp add: intact_def concat_find_words_clean)
    have r: "drop (length t) (ck_pending_text c) = concat (drop ?n ?ws)"
      using drop_concat_take [of ?n ?ws] by (simp add: p t')
    have "ck_pending_text c' = concat (drop ?n ?ws)" "ck_unit c' = WORD" "ck_unit c' = ck_unit c"
      using WORD r by (simp_all add: c')
    moreover have "t @ concat (drop ?n ?ws) = ck_pending_text c"
      by (metis append_take_drop_id concat_append p t')
    ultimately show ?thesis
      using clean_rest [of ?n "ck_pending_text c"] WORD by (simp add: intact_def pending_def)
  next
    case CHUNK
    with t show ?thesis
      by (auto simp: take_content_def Let_def pending_def intact_def simp flip: concat_append split: if_splits)
  next
    case CHARACTER
    with t show ?thesis
      by (auto simp: take_content_def Let_def pending_def intact_def split: if_splits)
  qed
  then show "intact c'" "t @ pending c' = pending c" "ck_unit c' = ck_unit c" by auto
qed

lemma take_content_emptied:
  assumes t: "take_content sha False c = Some (t, c')" and u: "ck_unit c = WORD" and i: "intact c"
    and e: "ck_pending_text c' = []"
  shows "py_space (last (ck_pending_text c))"
proof (rule ccontr)
  assume no: "\<not> py_space (last (ck_pending_text c))"
  let ?ws = "find_words (ck_pending_text c)" and ?n = "target sha c"
  from t u no have n: "?n \<le> length ?ws - 1" "?ws \<noteq> []"
    and t': "t = concat (take ?n ?ws)"
    and c': "ck_pending_text c' = drop (length t) (ck_pending_text c)"
    by (auto simp: take_content_def Let_def split: if_splits)
  have "concat ?ws = ck_pending_text c" using i u by (simp add: intact_def concat_find_words_clean)
  then have "concat (drop ?n ?ws) = []" using drop_concat_take [of ?n ?ws] e c' t' by simp
  then have "length ?ws \<le> ?n" using find_words_trailing by fastforce
  with n show False by (cases ?ws) auto
qed

lemma take_content_final:
  assumes "take_content sha True c = None" and "intact c"
  shows "pending c = []"
proof (cases "ck_unit c")
  case WORD
  with assms have "find_words (ck_pending_text c) = []" "clean (ck_pending_text c)"
    by (auto simp: take_content_def Let_def intact_def split: if_splits)
  then show ?thesis using concat_find_words_clean [of "ck_pending_text c"] WORD by (simp add: pending_def)
qed (use assms in \<open>auto simp: take_content_def Let_def pending_def split: if_splits\<close>)

subsection \<open>The loop\<close>

lemma drain_intact:
  assumes "drain_contents sha final c = (ts, d)" and "intact c"
  shows "intact d \<and> concat ts @ pending d = pending c \<and> ck_unit d = ck_unit c \<and>
    (final \<longrightarrow> pending d = []) \<and>
    (\<not> final \<longrightarrow> ck_unit c = WORD \<longrightarrow> pending d = [] \<longrightarrow> pending c \<noteq> [] \<longrightarrow> py_space (last (pending c)))"
  using assms
proof (induction sha final c arbitrary: ts d rule: drain_contents.induct)
  case (1 sha final c)
  show ?case
  proof (cases "take_content sha final c")
    case None
    then have "ts = []" "d = c" using "1.prems"(1) by (subst (asm) drain_contents.simps, simp)+
    with None "1.prems"(2) take_content_final [of sha c] show ?thesis by auto
  next
    case (Some x)
    then obtain t c' where x: "take_content sha final c = Some (t, c')" by force
    define e where "e = c'\<lparr>ck_index := ck_index c' + 1\<rparr>"
    obtain us where us: "drain_contents sha final e = (us, d)" "ts = t # us"
      using "1.prems"(1) x by (subst (asm) drain_contents.simps) (auto simp: e_def split: prod.splits)
    note c' = take_content_intact [OF x "1.prems"(2)]
    have e: "intact e" "pending e = pending c'" "ck_unit e = ck_unit c" "ck_pending_text e = ck_pending_text c'"
      using c' by (simp_all add: e_def intact_def pending_def)
    have ih: "intact d \<and> concat us @ pending d = pending e \<and> ck_unit d = ck_unit e \<and>
        (final \<longrightarrow> pending d = []) \<and>
        (\<not> final \<longrightarrow> ck_unit e = WORD \<longrightarrow> pending d = [] \<longrightarrow> pending e \<noteq> [] \<longrightarrow> py_space (last (pending e)))"
      by (rule "1.IH" [OF x refl us(1) [unfolded e_def] e(1) [unfolded e_def], folded e_def])
    have "py_space (last (pending c))"
      if "\<not> final" "ck_unit c = WORD" "pending d = []" "pending c \<noteq> []"
    proof (cases "pending e = []")
      case True
      then have "ck_pending_text c' = []" using e that(2) by (simp add: pending_def)
      with take_content_emptied [of sha c t c'] x that "1.prems"(2) show ?thesis by (simp add: pending_def)
    next
      case False
      then have "py_space (last (pending e))" using ih e(3) that by auto
      then show ?thesis using c'(2) e(2) False by (metis last_appendR)
    qed
    then show ?thesis using ih e c' us(2) by auto
  qed
qed

subsection \<open>A stream\<close>

fun feed_contents :: "(string \<Rightarrow> nat) \<Rightarrow> (string \<times> string) list \<Rightarrow> chunker \<Rightarrow> string list \<times> chunker" where
  "feed_contents sha [] c = ([], c)"
| "feed_contents sha ((line, text) # rest) c =
     (let (a, c) = drain_contents sha False (accept_text line text c);
          (b, c) = feed_contents sha rest c
      in (a @ b, c))"

definition stream_contents :: "(string \<Rightarrow> nat) \<Rightarrow> (string \<times> string) list \<Rightarrow> chunker \<Rightarrow> string list" where
  "stream_contents sha evs c =
     (let (a, c) = feed_contents sha evs c in a @ fst (drain_contents sha True c))"

text \<open>White space starts a text only behind a text that ends in a word.\<close>

fun word_safe :: "bool \<Rightarrow> string list \<Rightarrow> bool" where
  "word_safe inside [] = True"
| "word_safe inside (t # ts) =
     (t \<noteq> [] \<and> (inside \<or> \<not> py_space (hd t)) \<and> word_safe (\<not> py_space (last t)) ts)"

lemma accept_pending: "pending (accept_text line text c) = pending c @ text"
  "ck_unit (accept_text line text c) = ck_unit c"
  "ck_unit c \<noteq> CHUNK \<Longrightarrow> ck_pending_text (accept_text line text c) = ck_pending_text c @ text"
  by (auto simp: accept_text_def pending_def Let_def)

lemma feed_intact:
  assumes "feed_contents sha evs c = (ts, d)" and "intact c"
    and "ck_unit c = WORD \<Longrightarrow> word_safe inside (map snd evs)"
    and "ck_unit c = WORD \<Longrightarrow> inside \<Longrightarrow> ck_pending_text c \<noteq> []"
  shows "intact d \<and> concat ts @ pending d = pending c @ concat (map snd evs) \<and> ck_unit d = ck_unit c"
  using assms
proof (induction evs arbitrary: c ts inside)
  case Nil
  then show ?case by simp
next
  case (Cons ev rest)
  obtain ln tx where ev: "ev = (ln, tx)" by force
  define b where "b = accept_text ln tx c"
  obtain a e where aa: "drain_contents sha False b = (a, e)" by force
  obtain us where us: "feed_contents sha rest e = (us, d)" "ts = a @ us"
    using Cons.prems(1) aa by (auto simp: ev b_def split: prod.splits)
  have unit: "ck_unit b = ck_unit c" by (simp add: b_def accept_pending)
  have ib: "intact b"
    using Cons.prems(2-4) by (cases "ck_pending_text c")
      (auto simp: b_def intact_def accept_pending ev clean_def)
  have pb: "pending b = pending c @ tx" by (simp add: b_def accept_pending)
  note dr = drain_intact [OF aa ib]
  have "intact d \<and> concat us @ pending d = pending e @ concat (map snd rest) \<and> ck_unit d = ck_unit e"
  proof (rule Cons.IH [OF us(1)])
    show "intact e" using dr by blast
    show "word_safe (\<not> py_space (last tx)) (map snd rest)" if "ck_unit e = WORD"
      using Cons.prems(3) dr unit that by (simp add: ev)
    show "ck_pending_text e \<noteq> []" if w: "ck_unit e = WORD" and l: "\<not> py_space (last tx)"
    proof
      assume "ck_pending_text e = []"
      moreover have "tx \<noteq> []" using Cons.prems(3) dr unit w by (simp add: ev)
      moreover have "ck_unit b = WORD" "ck_unit c = WORD" using dr unit w by auto
      moreover have "pending b \<noteq> []" "last (pending b) = last tx"
        using \<open>tx \<noteq> []\<close> by (simp_all add: pb)
      moreover have "pending e = []" using \<open>ck_pending_text e = []\<close> w by (simp add: pending_def)
      ultimately show False using dr l by simp
    qed
  qed
  then show ?case using dr unit pb by (auto simp: ev us(2))
qed

lemma stream_text:
  assumes "unit \<noteq> WORD \<or> word_safe False (map snd evs)"
  shows "concat (stream_contents sha evs (new_chunker seed unit lo hi)) = concat (map snd evs)"
proof -
  let ?c = "new_chunker seed unit lo hi"
  obtain a d where a: "feed_contents sha evs ?c = (a, d)" by force
  have f: "intact d \<and> concat a @ pending d = concat (map snd evs)"
    using feed_intact [OF a, of False] assms
    by (auto simp: intact_def new_chunker_def clean_def pending_def)
  obtain b e where b: "drain_contents sha True d = (b, e)" by force
  show ?thesis using drain_intact [OF b] f by (auto simp: stream_contents_def a b)
qed

text \<open>
  C15. The pieces a stream is cut into give its text back. By characters and by events this
  holds for every stream and every choice of sizes; by words it holds when white space starts a
  text only behind a text that ends in a word.
\<close>

theorem stream_keeps_text:
  assumes "unit \<noteq> WORD \<or> word_safe False (map snd evs)"
  shows "concat (stream_contents sha evs (new_chunker seed unit lo hi)) = concat (map snd evs)"
  by (rule stream_text [OF assms])

lemma stream_keeps_text_witness:
  "concat (stream_contents length [(''e'', ''ab cd''), (''f'', '' ef'')] (new_chunker ''r'' WORD 1 3)) = ''ab cd ef''"
  using stream_keeps_text [of WORD "[(''e'', ''ab cd''), (''f'', '' ef'')]" length "''r''" 1 3]
  by (simp add: py_space_def)

text \<open>
  Without that condition the text comes out changed: a word-wise stream whose text starts
  with white space repeats the end of its first word, because the content that is cut off the
  pending text is counted from the first word instead of from the white space before it.
\<close>

theorem leading_space_corrupts:
  "stream_contents sha [(line, ''  hello'')] (new_chunker seed WORD 1 1) = [''hello'', ''lo'']"
proof -
  have w: "find_words ''  hello'' = [''hello'']" "find_words ''lo'' = [''lo'']" "find_words [] = []"
    by (simp_all add: find_words.simps py_space_def)
  have n: "chunk_size sha seed i 1 1 = 1" for i by (simp add: chunk_size_def)
  show ?thesis
    by (simp add: stream_contents_def drain_contents.simps take_content_def accept_text_def
        new_chunker_def target_def n w py_space_def)
qed

end
