(* ===== verification/Task_Progression.thy ===== *)
theory Task_Progression
  imports Plan_Store
begin

text \<open>
  How a session moves through its tasks (\<open>_done\<close>, \<open>_activate_initial\<close>, \<open>_activate_task_block\<close>
  and \<open>advance_after_stage\<close> of \<open>ExperimentTable\<close>, \<open>models/experiments.py\<close>). The rows of a session
  are a list in the order of their positions; the code changes the loaded row objects, which the
  later commit writes back: \<open>put_rows\<close>.
\<close>

subsection \<open>Rows\<close>

definition task_done :: "session_task \<Rightarrow> bool" where
  "task_done r \<longleftrightarrow> st_status r \<in> {FINALIZED, SKIPPED}"

abbreviation is_survey :: "session_task \<Rightarrow> bool" where
  "is_survey r \<equiv> st_task_type r = SURVEY"

definition set_status :: "session_task_status \<Rightarrow> int \<Rightarrow> session_task \<Rightarrow> session_task" where
  "set_status s now r = r\<lparr>st_status := s, st_started_at := lock_at now (st_started_at r), st_updated_at := now\<rparr>"

text \<open>The unfinished rows from \<open>start\<close> up to the next survey.\<close>

definition task_block :: "session_task list \<Rightarrow> nat \<Rightarrow> session_task list" where
  "task_block rows start =
     filter (\<lambda>r. \<not> task_done r) (takeWhile (\<lambda>r. \<not> is_survey r) (drop start rows))"

definition activate_task_block ::
    "progression_mode \<Rightarrow> session_task list \<Rightarrow> nat \<Rightarrow> int \<Rightarrow> session_task list" where
  "activate_task_block mode rows start now =
     (case task_block rows start of
        [] \<Rightarrow> rows
      | b # bs \<Rightarrow>
          if mode = FREE_NAVIGATION
          then upd_rows (\<lambda>r. st_id r \<in> set (map st_id (b # bs))) (set_status AVAILABLE now) rows
          else upd_by st_id (st_id b) (set_status ACTIVE now) rows)"

definition reset_row :: "int \<Rightarrow> session_task \<Rightarrow> session_task" where
  "reset_row now r = r\<lparr>st_status := LOCKED, st_started_at := None, st_updated_at := now\<rparr>"

definition activate_initial :: "progression_mode \<Rightarrow> session_task list \<Rightarrow> int \<Rightarrow> session_task list" where
  "activate_initial mode rows now =
     (case map (reset_row now) rows of
        [] \<Rightarrow> []
      | r # rs \<Rightarrow>
          if is_survey r then r\<lparr>st_status := ACTIVE, st_started_at := Some now\<rparr> # rs
          else activate_task_block mode (r # rs) 0 now)"

subsection \<open>After a stage\<close>

definition end_tasks :: "experiment_state \<Rightarrow> int \<Rightarrow> experiment_session \<Rightarrow> experiment_session" where
  "end_tasks st now s =
     s\<lparr>xs_state := st, xs_task_submitted_at := lock_at now (xs_task_submitted_at s), xs_updated_at := now\<rparr>"

definition next_open :: "int \<Rightarrow> session_task list \<Rightarrow> session_task option" where
  "next_open position rows = find_row (\<lambda>r. position < st_position r \<and> \<not> task_done r) rows"

definition row_index :: "session_task \<Rightarrow> session_task list \<Rightarrow> nat" where
  "row_index r rows = length (takeWhile (\<lambda>x. st_id x \<noteq> st_id r) rows)"

definition advance_rows ::
    "progression_mode \<Rightarrow> bool \<Rightarrow> bool \<Rightarrow> int \<Rightarrow> session_task \<Rightarrow>
     session_task list \<times> experiment_session \<Rightarrow> session_task list \<times> experiment_session" where
  "advance_rows mode superseded task_block_finalized now completed = (\<lambda>(rows, s).
     if filter (\<lambda>r. \<not> task_done r) rows = [] then
       let legacy = (superseded \<and> \<not> list_ex is_survey rows)
       in (rows, end_tasks (if legacy then POST_SURVEY_REQUIRED else THANK_YOU_REQUIRED) now s)
     else if mode = STRICT_SEQUENTIAL then
       (case next_open (st_position completed) rows of
          None \<Rightarrow> (rows, s)
        | Some r \<Rightarrow> (upd_by st_id (st_id r) (set_status ACTIVE now) rows, s))
     else if is_survey completed then
       (case next_open (st_position completed) rows of
          None \<Rightarrow> (rows, s)
        | Some r \<Rightarrow>
            if is_survey r then (upd_by st_id (st_id r) (set_status ACTIVE now) rows, s)
            else (activate_task_block mode rows (row_index r rows) now, s))
     else if task_block_finalized then
       (case find_row (\<lambda>r. is_survey r \<and> st_position completed < st_position r \<and> \<not> task_done r) rows of
          Some r \<Rightarrow> (upd_by st_id (st_id r) (set_status ACTIVE now) rows, s)
        | None \<Rightarrow> (rows, end_tasks THANK_YOU_REQUIRED now s))
     else (rows, s))"

subsection \<open>On the store\<close>

definition put_rows :: "session_task list \<Rightarrow> experiment_db \<Rightarrow> experiment_db" where
  "put_rows rows d =
     d\<lparr>xd_tasks := map (\<lambda>t. case get_by st_id (st_id t) rows of None \<Rightarrow> t | Some r \<Rightarrow> r) (xd_tasks d)\<rparr>"

definition put_session :: "experiment_session \<Rightarrow> experiment_db \<Rightarrow> experiment_db" where
  "put_session s d = d\<lparr>xd_sessions := upd_by xs_id (xs_id s) (\<lambda>_. s) (xd_sessions d)\<rparr>"

definition plan_of :: "string option \<Rightarrow> experiment_db \<Rightarrow> err + plan_model option" where
  "plan_of plan_id d = (case plan_id of None \<Rightarrow> Inr None | Some p \<Rightarrow> get_plan p d)"

definition advance_after_stage ::
    "int \<Rightarrow> string \<Rightarrow> session_task \<Rightarrow> bool \<Rightarrow> experiment_db \<Rightarrow> err + experiment_db" where
  "advance_after_stage now session_id completed task_block_finalized d =
     (case get_by xs_id session_id (xd_sessions d) of
        None \<Rightarrow> Inl AttributeError
      | Some s \<Rightarrow>
          bindE (plan_of (xs_plan_id s) d) (\<lambda>plan.
            case plan of
              None \<Rightarrow> Inl AttributeError
            | Some p \<Rightarrow>
                let (rows, s') = advance_rows (pl_progression_mode p) (pl_status p = PN_SUPERSEDED)
                      task_block_finalized now completed (session_rows session_id d, s)
                in Inr (put_session s' (put_rows rows d))))"

end
