(* ===== verification/Strict_Progress.thy ===== *)
theory Strict_Progress
  imports Task_Progression
begin

text \<open>
  Strictly sequential experiments: the rows of a session are some finished stages, one active
  stage and the locked rest, so that a session is described by the number of its finished
  stages. Starting gives zero, finishing the active stage adds one, and the session leaves
  \<open>IN_PROGRESS\<close> exactly when all stages are finished.
\<close>

subsection \<open>The shape of the rows\<close>

definition rows_ok :: "session_task list \<Rightarrow> bool" where
  "rows_ok rows \<longleftrightarrow> distinct (map st_id rows) \<and> sorted_wrt (<) (map st_position rows)"

definition strict_at :: "nat \<Rightarrow> session_task list \<Rightarrow> bool" where
  "strict_at k rows \<longleftrightarrow> k \<le> length rows \<and> list_all task_done (take k rows) \<and>
     (case drop k rows of
        [] \<Rightarrow> True
      | r # rs \<Rightarrow> st_status r = ACTIVE \<and> list_all (\<lambda>r. st_status r = LOCKED) rs)"

text \<open>The abstraction: how many stages are finished.\<close>

definition finished :: "session_task list \<Rightarrow> nat" where
  "finished rows = length (takeWhile task_done rows)"

definition finishes :: "(session_task \<Rightarrow> session_task) \<Rightarrow> bool" where
  "finishes f \<longleftrightarrow> (\<forall>r. task_done (f r) \<and> st_id (f r) = st_id r \<and> st_position (f r) = st_position r \<and>
     st_task_type (f r) = st_task_type r \<and> st_experiment_session_id (f r) = st_experiment_session_id r)"

lemma finishesD:
  assumes "finishes f"
  shows "task_done (f r)" "st_id (f r) = st_id r" "st_position (f r) = st_position r"
    "st_task_type (f r) = st_task_type r" "st_experiment_session_id (f r) = st_experiment_session_id r"
  using assms by (auto simp: finishes_def)

lemma set_status_fields [simp]:
  "st_id (set_status st now r) = st_id r" "st_position (set_status st now r) = st_position r"
  "st_task_type (set_status st now r) = st_task_type r" "st_status (set_status st now r) = st"
  "st_experiment_session_id (set_status st now r) = st_experiment_session_id r"
  by (simp_all add: set_status_def)

lemma reset_row_fields [simp]:
  "st_id (reset_row now r) = st_id r" "st_position (reset_row now r) = st_position r"
  "st_task_type (reset_row now r) = st_task_type r" "st_status (reset_row now r) = LOCKED"
  "st_experiment_session_id (reset_row now r) = st_experiment_session_id r"
  by (simp_all add: reset_row_def)

lemma done_status [simp]:
  "st_status r = ACTIVE \<Longrightarrow> \<not> task_done r" "st_status r = LOCKED \<Longrightarrow> \<not> task_done r"
  "st_status r = AVAILABLE \<Longrightarrow> \<not> task_done r" "st_status r = COMPLETED \<Longrightarrow> \<not> task_done r"
  by (simp_all add: task_done_def)

lemma strict_at_split:
  "strict_at k rows \<longleftrightarrow> (\<exists>xs ys. rows = xs @ ys \<and> length xs = k \<and> list_all task_done xs \<and>
     (ys = [] \<or> (\<exists>r rs. ys = r # rs \<and> st_status r = ACTIVE \<and> list_all (\<lambda>r. st_status r = LOCKED) rs)))"
proof
  assume s: "strict_at k rows"
  show "\<exists>xs ys. rows = xs @ ys \<and> length xs = k \<and> list_all task_done xs \<and>
     (ys = [] \<or> (\<exists>r rs. ys = r # rs \<and> st_status r = ACTIVE \<and> list_all (\<lambda>r. st_status r = LOCKED) rs))"
    by (rule exI [of _ "take k rows"], rule exI [of _ "drop k rows"])
      (use s in \<open>auto simp: strict_at_def split: list.splits\<close>)
next
  assume "\<exists>xs ys. rows = xs @ ys \<and> length xs = k \<and> list_all task_done xs \<and>
     (ys = [] \<or> (\<exists>r rs. ys = r # rs \<and> st_status r = ACTIVE \<and> list_all (\<lambda>r. st_status r = LOCKED) rs))"
  then show "strict_at k rows" by (auto simp: strict_at_def)
qed

lemma strict_finished:
  assumes "strict_at k rows" shows "finished rows = k"
proof -
  obtain xs ys where rows: "rows = xs @ ys" "length xs = k" "list_all task_done xs"
    and ys: "ys = [] \<or> (\<exists>r rs. ys = r # rs \<and> st_status r = ACTIVE)"
    using assms unfolding strict_at_split by blast
  have "takeWhile task_done (xs @ ys) = xs @ takeWhile task_done ys"
    using rows(3) by (simp add: list_all_iff)
  moreover have "takeWhile task_done ys = []" using ys by auto
  ultimately show ?thesis by (simp add: finished_def rows)
qed

lemma strict_all_done:
  assumes "strict_at k rows" shows "filter (\<lambda>r. \<not> task_done r) rows = [] \<longleftrightarrow> k = length rows"
proof -
  obtain xs ys where rows: "rows = xs @ ys" "length xs = k" "list_all task_done xs"
    and ys: "ys = [] \<or> (\<exists>r rs. ys = r # rs \<and> st_status r = ACTIVE)"
    using assms unfolding strict_at_split by blast
  have "filter (\<lambda>r. \<not> task_done r) xs = []"
    using rows(3) by (simp add: list_all_iff filter_empty_conv)
  with ys rows(2) show ?thesis by (auto simp: rows(1))
qed

text \<open>The next open row behind a finished stage is the first row after it.\<close>

lemma find_row_skip: "(\<And>r. r \<in> set xs \<Longrightarrow> \<not> P r) \<Longrightarrow> find_row P (xs @ ys) = find_row P ys"
  by (induction xs) auto

lemma upd_by_middle:
  assumes "distinct (map st_id (xs @ r # ys))"
  shows "upd_by st_id (st_id r) f (xs @ r # ys) = xs @ f r # ys"
proof -
  have "st_id r \<notin> st_id ` set xs" "st_id r \<notin> st_id ` set ys" using assms by auto
  then show ?thesis
    by (simp add: upd_by_def upd_rows_append) (simp add: upd_by_absent flip: upd_by_def)
qed

lemma next_open_after:
  assumes "list_all task_done xs" and "st_position r < st_position s" and "\<not> task_done s"
    and "\<not> st_position r < st_position c \<or> task_done c"
  shows "next_open (st_position r) (xs @ c # s # ys) = Some s"
  using assms by (auto simp: next_open_def list_all_iff find_row_skip)

subsection \<open>Starting\<close>

lemma activate_initial_strict:
  assumes "distinct (map st_id rows)" and "mode \<noteq> FREE_NAVIGATION"
  shows "strict_at 0 (activate_initial mode rows now)"
proof (cases rows)
  case Nil
  then show ?thesis by (simp add: activate_initial_def strict_at_def)
next
  case (Cons r rs)
  have l: "list_all (\<lambda>r. st_status r = LOCKED) (map (reset_row now) rs)"
    by (simp add: list_all_iff)
  show ?thesis
  proof (cases "is_survey r")
    case True
    with Cons l show ?thesis by (simp add: activate_initial_def strict_at_def)
  next
    case False
    then obtain bs where "task_block (map (reset_row now) rows) 0 = reset_row now r # bs"
      using Cons by (simp add: task_block_def)
    moreover have "upd_by st_id (st_id r) (set_status ACTIVE now) (map (reset_row now) rows) =
        set_status ACTIVE now (reset_row now r) # map (reset_row now) rs"
      using upd_by_middle [of "[]" "reset_row now r" "map (reset_row now) rs"] assms(1) Cons
      by (simp add: comp_def)
    ultimately have "activate_initial mode rows now =
        set_status ACTIVE now (reset_row now r) # map (reset_row now) rs"
      using False Cons assms(2) by (simp add: activate_initial_def activate_task_block_def)
    with l show ?thesis by (simp add: strict_at_def)
  qed
qed

subsection \<open>Finishing a stage\<close>

definition end_state :: "bool \<Rightarrow> session_task list \<Rightarrow> experiment_state" where
  "end_state superseded rows =
     (if superseded \<and> \<not> list_ex is_survey rows then POST_SURVEY_REQUIRED else THANK_YOU_REQUIRED)"

lemma advance_rows_end:
  "filter (\<lambda>r. \<not> task_done r) rows = [] \<Longrightarrow>
   advance_rows mode old fin now c (rows, s) = (rows, end_tasks (end_state old rows) now s)"
  by (simp only: advance_rows_def prod.case if_True Let_def end_state_def simp_thms)

lemma advance_rows_strict:
  "filter (\<lambda>r. \<not> task_done r) rows \<noteq> [] \<Longrightarrow>
   advance_rows STRICT_SEQUENTIAL old fin now c (rows, s) =
     (case next_open (st_position c) rows of
        None \<Rightarrow> (rows, s)
      | Some r \<Rightarrow> (upd_by st_id (st_id r) (set_status ACTIVE now) rows, s))"
  by (simp only: advance_rows_def prod.case if_False if_True simp_thms)

lemma list_ex_finish: "finishes f \<Longrightarrow> list_ex is_survey (xs @ f r # ys) = list_ex is_survey (xs @ r # ys)"
  by (simp add: finishesD)

text \<open>Finishing the active stage of a strict session.\<close>

definition finish_stage ::
    "progression_mode \<Rightarrow> bool \<Rightarrow> int \<Rightarrow> (session_task \<Rightarrow> session_task) \<Rightarrow> string \<Rightarrow>
     session_task list \<times> experiment_session \<Rightarrow> session_task list \<times> experiment_session" where
  "finish_stage mode superseded now f task_id = (\<lambda>(rows, s).
     case get_by st_id task_id rows of
       None \<Rightarrow> (rows, s)
     | Some r \<Rightarrow> advance_rows mode superseded False now (f r) (upd_by st_id task_id f rows, s))"

lemma finish_stage_strict:
  assumes ok: "rows_ok rows" and st: "strict_at k rows" and k: "k < length rows" and f: "finishes f"
    and step: "finish_stage STRICT_SEQUENTIAL old now f (st_id (rows ! k)) (rows, s) = (rows', s')"
  shows "strict_at (k + 1) rows'" and "rows_ok rows'" and "map st_id rows' = map st_id rows"
    and "map st_task_type rows' = map st_task_type rows"
    and "s' = (if k + 1 = length rows then end_tasks (end_state old rows) now s else s)"
proof -
  obtain xs r rs where rows: "rows = xs @ r # rs" and xs: "length xs = k" "list_all task_done xs"
    and r: "st_status r = ACTIVE" "list_all (\<lambda>r. st_status r = LOCKED) rs"
    using st k by (auto simp: strict_at_split)
  have rk: "rows ! k = r" using xs by (simp add: rows nth_append)
  have dist: "distinct (map st_id (xs @ r # rs))" using ok by (simp add: rows_ok_def rows)
  have get: "get_by st_id (st_id r) rows = Some r"
    by (rule get_by_distinct) (use dist in \<open>simp_all add: rows\<close>)
  have upd: "upd_by st_id (st_id r) f rows = xs @ f r # rs"
    unfolding rows by (rule upd_by_middle [OF dist])
  have run: "advance_rows STRICT_SEQUENTIAL old False now (f r) (xs @ f r # rs, s) = (rows', s')"
    using step by (simp add: finish_stage_def rk get upd)
  have "strict_at (k + 1) rows' \<and> rows_ok rows' \<and> map st_id rows' = map st_id rows \<and>
      map st_task_type rows' = map st_task_type rows \<and>
      s' = (if k + 1 = length rows then end_tasks (end_state old rows) now s else s)"
  proof (cases rs)
    case Nil
    have "filter (\<lambda>r. \<not> task_done r) (xs @ f r # rs) = []"
      using xs f Nil by (auto simp: finishesD filter_empty_conv list_all_iff)
    then have "(rows', s') = (xs @ [f r], end_tasks (end_state old rows) now s)"
      using run list_ex_finish [OF f, of xs r rs] advance_rows_end [of "xs @ f r # rs"] Nil
      by (simp add: end_state_def rows)
    with Nil xs f ok show ?thesis
      by (auto simp: strict_at_def rows_ok_def rows finishesD)
  next
    case (Cons q qs)
    have open_rows: "filter (\<lambda>r. \<not> task_done r) (xs @ f r # rs) \<noteq> []"
      using r Cons by simp
    have "st_position r < st_position q" using ok by (simp add: rows_ok_def rows Cons sorted_wrt_append)
    then have "next_open (st_position (f r)) (xs @ f r # q # qs) = Some q"
      using next_open_after [of xs "f r" q "f r" qs] xs r Cons f by (simp add: finishesD)
    moreover have "upd_by st_id (st_id q) (set_status ACTIVE now) (xs @ f r # q # qs) =
        xs @ f r # set_status ACTIVE now q # qs"
      using upd_by_middle [of "xs @ [f r]" q qs "set_status ACTIVE now"] dist f
      by (simp add: Cons finishesD)
    ultimately have "(rows', s') = (xs @ f r # set_status ACTIVE now q # qs, s)"
      using advance_rows_strict [OF open_rows] Cons run by simp
    with Cons xs f r ok show ?thesis
      by (auto simp: strict_at_def rows_ok_def rows finishesD)
  qed
  then show "strict_at (k + 1) rows'" "rows_ok rows'" "map st_id rows' = map st_id rows"
    "map st_task_type rows' = map st_task_type rows"
    "s' = (if k + 1 = length rows then end_tasks (end_state old rows) now s else s)" by blast+
qed

end
