(* ===== verification/Essay_Topic.thy ===== *)
theory Essay_Topic
  imports Plan_Store
begin

text \<open>
  Essays, essay topics and their assignment to participants (\<open>models/essays.py\<close>). Every method
  opens a database session of its own and commits, so its effect is the new store. The rendering
  of Markdown that counts words and characters (\<open>essay_text_metrics\<close>) rests on two third-party
  packages and is the parameter \<open>metrics\<close>.
\<close>

subsection \<open>Essays\<close>

definition new_essay ::
    "(string \<Rightarrow> int \<times> int) \<Rightarrow> string \<Rightarrow> int \<Rightarrow> string \<Rightarrow> string \<Rightarrow> string option \<Rightarrow> string option \<Rightarrow> string option \<Rightarrow>
     string option \<Rightarrow> essay" where
  "new_essay metrics i now user_id content topic_id topic_title topic_question task_id =
     (let (words, characters) = metrics content in
      \<lparr>ey_id = i, ey_user_id = user_id, ey_content = content, ey_topic_id = topic_id,
       ey_topic_title = topic_title, ey_topic_question = topic_question, ey_word_count = Some words,
       ey_character_count = Some characters, ey_experiment_session_task_id = task_id,
       ey_created_at = now, ey_updated_at = now\<rparr>)"

definition insert_new_essay ::
    "(string \<Rightarrow> int \<times> int) \<Rightarrow> string \<Rightarrow> int \<Rightarrow> string \<Rightarrow> string \<Rightarrow> essay_topic option \<Rightarrow> experiment_db \<Rightarrow>
     (err + essay) \<times> experiment_db" where
  "insert_new_essay metrics i now user_id content topic d =
     (let e = new_essay metrics i now user_id content (map_option to_id topic)
            (map_option to_title topic) (map_option to_question topic) None
      in if i \<in> ey_id ` set (xd_essays d) then (Inl IntegrityError, d)
         else (Inr e, d\<lparr>xd_essays := add_row e (xd_essays d)\<rparr>))"

definition latest_essay :: "string \<Rightarrow> experiment_db \<Rightarrow> essay option" where
  "latest_essay user_id d =
     first_row (order_desc ey_created_at (filter (\<lambda>e. ey_user_id e = user_id) (xd_essays d)))"

subsection \<open>Topics\<close>

definition insert_new_topic ::
    "string \<Rightarrow> int \<Rightarrow> string \<Rightarrow> string \<Rightarrow> experiment_db \<Rightarrow> (err + essay_topic) \<times> experiment_db" where
  "insert_new_topic i now title question d =
     (let t = \<lparr>to_id = i, to_title = title, to_question = question, to_locked_at = None,
            to_workflow_managed = False, to_created_at = now, to_updated_at = now\<rparr>
      in if i \<in> to_id ` set (xd_topics d) then (Inl IntegrityError, d)
         else (Inr t, d\<lparr>xd_topics := add_row t (xd_topics d)\<rparr>))"

definition get_topics :: "experiment_db \<Rightarrow> essay_topic list" where
  "get_topics d = order_desc to_created_at (filter (\<lambda>t. \<not> to_workflow_managed t) (xd_topics d))"

definition get_topic_by_id :: "string \<Rightarrow> experiment_db \<Rightarrow> essay_topic option" where
  "get_topic_by_id topic_id d = get_by to_id topic_id (xd_topics d)"

definition topic_locked :: "string \<Rightarrow> experiment_db \<Rightarrow> bool" where
  "topic_locked topic_id d =
     (case get_by to_id topic_id (xd_topics d) of None \<Rightarrow> False | Some t \<Rightarrow> truthy_int (to_locked_at t))"

definition update_topic_by_id ::
    "int \<Rightarrow> string \<Rightarrow> string \<Rightarrow> string \<Rightarrow> experiment_db \<Rightarrow> (err + essay_topic option) \<times> experiment_db" where
  "update_topic_by_id now topic_id title question d =
     (if topic_locked topic_id d then (Inl (http 409 ''Applied workflow topics are immutable.''), d)
      else
        let d = d\<lparr>xd_topics := upd_by to_id topic_id
              (\<lambda>t. t\<lparr>to_title := title, to_question := question, to_updated_at := now\<rparr>) (xd_topics d)\<rparr>
        in (Inr (get_topic_by_id topic_id d), d))"

definition delete_topic_by_id :: "string \<Rightarrow> experiment_db \<Rightarrow> (err + bool) \<times> experiment_db" where
  "delete_topic_by_id topic_id d =
     (if topic_locked topic_id d then (Inl (http 409 ''Applied workflow topics are immutable.''), d)
      else (Inr (topic_id \<in> to_id ` set (xd_topics d)),
            d\<lparr>xd_assignments := del_rows (\<lambda>a. ta_topic_id a = topic_id) (xd_assignments d),
              xd_topics := del_rows (\<lambda>t. to_id t = topic_id) (xd_topics d)\<rparr>))"

subsection \<open>Assignments\<close>

definition get_assignment :: "string \<Rightarrow> string \<Rightarrow> experiment_db \<Rightarrow> topic_assignment option" where
  "get_assignment user_id group_id d =
     find_row (\<lambda>a. ta_user_id a = user_id \<and> ta_group_id a = group_id) (xd_assignments d)"

definition assignment_keys :: "topic_assignment list \<Rightarrow> bool" where
  "assignment_keys rows \<longleftrightarrow> distinct (map ta_id rows) \<and>
     distinct (map (\<lambda>a. (ta_user_id a, ta_group_id a)) rows)"

definition set_assignment ::
    "string \<Rightarrow> int \<Rightarrow> string \<Rightarrow> string \<Rightarrow> string \<Rightarrow> experiment_db \<Rightarrow> (err + topic_assignment) \<times> experiment_db" where
  "set_assignment i now user_id group_id topic_id d =
     (case get_assignment user_id group_id d of
        Some a \<Rightarrow>
          let a' = a\<lparr>ta_topic_id := topic_id, ta_updated_at := now\<rparr>
          in (Inr a', d\<lparr>xd_assignments := upd_by ta_id (ta_id a) (\<lambda>_. a') (xd_assignments d)\<rparr>)
      | None \<Rightarrow>
          let a = \<lparr>ta_id = i, ta_user_id = user_id, ta_group_id = group_id, ta_topic_id = topic_id,
                ta_created_at = now, ta_updated_at = now\<rparr>;
              rows = add_row a (xd_assignments d)
          in if assignment_keys rows then (Inr a, d\<lparr>xd_assignments := rows\<rparr>)
             else (Inl IntegrityError, d))"

definition resolve_topic_for_group ::
    "string \<Rightarrow> int \<Rightarrow> nat \<Rightarrow> string \<Rightarrow> string \<Rightarrow> experiment_db \<Rightarrow> (err + essay_topic option) \<times> experiment_db" where
  "resolve_topic_for_group i now pick user_id group_id d =
     (let topics = get_topics d in
      if topics = [] then (Inr None, d)
      else
        let assigned = (case get_assignment user_id group_id d of None \<Rightarrow> None
              | Some a \<Rightarrow> get_by to_id (ta_topic_id a) (rev topics))
        in case assigned of
             Some t \<Rightarrow> (Inr (Some t), d)
           | None \<Rightarrow>
               (case random_choice pick topics of
                  None \<Rightarrow> (Inl IndexError, d)
                | Some t \<Rightarrow>
                    (case set_assignment i now user_id group_id (to_id t) d of
                       (Inl e, d) \<Rightarrow> (Inl e, d)
                     | (Inr _, d) \<Rightarrow> (Inr (Some t), d))))"

subsection \<open>The topic of a user\<close>

record user =
  us_id :: string
  us_admin :: bool

definition groups_of :: "string \<Rightarrow> experiment_db \<Rightarrow> string list" where
  "groups_of user_id d = map fst (filter (\<lambda>(g, members). user_id \<in> set members) (xd_groups d))"

text \<open>Python orders strings by their code points.\<close>

fun str_less :: "string \<Rightarrow> string \<Rightarrow> bool" where
  "str_less [] [] = False"
| "str_less [] (_ # _) = True"
| "str_less (_ # _) [] = False"
| "str_less (a # as) (b # bs) =
     ((of_char a :: nat) < of_char b \<or> a = b \<and> str_less as bs)"

definition first_group :: "string list \<Rightarrow> string option" where
  "first_group groups =
     (case groups of [] \<Rightarrow> None | g # gs \<Rightarrow> Some (foldl (\<lambda>m x. if str_less x m then x else m) g gs))"

definition resolve_user_topic ::
    "string \<Rightarrow> int \<Rightarrow> nat \<Rightarrow> user \<Rightarrow> experiment_db \<Rightarrow> (err + essay_topic option) \<times> experiment_db" where
  "resolve_user_topic i now pick user d =
     (if us_admin user then resolve_topic_for_group i now pick (us_id user) ''__admin__'' d
      else case first_group (groups_of (us_id user) d) of
          Some g \<Rightarrow> resolve_topic_for_group i now pick (us_id user) g d
        | None \<Rightarrow> resolve_topic_for_group i now pick (us_id user) ''__default__'' d)"

end
