(* ===== verification/Experiment_Session.thy ===== *)
theory Experiment_Session
  imports Task_Progression Essay_Topic Condition_Assignment
begin

text \<open>
  \<open>ExperimentTable\<close> (\<open>models/experiments.py\<close>): the session of a participant and its transitions.

  \<open>get_current\<close> works in a database session of its own: it sees and commits the store, apart
  from the caller's transaction. A transition reads the current state and then updates the row
  only if it still has that state; what other requests commit between the two is the function
  \<open>race\<close>, and likewise between the reads and the insert of a new session.
\<close>

subsection \<open>The current session\<close>

datatype session_draw = DSession | DTask plan_draw | DAssignment | DEssay string

record session_env =
  se_uid :: "session_draw \<Rightarrow> string"
  se_clock :: "nat \<Rightarrow> int"
  se_pick :: "nat \<Rightarrow> nat"
  se_topic_pick :: nat
  se_hmac :: hmac
  se_race :: "experiment_db \<Rightarrow> experiment_db"

type_synonym current = "experiment_state \<times> experiment_session option \<times> string option"

definition active_states :: "experiment_state set" where
  "active_states = {CONSENT_REQUIRED, PRE_SURVEY_REQUIRED, TOPIC_REQUIRED, TASK_REQUIRED, IN_PROGRESS,
     POST_SURVEY_REQUIRED, THANK_YOU_REQUIRED}"

definition sessions_for_user :: "string \<Rightarrow> experiment_db \<Rightarrow> experiment_session list" where
  "sessions_for_user user_id d =
     order_desc xs_created_at (filter (\<lambda>s. xs_user_id s = user_id) (xd_sessions d))"

definition new_session ::
    "session_env \<Rightarrow> string \<Rightarrow> string \<Rightarrow> plan_model option \<Rightarrow> essay_topic option \<Rightarrow> experiment_task_type \<Rightarrow>
     experiment_session" where
  "new_session e user_id group_id plan topic task_type =
     (let now = se_clock e 0;
          (condition, assignment, draw) = (case plan of None \<Rightarrow> (None, None, None)
            | Some p \<Rightarrow> assign_condition (se_hmac e) p user_id)
      in \<lparr>xs_id = se_uid e DSession, xs_user_id = user_id, xs_group_id = group_id,
          xs_topic_id = map_option to_id topic, xs_topic_title = map_option to_title topic,
          xs_topic_question = map_option to_question topic, xs_essay_id = None,
          xs_state = (case plan of None \<Rightarrow> CONSENT_REQUIRED
             | Some p \<Rightarrow> if pl_consent_enabled p then CONSENT_REQUIRED else TASK_REQUIRED),
          xs_pre_survey = None, xs_post_survey = None, xs_consented_at = None,
          xs_pre_survey_submitted_at = None, xs_topic_shown_at = None, xs_writing_started_at = None,
          xs_essay_submitted_at = None, xs_post_survey_submitted_at = None, xs_completed_at = None,
          xs_created_at = now, xs_updated_at = now, xs_plan_id = map_option pl_id plan,
          xs_task_type = task_type, xs_task_submitted_at = None, xs_condition_id = condition,
          xs_condition_assignment_id = assignment, xs_condition_assignment_draw = draw\<rparr>)"

definition session_keys :: "experiment_db \<Rightarrow> bool" where
  "session_keys d \<longleftrightarrow> distinct (map xs_id (xd_sessions d)) \<and>
     distinct (map (\<lambda>s. (xs_user_id s, xs_group_id s)) (xd_sessions d))"

text \<open>The body of the \<open>try\<close>: insert, instantiate the tasks of the plan, take over the first task.\<close>

definition insert_session ::
    "session_env \<Rightarrow> experiment_session \<Rightarrow> plan_model option \<Rightarrow> experiment_db \<Rightarrow>
     err + (experiment_session \<times> experiment_db)" where
  "insert_session e s plan d =
     (let d = d\<lparr>xd_sessions := add_row s (xd_sessions d)\<rparr> in
      if \<not> session_keys d then Inl IntegrityError
      else case plan of
          None \<Rightarrow> Inr (s, d)
        | Some p \<Rightarrow>
            bindE (instantiate_session_tasks (\<lambda>x. se_uid e (DTask x)) (se_pick e) (se_clock e 1)
                (xs_id s) (pl_id p) d) (\<lambda>(tasks, d).
              case tasks of
                [] \<Rightarrow> Inl IndexError
              | first # _ \<Rightarrow>
                  let s = s\<lparr>xs_task_type := sm_task_type first\<rparr>;
                      s = (if sm_task_type first = ESSAY
                           then s\<lparr>xs_topic_id := sm_essay_topic_id first,
                                  xs_topic_title := sm_essay_topic_title first,
                                  xs_topic_question := sm_essay_topic_question first\<rparr> else s)
                  in Inr (s, put_session s d)))"

definition create_session ::
    "session_env \<Rightarrow> string \<Rightarrow> string \<Rightarrow> plan_model option \<Rightarrow> essay_topic option \<Rightarrow> experiment_task_type \<Rightarrow>
     experiment_db \<Rightarrow> (err + current) \<times> experiment_db" where
  "create_session e user_id group_id plan topic task_type d =
     (let met = se_race e d in
      case insert_session e (new_session e user_id group_id plan topic task_type) plan met of
        Inr (s, d) \<Rightarrow> (Inr (xs_state s, Some s, None), d)
      | Inl err \<Rightarrow>
          (case find_row (\<lambda>s. xs_user_id s = user_id \<and> xs_group_id s = group_id) (xd_sessions met) of
             None \<Rightarrow> (Inl err, met)
           | Some s \<Rightarrow> (Inr (xs_state s, Some s, None), met)))"

definition get_current :: "session_env \<Rightarrow> user \<Rightarrow> experiment_db \<Rightarrow> (err + current) \<times> experiment_db" where
  "get_current e user d =
     (if us_admin user then (Inr (NOT_APPLICABLE, None, None), d)
      else
        let enabled = groups_of (us_id user) d;
            sessions = sessions_for_user (us_id user) d;
            active = filter (\<lambda>s. xs_state s \<in> active_states) sessions
        in if 1 < length enabled
           then (Inr (CONFIGURATION_ERROR, None,
             Some ''You belong to multiple Experiment Mode groups. Please contact an administrator.''), d)
           else if 1 < length active
           then (Inr (CONFIGURATION_ERROR, None, Some ''Multiple active experiment sessions were found.''), d)
           else (case active of
               s # _ \<Rightarrow> (Inr (xs_state s, Some s, None), d)
             | [] \<Rightarrow>
                 (case enabled of
                    [] \<Rightarrow> (Inr (NOT_APPLICABLE, None, None), d)
                  | group_id # _ \<Rightarrow>
                      (case find_row (\<lambda>s. xs_group_id s = group_id) sessions of
                         Some s \<Rightarrow> (Inr (xs_state s, Some s, None), d)
                       | None \<Rightarrow>
                           (case get_active_for_group group_id d of
                              Inl err \<Rightarrow> (Inl err, d)
                            | Inr (Some p) \<Rightarrow>
                                (case pl_items p of
                                   [] \<Rightarrow> (Inl IndexError, d)
                                 | i # _ \<Rightarrow>
                                     create_session e (us_id user) group_id (Some p) None (pm_task_type i) d)
                            | Inr None \<Rightarrow>
                                (case resolve_topic_for_group (se_uid e DAssignment) (se_clock e 2)
                                     (se_topic_pick e) (us_id user) group_id d of
                                   (Inl err, d) \<Rightarrow> (Inl err, d)
                                 | (Inr None, d) \<Rightarrow>
                                     (Inr (CONFIGURATION_ERROR, None,
                                        Some ''No essay topic is available for this experiment.''), d)
                                 | (Inr (Some t), d) \<Rightarrow>
                                     create_session e (us_id user) group_id None (Some t) ESSAY d))))))"

subsection \<open>Transitions\<close>

definition state_name :: "experiment_state \<Rightarrow> string" where
  "state_name st =
     (case st of
        NOT_APPLICABLE \<Rightarrow> ''NOT_APPLICABLE''
      | CONSENT_REQUIRED \<Rightarrow> ''CONSENT_REQUIRED''
      | PRE_SURVEY_REQUIRED \<Rightarrow> ''PRE_SURVEY_REQUIRED''
      | TOPIC_REQUIRED \<Rightarrow> ''TOPIC_REQUIRED''
      | TASK_REQUIRED \<Rightarrow> ''TASK_REQUIRED''
      | IN_PROGRESS \<Rightarrow> ''IN_PROGRESS''
      | POST_SURVEY_REQUIRED \<Rightarrow> ''POST_SURVEY_REQUIRED''
      | THANK_YOU_REQUIRED \<Rightarrow> ''THANK_YOU_REQUIRED''
      | X_COMPLETED \<Rightarrow> ''COMPLETED''
      | CONFIGURATION_ERROR \<Rightarrow> ''CONFIGURATION_ERROR'')"

text \<open>The conditional update: it applies only when exactly one row has the identifier and still
  the expected state. \<open>pend\<close> stands for the caller's uncommitted changes, which the commit of the
  transition writes as well.\<close>

definition cas_update ::
    "string \<Rightarrow> experiment_state \<Rightarrow> (experiment_session \<Rightarrow> experiment_session) \<Rightarrow>
     (experiment_db \<Rightarrow> experiment_db) \<Rightarrow> experiment_db \<Rightarrow> experiment_db option" where
  "cas_update session_id expected f pend d =
     (if count_rows (\<lambda>s. xs_id s = session_id \<and> xs_state s = expected) (xd_sessions d) = 1
      then let d = pend d in
        Some (d\<lparr>xd_sessions := upd_rows (\<lambda>s. xs_id s = session_id \<and> xs_state s = expected) f (xd_sessions d)\<rparr>)
      else None)"

definition move_to ::
    "experiment_state \<Rightarrow> int \<Rightarrow> (experiment_session \<Rightarrow> experiment_session) \<Rightarrow> experiment_session \<Rightarrow> experiment_session" where
  "move_to target now f s = (f s)\<lparr>xs_state := target, xs_updated_at := now\<rparr>"

definition transition ::
    "session_env \<Rightarrow> (experiment_db \<Rightarrow> experiment_db) \<Rightarrow> user \<Rightarrow> experiment_state \<Rightarrow> experiment_state \<Rightarrow>
     (experiment_session \<Rightarrow> experiment_session) \<Rightarrow> (experiment_db \<Rightarrow> experiment_db) \<Rightarrow> experiment_db \<Rightarrow>
     (err + experiment_session) \<times> experiment_db" where
  "transition e race user expected target f pend d =
     (case get_current e user d of
        (Inl err, d) \<Rightarrow> (Inl err, d)
      | (Inr (current, session, _), d) \<Rightarrow>
          (case (if current = expected then session else None) of
             None \<Rightarrow> (Inl (http 409 (''Experiment state must be '' @ state_name expected @
               ''. Current state is '' @ state_name current @ ''.'')), d)
           | Some s \<Rightarrow>
               let d = race d in
               (case cas_update (xs_id s) expected (move_to target (se_clock e 3) f) pend d of
                  None \<Rightarrow> (Inl (http 409 ''Experiment state changed. Refresh and try again.''), d)
                | Some d \<Rightarrow>
                    (case get_by xs_id (xs_id s) (xd_sessions d) of
                       None \<Rightarrow> (Inl (ValueError ''ExperimentSessionModel''), d)
                     | Some s \<Rightarrow> (Inr s, d)))))"

definition consent ::
    "session_env \<Rightarrow> (experiment_db \<Rightarrow> experiment_db) \<Rightarrow> user \<Rightarrow> experiment_db \<Rightarrow>
     (err + experiment_session) \<times> experiment_db" where
  "consent e race user d =
     (case get_current e user d of
        (Inl err, d) \<Rightarrow> (Inl err, d)
      | (Inr (_, session, _), d) \<Rightarrow>
          (case (case session of Some s \<Rightarrow> if truthy_str (xs_plan_id s) then plan_of (xs_plan_id s) d else Inr None
               | None \<Rightarrow> Inr None) of
             Inl err \<Rightarrow> (Inl err, d)
           | Inr plan \<Rightarrow>
               let target = (case plan of
                     Some p \<Rightarrow>
                       if pl_status p \<noteq> PN_SUPERSEDED \<or> list_ex (\<lambda>i. pm_task_type i = SURVEY) (pl_items p)
                       then TASK_REQUIRED else PRE_SURVEY_REQUIRED
                   | None \<Rightarrow> PRE_SURVEY_REQUIRED)
               in transition e race user CONSENT_REQUIRED target
                    (\<lambda>s. s\<lparr>xs_consented_at := Some (se_clock e 4)\<rparr>) (\<lambda>d. d) d))"

definition codes :: "string \<Rightarrow> nat list" where
  "codes s = map of_char s"

definition PRE_FREQUENCIES :: "string list" where
  "PRE_FREQUENCIES = [''Never'', ''Rarely'', ''Sometimes'', ''Often'', ''Very often'']"

definition AGE_RANGES :: "nat list list" where
  "AGE_RANGES = [codes ''Under 13'', codes ''13'' @ [8211] @ codes ''14'', codes ''15'' @ [8211] @ codes ''16'',
     codes ''17'' @ [8211] @ codes ''18'', codes ''Over 18'', codes ''Prefer not to say'']"

definition AI_IMPROVEMENTS :: "string list" where
  "AI_IMPROVEMENTS = [''Not at all'', ''A little'', ''A moderate amount'', ''A lot'', ''A great deal'']"

definition submit_pre_survey ::
    "session_env \<Rightarrow> (experiment_db \<Rightarrow> experiment_db) \<Rightarrow> user \<Rightarrow> pre_survey_form \<Rightarrow> experiment_db \<Rightarrow>
     (err + experiment_session) \<times> experiment_db" where
  "submit_pre_survey e race user form d =
     (let data = form\<lparr>pre_school_class := py_strip (pre_school_class form)\<rparr> in
      if pre_schoolwork_frequency form \<notin> set PRE_FREQUENCIES \<or> pre_age_range form \<notin> set AGE_RANGES
      then (Inl (http 422 ''Invalid pre-survey response.''), d)
      else if pre_school_class data = [] then (Inl (http 422 ''School class is required.''), d)
      else case get_current e user d of
          (Inl err, d) \<Rightarrow> (Inl err, d)
        | (Inr (current, session, _), d) \<Rightarrow>
            (case (if current = PRE_SURVEY_REQUIRED then session else None) of
               None \<Rightarrow> (Inl (http 409 ''Experiment pre-survey is not available.''), d)
             | Some s \<Rightarrow>
                 (case (if truthy_str (xs_plan_id s) then
                     bindE (plan_of (xs_plan_id s) d) (\<lambda>plan.
                       if (case plan of None \<Rightarrow> False | Some p \<Rightarrow> pl_survey_variant p = TASK_NEUTRAL) then
                         (if pre_neutral form then Inr TASK_REQUIRED
                          else Inl (http 422 ''This experiment requires the task-neutral pre-survey.''))
                       else if pre_neutral form
                       then Inl (http 422 ''This experiment requires the essay pre-survey.'')
                       else Inr TOPIC_REQUIRED)
                   else Inr TOPIC_REQUIRED) of
                    Inl err \<Rightarrow> (Inl err, d)
                  | Inr target \<Rightarrow>
                      transition e race user PRE_SURVEY_REQUIRED target
                        (\<lambda>s. s\<lparr>xs_pre_survey := Some data,
                               xs_pre_survey_submitted_at := Some (se_clock e 4)\<rparr>) (\<lambda>d. d) d)))"

text \<open>The plan is needed only to activate a block of tasks.\<close>

definition start_rows :: "plan_model option \<Rightarrow> session_task list \<Rightarrow> int \<Rightarrow> err + session_task list" where
  "start_rows plan rows now =
     (case plan of
        Some p \<Rightarrow> Inr (activate_initial (pl_progression_mode p) rows now)
      | None \<Rightarrow>
          if rows = [] \<or> is_survey (hd rows) then Inr (activate_initial STRICT_SEQUENTIAL rows now)
          else Inl AttributeError)"

definition start ::
    "session_env \<Rightarrow> (experiment_db \<Rightarrow> experiment_db) \<Rightarrow> user \<Rightarrow> experiment_db \<Rightarrow>
     (err + experiment_session) \<times> experiment_db" where
  "start e race user d =
     (let now = se_clock e 4 in
      case get_current e user d of
        (Inl err, d) \<Rightarrow> (Inl err, d)
      | (Inr (current, session, _), d) \<Rightarrow>
          (case (if current \<in> {TOPIC_REQUIRED, TASK_REQUIRED} then session else None) of
             None \<Rightarrow> (Inl (http 409 ''Experiment task is not ready to start.''), d)
           | Some s \<Rightarrow>
               (case (if truthy_str (xs_plan_id s) then
                   bindE (plan_of (xs_plan_id s) d) (\<lambda>plan.
                     bindE (start_rows plan (session_rows (xs_id s) d) now) (\<lambda>rows. Inr (put_rows rows)))
                 else Inr (\<lambda>d. d)) of
                  Inl err \<Rightarrow> (Inl err, d)
                | Inr pend \<Rightarrow>
                    transition e race user current IN_PROGRESS
                      (\<lambda>s. s\<lparr>xs_topic_shown_at := Some now, xs_writing_started_at := Some now\<rparr>) pend d)))"

definition submit_post_survey ::
    "session_env \<Rightarrow> (experiment_db \<Rightarrow> experiment_db) \<Rightarrow> user \<Rightarrow> post_survey_form \<Rightarrow> experiment_db \<Rightarrow>
     (err + experiment_session) \<times> experiment_db" where
  "submit_post_survey e race user form d =
     (let data = form\<lparr>post_comments := map_option py_strip (post_comments form)\<rparr> in
      if post_ai_improvement form \<notin> set AI_IMPROVEMENTS
      then (Inl (http 422 ''Invalid post-survey response.''), d)
      else case get_current e user d of
          (Inl err, d) \<Rightarrow> (Inl err, d)
        | (Inr (current, session, _), d) \<Rightarrow>
            (case (if current = POST_SURVEY_REQUIRED then session else None) of
               None \<Rightarrow> (Inl (http 409 ''Experiment post-survey is not available.''), d)
             | Some s \<Rightarrow>
                 (case (if truthy_str (xs_plan_id s) then
                     bindE (plan_of (xs_plan_id s) d) (\<lambda>plan.
                       let neutral = (case plan of None \<Rightarrow> False | Some p \<Rightarrow> pl_survey_variant p = TASK_NEUTRAL)
                       in guardE (neutral = post_neutral form)
                         (http 422 ''The submitted survey does not match this experiment.''))
                   else Inr ()) of
                    Inl err \<Rightarrow> (Inl err, d)
                  | Inr _ \<Rightarrow>
                      transition e race user POST_SURVEY_REQUIRED THANK_YOU_REQUIRED
                        (\<lambda>s. s\<lparr>xs_post_survey := Some data,
                               xs_post_survey_submitted_at := Some (se_clock e 4)\<rparr>) (\<lambda>d. d) d)))"

definition complete ::
    "session_env \<Rightarrow> (experiment_db \<Rightarrow> experiment_db) \<Rightarrow> user \<Rightarrow> experiment_db \<Rightarrow>
     (err + experiment_session) \<times> experiment_db" where
  "complete e race user d =
     transition e race user THANK_YOU_REQUIRED X_COMPLETED
       (\<lambda>s. s\<lparr>xs_completed_at := Some (se_clock e 4)\<rparr>) (\<lambda>d. d) d"

section \<open>Essays of a session and access to the chat\<close>

text \<open>
  The essays of a session and the access to its chat (\<open>submit_essay\<close>, \<open>finalize_essay_task\<close> and
  \<open>require_experiment_chat_access\<close>, \<open>models/experiments.py\<close>).
\<close>

definition finalize_essay_row :: "int \<Rightarrow> string \<Rightarrow> string \<Rightarrow> session_task \<Rightarrow> session_task" where
  "finalize_essay_row now essay_id content r =
     r\<lparr>st_essay_id := Some essay_id, st_essay_draft := Some content, st_status := FINALIZED,
       st_completed_at := Some now, st_finalized_at := Some now, st_updated_at := now\<rparr>"

definition first_essay :: "string \<Rightarrow> int \<Rightarrow> experiment_session \<Rightarrow> experiment_session" where
  "first_essay essay_id now s =
     (if truthy_str (xs_essay_id s) then s
      else s\<lparr>xs_essay_id := Some essay_id, xs_essay_submitted_at := Some now\<rparr>)"

definition finalize_essay_task ::
    "session_env \<Rightarrow> (string \<Rightarrow> int \<times> int) \<Rightarrow> user \<Rightarrow> session_task \<Rightarrow> string \<Rightarrow> experiment_db \<Rightarrow>
     (err + essay) \<times> experiment_db" where
  "finalize_essay_task e metrics user r content d =
     (case get_by xs_id (st_experiment_session_id r) (xd_sessions d) of
        None \<Rightarrow> (Inl (http 403 ''Experiment task is not available.''), d)
      | Some s \<Rightarrow>
          if xs_user_id s \<noteq> us_id user \<or> xs_state s \<noteq> IN_PROGRESS
          then (Inl (http 403 ''Experiment task is not available.''), d)
          else if st_status r = FINALIZED \<and> truthy_str (st_essay_id r) then
            (case Option.bind (st_essay_id r) (\<lambda>i. get_by ey_id i (xd_essays d)) of
               None \<Rightarrow> (Inl (ValueError ''EssayModel''), d)
             | Some y \<Rightarrow> (Inr y, d))
          else if st_status r \<notin> {ACTIVE, AVAILABLE, COMPLETED}
          then (Inl (http 409 ''Essay Task is locked or finalized.''), d)
          else
            let now = se_clock e 5;
                y = new_essay metrics (se_uid e (DEssay (st_id r))) now (us_id user) content (st_essay_topic_id r)
                  (st_essay_topic_title r) (st_essay_topic_question r) (Some (st_id r));
                r' = finalize_essay_row now (ey_id y) content r
            in if ey_id y \<in> ey_id ` set (xd_essays d) then (Inl IntegrityError, d)
               else (case advance_after_stage (se_clock e 6) (xs_id s) r' False
                   (put_session (first_essay (ey_id y) now s)
                     (d\<lparr>xd_essays := add_row y (xd_essays d),
                        xd_tasks := upd_by st_id (st_id r) (\<lambda>_. r') (xd_tasks d)\<rparr>)) of
                   Inl err \<Rightarrow> (Inl err, d)
                 | Inr d' \<Rightarrow> (Inr y, d')))"

definition submit_essay ::
    "session_env \<Rightarrow> (experiment_db \<Rightarrow> experiment_db) \<Rightarrow> (string \<Rightarrow> int \<times> int) \<Rightarrow> user \<Rightarrow> string \<Rightarrow>
     experiment_db \<Rightarrow> (err + essay) \<times> experiment_db" where
  "submit_essay e race metrics user content d =
     (case get_current e user d of
        (Inl err, d) \<Rightarrow> (Inl err, d)
      | (Inr (current, session, _), d) \<Rightarrow>
          (case (if current = IN_PROGRESS then session else None) of
             None \<Rightarrow> (Inl (http 409 ''Experiment writing session is not active.''), d)
           | Some s \<Rightarrow>
               if truthy_str (xs_plan_id s) then
                 (case plan_of (xs_plan_id s) d of
                    Inl err \<Rightarrow> (Inl err, d)
                  | Inr plan \<Rightarrow>
                      let tasks = session_rows (xs_id s) d;
                          refuse = (Inl (http 409 ''Use the ordered experiment task submission endpoint.''), d)
                      in (case find_row (\<lambda>r. st_status r = ACTIVE) tasks of
                            None \<Rightarrow> refuse
                          | Some r \<Rightarrow>
                              if length tasks \<noteq> 1 \<or> st_task_type r \<noteq> ESSAY then refuse
                              else (case plan of
                                  None \<Rightarrow> (Inl AttributeError, d)
                                | Some p \<Rightarrow>
                                    if pl_progression_mode p \<noteq> STRICT_SEQUENTIAL then refuse
                                    else finalize_essay_task e metrics user r content d)))
               else
                 let now = se_clock e 5;
                     y = new_essay metrics (se_uid e (DEssay [])) now (us_id user) content (xs_topic_id s)
                       (xs_topic_title s) (xs_topic_question s) None;
                     d = race d
                 in (case cas_update (xs_id s) IN_PROGRESS (\<lambda>s. s\<lparr>xs_essay_id := Some (ey_id y),
                           xs_essay_submitted_at := Some now, xs_state := POST_SURVEY_REQUIRED,
                           xs_updated_at := now\<rparr>) (\<lambda>d. d) d of
                       None \<Rightarrow> (Inl (http 409 ''An essay has already been submitted.''), d)
                     | Some d' \<Rightarrow>
                         if ey_id y \<in> ey_id ` set (xd_essays d') then (Inl IntegrityError, d)
                         else (Inr y, d'\<lparr>xd_essays := add_row y (xd_essays d')\<rparr>))))"

definition require_experiment_chat_access ::
    "session_env \<Rightarrow> user \<Rightarrow> experiment_db \<Rightarrow> (err + experiment_state) \<times> experiment_db" where
  "require_experiment_chat_access e user d =
     (if us_admin user then (Inl (http 403 ''Administrators can only access the Admin Panel.''), d)
      else case get_current e user d of
          (Inl err, d) \<Rightarrow> (Inl err, d)
        | (Inr (state, session, _), d) \<Rightarrow>
            if state \<notin> {NOT_APPLICABLE, IN_PROGRESS}
            then (Inl (http 403 (''Experiment step required: '' @ state_name state)), d)
            else if state = IN_PROGRESS \<and>
              (case session of None \<Rightarrow> False | Some s \<Rightarrow> truthy_str (xs_plan_id s) \<and>
                 list_ex (\<lambda>r. st_experiment_session_id r = xs_id s \<and> is_survey r \<and> st_status r = ACTIVE)
                   (xd_tasks d))
            then (Inl (HTTPException 409 (JObj [(''code'', JStr ''EXPERIMENT_SURVEY_ACTIVE''),
                    (''message'', JStr ''Complete or skip the active survey before using chat.'')])), d)
            else (Inr state, d))"

end
