(* ===== verification/Experiment_Routes.thy ===== *)
theory Experiment_Routes
  imports Experiment_Session
begin

text \<open>
  The participant's requests on tasks (\<open>routers/experiments.py\<close>): reading and saving a task,
  submitting or skipping a survey, completing a task for review, and finalizing tasks one by one
  or all together. A request is one database transaction up to each \<open>commit\<close>; an exception
  leaves what was committed before it. The identifiers of the responses that still need grading
  are returned as jobs, where the code hands them to the background queue.
\<close>

record route_env =
  rt_session :: session_env
  rt_clock :: "nat \<Rightarrow> int"
  rt_metrics :: "string \<Rightarrow> int \<times> int"
  rt_question_uid :: "string \<Rightarrow> sub_draw \<Rightarrow> string"
  rt_survey_uid :: "survey_sub_draw \<Rightarrow> string"

type_synonym jobs = "(string list \<times> string) list"

subsection \<open>Finding a task\<close>

definition session_task_for_user ::
    "string \<Rightarrow> user \<Rightarrow> bool \<Rightarrow> experiment_db \<Rightarrow> err + (session_task \<times> experiment_session)" where
  "session_task_for_user task_id user editable d =
     (case get_by st_id task_id (xd_tasks d) of
        None \<Rightarrow> Inl (http 404 ''Experiment task not found.'')
      | Some t \<Rightarrow>
          (case get_by xs_id (st_experiment_session_id t) (xd_sessions d) of
             None \<Rightarrow> Inl (http 404 ''Experiment task not found.'')
           | Some s \<Rightarrow>
               if xs_user_id s \<noteq> us_id user then Inl (http 404 ''Experiment task not found.'')
               else if \<not> editable \<and> task_done t then Inr (t, s)
               else if xs_state s \<noteq> IN_PROGRESS
               then Inl (http 409 ''Experiment tasks are not currently editable.'')
               else if st_status t = LOCKED \<or> editable \<and> st_status t = FINALIZED
               then Inl (http 409 ''Experiment task is locked or finalized.'')
               else Inr (t, s)))"

definition with_submissions :: "submission_db \<Rightarrow> experiment_db \<Rightarrow> experiment_db" where
  "with_submissions q d = d\<lparr>xd_question_subs := q\<rparr>"

definition with_surveys :: "survey_submission_db \<Rightarrow> experiment_db \<Rightarrow> experiment_db" where
  "with_surveys v d = d\<lparr>xd_survey_subs := v\<rparr>"

definition put_task :: "session_task \<Rightarrow> experiment_db \<Rightarrow> experiment_db" where
  "put_task t d = d\<lparr>xd_tasks := upd_by st_id (st_id t) (\<lambda>_. t) (xd_tasks d)\<rparr>"

subsection \<open>Reading a task\<close>

datatype task_view =
    EssayView session_task string
  | SurveyView session_task "participant_survey_task_model option" "participant_survey_submission option"
  | QuestionView session_task "participant_task_model option" "participant_submission option"

definition get_current_task ::
    "route_env \<Rightarrow> string \<Rightarrow> user \<Rightarrow> experiment_db \<Rightarrow> (err + task_view) \<times> experiment_db" where
  "get_current_task r task_id user d =
     (case session_task_for_user task_id user False d of
        Inl err \<Rightarrow> (Inl err, d)
      | Inr (t, s) \<Rightarrow>
          if st_task_type t = ESSAY then (Inr (EssayView t (or_str (st_essay_draft t) [])), d)
          else if st_task_type t = SURVEY then
            let view = Option.bind (st_survey_task_id t) (\<lambda>i. participant_survey_task i (xd_surveys d)) in
            (case survey_get_or_create (rt_survey_uid r) (rt_clock r 0) (xd_surveys d) t (us_id user) (xd_survey_subs d) of
               Inl err \<Rightarrow> (Inl err, d)
             | Inr (sub, v) \<Rightarrow>
                 (Inr (SurveyView t view (survey_participant_model (xd_surveys d) (ss_id sub) (us_id user) v)),
                  with_surveys v d))
          else
            let view = Option.bind (st_question_task_id t) (\<lambda>i. participant_task i (xd_questions d)) in
            (case submission_get_or_create (rt_question_uid r (st_id t)) (rt_clock r 0) (xd_questions d) t
                (us_id user) (xd_question_subs d) of
               Inl err \<Rightarrow> (Inl err, d)
             | Inr (sub, q) \<Rightarrow>
                 (Inr (QuestionView t view (submission_participant_model (xd_questions d) (qs_id sub) (us_id user) q)),
                  with_submissions q d)))"

subsection \<open>Drafts\<close>

definition save_essay_draft ::
    "route_env \<Rightarrow> string \<Rightarrow> string \<Rightarrow> user \<Rightarrow> experiment_db \<Rightarrow> (err + int) \<times> experiment_db" where
  "save_essay_draft r task_id content user d =
     (if 500000 < length content then (Inl (FieldError ''content''), d)
      else case session_task_for_user task_id user True d of
          Inl err \<Rightarrow> (Inl err, d)
        | Inr (t, s) \<Rightarrow>
            if st_task_type t \<noteq> ESSAY then (Inl (http 422 ''This is not an Essay Task.''), d)
            else (Inr (rt_clock r 0),
                  put_task (t\<lparr>st_essay_draft := Some content, st_updated_at := rt_clock r 0\<rparr>) d))"

definition save_question_draft ::
    "route_env \<Rightarrow> string \<Rightarrow> answer_form list \<Rightarrow> user \<Rightarrow> experiment_db \<Rightarrow>
     (err + participant_submission option) \<times> experiment_db" where
  "save_question_draft r task_id form user d =
     (case session_task_for_user task_id user True d of
        Inl err \<Rightarrow> (Inl err, d)
      | Inr (t, s) \<Rightarrow>
          if st_task_type t \<noteq> QUESTION then (Inl (http 422 ''This is not a Question Task.''), d)
          else (case submission_save_draft (rt_question_uid r (st_id t)) (rt_clock r 0) (rt_clock r 1)
              (xd_questions d) (xd_tasks d) (st_id t) (us_id user) form (xd_question_subs d) of
              Inl err \<Rightarrow> (Inl err, d)
            | Inr (m, q) \<Rightarrow> (Inr m, with_submissions q d)))"

subsection \<open>Surveys\<close>

definition close_task :: "session_task_status \<Rightarrow> int \<Rightarrow> session_task \<Rightarrow> session_task" where
  "close_task st now t =
     t\<lparr>st_status := st, st_completed_at := Some now, st_finalized_at := Some now, st_updated_at := now\<rparr>"

text \<open>The common end of \<open>submit_survey_task\<close> and \<open>skip_survey_task\<close>: the submission is written,
  the task closed, the session advanced, and everything committed together.\<close>

definition close_survey ::
    "route_env \<Rightarrow> session_task_status \<Rightarrow> session_task \<Rightarrow> experiment_session \<Rightarrow>
     err + (participant_survey_submission option \<times> survey_submission_db) \<Rightarrow> experiment_db \<Rightarrow>
     (err + participant_survey_submission option) \<times> experiment_db" where
  "close_survey r st t s saved d =
     (case saved of
        Inl err \<Rightarrow> (Inl err, d)
      | Inr (m, v) \<Rightarrow>
          let t' = close_task st (rt_clock r 3) t in
          (case advance_after_stage (rt_clock r 4) (xs_id s) t' False (put_task t' (with_surveys v d)) of
             Inl err \<Rightarrow> (Inl err, d)
           | Inr d' \<Rightarrow> (Inr m, d')))"

definition submit_survey_task ::
    "route_env \<Rightarrow> string \<Rightarrow> survey_answer list \<Rightarrow> user \<Rightarrow> experiment_db \<Rightarrow>
     (err + participant_survey_submission option) \<times> experiment_db" where
  "submit_survey_task r task_id form user d =
     (case session_task_for_user task_id user False d of
        Inl err \<Rightarrow> (Inl err, d)
      | Inr (t, s) \<Rightarrow>
          if task_done t
          then (Inr (survey_for_session_task (xd_surveys d) (st_id t) (us_id user) (xd_survey_subs d)), d)
          else if st_task_type t \<noteq> SURVEY \<or> st_status t \<noteq> ACTIVE
          then (Inl (http 409 ''This survey is not currently active.''), d)
          else close_survey r FINALIZED t s
            (survey_finalize (rt_survey_uid r) (rt_clock r 0) (rt_clock r 1) (rt_clock r 2) (xd_surveys d) t
               (us_id user) form (xd_survey_subs d)) d)"

definition skip_survey_task ::
    "route_env \<Rightarrow> string \<Rightarrow> user \<Rightarrow> experiment_db \<Rightarrow>
     (err + participant_survey_submission option) \<times> experiment_db" where
  "skip_survey_task r task_id user d =
     (case session_task_for_user task_id user False d of
        Inl err \<Rightarrow> (Inl err, d)
      | Inr (t, s) \<Rightarrow>
          if task_done t
          then (Inr (survey_for_session_task (xd_surveys d) (st_id t) (us_id user) (xd_survey_subs d)), d)
          else if st_task_type t \<noteq> SURVEY \<or> st_status t \<noteq> ACTIVE
          then (Inl (http 409 ''This survey is not currently active.''), d)
          else close_survey r SKIPPED t s
            (survey_skip (rt_survey_uid r) (rt_clock r 0) (rt_clock r 1) (xd_surveys d) t (us_id user)
               (xd_survey_subs d)) d)"

subsection \<open>Review progression\<close>

definition unlock_after_review ::
    "int \<Rightarrow> session_task \<Rightarrow> experiment_session \<Rightarrow> experiment_db \<Rightarrow> err + experiment_db" where
  "unlock_after_review now t s d =
     bindE (plan_of (xs_plan_id s) d) (\<lambda>plan.
       case plan of
         None \<Rightarrow> Inl AttributeError
       | Some p \<Rightarrow>
           if pl_progression_mode p \<noteq> SEQUENTIAL_REVIEW
           then Inl (http 409 ''This experiment does not use review progression.'')
           else
             let d = put_task (t\<lparr>st_status := COMPLETED, st_completed_at := Some now, st_updated_at := now\<rparr>) d in
             (case first_row (filter (\<lambda>x. st_position t < st_position x) (session_rows (xs_id s) d)) of
                None \<Rightarrow> Inr d
              | Some n \<Rightarrow>
                  if st_task_type n \<noteq> SURVEY \<and> st_status n = LOCKED
                  then Inr (put_task (n\<lparr>st_status := ACTIVE, st_started_at := Some now, st_updated_at := now\<rparr>) d)
                  else Inr d))"

definition mark_task_complete ::
    "route_env \<Rightarrow> string \<Rightarrow> user \<Rightarrow> experiment_db \<Rightarrow> (err + unit) \<times> experiment_db" where
  "mark_task_complete r task_id user d =
     (case session_task_for_user task_id user False d of
        Inl err \<Rightarrow> (Inl err, d)
      | Inr (t, s) \<Rightarrow>
          if st_status t = FINALIZED then (Inr (), d)
          else if st_task_type t = ESSAY \<and> py_strip (or_str (st_essay_draft t) []) = []
          then (Inl (http 422 ''Essay content is required before completing this task.''), d)
          else (case unlock_after_review (rt_clock r 0) t s d of
              Inl err \<Rightarrow> (Inl err, d)
            | Inr d' \<Rightarrow> (Inr (), d')))"

subsection \<open>Finalizing one task\<close>

definition finalize_essay ::
    "route_env \<Rightarrow> string \<Rightarrow> string \<Rightarrow> user \<Rightarrow> experiment_db \<Rightarrow> (err + unit) \<times> experiment_db" where
  "finalize_essay r task_id content user d =
     (if 500000 < length content then (Inl (FieldError ''content''), d)
      else case session_task_for_user task_id user False d of
          Inl err \<Rightarrow> (Inl err, d)
        | Inr (t, s) \<Rightarrow>
            if st_status t = FINALIZED then (Inr (), d)
            else (case plan_of (xs_plan_id s) d of
                Inl err \<Rightarrow> (Inl err, d)
              | Inr None \<Rightarrow> (Inl AttributeError, d)
              | Inr (Some p) \<Rightarrow>
                  if pl_progression_mode p \<noteq> STRICT_SEQUENTIAL
                  then (Inl (http 409 ''This experiment is finalized as a whole.''), d)
                  else if st_task_type t \<noteq> ESSAY \<or> py_strip content = []
                  then (Inl (http 422 ''Essay content is required.''), d)
                  else (case finalize_essay_task (rt_session r) (rt_metrics r) user t (py_strip content) d of
                      (Inl err, d) \<Rightarrow> (Inl err, d)
                    | (Inr _, d) \<Rightarrow> (Inr (), d))))"

definition submission_finalized :: "string \<Rightarrow> submission_db \<Rightarrow> bool" where
  "submission_finalized i q =
     (case get_by qs_id i (sd_submissions q) of None \<Rightarrow> False | Some x \<Rightarrow> qs_status x = S_FINALIZED)"

definition refinalize ::
    "route_env \<Rightarrow> session_task \<Rightarrow> user \<Rightarrow> experiment_db \<Rightarrow>
     (err + (participant_submission option \<times> jobs)) \<times> experiment_db" where
  "refinalize r t user d =
     (case submission_get_or_create (rt_question_uid r (st_id t)) (rt_clock r 0) (xd_questions d) t (us_id user)
        (xd_question_subs d) of
        Inl err \<Rightarrow> (Inl err, d)
      | Inr (sub, q) \<Rightarrow>
          if qs_status sub \<noteq> S_FINALIZED then
            (case submission_finalize (rt_question_uid r (st_id t)) (rt_clock r 2) (xd_questions d) (xd_tasks d)
               (qs_id sub) (us_id user) q of
               Inl err \<Rightarrow> (Inl err, d)
             | Inr ((pending, m), q) \<Rightarrow> (Inr (m, [(pending, qs_id sub)]), with_submissions q d))
          else (Inr (submission_participant_model (xd_questions d) (qs_id sub) (us_id user) q, []), d))"

definition finalize_questions ::
    "route_env \<Rightarrow> string \<Rightarrow> answer_form list \<Rightarrow> user \<Rightarrow> experiment_db \<Rightarrow>
     (err + (participant_submission option \<times> jobs)) \<times> experiment_db" where
  "finalize_questions r task_id form user d =
     (case session_task_for_user task_id user False d of
        Inl err \<Rightarrow> (Inl err, d)
      | Inr (t, s) \<Rightarrow>
          if st_status t = FINALIZED then refinalize r t user d
          else (case plan_of (xs_plan_id s) d of
              Inl err \<Rightarrow> (Inl err, d)
            | Inr None \<Rightarrow> (Inl AttributeError, d)
            | Inr (Some p) \<Rightarrow>
                if pl_progression_mode p \<noteq> STRICT_SEQUENTIAL \<or> st_task_type t \<noteq> QUESTION
                then (Inl (http 409 ''This Question Task cannot be finalized individually.''), d)
                else (case submission_save_draft (rt_question_uid r (st_id t)) (rt_clock r 0) (rt_clock r 1)
                    (xd_questions d) (xd_tasks d) (st_id t) (us_id user) form (xd_question_subs d) of
                    Inl err \<Rightarrow> (Inl err, d)
                  | Inr (None, q) \<Rightarrow> (Inl AttributeError, d)
                  | Inr (Some m, q) \<Rightarrow>
                      (case submission_finalize (rt_question_uid r (st_id t)) (rt_clock r 2) (xd_questions d)
                         (xd_tasks d) (ps_id m) (us_id user) q of
                         Inl err \<Rightarrow> (Inl err, d)
                       | Inr ((pending, m'), q) \<Rightarrow>
                           if \<not> submission_finalized (ps_id m) q
                           then (Inl (http 500 ''Question submission finalization did not persist.''), d)
                           else
                             let now = rt_clock r 3;
                                 t' = t\<lparr>st_status := FINALIZED, st_completed_at := Some now,
                                       st_finalized_at := Some now\<rparr> in
                             (case advance_after_stage (rt_clock r 4) (xs_id s) t' False
                                (put_task t' (with_submissions q d)) of
                                Inl err \<Rightarrow> (Inl err, d)
                              | Inr d' \<Rightarrow> (Inr (m', [(pending, ps_id m)]), d'))))))"

subsection \<open>Finalizing all tasks\<close>

text \<open>The clock readings and UUIDs of the round for the row at index \<open>i\<close> of the loop.\<close>

definition round_env :: "nat \<Rightarrow> route_env \<Rightarrow> route_env" where
  "round_env i r =
     (let later = (\<lambda>c n. c (n + 10 * (i + 1))) in
      r\<lparr>rt_session := (rt_session r)\<lparr>se_clock := later (se_clock (rt_session r))\<rparr>,
        rt_clock := later (rt_clock r)\<rparr>)"

text \<open>One round: every task is committed on its own.\<close>

definition finalize_one ::
    "route_env \<Rightarrow> user \<Rightarrow> session_task \<Rightarrow> experiment_db \<Rightarrow> (err + jobs) \<times> experiment_db" where
  "finalize_one r user t d =
     (if task_done t then (Inr [], d)
      else if st_task_type t = ESSAY then
        (case finalize_essay_task (rt_session r) (rt_metrics r) user t (py_strip (or_str (st_essay_draft t) [])) d of
           (Inl err, d) \<Rightarrow> (Inl err, d)
         | (Inr _, d) \<Rightarrow> (Inr [], d))
      else
        (case submission_get_or_create (rt_question_uid r (st_id t)) (rt_clock r 0) (xd_questions d) t (us_id user)
           (xd_question_subs d) of
           Inl err \<Rightarrow> (Inl err, d)
         | Inr (sub, q) \<Rightarrow>
             (case submission_finalize (rt_question_uid r (st_id t)) (rt_clock r 1) (xd_questions d) (xd_tasks d)
                (qs_id sub) (us_id user) q of
                Inl err \<Rightarrow> (Inl err, d)
              | Inr ((pending, m), q) \<Rightarrow>
                  if \<not> submission_finalized (qs_id sub) q
                  then (Inl (http 500 ''Question submission finalization did not persist.''), d)
                  else (Inr [(pending, qs_id sub)],
                        put_task (t\<lparr>st_status := FINALIZED, st_completed_at := Some (rt_clock r 2),
                          st_finalized_at := Some (rt_clock r 2)\<rparr>) (with_submissions q d)))))"

text \<open>The loop stops at the first exception and keeps what the earlier rounds committed.\<close>

fun finalize_rounds ::
    "route_env \<Rightarrow> user \<Rightarrow> nat \<Rightarrow> session_task list \<Rightarrow> jobs \<Rightarrow> experiment_db \<Rightarrow> (err + jobs) \<times> experiment_db" where
  "finalize_rounds r user i [] jobs d = (Inr jobs, d)"
| "finalize_rounds r user i (t # ts) jobs d =
     (case finalize_one (round_env i r) user t d of
        (Inl err, d) \<Rightarrow> (Inl err, d)
      | (Inr js, d) \<Rightarrow> finalize_rounds r user (i + 1) ts (jobs @ js) d)"

text \<open>\<open>max(task_rows, key=position)\<close> on a list that is not empty.\<close>

definition last_task :: "session_task list \<Rightarrow> session_task" where
  "last_task rows = foldl (\<lambda>m t. if st_position m < st_position t then t else m) (hd rows) (tl rows)"

definition finalize_all_tasks :: "route_env \<Rightarrow> user \<Rightarrow> experiment_db \<Rightarrow> (err + jobs) \<times> experiment_db" where
  "finalize_all_tasks r user d =
     (case get_current (rt_session r) user d of
        (Inl err, d) \<Rightarrow> (Inl err, d)
      | (Inr (state, session, _), d) \<Rightarrow>
          (case (if state = IN_PROGRESS then session else None) of
             None \<Rightarrow> (Inl (http 409 ''No ordered experiment is ready to finalize.''), d)
           | Some s \<Rightarrow>
               if \<not> truthy_str (xs_plan_id s)
               then (Inl (http 409 ''No ordered experiment is ready to finalize.''), d)
               else (case plan_of (xs_plan_id s) d of
                   Inl err \<Rightarrow> (Inl err, d)
                 | Inr None \<Rightarrow> (Inl AttributeError, d)
                 | Inr (Some p) \<Rightarrow>
                     let rows = session_rows (xs_id s) d; task_rows = filter (\<lambda>t. \<not> is_survey t) rows in
                     if pl_progression_mode p = STRICT_SEQUENTIAL
                     then (Inl (http 409 ''Strict sequential tasks are finalized individually.''), d)
                     else if pl_progression_mode p = SEQUENTIAL_REVIEW \<and>
                       list_ex (\<lambda>t. st_status t \<notin> {COMPLETED, FINALIZED}) task_rows
                     then (Inl (http 422 ''Complete every task before final submission.''), d)
                     else case find_row (\<lambda>t. st_status t \<noteq> FINALIZED \<and> st_task_type t = ESSAY \<and>
                           py_strip (or_str (st_essay_draft t) []) = []) rows of
                         Some t \<Rightarrow>
                           (Inl (http 422 (''Essay Task '' @ [CHR 0x22] @ st_title t @ [CHR 0x22] @ '' is empty.'')), d)
                       | None \<Rightarrow>
                           (case finalize_rounds r user 0 task_rows [] d of
                              (Inl err, d) \<Rightarrow> (Inl err, d)
                            | (Inr jobs, d) \<Rightarrow>
                                if task_rows = [] then
                                  (case get_by xs_id (xs_id s) (xd_sessions d) of
                                     None \<Rightarrow> (Inl AttributeError, d)
                                   | Some s \<Rightarrow> (Inr jobs, put_session
                                       (s\<lparr>xs_state := THANK_YOU_REQUIRED, xs_updated_at := rt_clock r 0\<rparr>) d))
                                else
                                  (case advance_after_stage (rt_clock r 1) (xs_id s) (last_task task_rows) True d of
                                     Inl err \<Rightarrow> (Inl err, d)
                                   | Inr d \<Rightarrow> (Inr jobs, d))))))"

subsection \<open>Repair\<close>

text \<open>\<open>_repair_finalized_question_submissions\<close>: submissions still in draft although their task is
  finalized. All of them are finalized in one transaction.\<close>

definition split_submissions :: "user \<Rightarrow> experiment_db \<Rightarrow> question_submission list" where
  "split_submissions user d = filter (\<lambda>q. qs_status q = S_DRAFT \<and>
     (case get_by st_id (qs_session_task_id q) (xd_tasks d) of
        None \<Rightarrow> False
      | Some t \<Rightarrow> st_task_type t = QUESTION \<and> st_status t = FINALIZED \<and>
          (case get_by xs_id (st_experiment_session_id t) (xd_sessions d) of
             None \<Rightarrow> False | Some s \<Rightarrow> xs_user_id s = us_id user))) (sd_submissions (xd_question_subs d))"

definition repair_submissions :: "route_env \<Rightarrow> user \<Rightarrow> experiment_db \<Rightarrow> (err + jobs) \<times> experiment_db" where
  "repair_submissions r user d =
     (case foldE (\<lambda>sub (jobs, q).
          bindE (submission_finalize (rt_question_uid r (qs_session_task_id sub)) (rt_clock r 0) (xd_questions d)
              (xd_tasks d) (qs_id sub) (us_id user) q) (\<lambda>((pending, _), q).
            Inr (jobs @ [(pending, qs_id sub)], q)))
        (split_submissions user d) ([], xd_question_subs d) of
        Inl err \<Rightarrow> (Inl err, d)
      | Inr (jobs, q) \<Rightarrow> (Inr jobs, with_submissions q d))"

end
