(* ===== verification/Session_Rows.thy ===== *)
theory Session_Rows
  imports Strict_Progress Experiment_Routes
begin

text \<open>
  From the rows of one session to the store: writing rows back changes exactly these rows, and
  advancing a session is \<open>advance_rows\<close> on its rows.
\<close>

named_theorems frame_simps \<open>the fields of a task row that no operation changes\<close>

definition frame :: "session_task \<Rightarrow> string \<times> int \<times> string \<times> experiment_task_type" where
  "frame r = (st_id r, st_position r, st_experiment_session_id r, st_task_type r)"

definition keeps_frame :: "(session_task \<Rightarrow> session_task) \<Rightarrow> bool" where
  "keeps_frame f \<longleftrightarrow> (\<forall>r. frame (f r) = frame r)"

lemma keeps_frameD:
  assumes "keeps_frame f"
  shows "st_id (f r) = st_id r" "st_position (f r) = st_position r"
    "st_experiment_session_id (f r) = st_experiment_session_id r" "st_task_type (f r) = st_task_type r"
  using assms by (auto simp: keeps_frame_def frame_def)

lemma frame_statuses [frame_simps]:
  "keeps_frame (set_status st now)" "keeps_frame (reset_row now)" "keeps_frame (close_task st now)"
  "keeps_frame (finalize_essay_row now y c)"
  by (simp_all add: keeps_frame_def frame_def close_task_def finalize_essay_row_def)

subsection \<open>Maps over the table\<close>

lemma sort_key_map_same: "(\<And>x. k (g x) = k x) \<Longrightarrow> sort_key k (map g xs) = map g (sort_key k xs)"
proof (induction xs)
  case Nil
  then show ?case by simp
next
  case (Cons x xs)
  have "insort_key k (g x) (map g ys) = map g (insort_key k x ys)" for ys
    by (induction ys) (simp_all add: Cons.prems)
  with Cons show ?case by simp
qed

lemma session_rows_map:
  assumes "\<And>r. frame (g r) = frame r"
  shows "session_rows sid (d\<lparr>xd_tasks := map g (xd_tasks d)\<rparr>) = map g (session_rows sid d)"
proof -
  have k: "st_position (g r) = st_position r" "st_experiment_session_id (g r) = st_experiment_session_id r" for r
    using assms [of r] by (simp_all add: frame_def)
  have "filter (\<lambda>t. st_experiment_session_id t = sid) (map g ts) =
      map g (filter (\<lambda>t. st_experiment_session_id t = sid) ts)" for ts
    by (induction ts) (simp_all add: k)
  then show ?thesis
    by (simp add: session_rows_def order_by_def sort_key_map_same k)
qed

lemma session_rows_set:
  "set (session_rows sid d) = {t \<in> set (xd_tasks d). st_experiment_session_id t = sid}"
  by (simp add: session_rows_def set_order_by)

lemma session_rows_distinct: "distinct (map st_id (xd_tasks d)) \<Longrightarrow> distinct (map st_id (session_rows sid d))"
proof -
  assume "distinct (map st_id (xd_tasks d))"
  then have "distinct (map st_id (filter (\<lambda>t. st_experiment_session_id t = sid) (xd_tasks d)))"
    by (rule distinct_map_filter)
  then show ?thesis
    unfolding session_rows_def order_by_def by (simp add: distinct_map)
qed

definition overlay :: "session_task list \<Rightarrow> session_task \<Rightarrow> session_task" where
  "overlay rows t = (case get_by st_id (st_id t) rows of None \<Rightarrow> t | Some r \<Rightarrow> r)"

lemma put_rows_overlay: "put_rows rows d = d\<lparr>xd_tasks := map (overlay rows) (xd_tasks d)\<rparr>"
  by (simp add: put_rows_def overlay_def)

text \<open>Rows with the frames of the table's own rows.\<close>

definition fits :: "session_task list \<Rightarrow> experiment_db \<Rightarrow> bool" where
  "fits rows d \<longleftrightarrow> distinct (map st_id (xd_tasks d)) \<and>
     (\<forall>r \<in> set rows. \<exists>t \<in> set (xd_tasks d). frame t = frame r)"

lemma overlay_frame:
  assumes f: "fits rows d" and t: "t \<in> set (xd_tasks d)"
  shows "frame (overlay rows t) = frame t"
proof (cases "get_by st_id (st_id t) rows")
  case None
  then show ?thesis by (simp add: overlay_def)
next
  case (Some r)
  then have r: "r \<in> set rows" "st_id r = st_id t" by (auto dest: get_by_Some)
  then obtain t' where t': "t' \<in> set (xd_tasks d)" "frame t' = frame r" using f by (auto simp: fits_def)
  then have "st_id t' = st_id t" using r by (simp add: frame_def)
  then have "t' = t" using f t t' row_unique [of st_id "xd_tasks d" t' t] by (simp add: fits_def)
  with t' Some show ?thesis by (simp add: overlay_def)
qed

lemma session_rows_overlay:
  assumes "fits rows d"
  shows "session_rows sid (put_rows rows d) = map (overlay rows) (session_rows sid d)"
proof -
  let ?g = "\<lambda>t. if t \<in> set (xd_tasks d) then overlay rows t else t"
  have "put_rows rows d = d\<lparr>xd_tasks := map ?g (xd_tasks d)\<rparr>"
    by (simp add: put_rows_overlay)
  moreover have "frame (?g r) = frame r" for r by (simp add: overlay_frame [OF assms])
  moreover have "map ?g (session_rows sid d) = map (overlay rows) (session_rows sid d)"
    by (rule map_cong [OF refl]) (simp add: session_rows_set)
  ultimately show ?thesis by (simp only: session_rows_map)
qed

lemma map_overlay_self:
  "distinct (map st_id rows) \<Longrightarrow> map st_id rows = map st_id old \<Longrightarrow> map (overlay rows) old = rows"
proof (rule nth_equalityI)
  assume d: "distinct (map st_id rows)" and m: "map st_id rows = map st_id old"
  have len: "length old = length rows" using m by (metis length_map)
  then show "length (map (overlay rows) old) = length rows" by simp
  fix i assume "i < length (map (overlay rows) old)"
  then have i: "i < length rows" "i < length old" using len by simp_all
  have "st_id (old ! i) = st_id (rows ! i)" using m i by (metis nth_map)
  then have "get_by st_id (st_id (old ! i)) rows = Some (rows ! i)"
    using get_by_distinct [OF d, of "rows ! i"] i by simp
  then show "map (overlay rows) old ! i = rows ! i" using i by (simp add: overlay_def)
qed

lemma put_rows_own:
  assumes "fits rows d" and "distinct (map st_id rows)" and "map st_id rows = map st_id (session_rows sid d)"
  shows "session_rows sid (put_rows rows d) = rows"
  using session_rows_overlay [OF assms(1)] map_overlay_self [OF assms(2,3)] by simp

lemma put_rows_other:
  assumes "fits rows d" and "\<And>r. r \<in> set rows \<Longrightarrow> st_experiment_session_id r = sid" and "sid' \<noteq> sid"
  shows "session_rows sid' (put_rows rows d) = session_rows sid' d"
proof -
  have "overlay rows t = t" if t: "t \<in> set (session_rows sid' d)" for t
  proof (cases "get_by st_id (st_id t) rows")
    case None
    then show ?thesis by (simp add: overlay_def)
  next
    case (Some r)
    then have "r \<in> set rows" by (auto dest: get_by_Some)
    moreover have "frame r = frame t"
      using overlay_frame [OF assms(1), of t] t Some by (simp add: overlay_def session_rows_set)
    ultimately show ?thesis using assms(2) [of r] assms(3) t by (simp add: frame_def session_rows_set)
  qed
  then have "map (overlay rows) (session_rows sid' d) = session_rows sid' d" by (simp add: map_idI)
  then show ?thesis using session_rows_overlay [OF assms(1)] by simp
qed

lemma put_task_rows:
  assumes "keeps_frame f" and "distinct (map st_id (xd_tasks d))" and "t \<in> set (xd_tasks d)"
  shows "session_rows sid (put_task (f t) d) = upd_by st_id (st_id t) f (session_rows sid d)"
proof -
  let ?g = "\<lambda>x. if st_id x = st_id t then f x else x"
  have "upd_by st_id (st_id t) (\<lambda>_. f t) (xd_tasks d) = map ?g (xd_tasks d)"
    unfolding upd_by_def upd_rows_def
    by (rule map_cong [OF refl]) (use row_unique [OF assms(2) _ assms(3)] in auto)
  then have "put_task (f t) d = d\<lparr>xd_tasks := map ?g (xd_tasks d)\<rparr>"
    using keeps_frameD(1) [OF assms(1)] by (simp add: put_task_def)
  moreover have "frame (?g r) = frame r" for r using assms(1) by (simp add: keeps_frame_def)
  ultimately show ?thesis by (simp only: session_rows_map) (simp add: upd_by_def upd_rows_def)
qed

end
