(* ===== verification/Stage_Closing.thy ===== *)
theory Stage_Closing
  imports Session_Rows
begin

text \<open>
  The four requests that close a stage of a strictly sequential session - submitting or skipping
  a survey, finalizing an essay and finalizing a question task - share one contract: what they
  do on success is closing the row of the task and advancing the session. The contract is the
  locale \<open>stage_closer\<close>; the progress of the session is proved in it once.
\<close>

subsection \<open>What a plan depends on\<close>

definition same_plans :: "experiment_db \<Rightarrow> experiment_db \<Rightarrow> bool" where
  "same_plans d d' \<longleftrightarrow> xd_plans d' = xd_plans d \<and> xd_items d' = xd_items d \<and> xd_pools d' = xd_pools d \<and>
     xd_conditions d' = xd_conditions d \<and> xd_injections d' = xd_injections d \<and>
     xd_warning_rows d' = xd_warning_rows d \<and> xd_timings d' = xd_timings d \<and> xd_scopes d' = xd_scopes d"

lemma same_plans_refl [simp]: "same_plans d d" by (simp add: same_plans_def)

lemma same_plans_trans: "same_plans a b \<Longrightarrow> same_plans b c \<Longrightarrow> same_plans a c"
  by (simp add: same_plans_def)

lemma same_plans_updates [simp]:
  "same_plans d (put_task t x) = same_plans d x" "same_plans d (put_rows rows x) = same_plans d x"
  "same_plans d (put_session s x) = same_plans d x" "same_plans d (with_surveys v x) = same_plans d x"
  "same_plans d (with_submissions q x) = same_plans d x"
  "same_plans d (x\<lparr>xd_essays := ys\<rparr>) = same_plans d x" "same_plans d (x\<lparr>xd_tasks := ts\<rparr>) = same_plans d x"
  by (simp_all add: same_plans_def put_task_def put_rows_def put_session_def with_surveys_def with_submissions_def)

lemma load_condition_same: "same_plans d d' \<Longrightarrow> load_condition d' c = load_condition d c"
  by (simp add: load_condition_def same_plans_def)

lemma load_item_same: "same_plans d d' \<Longrightarrow> load_item d' i = load_item d i"
  by (simp add: load_item_def same_plans_def)

lemma get_plan_same: "same_plans d d' \<Longrightarrow> get_plan p d' = get_plan p d"
proof -
  assume s: "same_plans d d'"
  have "load_condition d' = load_condition d" "load_item d' = load_item d"
    by (simp_all add: fun_eq_iff load_condition_same [OF s] load_item_same [OF s])
  moreover have "xd_plans d' = xd_plans d" "xd_items d' = xd_items d" "xd_conditions d' = xd_conditions d"
    using s by (simp_all add: same_plans_def)
  ultimately show ?thesis unfolding get_plan_def by (simp only:)
qed

lemma plan_of_same: "same_plans d d' \<Longrightarrow> plan_of p d' = plan_of p d"
  by (simp add: plan_of_def get_plan_same split: option.splits)

subsection \<open>Advancing keeps the frames\<close>

lemma map_frame_upd_by: "keeps_frame f \<Longrightarrow> map frame (upd_by st_id i f rows) = map frame rows"
  by (rule map_upd_by) (simp add: keeps_frame_def)

lemma map_frame_upd_rows: "keeps_frame f \<Longrightarrow> map frame (upd_rows P f rows) = map frame rows"
  by (rule map_upd_rows) (simp add: keeps_frame_def)

lemma block_frames: "map frame (activate_task_block mode rows n now) = map frame rows"
  by (simp add: activate_task_block_def map_frame_upd_by map_frame_upd_rows frame_simps split: list.splits)

lemma advance_frames:
  assumes "advance_rows mode old fin now c (rows, s) = (rows', s')"
  shows "map frame rows' = map frame rows" and "xs_id s' = xs_id s" and "xs_user_id s' = xs_user_id s"
    and "xs_group_id s' = xs_group_id s" and "xs_plan_id s' = xs_plan_id s"
  using assms
  by (auto simp: advance_rows_def Let_def end_tasks_def block_frames map_frame_upd_by frame_simps
      split: if_splits option.splits)

lemma frames_ids: "map frame rows' = map frame rows \<Longrightarrow> map st_id rows' = map st_id rows"
  by (metis (mono_tags, lifting) comp_apply frame_def fst_conv list.map_comp map_eq_conv)

definition db_ok :: "experiment_db \<Rightarrow> bool" where
  "db_ok d \<longleftrightarrow> distinct (map st_id (xd_tasks d)) \<and> distinct (map xs_id (xd_sessions d))"

lemma frames_fit:
  assumes "db_ok d" and "map frame rows = map frame (session_rows sid d)"
  shows "fits rows d" and "distinct (map st_id rows)" and "map st_id rows = map st_id (session_rows sid d)"
    and "\<And>r. r \<in> set rows \<Longrightarrow> st_experiment_session_id r = sid"
proof -
  show i: "map st_id rows = map st_id (session_rows sid d)" by (rule frames_ids [OF assms(2)])
  have m: "frame ` set rows = frame ` set (session_rows sid d)" using assms(2) by (metis list.set_map)
  have ex: "\<exists>t \<in> set (session_rows sid d). frame t = frame r" if "r \<in> set rows" for r
    using m that by (metis (no_types, lifting) imageE imageI)
  show "fits rows d" using assms(1) ex by (fastforce simp: fits_def db_ok_def session_rows_set)
  show "distinct (map st_id rows)" using i session_rows_distinct [of d sid] assms(1) by (simp add: db_ok_def)
  show "st_experiment_session_id r = sid" if "r \<in> set rows" for r
    using ex [OF that] by (auto simp: session_rows_set frame_def)
qed

lemma overlay_ids: "fits rows d \<Longrightarrow> map st_id (xd_tasks (put_rows rows d)) = map st_id (xd_tasks d)"
  using overlay_frame [of rows d] by (simp add: put_rows_overlay frame_def)

lemma put_session_ids: "map xs_id (xd_sessions (put_session s d)) = map xs_id (xd_sessions d)"
  unfolding put_session_def by (simp add: upd_by_def upd_rows_def)

lemma put_session_get:
  "get_by xs_id i (xd_sessions (put_session s d)) =
     (if i = xs_id s then map_option (\<lambda>_. s) (get_by xs_id i (xd_sessions d)) else get_by xs_id i (xd_sessions d))"
proof -
  have "get_by xs_id i (upd_by xs_id (xs_id s) (\<lambda>_. s) rows) =
      (if i = xs_id s then map_option (\<lambda>_. s) (get_by xs_id i rows) else get_by xs_id i rows)" for rows
    by (induction rows) auto
  then show ?thesis by (simp add: put_session_def)
qed

lemma session_rows_put_session [simp]: "session_rows i (put_session s d) = session_rows i d"
  by (simp add: session_rows_def put_session_def)

text \<open>What one advance does to the store: nothing outside the session.\<close>

definition only_session :: "string \<Rightarrow> experiment_db \<Rightarrow> experiment_db \<Rightarrow> bool" where
  "only_session sid d d' \<longleftrightarrow> same_plans d d' \<and> db_ok d' \<and>
     (\<forall>i. i \<noteq> sid \<longrightarrow> session_rows i d' = session_rows i d \<and>
        get_by xs_id i (xd_sessions d') = get_by xs_id i (xd_sessions d))"

lemma advance_db:
  assumes ok: "db_ok d" and s: "get_by xs_id sid (xd_sessions d) = Some s"
    and p: "plan_of (xs_plan_id s) d = Inr (Some p)"
    and a: "advance_after_stage now sid c fin d = Inr d'"
  obtains rows' s' where
    "advance_rows (pl_progression_mode p) (pl_status p = PN_SUPERSEDED) fin now c (session_rows sid d, s) = (rows', s')"
    and "session_rows sid d' = rows'" and "get_by xs_id sid (xd_sessions d') = Some s'"
    and "only_session sid d d'"
proof -
  obtain rows' s' where r: "advance_rows (pl_progression_mode p) (pl_status p = PN_SUPERSEDED) fin now c
      (session_rows sid d, s) = (rows', s')" by force
  have d': "d' = put_session s' (put_rows rows' d)"
    using a s p r by (simp add: advance_after_stage_def)
  have sid: "xs_id s = sid" using s by (auto dest: get_by_Some)
  note fr = advance_frames [OF r]
  note fit = frames_fit [OF ok fr(1)]
  have "session_rows sid d' = rows'" using put_rows_own [OF fit(1-3)] by (simp add: d')
  moreover have "get_by xs_id sid (xd_sessions d') = Some s'"
    using s fr(2) sid by (simp add: d' put_session_get put_rows_def)
  moreover have "only_session sid d d'"
  proof -
    have "xd_tasks d' = xd_tasks (put_rows rows' d)" by (simp add: d' put_session_def)
    moreover have "map xs_id (xd_sessions d') = map xs_id (xd_sessions d)"
      by (simp add: d' put_session_ids) (simp add: put_rows_def)
    ultimately have "db_ok d'" using ok overlay_ids [OF fit(1)] by (simp add: db_ok_def)
    moreover have "session_rows i d' = session_rows i d" if "i \<noteq> sid" for i
      using put_rows_other [OF fit(1,4) that] by (simp add: d')
    moreover have "get_by xs_id i (xd_sessions d') = get_by xs_id i (xd_sessions d)" if "i \<noteq> sid" for i
      using that fr(2) sid by (simp add: d' put_session_get) (simp add: put_rows_def)
    ultimately show ?thesis by (simp add: only_session_def d')
  qed
  ultimately show ?thesis using that r by blast
qed

subsection \<open>The contract\<close>

text \<open>\<open>prepared d d1 s s1\<close>: what a request writes before it closes the row leaves tasks, plans and
  the other sessions alone, and of the own session the state and the plan.\<close>

definition prepared :: "experiment_db \<Rightarrow> experiment_db \<Rightarrow> experiment_session \<Rightarrow> experiment_session \<Rightarrow> bool" where
  "prepared d d1 s s1 \<longleftrightarrow> xd_tasks d1 = xd_tasks d \<and> same_plans d d1 \<and>
     map xs_id (xd_sessions d1) = map xs_id (xd_sessions d) \<and>
     get_by xs_id (xs_id s) (xd_sessions d1) = Some s1 \<and>
     (\<forall>i. i \<noteq> xs_id s \<longrightarrow> get_by xs_id i (xd_sessions d1) = get_by xs_id i (xd_sessions d)) \<and>
     xs_state s1 = xs_state s \<and> xs_plan_id s1 = xs_plan_id s"

lemma finishes_frame: "finishes f \<Longrightarrow> keeps_frame f"
  by (simp add: finishes_def keeps_frame_def frame_def)

lemma found_task:
  assumes "session_task_for_user tid user editable d = Inr (t, s)"
  shows "t \<in> set (xd_tasks d)" "st_id t = tid" "get_by xs_id (xs_id s) (xd_sessions d) = Some s"
    "st_experiment_session_id t = xs_id s" "xs_user_id s = us_id user"
    "\<not> task_done t \<Longrightarrow> xs_state s = IN_PROGRESS \<and> st_status t \<noteq> LOCKED"
proof -
  have t: "get_by st_id tid (xd_tasks d) = Some t"
    and s: "get_by xs_id (st_experiment_session_id t) (xd_sessions d) = Some s"
    using assms by (auto simp: session_task_for_user_def split: option.splits if_splits)
  show "t \<in> set (xd_tasks d)" "st_id t = tid" using get_by_Some [OF t] by auto
  have sid: "xs_id s = st_experiment_session_id t" using get_by_Some [OF s] by auto
  then show "st_experiment_session_id t = xs_id s" by simp
  show "get_by xs_id (xs_id s) (xd_sessions d) = Some s" using s by (simp add: sid)
  show "xs_user_id s = us_id user" "\<not> task_done t \<Longrightarrow> xs_state s = IN_PROGRESS \<and> st_status t \<noteq> LOCKED"
    using assms by (auto simp: session_task_for_user_def split: option.splits if_splits)
qed

lemma put_task_ids: "map st_id (xd_tasks (put_task t d)) = map st_id (xd_tasks d)"
  by (simp add: put_task_def upd_by_def upd_rows_def)

locale stage_closer =
  fixes run :: "route_env \<Rightarrow> string \<Rightarrow> 'form \<Rightarrow> user \<Rightarrow> experiment_db \<Rightarrow> (err + 'a) \<times> experiment_db"
  assumes run_found: "run r tid form user d = (Inr x, d') \<Longrightarrow>
      \<exists>t s. session_task_for_user tid user False d = Inr (t, s)"
    and run_closes: "run r tid form user d = (Inr x, d') \<Longrightarrow>
      session_task_for_user tid user False d = Inr (t, s) \<Longrightarrow> \<not> task_done t \<Longrightarrow>
      \<exists>f now d1 s1. finishes f \<and> prepared d d1 s s1 \<and>
        advance_after_stage now (xs_id s) (f t) False (put_task (f t) d1) = Inr d'"
    and run_refuses: "run r tid form user d = (Inl err, d') \<Longrightarrow> d' = d"
begin

lemma closes_stage:
  assumes run: "run r tid form user d = (Inr x, d')" and ok: "db_ok d"
    and found: "session_task_for_user tid user False d = Inr (t, s)" and nd: "\<not> task_done t"
    and plan: "plan_of (xs_plan_id s) d = Inr (Some p)" and mode: "pl_progression_mode p = STRICT_SEQUENTIAL"
    and rows: "rows_ok (session_rows (xs_id s) d)" and at: "strict_at k (session_rows (xs_id s) d)"
  shows "k < length (session_rows (xs_id s) d) \<and> session_rows (xs_id s) d ! k = t \<and>
    strict_at (k + 1) (session_rows (xs_id s) d') \<and> rows_ok (session_rows (xs_id s) d') \<and>
    map frame (session_rows (xs_id s) d') = map frame (session_rows (xs_id s) d) \<and>
    (\<exists>s'. get_by xs_id (xs_id s) (xd_sessions d') = Some s' \<and> xs_plan_id s' = xs_plan_id s \<and>
       xs_state s' = (if k + 1 = length (session_rows (xs_id s) d)
         then end_state (pl_status p = PN_SUPERSEDED) (session_rows (xs_id s) d) else IN_PROGRESS)) \<and>
    only_session (xs_id s) d d'"
proof -
  let ?rows = "session_rows (xs_id s) d"
  note f = found_task [OF found]
  obtain g now d1 s1 where g: "finishes g" and pre: "prepared d d1 s s1"
    and adv: "advance_after_stage now (xs_id s) (g t) False (put_task (g t) d1) = Inr d'"
    using run_closes [OF run found nd] by blast
  have inr: "t \<in> set ?rows" using f by (simp add: session_rows_set)
  obtain xs ys where split: "?rows = xs @ ys" "length xs = k" "list_all task_done xs"
      "ys = [] \<or> (\<exists>r rs. ys = r # rs \<and> st_status r = ACTIVE \<and> list_all (\<lambda>r. st_status r = LOCKED) rs)"
    using at unfolding strict_at_split by blast
  then obtain rs where ys: "ys = t # rs" "st_status t = ACTIVE"
    using inr nd f(6) by (auto simp: list_all_iff)
  then have k: "k < length ?rows" "?rows ! k = t" using split by (simp_all add: nth_append)
  have ok1: "db_ok d1" "session_rows i d1 = session_rows i d" for i
    using ok pre by (simp_all add: db_ok_def prepared_def session_rows_def)
  let ?d2 = "put_task (g t) d1"
  have t1: "t \<in> set (xd_tasks d1)" using f pre by (simp add: prepared_def)
  have rows2: "session_rows i ?d2 = upd_by st_id (st_id t) g (session_rows i d)" for i
    using put_task_rows [OF finishes_frame [OF g] _ t1] ok1 by (simp add: db_ok_def)
  have ok2: "db_ok ?d2"
    using ok1(1) put_task_ids [of "g t" d1] by (simp add: db_ok_def) (simp add: put_task_def)
  have s2: "get_by xs_id (xs_id s) (xd_sessions ?d2) = Some s1" using pre by (simp add: prepared_def put_task_def)
  have p2: "plan_of (xs_plan_id s1) ?d2 = Inr (Some p)"
    using plan plan_of_same [of d ?d2 "xs_plan_id s"] pre by (simp add: prepared_def)
  obtain rows' s' where a: "advance_rows STRICT_SEQUENTIAL (pl_status p = PN_SUPERSEDED) False now (g t)
      (session_rows (xs_id s) ?d2, s1) = (rows', s')"
    and a': "session_rows (xs_id s) d' = rows'" "get_by xs_id (xs_id s) (xd_sessions d') = Some s'"
      "only_session (xs_id s) ?d2 d'"
    using advance_db [OF ok2 s2 p2 adv] mode by auto
  have dist: "distinct (map st_id ?rows)" using rows by (simp add: rows_ok_def)
  have "finish_stage STRICT_SEQUENTIAL (pl_status p = PN_SUPERSEDED) now g (st_id (?rows ! k)) (?rows, s1) = (rows', s')"
    using a get_by_distinct [OF dist inr] by (simp add: finish_stage_def k rows2)
  note st = finish_stage_strict [OF rows at k(1) g this]
  have fr: "map frame rows' = map frame ?rows"
    using advance_frames(1) [OF a] rows2 map_frame_upd_by [OF finishes_frame [OF g]] by simp
  have other: "upd_by st_id (st_id t) g (session_rows i d) = session_rows i d" if "i \<noteq> xs_id s" for i
  proof (rule upd_by_absent)
    show "st_id t \<notin> st_id ` set (session_rows i d)"
      using that f(1,4) ok row_unique [of st_id "xd_tasks d" t]
      by (auto simp: session_rows_set db_ok_def)
  qed
  have "same_plans d ?d2" using pre by (simp add: prepared_def)
  moreover have "xd_sessions ?d2 = xd_sessions d1" by (simp add: put_task_def)
  ultimately have only: "only_session (xs_id s) d d'"
    using a'(3) other rows2 pre same_plans_trans [of d ?d2 d']
    unfolding only_session_def prepared_def by simp
  have "xs_plan_id s' = xs_plan_id s"
    using advance_frames(5) [OF a] pre by (simp add: prepared_def)
  moreover have "xs_state s' = (if k + 1 = length ?rows then end_state (pl_status p = PN_SUPERSEDED) ?rows
      else IN_PROGRESS)"
    using st(5) pre f(6) nd by (simp add: prepared_def end_tasks_def)
  ultimately show ?thesis using only k st(1,2) a' fr by simp
qed

end

end
