(* ===== verification/Strict_Sessions.thy ===== *)
theory Strict_Sessions
  imports Stage_Closing
begin

text \<open>
  The four closing requests meet the contract of \<open>Stage_Closing\<close>; with it a strictly sequential
  session moves through its stages one by one, and a run of closings ends after as many
  successes as there are stages.
\<close>

subsection \<open>The requests meet the contract\<close>

lemma prepared_db:
  assumes "get_by xs_id (xs_id s) (xd_sessions d) = Some s"
  shows "prepared d (with_surveys v d) s s" "prepared d (with_submissions q d) s s"
  using assms by (simp_all add: prepared_def) (simp_all add: with_surveys_def with_submissions_def)

lemma finishes_const:
  assumes "task_done t'" and "frame t' = frame t"
  shows "\<exists>f. finishes f \<and> f t = t'"
proof -
  let ?f = "\<lambda>r. if r = t then t' else r\<lparr>st_status := FINALIZED\<rparr>"
  have "finishes ?f" using assms by (auto simp: finishes_def frame_def task_done_def)
  then show ?thesis by (intro exI [of _ ?f]) simp
qed

lemma close_survey_advances:
  assumes "close_survey r st t s saved d = (Inr x, d')"
  shows "\<exists>v. advance_after_stage (rt_clock r 4) (xs_id s) (close_task st (rt_clock r 3) t) False
    (put_task (close_task st (rt_clock r 3) t) (with_surveys v d)) = Inr d'"
  using assms by (auto simp: close_survey_def Let_def split: sum.splits prod.splits)

lemma close_survey_refuses: "close_survey r st t s saved d = (Inl err, d') \<Longrightarrow> d' = d"
  by (auto simp: close_survey_def Let_def split: sum.splits prod.splits)

lemma finishes_close: "st \<in> {FINALIZED, SKIPPED} \<Longrightarrow> finishes (close_task st now)"
  by (auto simp: finishes_def close_task_def task_done_def)

interpretation submits: stage_closer submit_survey_task
proof (unfold_locales, goal_cases)
  case (1 r tid form user d x d')
  then show ?case by (cases "session_task_for_user tid user False d") (auto simp: submit_survey_task_def)
next
  case (2 r tid form user d x d' t s)
  then obtain saved where "close_survey r FINALIZED t s saved d = (Inr x, d')"
    by (auto simp: submit_survey_task_def split: if_splits)
  with 2 show ?case
    using close_survey_advances finishes_close [of FINALIZED] prepared_db(1) [OF found_task(3) [OF 2(2)]] by blast
next
  case (3 r tid form user d err d')
  then show ?case by (auto simp: submit_survey_task_def dest: close_survey_refuses split: sum.splits if_splits)
qed

interpretation skips: stage_closer "\<lambda>r tid (_ :: unit). skip_survey_task r tid"
proof (unfold_locales, goal_cases)
  case (1 r tid form user d x d')
  then show ?case by (cases "session_task_for_user tid user False d") (auto simp: skip_survey_task_def)
next
  case (2 r tid form user d x d' t s)
  then obtain saved where "close_survey r SKIPPED t s saved d = (Inr x, d')"
    by (auto simp: skip_survey_task_def split: if_splits)
  with 2 show ?case
    using close_survey_advances finishes_close [of SKIPPED] prepared_db(1) [OF found_task(3) [OF 2(2)]] by blast
next
  case (3 r tid form user d err d')
  then show ?case by (auto simp: skip_survey_task_def dest: close_survey_refuses split: sum.splits if_splits)
qed

lemma essay_row_done: "task_done (finalize_essay_row now y c t)" "frame (finalize_essay_row now y c t) = frame t"
  by (simp_all add: finalize_essay_row_def task_done_def frame_def)

lemma first_essay_fields [simp]:
  "xs_id (first_essay y now s) = xs_id s" "xs_state (first_essay y now s) = xs_state s"
  "xs_plan_id (first_essay y now s) = xs_plan_id s" "xs_user_id (first_essay y now s) = xs_user_id s"
  by (simp_all add: first_essay_def)

lemma finalize_essay_task_advances:
  assumes "finalize_essay_task e m user t c d = (Inr y, d')" and nd: "\<not> task_done t"
    and s: "get_by xs_id (xs_id s) (xd_sessions d) = Some s" and ts: "st_experiment_session_id t = xs_id s"
  shows "\<exists>f now d1 s1. finishes f \<and> prepared d d1 s s1 \<and>
    advance_after_stage now (xs_id s) (f t) False (put_task (f t) d1) = Inr d'"
proof -
  have nf: "st_status t \<noteq> FINALIZED" using nd by (auto simp: task_done_def)
  obtain i now z where a: "advance_after_stage (se_clock e 6) (xs_id s) (finalize_essay_row now i c t) False
      (put_session (first_essay i now s) (d\<lparr>xd_essays := z, xd_tasks := upd_by st_id (st_id t)
        (\<lambda>_. finalize_essay_row now i c t) (xd_tasks d)\<rparr>)) = Inr d'"
    using assms nf by (auto simp: finalize_essay_task_def Let_def split: if_splits sum.splits)
  obtain f where f: "finishes f" "f t = finalize_essay_row now i c t"
    using finishes_const [OF essay_row_done] by blast
  let ?d1 = "put_session (first_essay i now s) (d\<lparr>xd_essays := z\<rparr>)"
  have "prepared d ?d1 s (first_essay i now s)"
    using s by (simp add: prepared_def put_session_ids put_session_get) (simp add: put_session_def)
  moreover have "put_task (f t) ?d1 = put_session (first_essay i now s) (d\<lparr>xd_essays := z, xd_tasks := upd_by st_id (st_id t)
        (\<lambda>_. finalize_essay_row now i c t) (xd_tasks d)\<rparr>)"
    using finishesD(2) [OF f(1), of t] by (simp add: f(2) put_task_def put_session_def)
  ultimately show ?thesis using a f by metis
qed

lemma finalize_essay_task_refuses: "finalize_essay_task e m user t c d = (Inl err, d') \<Longrightarrow> d' = d"
  by (auto simp: finalize_essay_task_def Let_def split: option.splits sum.splits if_splits)

interpretation essays: stage_closer finalize_essay
proof (unfold_locales, goal_cases)
  case (1 r tid form user d x d')
  then show ?case
    by (cases "session_task_for_user tid user False d") (auto simp: finalize_essay_def split: if_splits)
next
  case (2 r tid form user d x d' t s)
  then have "st_status t \<noteq> FINALIZED" by (auto simp: task_done_def)
  with 2 obtain y where "finalize_essay_task (rt_session r) (rt_metrics r) user t (py_strip form) d = (Inr y, d')"
    by (auto simp: finalize_essay_def split: if_splits sum.splits option.splits prod.splits)
  from finalize_essay_task_advances [OF this 2(3) found_task(3,4) [OF 2(2)]] show ?case .
next
  case (3 r tid form user d err d')
  then show ?case
    by (auto simp: finalize_essay_def dest: finalize_essay_task_refuses
        split: sum.splits if_splits option.splits prod.splits)
qed

lemma refinalize_refuses: "refinalize r t user d = (Inl err, d') \<Longrightarrow> d' = d"
  by (auto simp: refinalize_def split: sum.splits prod.splits if_splits)

interpretation questions: stage_closer finalize_questions
proof (unfold_locales, goal_cases)
  case (1 r tid form user d x d')
  then show ?case by (cases "session_task_for_user tid user False d") (auto simp: finalize_questions_def)
next
  case (2 r tid form user d x d' t s)
  then have "st_status t \<noteq> FINALIZED" by (auto simp: task_done_def)
  with 2 obtain now q where a: "advance_after_stage (rt_clock r 4) (xs_id s)
      (t\<lparr>st_status := FINALIZED, st_completed_at := Some now, st_finalized_at := Some now\<rparr>) False
      (put_task (t\<lparr>st_status := FINALIZED, st_completed_at := Some now, st_finalized_at := Some now\<rparr>)
        (with_submissions q d)) = Inr d'"
    by (auto simp: finalize_questions_def Let_def split: if_splits sum.splits option.splits prod.splits)
  obtain f where "finishes f"
    "f t = t\<lparr>st_status := FINALIZED, st_completed_at := Some now, st_finalized_at := Some now\<rparr>"
    using finishes_const [of "t\<lparr>st_status := FINALIZED, st_completed_at := Some now, st_finalized_at := Some now\<rparr>" t]
    by (auto simp: task_done_def frame_def)
  with a prepared_db(2) [OF found_task(3) [OF 2(2)]] show ?case by metis
next
  case (3 r tid form user d err d')
  then show ?case
    by (auto simp: finalize_questions_def Let_def dest: refinalize_refuses
        split: sum.splits if_splits option.splits prod.splits)
qed

end
