(* ===== verification/Session_Lifecycle.thy ===== *)
theory Session_Lifecycle
  imports Experiment_Session
begin

text \<open>
  The life of a session under interference. A request runs in between the requests of others;
  what they commit is a function on the store (\<open>se_race\<close> before an insert, \<open>race\<close> before a
  conditional update). \<open>tame\<close> is the condition on such an interference: it keeps the unique keys
  of the session table and never moves a session backwards. Every request that moves a session
  is tame itself, so tame requests may interfere with each other.
\<close>

subsection \<open>Levels\<close>

definition rank :: "experiment_state \<Rightarrow> nat" where
  "rank st =
     (case st of PRE_SURVEY_REQUIRED \<Rightarrow> 1 | TOPIC_REQUIRED \<Rightarrow> 2 | TASK_REQUIRED \<Rightarrow> 2 | IN_PROGRESS \<Rightarrow> 3
      | POST_SURVEY_REQUIRED \<Rightarrow> 4 | THANK_YOU_REQUIRED \<Rightarrow> 5 | X_COMPLETED \<Rightarrow> 6 | _ \<Rightarrow> 0)"

definition level :: "string \<Rightarrow> experiment_db \<Rightarrow> nat" where
  "level sid d = (case get_by xs_id sid (xd_sessions d) of None \<Rightarrow> 0 | Some s \<Rightarrow> rank (xs_state s))"

definition forward :: "experiment_db \<Rightarrow> experiment_db \<Rightarrow> bool" where
  "forward d d' \<longleftrightarrow> session_keys d' \<and> (\<forall>sid. level sid d \<le> level sid d')"

definition tame :: "(experiment_db \<Rightarrow> experiment_db) \<Rightarrow> bool" where
  "tame race \<longleftrightarrow> (\<forall>d. session_keys d \<longrightarrow> forward d (race d))"

lemma rank_bound: "rank st \<le> 6"
  by (cases st) (simp_all add: rank_def)

lemma level_bound: "level sid d \<le> 6"
  by (simp add: level_def rank_bound split: option.splits)

lemma forward_refl: "session_keys d \<Longrightarrow> forward d d"
  by (simp add: forward_def)

lemma forward_trans: "forward a b \<Longrightarrow> forward b c \<Longrightarrow> forward a c"
  unfolding forward_def by (meson order_trans)

lemma forwardD: "forward d d' \<Longrightarrow> session_keys d'" "forward d d' \<Longrightarrow> level sid d \<le> level sid d'"
  by (simp_all add: forward_def)

lemma tameD: "tame race \<Longrightarrow> session_keys d \<Longrightarrow> forward d (race d)"
  by (simp add: tame_def)

lemma tame_id: "tame (\<lambda>d. d)"
  by (simp add: tame_def forward_refl)

lemma forward_same_sessions: "session_keys d \<Longrightarrow> xd_sessions d' = xd_sessions d \<Longrightarrow> forward d d'"
  by (simp add: forward_def session_keys_def level_def)

text \<open>Replacing the row of a session by one with the same keys.\<close>

definition session_key :: "experiment_session \<Rightarrow> string \<times> string \<times> string" where
  "session_key s = (xs_id s, xs_user_id s, xs_group_id s)"

lemma session_keys_map:
  assumes "map session_key (xd_sessions d') = map session_key (xd_sessions d)"
  shows "session_keys d' = session_keys d"
proof -
  have "map xs_id rows = map fst (map session_key rows)"
    "map (\<lambda>s. (xs_user_id s, xs_group_id s)) rows = map snd (map session_key rows)" for rows
    by (simp_all add: session_key_def comp_def)
  then show ?thesis unfolding session_keys_def using assms by metis
qed

lemma get_by_upd_session:
  "(\<And>s. xs_id (f s) = xs_id s) \<Longrightarrow> get_by xs_id i (upd_by xs_id k f rows) =
     map_option (\<lambda>s. if i = k then f s else s) (get_by xs_id i rows)"
  by (induction rows) auto

lemma forward_upd_session:
  assumes keys: "session_keys d" and s: "get_by xs_id sid (xd_sessions d) = Some s"
    and f: "\<And>x. session_key (f x) = session_key x" and r: "rank (xs_state s) \<le> rank (xs_state (f s))"
    and d': "xd_sessions d' = upd_by xs_id sid f (xd_sessions d)"
  shows "forward d d'" and "get_by xs_id sid (xd_sessions d') = Some (f s)"
proof -
  have i: "xs_id (f x) = xs_id x" for x using f [of x] by (simp add: session_key_def)
  have g: "get_by xs_id i (xd_sessions d') =
      map_option (\<lambda>x. if i = sid then f x else x) (get_by xs_id i (xd_sessions d))" for i
    unfolding d' by (rule get_by_upd_session [OF i])
  show "get_by xs_id sid (xd_sessions d') = Some (f s)" by (simp add: g s)
  have "map session_key (xd_sessions d') = map session_key (xd_sessions d)"
    unfolding d' by (rule map_upd_by) (rule f)
  then have k: "session_keys d'" using keys session_keys_map by metis
  have l: "level i d \<le> level i d'" for i
  proof (cases "i = sid")
    case True
    then show ?thesis using s r by (simp add: level_def g)
  next
    case False
    then have "get_by xs_id i (xd_sessions d') = get_by xs_id i (xd_sessions d)"
      by (simp add: g option.map_ident)
    then show ?thesis by (simp add: level_def)
  qed
  show "forward d d'" unfolding forward_def using k l by simp
qed

subsection \<open>The current session\<close>

lemma instantiate_item_sessions:
  "instantiate_item uid pick now sid x (d, rows) = Inr (d', rows') \<Longrightarrow> xd_sessions d' = xd_sessions d"
  by (cases x) (auto simp: instantiate_item_def Let_def split: if_splits option.splits)

lemma instantiate_sessions:
  assumes "instantiate_session_tasks uid pick now sid pid d = Inr (ms, d')"
  shows "xd_sessions d' = xd_sessions d"
proof -
  have "xd_sessions d2 = xd_sessions d"
    if "foldE (instantiate_item uid pick now sid) xs (d, []) = Inr (d2, rows)" for xs d2 rows
    by (rule foldE_invariant [OF that, of "\<lambda>(x, _). xd_sessions x = xd_sessions d", simplified])
      (auto dest: instantiate_item_sessions)
  then show ?thesis
    using assms by (fastforce simp: instantiate_session_tasks_def Let_def bindE_Inr_iff split: if_splits option.splits)
qed

lemma insert_session_forward:
  assumes "insert_session e s plan d = Inr (s', d')" and "session_keys d"
  shows "forward d d' \<and> get_by xs_id (xs_id s') (xd_sessions d') = Some s' \<and> session_key s' = session_key s"
proof -
  let ?d1 = "d\<lparr>xd_sessions := add_row s (xd_sessions d)\<rparr>"
  have k1: "session_keys ?d1" using assms(1) by (auto simp: insert_session_def Let_def split: if_splits)
  have new: "get_by xs_id (xs_id s) (xd_sessions d) = None"
    using k1 by (auto simp: session_keys_def get_by_None add_row_def)
  have g: "get_by xs_id i (xs @ [s]) = (case get_by xs_id i xs of None \<Rightarrow> if i = xs_id s then Some s else None
      | Some x \<Rightarrow> Some x)" for i xs
    by (induction xs) auto
  have l: "level i d \<le> level i ?d1" for i
    by (simp add: level_def add_row_def g split: option.split)
  have f1: "forward d ?d1" unfolding forward_def using k1 l by simp
  show ?thesis
  proof (cases plan)
    case None
    with assms(1) k1 have "s' = s" "d' = ?d1" by (auto simp: insert_session_def Let_def)
    with f1 new show ?thesis by (simp add: add_row_def g)
  next
    case (Some p)
    then obtain tasks d2 where i: "instantiate_session_tasks (\<lambda>x. se_uid e (DTask x)) (se_pick e) (se_clock e 1)
        (xs_id s) (pl_id p) ?d1 = Inr (tasks, d2)"
      using assms(1) k1 by (auto simp: insert_session_def Let_def bindE_Inr_iff)
    have "tasks \<noteq> []" using assms(1) k1 Some i by (auto simp: insert_session_def Let_def)
    then obtain m ms where "tasks = m # ms" by (cases tasks) auto
    then have sd: "session_key s' = session_key s" "xs_state s' = xs_state s" "d' = put_session s' d2"
      using assms(1) k1 Some i
      by (simp_all add: insert_session_def Let_def session_key_def split: if_splits) auto
    have same: "xd_sessions d2 = xd_sessions ?d1" by (rule instantiate_sessions [OF i])
    have f2: "forward ?d1 d2" by (rule forward_same_sessions [OF k1 same])
    have k2: "session_keys d2" using f2 by (rule forwardD)
    have gs: "get_by xs_id (xs_id s) (xd_sessions d2) = Some s"
      using new by (simp add: same add_row_def g)
    let ?f = "\<lambda>x. if session_key x = session_key s then s' else x"
    have ids: "xs_id s' = xs_id s" using sd(1) by (simp add: session_key_def)
    have u: "upd_by xs_id (xs_id s') (\<lambda>_. s') (xd_sessions d2) = upd_by xs_id (xs_id s) ?f (xd_sessions d2)"
      unfolding upd_by_def upd_rows_def
    proof (rule map_cong [OF refl])
      fix x assume x: "x \<in> set (xd_sessions d2)"
      have "x = s" if "xs_id x = xs_id s"
        using row_unique [of xs_id "xd_sessions d2" x s] k2 get_by_Some [OF gs] x that
        by (simp add: session_keys_def)
      then show "(if xs_id x = xs_id s' then s' else x) = (if xs_id x = xs_id s then ?f x else x)"
        using ids by auto
    qed
    have up: "xd_sessions d' = upd_by xs_id (xs_id s) ?f (xd_sessions d2)" using sd(3) u by (simp add: put_session_def)
    have "forward d2 d'" "get_by xs_id (xs_id s) (xd_sessions d') = Some (?f s)"
      by (rule forward_upd_session [OF k2 gs, of ?f]; use sd up in auto)+
    with f1 f2 ids sd(1) show ?thesis using forward_trans by auto
  qed
qed

lemma create_session_forward:
  assumes "create_session e u g plan topic ty d = (res, d')" and "tame (se_race e)" and "session_keys d"
  shows "forward d d'"
proof -
  let ?met = "se_race e d"
  have f: "forward d ?met" by (rule tameD [OF assms(2,3)])
  show ?thesis
  proof (cases "insert_session e (new_session e u g plan topic ty) plan ?met")
    case (Inl err)
    with assms(1) f show ?thesis by (auto simp: create_session_def Let_def split: option.splits)
  next
    case (Inr y)
    obtain s d2 where y: "y = (s, d2)" by force
    have "forward ?met d2" using insert_session_forward Inr y forwardD(1) [OF f] by blast
    moreover have "d' = d2" using assms(1) Inr y by (simp add: create_session_def Let_def)
    ultimately show ?thesis using f forward_trans by blast
  qed
qed

lemma resolve_topic_sessions:
  "resolve_topic_for_group i now pick u g d = (res, d') \<Longrightarrow> xd_sessions d' = xd_sessions d"
  by (auto simp: resolve_topic_for_group_def set_assignment_def Let_def
      split: if_splits option.splits sum.splits prod.splits)

lemma get_current_forward:
  assumes g: "get_current e user d = (res, d')" and t: "tame (se_race e)" and k: "session_keys d"
  shows "forward d d'"
proof -
  have "d' = d \<or> (\<exists>g plan ty r. create_session e (us_id user) g plan None ty d = (r, d')) \<or>
    (\<exists>g r d1 topic ty r1. resolve_topic_for_group (se_uid e DAssignment) (se_clock e 2)
        (se_topic_pick e) (us_id user) g d = (r1, d1) \<and>
       (d' = d1 \<or> create_session e (us_id user) g None topic ty d1 = (r, d')))"
    using g unfolding get_current_def Let_def
    by (auto split: if_splits list.splits option.splits sum.splits prod.splits; metis)
  then show ?thesis
  proof (elim disjE exE conjE)
    assume "d' = d"
    then show ?thesis using k by (simp add: forward_refl)
  next
    fix g plan ty r assume "create_session e (us_id user) g plan None ty d = (r, d')"
    then show ?thesis by (rule create_session_forward [OF _ t k])
  next
    fix g r d1 topic ty r1
    assume r: "resolve_topic_for_group (se_uid e DAssignment) (se_clock e 2)
        (se_topic_pick e) (us_id user) g d = (r1, d1)"
    have f: "forward d d1" by (rule forward_same_sessions [OF k resolve_topic_sessions [OF r]])
    {
      assume "d' = d1"
      then show ?thesis using f by simp
    next
      assume "create_session e (us_id user) g None topic ty d1 = (r, d')"
      then show ?thesis
        using create_session_forward [OF _ t forwardD(1) [OF f]] f forward_trans by blast
    }
  qed
qed

subsection \<open>What is reported\<close>

definition reported :: "user \<Rightarrow> experiment_state \<Rightarrow> experiment_session option \<Rightarrow> experiment_db \<Rightarrow> bool" where
  "reported user st session d \<longleftrightarrow>
     (case session of
        None \<Rightarrow> st \<in> {NOT_APPLICABLE, CONFIGURATION_ERROR}
      | Some s \<Rightarrow> get_by xs_id (xs_id s) (xd_sessions d) = Some s \<and> xs_state s = st \<and> xs_user_id s = us_id user)"

lemma reported_row:
  "session_keys d \<Longrightarrow> s \<in> set (xd_sessions d) \<Longrightarrow> xs_user_id s = us_id user \<Longrightarrow> reported user (xs_state s) (Some s) d"
  by (simp add: reported_def session_keys_def get_by_distinct)

lemma create_session_reported:
  assumes "create_session e (us_id user) g plan topic ty d = (Inr (st, session, msg), d')" and "tame (se_race e)" and "session_keys d"
  shows "reported user st session d'"
proof -
  let ?met = "se_race e d" and ?s = "new_session e (us_id user) g plan topic ty"
  have k: "session_keys ?met" by (rule forwardD(1) [OF tameD [OF assms(2,3)]])
  have u: "xs_user_id ?s = us_id user" by (simp add: new_session_def Let_def split: option.split prod.split)
  show ?thesis
  proof (cases "insert_session e ?s plan ?met")
    case (Inl err)
    then obtain s where "find_row (\<lambda>s. xs_user_id s = us_id user \<and> xs_group_id s = g) (xd_sessions ?met) = Some s"
      and out: "st = xs_state s" "session = Some s" "d' = ?met"
      using assms(1) by (auto simp: create_session_def Let_def split: option.splits)
    then show ?thesis unfolding out by (intro reported_row [OF k]) (auto dest: find_row_Some)
  next
    case (Inr y)
    obtain s d2 where y: "y = (s, d2)" by force
    have out: "st = xs_state s" "session = Some s" "d' = d2"
      using assms(1) Inr y by (simp_all add: create_session_def Let_def)
    have "get_by xs_id (xs_id s) (xd_sessions d2) = Some s" "session_key s = session_key ?s"
      using insert_session_forward [OF _ k] Inr y by blast+
    then show ?thesis unfolding out using u by (simp add: reported_def session_key_def)
  qed
qed

lemma get_current_reported:
  assumes g: "get_current e user d = (Inr (st, session, msg), d')" and t: "tame (se_race e)" and k: "session_keys d"
  shows "reported user st session d'"
proof -
  have own: "s \<in> set (xd_sessions d) \<and> xs_user_id s = us_id user" if "s \<in> set (sessions_for_user (us_id user) d)" for s
    using that by (simp add: sessions_for_user_def order_desc_def order_by_def)
  have "(session = None \<and> st \<in> {NOT_APPLICABLE, CONFIGURATION_ERROR}) \<or>
    (\<exists>s \<in> set (sessions_for_user (us_id user) d). session = Some s \<and> st = xs_state s \<and> d' = d) \<or>
    (\<exists>g plan ty. create_session e (us_id user) g plan None ty d = (Inr (st, session, msg), d')) \<or>
    (\<exists>g d1 topic ty r1. resolve_topic_for_group (se_uid e DAssignment) (se_clock e 2)
        (se_topic_pick e) (us_id user) g d = (r1, d1) \<and>
       create_session e (us_id user) g None topic ty d1 = (Inr (st, session, msg), d'))"
  proof -
    have hd: "s \<in> set xs" if "filter P xs = s # ys" for P s ys and xs :: "experiment_session list"
      using that by (auto dest: Cons_eq_filterD [OF sym])
    show ?thesis
      using g unfolding get_current_def Let_def
      by (auto split: if_splits list.splits option.splits sum.splits prod.splits dest: hd; metis find_row_Some)
  qed
  then show ?thesis
  proof (elim disjE exE conjE bexE)
    fix s assume "s \<in> set (sessions_for_user (us_id user) d)" "session = Some s" "st = xs_state s" "d' = d"
    then show ?thesis using reported_row [OF k] own by simp
  next
    fix g plan ty assume "create_session e (us_id user) g plan None ty d = (Inr (st, session, msg), d')"
    then show ?thesis by (rule create_session_reported [OF _ t k])
  next
    fix g d1 topic ty r1
    assume r: "resolve_topic_for_group (se_uid e DAssignment) (se_clock e 2)
        (se_topic_pick e) (us_id user) g d = (r1, d1)"
      and c: "create_session e (us_id user) g None topic ty d1 = (Inr (st, session, msg), d')"
    have "session_keys d1" by (rule forwardD(1) [OF forward_same_sessions [OF k resolve_topic_sessions [OF r]]])
    then show ?thesis by (rule create_session_reported [OF c t])
  qed (simp add: reported_def)
qed

end
