(* ===== verification/Sample_Store.thy ===== *)
theory Sample_Store
  imports Session_Lifecycle Condition_Properties Question_Authoring
begin

text \<open>Concrete stores for the witnesses: one participant with one session and nothing else.\<close>

definition empty_store :: experiment_db where
  "empty_store = \<lparr>xd_groups = [(''g'', [''u''])], xd_plans = [], xd_items = [], xd_pools = [], xd_conditions = [],
     xd_injections = [], xd_warning_rows = [], xd_timings = [], xd_scopes = [], xd_topics = [],
     xd_assignments = [], xd_questions = empty_questions,
     xd_surveys = \<lparr>svd_tasks = [], svd_questions = [], svd_choices = []\<rparr>, xd_sessions = [], xd_tasks = [],
     xd_essays = [], xd_question_subs = \<lparr>sd_submissions = [], sd_responses = [], sd_choices = [], sd_blanks = [],
       sd_attempts = [], sd_overrides = []\<rparr>,
     xd_survey_subs = \<lparr>ssd_submissions = [], ssd_responses = [], ssd_choices = []\<rparr>, xd_requests = [],
     xd_warnings = [], xd_events = []\<rparr>"

definition sample_user :: user where
  "sample_user = \<lparr>us_id = ''u'', us_admin = False\<rparr>"

definition sample_env :: session_env where
  "sample_env = \<lparr>se_uid = (\<lambda>_. ''i''), se_clock = int, se_pick = (\<lambda>_. 0), se_topic_pick = 0,
     se_hmac = (\<lambda>_. (0, ''x'')), se_race = (\<lambda>d. d)\<rparr>"

definition session_in :: "experiment_state \<Rightarrow> experiment_session" where
  "session_in st = sample_participant\<lparr>xs_state := st, xs_plan_id := None\<rparr>"

definition store_with :: "experiment_session \<Rightarrow> experiment_db" where
  "store_with s = empty_store\<lparr>xd_sessions := [s]\<rparr>"

definition store_in :: "experiment_state \<Rightarrow> experiment_db" where
  "store_in st = store_with (session_in st)"

definition finished_session :: "experiment_state \<Rightarrow> experiment_session" where
  "finished_session st = (session_in st)\<lparr>xs_completed_at := Some 4, xs_state := X_COMPLETED, xs_updated_at := 3\<rparr>"

lemma session_in_fields [simp]:
  "xs_id (session_in st) = ''s''" "xs_state (session_in st) = st" "xs_user_id (session_in st) = ''u''"
  "xs_group_id (session_in st) = ''g''" "xs_plan_id (session_in st) = None"
  by (simp_all add: session_in_def sample_participant_def)

lemma tame_sample: "tame (se_race sample_env)"
  by (simp add: sample_env_def tame_id)

lemma session_keys_sample: "session_keys (store_in st)"
  by (simp add: session_keys_def store_in_def store_with_def)

lemma get_current_one:
  assumes "xs_state s \<in> active_states" and "xs_user_id s = us_id user" and "\<not> us_admin user"
    and "xd_sessions d = [s]" and "length (groups_of (us_id user) d) \<le> 1"
  shows "get_current e user d = (Inr (xs_state s, Some s, None), d)"
  using assms by (simp add: get_current_def sessions_for_user_def order_desc_def order_by_def)

lemma get_current_sample:
  assumes "st \<in> active_states"
  shows "get_current e sample_user (store_in st) = (Inr (st, Some (session_in st), None), store_in st)"
  using get_current_one [of "session_in st" sample_user "store_in st" e] assms
  by (simp add: store_in_def store_with_def session_in_def sample_user_def sample_participant_def groups_of_def empty_store_def)

lemma cas_sample:
  "cas_update ''s'' st f (\<lambda>d. d) (store_in st) = Some (store_with (f (session_in st)))"
  by (simp add: cas_update_def store_in_def store_with_def)

end
