(* ===== verification/Stage_Progress.thy ===== *)
theory Stage_Progress
  imports Strict_Sessions Sample_Store
begin

text \<open>
  A strictly sequential session as a counter. \<open>at_stage sid k n d\<close>: of the \<open>n\<close> stages of the
  session \<open>k\<close> are finished, the next one is active, the rest is locked, and the session is in
  progress exactly while stages are left. Starting reaches stage zero, every closing request is
  the increment, and after \<open>n\<close> of them the session is over.
\<close>

definition at_stage :: "string \<Rightarrow> nat \<Rightarrow> nat \<Rightarrow> experiment_db \<Rightarrow> bool" where
  "at_stage sid k n d \<longleftrightarrow> db_ok d \<and> rows_ok (session_rows sid d) \<and> strict_at k (session_rows sid d) \<and>
     length (session_rows sid d) = n \<and>
     (case get_by xs_id sid (xd_sessions d) of
        None \<Rightarrow> False
      | Some s \<Rightarrow>
          (case plan_of (xs_plan_id s) d of
             Inr (Some p) \<Rightarrow> pl_progression_mode p = STRICT_SEQUENTIAL \<and>
               xs_state s = (if k < n then IN_PROGRESS
                 else end_state (pl_status p = PN_SUPERSEDED) (session_rows sid d))
           | _ \<Rightarrow> False))"

lemma at_stageE:
  assumes "at_stage sid k n d"
  obtains s p where "db_ok d" "rows_ok (session_rows sid d)" "strict_at k (session_rows sid d)"
    "length (session_rows sid d) = n" "get_by xs_id sid (xd_sessions d) = Some s"
    "plan_of (xs_plan_id s) d = Inr (Some p)" "pl_progression_mode p = STRICT_SEQUENTIAL"
    "xs_state s = (if k < n then IN_PROGRESS else end_state (pl_status p = PN_SUPERSEDED) (session_rows sid d))"
  using assms unfolding at_stage_def by (auto split: option.splits sum.splits)

lemma at_stageI:
  assumes "db_ok d" "rows_ok (session_rows sid d)" "strict_at k (session_rows sid d)"
    "length (session_rows sid d) = n" "get_by xs_id sid (xd_sessions d) = Some s"
    "plan_of (xs_plan_id s) d = Inr (Some p)" "pl_progression_mode p = STRICT_SEQUENTIAL"
    "xs_state s = (if k < n then IN_PROGRESS else end_state (pl_status p = PN_SUPERSEDED) (session_rows sid d))"
  shows "at_stage sid k n d"
  using assms by (simp add: at_stage_def)

lemma at_stage_le: "at_stage sid k n d \<Longrightarrow> k \<le> n"
  by (auto simp: at_stage_def strict_at_def)

lemma at_stage_finished: "at_stage sid k n d \<Longrightarrow> finished (session_rows sid d) = k"
  by (auto simp: at_stage_def strict_finished)

lemma frames_surveys: "map frame a = map frame b \<Longrightarrow> list_ex is_survey a = list_ex is_survey b"
proof -
  have "list_ex is_survey rows = list_ex (\<lambda>(_, _, _, ty). ty = SURVEY) (map frame rows)" for rows
    by (induction rows) (simp_all add: frame_def)
  then show "map frame a = map frame b \<Longrightarrow> ?thesis" by simp
qed

subsection \<open>The closing requests\<close>

datatype stage_request =
    SubmitSurvey string "survey_answer list"
  | SkipSurvey string
  | FinalizeEssay string string
  | FinalizeQuestions string "answer_form list"

fun stage_task :: "stage_request \<Rightarrow> string" where
  "stage_task (SubmitSurvey tid _) = tid"
| "stage_task (SkipSurvey tid) = tid"
| "stage_task (FinalizeEssay tid _) = tid"
| "stage_task (FinalizeQuestions tid _) = tid"

definition no_answer :: "(err + 'a) \<times> experiment_db \<Rightarrow> err option \<times> experiment_db" where
  "no_answer out = (case fst out of Inl err \<Rightarrow> Some err | Inr _ \<Rightarrow> None, snd out)"

fun close_stage :: "stage_request \<Rightarrow> route_env \<Rightarrow> user \<Rightarrow> experiment_db \<Rightarrow> err option \<times> experiment_db" where
  "close_stage (SubmitSurvey tid form) r user d = no_answer (submit_survey_task r tid form user d)"
| "close_stage (SkipSurvey tid) r user d = no_answer (skip_survey_task r tid user d)"
| "close_stage (FinalizeEssay tid content) r user d = no_answer (finalize_essay r tid content user d)"
| "close_stage (FinalizeQuestions tid form) r user d = no_answer (finalize_questions r tid form user d)"

lemma no_answer_simps:
  "no_answer out = (None, d') \<longleftrightarrow> (\<exists>x. out = (Inr x, d'))"
  "no_answer out = (Some err, d') \<longleftrightarrow> out = (Inl err, d')"
  by (cases out; cases "fst out"; auto simp: no_answer_def)+

lemma close_refused: "close_stage q r user d = (Some err, d') \<Longrightarrow> d' = d"
  using submits.run_refuses skips.run_refuses essays.run_refuses questions.run_refuses
  by (cases q) (auto simp: no_answer_simps)

lemma close_stage_step:
  assumes run: "close_stage q r user d = (None, d')"
    and found: "session_task_for_user (stage_task q) user False d = Inr (t, s)" and nd: "\<not> task_done t"
    and at: "at_stage (xs_id s) k n d"
  shows "k < n \<and> session_rows (xs_id s) d ! k = t \<and> at_stage (xs_id s) (k + 1) n d' \<and> only_session (xs_id s) d d'"
proof -
  let ?sid = "xs_id s"
  obtain s0 p where a: "db_ok d" "rows_ok (session_rows ?sid d)" "strict_at k (session_rows ?sid d)"
      "length (session_rows ?sid d) = n" "get_by xs_id ?sid (xd_sessions d) = Some s0"
      "plan_of (xs_plan_id s0) d = Inr (Some p)" "pl_progression_mode p = STRICT_SEQUENTIAL"
    using at by (rule at_stageE)
  have "s0 = s" using a(5) found_task(3) [OF found] by simp
  then have plan: "plan_of (xs_plan_id s) d = Inr (Some p)" using a(6) by simp
  have c: "k < length (session_rows ?sid d) \<and> session_rows ?sid d ! k = t \<and>
    strict_at (k + 1) (session_rows ?sid d') \<and> rows_ok (session_rows ?sid d') \<and>
    map frame (session_rows ?sid d') = map frame (session_rows ?sid d) \<and>
    (\<exists>s'. get_by xs_id ?sid (xd_sessions d') = Some s' \<and> xs_plan_id s' = xs_plan_id s \<and>
       xs_state s' = (if k + 1 = length (session_rows ?sid d)
         then end_state (pl_status p = PN_SUPERSEDED) (session_rows ?sid d) else IN_PROGRESS)) \<and>
    only_session ?sid d d'"
  proof (cases q)
    case (SubmitSurvey tid form)
    then obtain x where "submit_survey_task r tid form user d = (Inr x, d')" using run by (auto simp: no_answer_simps)
    moreover have "session_task_for_user tid user False d = Inr (t, s)" using found SubmitSurvey by simp
    ultimately show ?thesis by (rule submits.closes_stage [OF _ a(1) _ nd plan a(7,2,3)])
  next
    case (SkipSurvey tid)
    then obtain x where "skip_survey_task r tid user d = (Inr x, d')" using run by (auto simp: no_answer_simps)
    moreover have "session_task_for_user tid user False d = Inr (t, s)" using found SkipSurvey by simp
    ultimately show ?thesis by (rule skips.closes_stage [OF _ a(1) _ nd plan a(7,2,3)])
  next
    case (FinalizeEssay tid content)
    then obtain x where "finalize_essay r tid content user d = (Inr x, d')" using run by (auto simp: no_answer_simps)
    moreover have "session_task_for_user tid user False d = Inr (t, s)" using found FinalizeEssay by simp
    ultimately show ?thesis by (rule essays.closes_stage [OF _ a(1) _ nd plan a(7,2,3)])
  next
    case (FinalizeQuestions tid form)
    then obtain x where "finalize_questions r tid form user d = (Inr x, d')" using run by (auto simp: no_answer_simps)
    moreover have "session_task_for_user tid user False d = Inr (t, s)" using found FinalizeQuestions by simp
    ultimately show ?thesis by (rule questions.closes_stage [OF _ a(1) _ nd plan a(7,2,3)])
  qed
  then obtain s' where s': "get_by xs_id ?sid (xd_sessions d') = Some s'" "xs_plan_id s' = xs_plan_id s"
      "xs_state s' = (if k + 1 = n then end_state (pl_status p = PN_SUPERSEDED) (session_rows ?sid d) else IN_PROGRESS)"
    using a(4) by blast
  have fr: "map frame (session_rows ?sid d') = map frame (session_rows ?sid d)" using c by blast
  have len: "length (session_rows ?sid d') = n" using fr a(4) by (metis length_map)
  have same: "same_plans d d'" and ok: "db_ok d'" using c by (simp_all add: only_session_def)
  have "end_state old (session_rows ?sid d') = end_state old (session_rows ?sid d)" for old
    by (simp add: end_state_def frames_surveys [OF fr])
  moreover have "k + 1 \<le> n" using c a(4) by simp
  moreover have "plan_of (xs_plan_id s') d' = Inr (Some p)" using plan s'(2) plan_of_same [OF same] by simp
  ultimately have "at_stage ?sid (k + 1) n d'"
    using at_stageI [OF ok _ _ len s'(1) _ a(7), of "k + 1"] c s'(3) by simp
  then show ?thesis using c a(4) by simp
qed

text \<open>
  C19. A closing request that succeeds on an open task of a strictly sequential session is the
  increment of the counter of finished stages: the task it closes is the active one, the next
  one becomes active or the session ends, and no other session changes.
\<close>

theorem closing_refines_counter:
  assumes "close_stage q r user d = (None, d')"
    and "session_task_for_user (stage_task q) user False d = Inr (t, s)" and "\<not> task_done t"
    and "at_stage (xs_id s) k n d"
  shows "k < n \<and> session_rows (xs_id s) d ! k = t \<and> at_stage (xs_id s) (k + 1) n d' \<and>
    finished (session_rows (xs_id s) d') = finished (session_rows (xs_id s) d) + 1 \<and> only_session (xs_id s) d d'"
  using close_stage_step [OF assms] at_stage_finished [OF assms(4)] at_stage_finished [of "xs_id s" "k + 1" n d']
  by simp

subsection \<open>Runs\<close>

text \<open>\<open>stage_run user sid d m d'\<close>: the requests of a user lead from \<open>d\<close> to \<open>d'\<close>, \<open>m\<close> of them
  closing a task of the session and the others refused.\<close>

inductive stage_run :: "user \<Rightarrow> string \<Rightarrow> experiment_db \<Rightarrow> nat \<Rightarrow> experiment_db \<Rightarrow> bool"
  for user sid d where
  nothing: "stage_run user sid d 0 d"
| refused: "stage_run user sid d m d1 \<Longrightarrow> close_stage q r user d1 = (Some err, d2) \<Longrightarrow> stage_run user sid d m d2"
| closed: "stage_run user sid d m d1 \<Longrightarrow> close_stage q r user d1 = (None, d2) \<Longrightarrow>
    session_task_for_user (stage_task q) user False d1 = Inr (t, s) \<Longrightarrow> \<not> task_done t \<Longrightarrow> xs_id s = sid \<Longrightarrow>
    stage_run user sid d (m + 1) d2"

lemma stage_run_counter:
  assumes "stage_run user sid d m d'" and "at_stage sid k n d"
  shows "at_stage sid (k + m) n d'"
  using assms
proof (induction rule: stage_run.induct)
  case nothing
  then show ?case by simp
next
  case (refused m d1 q r err d2)
  then show ?case using close_refused [OF refused.hyps(2)] by simp
next
  case (closed m d1 q r d2 t s)
  then show ?case using close_stage_step [of q r user d1 d2 t s "k + m" n] by simp
qed

text \<open>
  C20. A strictly sequential session comes to its end: at most as many requests as it has stages
  left ever close one, and when that many have, it has left the state in which tasks are worked
  on.
\<close>

theorem strict_session_ends:
  assumes "stage_run user sid d m d'" and "at_stage sid k n d"
  shows "k + m \<le> n \<and> at_stage sid (k + m) n d' \<and>
    (k + m = n \<longrightarrow> (\<exists>s. get_by xs_id sid (xd_sessions d') = Some s \<and> xs_state s \<in> {POST_SURVEY_REQUIRED, THANK_YOU_REQUIRED}))"
proof -
  have a: "at_stage sid (k + m) n d'" by (rule stage_run_counter [OF assms])
  have "xs_state s \<in> {POST_SURVEY_REQUIRED, THANK_YOU_REQUIRED}"
    if "k + m = n" and "get_by xs_id sid (xd_sessions d') = Some s" for s
    using a that by (elim at_stageE) (simp add: end_state_def)
  moreover have "\<exists>s. get_by xs_id sid (xd_sessions d') = Some s" using a by (elim at_stageE) blast
  ultimately show ?thesis using a at_stage_le [OF a] by blast
qed

end
