(* ===== verification/Session_Moves.thy ===== *)
theory Session_Moves
  imports Session_Lifecycle
begin

text \<open>
  The requests that move a session. Each reads the current session, and then moves it by a
  conditional update that applies only in the state it expects. Whatever tame requests run in
  between, a success is one step along the edges of the life cycle, a failure moves nothing, and
  the request is tame itself.
\<close>

subsection \<open>The conditional update\<close>

lemma upd_rows_cong:
  assumes "\<And>x. x \<in> set rows \<Longrightarrow> (if P x then f x else x) = (if Q x then g x else x)"
  shows "upd_rows P f rows = upd_rows Q g rows"
  unfolding upd_rows_def by (rule map_cong [OF refl]) (rule assms)

lemma cas_update_Some:
  assumes "cas_update sid expected f pend d = Some d'" and "session_keys d"
    and "\<And>x. xd_sessions (pend x) = xd_sessions x"
  shows "\<exists>s. get_by xs_id sid (xd_sessions d) = Some s \<and> xs_state s = expected \<and>
    xd_sessions d' = upd_by xs_id sid (\<lambda>_. f s) (xd_sessions d)"
proof -
  let ?P = "\<lambda>s. xs_id s = sid \<and> xs_state s = expected"
  have c: "count_rows ?P (xd_sessions d) = 1"
    and d': "xd_sessions d' = upd_rows ?P f (xd_sessions d)"
    using assms(1,3) by (auto simp: cas_update_def Let_def split: if_splits)
  obtain s where s: "s \<in> set (xd_sessions d)" "xs_id s = sid" "xs_state s = expected"
    using c count_rows_zero [of "xd_sessions d" ?P] by force
  have dist: "distinct (map xs_id (xd_sessions d))" using assms(2) by (simp add: session_keys_def)
  have g: "get_by xs_id sid (xd_sessions d) = Some s" using get_by_distinct [OF dist s(1)] s(2) by simp
  have "upd_rows ?P f (xd_sessions d) = upd_by xs_id sid (\<lambda>_. f s) (xd_sessions d)"
    unfolding upd_by_def
  proof (rule upd_rows_cong)
    fix x assume x: "x \<in> set (xd_sessions d)"
    have "x = s" if "xs_id x = sid" using row_unique [OF dist x s(1)] that s(2) by simp
    then show "(if ?P x then f x else x) = (if xs_id x = sid then f s else x)" using s(2,3) by auto
  qed
  with g s d' show ?thesis by simp
qed

lemma cas_update_stale:
  assumes "session_keys d" and "get_by xs_id sid (xd_sessions d) = Some s" and "xs_state s \<noteq> expected"
  shows "cas_update sid expected f pend d = None"
proof -
  have dist: "distinct (map xs_id (xd_sessions d))" using assms(1) by (simp add: session_keys_def)
  have "count_rows (\<lambda>s. xs_id s = sid \<and> xs_state s = expected) (xd_sessions d) = 0"
    by (rule count_rows_zero) (use assms(2,3) get_by_distinct [OF dist] in auto)
  then show ?thesis by (simp add: cas_update_def)
qed

definition plain :: "(experiment_session \<Rightarrow> experiment_session) \<Rightarrow> bool" where
  "plain f \<longleftrightarrow> (\<forall>s. session_key (f s) = session_key s)"

lemma move_to_key: "plain f \<Longrightarrow> session_key (move_to target now f s) = session_key s"
  by (simp add: plain_def move_to_def session_key_def)

lemma transition_Inr:
  assumes tr: "transition e race user expected target f pend d = (Inr s', d')"
    and t: "tame (se_race e)" "tame race" and k: "session_keys d"
    and f: "plain f" and p: "\<And>x. xd_sessions (pend x) = xd_sessions x"
    and up: "rank expected \<le> rank target"
  shows "\<exists>met s. forward d met \<and> get_by xs_id (xs_id s') (xd_sessions met) = Some s \<and> xs_state s = expected \<and>
    s' = move_to target (se_clock e 3) f s \<and> get_by xs_id (xs_id s') (xd_sessions d') = Some s' \<and>
    xd_sessions d' = upd_by xs_id (xs_id s') (\<lambda>_. s') (xd_sessions met) \<and> forward met d'"
proof -
  obtain s1 d1 msg where g: "get_current e user d = (Inr (expected, Some s1, msg), d1)"
    and c: "cas_update (xs_id s1) expected (move_to target (se_clock e 3) f) pend (race d1) = Some d'"
    and r: "get_by xs_id (xs_id s1) (xd_sessions d') = Some s'"
    using tr by (auto simp: transition_def Let_def split: prod.splits sum.splits option.splits if_splits)
  let ?met = "race d1"
  have f1: "forward d d1" by (rule get_current_forward [OF g t(1) k])
  have f2: "forward d1 ?met" by (rule tameD [OF t(2) forwardD(1) [OF f1]])
  obtain s where s: "get_by xs_id (xs_id s1) (xd_sessions ?met) = Some s" "xs_state s = expected"
    and u: "xd_sessions d' = upd_by xs_id (xs_id s1) (\<lambda>_. move_to target (se_clock e 3) f s) (xd_sessions ?met)"
    using cas_update_Some [OF c forwardD(1) [OF f2] p] by blast
  have ids: "xs_id s = xs_id s1" using get_by_Some [OF s(1)] by simp
  let ?m = "move_to target (se_clock e 3) f s"
  have key: "session_key ?m = session_key s" by (rule move_to_key [OF f])
  let ?g = "\<lambda>x. if session_key x = session_key s then ?m else x"
  have dist: "distinct (map xs_id (xd_sessions ?met))" using forwardD(1) [OF f2] by (simp add: session_keys_def)
  have u2: "xd_sessions d' = upd_by xs_id (xs_id s1) ?g (xd_sessions ?met)"
    unfolding u upd_by_def
  proof (rule upd_rows_cong)
    fix x assume x: "x \<in> set (xd_sessions ?met)"
    have "x = s" if "xs_id x = xs_id s1"
      using row_unique [OF dist x, of s] that ids get_by_Some [OF s(1)] by simp
    then show "(if xs_id x = xs_id s1 then ?m else x) = (if xs_id x = xs_id s1 then ?g x else x)" by auto
  qed
  note m = forward_upd_session [OF forwardD(1) [OF f2] s(1), of ?g]
  have "rank (xs_state s) \<le> rank (xs_state ?m)" using s(2) up by (simp add: move_to_def)
  then have fw: "forward ?met d'" and gm: "get_by xs_id (xs_id s1) (xd_sessions d') = Some ?m"
    using m key u2 by simp_all
  have "s' = ?m" using gm r by simp
  moreover have "xs_id s' = xs_id s1" using get_by_Some [OF r] by simp
  ultimately show ?thesis using f1 f2 s u fw gm forward_trans by metis
qed

lemma transition_Inl:
  assumes tr: "transition e race user expected target f pend d = (Inl err, d')"
    and t: "tame (se_race e)" "tame race" and k: "session_keys d"
    and f: "plain f" and p: "\<And>x. xd_sessions (pend x) = xd_sessions x"
  shows "forward d d'"
proof -
  obtain res d1 where g: "get_current e user d = (res, d1)" by force
  have f1: "forward d d1" by (rule get_current_forward [OF g t(1) k])
  have f2: "forward d1 (race d1)" by (rule tameD [OF t(2) forwardD(1) [OF f1]])
  have "d' = d1 \<or> d' = race d1"
  proof (rule ccontr)
    assume no: "\<not> (d' = d1 \<or> d' = race d1)"
    have "\<exists>c. res = Inr c \<and> fst c = expected \<and> fst (snd c) \<noteq> None"
      using tr g no by (auto simp: transition_def split: sum.splits option.splits if_splits)
    then obtain s1 msg where r1: "res = Inr (expected, Some s1, msg)" by (metis not_None_eq prod.collapse)
    let ?cas = "cas_update (xs_id s1) expected (move_to target (se_clock e 3) f) pend (race d1)"
    have c: "?cas = Some d'"
      using tr g no r1 by (cases ?cas) (auto simp: transition_def Let_def split: option.splits)
    then have r: "get_by xs_id (xs_id s1) (xd_sessions d') = None"
      using tr g r1 by (auto simp: transition_def Let_def split: option.splits)
    obtain s where s: "get_by xs_id (xs_id s1) (xd_sessions (race d1)) = Some s"
      and u: "xd_sessions d' = upd_by xs_id (xs_id s1) (\<lambda>_. move_to target (se_clock e 3) f s) (xd_sessions (race d1))"
      using cas_update_Some [OF c forwardD(1) [OF f2] p] by blast
    have "xs_id s = xs_id s1" "s \<in> set (xd_sessions (race d1))" using get_by_Some [OF s] by auto
    moreover have "xs_id (move_to target (se_clock e 3) f s) = xs_id s"
      using move_to_key [OF f, of target "se_clock e 3" s] by (simp add: session_key_def)
    ultimately have "move_to target (se_clock e 3) f s \<in> set (xd_sessions d')"
      unfolding u by (auto simp: upd_by_def upd_rows_def)
    then have "xs_id s1 \<in> xs_id ` set (xd_sessions d')"
      using \<open>xs_id (move_to target (se_clock e 3) f s) = xs_id s\<close> \<open>xs_id s = xs_id s1\<close>
      by (metis image_eqI)
    with r show False by (simp add: get_by_None)
  qed
  then show ?thesis using f1 f2 forward_trans by blast
qed

subsection \<open>The requests\<close>

datatype session_request =
    Consent | PreSurvey pre_survey_form | Start | PostSurvey post_survey_form | Complete

fun run_request ::
    "session_request \<Rightarrow> session_env \<Rightarrow> (experiment_db \<Rightarrow> experiment_db) \<Rightarrow> user \<Rightarrow> experiment_db \<Rightarrow>
     (err + experiment_session) \<times> experiment_db" where
  "run_request Consent e race user d = consent e race user d"
| "run_request (PreSurvey form) e race user d = submit_pre_survey e race user form d"
| "run_request Start e race user d = start e race user d"
| "run_request (PostSurvey form) e race user d = submit_post_survey e race user form d"
| "run_request Complete e race user d = complete e race user d"

text \<open>The edges of the life cycle.\<close>

inductive session_edge :: "session_request \<Rightarrow> experiment_state \<Rightarrow> experiment_state \<Rightarrow> bool" where
  consent_task: "session_edge Consent CONSENT_REQUIRED TASK_REQUIRED"
| consent_pre: "session_edge Consent CONSENT_REQUIRED PRE_SURVEY_REQUIRED"
| pre_task: "session_edge (PreSurvey form) PRE_SURVEY_REQUIRED TASK_REQUIRED"
| pre_topic: "session_edge (PreSurvey form) PRE_SURVEY_REQUIRED TOPIC_REQUIRED"
| start_topic: "session_edge Start TOPIC_REQUIRED IN_PROGRESS"
| start_task: "session_edge Start TASK_REQUIRED IN_PROGRESS"
| post: "session_edge (PostSurvey form) POST_SURVEY_REQUIRED THANK_YOU_REQUIRED"
| completes: "session_edge Complete THANK_YOU_REQUIRED X_COMPLETED"

lemma edge_up: "session_edge q a b \<Longrightarrow> rank a < rank b"
  by (induction rule: session_edge.induct) (simp_all add: rank_def)

lemma put_rows_sessions [simp]: "xd_sessions (put_rows rows d) = xd_sessions d"
  by (simp add: put_rows_def)

text \<open>Every request ends where its reads left the store, or in a transition along an edge.\<close>

definition ends_early :: "session_env \<Rightarrow> user \<Rightarrow> experiment_db \<Rightarrow> (err + experiment_session) \<times> experiment_db \<Rightarrow> bool" where
  "ends_early e user d out \<longleftrightarrow> (\<exists>err. fst out = Inl err) \<and> (snd out = d \<or> snd out = snd (get_current e user d))"

definition ends_moving ::
    "session_request \<Rightarrow> session_env \<Rightarrow> (experiment_db \<Rightarrow> experiment_db) \<Rightarrow> user \<Rightarrow> experiment_db \<Rightarrow>
     (err + experiment_session) \<times> experiment_db \<Rightarrow> bool" where
  "ends_moving q e race user d out \<longleftrightarrow> (\<exists>d1 a b f pend. (d1 = d \<or> d1 = snd (get_current e user d)) \<and>
     session_edge q a b \<and> plain f \<and> (\<forall>x. xd_sessions (pend x) = xd_sessions x) \<and>
     transition e race user a b f pend d1 = out)"

lemma ends_movingI:
  assumes "d1 = d \<or> d1 = snd (get_current e user d)" and "session_edge q a b" and "plain f"
    and "\<And>x. xd_sessions (pend x) = xd_sessions x"
  shows "ends_moving q e race user d (transition e race user a b f pend d1)"
  using assms unfolding ends_moving_def by blast

lemma plain_updates:
  "plain (\<lambda>s. s\<lparr>xs_consented_at := v\<rparr>)" "plain (\<lambda>s. s\<lparr>xs_completed_at := v\<rparr>)"
  "plain (\<lambda>s. s\<lparr>xs_pre_survey := x, xs_pre_survey_submitted_at := v\<rparr>)"
  "plain (\<lambda>s. s\<lparr>xs_post_survey := y, xs_post_survey_submitted_at := v\<rparr>)"
  "plain (\<lambda>s. s\<lparr>xs_topic_shown_at := v, xs_writing_started_at := w\<rparr>)"
  by (simp_all add: plain_def session_key_def)

lemma ends_earlyI:
  "get_current e user d = (g, d1) \<Longrightarrow> ends_early e user d (Inl err, d1)" "ends_early e user d (Inl err, d)"
  by (simp_all add: ends_early_def)

lemma consent_shape: "ends_early e user d (consent e race user d) \<or> ends_moving Consent e race user d (consent e race user d)"
proof (cases "get_current e user d")
  case (Pair g d1)
  show ?thesis
  proof (cases g)
    case (Inl err)
    with Pair show ?thesis by (simp add: consent_def ends_earlyI)
  next
    case (Inr c)
    obtain st session msg where c: "c = (st, session, msg)" by (metis prod_cases3)
    let ?plan = "case session of Some s \<Rightarrow> if truthy_str (xs_plan_id s) then plan_of (xs_plan_id s) d1 else Inr None
      | None \<Rightarrow> Inr None"
    show ?thesis
    proof (cases ?plan)
      case (Inl err)
      with Pair Inr c show ?thesis by (simp add: consent_def ends_earlyI)
    next
      case (Inr plan)
      have "\<exists>target \<in> {TASK_REQUIRED, PRE_SURVEY_REQUIRED}. consent e race user d =
        transition e race user CONSENT_REQUIRED target (\<lambda>s. s\<lparr>xs_consented_at := Some (se_clock e 4)\<rparr>) (\<lambda>d. d) d1"
        using Pair \<open>g = Inr c\<close> c Inr by (cases plan) (auto simp: consent_def Let_def)
      then obtain target where t: "session_edge Consent CONSENT_REQUIRED target" "consent e race user d =
        transition e race user CONSENT_REQUIRED target (\<lambda>s. s\<lparr>xs_consented_at := Some (se_clock e 4)\<rparr>) (\<lambda>d. d) d1"
        using session_edge.intros(1,2) by blast
      show ?thesis unfolding t(2) using Pair by (intro disjI2 ends_movingI [OF _ t(1) plain_updates(1)]) auto
    qed
  qed
qed

lemma get_current_cases:
  obtains (failed) err d1 where "get_current e user d = (Inl err, d1)"
  | (found) st session msg d1 where "get_current e user d = (Inr (st, session, msg), d1)"
proof (cases "get_current e user d")
  case (Pair g d1)
  then show ?thesis
    using that by (cases g) (blast, metis prod_cases3)
qed

lemma guarded_run:
  assumes "out = (case x of None \<Rightarrow> (Inl e0, d) | Some s \<Rightarrow> (case F s of Inl err \<Rightarrow> (Inl err, d) | Inr y \<Rightarrow> T y))"
  shows "(\<exists>err. out = (Inl err, d)) \<or> (\<exists>s y. x = Some s \<and> F s = Inr y \<and> out = T y)"
  using assms by (auto split: option.splits sum.splits)

lemma complete_shape: "ends_moving Complete e race user d (complete e race user d)"
  unfolding complete_def by (rule ends_movingI [OF _ session_edge.completes plain_updates(2)]) simp_all

lemma pre_survey_shape:
  "ends_early e user d (submit_pre_survey e race user form d) \<or>
   ends_moving (PreSurvey form) e race user d (submit_pre_survey e race user form d)"
proof (cases rule: get_current_cases [of e user d])
  case (failed err d1)
  then show ?thesis by (auto simp: submit_pre_survey_def Let_def intro: ends_earlyI)
next
  case (found st session msg d1)
  let ?f = "\<lambda>s. s\<lparr>xs_pre_survey := Some (form\<lparr>pre_school_class := py_strip (pre_school_class form)\<rparr>),
      xs_pre_survey_submitted_at := Some (se_clock e 4)\<rparr>"
  let ?plan = "\<lambda>s. if truthy_str (xs_plan_id s) then
      bindE (plan_of (xs_plan_id s) d1) (\<lambda>plan.
        if (case plan of None \<Rightarrow> False | Some p \<Rightarrow> pl_survey_variant p = TASK_NEUTRAL) then
          (if pre_neutral form then Inr TASK_REQUIRED
           else Inl (http 422 ''This experiment requires the task-neutral pre-survey.''))
        else if pre_neutral form
        then Inl (http 422 ''This experiment requires the essay pre-survey.'')
        else Inr TOPIC_REQUIRED)
    else Inr TOPIC_REQUIRED"
  have target: "target \<in> {TASK_REQUIRED, TOPIC_REQUIRED}" if "?plan s = Inr target" for s target
    using that by (auto simp: bindE_Inr_iff split: if_splits)
  have "(\<exists>err. submit_pre_survey e race user form d = (Inl err, d)) \<or>
    submit_pre_survey e race user form d =
      (case (if st = PRE_SURVEY_REQUIRED then session else None) of
         None \<Rightarrow> (Inl (http 409 ''Experiment pre-survey is not available.''), d1)
       | Some s \<Rightarrow> (case ?plan s of Inl err \<Rightarrow> (Inl err, d1)
         | Inr target \<Rightarrow> transition e race user PRE_SURVEY_REQUIRED target ?f (\<lambda>d. d) d1))"
    by (simp add: submit_pre_survey_def Let_def found)
  then have "(\<exists>err. submit_pre_survey e race user form d = (Inl err, d)) \<or>
    (\<exists>err. submit_pre_survey e race user form d = (Inl err, d1)) \<or>
    (\<exists>target \<in> {TASK_REQUIRED, TOPIC_REQUIRED}. submit_pre_survey e race user form d =
       transition e race user PRE_SURVEY_REQUIRED target ?f (\<lambda>d. d) d1)"
  proof (elim disjE)
    assume "submit_pre_survey e race user form d =
      (case (if st = PRE_SURVEY_REQUIRED then session else None) of
         None \<Rightarrow> (Inl (http 409 ''Experiment pre-survey is not available.''), d1)
       | Some s \<Rightarrow> (case ?plan s of Inl err \<Rightarrow> (Inl err, d1)
         | Inr target \<Rightarrow> transition e race user PRE_SURVEY_REQUIRED target ?f (\<lambda>d. d) d1))"
    from guarded_run [OF this] target show ?thesis by (elim disjE exE conjE) blast+
  qed blast
  then show ?thesis
  proof (elim disjE exE bexE)
    fix err assume "submit_pre_survey e race user form d = (Inl err, d)"
    then show ?thesis by (simp add: ends_earlyI)
  next
    fix err assume "submit_pre_survey e race user form d = (Inl err, d1)"
    with found show ?thesis by (simp add: ends_earlyI)
  next
    fix target assume "target \<in> {TASK_REQUIRED, TOPIC_REQUIRED}"
    then have g: "session_edge (PreSurvey form) PRE_SURVEY_REQUIRED target" by (auto intro: session_edge.intros)
    assume t: "submit_pre_survey e race user form d = transition e race user PRE_SURVEY_REQUIRED target ?f (\<lambda>d. d) d1"
    show ?thesis unfolding t using found by (intro disjI2 ends_movingI [OF _ g plain_updates(3)]) auto
  qed
qed

lemma post_survey_shape:
  "ends_early e user d (submit_post_survey e race user form d) \<or>
   ends_moving (PostSurvey form) e race user d (submit_post_survey e race user form d)"
proof (cases rule: get_current_cases [of e user d])
  case (failed err d1)
  then show ?thesis by (auto simp: submit_post_survey_def Let_def intro: ends_earlyI)
next
  case (found st session msg d1)
  let ?f = "\<lambda>s. s\<lparr>xs_post_survey := Some (form\<lparr>post_comments := map_option py_strip (post_comments form)\<rparr>),
      xs_post_survey_submitted_at := Some (se_clock e 4)\<rparr>"
  let ?plan = "\<lambda>s. if truthy_str (xs_plan_id s) then
      bindE (plan_of (xs_plan_id s) d1) (\<lambda>plan.
        let neutral = (case plan of None \<Rightarrow> False | Some p \<Rightarrow> pl_survey_variant p = TASK_NEUTRAL)
        in guardE (neutral = post_neutral form) (http 422 ''The submitted survey does not match this experiment.''))
    else Inr ()"
  have "(\<exists>err. submit_post_survey e race user form d = (Inl err, d)) \<or>
    submit_post_survey e race user form d =
      (case (if st = POST_SURVEY_REQUIRED then session else None) of
         None \<Rightarrow> (Inl (http 409 ''Experiment post-survey is not available.''), d1)
       | Some s \<Rightarrow> (case ?plan s of Inl err \<Rightarrow> (Inl err, d1)
         | Inr _ \<Rightarrow> transition e race user POST_SURVEY_REQUIRED THANK_YOU_REQUIRED ?f (\<lambda>d. d) d1))"
    by (simp add: submit_post_survey_def Let_def found)
  then have "(\<exists>err. submit_post_survey e race user form d = (Inl err, d)) \<or>
    (\<exists>err. submit_post_survey e race user form d = (Inl err, d1)) \<or>
    submit_post_survey e race user form d =
       transition e race user POST_SURVEY_REQUIRED THANK_YOU_REQUIRED ?f (\<lambda>d. d) d1"
    by (cases "if st = POST_SURVEY_REQUIRED then session else None"; cases "?plan (the session)")
      (auto split: if_splits)
  then show ?thesis
  proof (elim disjE exE)
    fix err assume "submit_post_survey e race user form d = (Inl err, d)"
    then show ?thesis by (simp add: ends_earlyI)
  next
    fix err assume "submit_post_survey e race user form d = (Inl err, d1)"
    with found show ?thesis by (simp add: ends_earlyI)
  next
    assume t: "submit_post_survey e race user form d =
       transition e race user POST_SURVEY_REQUIRED THANK_YOU_REQUIRED ?f (\<lambda>d. d) d1"
    show ?thesis
      unfolding t using found by (intro disjI2 ends_movingI [OF _ session_edge.post plain_updates(4)]) auto
  qed
qed

lemma start_shape:
  "ends_early e user d (start e race user d) \<or> ends_moving Start e race user d (start e race user d)"
proof (cases rule: get_current_cases [of e user d])
  case (failed err d1)
  then show ?thesis by (auto simp: start_def Let_def intro: ends_earlyI)
next
  case (found st session msg d1)
  let ?f = "\<lambda>s. s\<lparr>xs_topic_shown_at := Some (se_clock e 4), xs_writing_started_at := Some (se_clock e 4)\<rparr>"
  have "(\<exists>err. start e race user d = (Inl err, d1)) \<or>
    (\<exists>pend. (\<forall>x. xd_sessions (pend x) = xd_sessions x) \<and> st \<in> {TOPIC_REQUIRED, TASK_REQUIRED} \<and>
       start e race user d = transition e race user st IN_PROGRESS ?f pend d1)"
  proof (cases "if st \<in> {TOPIC_REQUIRED, TASK_REQUIRED} then session else None")
    case None
    with found show ?thesis by (simp add: start_def Let_def)
  next
    case (Some s)
    then have st: "st \<in> {TOPIC_REQUIRED, TASK_REQUIRED}" "session = Some s" by (auto split: if_splits)
    let ?p = "if truthy_str (xs_plan_id s) then
        bindE (plan_of (xs_plan_id s) d1) (\<lambda>plan. bindE (start_rows plan (session_rows (xs_id s) d1) (se_clock e 4))
          (\<lambda>rows. Inr (put_rows rows))) else Inr (\<lambda>d. d)"
    have run: "start e race user d = (case ?p of Inl err \<Rightarrow> (Inl err, d1)
        | Inr pend \<Rightarrow> transition e race user st IN_PROGRESS ?f pend d1)"
      using found st by (simp add: start_def Let_def)
    have keep: "xd_sessions (pend x) = xd_sessions x" if "?p = Inr pend" for pend x
      using that by (auto simp: bindE_Inr_iff split: if_splits)
    show ?thesis
    proof (cases ?p)
      case (Inl err)
      then show ?thesis using run by (simp only: sum.case) blast
    next
      case (Inr pend)
      then have "start e race user d = transition e race user st IN_PROGRESS ?f pend d1" using run by (simp only: sum.case)
      with st(1) keep [OF Inr] show ?thesis by blast
    qed
  qed
  then show ?thesis
  proof (elim disjE exE conjE)
    fix err assume "start e race user d = (Inl err, d1)"
    with found show ?thesis by (simp add: ends_earlyI)
  next
    fix pend assume p: "\<forall>x. xd_sessions (pend x) = xd_sessions x" and "st \<in> {TOPIC_REQUIRED, TASK_REQUIRED}"
      and t: "start e race user d = transition e race user st IN_PROGRESS ?f pend d1"
    then have g: "session_edge Start st IN_PROGRESS" by (auto intro: session_edge.intros)
    show ?thesis unfolding t using found p by (intro disjI2 ends_movingI [OF _ g plain_updates(5)]) auto
  qed
qed

lemma request_shape: "ends_early e user d (run_request q e race user d) \<or> ends_moving q e race user d (run_request q e race user d)"
  by (cases q) (simp_all add: consent_shape pre_survey_shape start_shape post_survey_shape complete_shape)

end
