(* ===== verification/Session_Properties.thy ===== *)
theory Session_Properties
  imports Session_Moves Sample_Store
begin

text \<open>What the life cycle of a session promises, whatever tame requests interfere.\<close>

subsection \<open>One request\<close>

lemma request_start:
  assumes "tame (se_race e)" and "session_keys d" and "d1 = d \<or> d1 = snd (get_current e user d)"
  shows "forward d d1"
  using assms get_current_forward [of e user d "fst (get_current e user d)" "snd (get_current e user d)"]
  by (auto simp: forward_refl)

lemma request_Inr:
  assumes run: "run_request q e race user d = (Inr s', d')" and t: "tame (se_race e)" "tame race" and k: "session_keys d"
  shows "\<exists>met s. forward d met \<and> get_by xs_id (xs_id s') (xd_sessions met) = Some s \<and>
    session_edge q (xs_state s) (xs_state s') \<and> session_key s' = session_key s \<and>
    get_by xs_id (xs_id s') (xd_sessions d') = Some s' \<and>
    xd_sessions d' = upd_by xs_id (xs_id s') (\<lambda>_. s') (xd_sessions met) \<and> forward met d'"
proof -
  have "ends_moving q e race user d (Inr s', d')"
    using request_shape [of e user d q race] by (auto simp: run ends_early_def)
  then obtain d1 a b f pend where d1: "d1 = d \<or> d1 = snd (get_current e user d)" and g: "session_edge q a b"
    and f: "plain f" and p: "\<And>x. xd_sessions (pend x) = xd_sessions x"
    and tr: "transition e race user a b f pend d1 = (Inr s', d')"
    unfolding ends_moving_def by blast
  have f1: "forward d d1" by (rule request_start [OF t(1) k d1])
  obtain met s where m: "forward d1 met" "get_by xs_id (xs_id s') (xd_sessions met) = Some s" "xs_state s = a"
      "s' = move_to b (se_clock e 3) f s" "get_by xs_id (xs_id s') (xd_sessions d') = Some s'"
      "xd_sessions d' = upd_by xs_id (xs_id s') (\<lambda>_. s') (xd_sessions met)" "forward met d'"
    using transition_Inr [OF tr t forwardD(1) [OF f1] f p less_imp_le [OF edge_up [OF g]]] by blast
  have "xs_state s' = b" unfolding m(4) by (simp add: move_to_def)
  moreover have "session_key s' = session_key s" unfolding m(4) by (rule move_to_key [OF f])
  ultimately have "session_edge q (xs_state s) (xs_state s')" "session_key s' = session_key s" using g m(3) by simp_all
  with m(2,5,6,7) forward_trans [OF f1 m(1)] show ?thesis by blast
qed

lemma request_forward:
  assumes run: "run_request q e race user d = (res, d')" and t: "tame (se_race e)" "tame race" and k: "session_keys d"
  shows "forward d d'"
proof (cases res)
  case (Inr s')
  then show ?thesis using request_Inr [OF _ t k, of q user s' d'] run forward_trans by blast
next
  case (Inl err)
  consider (early) "ends_early e user d (res, d')" | (moving) "ends_moving q e race user d (res, d')"
    using request_shape [of e user d q race] run by auto
  then show ?thesis
  proof cases
    case early
    then show ?thesis using request_start [OF t(1) k] by (auto simp: ends_early_def)
  next
    case moving
    then obtain d1 a b f pend where d1: "d1 = d \<or> d1 = snd (get_current e user d)" and f: "plain f"
      and p: "\<And>x. xd_sessions (pend x) = xd_sessions x"
      and tr: "transition e race user a b f pend d1 = (Inl err, d')"
      unfolding ends_moving_def Inl by blast
    have f1: "forward d d1" by (rule request_start [OF t(1) k d1])
    show ?thesis using transition_Inl [OF tr t forwardD(1) [OF f1] f p] f1 forward_trans by blast
  qed
qed

text \<open>
  C16. A request that moves a session succeeds only from the state it is meant for: whatever tame
  requests commit before its update, the session it returns is the one the store holds then,
  moved along one edge of the life cycle, and no other session is touched by the update.
\<close>

theorem requests_follow_life_cycle:
  assumes "run_request q e race user d = (Inr s', d')" and "tame (se_race e)" and "tame race" and "session_keys d"
  shows "\<exists>met s. forward d met \<and> get_by xs_id (xs_id s') (xd_sessions met) = Some s \<and>
    session_edge q (xs_state s) (xs_state s') \<and> session_key s' = session_key s \<and>
    xd_sessions d' = upd_by xs_id (xs_id s') (\<lambda>_. s') (xd_sessions met)"
  using request_Inr [OF assms] by blast

text \<open>
  C17. Each of the five requests of the life cycle (consent, pre-survey, start, post-survey,
  completion) keeps the keys of the session table - unique identifiers, and one session for each
  participant and group - and moves no session backwards, succeeding or not, whatever tame requests
  interfere; so these five are tame interferences themselves. The requests that close a task write the
  state of the session without a conditional update (\<open>advance_after_stage\<close>, \<open>finalize_all_tasks\<close>) and
  are not among them.
\<close>

theorem requests_are_tame:
  assumes "tame (se_race e)" and "tame race"
  shows "tame (\<lambda>d. snd (run_request q e race user d))"
  unfolding tame_def using request_forward [OF surjective_pairing assms] by blast

lemma requests_follow_life_cycle_witness:
  "\<exists>s (met :: experiment_db). get_by xs_id ''s'' (xd_sessions met) = Some s \<and> session_edge Complete (xs_state s) X_COMPLETED"
proof -
  have r: "run_request Complete sample_env (\<lambda>d. d) sample_user (store_in THANK_YOU_REQUIRED) =
      (Inr (finished_session THANK_YOU_REQUIRED), store_with (finished_session THANK_YOU_REQUIRED))"
    by (simp add: complete_def transition_def get_current_sample active_states_def cas_sample move_to_def
        finished_session_def Let_def store_with_def sample_env_def)
  obtain met :: experiment_db and s where "get_by xs_id ''s'' (xd_sessions met) = Some s" "session_edge Complete (xs_state s) X_COMPLETED"
    using requests_follow_life_cycle [OF r tame_sample tame_id session_keys_sample]
    by (auto simp: finished_session_def)
  then show ?thesis by (intro exI conjI)
qed

lemma requests_are_tame_witness: "tame (\<lambda>d. snd (run_request Start sample_env (\<lambda>d. d) sample_user d))"
  by (rule requests_are_tame [OF tame_sample tame_id])

subsection \<open>Many requests\<close>

type_synonym request_run = "session_request \<times> session_env \<times> (experiment_db \<Rightarrow> experiment_db) \<times> user"

fun run_requests :: "request_run list \<Rightarrow> experiment_db \<Rightarrow> experiment_session list \<times> experiment_db" where
  "run_requests [] d = ([], d)"
| "run_requests ((q, e, race, user) # rs) d =
     (case run_request q e race user d of
        (Inl err, d) \<Rightarrow> run_requests rs d
      | (Inr s, d) \<Rightarrow> (case run_requests rs d of (moved, d) \<Rightarrow> (s # moved, d)))"

definition tame_run :: "request_run \<Rightarrow> bool" where
  "tame_run = (\<lambda>(q, e, race, user). tame (se_race e) \<and> tame race)"

lemma moves_up:
  assumes "list_all tame_run rs" and "session_keys d" and "run_requests rs d = (moved, d')"
  shows "length (filter (\<lambda>s. xs_id s = sid) moved) + level sid d \<le> level sid d'"
  using assms
proof (induction rs arbitrary: d moved)
  case Nil
  then show ?case by simp
next
  case (Cons r rs)
  obtain q e race user where r: "r = (q, e, race, user)" by (metis prod_cases4)
  have t: "tame (se_race e)" "tame race" and ts: "list_all tame_run rs" using Cons.prems(1) by (simp_all add: r tame_run_def)
  obtain res d1 where run: "run_request q e race user d = (res, d1)" by force
  have f: "forward d d1" by (rule request_forward [OF run t Cons.prems(2)])
  show ?case
  proof (cases res)
    case (Inl err)
    then have "run_requests rs d1 = (moved, d')" using Cons.prems(3) run by (simp add: r)
    from Cons.IH [OF ts forwardD(1) [OF f] this] forwardD(2) [OF f, of sid] show ?thesis by simp
  next
    case (Inr s)
    then obtain ms where m: "run_requests rs d1 = (ms, d')" "moved = s # ms"
      using Cons.prems(3) run by (auto simp: r split: prod.splits)
    note IH = Cons.IH [OF ts forwardD(1) [OF f] m(1)]
    have "level sid d < level sid d1" if sid: "xs_id s = sid"
    proof -
      obtain met s0 where s0: "forward d met" "get_by xs_id sid (xd_sessions met) = Some s0"
          "session_edge q (xs_state s0) (xs_state s)" "get_by xs_id sid (xd_sessions d1) = Some s"
        using request_Inr [OF run [unfolded Inr] t Cons.prems(2)] unfolding sid by blast
      have "level sid met < level sid d1" using edge_up [OF s0(3)] s0(2,4) by (simp add: level_def)
      then show ?thesis using forwardD(2) [OF s0(1), of sid] by simp
    qed
    with IH forwardD(2) [OF f, of sid] show ?thesis by (cases "xs_id s = sid") (simp_all add: m(2))
  qed
qed

text \<open>
  However many requests participants send, in whatever order and with whatever tame
  interference, a session is moved at most six times: the life cycle comes to its end.
\<close>

theorem session_moves_bounded:
  assumes "list_all tame_run rs" and "session_keys d"
  shows "length (filter (\<lambda>s. xs_id s = sid) (fst (run_requests rs d))) \<le> 6 - level sid d"
  using moves_up [OF assms surjective_pairing, of sid] level_bound [of sid "snd (run_requests rs d)"]
  by linarith

lemma session_moves_bounded_witness:
  "length (filter (\<lambda>s. xs_id s = ''s'') (fst (run_requests (replicate 9 (Complete, sample_env, \<lambda>d. d, sample_user))
     (store_in THANK_YOU_REQUIRED)))) \<le> 1"
proof -
  have "list_all tame_run (replicate 9 (Complete, sample_env, \<lambda>d. d, sample_user))"
    by (simp add: list_all_iff tame_run_def tame_sample tame_id)
  moreover have "level ''s'' (store_in THANK_YOU_REQUIRED) = 5"
    by (simp add: level_def rank_def store_in_def store_with_def session_in_def sample_participant_def)
  ultimately show ?thesis
    using session_moves_bounded [OF _ session_keys_sample, of "replicate 9 (Complete, sample_env, \<lambda>d. d, sample_user)" "''s''"
        THANK_YOU_REQUIRED] by simp
qed

subsection \<open>Two requests at once\<close>

text \<open>
  Of two requests that read the same session in the same state, only the first moves it: the
  second finds its conditional update without a row, answers 409 and leaves the store as the
  first one left it.
\<close>

theorem second_of_two_refused:
  assumes "transition e1 (\<lambda>d. d) user expected target f1 pend1 d = (Inr s1, d1)"
    and "get_current e1 user d = (Inr (expected, Some s, msg), d)"
    and "get_current e2 user d = (Inr (expected, Some s, msg), d)"
    and "tame (se_race e1)" and "session_keys d" and "plain f1" and "\<And>x. xd_sessions (pend1 x) = xd_sessions x"
    and "rank expected < rank target"
  shows "transition e2 (\<lambda>_. d1) user expected target f2 pend2 d =
    (Inl (http 409 ''Experiment state changed. Refresh and try again.''), d1)"
proof -
  obtain met s0 where g: "get_by xs_id (xs_id s1) (xd_sessions d1) = Some s1"
      and m: "s1 = move_to target (se_clock e1 3) f1 s0" "forward d met" "forward met d1"
    using transition_Inr [OF assms(1,4) tame_id assms(5,6,7) less_imp_le [OF assms(8)]] by blast
  have "xs_state s1 \<noteq> expected" using m(1) assms(8) by (auto simp: move_to_def)
  moreover have "xs_id s1 = xs_id s"
    using assms(1) get_by_Some [OF g]
    by (auto simp: transition_def assms(2) Let_def split: option.splits dest!: get_by_Some)
  moreover have "session_keys d1" by (rule forwardD(1) [OF m(3)])
  ultimately have "cas_update (xs_id s) expected (move_to target (se_clock e2 3) f2) pend2 d1 = None"
    using cas_update_stale g by metis
  then show ?thesis by (simp add: transition_def assms(3))
qed

lemma second_of_two_refused_witness:
  "\<exists>d1. fst (transition sample_env (\<lambda>_. d1) sample_user THANK_YOU_REQUIRED X_COMPLETED (\<lambda>s. s) (\<lambda>d. d)
     (store_in THANK_YOU_REQUIRED)) = Inl (http 409 ''Experiment state changed. Refresh and try again.'')"
proof -
  have g: "get_current sample_env sample_user (store_in THANK_YOU_REQUIRED) =
      (Inr (THANK_YOU_REQUIRED, Some (session_in THANK_YOU_REQUIRED), None), store_in THANK_YOU_REQUIRED)"
    by (rule get_current_sample) (simp add: active_states_def)
  have "\<exists>s1 d1. transition sample_env (\<lambda>d. d) sample_user THANK_YOU_REQUIRED X_COMPLETED (\<lambda>s. s) (\<lambda>d. d)
      (store_in THANK_YOU_REQUIRED) = (Inr s1, d1)"
    by (simp add: transition_def g cas_sample move_to_def Let_def store_with_def)
  then obtain s1 d1 where t: "transition sample_env (\<lambda>d. d) sample_user THANK_YOU_REQUIRED X_COMPLETED (\<lambda>s. s) (\<lambda>d. d)
      (store_in THANK_YOU_REQUIRED) = (Inr s1, d1)" by blast
  have "transition sample_env (\<lambda>_. d1) sample_user THANK_YOU_REQUIRED X_COMPLETED (\<lambda>s. s) (\<lambda>d. d)
      (store_in THANK_YOU_REQUIRED) = (Inl (http 409 ''Experiment state changed. Refresh and try again.''), d1)"
    by (rule second_of_two_refused [OF t g g tame_sample session_keys_sample]) (simp_all add: plain_def rank_def)
  then show ?thesis by (intro exI [of _ d1]) simp
qed

end
