(* ===== verification/Stage_Liveness.thy ===== *)
theory Stage_Liveness
  imports Stage_Progress Session_Properties
begin

text \<open>
  The requests of a strictly sequential session do succeed: starting opens the first stage, and
  a written essay always closes its stage.
\<close>

subsection \<open>Starting\<close>

lemma get_current_stable:
  assumes "get_current e user d = (Inr (st, Some s, msg), d)" and "tame (se_race e)" and "session_keys d"
  shows "get_by xs_id (xs_id s) (xd_sessions d) = Some s" and "xs_state s = st" and "xs_user_id s = us_id user"
  using get_current_reported [OF assms] by (simp_all add: reported_def)

lemma cas_update_current:
  assumes "session_keys d" and "get_by xs_id sid (xd_sessions d) = Some s"
  shows "count_rows (\<lambda>x. xs_id x = sid \<and> xs_state x = xs_state s) (xd_sessions d) = 1"
proof -
  have d: "distinct (map xs_id (xd_sessions d))" using assms(1) by (simp add: session_keys_def)
  have "count_rows (\<lambda>x. xs_id x = sid \<and> xs_state x = st) rows =
      (case get_by xs_id sid rows of None \<Rightarrow> 0 | Some x \<Rightarrow> if xs_state x = st then 1 else 0)"
    if "distinct (map xs_id rows)" for st and rows :: "experiment_session list"
    using that
  proof (induction rows)
    case (Cons x rows)
    then have "xs_id x = sid \<Longrightarrow> get_by xs_id sid rows = None" by (auto simp: get_by_None)
    with Cons show ?case by auto
  qed simp
  with assms d show ?thesis by simp
qed

lemma start_rows_strict:
  assumes "rows_ok rows"
  shows "strict_at 0 (activate_initial STRICT_SEQUENTIAL rows now)"
    and "map frame (activate_initial STRICT_SEQUENTIAL rows now) = map frame rows"
proof -
  show "strict_at 0 (activate_initial STRICT_SEQUENTIAL rows now)"
    by (rule activate_initial_strict) (use assms in \<open>simp_all add: rows_ok_def\<close>)
  have r: "map frame (map (reset_row now) rs) = map frame rs" for rs
    using frame_statuses(2) [of now] by (simp add: keeps_frame_def)
  show "map frame (activate_initial STRICT_SEQUENTIAL rows now) = map frame rows"
  proof (cases rows)
    case (Cons x xs)
    have "frame (reset_row now x\<lparr>st_status := ACTIVE, st_started_at := Some now\<rparr>) = frame (reset_row now x)"
      by (simp add: frame_def)
    then show ?thesis
      using r [of xs] r [of "[x]"] block_frames [of STRICT_SEQUENTIAL "map (reset_row now) rows" 0 now]
      by (simp add: activate_initial_def Cons)
  qed (simp add: activate_initial_def)
qed

lemma rows_ok_frames: "map frame a = map frame b \<Longrightarrow> rows_ok a = rows_ok b"
proof -
  have "map st_id rows = map fst (map frame rows)" "map st_position rows = map (fst \<circ> snd) (map frame rows)" for rows
    by (simp_all add: frame_def comp_def)
  then show "map frame a = map frame b \<Longrightarrow> ?thesis" unfolding rows_ok_def by metis
qed

lemma start_opens:
  assumes g: "get_current e user d = (Inr (st, Some s, msg), d)" and t: "tame (se_race e)" and k: "session_keys d"
    and st: "st \<in> {TOPIC_REQUIRED, TASK_REQUIRED}" and tp: "truthy_str (xs_plan_id s)"
    and plan: "plan_of (xs_plan_id s) d = Inr (Some p)" and mode: "pl_progression_mode p = STRICT_SEQUENTIAL"
    and ok: "db_ok d" and rows: "rows_ok (session_rows (xs_id s) d)" and ne: "session_rows (xs_id s) d \<noteq> []"
  shows "\<exists>s' d'. start e (\<lambda>d. d) user d = (Inr s', d') \<and> xs_id s' = xs_id s \<and>
    at_stage (xs_id s) 0 (length (session_rows (xs_id s) d)) d'"
proof -
  let ?sid = "xs_id s" and ?now = "se_clock e 4"
  let ?rows = "activate_initial STRICT_SEQUENTIAL (session_rows ?sid d) ?now"
  let ?f = "\<lambda>s. s\<lparr>xs_topic_shown_at := Some ?now, xs_writing_started_at := Some ?now\<rparr>"
  let ?m = "move_to IN_PROGRESS (se_clock e 3) ?f"
  note stable = get_current_stable [OF g t k]
  have run: "start e (\<lambda>d. d) user d = transition e (\<lambda>d. d) user st IN_PROGRESS ?f (put_rows ?rows) d"
    using st tp plan mode by (auto simp: start_def g Let_def start_rows_def)
  have c: "count_rows (\<lambda>x. xs_id x = ?sid \<and> xs_state x = st) (xd_sessions d) = 1"
    using cas_update_current [OF k stable(1)] stable(2) by simp
  then obtain d' where cas: "cas_update ?sid st ?m (put_rows ?rows) d = Some d'"
    and d': "d' = (put_rows ?rows d)\<lparr>xd_sessions := upd_rows (\<lambda>x. xs_id x = ?sid \<and> xs_state x = st) ?m (xd_sessions d)\<rparr>"
    by (simp add: cas_update_def Let_def)
  have pl: "plain ?f" by (rule plain_updates)
  have ses: "xd_sessions d' = upd_by xs_id ?sid (\<lambda>_. ?m s) (xd_sessions d)"
    using cas_update_Some [OF cas k] stable(1) by simp
  have s': "get_by xs_id ?sid (xd_sessions d') = Some (?m s)"
  proof -
    have "get_by xs_id ?sid (upd_by xs_id ?sid (\<lambda>_. ?m s) rows) = map_option (\<lambda>_. ?m s) (get_by xs_id ?sid rows)" for rows
      by (induction rows) (auto simp: move_to_def)
    then show ?thesis using stable(1) by (simp add: ses)
  qed
  have "transition e (\<lambda>d. d) user st IN_PROGRESS ?f (put_rows ?rows) d = (Inr (?m s), d')"
    by (simp add: transition_def g cas s')
  moreover have "at_stage ?sid 0 (length (session_rows ?sid d)) d'"
  proof (rule at_stageI)
    note fr = start_rows_strict [OF rows, of ?now]
    note fit = frames_fit [OF ok fr(2)]
    have own: "session_rows ?sid d' = ?rows"
      using put_rows_own [OF fit(1-3)] by (simp add: d' session_rows_def)
    show "strict_at 0 (session_rows ?sid d')" by (simp add: own fr(1))
    show "rows_ok (session_rows ?sid d')" using rows_ok_frames [OF fr(2)] rows by (simp add: own)
    show "length (session_rows ?sid d') = length (session_rows ?sid d)" using fr(2) by (metis length_map own)
    have "map xs_id (xd_sessions d') = map xs_id (xd_sessions d)"
      unfolding d' by (simp add: map_upd_rows move_to_def)
    then show "db_ok d'" using ok overlay_ids [OF fit(1)] by (simp add: db_ok_def) (simp add: d')
    show "get_by xs_id ?sid (xd_sessions d') = Some (?m s)" by (rule s')
    have "same_plans d d'" by (simp add: d' same_plans_def put_rows_def)
    then show "plan_of (xs_plan_id (?m s)) d' = Inr (Some p)" using plan plan_of_same by (simp add: move_to_def)
    show "pl_progression_mode p = STRICT_SEQUENTIAL" by (rule mode)
    show "xs_state (?m s) = (if 0 < length (session_rows ?sid d) then IN_PROGRESS
        else end_state (pl_status p = PN_SUPERSEDED) (session_rows ?sid d'))"
      using ne by (simp add: move_to_def)
  qed
  moreover have "xs_id (?m s) = ?sid" by (simp add: move_to_def)
  ultimately show ?thesis using run by metis
qed

text \<open>
  C18. What the server reports as the current session of a participant is what the store holds
  afterwards: either no session, and then the state says that none applies or that the set-up is
  broken, or the participant's own stored session with its stored state.
\<close>

theorem current_session_is_stored:
  assumes "get_current e user d = (Inr (st, session, msg), d')" and "tame (se_race e)" and "session_keys d"
  shows "session_keys d' \<and> reported user st session d'"
  using get_current_reported [OF assms] get_current_forward [OF assms] forwardD(1) by blast

lemma current_session_is_stored_witness:
  "reported sample_user IN_PROGRESS (Some (session_in IN_PROGRESS)) (store_in IN_PROGRESS)"
proof -
  have "get_current sample_env sample_user (store_in IN_PROGRESS) =
      (Inr (IN_PROGRESS, Some (session_in IN_PROGRESS), None), store_in IN_PROGRESS)"
    by (rule get_current_sample) (simp add: active_states_def)
  from current_session_is_stored [OF this tame_sample session_keys_sample] show ?thesis by simp
qed

text \<open>
  A participant whose strictly sequential session is ready can start it, and then it stands
  before its first stage: the first task is active and all the others are locked.
\<close>

theorem start_opens_first_stage:
  assumes "get_current e user d = (Inr (st, Some s, msg), d)" and "tame (se_race e)" and "session_keys d"
    and "st \<in> {TOPIC_REQUIRED, TASK_REQUIRED}" and "truthy_str (xs_plan_id s)"
    and "plan_of (xs_plan_id s) d = Inr (Some p)" and "pl_progression_mode p = STRICT_SEQUENTIAL"
    and "db_ok d" and "rows_ok (session_rows (xs_id s) d)" and "session_rows (xs_id s) d \<noteq> []"
  shows "\<exists>s' d'. start e (\<lambda>d. d) user d = (Inr s', d') \<and> xs_id s' = xs_id s \<and>
    at_stage (xs_id s) 0 (length (session_rows (xs_id s) d)) d'"
  by (rule start_opens [OF assms])

subsection \<open>An essay closes its stage\<close>

lemma essay_closes:
  assumes at: "at_stage sid k n d" and k: "k < n"
    and s: "get_by xs_id sid (xd_sessions d) = Some s" and own: "xs_user_id s = us_id user"
    and ty: "st_task_type (session_rows sid d ! k) = ESSAY"
    and content: "py_strip content \<noteq> []" "length content \<le> 500000"
    and fresh: "se_uid (rt_session r) (DEssay (st_id (session_rows sid d ! k))) \<notin> ey_id ` set (xd_essays d)"
  shows "\<exists>d'. finalize_essay r (st_id (session_rows sid d ! k)) content user d = (Inr (), d') \<and>
    at_stage sid (k + 1) n d'"
proof -
  let ?t = "session_rows sid d ! k"
  obtain p where a: "db_ok d" "strict_at k (session_rows sid d)" "length (session_rows sid d) = n"
      "plan_of (xs_plan_id s) d = Inr (Some p)" "pl_progression_mode p = STRICT_SEQUENTIAL" "xs_state s = IN_PROGRESS"
    using at s k by (auto elim: at_stageE)
  have sid: "xs_id s = sid" using get_by_Some [OF s] by simp
  have t: "?t \<in> set (session_rows sid d)" using k a(3) by simp
  then have t1: "?t \<in> set (xd_tasks d)" "st_experiment_session_id ?t = sid" by (simp_all add: session_rows_set)
  have gt: "get_by st_id (st_id ?t) (xd_tasks d) = Some ?t"
    using get_by_distinct [of st_id, OF _ t1(1)] a(1) by (simp add: db_ok_def)
  have active: "st_status ?t = ACTIVE"
    using a(2,3) k by (auto simp: strict_at_def simp flip: Cons_nth_drop_Suc)
  have found: "session_task_for_user (st_id ?t) user False d = Inr (?t, s)"
    by (simp add: session_task_for_user_def gt t1(2) s own a(6) active)
  have "\<exists>y d'. finalize_essay_task (rt_session r) (rt_metrics r) user ?t (py_strip content) d = (Inr y, d')"
  proof -
    let ?y = "new_essay (rt_metrics r) (se_uid (rt_session r) (DEssay (st_id ?t))) (se_clock (rt_session r) 5) (us_id user)
        (py_strip content) (st_essay_topic_id ?t) (st_essay_topic_title ?t) (st_essay_topic_question ?t) (Some (st_id ?t))"
    let ?r = "finalize_essay_row (se_clock (rt_session r) 5) (ey_id ?y) (py_strip content) ?t"
    let ?d = "put_session (first_essay (ey_id ?y) (se_clock (rt_session r) 5) s)
        (d\<lparr>xd_essays := add_row ?y (xd_essays d), xd_tasks := upd_by st_id (st_id ?t) (\<lambda>_. ?r) (xd_tasks d)\<rparr>)"
    have id: "ey_id ?y = se_uid (rt_session r) (DEssay (st_id ?t))" by (simp add: new_essay_def split: prod.split)
    have "get_by xs_id (xs_id s) (xd_sessions ?d) = Some (first_essay (ey_id ?y) (se_clock (rt_session r) 5) s)"
      using s sid by (simp add: put_session_get)
    moreover have "plan_of (xs_plan_id s) ?d = Inr (Some p)"
      using a(4) plan_of_same [of d ?d] by simp
    ultimately have "\<exists>d'. advance_after_stage (se_clock (rt_session r) 6) (xs_id s) ?r False ?d = Inr d'"
      by (simp add: advance_after_stage_def split: prod.split)
    then show ?thesis
      using fresh s t1(2) own a(6) active by (auto simp: finalize_essay_task_def Let_def id)
  qed
  then obtain y d' where f: "finalize_essay_task (rt_session r) (rt_metrics r) user ?t (py_strip content) d = (Inr y, d')"
    by blast
  have run: "finalize_essay r (st_id ?t) content user d = (Inr (), d')"
    using content ty active by (simp add: finalize_essay_def found a(4,5) f)
  then have "close_stage (FinalizeEssay (st_id ?t) content) r user d = (None, d')" by (simp add: no_answer_simps)
  from close_stage_step [OF this, of ?t s k n] found active at sid run show ?thesis by simp
qed

text \<open>
  C21. In a strictly sequential session whose active stage is an essay, finalizing the essay with
  a text that is not blank and not too long always succeeds and closes the stage.
\<close>

theorem essay_stage_closes:
  assumes "at_stage sid k n d" and "k < n"
    and "get_by xs_id sid (xd_sessions d) = Some s" and "xs_user_id s = us_id user"
    and "st_task_type (session_rows sid d ! k) = ESSAY"
    and "py_strip content \<noteq> []" and "length content \<le> 500000"
    and "se_uid (rt_session r) (DEssay (st_id (session_rows sid d ! k))) \<notin> ey_id ` set (xd_essays d)"
  shows "\<exists>d'. finalize_essay r (st_id (session_rows sid d ! k)) content user d = (Inr (), d') \<and>
    at_stage sid (k + 1) n d'"
  by (rule essay_closes [OF assms])

subsection \<open>A strict session of two essays\<close>

definition strict_plan :: plan_row where
  "strict_plan = \<lparr>pn_id = ''p'', pn_source_workflow_id = None, pn_source_workflow_name = None,
     pn_source_workflow_revision = None, pn_workflow_origin = None, pn_configuration_fingerprint = None,
     pn_group_id = ''g'', pn_version = 1, pn_status = PN_PUBLISHED, pn_progression_mode = STRICT_SEQUENTIAL,
     pn_chat_mode = SHARED_EXPERIMENT, pn_survey_variant = TASK_NEUTRAL, pn_consent_enabled = True,
     pn_locked_at = None, pn_created_at = 0, pn_updated_at = 0\<rparr>"

definition essay_task :: "string \<Rightarrow> int \<Rightarrow> session_task_status \<Rightarrow> session_task" where
  "essay_task i position st = \<lparr>st_id = i, st_experiment_session_id = ''s'', st_plan_item_id = None,
     st_position = position, st_task_type = ESSAY, st_title = ''Essay'', st_llm_prompt_budget = None,
     st_status = st, st_essay_topic_id = None, st_essay_topic_title = None, st_essay_topic_question = None,
     st_question_task_id = None, st_survey_task_id = None, st_survey_required = False, st_essay_id = None,
     st_essay_draft = None, st_started_at = None, st_completed_at = None, st_finalized_at = None,
     st_created_at = 0, st_updated_at = 0\<rparr>"

definition strict_session :: "experiment_state \<Rightarrow> experiment_session" where
  "strict_session st = (session_in st)\<lparr>xs_plan_id := Some ''p''\<rparr>"

definition strict_store :: "experiment_state \<Rightarrow> session_task_status \<Rightarrow> experiment_db" where
  "strict_store st first = (store_with (strict_session st))\<lparr>xd_plans := [strict_plan],
     xd_tasks := [essay_task ''t1'' 0 first, essay_task ''t2'' 1 LOCKED]\<rparr>"

lemma strict_session_fields [simp]:
  "xs_id (strict_session st) = ''s''" "xs_state (strict_session st) = st" "xs_user_id (strict_session st) = ''u''"
  "xs_plan_id (strict_session st) = Some ''p''"
  by (simp_all add: strict_session_def)

lemma essay_task_fields [simp]:
  "st_id (essay_task i n st) = i" "st_position (essay_task i n st) = n" "st_status (essay_task i n st) = st"
  "st_experiment_session_id (essay_task i n st) = ''s''" "st_task_type (essay_task i n st) = ESSAY"
  by (simp_all add: essay_task_def)

lemma strict_store_rows: "session_rows ''s'' (strict_store st a) = [essay_task ''t1'' 0 a, essay_task ''t2'' 1 LOCKED]"
  by (simp add: session_rows_def strict_store_def order_by_def)

lemma strict_store_sessions:
  "xd_sessions (strict_store st a) = [strict_session st]" "session_keys (strict_store st a)" "db_ok (strict_store st a)"
  by (simp_all add: strict_store_def store_with_def session_keys_def db_ok_def)

lemma strict_store_plan: "\<exists>p. plan_of (Some ''p'') (strict_store st a) = Inr (Some p) \<and>
    pl_progression_mode p = STRICT_SEQUENTIAL \<and> pl_status p = PN_PUBLISHED"
  by (simp add: plan_of_def get_plan_def strict_store_def store_with_def empty_store_def strict_plan_def order_by_def)

lemma strict_store_ok: "rows_ok [essay_task ''t1'' 0 a, essay_task ''t2'' 1 b]"
  by (simp add: rows_ok_def)

lemma strict_store_stage: "at_stage ''s'' 0 2 (strict_store IN_PROGRESS ACTIVE)"
proof -
  obtain p where "plan_of (Some ''p'') (strict_store IN_PROGRESS ACTIVE) = Inr (Some p)"
      "pl_progression_mode p = STRICT_SEQUENTIAL" using strict_store_plan by blast
  then show ?thesis
    by (intro at_stageI [where s = "strict_session IN_PROGRESS"])
      (simp_all add: strict_store_sessions strict_store_ok strict_store_rows strict_at_def)
qed

definition sample_route :: route_env where
  "sample_route = \<lparr>rt_session = sample_env, rt_clock = int, rt_metrics = (\<lambda>x. (1, int (length x))),
     rt_question_uid = (\<lambda>_ _. ''q''), rt_survey_uid = (\<lambda>_. ''v'')\<rparr>"

lemma start_opens_first_stage_witness:
  "\<exists>s' d'. start sample_env (\<lambda>d. d) sample_user (strict_store TASK_REQUIRED LOCKED) = (Inr s', d') \<and> at_stage ''s'' 0 2 d'"
proof -
  have g: "get_current sample_env sample_user (strict_store TASK_REQUIRED LOCKED) =
      (Inr (TASK_REQUIRED, Some (strict_session TASK_REQUIRED), None), strict_store TASK_REQUIRED LOCKED)"
    using get_current_one [of "strict_session TASK_REQUIRED" sample_user "strict_store TASK_REQUIRED LOCKED" sample_env]
    by (simp add: strict_store_sessions active_states_def sample_user_def groups_of_def)
      (simp add: strict_store_def store_with_def empty_store_def)
  obtain p where p: "plan_of (Some ''p'') (strict_store TASK_REQUIRED LOCKED) = Inr (Some p)"
      "pl_progression_mode p = STRICT_SEQUENTIAL" using strict_store_plan by blast
  show ?thesis
    using start_opens_first_stage [OF g tame_sample strict_store_sessions(2) _ _ _ p(2) strict_store_sessions(3)] p(1)
    by (auto simp: strict_store_ok strict_store_rows numeral_2_eq_2)
qed

lemma essay_stage_closes_witness:
  "\<exists>d'. finalize_essay sample_route ''t1'' ''words'' sample_user (strict_store IN_PROGRESS ACTIVE) = (Inr (), d') \<and>
     at_stage ''s'' 1 2 d'"
proof -
  have "py_strip ''words'' \<noteq> []" by (simp add: py_strip_Nil_iff py_space_def)
  moreover have "xd_essays (strict_store IN_PROGRESS ACTIVE) = []"
    by (simp add: strict_store_def store_with_def empty_store_def)
  ultimately show ?thesis
    using essay_stage_closes [OF strict_store_stage _ _ _ _ _ _, of "strict_session IN_PROGRESS" sample_user "''words''" sample_route]
    by (simp add: strict_store_sessions strict_store_rows sample_user_def)
qed

lemma sample_close:
  "\<exists>d'. close_stage (FinalizeEssay ''t1'' ''words'') sample_route sample_user (strict_store IN_PROGRESS ACTIVE) = (None, d')"
proof -
  have "py_strip ''words'' \<noteq> []" by (simp add: py_strip_Nil_iff py_space_def)
  moreover have "xd_essays (strict_store IN_PROGRESS ACTIVE) = []"
    by (simp add: strict_store_def store_with_def empty_store_def)
  ultimately have "\<exists>d'. finalize_essay sample_route ''t1'' ''words'' sample_user (strict_store IN_PROGRESS ACTIVE) = (Inr (), d')"
    using essay_closes [OF strict_store_stage, of "strict_session IN_PROGRESS" sample_user "''words''" sample_route]
    by (simp add: strict_store_sessions strict_store_rows sample_user_def) blast
  then show ?thesis by (simp add: no_answer_simps)
qed

lemma sample_found:
  "session_task_for_user ''t1'' sample_user False (strict_store IN_PROGRESS ACTIVE) =
     Inr (essay_task ''t1'' 0 ACTIVE, strict_session IN_PROGRESS)"
proof -
  have "xd_tasks (strict_store IN_PROGRESS ACTIVE) = [essay_task ''t1'' 0 ACTIVE, essay_task ''t2'' 1 LOCKED]"
    by (simp add: strict_store_def)
  then show ?thesis by (simp add: session_task_for_user_def strict_store_sessions sample_user_def)
qed

lemma closing_refines_counter_witness:
  "\<exists>d'. close_stage (FinalizeEssay ''t1'' ''words'') sample_route sample_user (strict_store IN_PROGRESS ACTIVE) = (None, d') \<and>
     at_stage ''s'' 1 2 d' \<and> finished (session_rows ''s'' d') = 1"
proof -
  obtain d' where c: "close_stage (FinalizeEssay ''t1'' ''words'') sample_route sample_user
      (strict_store IN_PROGRESS ACTIVE) = (None, d')" using sample_close by blast
  have f: "session_task_for_user (stage_task (FinalizeEssay ''t1'' ''words'')) sample_user False
      (strict_store IN_PROGRESS ACTIVE) = Inr (essay_task ''t1'' 0 ACTIVE, strict_session IN_PROGRESS)"
    by (simp add: sample_found)
  show ?thesis
    using closing_refines_counter [OF c f, of 0 2] strict_store_stage at_stage_finished [OF strict_store_stage]
    by (intro exI [of _ d'] conjI c) simp_all
qed

lemma strict_session_ends_witness:
  "\<exists>d'. stage_run sample_user ''s'' (strict_store IN_PROGRESS ACTIVE) 1 d' \<and> at_stage ''s'' 1 2 d'"
proof -
  obtain d' where c: "close_stage (FinalizeEssay ''t1'' ''words'') sample_route sample_user
      (strict_store IN_PROGRESS ACTIVE) = (None, d')" using sample_close by blast
  have "stage_run sample_user ''s'' (strict_store IN_PROGRESS ACTIVE) (0 + 1) d'"
    by (rule stage_run.closed [OF stage_run.nothing c, of "essay_task ''t1'' 0 ACTIVE" "strict_session IN_PROGRESS"])
      (simp_all add: sample_found)
  then show ?thesis using strict_session_ends [OF _ strict_store_stage, of sample_user 1 d'] by auto
qed

end
