(* ===== verification/Warning_Runtime.thy ===== *)
theory Warning_Runtime
  imports Experiment_Session
begin

text \<open>
  The warning modal of a running session (\<open>routers/experiments.py\<close>): its trigger, the pending
  token, its display and its acknowledgement. A minute count is the exact quotient of the active
  milliseconds by 60000. The clock and the UUIDs of a request are \<open>clock\<close> and \<open>uid\<close>.
\<close>

subsection \<open>The active runtime\<close>

definition warning_keys :: "warning_state list \<Rightarrow> bool" where
  "warning_keys rows \<longleftrightarrow> distinct (map ws_id rows) \<and>
     distinct (map (\<lambda>w. (ws_experiment_session_id w, ws_condition_id w, ws_plan_id w)) rows)"

definition find_warning_state :: "string \<Rightarrow> string \<Rightarrow> string \<Rightarrow> experiment_db \<Rightarrow> warning_state option" where
  "find_warning_state session_id condition_id plan_id d =
     find_row (\<lambda>w. ws_experiment_session_id w = session_id \<and> ws_condition_id w = condition_id \<and>
       ws_plan_id w = plan_id) (xd_warnings d)"

definition put_warning :: "warning_state \<Rightarrow> experiment_db \<Rightarrow> experiment_db" where
  "put_warning w d = d\<lparr>xd_warnings := upd_by ws_id (ws_id w) (\<lambda>_. w) (xd_warnings d)\<rparr>"

type_synonym runtime = "experiment_session option \<times> warning_row option \<times> warning_state option"

definition active_runtime ::
    "session_env \<Rightarrow> string \<Rightarrow> int \<Rightarrow> user \<Rightarrow> experiment_db \<Rightarrow> (err + runtime) \<times> experiment_db" where
  "active_runtime e i now user d =
     (case get_current e user d of
        (Inl err, d) \<Rightarrow> (Inl err, d)
      | (Inr (state, session, _), d) \<Rightarrow>
          (case session of
             None \<Rightarrow> (Inr (None, None, None), d)
           | Some s \<Rightarrow>
               if state \<noteq> IN_PROGRESS \<or> \<not> truthy_str (xs_condition_id s) \<or> \<not> truthy_str (xs_plan_id s)
               then (Inr (None, None, None), d)
               else
                 let condition_id = or_str (xs_condition_id s) []; plan_id = or_str (xs_plan_id s) [] in
                 (case get_by ew_condition_id condition_id (xd_warning_rows d) of
                    None \<Rightarrow> (Inr (Some s, None, None), d)
                  | Some w \<Rightarrow>
                      if \<not> ew_enabled w then (Inr (Some s, None, None), d)
                      else case find_warning_state (xs_id s) condition_id plan_id d of
                          Some ws \<Rightarrow> (Inr (Some s, Some w, Some ws), d)
                        | None \<Rightarrow>
                            let ws = new_warning_state i now (xs_id s) condition_id plan_id;
                                rows = add_row ws (xd_warnings d)
                            in if warning_keys rows
                               then (Inr (Some s, Some w, Some ws), d\<lparr>xd_warnings := rows\<rparr>)
                               else (Inr (Some s, Some w, find_warning_state (xs_id s) condition_id plan_id d), d))))"

subsection \<open>The trigger\<close>

definition cadence_reason :: "warning_cadence \<Rightarrow> string" where
  "cadence_reason c =
     (case c of
        BEGINNING \<Rightarrow> ''beginning''
      | W_EVERY_N_PROMPTS \<Rightarrow> ''every_n_prompts''
      | PROMPT_LIST \<Rightarrow> ''prompt_list''
      | ONCE_AFTER_PROMPT \<Rightarrow> ''once_after_prompt''
      | EVERY_N_ACTIVE_MINUTES \<Rightarrow> ''every_n_active_minutes''
      | AFTER_ACTIVE_MINUTES \<Rightarrow> ''after_active_minutes''
      | ONCE_AFTER_ACTIVE_DELAY \<Rightarrow> ''once_after_active_delay'')"

text \<open>The key of the occasion that is due, before it is compared with the last one.\<close>

definition due_trigger :: "warning_row \<Rightarrow> int \<Rightarrow> int \<Rightarrow> string option" where
  "due_trigger w active_ms prompt_count =
     (let minutes = (of_int active_ms / 60000 :: rat); n = or_int (ew_cadence_value w) 0 in
      case ew_cadence w of
        BEGINNING \<Rightarrow> Some ''beginning''
      | W_EVERY_N_PROMPTS \<Rightarrow>
          if n \<noteq> 0 \<and> prompt_count \<noteq> 0 \<and> prompt_count mod n = 0
          then Some (''prompt:'' @ int_str prompt_count) else None
      | PROMPT_LIST \<Rightarrow>
          if prompt_count \<in> set (ew_prompt_numbers w) then Some (''prompt:'' @ int_str prompt_count) else None
      | ONCE_AFTER_PROMPT \<Rightarrow>
          if n \<noteq> 0 \<and> n \<le> prompt_count then Some (''once-prompt:'' @ int_str n) else None
      | EVERY_N_ACTIVE_MINUTES \<Rightarrow>
          if n \<noteq> 0 \<and> 0 < \<lfloor>minutes / of_int n\<rfloor> then Some (''active-slot:'' @ int_str \<lfloor>minutes / of_int n\<rfloor>)
          else None
      | _ \<Rightarrow>
          if n \<noteq> 0 \<and> of_int n \<le> minutes then Some (''once-active:'' @ int_str n) else None)"

definition warning_trigger :: "warning_row \<Rightarrow> warning_state \<Rightarrow> int \<Rightarrow> string option \<times> string option" where
  "warning_trigger w ws prompt_count =
     (let trigger = due_trigger w (ws_active_elapsed_ms ws) prompt_count in
      if trigger = ws_last_trigger_key ws then (None, None)
      else (trigger, Some (cadence_reason (ew_cadence w))))"

definition arm_warning :: "string \<Rightarrow> int \<Rightarrow> int \<Rightarrow> string \<Rightarrow> string option \<Rightarrow> warning_state \<Rightarrow> warning_state" where
  "arm_warning token now prompt_count trigger reason ws =
     ws\<lparr>ws_pending_token := Some token, ws_pending_reason := reason, ws_pending_trigger_key := Some trigger,
        ws_pending_prompt_count := Some prompt_count,
        ws_pending_active_elapsed_ms := Some (ws_active_elapsed_ms ws), ws_displayed_at := None,
        ws_acknowledged_at := None, ws_updated_at := now\<rparr>"

record warning_payload =
  wp_token :: string
  wp_title :: string
  wp_message :: string
  wp_confirmation_text :: string
  wp_must_acknowledge :: bool

definition show_warning :: "warning_row \<Rightarrow> warning_state \<Rightarrow> warning_payload option" where
  "show_warning w ws =
     (if truthy_str (ws_pending_token ws)
      then Some \<lparr>wp_token = or_str (ws_pending_token ws) [], wp_title = ew_title w, wp_message = ew_message w,
             wp_confirmation_text = ew_confirmation_text w, wp_must_acknowledge = ew_must_acknowledge w\<rparr>
      else None)"

definition prompt_count_of :: "string \<Rightarrow> experiment_db \<Rightarrow> int" where
  "prompt_count_of session_id d =
     or_int (max_of lr_prompt_number (filter (\<lambda>r. lr_experiment_session_id r = session_id) (xd_requests d))) 0"

text \<open>Arming the next warning when none is pending.\<close>

definition poll_warning :: "string \<Rightarrow> int \<Rightarrow> warning_row \<Rightarrow> int \<Rightarrow> warning_state \<Rightarrow> warning_state" where
  "poll_warning token now w prompt_count ws =
     (if truthy_str (ws_pending_token ws) then ws
      else case warning_trigger w ws prompt_count of
          (Some trigger, reason) \<Rightarrow>
            if trigger = [] then ws else arm_warning token now prompt_count trigger reason ws
        | (None, _) \<Rightarrow> ws)"

definition runtime_payload ::
    "session_env \<Rightarrow> (nat \<Rightarrow> string) \<Rightarrow> (nat \<Rightarrow> int) \<Rightarrow> user \<Rightarrow> experiment_db \<Rightarrow>
     (err + warning_payload option) \<times> experiment_db" where
  "runtime_payload e uid clock user d =
     (case active_runtime e (uid 0) (clock 0) user d of
        (Inl err, d) \<Rightarrow> (Inl err, d)
      | (Inr (Some s, Some w, Some ws), d) \<Rightarrow>
          let ws = poll_warning (uid 1) (clock 1) w (prompt_count_of (xs_id s) d) ws
          in (Inr (show_warning w ws), put_warning ws d)
      | (Inr _, d) \<Rightarrow> (Inr None, d))"

definition experiment_activity ::
    "session_env \<Rightarrow> (nat \<Rightarrow> string) \<Rightarrow> (nat \<Rightarrow> int) \<Rightarrow> user \<Rightarrow> int \<Rightarrow> experiment_db \<Rightarrow>
     (err + warning_payload option) \<times> experiment_db" where
  "experiment_activity e uid clock user active_ms d =
     (case active_runtime e (uid 2) (clock 2) user d of
        (Inl err, d) \<Rightarrow> (Inl err, d)
      | (Inr (_, _, Some ws), d) \<Rightarrow>
          runtime_payload e uid clock user (put_warning (ws\<lparr>ws_active_elapsed_ms := ws_active_elapsed_ms ws + active_ms,
            ws_updated_at := clock 3\<rparr>) d)
      | (Inr _, d) \<Rightarrow> runtime_payload e uid clock user d)"

subsection \<open>Display and acknowledgement\<close>

definition opt_num :: "int option \<Rightarrow> json" where
  "opt_num v = (case v of None \<Rightarrow> JNull | Some n \<Rightarrow> JNum (of_int n))"

definition opt_str :: "string option \<Rightarrow> json" where
  "opt_str v = (case v of None \<Rightarrow> JNull | Some s \<Rightarrow> JStr s)"

definition runtime_event_of ::
    "string \<Rightarrow> int \<Rightarrow> experiment_session \<Rightarrow> string \<Rightarrow> json \<Rightarrow> string option \<Rightarrow> string option \<Rightarrow> string option \<Rightarrow> runtime_event" where
  "runtime_event_of i now s kind payload request_id chat_id message_id =
     \<lparr>re_id = i, re_user_id = xs_user_id s, re_experiment_session_id = xs_id s, re_event_type = kind,
      re_event_time = now, re_field_context = ''chat'', re_payload = payload, re_created_at = now,
      re_condition_id = xs_condition_id s, re_plan_id = xs_plan_id s, re_request_id = request_id,
      re_chat_id = chat_id, re_message_id = message_id\<rparr>"

definition clear_pending :: "warning_state \<Rightarrow> warning_state" where
  "clear_pending ws =
     ws\<lparr>ws_last_trigger_key := ws_pending_trigger_key ws, ws_last_token := ws_pending_token ws,
        ws_pending_token := None, ws_pending_reason := None, ws_pending_trigger_key := None,
        ws_pending_prompt_count := None, ws_pending_active_elapsed_ms := None\<rparr>"

definition display_payload :: "warning_state \<Rightarrow> (string \<times> json) list" where
  "display_payload ws =
     [(''display_reason'', opt_str (ws_pending_reason ws)), (''prompt_count'', opt_num (ws_pending_prompt_count ws)),
      (''active_elapsed_ms'', opt_num (ws_pending_active_elapsed_ms ws))]"

definition warning_display ::
    "session_env \<Rightarrow> (nat \<Rightarrow> string) \<Rightarrow> (nat \<Rightarrow> int) \<Rightarrow> user \<Rightarrow> string \<Rightarrow> experiment_db \<Rightarrow>
     (err + bool) \<times> experiment_db" where
  "warning_display e uid clock user token d =
     (case active_runtime e (uid 0) (clock 0) user d of
        (Inl err, d) \<Rightarrow> (Inl err, d)
      | (Inr (session, w, ws), d) \<Rightarrow>
          (case (session, ws) of
             (Some s, Some ws) \<Rightarrow>
               if ws_last_token ws = Some token then (Inr True, d)
               else if ws_pending_token ws \<noteq> Some token
               then (Inl (http 409 ''Warning is no longer pending.''), d)
               else if ws_displayed_at ws \<noteq> None then (Inr True, d)
               else
                 let ws' = ws\<lparr>ws_displayed_at := Some (clock 1), ws_updated_at := clock 2\<rparr>;
                     ev = runtime_event_of (uid 1) (clock 3) s ''warning_modal_displayed''
                       (JObj (display_payload ws)) None None None;
                     ws' = (case w of
                         Some w \<Rightarrow> if ew_must_acknowledge w then ws' else clear_pending ws'
                       | None \<Rightarrow> ws')
                 in (Inr True, put_warning ws' (d\<lparr>xd_events := add_row ev (xd_events d)\<rparr>))
           | _ \<Rightarrow> (Inl (http 409 ''Warning is no longer pending.''), d)))"

definition warning_acknowledge ::
    "session_env \<Rightarrow> (nat \<Rightarrow> string) \<Rightarrow> (nat \<Rightarrow> int) \<Rightarrow> user \<Rightarrow> string \<Rightarrow> experiment_db \<Rightarrow>
     (err + bool) \<times> experiment_db" where
  "warning_acknowledge e uid clock user token d =
     (case active_runtime e (uid 0) (clock 0) user d of
        (Inl err, d) \<Rightarrow> (Inl err, d)
      | (Inr (session, _, ws), d) \<Rightarrow>
          (case (session, ws) of
             (Some s, Some ws) \<Rightarrow>
               if ws_last_token ws = Some token then (Inr True, d)
               else if ws_pending_token ws \<noteq> Some token
               then (Inl (http 409 ''Warning is no longer pending.''), d)
               else
                 let acknowledged_at = clock 1;
                     ev = runtime_event_of (uid 1) (clock 2) s ''warning_modal_acknowledged''
                       (JObj (display_payload ws @ [(''displayed_at'', opt_num (ws_displayed_at ws)),
                          (''acknowledged_at'', opt_num (Some acknowledged_at))])) None None None;
                     ws' = (clear_pending ws)\<lparr>ws_acknowledged_at := Some acknowledged_at,
                            ws_updated_at := acknowledged_at\<rparr>
                 in (Inr True, put_warning ws' (d\<lparr>xd_events := add_row ev (xd_events d)\<rparr>))
           | _ \<Rightarrow> (Inl (http 409 ''Warning is no longer pending.''), d)))"

definition required_warning_pending ::
    "session_env \<Rightarrow> (nat \<Rightarrow> string) \<Rightarrow> (nat \<Rightarrow> int) \<Rightarrow> user \<Rightarrow> experiment_db \<Rightarrow> (err + bool) \<times> experiment_db" where
  "required_warning_pending e uid clock user d =
     (case runtime_payload e uid clock user d of
        (Inl err, d) \<Rightarrow> (Inl err, d)
      | (Inr None, d) \<Rightarrow> (Inr False, d)
      | (Inr (Some p), d) \<Rightarrow> (Inr (wp_must_acknowledge p), d))"

end
