(* ===== verification/Warning_Properties.thy ===== *)
theory Warning_Properties
  imports Warning_Runtime Sample_Store
begin

text \<open>
  What the warning modal promises: a warning that must be acknowledged waits until it is, and an
  acknowledged occasion is not shown again.
\<close>

subsection \<open>A participant in a running session\<close>

definition current_is :: "user \<Rightarrow> experiment_session \<Rightarrow> experiment_db \<Rightarrow> bool" where
  "current_is user s d \<longleftrightarrow> \<not> us_admin user \<and> length (groups_of (us_id user) d) \<le> 1 \<and>
     filter (\<lambda>x. xs_state x \<in> active_states) (sessions_for_user (us_id user) d) = [s]"

lemma current_is_get: "current_is user s d \<Longrightarrow> get_current e user d = (Inr (xs_state s, Some s, None), d)"
  by (simp add: current_is_def get_current_def Let_def)

lemma current_is_same:
  "xd_sessions d' = xd_sessions d \<Longrightarrow> xd_groups d' = xd_groups d \<Longrightarrow> current_is user s d' = current_is user s d"
  by (simp add: current_is_def groups_of_def sessions_for_user_def)

text \<open>The warning of the session's condition is enabled and has its state row.\<close>

definition warned :: "user \<Rightarrow> experiment_session \<Rightarrow> warning_row \<Rightarrow> warning_state \<Rightarrow> experiment_db \<Rightarrow> bool" where
  "warned user s w ws d \<longleftrightarrow> current_is user s d \<and> xs_state s = IN_PROGRESS \<and>
     truthy_str (xs_condition_id s) \<and> truthy_str (xs_plan_id s) \<and>
     get_by ew_condition_id (or_str (xs_condition_id s) []) (xd_warning_rows d) = Some w \<and> ew_enabled w \<and>
     find_warning_state (xs_id s) (or_str (xs_condition_id s) []) (or_str (xs_plan_id s) []) d = Some ws \<and>
     warning_keys (xd_warnings d)"

lemma warned_runtime: "warned user s w ws d \<Longrightarrow> active_runtime e i now user d = (Inr (Some s, Some w, Some ws), d)"
proof -
  assume w: "warned user s w ws d"
  then have "get_current e user d = (Inr (IN_PROGRESS, Some s, None), d)"
    using current_is_get [of user s d e] by (simp add: warned_def)
  with w show ?thesis by (simp add: warned_def active_runtime_def Let_def)
qed

definition same_owner :: "warning_state \<Rightarrow> warning_state \<Rightarrow> bool" where
  "same_owner a b \<longleftrightarrow> ws_id a = ws_id b \<and> ws_experiment_session_id a = ws_experiment_session_id b \<and>
     ws_condition_id a = ws_condition_id b \<and> ws_plan_id a = ws_plan_id b"

lemma find_put_warning:
  assumes "distinct (map ws_id rows)" and "find_row P rows = Some ws" and "P ws'" and "ws_id ws' = ws_id ws"
  shows "find_row P (upd_by ws_id (ws_id ws') (\<lambda>_. ws') rows) = Some ws'"
  using assms
proof (induction rows)
  case (Cons r rows)
  show ?case
  proof (cases "P r")
    case True
    with Cons.prems show ?thesis by simp
  next
    case False
    then have f: "find_row P rows = Some ws" using Cons.prems(2) by simp
    then have "ws \<in> set rows" by (auto dest: find_row_Some)
    then have "ws_id r \<noteq> ws_id ws'" using Cons.prems(1,4) by auto
    with f False Cons show ?thesis by simp
  qed
qed simp

lemma warned_put:
  assumes w: "warned user s w ws d" and o: "same_owner ws' ws"
    and d': "xd_warnings d' = upd_by ws_id (ws_id ws') (\<lambda>_. ws') (xd_warnings d)"
    and same: "xd_sessions d' = xd_sessions d" "xd_groups d' = xd_groups d" "xd_warning_rows d' = xd_warning_rows d"
  shows "warned user s w ws' d'"
proof -
  let ?P = "\<lambda>x. ws_experiment_session_id x = xs_id s \<and> ws_condition_id x = or_str (xs_condition_id s) [] \<and>
    ws_plan_id x = or_str (xs_plan_id s) []"
  have f: "find_row ?P (xd_warnings d) = Some ws" and k: "warning_keys (xd_warnings d)"
    using w by (simp_all add: warned_def find_warning_state_def)
  have dist: "distinct (map ws_id (xd_warnings d))" using k by (simp add: warning_keys_def)
  have ws: "ws \<in> set (xd_warnings d)" "?P ws" using find_row_Some [OF f] by auto
  have g: "find_row ?P (xd_warnings d') = Some ws'"
    unfolding d' by (rule find_put_warning [OF dist f]) (use o ws in \<open>simp_all add: same_owner_def\<close>)
  have m: "map k (xd_warnings d') = map k (xd_warnings d)" if "k ws' = k ws" for k :: "warning_state \<Rightarrow> 'k"
  proof -
    have "(if ws_id x = ws_id ws' then ws' else x) = (if x = ws then ws' else x)" if "x \<in> set (xd_warnings d)" for x
      using row_unique [OF dist that ws(1)] o by (auto simp: same_owner_def)
    then have "xd_warnings d' = map (\<lambda>x. if x = ws then ws' else x) (xd_warnings d)"
      unfolding d' upd_by_def upd_rows_def by (intro map_cong refl)
    then show ?thesis using that by simp
  qed
  have "warning_keys (xd_warnings d')" using k o by (simp add: warning_keys_def m same_owner_def)
  with w g same current_is_same [OF same(1,2)] show ?thesis by (simp add: warned_def find_warning_state_def)
qed

subsection \<open>Requests\<close>

datatype warning_request = Poll | Activity int | Display string | Acknowledge string

type_synonym warning_env = "session_env \<times> (nat \<Rightarrow> string) \<times> (nat \<Rightarrow> int)"

fun run_warning :: "warning_request \<Rightarrow> warning_env \<Rightarrow> user \<Rightarrow> experiment_db \<Rightarrow> experiment_db" where
  "run_warning Poll (e, uid, clock) user d = snd (runtime_payload e uid clock user d)"
| "run_warning (Activity ms) (e, uid, clock) user d = snd (experiment_activity e uid clock user ms d)"
| "run_warning (Display token) (e, uid, clock) user d = snd (warning_display e uid clock user token d)"
| "run_warning (Acknowledge token) (e, uid, clock) user d = snd (warning_acknowledge e uid clock user token d)"

definition waiting :: "user \<Rightarrow> experiment_session \<Rightarrow> warning_row \<Rightarrow> string \<Rightarrow> experiment_db \<Rightarrow> bool" where
  "waiting user s w token d \<longleftrightarrow> (\<exists>ws. warned user s w ws d \<and> ws_pending_token ws = Some token)"

lemma poll_waiting:
  assumes "waiting user s w token d" and "token \<noteq> []"
  shows "runtime_payload e uid clock user d = (Inr (Some \<lparr>wp_token = token, wp_title = ew_title w,
      wp_message = ew_message w, wp_confirmation_text = ew_confirmation_text w,
      wp_must_acknowledge = ew_must_acknowledge w\<rparr>), snd (runtime_payload e uid clock user d)) \<and>
    waiting user s w token (snd (runtime_payload e uid clock user d))"
proof -
  obtain ws where w: "warned user s w ws d" and t: "ws_pending_token ws = Some token"
    using assms(1) by (auto simp: waiting_def)
  have p: "poll_warning i now w n ws = ws" for i now n using t assms(2) by (simp add: poll_warning_def)
  have "warned user s w ws (put_warning ws d)"
    by (rule warned_put [OF w]) (simp_all add: same_owner_def put_warning_def)
  then show ?thesis
    using t assms(2) by (auto simp: runtime_payload_def warned_runtime [OF w] p show_warning_def waiting_def)
qed

lemma request_waiting:
  assumes w: "waiting user s w token d" and t: "token \<noteq> []" and m: "ew_must_acknowledge w"
    and q: "q \<noteq> Acknowledge token"
  shows "waiting user s w token (run_warning q env user d)"
proof -
  obtain e uid clock where env: "env = (e, uid, clock)" by (metis prod_cases3)
  obtain ws where ws: "warned user s w ws d" "ws_pending_token ws = Some token"
    using w by (auto simp: waiting_def)
  have put: "waiting user s w token (put_warning ws' (d\<lparr>xd_events := ev\<rparr>))"
    if "same_owner ws' ws" "ws_pending_token ws' = Some token" for ws' ev
    using warned_put [OF ws(1) that(1), of "put_warning ws' (d\<lparr>xd_events := ev\<rparr>)"] that(2)
    by (auto simp: put_warning_def waiting_def)
  show ?thesis
  proof (cases q)
    case Poll
    then show ?thesis using poll_waiting [OF w t] by (simp add: env)
  next
    case (Activity ms)
    let ?d = "put_warning (ws\<lparr>ws_active_elapsed_ms := ws_active_elapsed_ms ws + ms, ws_updated_at := clock 3\<rparr>) d"
    have "waiting user s w token ?d"
      using put [of "ws\<lparr>ws_active_elapsed_ms := ws_active_elapsed_ms ws + ms, ws_updated_at := clock 3\<rparr>" "xd_events d"] ws(2)
      by (simp add: same_owner_def)
    then show ?thesis
      using poll_waiting [of user s w token ?d e uid clock] t
      by (simp add: Activity env experiment_activity_def warned_runtime [OF ws(1)])
  next
    case (Display tok)
    then show ?thesis
      using put w ws(2) m by (auto simp: env warning_display_def warned_runtime [OF ws(1)] Let_def same_owner_def)
  next
    case (Acknowledge tok)
    then show ?thesis
      using q w ws(2) by (simp add: env warning_acknowledge_def warned_runtime [OF ws(1)])
  qed
qed

text \<open>
  C22. A warning that must be acknowledged waits: whatever warning requests the same user sends in
  between - polls, activity, displays, or acknowledgements of other tokens - the server keeps
  reporting it as pending and keeps the chat blocked, until its own token is acknowledged. This says
  nothing of the requests for tasks: finalizing the last task is not blocked by a warning, takes the
  session out of its running state, and the warning is no longer reported.
\<close>

theorem required_warning_waits:
  assumes "waiting user s w token d" and "token \<noteq> []" and "ew_must_acknowledge w"
    and "Acknowledge token \<notin> fst ` set qs"
  shows "waiting user s w token (fold (\<lambda>(q, env). run_warning q env user) qs d) \<and>
    fst (required_warning_pending e uid clock user (fold (\<lambda>(q, env). run_warning q env user) qs d)) = Inr True"
proof -
  have "waiting user s w token (fold (\<lambda>(q, env). run_warning q env user) qs d)"
    using assms(1,4)
  proof (induction qs arbitrary: d)
    case (Cons x qs)
    obtain q env where x: "x = (q, env)" by (cases x)
    have "waiting user s w token (run_warning q env user d)"
      by (rule request_waiting [OF Cons.prems(1) assms(2,3)]) (use Cons.prems(2) in \<open>auto simp: x\<close>)
    with Cons.IH Cons.prems(2) show ?case by (simp add: x)
  qed simp
  moreover from this obtain d2 where "runtime_payload e uid clock user (fold (\<lambda>(q, env). run_warning q env user) qs d) =
      (Inr (Some \<lparr>wp_token = token, wp_title = ew_title w, wp_message = ew_message w,
        wp_confirmation_text = ew_confirmation_text w, wp_must_acknowledge = ew_must_acknowledge w\<rparr>), d2)"
    using poll_waiting [OF _ assms(2)] by blast
  then have "fst (required_warning_pending e uid clock user (fold (\<lambda>(q, env). run_warning q env user) qs d)) = Inr True"
    using assms(3) by (simp add: required_warning_pending_def)
  ultimately show ?thesis by blast
qed

text \<open>
  Acknowledging a pending warning lets it go, and it is shown again only for a new occasion:
  right after the acknowledgement a poll shows a warning exactly when an occasion is due that is
  not the acknowledged one.
\<close>

theorem acknowledged_occasion_is_over:
  assumes "warned user s w ws d" and "ws_pending_token ws = Some token" and "ws_last_token ws \<noteq> Some token"
    and "token \<noteq> []" and "uid' 1 \<noteq> []"
  shows "\<exists>d1. warning_acknowledge e uid clock user token d = (Inr True, d1) \<and>
    (fst (runtime_payload e uid' clock' user d1) = Inr None \<longleftrightarrow>
      (let due = due_trigger w (ws_active_elapsed_ms ws) (prompt_count_of (xs_id s) d)
       in due \<in> {None, ws_pending_trigger_key ws}))"
proof -
  let ?ws = "(clear_pending ws)\<lparr>ws_acknowledged_at := Some (clock 1), ws_updated_at := clock 1\<rparr>"
  obtain d1 ev where a: "warning_acknowledge e uid clock user token d = (Inr True, d1)"
    and d1: "d1 = put_warning ?ws (d\<lparr>xd_events := ev\<rparr>)"
    using assms(2,3) by (auto simp: warning_acknowledge_def warned_runtime [OF assms(1)] Let_def)
  have w: "warned user s w ?ws d1"
    by (rule warned_put [OF assms(1)]) (simp_all add: d1 same_owner_def put_warning_def clear_pending_def)
  have n: "prompt_count_of (xs_id s) d1 = prompt_count_of (xs_id s) d"
    by (simp add: d1 prompt_count_of_def put_warning_def)
  have due: "due_trigger w ms k \<noteq> Some []" for ms k
    by (simp add: due_trigger_def Let_def split: warning_cadence.split)
  have "fst (runtime_payload e uid' clock' user d1) = Inr None \<longleftrightarrow>
    due_trigger w (ws_active_elapsed_ms ws) (prompt_count_of (xs_id s) d) \<in> {None, ws_pending_trigger_key ws}"
    using assms(5) due
    by (auto simp: runtime_payload_def warned_runtime [OF w] n poll_warning_def warning_trigger_def show_warning_def
        clear_pending_def arm_warning_def Let_def split: option.splits)
  with a show ?thesis by (simp add: Let_def)
qed

subsection \<open>A pending warning\<close>

definition sample_warning :: warning_row where
  "sample_warning = \<lparr>ew_condition_id = ''c'', ew_enabled = True, ew_title = ''Note'', ew_message = ''Check the facts.'',
     ew_confirmation_text = ''OK'', ew_must_acknowledge = True, ew_cadence = BEGINNING, ew_cadence_value = None,
     ew_prompt_numbers = []\<rparr>"

definition pending_state :: warning_state where
  "pending_state = (new_warning_state ''w'' 0 ''s'' ''c'' ''p'')\<lparr>ws_pending_token := Some ''k'',
     ws_pending_trigger_key := Some ''beginning''\<rparr>"

definition warned_store :: experiment_db where
  "warned_store = (store_with (sample_participant))\<lparr>xd_warning_rows := [sample_warning], xd_warnings := [pending_state]\<rparr>"

lemma warned_sample: "warned sample_user sample_participant sample_warning pending_state warned_store"
  by (simp add: warned_def current_is_def sample_user_def groups_of_def sessions_for_user_def order_desc_def order_by_def
      warned_store_def store_with_def empty_store_def sample_participant_def active_states_def sample_warning_def
      pending_state_def new_warning_state_def find_warning_state_def warning_keys_def)

lemma required_warning_waits_witness:
  "fst (required_warning_pending sample_env nat_str int sample_user
     (fold (\<lambda>(q, env). run_warning q env sample_user)
       [(Poll, sample_env, nat_str, int), (Display ''k'', sample_env, nat_str, int)] warned_store)) = Inr True"
proof -
  have w: "waiting sample_user sample_participant sample_warning ''k'' warned_store"
    using warned_sample by (auto simp: waiting_def pending_state_def)
  have "ew_must_acknowledge sample_warning" by (simp add: sample_warning_def)
  from required_warning_waits [OF w _ this, of "[(Poll, sample_env, nat_str, int), (Display ''k'', sample_env, nat_str, int)]"]
  show ?thesis by simp
qed

lemma acknowledged_occasion_is_over_witness:
  "\<exists>d1. warning_acknowledge sample_env nat_str int sample_user ''k'' warned_store = (Inr True, d1) \<and>
     fst (runtime_payload sample_env nat_str int sample_user d1) = Inr None"
proof -
  have "ws_pending_token pending_state = Some ''k''" "ws_last_token pending_state \<noteq> Some ''k''"
    by (simp_all add: pending_state_def new_warning_state_def)
  from acknowledged_occasion_is_over [OF warned_sample this, of nat_str sample_env nat_str int int]
  show ?thesis by (simp add: due_trigger_def sample_warning_def pending_state_def Let_def nat_str.simps)
qed

end
