(* ===== verification/Session_Access.thy ===== *)
theory Session_Access
  imports Stage_Liveness Warning_Properties
begin

text \<open>
  What a participant may do at a stage: the chat is closed while the active stage is a survey,
  and finalizing a whole block of tasks ignores the surveys of the session.
\<close>

subsection \<open>Chat\<close>

lemma current_row:
  assumes "current_is user s d" and "distinct (map xs_id (xd_sessions d))"
  shows "get_by xs_id (xs_id s) (xd_sessions d) = Some s" and "xs_user_id s = us_id user"
proof -
  have "s \<in> set (sessions_for_user (us_id user) d)"
    using assms(1) unfolding current_is_def by (metis filter_is_subset list.set_intros(1) subsetD)
  then have s: "s \<in> set (xd_sessions d)" "xs_user_id s = us_id user"
    by (simp_all add: sessions_for_user_def order_desc_def order_by_def)
  show "get_by xs_id (xs_id s) (xd_sessions d) = Some s" by (rule get_by_distinct [OF assms(2) s(1)])
  show "xs_user_id s = us_id user" by (rule s(2))
qed

text \<open>At a stage, the only active row is the row of the stage.\<close>

lemma active_survey:
  assumes "strict_at k rows" and "k < length rows"
  shows "list_ex (\<lambda>r. is_survey r \<and> st_status r = ACTIVE) rows \<longleftrightarrow> is_survey (rows ! k)"
proof -
  obtain xs r rs where rows: "rows = xs @ r # rs" "length xs = k" "list_all task_done xs"
    and r: "st_status r = ACTIVE" "list_all (\<lambda>r. st_status r = LOCKED) rs"
    using assms by (auto simp: strict_at_split)
  have "\<not> list_ex (\<lambda>r. is_survey r \<and> st_status r = ACTIVE) xs" "\<not> list_ex (\<lambda>r. is_survey r \<and> st_status r = ACTIVE) rs"
    using rows(3) r(2) by (auto simp: list_ex_iff list_all_iff task_done_def)
  with rows r show ?thesis by (simp add: nth_append)
qed

text \<open>
  C23. In a strictly sequential session the chat follows the stages: it is refused with a request
  to complete the survey exactly while the active stage is a survey, and open at every other
  stage.
\<close>

theorem chat_follows_stage:
  assumes "current_is user s d" and "at_stage (xs_id s) k n d" and "k < n" and "truthy_str (xs_plan_id s)"
  shows "require_experiment_chat_access e user d =
    (if is_survey (session_rows (xs_id s) d ! k)
     then (Inl (HTTPException 409 (JObj [(''code'', JStr ''EXPERIMENT_SURVEY_ACTIVE''),
             (''message'', JStr ''Complete or skip the active survey before using chat.'')])), d)
     else (Inr IN_PROGRESS, d))"
proof -
  let ?P = "\<lambda>r. st_experiment_session_id r = xs_id s \<and> is_survey r \<and> st_status r = ACTIVE"
  obtain s0 where a: "db_ok d" "strict_at k (session_rows (xs_id s) d)" "length (session_rows (xs_id s) d) = n"
      "get_by xs_id (xs_id s) (xd_sessions d) = Some s0" "xs_state s0 = IN_PROGRESS"
    using assms(2,3) by (auto elim: at_stageE)
  have "s0 = s" using current_row(1) [OF assms(1)] a(1,4) by (simp add: db_ok_def)
  then have st: "xs_state s = IN_PROGRESS" using a(5) by simp
  have "list_ex ?P (xd_tasks d) \<longleftrightarrow> list_ex (\<lambda>r. is_survey r \<and> st_status r = ACTIVE) (session_rows (xs_id s) d)"
    by (auto simp: list_ex_iff session_rows_set)
  also have "\<dots> \<longleftrightarrow> is_survey (session_rows (xs_id s) d ! k)" by (rule active_survey) (use a assms(3) in auto)
  finally have "list_ex ?P (xd_tasks d) \<longleftrightarrow> is_survey (session_rows (xs_id s) d ! k)" .
  moreover have "\<not> us_admin user" using assms(1) by (simp add: current_is_def)
  ultimately show ?thesis
    using assms(4) by (simp add: require_experiment_chat_access_def current_is_get [OF assms(1)] st)
qed

lemma current_is_strict: "current_is sample_user (strict_session IN_PROGRESS) (strict_store IN_PROGRESS a)"
proof -
  have "xd_groups (strict_store IN_PROGRESS a) = [(''g'', [''u''])]"
    by (simp add: strict_store_def store_with_def empty_store_def)
  then show ?thesis
    by (simp add: current_is_def sample_user_def groups_of_def sessions_for_user_def order_desc_def order_by_def
        strict_store_sessions active_states_def)
qed

lemma chat_follows_stage_witness:
  "require_experiment_chat_access sample_env sample_user (strict_store IN_PROGRESS ACTIVE) =
     (Inr IN_PROGRESS, strict_store IN_PROGRESS ACTIVE)"
  using chat_follows_stage [OF current_is_strict, of 0 2 ACTIVE sample_env] strict_store_stage
  by (simp add: strict_store_rows)

subsection \<open>Finalizing a whole session\<close>

text \<open>
  In a session that is not strictly sequential and consists of surveys, finalizing the tasks
  ends the session whatever the state of the surveys: required ones that are still active stay
  active and are never answered.
\<close>

theorem finalize_all_skips_surveys:
  assumes "current_is user s d" and "xs_state s = IN_PROGRESS" and "truthy_str (xs_plan_id s)"
    and "plan_of (xs_plan_id s) d = Inr (Some p)" and "pl_progression_mode p \<noteq> STRICT_SEQUENTIAL"
    and "list_all is_survey (session_rows (xs_id s) d)" and "db_ok d"
  shows "\<exists>d'. finalize_all_tasks r user d = (Inr [], d') \<and> xd_tasks d' = xd_tasks d \<and>
    (\<exists>s'. get_by xs_id (xs_id s) (xd_sessions d') = Some s' \<and> xs_state s' = THANK_YOU_REQUIRED)"
proof -
  let ?s = "s\<lparr>xs_state := THANK_YOU_REQUIRED, xs_updated_at := rt_clock r 0\<rparr>"
  have row: "get_by xs_id (xs_id s) (xd_sessions d) = Some s"
    by (rule current_row(1) [OF assms(1)]) (use assms(7) in \<open>simp add: db_ok_def\<close>)
  have none: "filter (\<lambda>t. \<not> is_survey t) (session_rows (xs_id s) d) = []"
    using assms(6) by (simp add: list_all_iff filter_empty_conv)
  have essay: "find_row (\<lambda>t. st_status t \<noteq> FINALIZED \<and> st_task_type t = ESSAY \<and>
      py_strip (or_str (st_essay_draft t) []) = []) (session_rows (xs_id s) d) = None"
    using assms(6) by (auto simp: list_all_iff find_row_None)
  have "finalize_all_tasks r user d = (Inr [], put_session ?s d)"
    using assms(2-5) by (simp add: finalize_all_tasks_def current_is_get [OF assms(1)] none essay row Let_def)
  moreover have "get_by xs_id (xs_id s) (xd_sessions (put_session ?s d)) = Some ?s"
    by (simp add: put_session_get row)
  moreover have "xd_tasks (put_session ?s d) = xd_tasks d" by (simp add: put_session_def)
  ultimately show ?thesis by (intro exI [of _ "put_session ?s d"] exI [of _ ?s] conjI) simp_all
qed

definition survey_store :: experiment_db where
  "survey_store = (strict_store IN_PROGRESS ACTIVE)\<lparr>xd_plans := [strict_plan\<lparr>pn_progression_mode := FREE_NAVIGATION\<rparr>],
     xd_tasks := [(essay_task ''t1'' 0 ACTIVE)\<lparr>st_task_type := SURVEY, st_survey_required := True\<rparr>]\<rparr>"

lemma finalize_all_skips_surveys_witness:
  "\<exists>d'. finalize_all_tasks sample_route sample_user survey_store = (Inr [], d') \<and>
     map st_status (xd_tasks d') = [ACTIVE] \<and>
     (\<exists>s'. get_by xs_id ''s'' (xd_sessions d') = Some s' \<and> xs_state s' = THANK_YOU_REQUIRED)"
proof -
  have c: "current_is sample_user (strict_session IN_PROGRESS) survey_store"
    using current_is_strict current_is_same [of survey_store "strict_store IN_PROGRESS ACTIVE"]
    by (simp add: survey_store_def)
  have "\<exists>p. plan_of (Some ''p'') survey_store = Inr (Some p) \<and> pl_progression_mode p \<noteq> STRICT_SEQUENTIAL"
    by (simp add: plan_of_def get_plan_def survey_store_def strict_store_def store_with_def empty_store_def strict_plan_def order_by_def)
  then obtain p where p: "plan_of (Some ''p'') survey_store = Inr (Some p)" "pl_progression_mode p \<noteq> STRICT_SEQUENTIAL"
    by blast
  have t: "xd_tasks survey_store = [(essay_task ''t1'' 0 ACTIVE)\<lparr>st_task_type := SURVEY, st_survey_required := True\<rparr>]"
    by (simp add: survey_store_def)
  have "list_all is_survey (session_rows ''s'' survey_store)"
    using session_rows_set [of "''s''" survey_store] by (auto simp: list_all_iff t)
  moreover have "db_ok survey_store" using strict_store_sessions(3) [of IN_PROGRESS ACTIVE]
    by (simp add: db_ok_def t) (simp add: survey_store_def)
  ultimately obtain d' where "finalize_all_tasks sample_route sample_user survey_store = (Inr [], d')"
      "xd_tasks d' = xd_tasks survey_store"
      "\<exists>s'. get_by xs_id ''s'' (xd_sessions d') = Some s' \<and> xs_state s' = THANK_YOU_REQUIRED"
    using finalize_all_skips_surveys [OF c _ _ _ p(2), of sample_route] p(1) by auto
  then show ?thesis by (intro exI [of _ d']) (simp add: t)
qed

end
