(* ===== verification/Plan_Properties.thy ===== *)
theory Plan_Properties
  imports Plan_Store
begin

text \<open>
  Saving a plan for a group. A published plan is never changed: the form becomes a new version
  with a higher number, and every older plan still reads with the same items and conditions, so
  that running sessions keep theirs. A condition whose name is blank is accepted by the form and
  stored, and then the plan cannot be read any more.
\<close>

subsection \<open>Reading depends on the plan's own rows\<close>

definition content_of :: "err + plan_model option \<Rightarrow> err + plan_model option" where
  "content_of out = map_sum id (map_option (\<lambda>p. p\<lparr>pl_status := PN_DRAFT, pl_updated_at := 0\<rparr>)) out"

definition plan_content :: "plan_row \<Rightarrow> plan_row" where
  "plan_content p = p\<lparr>pn_status := PN_DRAFT, pn_updated_at := 0\<rparr>"

lemma get_plan_content:
  assumes p: "map_option plan_content (get_by pn_id q (xd_plans d')) = map_option plan_content (get_by pn_id q (xd_plans d))"
    and c: "filter (\<lambda>c. ec_plan_id c = q) (xd_conditions d') = filter (\<lambda>c. ec_plan_id c = q) (xd_conditions d)"
    and i: "filter (\<lambda>i. it_plan_id i = q) (xd_items d') = filter (\<lambda>i. it_plan_id i = q) (xd_items d)"
    and lc: "\<And>c. c \<in> set (xd_conditions d) \<Longrightarrow> ec_plan_id c = q \<Longrightarrow> load_condition d' c = load_condition d c"
    and li: "\<And>i. i \<in> set (xd_items d) \<Longrightarrow> it_plan_id i = q \<Longrightarrow> load_item d' i = load_item d i"
  shows "content_of (get_plan q d') = content_of (get_plan q d)"
proof -
  have mc: "mapE (\<lambda>c. validate_condition (load_condition d' c)) (order_by ec_position (filter (\<lambda>c. ec_plan_id c = q) (xd_conditions d))) =
      mapE (\<lambda>c. validate_condition (load_condition d c)) (order_by ec_position (filter (\<lambda>c. ec_plan_id c = q) (xd_conditions d)))"
    by (rule mapE_cong) (use lc in \<open>simp add: set_order_by\<close>)
  have mi: "mapE (load_item d') (order_by it_position (filter (\<lambda>i. it_plan_id i = q) (xd_items d))) =
      mapE (load_item d) (order_by it_position (filter (\<lambda>i. it_plan_id i = q) (xd_items d)))"
    by (rule mapE_cong) (use li in \<open>simp add: set_order_by\<close>)
  show ?thesis
  proof (cases "get_by pn_id q (xd_plans d)")
    case None
    with p show ?thesis by (simp add: get_plan_def)
  next
    case (Some r)
    with p obtain r' where r': "get_by pn_id q (xd_plans d') = Some r'" and e: "plan_content r' = plan_content r"
      by (cases "get_by pn_id q (xd_plans d')") auto
    have f: "pn_source_workflow_id r' = pn_source_workflow_id r" "pn_source_workflow_name r' = pn_source_workflow_name r"
      "pn_source_workflow_revision r' = pn_source_workflow_revision r" "pn_workflow_origin r' = pn_workflow_origin r"
      "pn_configuration_fingerprint r' = pn_configuration_fingerprint r" "pn_id r' = pn_id r"
      "pn_group_id r' = pn_group_id r" "pn_version r' = pn_version r" "pn_progression_mode r' = pn_progression_mode r"
      "pn_chat_mode r' = pn_chat_mode r" "pn_survey_variant r' = pn_survey_variant r"
      "pn_consent_enabled r' = pn_consent_enabled r" "pn_locked_at r' = pn_locked_at r" "pn_created_at r' = pn_created_at r"
      using e by (cases r; cases r'; simp add: plan_content_def)+
    show ?thesis
      by (simp add: get_plan_def Some r' c i mc mi f content_of_def bindE_def split: sum.split)
  qed
qed

lemma get_plan_fields:
  assumes "get_plan q d = Inr (Some m)"
  shows "\<exists>r. get_by pn_id q (xd_plans d) = Some r \<and> pl_status m = pn_status r \<and> pl_group_id m = pn_group_id r \<and>
    pl_version m = pn_version r"
proof (cases "get_by pn_id q (xd_plans d)")
  case (Some r)
  with assms have "pl_status m = pn_status r \<and> pl_group_id m = pn_group_id r \<and> pl_version m = pn_version r"
    by (simp add: get_plan_def bindE_def split: sum.splits) (clarsimp simp: plan_model.defs)
  with Some show ?thesis by blast
qed (use assms in \<open>simp add: get_plan_def\<close>)

subsection \<open>A new version\<close>

definition unlocked_draft :: "plan_row \<Rightarrow> bool" where
  "unlocked_draft p \<longleftrightarrow> pn_status p = PN_DRAFT \<and> \<not> truthy_int (pn_locked_at p)"

definition superseded_rows :: "string \<Rightarrow> int \<Rightarrow> experiment_db \<Rightarrow> plan_row list" where
  "superseded_rows group_id now d =
     (case current_plan group_id d of None \<Rightarrow> xd_plans d
      | Some c \<Rightarrow> upd_by pn_id (pn_id c) (\<lambda>p. p\<lparr>pn_status := PN_SUPERSEDED, pn_updated_at := now\<rparr>) (xd_plans d))"

definition next_version :: "string \<Rightarrow> experiment_db \<Rightarrow> int" where
  "next_version group_id d = or_int (max_of pn_version (filter (\<lambda>p. pn_group_id p = group_id) (xd_plans d))) 0 + 1"

lemma next_version_greater:
  "p \<in> set (xd_plans d) \<Longrightarrow> pn_group_id p = group_id \<Longrightarrow> 0 < pn_version p \<Longrightarrow> pn_version p < next_version group_id d"
  using max_of_ge [of p "filter (\<lambda>p. pn_group_id p = group_id) (xd_plans d)" pn_version]
  by (auto simp: next_version_def or_int_def)

lemma choose_new_version:
  assumes "\<And>c. current_plan group_id d = Some c \<Longrightarrow> \<not> unlocked_draft c"
  obtains plan where "choose_plan uid now now' group_id form d =
      (uid DPlan, True, d\<lparr>xd_plans := superseded_rows group_id now d @ [plan]\<rparr>)"
    "pn_id plan = uid DPlan" "pn_group_id plan = group_id" "pn_version plan = next_version group_id d"
proof -
  have v: "max_of pn_version (filter (\<lambda>p. pn_group_id p = group_id) (upd_by pn_id i (\<lambda>p. p\<lparr>pn_status := s, pn_updated_at := n\<rparr>) rows)) =
      max_of pn_version (filter (\<lambda>p. pn_group_id p = group_id) rows)" for i s n and rows :: "plan_row list"
    by (induction rows) (auto split: option.split)
  show ?thesis
  proof (cases "current_plan group_id d")
    case None
    then show ?thesis
      by (intro that [rotated 1]) (simp_all add: choose_plan_def superseded_rows_def add_row_def next_version_def Let_def)
  next
    case (Some c)
    with assms have "\<not> (pn_status c = PN_DRAFT \<and> \<not> truthy_int (pn_locked_at c))" by (simp add: unlocked_draft_def)
    with Some show ?thesis
      by (intro that [rotated 1]) (simp_all add: choose_plan_def superseded_rows_def add_row_def next_version_def Let_def v)
  qed
qed

definition publish_row :: "int \<Rightarrow> plan_form \<Rightarrow> plan_row \<Rightarrow> plan_row" where
  "publish_row now form p = p\<lparr>pn_progression_mode := fm_progression_mode form, pn_chat_mode := fm_chat_mode form,
     pn_consent_enabled := fm_consent_enabled form, pn_survey_variant := variant_of form, pn_status := PN_PUBLISHED,
     pn_updated_at := now\<rparr>"

text \<open>What a save that creates a version adds to the store.\<close>

lemma save_adds_rows:
  assumes save: "save_plan_for_group uid clock group_id form d = (res, d')" and ch: "d' \<noteq> d \<or> \<not> isl res"
    and nd: "\<And>c. current_plan group_id d = Some c \<Longrightarrow> \<not> unlocked_draft c"
  obtains plan its pairs cs where "its = enumerate 0 (fm_items form)"
    "pairs = map (\<lambda>(p, f). (f, item_key uid True (p, f))) its" "cs = enumerate 0 (fm_conditions form)"
    "pn_id plan = uid DPlan" "pn_group_id plan = group_id" "pn_version plan = next_version group_id d"
    "xd_plans d' = upd_by pn_id (uid DPlan) (publish_row (clock 2) form) (superseded_rows group_id (clock 0) d @ [plan])"
    "xd_items d' = xd_items d @ map (new_item uid True (uid DPlan)) its"
    "xd_pools d' = xd_pools d @ concat (map (new_pools uid True) its)"
    "xd_conditions d' = xd_conditions d @ map (new_condition uid True (clock 3) (uid DPlan)) cs"
    "xd_injections d' = xd_injections d @ map (new_injection uid True) cs"
    "xd_warning_rows d' = xd_warning_rows d @ map (new_warning uid True) cs"
    "xd_timings d' = xd_timings d @ map (new_timing uid True) cs"
    "xd_scopes d' = xd_scopes d @ concat (map (new_scopes uid True pairs) cs)"
    "xd_sessions d' = xd_sessions d" "xd_tasks d' = xd_tasks d" "plan_keys d'" "res = get_plan (uid DPlan) d'"
proof -
  let ?is = "enumerate 0 (fm_items form)" and ?cs = "enumerate 0 (fm_conditions form)"
  let ?pairs = "map (\<lambda>(p, f). (f, item_key uid True (p, f))) ?is"
  obtain plan where c: "choose_plan uid (clock 0) (clock 1) group_id form d =
      (uid DPlan, True, d\<lparr>xd_plans := superseded_rows group_id (clock 0) d @ [plan]\<rparr>)"
    and plan: "pn_id plan = uid DPlan" "pn_group_id plan = group_id" "pn_version plan = next_version group_id d"
    by (rule choose_new_version [OF nd])
  define d3 where "d3 = d\<lparr>xd_plans := upd_by pn_id (uid DPlan) (publish_row (clock 2) form)
        (superseded_rows group_id (clock 0) d @ [plan]),
      xd_items := xd_items d @ map (new_item uid True (uid DPlan)) ?is,
      xd_pools := xd_pools d @ concat (map (new_pools uid True) ?is)\<rparr>"
  define d4 where "d4 = save_conditions uid (clock 3) (uid DPlan) (fm_conditions form) ?pairs True d3"
  have p: "(\<lambda>p. p\<lparr>pn_progression_mode := fm_progression_mode form, pn_chat_mode := fm_chat_mode form,
      pn_consent_enabled := fm_consent_enabled form, pn_survey_variant := variant_of form, pn_status := PN_PUBLISHED,
      pn_updated_at := clock 2\<rparr>) = publish_row (clock 2) form"
    by (simp add: fun_eq_iff publish_row_def)
  have out: "(res, d') = (if plan_keys d4 then (get_plan (uid DPlan) d4, d4) else (Inl IntegrityError, d))"
    using save ch by (auto simp: save_plan_for_group_def c Let_def p d4_def d3_def simp del: One_nat_def split: if_splits sum.splits)
  then have d': "d' = d4" "plan_keys d'" "res = get_plan (uid DPlan) d'" using ch by (auto split: if_splits)
  show ?thesis
    by (rule that [OF refl refl refl plan])
      (use d' in \<open>simp_all add: d4_def d3_def save_conditions_def Let_def\<close>)
qed

lemma new_row_keys:
  "it_plan_id (new_item uid True pid x) = pid" "it_id (new_item uid True pid x) = item_key uid True x"
  "ec_plan_id (new_condition uid True now pid y) = pid" "ec_id (new_condition uid True now pid y) = condition_key uid True y"
  "ei_condition_id (new_injection uid True y) = condition_key uid True y"
  "ew_condition_id (new_warning uid True y) = condition_key uid True y"
  "et_condition_id (new_timing uid True y) = condition_key uid True y"
  "r \<in> set (new_scopes uid True pairs y) \<Longrightarrow> es_condition_id r = condition_key uid True y"
  "w \<in> set (new_pools uid True x) \<Longrightarrow> po_plan_item_id w = item_key uid True x"
  by (cases x; cases y; auto simp: new_item_def new_condition_def new_injection_def new_warning_def new_timing_def
      new_scopes_def new_pools_def Let_def split: if_splits)+

lemma get_by_append_other:
  "k \<notin> key ` set new \<Longrightarrow> get_by key k (rows @ new) = get_by key k rows"
  by (induction rows) (auto simp: get_by_None)

lemma filter_append_other:
  "(\<And>x. x \<in> set new \<Longrightarrow> \<not> P x) \<Longrightarrow> filter P (rows @ new) = filter P rows"
  by simp

lemma superseded_content:
  "map_option plan_content (get_by pn_id q (superseded_rows g now d)) = map_option plan_content (get_by pn_id q (xd_plans d))"
proof -
  have "map_option plan_content (get_by pn_id q (upd_by pn_id i (\<lambda>p. p\<lparr>pn_status := s, pn_updated_at := n\<rparr>) rows)) =
      map_option plan_content (get_by pn_id q rows)" for i s n and rows :: "plan_row list"
    by (induction rows) (auto simp: plan_content_def)
  then show ?thesis by (simp add: superseded_rows_def split: option.split)
qed

lemma old_plan_reads:
  assumes save: "save_plan_for_group uid clock group_id form d = (res, d')" and ch: "d' \<noteq> d"
    and nd: "\<And>c. current_plan group_id d = Some c \<Longrightarrow> \<not> unlocked_draft c" and q: "q \<in> pn_id ` set (xd_plans d)"
  shows "content_of (get_plan q d') = content_of (get_plan q d)"
proof -
  obtain plan its pairs cs where a: "pn_id plan = uid DPlan"
    "xd_plans d' = upd_by pn_id (uid DPlan) (publish_row (clock 2) form) (superseded_rows group_id (clock 0) d @ [plan])"
    "xd_items d' = xd_items d @ map (new_item uid True (uid DPlan)) its"
    "xd_pools d' = xd_pools d @ concat (map (new_pools uid True) its)"
    "xd_conditions d' = xd_conditions d @ map (new_condition uid True (clock 3) (uid DPlan)) cs"
    "xd_injections d' = xd_injections d @ map (new_injection uid True) cs"
    "xd_warning_rows d' = xd_warning_rows d @ map (new_warning uid True) cs"
    "xd_timings d' = xd_timings d @ map (new_timing uid True) cs"
    "xd_scopes d' = xd_scopes d @ concat (map (new_scopes uid True pairs) cs)" "plan_keys d'"
    by (rule save_adds_rows [OF save disjI1 [OF ch] nd])
  have ids: "pn_id ` set (superseded_rows group_id (clock 0) d) = pn_id ` set (xd_plans d)"
  proof -
    have "map pn_id (superseded_rows group_id (clock 0) d) = map pn_id (xd_plans d)"
      by (auto simp: superseded_rows_def map_upd_by split: option.split)
    then show ?thesis by (metis list.set_map)
  qed
  have pub: "pn_id (publish_row n f x) = pn_id x" for n f x by (simp add: publish_row_def)
  have qn: "q \<noteq> uid DPlan"
  proof -
    have "map pn_id (xd_plans d') = map pn_id (superseded_rows group_id (clock 0) d) @ [uid DPlan]"
      unfolding a(2) by (simp add: map_upd_by pub a(1))
    then have "uid DPlan \<notin> pn_id ` set (xd_plans d)" using a(10) ids by (simp add: plan_keys_def)
    with q show ?thesis by blast
  qed
  show ?thesis
  proof (rule get_plan_content)
    have "get_by pn_id q (upd_by pn_id (uid DPlan) (publish_row n f) rows) = get_by pn_id q rows" for n f and rows :: "plan_row list"
      using qn by (induction rows) (auto simp: pub)
    then show "map_option plan_content (get_by pn_id q (xd_plans d')) = map_option plan_content (get_by pn_id q (xd_plans d))"
      using qn superseded_content [of q group_id "clock 0" d] by (simp add: a(2) get_by_append_other a(1))
    show "filter (\<lambda>c. ec_plan_id c = q) (xd_conditions d') = filter (\<lambda>c. ec_plan_id c = q) (xd_conditions d)"
      unfolding a(5) by (rule filter_append_other) (use qn in \<open>auto simp: new_row_keys\<close>)
    show "filter (\<lambda>i. it_plan_id i = q) (xd_items d') = filter (\<lambda>i. it_plan_id i = q) (xd_items d)"
      unfolding a(3) by (rule filter_append_other) (use qn in \<open>auto simp: new_row_keys\<close>)
  next
    fix c assume c: "c \<in> set (xd_conditions d)"
    have new: "condition_key uid True y \<noteq> ec_id c" if "y \<in> set cs" for y
      using a(10) c that by (fastforce simp: plan_keys_def a(5) new_row_keys)
    have new': "ec_id c \<notin> condition_key uid True ` set cs"
    proof
      assume "ec_id c \<in> condition_key uid True ` set cs"
      then obtain y where "ec_id c = condition_key uid True y" "y \<in> set cs" by (rule imageE)
      with new [of y] show False by simp
    qed
    have "get_by ei_condition_id (ec_id c) (xd_injections d') = get_by ei_condition_id (ec_id c) (xd_injections d)"
      unfolding a(6) by (rule get_by_append_other) (use new' in \<open>simp add: new_row_keys image_image\<close>)
    moreover have "get_by ew_condition_id (ec_id c) (xd_warning_rows d') = get_by ew_condition_id (ec_id c) (xd_warning_rows d)"
      unfolding a(7) by (rule get_by_append_other) (use new' in \<open>simp add: new_row_keys image_image\<close>)
    moreover have "get_by et_condition_id (ec_id c) (xd_timings d') = get_by et_condition_id (ec_id c) (xd_timings d)"
      unfolding a(8) by (rule get_by_append_other) (use new' in \<open>simp add: new_row_keys image_image\<close>)
    moreover have "filter (\<lambda>s. es_condition_id s = ec_id c) (xd_scopes d') = filter (\<lambda>s. es_condition_id s = ec_id c) (xd_scopes d)"
      unfolding a(9)
    proof (rule filter_append_other)
      fix x assume "x \<in> set (concat (map (new_scopes uid True pairs) cs))"
      then obtain y where y: "y \<in> set cs" "x \<in> set (new_scopes uid True pairs y)" by auto
      show "es_condition_id x \<noteq> ec_id c" using new [OF y(1)] new_row_keys(8) [OF y(2)] by simp
    qed
    ultimately show "load_condition d' c = load_condition d c" by (simp add: load_condition_def)
  next
    fix i assume i: "i \<in> set (xd_items d)"
    have new: "item_key uid True y \<noteq> it_id i" if "y \<in> set its" for y
      using a(10) i that by (fastforce simp: plan_keys_def a(3) new_row_keys)
    have "filter (\<lambda>p. po_plan_item_id p = it_id i) (xd_pools d') = filter (\<lambda>p. po_plan_item_id p = it_id i) (xd_pools d)"
      unfolding a(4)
    proof (rule filter_append_other)
      fix x assume "x \<in> set (concat (map (new_pools uid True) its))"
      then obtain y where y: "y \<in> set its" "x \<in> set (new_pools uid True y)" by auto
      show "po_plan_item_id x \<noteq> it_id i" using new [OF y(1)] new_row_keys(9) [OF y(2)] by simp
    qed
    then show "load_item d' i = load_item d i" by (simp add: load_item_def)
  qed
qed

lemma old_plan_sessions:
  assumes save: "save_plan_for_group uid clock group_id form d = (res, d')"
    and nd: "\<And>c. current_plan group_id d = Some c \<Longrightarrow> \<not> unlocked_draft c"
  shows "xd_sessions d' = xd_sessions d" and "xd_tasks d' = xd_tasks d"
proof -
  have "xd_sessions d' = xd_sessions d \<and> xd_tasks d' = xd_tasks d"
  proof (cases "d' = d")
    case False
    then have ch: "d' \<noteq> d \<or> \<not> isl res" ..
    show ?thesis by (rule save_adds_rows [OF save ch nd]) simp_all
  qed simp
  then show "xd_sessions d' = xd_sessions d" and "xd_tasks d' = xd_tasks d" by simp_all
qed

text \<open>
  C24. Saving a form for a group whose current plan is not an unlocked draft never touches what
  is in use: every plan of the store reads with the same items and conditions as before, the
  sessions and their tasks are the same, and the plan that is returned, if the save succeeds, is
  a published one with a version above all versions of the group.
\<close>

theorem saving_keeps_old_plans:
  assumes "save_plan_for_group uid clock group_id form d = (res, d')"
    and "\<And>c. current_plan group_id d = Some c \<Longrightarrow> \<not> unlocked_draft c"
  shows "(\<forall>q \<in> pn_id ` set (xd_plans d). content_of (get_plan q d') = content_of (get_plan q d)) \<and>
    xd_sessions d' = xd_sessions d \<and> xd_tasks d' = xd_tasks d \<and>
    (\<forall>m. res = Inr (Some m) \<longrightarrow> pl_status m = PN_PUBLISHED \<and> pl_group_id m = group_id \<and>
       (\<forall>p \<in> set (xd_plans d). pn_group_id p = group_id \<longrightarrow> 0 < pn_version p \<longrightarrow> pn_version p < pl_version m))"
proof (intro conjI ballI allI impI)
  fix q assume "q \<in> pn_id ` set (xd_plans d)"
  then show "content_of (get_plan q d') = content_of (get_plan q d)"
    using old_plan_reads [OF assms(1) _ assms(2)] by (cases "d' = d") auto
next
  show "xd_sessions d' = xd_sessions d"
    by (rule old_plan_sessions(1) [OF assms])
next
  show "xd_tasks d' = xd_tasks d"
    by (rule old_plan_sessions(2) [OF assms])
next
  fix m assume m: "res = Inr (Some m)"
  obtain plan where a: "pn_id plan = uid DPlan" "pn_group_id plan = group_id" "pn_version plan = next_version group_id d"
    "xd_plans d' = upd_by pn_id (uid DPlan) (publish_row (clock 2) form) (superseded_rows group_id (clock 0) d @ [plan])"
    "plan_keys d'" "res = get_plan (uid DPlan) d'"
    by (rule save_adds_rows [OF assms(1) _ assms(2)]) (use m in auto)
  have pub: "pn_id (publish_row n f x) = pn_id x" for n f x by (simp add: publish_row_def)
  have "distinct (map pn_id (superseded_rows group_id (clock 0) d @ [plan]))"
    using a(5) unfolding plan_keys_def a(4) by (simp add: map_upd_by pub)
  then have "get_by pn_id (uid DPlan) (superseded_rows group_id (clock 0) d) = None"
    by (auto simp: get_by_None a(1))
  moreover have "get_by pn_id i (upd_by pn_id i f (rows @ [x])) = (if pn_id x = i then Some (f x) else None)"
    if "get_by pn_id i rows = None" and "\<And>x. pn_id (f x) = pn_id x" for i f x and rows :: "plan_row list"
    using that by (induction rows) (auto split: if_splits)
  ultimately have "get_by pn_id (uid DPlan) (xd_plans d') = Some (publish_row (clock 2) form plan)"
    unfolding a(4) using a(1) pub by simp
  then have f: "pl_status m = PN_PUBLISHED \<and> pl_group_id m = group_id \<and> pl_version m = next_version group_id d"
    using a(6) m get_plan_fields [of "uid DPlan" d' m] by (simp add: publish_row_def a(2,3))
  then show "pl_status m = PN_PUBLISHED" "pl_group_id m = group_id" by auto
  fix p assume "p \<in> set (xd_plans d)" "pn_group_id p = group_id" "0 < pn_version p"
  then show "pn_version p < pl_version m" using f next_version_greater by simp
qed

text \<open>
  The validator accepts a condition whose name consists of blanks, and strips it to the empty
  string. Saving a form with it stores the published plan with its rows, answers with an error,
  and the plan cannot be read any more.
\<close>

theorem blank_condition_blocks_plan:
  assumes "save_plan_for_group uid clock group_id form d = (res, d')" and "d' \<noteq> d"
    and "\<And>c. current_plan group_id d = Some c \<Longrightarrow> \<not> unlocked_draft c"
    and "validate_condition raw = Inr c" and "py_strip (cd_name raw) = []" and "c \<in> set (fm_conditions form)"
  shows "isl res \<and> isl (get_plan (uid DPlan) d') \<and>
    (\<exists>p \<in> set (xd_plans d'). pn_id p = uid DPlan \<and> pn_status p = PN_PUBLISHED)"
proof -
  obtain plan cs where a: "cs = enumerate 0 (fm_conditions form)" "pn_id plan = uid DPlan"
    "xd_plans d' = upd_by pn_id (uid DPlan) (publish_row (clock 2) form) (superseded_rows group_id (clock 0) d @ [plan])"
    "xd_conditions d' = xd_conditions d @ map (new_condition uid True (clock 3) (uid DPlan)) cs"
    "res = get_plan (uid DPlan) d'"
    by (rule save_adds_rows [OF assms(1) disjI1 [OF assms(2)] assms(3)])
  have plan: "publish_row (clock 2) form plan \<in> set (xd_plans d')" "pn_id (publish_row (clock 2) form plan) = uid DPlan"
    "pn_status (publish_row (clock 2) form plan) = PN_PUBLISHED"
    unfolding a(3) using a(2) by (simp_all add: publish_row_def upd_by_def upd_rows_def)
  have name: "cd_name c = []" using assms(4,5) by (auto simp: validate_condition_def bindE_Inr_iff split: if_splits)
  obtain n where "n < length (fm_conditions form)" "fm_conditions form ! n = c"
    using assms(6) unfolding in_set_conv_nth by blast
  then have "(n, c) \<in> set cs" unfolding a(1) by (simp add: in_set_enumerate_eq)
  then obtain r where r: "r \<in> set (xd_conditions d')" "ec_plan_id r = uid DPlan" "ec_name r = []"
    using name by (force simp: a(4) new_condition_def)
  have "isl (mapE (\<lambda>c. validate_condition (load_condition d' c)) xs)" if "r \<in> set xs" for xs
  proof -
    have "isl (validate_condition (load_condition d' r))" using r(3) by (simp add: validate_condition_def load_condition_def Let_def)
    then show ?thesis using that by (induction xs) (auto split: sum.split)
  qed
  then have i: "isl (mapE (\<lambda>c. validate_condition (load_condition d' c))
      (order_by ec_position (filter (\<lambda>c. ec_plan_id c = uid DPlan) (xd_conditions d'))))"
    using r by (simp add: set_order_by)
  have "uid DPlan \<in> pn_id ` set (xd_plans d')" using plan(1,2) by (metis imageI)
  then have "get_by pn_id (uid DPlan) (xd_plans d') \<noteq> None" by (simp add: get_by_None)
  then have "isl (get_plan (uid DPlan) d')" using i by (auto simp: get_plan_def isl_def bindE_def)
  then show ?thesis using plan a(5) by blast
qed

end
