(* ===== verification/Plan_Samples.thy ===== *)
theory Plan_Samples
  imports Plan_Properties Sample_Store
begin

text \<open>
  Concrete plans for the properties of saving: a group whose current plan is published, and a
  form with one control condition.
\<close>

definition published_plan :: plan_row where
  "published_plan = \<lparr>pn_id = ''old'', pn_source_workflow_id = None, pn_source_workflow_name = None,
     pn_source_workflow_revision = None, pn_workflow_origin = None, pn_configuration_fingerprint = None,
     pn_group_id = ''g'', pn_version = 1, pn_status = PN_PUBLISHED, pn_progression_mode = STRICT_SEQUENTIAL,
     pn_chat_mode = SHARED_EXPERIMENT, pn_survey_variant = TASK_NEUTRAL, pn_consent_enabled = True,
     pn_locked_at = None, pn_created_at = 0, pn_updated_at = 0\<rparr>"

definition plan_store :: experiment_db where
  "plan_store = empty_store\<lparr>xd_plans := [published_plan]\<rparr>"

definition control_named :: "string \<Rightarrow> condition_form" where
  "control_named name = default_control_condition\<lparr>cd_name := name, cd_warning_modal :=
     default_warning\<lparr>wm_title := [], wm_message := [], wm_confirmation_text := []\<rparr>\<rparr>"

definition one_condition_form :: "string \<Rightarrow> plan_form" where
  "one_condition_form name = \<lparr>fm_progression_mode = FREE_NAVIGATION, fm_chat_mode = SHARED_EXPERIMENT,
     fm_consent_enabled = False, fm_items = [], fm_conditions = [control_named name]\<rparr>"

abbreviation save_sample :: "string \<Rightarrow> (err + plan_model option) \<times> experiment_db" where
  "save_sample name \<equiv> save_plan_for_group (\<lambda>_. ''new'') int ''g'' (one_condition_form name) plan_store"

lemma current_sample: "current_plan ''g'' plan_store = Some c \<Longrightarrow> \<not> unlocked_draft c"
proof -
  have "current_plan ''g'' plan_store = Some published_plan" by code_simp
  then show "current_plan ''g'' plan_store = Some c \<Longrightarrow> \<not> unlocked_draft c"
    by (auto simp: unlocked_draft_def published_plan_def)
qed

lemma save_sample_stores: "length (xd_plans (snd (save_sample name))) = 2"
proof -
  have c: "current_plan ''g'' plan_store = Some published_plan" by code_simp
  have "distinct (map pn_id (xd_plans plan_store))" "pn_id published_plan = ''old''" "pn_group_id published_plan = ''g''"
    "pn_version published_plan = 1" "pn_status published_plan = PN_PUBLISHED"
    by (simp_all add: plan_store_def published_plan_def)
  with c show ?thesis
    by (simp add: save_plan_for_group_def choose_plan_def add_row_def Let_def plan_keys_def save_conditions_def
        one_condition_form_def plan_store_def empty_store_def new_condition_def new_injection_def new_warning_def
        new_timing_def new_scopes_def upd_by_def upd_rows_def control_named_def default_control_condition_def
        default_injection_def default_activation_def)
qed

lemma control_validates:
  "validate_condition (control_named ''c'') = Inr (control_named ''c'')"
  "validate_condition (control_named ''  '') = Inr (control_named [])"
proof -
  have "py_space CHR '' ''" "\<not> py_space CHR ''c''" by code_simp+
  then show "validate_condition (control_named ''c'') = Inr (control_named ''c'')"
    "validate_condition (control_named ''  '') = Inr (control_named [])"
    by (simp_all add: validate_condition_def control_named_def default_control_condition_def validate_prompt_def
        validate_warning_def validate_timing_def default_injection_def default_warning_def default_timing_def
        default_activation_def validate_activation_def py_strip_def opt_ok_def small_count_def validate_rule_def
        needs_value_def Let_def)
qed

theorem saving_keeps_old_plans_witness:
  "xd_sessions (snd (save_sample ''c'')) = xd_sessions plan_store \<and>
   content_of (get_plan ''old'' (snd (save_sample ''c''))) = content_of (get_plan ''old'' plan_store) \<and>
   length (xd_plans (snd (save_sample ''c''))) = 2"
proof -
  have all: "(\<forall>q \<in> pn_id ` set (xd_plans plan_store).
      content_of (get_plan q (snd (save_sample ''c''))) = content_of (get_plan q plan_store)) \<and>
    xd_sessions (snd (save_sample ''c'')) = xd_sessions plan_store \<and>
    xd_tasks (snd (save_sample ''c'')) = xd_tasks plan_store \<and>
    (\<forall>m. fst (save_sample ''c'') = Inr (Some m) \<longrightarrow> pl_status m = PN_PUBLISHED \<and> pl_group_id m = ''g'' \<and>
       (\<forall>p \<in> set (xd_plans plan_store). pn_group_id p = ''g'' \<longrightarrow> 0 < pn_version p \<longrightarrow> pn_version p < pl_version m))"
    by (rule saving_keeps_old_plans [OF surjective_pairing]) (rule current_sample)
  moreover have "length (xd_plans (snd (save_sample ''c''))) = 2" by (rule save_sample_stores)
  moreover have "''old'' \<in> pn_id ` set (xd_plans plan_store)" by (simp add: plan_store_def published_plan_def)
  ultimately show ?thesis by blast
qed

theorem blank_condition_blocks_plan_witness:
  "validate_condition (control_named ''  '') = Inr (control_named []) \<and>
   isl (get_plan ''new'' (snd (save_sample [])))"
proof -
  have valid: "validate_condition (control_named ''  '') = Inr (control_named [])" by (rule control_validates)
  moreover have "snd (save_sample []) \<noteq> plan_store"
    using save_sample_stores [of "[]"] by (auto simp: plan_store_def)
  moreover have "py_strip (cd_name (control_named ''  '')) = []" by code_simp
  moreover have "control_named [] \<in> set (fm_conditions (one_condition_form []))"
    by (simp add: one_condition_form_def)
  ultimately have "isl (fst (save_sample [])) \<and> isl (get_plan ''new'' (snd (save_sample []))) \<and>
      (\<exists>p \<in> set (xd_plans (snd (save_sample []))). pn_id p = ''new'' \<and> pn_status p = PN_PUBLISHED)"
    by (intro blank_condition_blocks_plan [OF surjective_pairing _ current_sample])
  with valid show ?thesis by blast
qed

end
