(* ===== verification/Response_Stream.thy ===== *)
theory Response_Stream
  imports Response_Chunker
begin

text \<open>
  The timing of a response (\<open>utils/experiment_perturbations.py\<close>): the generator that wraps the
  event stream of the provider. What the generator does is the list of its actions in order: the
  lines it yields, its waits, its updates of the stored request, and the closing of the stream
  below it. A line of the stream is decoded text.

  \<open>sv_ns\<close> and \<open>sv_mono\<close> give the successive readings of \<open>time.time_ns\<close> and of
  \<open>time.monotonic\<close>. Waits are computed with rationals where the code computes with doubles.
\<close>

subsection \<open>Splitting one event\<close>

text \<open>\<open>[xs[start : start + n] for start in range(0, len(xs), n)]\<close> for a positive \<open>n\<close>.\<close>

function sliced :: "nat \<Rightarrow> 'a list \<Rightarrow> 'a list list" where
  "sliced n xs = (if n = 0 \<or> xs = [] then [] else take n xs # sliced n (drop n xs))"
  by pat_completeness auto

termination
  by (relation "measure (\<lambda>(n, xs). length xs)") auto

declare sliced.simps [simp del]

text \<open>The content the code splits: of the first choice, or of a text delta.\<close>

definition split_content :: "json \<Rightarrow> err + string option" where
  "split_content data =
     bindE (py_get data ''choices'' JNull) (\<lambda>choices.
     bindE (if truthy_json choices
            then bindE (py_first choices) (\<lambda>choice.
                 bindE (py_get choice ''delta'' (JObj [])) (\<lambda>delta. py_get delta ''content'' JNull))
            else Inr JNull) (\<lambda>content.
     bindE (py_get data ''type'' JNull) (\<lambda>kind.
     bindE (if kind = JStr ''response.output_text.delta'' then py_get data ''delta'' JNull else Inr JNull)
       (\<lambda>response_delta.
          Inr (case content of JStr s \<Rightarrow> Some s
               | _ \<Rightarrow> (case response_delta of JStr s \<Rightarrow> Some s | _ \<Rightarrow> None))))))"

definition text_slices :: "string \<Rightarrow> int \<Rightarrow> stream_unit \<Rightarrow> string list" where
  "text_slices content n unit =
     (if unit = WORD then map concat (sliced (nat n) (find_words content)) else sliced (nat n) content)"

definition split_sse_content ::
    "(string \<Rightarrow> json option) \<Rightarrow> (json \<Rightarrow> string) \<Rightarrow> string \<Rightarrow> int \<Rightarrow> stream_unit \<Rightarrow> string list" where
  "split_sse_content loads dumps line n unit =
     (if \<not> is_data line then [line]
      else case loads (raw_data line) of
          None \<Rightarrow> [line]
        | Some data \<Rightarrow>
           (case split_content data of
              Inr (Some content) \<Rightarrow>
                if unit = CHUNK then [line]
                else
                  let text_chunks = text_slices content n unit in
                  if length text_chunks \<le> 1 then [line]
                  else (case mapE (\<lambda>t. case loads (dumps data) of
                                      None \<Rightarrow> Inl (ValueError ''json'')
                                    | Some clone \<Rightarrow> bindE (put_content t clone) (\<lambda>v. Inr (sse_line dumps v))) text_chunks of
                          Inr chunks \<Rightarrow> chunks
                        | Inl _ \<Rightarrow> [line])
            | _ \<Rightarrow> [line]))"

subsection \<open>Actions and state\<close>

datatype stream_action =
    Emit string
  | Sleep rat
  | Update int "llm_request \<Rightarrow> llm_request"
  | Close

text \<open>\<open>update_request\<close> sets the given fields and the time of the update on the row, if there is one.\<close>

definition update_request ::
    "string option \<Rightarrow> (llm_request \<Rightarrow> llm_request) \<Rightarrow> int \<Rightarrow> llm_request list \<Rightarrow> llm_request list" where
  "update_request request_id f now rows =
     (if \<not> truthy_str request_id then rows
      else upd_by lr_id (the request_id) (\<lambda>r. (f r)\<lparr>lr_updated_at := now\<rparr>) rows)"

fun apply_action :: "string \<Rightarrow> stream_action \<Rightarrow> llm_request list \<Rightarrow> llm_request list" where
  "apply_action request_id (Update now f) rows = update_request (Some request_id) f now rows"
| "apply_action request_id _ rows = rows"

record stream_env =
  sv_loads :: "string \<Rightarrow> json option"
  sv_dumps :: "json \<Rightarrow> string"
  sv_sha :: "string \<Rightarrow> nat"
  sv_ns :: "nat \<Rightarrow> int"
  sv_mono :: "nat \<Rightarrow> rat"
  sv_request_id :: string
  sv_timing :: response_timing

record stream_state =
  ss_actions :: "stream_action list"
  ss_ns :: nat
  ss_mono :: nat
  ss_buffered :: "string list"
  ss_slow_buffer :: "string list"
  ss_terminal_buffer :: "string list"
  ss_received_text :: "string list"
  ss_first_received :: "rat option"
  ss_first_emit_at :: "rat option"
  ss_first_emit :: bool
  ss_reveal_cursor :: int
  ss_received_length :: int
  ss_received_checkpoint :: int
  ss_reveal_checkpoint :: int
  ss_chunker :: chunker

definition act :: "stream_action \<Rightarrow> stream_state \<Rightarrow> stream_state" where
  "act a st = st\<lparr>ss_actions := ss_actions st @ [a]\<rparr>"

definition emit :: "string \<Rightarrow> stream_state \<Rightarrow> stream_state" where
  "emit line = act (Emit line)"

definition time_ns :: "stream_env \<Rightarrow> stream_state \<Rightarrow> int \<times> stream_state" where
  "time_ns e st = (sv_ns e (ss_ns st), st\<lparr>ss_ns := ss_ns st + 1\<rparr>)"

definition monotonic :: "stream_env \<Rightarrow> stream_state \<Rightarrow> rat \<times> stream_state" where
  "monotonic e st = (sv_mono e (ss_mono st), st\<lparr>ss_mono := ss_mono st + 1\<rparr>)"

definition update :: "stream_env \<Rightarrow> (llm_request \<Rightarrow> llm_request) \<Rightarrow> stream_state \<Rightarrow> stream_state" where
  "update e f st = (case time_ns e st of (now, st) \<Rightarrow> act (Update now f) st)"

text \<open>\<open>update_request(request_id, field=time.time_ns())\<close>\<close>

definition update_timed :: "stream_env \<Rightarrow> (int \<Rightarrow> llm_request \<Rightarrow> llm_request) \<Rightarrow> stream_state \<Rightarrow> stream_state" where
  "update_timed e f st = (case time_ns e st of (now, st) \<Rightarrow> update e (f now) st)"

definition sleep_until :: "stream_env \<Rightarrow> rat \<Rightarrow> stream_state \<Rightarrow> stream_state" where
  "sleep_until e deadline st =
     (case monotonic e st of (now, st) \<Rightarrow> if 0 < deadline - now then act (Sleep (deadline - now)) st else st)"

definition target_duration_mode :: "response_timing \<Rightarrow> bool" where
  "target_duration_mode t \<longleftrightarrow> rt_mode t = SLOW \<or> (rt_mode t = FAST \<and> rt_rate_unit t = TARGET_DURATION)"

definition initial_state :: "stream_env \<Rightarrow> stream_state" where
  "initial_state e =
     (let t = sv_timing e in
      \<lparr>ss_actions = [], ss_ns = 0, ss_mono = 0, ss_buffered = [], ss_slow_buffer = [], ss_terminal_buffer = [],
       ss_received_text = [], ss_first_received = None, ss_first_emit_at = None, ss_first_emit = False,
       ss_reveal_cursor = 0, ss_received_length = 0, ss_received_checkpoint = 0, ss_reveal_checkpoint = 0,
       ss_chunker = new_chunker (sv_request_id e) (if rt_mode t = SLOW then rt_stream_unit t else CHARACTER)
         (if rt_mode t = SLOW then rt_minimum_chunk_size t else rt_maximum_chunk_size t) (rt_maximum_chunk_size t)\<rparr>)"

text \<open>Before the generator runs, the start of the provider's stream is recorded.\<close>

definition open_stream :: "stream_env \<Rightarrow> stream_state" where
  "open_stream e = update_timed e (\<lambda>now r. r\<lparr>lr_provider_started_at := Some now\<rparr>) (initial_state e)"

subsection \<open>A received line\<close>

definition content_json :: "string \<Rightarrow> json" where
  "content_json s = JObj [(''content'', JStr s)]"

definition note_first_text :: "stream_env \<Rightarrow> stream_state \<Rightarrow> stream_state" where
  "note_first_text e st =
     (case monotonic e st of (m, st) \<Rightarrow>
        let st = st\<lparr>ss_first_received := Some m\<rparr> in
        case time_ns e st of (first, st) \<Rightarrow>
          if rt_mode (sv_timing e) = DELAYED
          then (case time_ns e st of (delay, st) \<Rightarrow>
                  update e (\<lambda>r. r\<lparr>lr_provider_first_token_at := Some first,
                     lr_artificial_delay_started_at := Some delay\<rparr>) st)
          else update e (\<lambda>r. r\<lparr>lr_provider_first_token_at := Some first,
                     lr_artificial_delay_started_at := None\<rparr>) st)"

definition buffer_pieces :: "stream_env \<Rightarrow> string \<Rightarrow> string list \<Rightarrow> chunker \<Rightarrow> stream_state \<Rightarrow> stream_state" where
  "buffer_pieces e text pieces c st =
     (let st = st\<lparr>ss_chunker := c, ss_received_text := ss_received_text st @ [text],
                ss_received_length := ss_received_length st + int (length text),
                ss_slow_buffer := ss_slow_buffer st @ pieces\<rparr> in
      if 200 \<le> ss_received_length st - ss_received_checkpoint st then
        let st = st\<lparr>ss_received_checkpoint := ss_received_length st\<rparr>;
            cursor = ss_reveal_cursor st;
            full = concat (ss_received_text st)
        in update e (\<lambda>r. r\<lparr>lr_buffered := True, lr_buffered_output := Some (content_json full),
             lr_reveal_cursor := cursor\<rparr>) st
      else st)"

definition fast_wait :: "response_timing \<Rightarrow> string \<Rightarrow> rat" where
  "fast_wait t emitted_text =
     (let rate = (case rt_rate_value t of None \<Rightarrow> 200 | Some r \<Rightarrow> if r = 0 then 200 else r);
          amount = of_nat (length emitted_text) in
      case rt_rate_unit t of
        WORDS_PER_SECOND \<Rightarrow> of_nat (max 1 (length (find_words emitted_text))) / rate
      | TARGET_DURATION \<Rightarrow>
          amount / max 1 (4000 / (case rt_target_duration_seconds t of None \<Rightarrow> 1 | Some d \<Rightarrow> if d = 0 then 1 else d))
      | CHARACTERS_PER_SECOND \<Rightarrow> amount / rate)"

text \<open>The loop over the pieces of a line that is passed on at once.\<close>

fun emit_split :: "stream_env \<Rightarrow> string list \<Rightarrow> stream_state \<Rightarrow> (err + unit) \<times> stream_state" where
  "emit_split e [] st = (Inr (), st)"
| "emit_split e (emitted # rest) st =
     (case extract_text (sv_loads e) emitted of
        Inl err \<Rightarrow> (Inl err, st)
      | Inr emitted_text \<Rightarrow>
          let st = (if emitted_text = [] then st
                    else if \<not> ss_first_emit st
                    then update_timed e (\<lambda>now r. r\<lparr>lr_server_first_emit_at := Some now\<rparr>) (st\<lparr>ss_first_emit := True\<rparr>)
                    else if rt_mode (sv_timing e) = FAST
                    then act (Sleep (fast_wait (sv_timing e) emitted_text)) st
                    else st)
          in emit_split e rest (emit emitted st))"

definition split_size :: "response_timing \<Rightarrow> int" where
  "split_size t = (if rt_mode t \<in> {SLOW, FAST} then rt_maximum_chunk_size t else 1000000)"

definition split_unit :: "response_timing \<Rightarrow> stream_unit" where
  "split_unit t = (if rt_mode t = FAST \<and> rt_rate_unit t = WORDS_PER_SECOND then WORD else CHARACTER)"

text \<open>The body of the receiving loop; the result says whether the generator returns.\<close>

definition on_line :: "stream_env \<Rightarrow> string \<Rightarrow> stream_state \<Rightarrow> (err + bool) \<times> stream_state" where
  "on_line e line st =
     (let t = sv_timing e in
      case contains_provider_error (sv_loads e) line of
        Inl err \<Rightarrow> (Inl err, st)
      | Inr True \<Rightarrow>
          (Inr True, emit line (update_timed e (\<lambda>now r. r\<lparr>lr_provider_completed_at := Some now, lr_status := ''FAILED'',
             lr_error_type := Some ''ProviderStreamError'', lr_streaming_completed_normally := Some False\<rparr>) st))
      | Inr False \<Rightarrow>
         (case extract_text (sv_loads e) line of
            Inl err \<Rightarrow> (Inl err, st)
          | Inr text \<Rightarrow>
              let st = (if text \<noteq> [] \<and> ss_first_received st = None then note_first_text e st else st) in
              if rt_mode t = DELAYED then
                (if text \<noteq> [] then (Inr False, st\<lparr>ss_buffered := ss_buffered st @ [line]\<rparr>)
                 else case terminal_event (sv_loads e) line of
                     Inl err \<Rightarrow> (Inl err, st)
                   | Inr True \<Rightarrow> (Inr False, st\<lparr>ss_terminal_buffer := ss_terminal_buffer st @ [line]\<rparr>)
                   | Inr False \<Rightarrow> (Inr False, emit line st))
              else if target_duration_mode t \<and> text \<noteq> [] then
                (case chunker_feed (sv_loads e) (sv_dumps e) (sv_sha e) line (ss_chunker st) of
                   Inl err \<Rightarrow> (Inl err, st)
                 | Inr (pieces, c) \<Rightarrow> (Inr False, buffer_pieces e text pieces c st))
              else
                (case (if target_duration_mode t then terminal_event (sv_loads e) line else Inr False) of
                   Inl err \<Rightarrow> (Inl err, st)
                 | Inr True \<Rightarrow> (Inr False, st\<lparr>ss_terminal_buffer := ss_terminal_buffer st @ [line]\<rparr>)
                 | Inr False \<Rightarrow>
                    (case emit_split e (split_sse_content (sv_loads e) (sv_dumps e) line (split_size t) (split_unit t)) st of
                       (Inl err, st) \<Rightarrow> (Inl err, st)
                     | (Inr _, st) \<Rightarrow> (Inr False, st)))))"

fun receive :: "stream_env \<Rightarrow> string list \<Rightarrow> stream_state \<Rightarrow> (err + bool) \<times> stream_state" where
  "receive e [] st = (Inr False, st)"
| "receive e (line # lines) st =
     (case on_line e line st of
        (Inr False, st) \<Rightarrow> receive e lines st
      | stopped \<Rightarrow> stopped)"

subsection \<open>After the stream\<close>

definition ends_sentence :: "string \<Rightarrow> bool" where
  "ends_sentence s = (case dropWhile py_space (rev s) of [] \<Rightarrow> False | c # _ \<Rightarrow> c \<in> set ''.!?,;:'')"

definition piece_weight :: "response_timing \<Rightarrow> string \<Rightarrow> rat" where
  "piece_weight t emitted_text =
     (let weight = of_nat (max 1 (length emitted_text)) in
      if rt_mode t = SLOW \<and> rt_punctuation_pauses t \<and> ends_sentence emitted_text then weight * (27 / 20) else weight)"

definition or_zero :: "rat option \<Rightarrow> rat" where
  "or_zero v = (case v of None \<Rightarrow> 0 | Some x \<Rightarrow> x)"

text \<open>A single piece is halved, so that there is something to reveal later.\<close>

definition halve_single :: "stream_env \<Rightarrow> string list \<Rightarrow> err + string list" where
  "halve_single e pieces =
     (case pieces of
        [only] \<Rightarrow>
          bindE (extract_text (sv_loads e) only) (\<lambda>only_text.
            if 1 < length only_text then
              let midpoint = max 1 (length only_text div 2) in
              bindE (replace_sse_content (sv_loads e) (sv_dumps e) only (take midpoint only_text)) (\<lambda>a.
              bindE (replace_sse_content (sv_loads e) (sv_dumps e) only (drop midpoint only_text)) (\<lambda>b.
                Inr [a, b]))
            else Inr pieces)
      | _ \<Rightarrow> Inr pieces)"

definition advance_cursor :: "stream_env \<Rightarrow> string \<Rightarrow> stream_state \<Rightarrow> stream_state" where
  "advance_cursor e emitted_text st =
     (let st = st\<lparr>ss_reveal_cursor := ss_reveal_cursor st + int (length emitted_text)\<rparr> in
      if 200 \<le> ss_reveal_cursor st - ss_reveal_checkpoint st then
        let cursor = ss_reveal_cursor st in
        update e (\<lambda>r. r\<lparr>lr_reveal_cursor := cursor\<rparr>) (st\<lparr>ss_reveal_checkpoint := cursor\<rparr>)
      else st)"

text \<open>The timed loop: piece after piece, each at its share of the duration.\<close>

fun reveal_pieces ::
    "stream_env \<Rightarrow> rat \<Rightarrow> rat \<Rightarrow> rat \<Rightarrow> rat \<Rightarrow> (string \<times> rat) list \<Rightarrow> stream_state \<Rightarrow> (err + unit) \<times> stream_state" where
  "reveal_pieces e started duration total_weight cumulative [] st = (Inr (), st)"
| "reveal_pieces e started duration total_weight cumulative ((emitted, weight) # rest) st =
     (case extract_text (sv_loads e) emitted of
        Inl err \<Rightarrow> (Inl err, st)
      | Inr emitted_text \<Rightarrow>
          let cumulative = cumulative + weight;
              deadline = started + duration * (cumulative / max total_weight 1)
          in reveal_pieces e started duration total_weight cumulative rest
               (advance_cursor e emitted_text (emit emitted (sleep_until e deadline st))))"

definition first_piece :: "stream_env \<Rightarrow> string list \<Rightarrow> stream_state \<Rightarrow> (err + string list) \<times> stream_state" where
  "first_piece e pieces st =
     (case pieces of
        [] \<Rightarrow> (Inr [], st)
      | piece # remaining \<Rightarrow>
          (case monotonic e (st\<lparr>ss_first_emit := True\<rparr>) of (m, st) \<Rightarrow>
             let st = emit piece (update_timed e (\<lambda>now r. r\<lparr>lr_server_first_emit_at := Some now\<rparr>)
                        (st\<lparr>ss_first_emit_at := Some m\<rparr>)) in
             (case extract_text (sv_loads e) piece of
                Inl err \<Rightarrow> (Inl err, st)
              | Inr text \<Rightarrow> (Inr remaining, st\<lparr>ss_reveal_cursor := ss_reveal_cursor st + int (length text)\<rparr>))))"

definition emit_all :: "string list \<Rightarrow> stream_state \<Rightarrow> stream_state" where
  "emit_all lines st = foldl (\<lambda>st line. emit line st) st lines"

text \<open>The reveal over a target duration.\<close>

definition store_full_text :: "stream_env \<Rightarrow> string \<Rightarrow> stream_state \<Rightarrow> stream_state" where
  "store_full_text e full_text st =
     (let cursor = ss_reveal_cursor st in
      if full_text = [] then st
      else update e (\<lambda>r. r\<lparr>lr_buffered := True, lr_buffered_output := Some (content_json full_text),
             lr_reveal_cursor := cursor\<rparr>) st)"

definition reveal_start :: "stream_env \<Rightarrow> stream_state \<Rightarrow> rat \<times> stream_state" where
  "reveal_start e st =
     (case ss_first_emit_at st of
        None \<Rightarrow> monotonic e st
      | Some m \<Rightarrow> if m = 0 then monotonic e st else (m, st))"

definition finish_cursor :: "stream_env \<Rightarrow> string \<Rightarrow> stream_state \<Rightarrow> stream_state" where
  "finish_cursor e full_text st =
     (if full_text = [] then st else update e (\<lambda>r. r\<lparr>lr_reveal_cursor := int (length full_text)\<rparr>) st)"

definition reveal_over_duration :: "stream_env \<Rightarrow> stream_state \<Rightarrow> (err + unit) \<times> stream_state" where
  "reveal_over_duration e st =
     (let t = sv_timing e in
      case bindE (chunker_flush (sv_loads e) (sv_dumps e) (sv_sha e) (ss_chunker st))
             (\<lambda>(pieces, _). halve_single e (ss_slow_buffer st @ pieces)) of
        Inl err \<Rightarrow> (Inl err, st)
      | Inr pieces \<Rightarrow>
         (case first_piece e pieces st of
            (Inl err, st) \<Rightarrow> (Inl err, st)
          | (Inr remaining, st) \<Rightarrow>
             let full_text = concat (ss_received_text st) in
             (case reveal_start e (store_full_text e full_text st) of (started, st) \<Rightarrow>
                 (case mapE (extract_text (sv_loads e)) remaining of
                    Inl err \<Rightarrow> (Inl err, st)
                  | Inr texts \<Rightarrow>
                      let weights = map (piece_weight t) texts in
                      (case reveal_pieces e started (or_zero (rt_target_duration_seconds t)) (sum_list weights) 0
                              (zip remaining weights) st of
                         (Inl err, st) \<Rightarrow> (Inl err, st)
                       | (Inr _, st) \<Rightarrow>
                           let st = finish_cursor e full_text st
                           in (Inr (), emit_all (ss_terminal_buffer st) st))))))"

text \<open>The reveal after a delay: first the wait, then the kept lines, whole or in quick pieces. The
  checkpoint of this loop is \<open>last_checkpoint\<close>.\<close>

fun reveal_quickly :: "stream_env \<Rightarrow> string list \<Rightarrow> stream_state \<Rightarrow> (err + unit) \<times> stream_state" where
  "reveal_quickly e [] st = (Inr (), st)"
| "reveal_quickly e (emitted # rest) st =
     (case extract_text (sv_loads e) emitted of
        Inl err \<Rightarrow> (Inl err, st)
      | Inr emitted_text \<Rightarrow>
          let st = (if emitted_text \<noteq> [] \<and> \<not> ss_first_emit st
                    then update_timed e (\<lambda>now r. r\<lparr>lr_server_first_emit_at := Some now\<rparr>) (st\<lparr>ss_first_emit := True\<rparr>)
                    else if emitted_text \<noteq> [] \<and> rt_reveal_style (sv_timing e) = QUICK_STREAM
                    then act (Sleep (of_nat (length emitted_text) / 500)) st
                    else st)
          in reveal_quickly e rest (advance_cursor e emitted_text (emit emitted st)))"

definition quick_pieces :: "stream_env \<Rightarrow> string \<Rightarrow> string list" where
  "quick_pieces e line =
     (if rt_reveal_style (sv_timing e) = QUICK_STREAM
      then split_sse_content (sv_loads e) (sv_dumps e) line (rt_maximum_chunk_size (sv_timing e)) CHARACTER
      else [line])"

definition wait_delay :: "stream_env \<Rightarrow> stream_state \<Rightarrow> stream_state" where
  "wait_delay e st =
     (case ss_first_received st of
        None \<Rightarrow> st
      | Some received \<Rightarrow>
          update_timed e (\<lambda>now r. r\<lparr>lr_artificial_delay_ended_at := Some now\<rparr>)
            (sleep_until e (or_zero (rt_delay_seconds (sv_timing e)) + received) st))"

definition reveal_after_delay :: "stream_env \<Rightarrow> stream_state \<Rightarrow> (err + unit) \<times> stream_state" where
  "reveal_after_delay e st =
     (case mapE (extract_text (sv_loads e)) (ss_buffered st) of
        Inl err \<Rightarrow> (Inl err, st)
      | Inr texts \<Rightarrow>
          let buffered_text = concat texts;
              st = update e (\<lambda>r. r\<lparr>lr_buffered := True, lr_buffered_output := Some (content_json buffered_text),
                     lr_reveal_cursor := 0\<rparr>) st;
              st = (wait_delay e st)\<lparr>ss_reveal_cursor := 0, ss_reveal_checkpoint := 0\<rparr>
          in (case reveal_quickly e (concat (map (quick_pieces e) (ss_buffered st))) st of
                (Inl err, st) \<Rightarrow> (Inl err, st)
              | (Inr _, st) \<Rightarrow>
                  (Inr (), emit_all (ss_terminal_buffer st)
                     (update e (\<lambda>r. r\<lparr>lr_reveal_cursor := int (length buffered_text)\<rparr>) st))))"

definition reveal :: "stream_env \<Rightarrow> stream_state \<Rightarrow> (err + unit) \<times> stream_state" where
  "reveal e st =
     (let st = update_timed e (\<lambda>now r. r\<lparr>lr_provider_completed_at := Some now\<rparr>) st in
      case (if target_duration_mode (sv_timing e) then reveal_over_duration e st
            else if rt_mode (sv_timing e) = DELAYED then reveal_after_delay e st
            else (Inr (), st)) of
        (Inl err, st) \<Rightarrow> (Inl err, st)
      | (Inr _, st) \<Rightarrow>
          (Inr (), update_timed e (\<lambda>now r. r\<lparr>lr_server_completed_emit_at := Some now,
             lr_streaming_completed_normally := Some True, lr_status := ''COMPLETED'', lr_buffered_output := None\<rparr>) st))"

subsection \<open>The generator\<close>

text \<open>How the stream of the provider ends: it is exhausted, raises, or the request is cancelled.\<close>

datatype stream_end = Exhausted | Raised string | Cancelled

datatype stream_result = Finished | Returned | Failed string | CancelledRun | Abandoned

definition error_name :: "err \<Rightarrow> string" where
  "error_name e =
     (case e of
        HTTPException _ _ \<Rightarrow> ''HTTPException'' | ValueError _ \<Rightarrow> ''ValueError''
      | FieldError _ \<Rightarrow> ''ValidationError'' | KeyError _ \<Rightarrow> ''KeyError'' | IndexError \<Rightarrow> ''IndexError''
      | AttributeError \<Rightarrow> ''AttributeError'' | TypeError \<Rightarrow> ''TypeError''
      | ZeroDivisionError \<Rightarrow> ''ZeroDivisionError'' | InvalidOperation \<Rightarrow> ''InvalidOperation''
      | StopIteration \<Rightarrow> ''StopIteration'' | RuntimeError _ \<Rightarrow> ''RuntimeError''
      | IntegrityError \<Rightarrow> ''IntegrityError'')"

definition record_failure :: "stream_env \<Rightarrow> string \<Rightarrow> stream_state \<Rightarrow> stream_state" where
  "record_failure e name = update_timed e (\<lambda>now r. r\<lparr>lr_provider_completed_at := Some now, lr_status := ''FAILED'',
     lr_error_type := Some name, lr_streaming_completed_normally := Some False\<rparr>)"

definition record_cancel :: "stream_env \<Rightarrow> stream_state \<Rightarrow> stream_state" where
  "record_cancel e = update e (\<lambda>r. r\<lparr>lr_status := ''CANCELLED'', lr_streaming_completed_normally := Some False\<rparr>)"

text \<open>
  What runs inside the \<open>try\<close>: its result, whether \<open>completed_normally\<close> was set, and the state.
\<close>

definition generator_body ::
    "stream_env \<Rightarrow> string list \<Rightarrow> stream_end \<Rightarrow> stream_result \<times> bool \<times> stream_state" where
  "generator_body e lines ending =
     (case receive e lines (open_stream e) of
        (Inl err, st) \<Rightarrow> (Failed (error_name err), False, st)
      | (Inr True, st) \<Rightarrow> (Returned, False, st)
      | (Inr False, st) \<Rightarrow>
         (case ending of
            Raised name \<Rightarrow> (Failed name, False, st)
          | Cancelled \<Rightarrow> (CancelledRun, False, st)
          | Exhausted \<Rightarrow>
             (case reveal e st of
                (Inl err, st) \<Rightarrow> (Failed (error_name err), True, st)
              | (Inr _, st) \<Rightarrow> (Finished, True, st))))"

text \<open>The \<open>except\<close> and \<open>finally\<close> clauses: the stream below is closed unless it was exhausted.\<close>

definition handle_exit :: "stream_env \<Rightarrow> stream_result \<Rightarrow> stream_state \<Rightarrow> stream_state" where
  "handle_exit e result st =
     (case result of Failed name \<Rightarrow> record_failure e name st | CancelledRun \<Rightarrow> record_cancel e st | _ \<Rightarrow> st)"

definition close_original :: "bool \<Rightarrow> stream_action list" where
  "close_original completed = (if completed then [] else [Close])"

definition wrapped_run :: "stream_env \<Rightarrow> string list \<Rightarrow> stream_end \<Rightarrow> stream_result \<times> stream_action list" where
  "wrapped_run e lines ending =
     (case generator_body e lines ending of (result, completed, st) \<Rightarrow>
        (result, ss_actions (handle_exit e result st) @ close_original completed))"

subsection \<open>A generator that is stopped\<close>

text \<open>
  The run can be cut off from outside at the action with index \<open>n\<close>. At a yield the consumer can stop
  reading and close the generator: \<open>GeneratorExit\<close> is no \<open>Exception\<close>, so only the \<open>finally\<close> clause
  runs. At an await - a wait or an update of the stored request, committed or not - the task can be
  cancelled at the time \<open>now\<close>. \<open>Never_Read\<close> closes the generator before its first step. The action
  with index 0 comes before the generator.
\<close>

datatype stream_stop = Not_Stopped | Never_Read | Consumer_Stops nat | Cancelled_At nat bool int

definition is_yield :: "stream_action \<Rightarrow> bool" where
  "is_yield a = (case a of Emit _ \<Rightarrow> True | _ \<Rightarrow> False)"

definition cancel_update :: "int \<Rightarrow> stream_action" where
  "cancel_update now =
     Update now (\<lambda>r. r\<lparr>lr_status := ''CANCELLED'', lr_streaming_completed_normally := Some False\<rparr>)"

definition stopped_run ::
    "stream_env \<Rightarrow> string list \<Rightarrow> stream_end \<Rightarrow> stream_stop \<Rightarrow> stream_result \<times> stream_action list" where
  "stopped_run e lines ending stop =
     (case generator_body e lines ending of (_, completed, st) \<Rightarrow>
        let acts = ss_actions st;
            received = length (ss_actions (snd (receive e lines (open_stream e))));
            closing = (\<lambda>n. close_original (completed \<and> received \<le> n))
        in case stop of
             Consumer_Stops n \<Rightarrow>
               if n < length acts \<and> is_yield (acts ! n) then (Abandoned, take (n + 1) acts @ closing n)
               else wrapped_run e lines ending
           | Cancelled_At n committed now \<Rightarrow>
               if 0 < n \<and> n < length acts \<and> \<not> is_yield (acts ! n)
               then (CancelledRun, take (if committed then n + 1 else n) acts @ [cancel_update now] @ closing n)
               else wrapped_run e lines ending
           | Never_Read \<Rightarrow> (Abandoned, ss_actions (open_stream e))
           | Not_Stopped \<Rightarrow> wrapped_run e lines ending)"

definition emitted_lines :: "stream_action list \<Rightarrow> string list" where
  "emitted_lines acts = concat (map (\<lambda>a. case a of Emit line \<Rightarrow> [line] | _ \<Rightarrow> []) acts)"

definition stored_request :: "string \<Rightarrow> stream_action list \<Rightarrow> llm_request list \<Rightarrow> llm_request list" where
  "stored_request request_id acts rows = fold (apply_action request_id) acts rows"

end
