(* ===== verification/Response_Synthetic.thy ===== *)
theory Response_Synthetic
  imports Response_Stream
begin

text \<open>
  The timing of a response that arrives whole (\<open>apply_nonstream_timing\<close> in
  \<open>utils/experiment_perturbations.py\<close>): it is passed on, passed on after a wait, or turned into
  an event stream. \<open>data\<close> is the parsed response where there is one.
\<close>

subsection \<open>The content of a response\<close>

text \<open>The message of the first choice with its choice, and the content.\<close>

definition response_message :: "json option \<Rightarrow> err + (json option \<times> json)" where
  "response_message data =
     (case data of
        Some (JObj m) \<Rightarrow>
          let choices = jget m ''choices'' in
          if truthy_json choices then
            bindE (py_first choices) (\<lambda>choice.
              Inr (Some choice, case choice of
                JObj c \<Rightarrow> (case map_of c ''message'' of None \<Rightarrow> JObj [] | Some v \<Rightarrow> v) | _ \<Rightarrow> JObj []))
          else Inr (None, JObj [])
      | _ \<Rightarrow> Inr (None, JObj []))"

definition message_content :: "json \<Rightarrow> string" where
  "message_content message = (case message of JObj m \<Rightarrow> string_or_empty (jget m ''content'') | _ \<Rightarrow> [])"

definition response_error :: "json option \<Rightarrow> bool" where
  "response_error data = (case data of Some (JObj m) \<Rightarrow> truthy_json (jget m ''error'') | _ \<Rightarrow> False)"

definition can_synthesize :: "json \<Rightarrow> bool" where
  "can_synthesize message =
     (case message of JObj m \<Rightarrow> fst ` set m \<subseteq> {''role'', ''content'', ''tool_calls''} | _ \<Rightarrow> True)"

definition quick_synthetic :: "response_timing \<Rightarrow> bool" where
  "quick_synthetic t \<longleftrightarrow> rt_mode t \<noteq> DELAYED \<or> rt_reveal_style t = QUICK_STREAM"

definition synthetic_chunks :: "stream_env \<Rightarrow> string \<Rightarrow> string list" where
  "synthetic_chunks e content =
     (let t = sv_timing e;
          chunks = bounded_text_chunks (sv_sha e) content (sv_request_id e)
            (if rt_mode t = SLOW then rt_stream_unit t else CHARACTER)
            (if rt_mode t = SLOW then rt_minimum_chunk_size t else rt_maximum_chunk_size t) (rt_maximum_chunk_size t)
      in if chunks = [] then [content] else chunks)"

subsection \<open>Passing on\<close>

definition finished_now :: "bool \<Rightarrow> int \<Rightarrow> llm_request \<Rightarrow> llm_request" where
  "finished_now has_content now r = r\<lparr>lr_server_first_emit_at := (if has_content then Some now else None),
     lr_server_completed_emit_at := Some now, lr_streaming_completed_normally := Some True,
     lr_status := ''COMPLETED''\<rparr>"

text \<open>A response that cannot be streamed is held back as a whole.\<close>

definition hold_back :: "stream_env \<Rightarrow> string \<Rightarrow> stream_state \<Rightarrow> stream_state" where
  "hold_back e content st =
     (let t = sv_timing e;
          delayed = (rt_mode t = DELAYED);
          delay = or_zero (if delayed then rt_delay_seconds t else rt_target_duration_seconds t);
          keep = (\<lambda>started r. r\<lparr>lr_artificial_delay_started_at := started, lr_buffered := True,
                    lr_buffered_output := Some (content_json content)\<rparr>);
          st = (if delayed then update_timed e (\<lambda>now. keep (Some now)) st else update e (keep None) st);
          st = (if delay = 0 then st else act (Sleep delay) st)
      in update_timed e (\<lambda>now r. r\<lparr>lr_artificial_delay_ended_at := (if delayed then Some now else None),
           lr_server_first_emit_at := Some now, lr_server_completed_emit_at := Some now,
           lr_reveal_cursor := int (length content), lr_streaming_completed_normally := Some True,
           lr_status := ''COMPLETED'', lr_buffered_output := None\<rparr>) st)"

subsection \<open>The synthetic stream\<close>

definition content_event :: "string \<Rightarrow> json" where
  "content_event t = JObj [(''choices'', JList [JObj [(''delta'', JObj [(''content'', JStr t)])]])]"

definition tool_event :: "json \<Rightarrow> json" where
  "tool_event tool_calls = JObj [(''choices'', JList [JObj [(''delta'', JObj [(''tool_calls'', tool_calls)])]])]"

definition truthy_entry :: "string \<Rightarrow> (string \<times> json) list \<Rightarrow> (string \<times> json) list" where
  "truthy_entry k m = (if truthy_json (jget m k) then [(k, jget m k)] else [])"

definition final_event :: "(string \<times> json) list \<Rightarrow> (string \<times> json) list \<Rightarrow> json" where
  "final_event response choice =
     JObj ((''choices'', JList [JObj [(''delta'', JObj []), (''finish_reason'', jget choice ''finish_reason'')]]) #
       truthy_entry ''usage'' response @ truthy_entry ''selected_model_id'' response)"

definition interval_weight :: "response_timing \<Rightarrow> string \<Rightarrow> rat" where
  "interval_weight t chunk =
     (let weight = of_nat (max 1 (if rt_mode t = FAST \<and> rt_rate_unit t = WORDS_PER_SECOND
                                  then length (find_words chunk) else length chunk)) in
      if rt_mode t = SLOW \<and> rt_punctuation_pauses t \<and> ends_sentence chunk then weight * (27 / 20) else weight)"

definition chunk_deadline :: "response_timing \<Rightarrow> rat \<Rightarrow> rat \<Rightarrow> rat \<Rightarrow> rat" where
  "chunk_deadline t started total_weight cumulative =
     (if target_duration_mode t
      then started + or_zero (rt_target_duration_seconds t) * (cumulative / max total_weight 1)
      else
        let rate = (if rt_mode t = DELAYED then 500
                    else case rt_rate_value t of None \<Rightarrow> 1 | Some r \<Rightarrow> if r = 0 then 1 else r)
        in started + cumulative / rate)"

definition send_chunk :: "stream_env \<Rightarrow> nat \<Rightarrow> string \<Rightarrow> stream_state \<Rightarrow> stream_state" where
  "send_chunk e content_length chunk st =
     (let st = emit (sse_line (sv_dumps e) (content_event chunk)) st;
          cursor = ss_reveal_cursor st + int (length chunk);
          st = st\<lparr>ss_reveal_cursor := cursor\<rparr>
      in if cursor = int content_length \<or> cursor mod 200 < int (length chunk)
         then update e (\<lambda>r. r\<lparr>lr_reveal_cursor := cursor\<rparr>) st else st)"

fun send_chunks :: "stream_env \<Rightarrow> nat \<Rightarrow> rat \<Rightarrow> rat \<Rightarrow> rat \<Rightarrow> (string \<times> rat) list \<Rightarrow> stream_state \<Rightarrow> stream_state" where
  "send_chunks e content_length started total_weight cumulative [] st = st"
| "send_chunks e content_length started total_weight cumulative ((chunk, weight) # rest) st =
     (let cumulative = cumulative + weight;
          deadline = chunk_deadline (sv_timing e) started total_weight cumulative
      in send_chunks e content_length started total_weight cumulative rest
           (send_chunk e content_length chunk (sleep_until e deadline st)))"

definition synthetic_stream ::
    "stream_env \<Rightarrow> (string \<times> json) list \<Rightarrow> (string \<times> json) list \<Rightarrow> (string \<times> json) list \<Rightarrow> string \<Rightarrow> rat \<Rightarrow>
     stream_state \<Rightarrow> stream_state" where
  "synthetic_stream e response choice message content received st =
     (let t = sv_timing e;
          chunks = synthetic_chunks e content;
          keep = (\<lambda>started r. r\<lparr>lr_buffered := True, lr_buffered_output := Some (content_json content),
                    lr_reveal_cursor := 0, lr_artificial_delay_started_at := started\<rparr>);
          st = (if rt_mode t = DELAYED then update_timed e (\<lambda>now. keep (Some now)) st else update e (keep None) st);
          tool_calls = jget message ''tool_calls'';
          st = (if truthy_json tool_calls then emit (sse_line (sv_dumps e) (tool_event tool_calls)) st else st);
          st = (if rt_mode t = DELAYED
                then update_timed e (\<lambda>now r. r\<lparr>lr_artificial_delay_ended_at := Some now\<rparr>)
                       (sleep_until e (or_zero (rt_delay_seconds t) + received) st)
                else st)
      in case monotonic e st of (started, st) \<Rightarrow>
           let weights = map (interval_weight t) (tl chunks);
               st = send_chunk e (length content) (hd chunks)
                      (update_timed e (\<lambda>now r. r\<lparr>lr_server_first_emit_at := Some now\<rparr>) st);
               st = send_chunks e (length content) started (sum_list weights) 0 (zip (tl chunks) weights) st;
               st = emit (''data: [DONE]'' @ [LF, LF]) (emit (sse_line (sv_dumps e) (final_event response choice)) st)
           in update_timed e (\<lambda>now r. r\<lparr>lr_server_completed_emit_at := Some now,
                lr_streaming_completed_normally := Some True, lr_status := ''COMPLETED'', lr_buffered_output := None\<rparr>) st)"

subsection \<open>The response\<close>

text \<open>What becomes of the response: it is returned as it is, or replaced by the stream. A content that
  is not empty comes from a message of a choice, so the last case below does not occur.\<close>

datatype nonstream_result = Returned_Unchanged | Replaced_By_Stream

definition apply_nonstream_timing ::
    "stream_env \<Rightarrow> json option \<Rightarrow> err + (nonstream_result \<times> stream_action list)" where
  "apply_nonstream_timing e data =
     (let t = sv_timing e in
      case time_ns e (initial_state e) of (now, st) \<Rightarrow>
        let st = update e (\<lambda>r. r\<lparr>lr_provider_first_token_at := Some now, lr_provider_completed_at := Some now\<rparr>) st in
        if response_error data then
          Inr (Returned_Unchanged, ss_actions (update e (\<lambda>r. r\<lparr>lr_status := ''FAILED'',
             lr_error_type := Some ''ProviderResponseError'', lr_streaming_completed_normally := Some False\<rparr>) st))
        else bindE (response_message data) (\<lambda>(choice, message).
          let content = message_content message in
          if rt_mode t = NORMAL \<or> content = [] then
            Inr (Returned_Unchanged, ss_actions (update_timed e (finished_now (content \<noteq> [])) st))
          else if \<not> can_synthesize message \<or> \<not> quick_synthetic t then
            Inr (Returned_Unchanged, ss_actions (hold_back e content st))
          else
            (case (data, choice, message) of
               (Some (JObj response), Some (JObj c), JObj m) \<Rightarrow>
                 (case monotonic e st of (received, st) \<Rightarrow>
                    Inr (Replaced_By_Stream, ss_actions (synthetic_stream e response c m content received st)))
             | _ \<Rightarrow> Inl AttributeError)))"

end
