(* ===== verification/Stream_Properties.thy ===== *)
theory Stream_Properties
  imports Response_Stream Chunker_Properties
begin

text \<open>
  What the timing of a response keeps: the text of the stream and the record of its outcome. The
  JSON library is a parameter with its documented behaviour, and the lines are the two forms of
  event that providers send.
\<close>

subsection \<open>JSON and events\<close>

text \<open>What is read can be written, with another content too, and is read back.\<close>

definition json_codec :: "(string \<Rightarrow> json option) \<Rightarrow> (json \<Rightarrow> string) \<Rightarrow> (json \<Rightarrow> bool) \<Rightarrow> bool" where
  "json_codec loads dumps ok \<longleftrightarrow>
     loads [] = None \<and> loads ''[DONE]'' = None \<and> (\<forall>s v. loads s = Some v \<longrightarrow> ok v) \<and>
     (\<forall>v t v'. ok v \<longrightarrow> put_content t v = Inr v' \<longrightarrow> ok v') \<and>
     (\<forall>v. ok v \<longrightarrow> loads (dumps v) = Some v \<and> py_strip (dumps v) = dumps v)"

definition plain_event :: "json \<Rightarrow> bool" where
  "plain_event data =
     (case data of
        JObj m \<Rightarrow>
          \<not> truthy_json (jget m ''error'') \<and> jget m ''type'' \<noteq> JStr ''response.failed'' \<and>
          hashable (jget m ''type'') \<and>
          (case jget m ''choices'' of
             JNull \<Rightarrow> True
           | JList [] \<Rightarrow> True
           | JList (JObj c # _) \<Rightarrow>
               jget m ''type'' \<noteq> JStr ''response.output_text.delta'' \<and> map_of c ''message'' = None \<and>
               (case map_of c ''delta'' of Some (JObj _) \<Rightarrow> True | _ \<Rightarrow> False)
           | _ \<Rightarrow> False)
      | _ \<Rightarrow> False)"

definition plain_line :: "(string \<Rightarrow> json option) \<Rightarrow> string \<Rightarrow> bool" where
  "plain_line loads line \<longleftrightarrow>
     (is_data line \<and> raw_data line \<noteq> ''[DONE]'' \<longrightarrow>
        (case loads (raw_data line) of None \<Rightarrow> True | Some data \<Rightarrow> plain_event data))"

definition text_of_line :: "(string \<Rightarrow> json option) \<Rightarrow> string \<Rightarrow> string" where
  "text_of_line loads line = (case extract_text loads line of Inr t \<Rightarrow> t | Inl _ \<Rightarrow> [])"

definition text_of_lines :: "(string \<Rightarrow> json option) \<Rightarrow> string list \<Rightarrow> string" where
  "text_of_lines loads lines = concat (map (text_of_line loads) lines)"

lemma text_of_lines_simps [simp]:
  "text_of_lines loads [] = []"
  "text_of_lines loads (l # ls) = text_of_line loads l @ text_of_lines loads ls"
  "text_of_lines loads (ls @ ms) = text_of_lines loads ls @ text_of_lines loads ms"
  by (simp_all add: text_of_lines_def)

subsection \<open>The text of a rewritten event\<close>

text \<open>The text of a parsed event.\<close>

definition event_text :: "json \<Rightarrow> string" where
  "event_text data =
     (case data of
        JObj m \<Rightarrow>
          (case jget m ''choices'' of
             JList (JObj c # _) \<Rightarrow> (case jget c ''delta'' of JObj d \<Rightarrow> string_or_empty (jget d ''content'') | _ \<Rightarrow> [])
           | _ \<Rightarrow> if jget m ''type'' = JStr ''response.output_text.delta'' then string_or_empty (jget m ''delta'') else [])
      | _ \<Rightarrow> [])"

definition parsed_line :: "(string \<Rightarrow> json option) \<Rightarrow> string \<Rightarrow> json option" where
  "parsed_line loads line =
     (if is_data line \<and> raw_data line \<noteq> [] \<and> raw_data line \<noteq> ''[DONE]'' then loads (raw_data line) else None)"

lemma py_get_obj [simp]: "py_get (JObj m) k JNull = Inr (jget m k)"
  by (simp add: py_get_def jget_def split: option.split)

lemma string_or_empty_falsy: "\<not> truthy_json v \<Longrightarrow> string_or_empty v = []"
  by (cases v) (auto simp: string_or_empty_def)

lemma plain_eventE:
  assumes "plain_event data"
  obtains (choices) m c cs d where "data = JObj m" "jget m ''choices'' = JList (JObj c # cs)"
      "map_of c ''delta'' = Some (JObj d)" "map_of c ''message'' = None"
      "jget m ''type'' \<noteq> JStr ''response.output_text.delta''"
    | (none) m where "data = JObj m" "\<not> truthy_json (jget m ''choices'')"
      "jget m ''choices'' \<in> {JNull, JList []}"
proof -
  obtain m where m: "data = JObj m" using assms by (auto simp: plain_event_def split: json.splits)
  show ?thesis
  proof (cases "jget m ''choices''")
    case JNull
    then show ?thesis using m none by simp
  next
    case (JList xs)
    show ?thesis
    proof (cases xs)
      case Nil
      then show ?thesis using m none JList by simp
    next
      case (Cons x cs)
      then obtain c where c: "x = JObj c" using assms m JList by (auto simp: plain_event_def split: json.splits)
      then obtain d where "map_of c ''delta'' = Some (JObj d)"
        using assms m JList Cons by (auto simp: plain_event_def split: json.splits option.splits)
      then show ?thesis using choices m JList Cons c assms by (auto simp: plain_event_def)
    qed
  qed (use assms m in \<open>auto simp: plain_event_def\<close>)
qed

lemma extract_parsed:
  assumes "plain_line loads line"
  shows "extract_text loads line = Inr (case parsed_line loads line of None \<Rightarrow> [] | Some v \<Rightarrow> event_text v)"
proof (cases "parsed_line loads line")
  case None
  then show ?thesis by (auto simp: extract_text_def parsed_line_def split: if_splits)
next
  case (Some data)
  then have l: "is_data line" "raw_data line \<noteq> []" "raw_data line \<noteq> ''[DONE]''" "loads (raw_data line) = Some data"
    by (auto simp: parsed_line_def split: if_splits)
  have "plain_event data" using assms l by (simp add: plain_line_def)
  then show ?thesis
  proof (cases rule: plain_eventE)
    case (choices m c cs d)
    then have "py_get (JObj c) ''delta'' (JObj []) = Inr (JObj d)" "py_get (JObj c) ''message'' (JObj []) = Inr (JObj [])"
      "jget c ''delta'' = JObj d" by (simp_all add: py_get_def jget_def)
    with choices show ?thesis
      by (simp add: extract_text_def l Some py_first_def event_text_def string_or_empty_falsy jget_def)
  next
    case (none m)
    then show ?thesis
      by (auto simp: extract_text_def l Some event_text_def string_or_empty_falsy)
  qed
qed

lemma no_provider_error:
  assumes "plain_line loads line"
  shows "contains_provider_error loads line = Inr False"
proof (cases "parsed_line loads line")
  case None
  then show ?thesis by (auto simp: contains_provider_error_def parsed_line_def split: if_splits)
next
  case (Some data)
  then have l: "is_data line" "raw_data line \<noteq> []" "raw_data line \<noteq> ''[DONE]''" "loads (raw_data line) = Some data"
    by (auto simp: parsed_line_def split: if_splits)
  have p: "plain_event data" using assms l by (simp add: plain_line_def)
  then obtain m where "data = JObj m" by (cases rule: plain_eventE) auto
  with p l show ?thesis by (simp add: contains_provider_error_def plain_event_def)
qed

lemma py_strip_ends:
  assumes "py_strip s = s" and "s \<noteq> []"
  shows "\<not> py_space (hd s)" and "\<not> py_space (last s)"
proof -
  have r: "rev s = dropWhile py_space (rev (dropWhile py_space s))" using assms(1) by (metis py_strip_def rev_rev_ident)
  then have "\<not> py_space (hd (rev s))" using assms(2) by (metis hd_dropWhile rev_is_Nil_conv)
  then show "\<not> py_space (last s)" using assms(2) by (simp add: hd_rev)
  have "length s \<le> length (dropWhile py_space s)"
    using r length_dropWhile_le [of py_space "rev (dropWhile py_space s)"] by (metis length_rev)
  moreover have "length (takeWhile py_space s) + length (dropWhile py_space s) = length s"
    by (metis length_append takeWhile_dropWhile_id)
  ultimately have "length (takeWhile py_space s) = 0" by linarith
  then show "\<not> py_space (hd s)" using assms(2) by (cases s) (auto split: if_splits)
qed

lemma py_strip_padded:
  assumes "list_all py_space a" and "list_all py_space b" and "py_strip s = s" and "s \<noteq> []"
  shows "py_strip (a @ s @ b) = s"
proof -
  have h: "\<not> py_space (hd s)" "\<not> py_space (last s)" using py_strip_ends [of s] assms(3,4) by auto
  have drop: "dropWhile py_space (u @ x) = x" if "list_all py_space u" "x = [] \<or> \<not> py_space (hd x)" for u x
    using that by (induction u) (cases x; auto)+
  have "dropWhile py_space (a @ s @ b) = s @ b" using assms(1,4) h(1) by (intro drop) simp_all
  moreover have "dropWhile py_space (rev b @ rev s) = rev s"
    using assms(2) h(2) by (intro drop) (simp_all add: hd_rev)
  ultimately show ?thesis by (simp add: py_strip_def)
qed

lemma parsed_sse_line:
  assumes "json_codec loads dumps ok" and "ok v"
  shows "parsed_line loads (sse_line dumps v) = Some v" and "is_data (sse_line dumps v)"
proof -
  have d: "loads (dumps v) = Some v" "py_strip (dumps v) = dumps v" "loads [] = None" "loads ''[DONE]'' = None"
    using assms by (auto simp: json_codec_def)
  then have "dumps v \<noteq> []" "dumps v \<noteq> ''[DONE]''" by (metis option.distinct(1))+
  note d = d this
  have "raw_data (sse_line dumps v) = py_strip ('' '' @ dumps v @ [LF, LF])"
    by (simp add: raw_data_def sse_line_def)
  also have "\<dots> = dumps v"
    by (rule py_strip_padded) (use d in \<open>simp_all add: py_space_def\<close>)
  finally have "raw_data (sse_line dumps v) = dumps v" .
  then show "parsed_line loads (sse_line dumps v) = Some v" "is_data (sse_line dumps v)"
    using d by (simp_all add: parsed_line_def is_data_def sse_line_def starts_with_def)
qed

lemma plain_parsed: "plain_line loads line \<Longrightarrow> parsed_line loads line = Some v \<Longrightarrow> plain_event v"
  by (auto simp: plain_line_def parsed_line_def split: if_splits)

lemma plain_sse_line:
  assumes "json_codec loads dumps ok" and "ok v" and "plain_event v"
  shows "plain_line loads (sse_line dumps v)"
  using parsed_sse_line [OF assms(1,2)] assms(3) by (auto simp: plain_line_def parsed_line_def split: if_splits)

lemma map_of_put_key: "map_of (put_key k v m) = (map_of m)(k \<mapsto> v)"
  by (simp add: put_key_def update_conv')

lemma jget_put_key: "jget (put_key k v m) k' = (if k' = k then v else jget m k')"
  by (simp add: jget_def map_of_put_key)

text \<open>Replacing the content of an event that has text.\<close>

lemma put_content_text:
  assumes "plain_event data" and "event_text data \<noteq> []"
  obtains v where "put_content t data = Inr v" "plain_event v" "event_text v = t"
  using assms(1)
proof (cases rule: plain_eventE)
  case (choices m c cs d)
  let ?v = "JObj (put_key ''choices'' (JList (JObj (put_key ''delta'' (JObj (put_key ''content'' (JStr t) d)) c) # cs)) m)"
  show ?thesis
  proof (rule that [of ?v])
    show "put_content t data = Inr ?v" using choices by (simp add: put_content_def Let_def)
    show "plain_event ?v" using choices assms(1) by (auto simp: plain_event_def jget_put_key map_of_put_key)
    show "event_text ?v = t" by (simp add: event_text_def jget_put_key string_or_empty_def)
  qed
next
  case (none m)
  let ?v = "JObj (put_key ''delta'' (JStr t) m)"
  have k: "jget m ''type'' = JStr ''response.output_text.delta''"
    using assms(2) none by (auto simp: event_text_def split: if_splits)
  show ?thesis
  proof (rule that [of ?v])
    show "put_content t data = Inr ?v" using none by (auto simp: put_content_def Let_def)
    show "plain_event ?v" using none assms(1) by (auto simp: plain_event_def jget_put_key)
    show "event_text ?v = t" using none k by (auto simp: event_text_def jget_put_key string_or_empty_def)
  qed
qed

lemma line_text: "plain_line loads line \<Longrightarrow> extract_text loads line = Inr (text_of_line loads line)"
  by (simp add: extract_parsed text_of_line_def)

lemma text_parsed:
  assumes "plain_line loads line" and "text_of_line loads line \<noteq> []"
  obtains v where "parsed_line loads line = Some v" "event_text v = text_of_line loads line" "plain_event v"
proof (cases "parsed_line loads line")
  case None
  then show ?thesis using assms extract_parsed [OF assms(1)] by (simp add: text_of_line_def)
next
  case (Some v)
  then show ?thesis
    using that [of v] assms extract_parsed [OF assms(1)] plain_parsed [OF assms(1) Some] by (simp add: text_of_line_def)
qed

lemma replace_text:
  assumes codec: "json_codec loads dumps ok" and "plain_line loads line" and "text_of_line loads line \<noteq> []"
  obtains l where "replace_sse_content loads dumps line t = Inr l" "plain_line loads l" "text_of_line loads l = t"
proof -
  obtain data where d: "parsed_line loads line = Some data" "event_text data = text_of_line loads line" "plain_event data"
    by (rule text_parsed [OF assms(2,3)])
  obtain v where v: "put_content t data = Inr v" "plain_event v" "event_text v = t"
    by (rule put_content_text [OF d(3)]) (use d(2) assms(3) in auto)
  have l: "loads (raw_data line) = Some data" using d(1) by (auto simp: parsed_line_def split: if_splits)
  then have "ok v" using codec v(1) unfolding json_codec_def by blast
  show ?thesis
  proof (rule that [of "sse_line dumps v"])
    show "replace_sse_content loads dumps line t = Inr (sse_line dumps v)"
      by (simp add: replace_sse_content_def l v)
    show p: "plain_line loads (sse_line dumps v)" by (rule plain_sse_line [OF codec \<open>ok v\<close> v(2)])
    show "text_of_line loads (sse_line dumps v) = t"
      using line_text [OF p] extract_parsed [OF p] parsed_sse_line [OF codec \<open>ok v\<close>] v(3) by simp
  qed
qed

lemma replace_texts:
  assumes codec: "json_codec loads dumps ok" and "plain_line loads line" and "text_of_line loads line \<noteq> []"
  shows "\<exists>ls. mapE (replace_sse_content loads dumps line) ts = Inr ls \<and> list_all (plain_line loads) ls \<and>
    map (text_of_line loads) ls = ts"
proof (induction ts)
  case (Cons t ts)
  obtain l where "replace_sse_content loads dumps line t = Inr l" "plain_line loads l" "text_of_line loads l = t"
    by (rule replace_text [OF assms])
  with Cons show ?case by auto
qed simp

lemma concat_sliced: "0 < n \<Longrightarrow> concat (sliced n xs) = xs"
proof (induction n xs rule: sliced.induct)
  case (1 n xs)
  show ?case
  proof (cases "xs = []")
    case True
    then show ?thesis by (simp add: sliced.simps)
  next
    case False
    with 1 show ?thesis by (subst sliced.simps) simp
  qed
qed

text \<open>A line is split into events with the slices of its text, or passed on as it is when there is
  at most one.\<close>

lemma split_content_text:
  assumes "plain_event data"
  shows "split_content data = Inr (Some (event_text data)) \<or> (event_text data = [] \<and> split_content data = Inr None)"
  using assms by (cases rule: plain_eventE)
    (auto simp: split_content_def event_text_def py_first_def py_get_def jget_def string_or_empty_def split: json.splits if_splits)

lemma text_slices_Nil [simp]: "text_slices [] n unit = []"
  by (simp add: text_slices_def sliced.simps find_words.simps)

lemma split_pieces:
  assumes codec: "json_codec loads dumps ok" and plain: "plain_line loads line" and unit: "unit \<noteq> CHUNK"
  shows "let ts = text_slices (text_of_line loads line) n unit; out = split_sse_content loads dumps line n unit
    in list_all (plain_line loads) out \<and> (if length ts \<le> 1 then out = [line] else map (text_of_line loads) out = ts)"
proof -
  let ?t = "text_of_line loads line" and ?out = "split_sse_content loads dumps line n unit"
  show ?thesis
  proof (cases "parsed_line loads line")
    case None
    then have "?t = []" using extract_parsed [OF plain] by (simp add: text_of_line_def)
    moreover have "\<not> is_data line \<or> loads (raw_data line) = None"
      using None codec by (auto simp: parsed_line_def json_codec_def split: if_splits)
    then have "?out = [line]" by (auto simp: split_sse_content_def)
    ultimately show ?thesis using plain by simp
  next
    case (Some data)
    then have d: "is_data line" "loads (raw_data line) = Some data" by (auto simp: parsed_line_def split: if_splits)
    have ev: "plain_event data" by (rule plain_parsed [OF plain Some])
    have t: "?t = event_text data" using extract_parsed [OF plain] Some by (simp add: text_of_line_def)
    show ?thesis
    proof (cases "length (text_slices ?t n unit) \<le> 1")
      case True
      then have "?out = [line]"
        using split_content_text [OF ev] unit by (auto simp: split_sse_content_def d t Let_def)
      with True plain show ?thesis by simp
    next
      case False
      then have ne: "?t \<noteq> []" by auto
      then have c: "split_content data = Inr (Some ?t)" using split_content_text [OF ev] t by simp
      have again: "loads (dumps data) = Some data" using codec d(2) unfolding json_codec_def by blast
      have "mapE (\<lambda>t. case loads (dumps data) of None \<Rightarrow> Inl (ValueError ''json'')
            | Some clone \<Rightarrow> bindE (put_content t clone) (\<lambda>v. Inr (sse_line dumps v))) ts =
          mapE (replace_sse_content loads dumps line) ts" for ts
        by (rule mapE_cong) (simp add: replace_sse_content_def d(2) again)
      then obtain ls where "?out = ls" "list_all (plain_line loads) ls" "map (text_of_line loads) ls = text_slices ?t n unit"
        using replace_texts [OF codec plain ne, of "text_slices ?t n unit"] False unit
        by (auto simp: split_sse_content_def d c Let_def)
      then show ?thesis using False by simp
    qed
  qed
qed

text \<open>Splitting by characters loses nothing; splitting by words loses the white space at the front.\<close>

lemma split_text:
  assumes codec: "json_codec loads dumps ok" and plain: "plain_line loads line" and n: "0 < n"
  shows "list_all (plain_line loads) (split_sse_content loads dumps line n CHARACTER) \<and>
    text_of_lines loads (split_sse_content loads dumps line n CHARACTER) = text_of_line loads line"
  using split_pieces [OF codec plain, of CHARACTER n] concat_sliced [of "nat n" "text_of_line loads line"] n
  by (auto simp: text_slices_def text_of_lines_def Let_def split: if_splits)

lemma length_sliced: "0 < n \<Longrightarrow> length (sliced n xs) \<le> 1 \<longleftrightarrow> length xs \<le> n"
proof -
  assume n: "0 < n"
  have e: "sliced n ys = [] \<longleftrightarrow> ys = []" for ys :: "'a list" using n by (subst sliced.simps) simp
  show ?thesis using n e [of "drop n xs"] by (subst sliced.simps) auto
qed

lemma split_words:
  assumes codec: "json_codec loads dumps ok" and plain: "plain_line loads line" and n: "0 < n"
  shows "text_of_lines loads (split_sse_content loads dumps line n WORD) =
    (if length (find_words (text_of_line loads line)) \<le> nat n then text_of_line loads line
     else dropWhile py_space (text_of_line loads line))"
proof -
  let ?t = "text_of_line loads line"
  have "concat (map concat xss) = concat (concat xss)" for xss :: "string list list"
    by (induction xss) simp_all
  then have "concat (map concat (sliced (nat n) (find_words ?t))) = concat (concat (sliced (nat n) (find_words ?t)))" .
  also have "\<dots> = dropWhile py_space ?t" using n by (simp add: concat_sliced concat_find_words)
  finally show ?thesis
    using split_pieces [OF codec plain, of WORD n] length_sliced [of "nat n" "find_words ?t"] n
    by (auto simp: text_slices_def text_of_lines_def Let_def split: if_splits)
qed

subsection \<open>What the steps leave alone\<close>

lemma emitted_lines_append [simp]: "emitted_lines (xs @ ys) = emitted_lines xs @ emitted_lines ys"
  by (simp add: emitted_lines_def)

lemma emitted_lines_Cons [simp]:
  "emitted_lines [] = []" "emitted_lines (Emit l # acts) = l # emitted_lines acts"
  "emitted_lines (Sleep w # acts) = emitted_lines acts" "emitted_lines (Update n f # acts) = emitted_lines acts"
  "emitted_lines (Close # acts) = emitted_lines acts"
  by (simp_all add: emitted_lines_def)

abbreviation sent :: "stream_state \<Rightarrow> string list" where
  "sent st \<equiv> emitted_lines (ss_actions st)"

text \<open>A step that only records or waits.\<close>

definition quiet :: "stream_state \<Rightarrow> stream_state \<Rightarrow> bool" where
  "quiet st st' \<longleftrightarrow> sent st' = sent st \<and> ss_buffered st' = ss_buffered st \<and> ss_slow_buffer st' = ss_slow_buffer st \<and>
     ss_terminal_buffer st' = ss_terminal_buffer st \<and> ss_received_text st' = ss_received_text st \<and>
     ss_chunker st' = ss_chunker st"

lemma quiet_trans [trans]: "quiet a b \<Longrightarrow> quiet b c \<Longrightarrow> quiet a c"
  by (simp add: quiet_def)

lemma quiet_refl [simp]: "quiet st st"
  by (simp add: quiet_def)

lemma quiet_update [simp]: "quiet st (update e f st)"
  by (simp add: quiet_def update_def time_ns_def act_def)

lemma quiet_update_timed [simp]: "quiet st (update_timed e f st)"
  by (simp add: quiet_def update_timed_def update_def time_ns_def act_def)

lemma quiet_sleep [simp]: "quiet st (act (Sleep w) st)" "quiet st (sleep_until e w st)"
  by (simp_all add: quiet_def sleep_until_def monotonic_def act_def)

lemma quiet_note_first [simp]: "quiet st (note_first_text e st)"
  by (simp add: quiet_def note_first_text_def monotonic_def update_def time_ns_def act_def Let_def)

lemma quiet_cursor [simp]: "quiet st (advance_cursor e t st)"
  by (simp add: quiet_def advance_cursor_def update_def time_ns_def act_def Let_def)

lemma quiet_wait_delay [simp]: "quiet st (wait_delay e st)"
  by (simp add: wait_delay_def split: option.split) (metis quiet_sleep(2) quiet_trans quiet_update_timed)

lemma quiet_fields:
  assumes "quiet st st'"
  shows "sent st' = sent st" "ss_buffered st' = ss_buffered st" "ss_slow_buffer st' = ss_slow_buffer st"
    "ss_terminal_buffer st' = ss_terminal_buffer st" "ss_received_text st' = ss_received_text st"
    "ss_chunker st' = ss_chunker st"
  using assms by (simp_all add: quiet_def)

lemma emit_fields [simp]:
  "sent (emit l st) = sent st @ [l]" "ss_buffered (emit l st) = ss_buffered st"
  "ss_slow_buffer (emit l st) = ss_slow_buffer st" "ss_terminal_buffer (emit l st) = ss_terminal_buffer st"
  "ss_received_text (emit l st) = ss_received_text st" "ss_chunker (emit l st) = ss_chunker st"
  by (simp_all add: emit_def act_def)

lemma emit_all_sent [simp]: "sent (emit_all ls st) = sent st @ ls"
  by (induction ls arbitrary: st) (simp_all add: emit_all_def)

lemma open_stream_fields [simp]:
  "sent (open_stream e) = []" "ss_buffered (open_stream e) = []" "ss_slow_buffer (open_stream e) = []"
  "ss_terminal_buffer (open_stream e) = []" "ss_received_text (open_stream e) = []"
  "ss_chunker (open_stream e) = ss_chunker (initial_state e)"
  by (simp_all add: open_stream_def update_timed_def update_def time_ns_def act_def initial_state_def Let_def)

subsection \<open>Lines that are passed on at once\<close>

lemma emit_split_sends:
  assumes "list_all (plain_line (sv_loads e)) ls"
  shows "\<exists>st'. emit_split e ls st = (Inr (), st') \<and> sent st' = sent st @ ls \<and>
    ss_terminal_buffer st' = ss_terminal_buffer st \<and> ss_buffered st' = ss_buffered st \<and>
    ss_slow_buffer st' = ss_slow_buffer st \<and> ss_received_text st' = ss_received_text st \<and> ss_chunker st' = ss_chunker st"
  using assms
proof (induction ls arbitrary: st)
  case (Cons l ls)
  let ?t = "text_of_line (sv_loads e) l"
  define s1 where "s1 = (if ?t = [] then st
                    else if \<not> ss_first_emit st
                    then update_timed e (\<lambda>now r. r\<lparr>lr_server_first_emit_at := Some now\<rparr>) (st\<lparr>ss_first_emit := True\<rparr>)
                    else if rt_mode (sv_timing e) = FAST
                    then act (Sleep (fast_wait (sv_timing e) ?t)) st
                    else st)"
  have "quiet st (st\<lparr>ss_first_emit := True\<rparr>)" by (simp add: quiet_def)
  then have q: "quiet st s1" unfolding s1_def
    by (auto intro: quiet_trans)
  have "emit_split e (l # ls) st = emit_split e ls (emit l s1)"
    using Cons.prems by (simp add: line_text s1_def Let_def)
  with Cons.IH [of "emit l s1"] Cons.prems show ?case using quiet_fields [OF q] by auto
qed simp

definition is_terminal :: "(string \<Rightarrow> json option) \<Rightarrow> string \<Rightarrow> bool" where
  "is_terminal loads line \<longleftrightarrow> terminal_event loads line = Inr True"

lemma plain_terminal: "plain_line loads line \<Longrightarrow> terminal_event loads line = Inr (is_terminal loads line)"
  by (auto simp: is_terminal_def terminal_event_def plain_line_def plain_event_def split: option.splits json.splits)

lemma on_line_passes:
  assumes "plain_line (sv_loads e) line" and "json_codec (sv_loads e) (sv_dumps e) ok"
    and "rt_mode (sv_timing e) \<noteq> DELAYED" and "target_duration_mode (sv_timing e) \<longrightarrow>
      text_of_line (sv_loads e) line = [] \<and> \<not> is_terminal (sv_loads e) line"
    and "split_unit (sv_timing e) = CHARACTER" and "0 < split_size (sv_timing e)"
  shows "\<exists>st' ls. on_line e line st = (Inr False, st') \<and> sent st' = sent st @ ls \<and>
    text_of_lines (sv_loads e) ls = text_of_line (sv_loads e) line \<and>
    ss_terminal_buffer st' = ss_terminal_buffer st \<and> ss_buffered st' = ss_buffered st \<and>
    ss_slow_buffer st' = ss_slow_buffer st \<and> ss_received_text st' = ss_received_text st \<and> ss_chunker st' = ss_chunker st"
proof -
  let ?ls = "split_sse_content (sv_loads e) (sv_dumps e) line (split_size (sv_timing e)) CHARACTER"
  define s1 where "s1 = (if text_of_line (sv_loads e) line \<noteq> [] \<and> ss_first_received st = None
      then note_first_text e st else st)"
  have q: "quiet st s1" by (simp add: s1_def)
  have split: "list_all (plain_line (sv_loads e)) ?ls"
    "text_of_lines (sv_loads e) ?ls = text_of_line (sv_loads e) line"
    using split_text [OF assms(2,1,6)] by auto
  obtain s2 where s2: "emit_split e ?ls s1 = (Inr (), s2)" "sent s2 = sent s1 @ ?ls"
    "ss_terminal_buffer s2 = ss_terminal_buffer s1" "ss_buffered s2 = ss_buffered s1"
    "ss_slow_buffer s2 = ss_slow_buffer s1" "ss_received_text s2 = ss_received_text s1" "ss_chunker s2 = ss_chunker s1"
    using emit_split_sends [OF split(1), of s1] by blast
  have "on_line e line st = (Inr False, s2)"
    using assms(3,4) s2(1) by (auto simp: on_line_def no_provider_error [OF assms(1)] line_text [OF assms(1)] plain_terminal [OF assms(1)] assms(5) s1_def Let_def)
  with s2 quiet_fields [OF q] split(2) show ?thesis by auto
qed

lemma receive_passes:
  assumes "\<forall>line \<in> set lines. plain_line (sv_loads e) line" and "json_codec (sv_loads e) (sv_dumps e) ok"
    and "rt_mode (sv_timing e) \<noteq> DELAYED" and "\<not> target_duration_mode (sv_timing e)"
    and "split_unit (sv_timing e) = CHARACTER" and "0 < split_size (sv_timing e)"
  shows "\<exists>st'. receive e lines st = (Inr False, st') \<and>
    text_of_lines (sv_loads e) (sent st') = text_of_lines (sv_loads e) (sent st @ lines)"
  using assms(1)
proof (induction lines arbitrary: st)
  case (Cons l ls)
  obtain st1 xs where s1: "on_line e l st = (Inr False, st1)" "sent st1 = sent st @ xs"
    "text_of_lines (sv_loads e) xs = text_of_line (sv_loads e) l"
    using on_line_passes [of e l ok st] Cons.prems assms(2-6) by auto
  obtain st2 where "receive e ls st1 = (Inr False, st2)"
    "text_of_lines (sv_loads e) (sent st2) = text_of_lines (sv_loads e) (sent st1 @ ls)"
    using Cons.IH [of st1] Cons.prems by auto
  with s1 show ?case by auto
qed simp

subsection \<open>Lines that are kept for a delayed reveal\<close>

lemma receive_keeps:
  assumes "\<forall>line \<in> set lines. plain_line (sv_loads e) line" and "rt_mode (sv_timing e) = DELAYED"
  shows "\<exists>st'. receive e lines st = (Inr False, st') \<and>
    sent st' = sent st @ filter (\<lambda>l. text_of_line (sv_loads e) l = [] \<and> \<not> is_terminal (sv_loads e) l) lines \<and>
    ss_buffered st' = ss_buffered st @ filter (\<lambda>l. text_of_line (sv_loads e) l \<noteq> []) lines \<and>
    ss_terminal_buffer st' = ss_terminal_buffer st @
      filter (\<lambda>l. text_of_line (sv_loads e) l = [] \<and> is_terminal (sv_loads e) l) lines"
  using assms(1)
proof (induction lines arbitrary: st)
  case (Cons l ls)
  let ?t = "text_of_line (sv_loads e) l"
  define s1 where "s1 = (if ?t \<noteq> [] \<and> ss_first_received st = None then note_first_text e st else st)"
  have q: "quiet st s1" by (simp add: s1_def)
  define s2 where "s2 = (if ?t \<noteq> [] then s1\<lparr>ss_buffered := ss_buffered s1 @ [l]\<rparr>
      else if is_terminal (sv_loads e) l then s1\<lparr>ss_terminal_buffer := ss_terminal_buffer s1 @ [l]\<rparr>
      else emit l s1)"
  have pl: "plain_line (sv_loads e) l" using Cons.prems by simp
  have "on_line e l st = (Inr False, s2)"
    by (simp add: on_line_def no_provider_error [OF pl] line_text [OF pl] plain_terminal [OF pl] assms(2) s1_def [symmetric] s2_def Let_def)
  moreover obtain s3 where "receive e ls s2 = (Inr False, s3) \<and>
    sent s3 = sent s2 @ filter (\<lambda>l. text_of_line (sv_loads e) l = [] \<and> \<not> is_terminal (sv_loads e) l) ls \<and>
    ss_buffered s3 = ss_buffered s2 @ filter (\<lambda>l. text_of_line (sv_loads e) l \<noteq> []) ls \<and>
    ss_terminal_buffer s3 = ss_terminal_buffer s2 @
      filter (\<lambda>l. text_of_line (sv_loads e) l = [] \<and> is_terminal (sv_loads e) l) ls"
    using Cons.IH [of s2] Cons.prems by auto
  ultimately show ?case using quiet_fields [OF q] by (auto simp: s2_def)
qed simp

lemma reveal_quickly_sends:
  assumes "list_all (plain_line (sv_loads e)) ls"
  shows "\<exists>st'. reveal_quickly e ls st = (Inr (), st') \<and> sent st' = sent st @ ls \<and>
    ss_terminal_buffer st' = ss_terminal_buffer st"
  using assms
proof (induction ls arbitrary: st)
  case (Cons l ls)
  let ?t = "text_of_line (sv_loads e) l"
  define s1 where "s1 = (if ?t \<noteq> [] \<and> \<not> ss_first_emit st
                    then update_timed e (\<lambda>now r. r\<lparr>lr_server_first_emit_at := Some now\<rparr>) (st\<lparr>ss_first_emit := True\<rparr>)
                    else if ?t \<noteq> [] \<and> rt_reveal_style (sv_timing e) = QUICK_STREAM
                    then act (Sleep (of_nat (length ?t) / 500)) st
                    else st)"
  have "quiet st (st\<lparr>ss_first_emit := True\<rparr>)" by (simp add: quiet_def)
  then have q: "quiet st s1" unfolding s1_def by (auto intro: quiet_trans)
  have q': "quiet (emit l s1) (advance_cursor e ?t (emit l s1))" by simp
  have "reveal_quickly e (l # ls) st = reveal_quickly e ls (advance_cursor e ?t (emit l s1))"
    using Cons.prems by (simp add: line_text s1_def Let_def)
  with Cons.IH [of "advance_cursor e ?t (emit l s1)"] Cons.prems show ?case
    using quiet_fields [OF q] quiet_fields [OF q'] by auto
qed simp

lemma mapE_texts:
  assumes "list_all (plain_line loads) ls"
  shows "mapE (extract_text loads) ls = Inr (map (text_of_line loads) ls)"
  using assms by (induction ls) (simp_all add: line_text)

lemma quick_pieces_text:
  assumes "list_all (plain_line (sv_loads e)) ls" and "json_codec (sv_loads e) (sv_dumps e) ok"
    and "0 < rt_maximum_chunk_size (sv_timing e)"
  shows "list_all (plain_line (sv_loads e)) (concat (map (quick_pieces e) ls)) \<and>
    text_of_lines (sv_loads e) (concat (map (quick_pieces e) ls)) = text_of_lines (sv_loads e) ls"
  using assms(1)
proof (induction ls)
  case (Cons l ls)
  then show ?case using split_text [OF assms(2) _ assms(3), of l] by (auto simp: quick_pieces_def)
qed simp

lemma reveal_delayed_sends:
  assumes "list_all (plain_line (sv_loads e)) (ss_buffered st)" and "json_codec (sv_loads e) (sv_dumps e) ok"
    and "0 < rt_maximum_chunk_size (sv_timing e)"
  shows "\<exists>st' ls. reveal_after_delay e st = (Inr (), st') \<and> sent st' = sent st @ ls @ ss_terminal_buffer st \<and>
    ls = concat (map (quick_pieces e) (ss_buffered st)) \<and>
    text_of_lines (sv_loads e) ls = text_of_lines (sv_loads e) (ss_buffered st)"
proof -
  let ?texts = "map (text_of_line (sv_loads e)) (ss_buffered st)"
  let ?u = "update e (\<lambda>r. r\<lparr>lr_buffered := True, lr_buffered_output := Some (content_json (concat ?texts)),
                     lr_reveal_cursor := 0\<rparr>) st"
  define s1 where "s1 = (wait_delay e ?u)\<lparr>ss_reveal_cursor := 0, ss_reveal_checkpoint := 0\<rparr>"
  have "quiet (wait_delay e ?u) s1" by (simp add: s1_def quiet_def)
  moreover have "quiet st (wait_delay e ?u)" using quiet_trans [OF quiet_update quiet_wait_delay] .
  ultimately have q: "quiet st s1" by (rule quiet_trans [rotated])
  define ls where "ls = concat (map (quick_pieces e) (ss_buffered st))"
  have ls: "list_all (plain_line (sv_loads e)) ls" "text_of_lines (sv_loads e) ls = text_of_lines (sv_loads e) (ss_buffered st)"
    unfolding ls_def using quick_pieces_text [OF assms] by auto
  obtain s2 where s2: "reveal_quickly e ls s1 = (Inr (), s2)" "sent s2 = sent s1 @ ls"
    "ss_terminal_buffer s2 = ss_terminal_buffer s1"
    using reveal_quickly_sends [OF ls(1), of s1] by blast
  define s3 where "s3 = update e (\<lambda>r. r\<lparr>lr_reveal_cursor := int (length (concat ?texts))\<rparr>) s2"
  have q3: "quiet s2 s3" by (simp add: s3_def)
  have "reveal_after_delay e st = (Inr (), emit_all (ss_terminal_buffer s2) s3)"
    using s2(1) quiet_fields(2) [OF quiet_trans [OF quiet_update quiet_wait_delay], of e]
    by (simp add: reveal_after_delay_def mapE_texts [OF assms(1)] s1_def ls_def s3_def Let_def)
  with s2 ls ls_def quiet_fields [OF q] quiet_fields [OF q3] show ?thesis by auto
qed

subsection \<open>Lines that are cut for a target duration\<close>

definition template_ok :: "(string \<Rightarrow> json option) \<Rightarrow> chunker \<Rightarrow> bool" where
  "template_ok loads c =
     (case ck_template c of None \<Rightarrow> True | Some l \<Rightarrow> plain_line loads l \<and> text_of_line loads l \<noteq> [])"

definition text_events :: "(string \<Rightarrow> json option) \<Rightarrow> string list \<Rightarrow> (string \<times> string) list" where
  "text_events loads lines = map (\<lambda>l. (l, text_of_line loads l)) (filter (\<lambda>l. text_of_line loads l \<noteq> []) lines)"

lemma drain_template: "ck_template (snd (drain_contents sha final c)) = ck_template c"
proof (induction sha final c rule: drain_contents.induct)
  case (1 sha final c)
  show ?case
  proof (cases "take_content sha final c")
    case None
    then show ?thesis by (simp add: drain_contents.simps)
  next
    case (Some x)
    then obtain t c' where x: "take_content sha final c = Some (t, c')" by force
    then have "ck_template c' = ck_template c"
      by (auto simp: take_content_def Let_def split: stream_unit.splits if_splits)
    moreover have "ck_template (snd (drain_contents sha final (c'\<lparr>ck_index := ck_index c' + 1\<rparr>))) = ck_template c'"
      using "1.IH" [OF x refl] by simp
    ultimately show ?thesis
      by (subst drain_contents.simps) (auto simp: x split: prod.split)
  qed
qed

lemma drain_chunks_text:
  assumes "json_codec loads dumps ok" and "template_ok loads c" and "ck_template c \<noteq> None"
    and "drain_contents sha final c = (ts, d)"
  shows "\<exists>ls. drain_chunks loads dumps sha final c = Inr (ls, d) \<and> list_all (plain_line loads) ls \<and>
    map (text_of_line loads) ls = ts \<and> template_ok loads d \<and> ck_template d \<noteq> None"
proof -
  obtain l where l: "ck_template c = Some l" "plain_line loads l" "text_of_line loads l \<noteq> []"
    using assms(2,3) by (auto simp: template_ok_def)
  obtain ls where "mapE (replace_sse_content loads dumps l) ts = Inr ls" "list_all (plain_line loads) ls"
    "map (text_of_line loads) ls = ts"
    using replace_texts [OF assms(1) l(2,3)] by blast
  moreover have "ck_template d = Some l" using drain_template [of sha final c] assms(4) l(1) by simp
  ultimately show ?thesis using l by (simp add: drain_chunks_def assms(4) template_ok_def)
qed

lemma feed_text:
  assumes "json_codec loads dumps ok" and "template_ok loads c" and "plain_line loads line"
    and "text_of_line loads line \<noteq> []"
    and "drain_contents sha False (accept_text line (text_of_line loads line) c) = (ts, d)"
  shows "\<exists>ls. chunker_feed loads dumps sha line c = Inr (ls, d) \<and> list_all (plain_line loads) ls \<and>
    map (text_of_line loads) ls = ts \<and> template_ok loads d"
proof -
  have "template_ok loads (accept_text line (text_of_line loads line) c)"
    "ck_template (accept_text line (text_of_line loads line) c) \<noteq> None"
    using assms(2-4) by (auto simp: template_ok_def accept_text_def Let_def split: option.splits)
  from drain_chunks_text [OF assms(1) this assms(5)] show ?thesis
    using assms(4) by (auto simp: chunker_feed_def line_text [OF assms(3)])
qed

lemma split_unit_target: "target_duration_mode t \<Longrightarrow> split_unit t = CHARACTER"
  by (auto simp: target_duration_mode_def split_unit_def)

lemma buffer_pieces_fields:
  "sent (buffer_pieces e t ps c st) = sent st" "ss_slow_buffer (buffer_pieces e t ps c st) = ss_slow_buffer st @ ps"
  "ss_terminal_buffer (buffer_pieces e t ps c st) = ss_terminal_buffer st" "ss_chunker (buffer_pieces e t ps c st) = c"
  "ss_received_text (buffer_pieces e t ps c st) = ss_received_text st @ [t]"
  by (simp_all add: buffer_pieces_def update_def time_ns_def act_def Let_def)

lemma receive_cuts:
  assumes "\<forall>line \<in> set lines. plain_line (sv_loads e) line" and "json_codec (sv_loads e) (sv_dumps e) ok"
    and "target_duration_mode (sv_timing e)" and "0 < split_size (sv_timing e)" and "template_ok (sv_loads e) (ss_chunker st)"
    and "feed_contents (sv_sha e) (text_events (sv_loads e) lines) (ss_chunker st) = (cs, d)"
  shows "\<exists>st' ps. receive e lines st = (Inr False, st') \<and> ss_chunker st' = d \<and> template_ok (sv_loads e) d \<and>
    ss_slow_buffer st' = ss_slow_buffer st @ ps \<and> list_all (plain_line (sv_loads e)) ps \<and>
    map (text_of_line (sv_loads e)) ps = cs \<and>
    text_of_lines (sv_loads e) (sent st') = text_of_lines (sv_loads e) (sent st) \<and>
    text_of_lines (sv_loads e) (ss_terminal_buffer st') = text_of_lines (sv_loads e) (ss_terminal_buffer st) \<and>
    ss_received_text st' = ss_received_text st @ map snd (text_events (sv_loads e) lines)"
  using assms(1,5,6)
proof (induction lines arbitrary: st cs)
  case Nil
  then show ?case by (auto simp: text_events_def)
next
  case (Cons l ls)
  let ?L = "sv_loads e"
  let ?t = "text_of_line ?L l"
  have pl: "plain_line ?L l" and pls: "\<forall>line \<in> set ls. plain_line ?L line" using Cons.prems(1) by auto
  have nd: "rt_mode (sv_timing e) \<noteq> DELAYED" using assms(3) by (auto simp: target_duration_mode_def)
  show ?case
  proof (cases "?t = []")
    case False
    define s1 where "s1 = (if ss_first_received st = None then note_first_text e st else st)"
    have q: "quiet st s1" by (simp add: s1_def)
    obtain ts c1 where dr: "drain_contents (sv_sha e) False (accept_text l ?t (ss_chunker st)) = (ts, c1)" by force
    obtain cs' where fc: "feed_contents (sv_sha e) (text_events ?L ls) c1 = (cs', d)" "cs = ts @ cs'"
      using Cons.prems(3) False dr by (auto simp: text_events_def split: prod.splits)
    obtain ps where ps: "chunker_feed ?L (sv_dumps e) (sv_sha e) l (ss_chunker st) = Inr (ps, c1)"
      "list_all (plain_line ?L) ps" "map (text_of_line ?L) ps = ts" "template_ok ?L c1"
      using feed_text [OF assms(2) Cons.prems(2) pl False dr] by blast
    define s2 where "s2 = buffer_pieces e ?t ps c1 s1"
    have "on_line e l st = (Inr False, s2)"
      using ps(1) False assms(3) nd quiet_fields(6) [OF q]
      by (simp add: on_line_def no_provider_error [OF pl] line_text [OF pl] plain_terminal [OF pl] s1_def [symmetric] s2_def Let_def)
    moreover have "template_ok ?L (ss_chunker s2)" using ps(4) by (simp add: s2_def buffer_pieces_fields)
    then obtain s3 qs where "receive e ls s2 = (Inr False, s3)" "ss_chunker s3 = d" "template_ok ?L d"
      "ss_slow_buffer s3 = ss_slow_buffer s2 @ qs" "list_all (plain_line ?L) qs" "map (text_of_line ?L) qs = cs'"
      "text_of_lines ?L (sent s3) = text_of_lines ?L (sent s2)"
      "text_of_lines ?L (ss_terminal_buffer s3) = text_of_lines ?L (ss_terminal_buffer s2)"
      "ss_received_text s3 = ss_received_text s2 @ map snd (text_events ?L ls)"
      using Cons.IH [OF pls, of s2 cs'] fc(1) by (auto simp: s2_def buffer_pieces_fields)
    ultimately show ?thesis
      using ps(2,3) fc(2) False quiet_fields [OF q]
      by (intro exI [of _ s3] exI [of _ "ps @ qs"]) (simp add: s2_def buffer_pieces_fields text_events_def)
  next
    case True
    have step: "\<exists>s2. on_line e l st = (Inr False, s2) \<and> text_of_lines ?L (sent s2) = text_of_lines ?L (sent st) \<and>
        text_of_lines ?L (ss_terminal_buffer s2) = text_of_lines ?L (ss_terminal_buffer st) \<and>
        ss_slow_buffer s2 = ss_slow_buffer st \<and> ss_received_text s2 = ss_received_text st \<and> ss_chunker s2 = ss_chunker st"
    proof (cases "is_terminal ?L l")
      case T: True
      have "on_line e l st = (Inr False, st\<lparr>ss_terminal_buffer := ss_terminal_buffer st @ [l]\<rparr>)"
        using True T assms(3) nd by (simp add: on_line_def no_provider_error [OF pl] line_text [OF pl] plain_terminal [OF pl] Let_def)
      then show ?thesis using True by auto
    next
      case False
      then show ?thesis
        using on_line_passes [OF pl assms(2) nd _ split_unit_target [OF assms(3)] assms(4), of st] True by auto
    qed
    then obtain s2 where s2: "on_line e l st = (Inr False, s2)" "text_of_lines ?L (sent s2) = text_of_lines ?L (sent st)"
      "text_of_lines ?L (ss_terminal_buffer s2) = text_of_lines ?L (ss_terminal_buffer st)"
      "ss_slow_buffer s2 = ss_slow_buffer st" "ss_received_text s2 = ss_received_text st" "ss_chunker s2 = ss_chunker st"
      by blast
    have ev: "text_events ?L (l # ls) = text_events ?L ls" using True by (simp add: text_events_def)
    show ?thesis using Cons.IH [OF pls, of s2 cs] Cons.prems(2,3) s2 by (simp add: ev)
  qed
qed

lemma halve_single_text:
  assumes "json_codec (sv_loads e) (sv_dumps e) ok" and "list_all (plain_line (sv_loads e)) ps"
  shows "\<exists>qs. halve_single e ps = Inr qs \<and> list_all (plain_line (sv_loads e)) qs \<and>
    text_of_lines (sv_loads e) qs = text_of_lines (sv_loads e) ps"
proof (cases "\<exists>l. ps = [l] \<and> 1 < length (text_of_line (sv_loads e) l)")
  case True
  then obtain l where l: "ps = [l]" "1 < length (text_of_line (sv_loads e) l)" by blast
  let ?t = "text_of_line (sv_loads e) l"
  define k where "k = max 1 (length ?t div 2)"
  have pl: "plain_line (sv_loads e) l" using assms(2) l(1) by simp
  have ne: "?t \<noteq> []" using l(2) by auto
  obtain a where a: "replace_sse_content (sv_loads e) (sv_dumps e) l (take k ?t) = Inr a"
    "plain_line (sv_loads e) a" "text_of_line (sv_loads e) a = take k ?t"
    by (rule replace_text [OF assms(1) pl ne])
  obtain b where b: "replace_sse_content (sv_loads e) (sv_dumps e) l (drop k ?t) = Inr b"
    "plain_line (sv_loads e) b" "text_of_line (sv_loads e) b = drop k ?t"
    by (rule replace_text [OF assms(1) pl ne])
  have "halve_single e ps = Inr [a, b]"
    using l a(1) b(1) by (simp add: halve_single_def line_text [OF pl] plain_terminal [OF pl] k_def Let_def)
  with a(2,3) b(2,3) l(1) show ?thesis by simp
next
  case False
  then have "halve_single e ps = Inr ps"
    using assms(2) by (auto simp: halve_single_def line_text split: list.split)
  with assms(2) show ?thesis by simp
qed

lemma reveal_pieces_sends:
  assumes "list_all (plain_line (sv_loads e)) (map fst ps)"
  shows "\<exists>st'. reveal_pieces e started duration total_weight cumulative ps st = (Inr (), st') \<and>
    sent st' = sent st @ map fst ps \<and> ss_terminal_buffer st' = ss_terminal_buffer st"
  using assms
proof (induction ps arbitrary: st cumulative)
  case (Cons p ps)
  obtain l w where p: "p = (l, w)" by force
  let ?c = "cumulative + w"
  define s1 where "s1 = sleep_until e (started + duration * (?c / max total_weight 1)) st"
  define s2 where "s2 = advance_cursor e (text_of_line (sv_loads e) l) (emit l s1)"
  have q: "quiet st s1" "quiet (emit l s1) s2" by (simp_all add: s1_def s2_def)
  have "reveal_pieces e started duration total_weight cumulative (p # ps) st =
      reveal_pieces e started duration total_weight ?c ps s2"
    using Cons.prems by (simp add: p line_text s1_def s2_def Let_def)
  with Cons.IH [of ?c s2] Cons.prems show ?case
    using quiet_fields [OF q(1)] quiet_fields [OF q(2)] by (auto simp: p)
qed simp

lemma first_piece_sends:
  assumes "list_all (plain_line (sv_loads e)) ps"
  shows "\<exists>st'. first_piece e ps st = (Inr (tl ps), st') \<and> sent st' = sent st @ take 1 ps \<and>
    ss_terminal_buffer st' = ss_terminal_buffer st \<and> ss_received_text st' = ss_received_text st"
  using assms by (cases ps)
    (simp_all add: first_piece_def monotonic_def emit_def act_def update_timed_def update_def time_ns_def line_text Let_def)

lemma reveal_target_sends:
  assumes "list_all (plain_line (sv_loads e)) (ss_slow_buffer st @ ps)" and "json_codec (sv_loads e) (sv_dumps e) ok"
    and "chunker_flush (sv_loads e) (sv_dumps e) (sv_sha e) (ss_chunker st) = Inr (ps, c)"
  shows "\<exists>st' ls. reveal_over_duration e st = (Inr (), st') \<and> sent st' = sent st @ ls @ ss_terminal_buffer st \<and>
    text_of_lines (sv_loads e) ls = text_of_lines (sv_loads e) (ss_slow_buffer st @ ps)"
proof -
  let ?L = "sv_loads e"
  obtain qs where qs: "halve_single e (ss_slow_buffer st @ ps) = Inr qs" "list_all (plain_line ?L) qs"
    "text_of_lines ?L qs = text_of_lines ?L (ss_slow_buffer st @ ps)"
    using halve_single_text [OF assms(2,1)] by blast
  obtain s1 where s1: "first_piece e qs st = (Inr (tl qs), s1)" "sent s1 = sent st @ take 1 qs"
    "ss_terminal_buffer s1 = ss_terminal_buffer st"
    using first_piece_sends [OF qs(2), of st] by blast
  let ?full = "concat (ss_received_text s1)"
  define s2 where "s2 = store_full_text e ?full s1"
  have q2: "quiet s1 s2" by (simp add: s2_def store_full_text_def Let_def)
  obtain started s3 where s3: "reveal_start e s2 = (started, s3)" by force
  then have q3: "quiet s2 s3" by (auto simp: reveal_start_def monotonic_def quiet_def split: option.splits if_splits)
  have tl: "list_all (plain_line ?L) (tl qs)" using qs(2) by (cases qs) auto
  define ws where "ws = map (piece_weight (sv_timing e)) (map (text_of_line ?L) (tl qs))"
  have z: "map fst (zip (tl qs) ws) = tl qs" by (simp add: ws_def)
  obtain s4 where s4: "reveal_pieces e started (or_zero (rt_target_duration_seconds (sv_timing e))) (sum_list ws) 0
      (zip (tl qs) ws) s3 = (Inr (), s4)" "sent s4 = sent s3 @ tl qs" "ss_terminal_buffer s4 = ss_terminal_buffer s3"
    using reveal_pieces_sends [of e "zip (tl qs) ws" started] tl unfolding z by blast
  define s5 where "s5 = finish_cursor e ?full s4"
  have q5: "quiet s4 s5" by (simp add: s5_def finish_cursor_def)
  have "reveal_over_duration e st = (Inr (), emit_all (ss_terminal_buffer s5) s5)"
    using s3 s4(1)
    by (simp add: reveal_over_duration_def assms(3) qs(1) s1(1) mapE_texts [OF tl] Let_def
        s2_def ws_def s5_def del: map_map)
  moreover have "take 1 qs @ tl qs = qs" by (cases qs) auto
  ultimately show ?thesis
    using s1 s4 qs(3) quiet_fields [OF q2] quiet_fields [OF q3] quiet_fields [OF q5]
    by (intro exI [of _ "emit_all (ss_terminal_buffer s5) s5"] exI [of _ qs]) simp
qed

lemma feed_contents_template:
  "ck_template c \<noteq> None \<or> evs \<noteq> [] \<Longrightarrow> ck_template (snd (feed_contents sha evs c)) \<noteq> None"
proof (induction evs arbitrary: c)
  case (Cons ev evs)
  obtain l t where ev: "ev = (l, t)" by force
  obtain a d where d: "drain_contents sha False (accept_text l t c) = (a, d)" by force
  have "ck_template (accept_text l t c) \<noteq> None" by (simp add: accept_text_def Let_def)
  then have "ck_template d \<noteq> None" using drain_template [of sha False "accept_text l t c"] d by simp
  then have "ck_template (snd (feed_contents sha evs d)) \<noteq> None" using Cons.IH by blast
  then show ?case by (simp add: ev d split: prod.split) (metis snd_conv)
qed simp

lemma concat_text_events: "concat (map snd (text_events loads lines)) = text_of_lines loads lines"
  by (induction lines) (auto simp: text_events_def)

lemma flush_text:
  assumes "json_codec loads dumps ok" and "feed_contents sha (text_events loads lines) (new_chunker seed unit lo hi) = (cs, d)"
    and "template_ok loads d" and "unit \<noteq> WORD \<or> word_safe False (map snd (text_events loads lines))"
  shows "\<exists>ps c. chunker_flush loads dumps sha d = Inr (ps, c) \<and> list_all (plain_line loads) ps \<and>
    concat cs @ text_of_lines loads ps = text_of_lines loads lines"
proof (cases "text_events loads lines = []")
  case True
  then have "d = new_chunker seed unit lo hi" "cs = []" using assms(2) by auto
  moreover have "text_of_lines loads lines = []" using concat_text_events [of loads lines] True by simp
  ultimately show ?thesis by (simp add: chunker_flush_def drain_chunks_def new_chunker_def)
next
  case False
  have t: "ck_template d \<noteq> None"
    using feed_contents_template [of "new_chunker seed unit lo hi" "text_events loads lines" sha] assms(2) False by simp
  obtain ts c where dr: "drain_contents sha True d = (ts, c)" by force
  obtain ps where "drain_chunks loads dumps sha True d = Inr (ps, c)" "list_all (plain_line loads) ps"
    "map (text_of_line loads) ps = ts"
    using drain_chunks_text [OF assms(1,3) t dr] by blast
  moreover have "concat cs @ concat ts = text_of_lines loads lines"
    using stream_text [OF assms(4), of sha seed lo hi] assms(2) dr concat_text_events [of loads lines]
    by (simp add: stream_contents_def)
  ultimately show ?thesis by (auto simp: chunker_flush_def text_of_lines_def)
qed

subsection \<open>The whole stream\<close>

lemma reveal_sends:
  assumes "(if target_duration_mode (sv_timing e) then reveal_over_duration e s0
            else if rt_mode (sv_timing e) = DELAYED then reveal_after_delay e s0 else (Inr (), s0)) = (Inr (), s1)"
    and "s0 = update_timed e (\<lambda>now r. r\<lparr>lr_provider_completed_at := Some now\<rparr>) st"
  shows "\<exists>st'. reveal e st = (Inr (), st') \<and> sent st' = sent s1"
  unfolding reveal_def Let_def assms(2) [symmetric] assms(1) prod.case sum.case
  by (intro exI conjI) (rule refl, rule quiet_fields(1) [OF quiet_update_timed])

lemma run_text:
  assumes codec: "json_codec (sv_loads e) (sv_dumps e) ok" and plain: "\<forall>line \<in> set lines. plain_line (sv_loads e) line"
    and size: "1 \<le> rt_maximum_chunk_size (sv_timing e)"
    and slow: "rt_mode (sv_timing e) = SLOW \<and> rt_stream_unit (sv_timing e) = WORD \<Longrightarrow>
      word_safe False (map snd (text_events (sv_loads e) lines))"
    and fast: "\<not> (rt_mode (sv_timing e) = FAST \<and> rt_rate_unit (sv_timing e) = WORDS_PER_SECOND)"
  shows "fst (wrapped_run e lines Exhausted) = Finished \<and>
    text_of_lines (sv_loads e) (emitted_lines (snd (wrapped_run e lines Exhausted))) = text_of_lines (sv_loads e) lines"
proof -
  let ?L = "sv_loads e" and ?T = "sv_timing e" and ?i = "open_stream e"
  have init: "sent ?i = []" "ss_buffered ?i = []" "ss_slow_buffer ?i = []" "ss_terminal_buffer ?i = []"
    by simp_all
  have sz: "0 < split_size ?T" using size by (simp add: split_size_def)
  have "\<exists>st st'. receive e lines ?i = (Inr False, st) \<and> reveal e st = (Inr (), st') \<and>
      text_of_lines ?L (sent st') = text_of_lines ?L lines"
  proof -
    consider (target) "target_duration_mode ?T" | (delayed) "rt_mode ?T = DELAYED" "\<not> target_duration_mode ?T"
      | (other) "rt_mode ?T \<noteq> DELAYED" "\<not> target_duration_mode ?T" by blast
    then show ?thesis
    proof cases
      case other
      have "split_unit ?T = CHARACTER" using fast by (auto simp: split_unit_def)
      then obtain st where st: "receive e lines ?i = (Inr False, st)" "text_of_lines ?L (sent st) = text_of_lines ?L lines"
        using receive_passes [OF plain codec other _ sz, of ?i] init by auto
      then obtain st' where "reveal e st = (Inr (), st')" "sent st' = sent st"
        using reveal_sends [OF _ refl, of e st] other quiet_fields(1) [OF quiet_update_timed] by auto
      with st show ?thesis by metis
    next
      case delayed
      obtain st where st: "receive e lines ?i = (Inr False, st)"
        "sent st = filter (\<lambda>l. text_of_line ?L l = [] \<and> \<not> is_terminal ?L l) lines"
        "ss_buffered st = filter (\<lambda>l. text_of_line ?L l \<noteq> []) lines"
        "ss_terminal_buffer st = filter (\<lambda>l. text_of_line ?L l = [] \<and> is_terminal ?L l) lines"
        using receive_keeps [OF plain delayed(1), of ?i] init by auto
      define s0 where "s0 = update_timed e (\<lambda>now r. r\<lparr>lr_provider_completed_at := Some now\<rparr>) st"
      have q: "quiet st s0" by (simp add: s0_def)
      have "list_all (plain_line ?L) (ss_buffered s0)" using plain quiet_fields(2) [OF q] st(3) by (auto simp: list_all_iff)
      then obtain s1 ls where s1: "reveal_after_delay e s0 = (Inr (), s1)" "sent s1 = sent s0 @ ls @ ss_terminal_buffer s0"
        "text_of_lines ?L ls = text_of_lines ?L (ss_buffered s0)"
        using reveal_delayed_sends [of e s0, OF _ codec] size by auto
      then obtain st' where st': "reveal e st = (Inr (), st')" "sent st' = sent s1"
        using reveal_sends [of e s0 s1 st] delayed s0_def by auto
      have "text_of_lines ?L (filter (\<lambda>l. text_of_line ?L l = [] \<and> P l) lines) = []" for P
        by (induction lines) auto
      moreover have "text_of_lines ?L (filter (\<lambda>l. text_of_line ?L l \<noteq> []) lines) = text_of_lines ?L lines"
        by (induction lines) auto
      ultimately have "text_of_lines ?L (sent st') = text_of_lines ?L lines"
        using s1 st st'(2) quiet_fields [OF q] by simp
      with st(1) st'(1) show ?thesis by blast
    next
      case target
      obtain cs d where feed: "feed_contents (sv_sha e) (text_events ?L lines) (ss_chunker ?i) = (cs, d)" by force
      have "template_ok ?L (ss_chunker ?i)" by (simp add: initial_state_def new_chunker_def template_ok_def Let_def)
      then obtain st ps where st: "receive e lines ?i = (Inr False, st)" "ss_chunker st = d" "template_ok ?L d"
        "ss_slow_buffer st = ps" "list_all (plain_line ?L) ps" "map (text_of_line ?L) ps = cs"
        "text_of_lines ?L (sent st) = []" "text_of_lines ?L (ss_terminal_buffer st) = []"
        using receive_cuts [OF plain codec target sz _ feed] init by auto
      define unit where "unit = (if rt_mode ?T = SLOW then rt_stream_unit ?T else CHARACTER)"
      obtain lo where "ss_chunker ?i = new_chunker (sv_request_id e) unit lo (rt_maximum_chunk_size ?T)"
        by (simp add: initial_state_def unit_def Let_def)
      with feed have feed': "feed_contents (sv_sha e) (text_events ?L lines)
          (new_chunker (sv_request_id e) unit lo (rt_maximum_chunk_size ?T)) = (cs, d)" by simp
      have "unit \<noteq> WORD \<or> word_safe False (map snd (text_events ?L lines))"
        using slow by (auto simp: unit_def)
      then obtain qs c where qs: "chunker_flush ?L (sv_dumps e) (sv_sha e) d = Inr (qs, c)" "list_all (plain_line ?L) qs"
        "concat cs @ text_of_lines ?L qs = text_of_lines ?L lines"
        using flush_text [OF codec feed' st(3)] by blast
      define s0 where "s0 = update_timed e (\<lambda>now r. r\<lparr>lr_provider_completed_at := Some now\<rparr>) st"
      have q: "quiet st s0" by (simp add: s0_def)
      obtain s1 ls where s1: "reveal_over_duration e s0 = (Inr (), s1)" "sent s1 = sent s0 @ ls @ ss_terminal_buffer s0"
        "text_of_lines ?L ls = text_of_lines ?L (ss_slow_buffer s0 @ qs)"
        using reveal_target_sends [of e s0 qs ok c] st qs quiet_fields [OF q] codec by auto
      then obtain st' where st': "reveal e st = (Inr (), st')" "sent st' = sent s1"
        using reveal_sends [of e s0 s1 st] target s0_def by auto
      have "text_of_lines ?L ps = concat cs" using st(6) by (simp add: text_of_lines_def)
      then have "text_of_lines ?L (sent st') = text_of_lines ?L lines"
        using s1 st st'(2) qs(3) quiet_fields [OF q] by simp
      with st(1) st'(1) show ?thesis by blast
    qed
  qed
  then show ?thesis by (auto simp: wrapped_run_def generator_body_def handle_exit_def close_original_def)
qed

text \<open>The order in which a delayed response is sent.\<close>

lemma delayed_order:
  assumes codec: "json_codec (sv_loads e) (sv_dumps e) ok" and plain: "\<forall>line \<in> set lines. plain_line (sv_loads e) line"
    and size: "1 \<le> rt_maximum_chunk_size (sv_timing e)" and d: "rt_mode (sv_timing e) = DELAYED"
  shows "emitted_lines (snd (wrapped_run e lines Exhausted)) =
    filter (\<lambda>l. text_of_line (sv_loads e) l = [] \<and> \<not> is_terminal (sv_loads e) l) lines @
    concat (map (quick_pieces e) (filter (\<lambda>l. text_of_line (sv_loads e) l \<noteq> []) lines)) @
    filter (\<lambda>l. text_of_line (sv_loads e) l = [] \<and> is_terminal (sv_loads e) l) lines"
proof -
  let ?L = "sv_loads e"
  have nt: "\<not> target_duration_mode (sv_timing e)" using d by (simp add: target_duration_mode_def)
  obtain st where st: "receive e lines (open_stream e) = (Inr False, st)"
    "sent st = filter (\<lambda>l. text_of_line ?L l = [] \<and> \<not> is_terminal ?L l) lines"
    "ss_buffered st = filter (\<lambda>l. text_of_line ?L l \<noteq> []) lines"
    "ss_terminal_buffer st = filter (\<lambda>l. text_of_line ?L l = [] \<and> is_terminal ?L l) lines"
    using receive_keeps [OF plain d, of "open_stream e"] by auto
  define s0 where "s0 = update_timed e (\<lambda>now r. r\<lparr>lr_provider_completed_at := Some now\<rparr>) st"
  have q: "quiet st s0" by (simp add: s0_def)
  have "list_all (plain_line ?L) (ss_buffered s0)" using plain quiet_fields(2) [OF q] st(3) by (auto simp: list_all_iff)
  then obtain s1 where s1: "reveal_after_delay e s0 = (Inr (), s1)"
    "sent s1 = sent s0 @ concat (map (quick_pieces e) (ss_buffered s0)) @ ss_terminal_buffer s0"
    using reveal_delayed_sends [of e s0, OF _ codec] size by auto
  then obtain st' where "reveal e st = (Inr (), st')" "sent st' = sent s1"
    using reveal_sends [of e s0 s1 st] d nt s0_def by auto
  then show ?thesis using st s1(2) quiet_fields [OF q] by (simp add: wrapped_run_def generator_body_def handle_exit_def close_original_def)
qed

end
