(* ===== verification/Stream_Outcome.thy ===== *)
theory Stream_Outcome
  imports Stream_Properties Condition_Properties "HOL-Library.Countable"
begin

text \<open>
  The properties of a timed response stream: what the participant receives, in which order, and
  what the stored request says afterwards.
\<close>

subsection \<open>Updates that say nothing about the outcome\<close>

definition verdict :: "llm_request \<Rightarrow> string \<times> string \<times> bool option \<times> string option" where
  "verdict r = (lr_id r, lr_status r, lr_streaming_completed_normally r, lr_error_type r)"

lemma verdict_simps [simp]:
  "verdict (r\<lparr>lr_provider_started_at := x0\<rparr>) = verdict r"
  "verdict (r\<lparr>lr_provider_first_token_at := x1\<rparr>) = verdict r"
  "verdict (r\<lparr>lr_provider_completed_at := x2\<rparr>) = verdict r"
  "verdict (r\<lparr>lr_artificial_delay_started_at := x3\<rparr>) = verdict r"
  "verdict (r\<lparr>lr_artificial_delay_ended_at := x4\<rparr>) = verdict r"
  "verdict (r\<lparr>lr_server_first_emit_at := x5\<rparr>) = verdict r"
  "verdict (r\<lparr>lr_buffered := x6\<rparr>) = verdict r"
  "verdict (r\<lparr>lr_buffered_output := x7\<rparr>) = verdict r"
  "verdict (r\<lparr>lr_reveal_cursor := x8\<rparr>) = verdict r"
  by (simp_all add: verdict_def)

definition harmless :: "stream_action \<Rightarrow> bool" where
  "harmless a = (case a of Update _ f \<Rightarrow> \<forall>r. verdict (f r) = verdict r | _ \<Rightarrow> True)"

abbreviation calm :: "stream_state \<Rightarrow> bool" where
  "calm st \<equiv> list_all harmless (ss_actions st)"

lemma calm_act [simp]: "calm (act a st) \<longleftrightarrow> calm st \<and> harmless a"
  by (simp add: act_def)

lemma harmless_simps [simp]: "harmless (Emit l)" "harmless (Sleep w)" "harmless Close"
  "harmless (Update n f) \<longleftrightarrow> (\<forall>r. verdict (f r) = verdict r)"
  by (simp_all add: harmless_def)

lemma calm_emit [simp]: "calm (emit l st) = calm st"
  by (simp add: emit_def)

lemma calm_update [simp]: "(\<And>r. verdict (f r) = verdict r) \<Longrightarrow> calm (update e f st) = calm st"
  by (simp add: update_def time_ns_def)

lemma calm_update_timed [simp]: "(\<And>n r. verdict (f n r) = verdict r) \<Longrightarrow> calm (update_timed e f st) = calm st"
  by (simp add: update_timed_def time_ns_def)

lemma calm_sleep_until [simp]: "calm (sleep_until e w st) = calm st"
  by (simp add: sleep_until_def monotonic_def)

lemma calm_steps [simp]:
  "calm (note_first_text e st) = calm st"
  "calm (buffer_pieces e t ps c st) = calm st"
  "calm (advance_cursor e t st) = calm st"
  "calm (store_full_text e t st) = calm st"
  "calm (finish_cursor e t st) = calm st"
  "calm (wait_delay e st) = calm st"
  by (simp_all add: note_first_text_def buffer_pieces_def advance_cursor_def store_full_text_def
      finish_cursor_def wait_delay_def monotonic_def time_ns_def Let_def split: option.split)

lemma calm_emit_all [simp]: "calm (emit_all ls st) = calm st"
  by (induction ls arbitrary: st) (simp_all add: emit_all_def)

lemma calm_emit_split: "calm st \<Longrightarrow> calm (snd (emit_split e ls st))"
  by (induction ls arbitrary: st) (simp_all add: Let_def split: sum.split)

lemma calm_on_line:
  assumes k: "calm st" and go: "fst (on_line e l st) \<noteq> Inr True" shows "calm (snd (on_line e l st))"
proof (cases "contains_provider_error (sv_loads e) l")
  case (Inl err)
  with k show ?thesis by (simp add: on_line_def)
next
  case c: (Inr b)
  show ?thesis
  proof (cases b)
    case True
    with c go show ?thesis by (simp add: on_line_def Let_def)
  next
    case False
    show ?thesis
    proof (cases "extract_text (sv_loads e) l")
      case (Inl err)
      with c k False show ?thesis by (simp add: on_line_def)
    next
      case (Inr t)
      define s1 where "s1 = (if t \<noteq> [] \<and> ss_first_received st = None then note_first_text e st else st)"
      have k1: "calm s1" using k by (simp add: s1_def)
      have k2: "calm s2" if "emit_split e ls s1 = (out, s2)" for ls out s2
        using calm_emit_split [OF k1, of e ls] that by simp
      show ?thesis
        unfolding on_line_def Let_def c Inr sum.case if_False s1_def [symmetric]
        using k1 False by (auto split: sum.split prod.split bool.split dest: k2)
    qed
  qed
qed

text \<open>A provider error is the last thing received.\<close>

definition provider_failed :: "int \<Rightarrow> llm_request \<Rightarrow> llm_request" where
  "provider_failed now r = r\<lparr>lr_provider_completed_at := Some now, lr_status := ''FAILED'',
     lr_error_type := Some ''ProviderStreamError'', lr_streaming_completed_normally := Some False\<rparr>"

lemma receive_shape:
  assumes "calm st"
  shows "(if fst (receive e ls st) = Inr True
    then \<exists>line s0. snd (receive e ls st) = emit line (update_timed e provider_failed s0) \<and> calm s0
    else calm (snd (receive e ls st)))"
  using assms
proof (induction ls arbitrary: st)
  case (Cons l ls)
  obtain out s1 where s1: "on_line e l st = (out, s1)" by force
  show ?case
  proof (cases "out = Inr True")
    case True
    with s1 have "s1 = emit l (update_timed e provider_failed st)"
      by (auto simp: on_line_def provider_failed_def [abs_def] Let_def split: sum.splits bool.splits if_splits prod.splits)
    with Cons.prems True s1 show ?thesis by auto
  next
    case False
    then have "calm s1" using calm_on_line [OF Cons.prems, of e l] s1 by simp
    then show ?thesis using Cons.IH [of s1] s1 False by (cases out) (auto split: bool.split)
  qed
qed simp

lemma calm_reveal_pieces: "calm st \<Longrightarrow> calm (snd (reveal_pieces e started duration w c ps st))"
  by (induction ps arbitrary: st c) (auto simp: Let_def split: sum.split)

lemma calm_reveal_quickly: "calm st \<Longrightarrow> calm (snd (reveal_quickly e ls st))"
  by (induction ls arbitrary: st) (simp_all add: Let_def split: sum.split)

lemma calm_first_piece: "calm st \<Longrightarrow> calm (snd (first_piece e ps st))"
  by (simp add: first_piece_def monotonic_def Let_def split: list.split sum.split)

lemma calm_over_duration:
  assumes k: "calm st" shows "calm (snd (reveal_over_duration e st))"
proof -
  have a: "calm s" if "first_piece e ps st = (out, s)" for ps out s
    using calm_first_piece [OF k, of e ps] that by simp
  have b: "calm s'" if "reveal_start e s = (m, s')" "calm s" for s m s'
    using that by (auto simp: reveal_start_def monotonic_def split: option.splits if_splits)
  have c: "calm s'" if "reveal_pieces e started duration w c ps s = (out, s')" "calm s" for started duration w c ps s out s'
    using calm_reveal_pieces [OF that(2), of e started duration w c ps] that(1) by simp
  show ?thesis
    unfolding reveal_over_duration_def Let_def
    using k by (auto split: sum.split prod.split dest!: a b c)
qed

lemma calm_after_delay:
  assumes k: "calm st" shows "calm (snd (reveal_after_delay e st))"
proof -
  have c: "calm s'" if "reveal_quickly e ls s = (out, s')" "calm s" for ls s out s'
    using calm_reveal_quickly [OF that(2), of e ls] that(1) by simp
  show ?thesis
    unfolding reveal_after_delay_def Let_def
    using k by (auto split: sum.split prod.split dest!: c)
qed

definition stream_completed :: "int \<Rightarrow> llm_request \<Rightarrow> llm_request" where
  "stream_completed now r = r\<lparr>lr_server_completed_emit_at := Some now,
     lr_streaming_completed_normally := Some True, lr_status := ''COMPLETED'', lr_buffered_output := None\<rparr>"

lemma reveal_shape:
  assumes k: "calm st"
  shows "(case reveal e st of (Inl err, s) \<Rightarrow> calm s
     | (Inr u, s) \<Rightarrow> \<exists>s0. s = update_timed e stream_completed s0 \<and> calm s0)"
proof -
  let ?u = "update_timed e (\<lambda>now r. r\<lparr>lr_provider_completed_at := Some now\<rparr>) st"
  have u: "calm ?u" using k by (simp add: verdict_def)
  have a: "calm s" if "reveal_over_duration e ?u = (out, s)" for out s
    using calm_over_duration [OF u, of e] that by simp
  have b: "calm s" if "reveal_after_delay e ?u = (out, s)" for out s
    using calm_after_delay [OF u, of e] that by simp
  define r where "r = (if target_duration_mode (sv_timing e) then reveal_over_duration e ?u
            else if rt_mode (sv_timing e) = DELAYED then reveal_after_delay e ?u
            else (Inr (), ?u))"
  obtain out s where s: "r = (out, s)" by force
  then have c: "calm s" using a b u by (auto simp: r_def split: if_splits)
  have "reveal e st = (case r of (Inl err, st) \<Rightarrow> (Inl err, st) | (Inr _, st) \<Rightarrow> (Inr (), update_timed e stream_completed st))"
    unfolding reveal_def Let_def r_def stream_completed_def [abs_def] by (rule refl)
  then show ?thesis using s c by (cases out) auto
qed

subsection \<open>The stored request\<close>

definition keeps_key :: "stream_action \<Rightarrow> bool" where
  "keeps_key a = (case a of Update _ f \<Rightarrow> \<forall>r. lr_id (f r) = lr_id r | _ \<Rightarrow> True)"

definition row_action :: "stream_action \<Rightarrow> llm_request \<Rightarrow> llm_request" where
  "row_action a r = (case a of Update now f \<Rightarrow> (f r)\<lparr>lr_updated_at := now\<rparr> | _ \<Rightarrow> r)"

lemma harmless_keeps_key: "list_all harmless acts \<Longrightarrow> list_all keeps_key acts"
  by (auto simp: list_all_iff harmless_def keeps_key_def verdict_def split: stream_action.splits)

lemma verdict_calm: "list_all harmless acts \<Longrightarrow> verdict (fold row_action acts r) = verdict r"
proof (induction acts arbitrary: r)
  case (Cons a acts)
  then have "verdict (row_action a r) = verdict r"
    by (cases a) (simp_all add: row_action_def, simp add: verdict_def)
  with Cons show ?case by simp
qed simp

lemma stored_row:
  assumes "list_all keeps_key acts" and "i \<noteq> []" and "get_by lr_id i rows = Some r"
  shows "get_by lr_id i (stored_request i acts rows) = Some (fold row_action acts r)"
  using assms(1,3)
proof (induction acts arbitrary: rows r)
  case (Cons a acts)
  have "get_by lr_id i (apply_action i a rows) = Some (row_action a r)"
  proof (cases a)
    case (Update now f)
    with Cons.prems assms(2) show ?thesis
      by (simp add: update_request_def row_action_def keeps_key_def table.get_upd)
  qed (use Cons.prems in \<open>simp_all add: row_action_def\<close>)
  with Cons show ?case by (simp add: stored_request_def)
qed (simp add: stored_request_def)

text \<open>What the row says: \<open>r\<close> is the row before the stream, \<open>r'\<close> the row after it, and \<open>own\<close> the result
  the run would have had by itself.\<close>

definition failed_with :: "string \<Rightarrow> llm_request \<Rightarrow> bool" where
  "failed_with name r \<longleftrightarrow> lr_status r = ''FAILED'' \<and> lr_streaming_completed_normally r = Some False \<and>
     lr_error_type r = Some name"

definition recorded :: "stream_result \<Rightarrow> stream_result \<Rightarrow> llm_request \<Rightarrow> llm_request \<Rightarrow> bool" where
  "recorded own result r r' =
     (case result of
        Finished \<Rightarrow> lr_status r' = ''COMPLETED'' \<and> lr_streaming_completed_normally r' = Some True \<and>
          lr_buffered_output r' = None
      | Returned \<Rightarrow> failed_with ''ProviderStreamError'' r'
      | Failed name \<Rightarrow> failed_with name r'
      | CancelledRun \<Rightarrow> lr_status r' = ''CANCELLED'' \<and> lr_streaming_completed_normally r' = Some False
      | Abandoned \<Rightarrow> verdict r' = verdict r \<or> own = Returned \<and> failed_with ''ProviderStreamError'' r')"

text \<open>The actions of the body: harmless ones, then at most the one update that tells the outcome.\<close>

definition body_tail :: "stream_result \<Rightarrow> stream_action list \<Rightarrow> bool" where
  "body_tail result tail =
     (case result of
        Finished \<Rightarrow> \<exists>now now'. tail = [Update now' (stream_completed now)]
      | Returned \<Rightarrow> \<exists>now now' line. tail = [Update now' (provider_failed now), Emit line]
      | Abandoned \<Rightarrow> False
      | _ \<Rightarrow> tail = [])"

lemma update_timed_actions:
  obtains now now' where "ss_actions (update_timed e f st) = ss_actions st @ [Update now' (f now)]"
  by (rule that [of "sv_ns e (Suc (ss_ns st))" "sv_ns e (ss_ns st)"]) (simp add: update_timed_def update_def time_ns_def act_def)

lemma body_shape:
  assumes "generator_body e lines ending = (result, completed, st)"
  obtains A tail where "ss_actions st = A @ tail" "list_all harmless A" "body_tail result tail"
proof -
  have i: "calm (open_stream e)" by (simp add: open_stream_def initial_state_def Let_def verdict_def)
  obtain out s where s: "receive e lines (open_stream e) = (out, s)" by force
  note shape = receive_shape [OF i, of e lines, unfolded s fst_conv snd_conv]
  show ?thesis
  proof (cases "out = Inr True")
    case True
    with shape obtain line s0 where "s = emit line (update_timed e provider_failed s0)" "calm s0" by auto
    moreover from True s assms have "result = Returned" "st = s" by (simp_all add: generator_body_def)
    moreover obtain now now' where "ss_actions (update_timed e provider_failed s0) = ss_actions s0 @ [Update now' (provider_failed now)]"
      by (rule update_timed_actions)
    ultimately show ?thesis
      using that [of "ss_actions s0" "[Update now' (provider_failed now), Emit line]"]
      by (auto simp: emit_def act_def body_tail_def)
  next
    case False
    with shape have c: "calm s" by simp
    show ?thesis
    proof (cases "out = Inr False \<and> ending = Exhausted")
      case True
      obtain out' s' where s': "reveal e s = (out', s')" by force
      note r = reveal_shape [OF c, of e, unfolded s' prod.case]
      show ?thesis
      proof (cases out')
        case (Inl err)
        with True s s' assms r show ?thesis using that [of "ss_actions s'" "[]"] by (auto simp: generator_body_def body_tail_def)
      next
        case (Inr u)
        with r obtain s0 where "s' = update_timed e stream_completed s0" "calm s0" by auto
        moreover obtain now now' where "ss_actions (update_timed e stream_completed s0) = ss_actions s0 @ [Update now' (stream_completed now)]"
          by (rule update_timed_actions)
        ultimately show ?thesis
          using True s s' Inr assms that [of "ss_actions s0" "[Update now' (stream_completed now)]"]
          by (auto simp: generator_body_def body_tail_def)
      qed
    next
      case F: False
      with False s assms have "st = s" "\<exists>name. result = Failed name \<or> result = CancelledRun"
        by (auto simp: generator_body_def split: sum.splits bool.splits stream_end.splits)
      with c show ?thesis using that [of "ss_actions s" "[]"] by (auto simp: body_tail_def)
    qed
  qed
qed

lemma tail_keys: "body_tail result tail \<Longrightarrow> list_all keeps_key tail"
  by (auto simp: body_tail_def keeps_key_def provider_failed_def stream_completed_def split: stream_result.splits)

lemma closing_harmless: "list_all harmless (close_original b)"
  by (simp add: close_original_def)

lemma fold_closing [simp]: "fold row_action (close_original b) r = r"
  by (simp add: close_original_def row_action_def)

lemma run_recorded:
  "list_all keeps_key (snd (wrapped_run e lines ending)) \<and>
   recorded own (fst (wrapped_run e lines ending)) r (fold row_action (snd (wrapped_run e lines ending)) r)"
proof -
  obtain result completed st where st: "generator_body e lines ending = (result, completed, st)" by (metis prod_cases3)
  obtain A tail where A: "ss_actions st = A @ tail" "list_all harmless A" "body_tail result tail"
    using body_shape [OF st] .
  have k: "list_all keeps_key (ss_actions st)" using A harmless_keeps_key tail_keys by simp
  note ops = wrapped_run_def st handle_exit_def record_failure_def record_cancel_def update_timed_def update_def time_ns_def
    act_def row_action_def recorded_def failed_with_def
  have kc: "list_all keeps_key (close_original completed)" by (rule harmless_keeps_key [OF closing_harmless])
  show ?thesis
    using k A(1,3) kc
    by (cases result) (auto simp: ops body_tail_def keeps_key_def [of "Update _ _"] provider_failed_def stream_completed_def)
qed

lemma stop_recorded:
  "list_all keeps_key (snd (stopped_run e lines ending stop)) \<and>
   recorded (fst (wrapped_run e lines ending)) (fst (stopped_run e lines ending stop)) r (fold row_action (snd (stopped_run e lines ending stop)) r)"
proof -
  obtain result completed st where st: "generator_body e lines ending = (result, completed, st)" by (metis prod_cases3)
  obtain A tail where A: "ss_actions st = A @ tail" "list_all harmless A" "body_tail result tail"
    using body_shape [OF st] .
  have k: "list_all keeps_key (take n (ss_actions st))" for n
    using A harmless_keeps_key tail_keys by (simp add: list_all_iff) (blast dest: in_set_takeD)
  have kc: "list_all keeps_key (close_original b)" for b by (rule harmless_keeps_key [OF closing_harmless])
  note run = run_recorded [of e lines ending "fst (wrapped_run e lines ending)" r]
  show ?thesis
  proof (cases stop)
    case Not_Stopped
    with run show ?thesis by (simp add: stopped_run_def st Let_def)
  next
    case Never_Read
    have "list_all harmless (ss_actions (open_stream e))"
      by (simp add: open_stream_def initial_state_def Let_def verdict_def)
    with Never_Read show ?thesis
      by (simp add: stopped_run_def st Let_def harmless_keeps_key recorded_def verdict_calm)
  next
    case (Consumer_Stops n)
    show ?thesis
    proof (cases "n < length (ss_actions st) \<and> is_yield (ss_actions st ! n)")
      case False
      then have "stopped_run e lines ending stop = wrapped_run e lines ending"
        by (auto simp: stopped_run_def st Let_def Consumer_Stops)
      with run show ?thesis by simp
    next
      case True
      have "recorded (fst (wrapped_run e lines ending)) Abandoned r (fold row_action (take (n + 1) (ss_actions st)) r)"
      proof (cases "n < length A")
        case True
        then have "list_all harmless (take (n + 1) (ss_actions st))"
          using A(1,2) by (simp add: list_all_iff) (blast dest: in_set_takeD)
        then show ?thesis by (simp add: recorded_def verdict_calm)
      next
        case False
        with True A obtain now now' line where "tail = [Update now' (provider_failed now), Emit line]" "n = length A + 1" "result = Returned"
          by (auto simp: body_tail_def is_yield_def nth_append less_Suc_eq split: stream_result.splits)
        then show ?thesis
          by (simp add: A(1) recorded_def row_action_def provider_failed_def failed_with_def wrapped_run_def st)
      qed
      with Consumer_Stops True k kc show ?thesis by (simp add: stopped_run_def st Let_def)
    qed
  next
    case (Cancelled_At n committed now)
    show ?thesis
    proof (cases "0 < n \<and> n < length (ss_actions st) \<and> \<not> is_yield (ss_actions st ! n)")
      case False
      then have "stopped_run e lines ending stop = wrapped_run e lines ending"
        by (auto simp: stopped_run_def st Let_def Cancelled_At)
      with run show ?thesis by simp
    next
      case True
      with Cancelled_At k kc show ?thesis
        by (simp add: stopped_run_def st Let_def recorded_def row_action_def cancel_update_def keeps_key_def [of "Update _ _"])
    qed
  qed
qed


text \<open>A consumer that stops reading leaves the stored request as it was, pending.\<close>

theorem abandoned_stays_pending:
  assumes "get_by lr_id (sv_request_id e) rows = Some r" and "sv_request_id e \<noteq> []" and "lr_status r = ''PENDING''"
    and "fst (stopped_run e lines ending stop) = Abandoned" and "fst (wrapped_run e lines ending) \<noteq> Returned"
  shows "\<exists>r'. get_by lr_id (sv_request_id e)
      (stored_request (sv_request_id e) (snd (stopped_run e lines ending stop)) rows) = Some r' \<and> lr_status r' = ''PENDING''"
  using stored_row [OF conjunct1 [OF stop_recorded] assms(2,1)] conjunct2 [OF stop_recorded [of e lines ending stop r]] assms(3-5)
  by (auto simp: recorded_def verdict_def)

text \<open>
  C25. A timed response that is read to its end gives the participant exactly the text the provider
  sent, whatever the sizes, for event streams of the two usual forms (\<open>plain_line\<close>). Two modes are
  excluded: a fast response paced in words, and a slow one revealed by words in which white space
  can start a piece (\<open>word_safe\<close>); both can lose text (\<open>word_split_drops_space\<close>, \<open>leading_space_corrupts\<close>).
\<close>

theorem timing_keeps_text:
  assumes "json_codec (sv_loads e) (sv_dumps e) ok" and "\<forall>line \<in> set lines. plain_line (sv_loads e) line"
    and "1 \<le> rt_maximum_chunk_size (sv_timing e)"
    and "rt_mode (sv_timing e) = SLOW \<and> rt_stream_unit (sv_timing e) = WORD \<Longrightarrow>
      word_safe False (map snd (text_events (sv_loads e) lines))"
    and "\<not> (rt_mode (sv_timing e) = FAST \<and> rt_rate_unit (sv_timing e) = WORDS_PER_SECOND)"
  shows "fst (wrapped_run e lines Exhausted) = Finished \<and>
    text_of_lines (sv_loads e) (emitted_lines (snd (wrapped_run e lines Exhausted))) = text_of_lines (sv_loads e) lines"
  by (rule run_text [OF assms])

text \<open>
  A delayed response is reordered: every event without text that is not one of the known
  terminal events is sent at once, before any text, even if it came last; then the text follows in
  its order, and the terminal events end the stream.
\<close>

theorem delayed_text_overtaken:
  assumes "json_codec (sv_loads e) (sv_dumps e) ok" and "\<forall>line \<in> set lines. plain_line (sv_loads e) line"
    and "1 \<le> rt_maximum_chunk_size (sv_timing e)" and "rt_mode (sv_timing e) = DELAYED"
  shows "emitted_lines (snd (wrapped_run e lines Exhausted)) =
    filter (\<lambda>l. text_of_line (sv_loads e) l = [] \<and> \<not> is_terminal (sv_loads e) l) lines @
    concat (map (quick_pieces e) (filter (\<lambda>l. text_of_line (sv_loads e) l \<noteq> []) lines)) @
    filter (\<lambda>l. text_of_line (sv_loads e) l = [] \<and> is_terminal (sv_loads e) l) lines"
  by (rule delayed_order [OF assms])

text \<open>
  A fast response whose rate is counted in words loses white space: an event with more words
  than a piece may hold comes out without the white space its text starts with.
\<close>

theorem word_split_drops_space:
  assumes "json_codec loads dumps ok" and "plain_line loads line" and "0 < n"
  shows "text_of_lines loads (split_sse_content loads dumps line n WORD) =
    (if length (find_words (text_of_line loads line)) \<le> nat n then text_of_line loads line
     else dropWhile py_space (text_of_line loads line))"
  by (rule split_words [OF assms])

subsection \<open>A concrete stream\<close>

text \<open>A value is written as a run of letters whose length is its number.\<close>

instance json :: countable
  by countable_datatype

definition sample_dumps :: "json \<Rightarrow> string" where
  "sample_dumps v = replicate (Suc (to_nat v)) CHR ''x''"

definition sample_loads :: "string \<Rightarrow> json option" where
  "sample_loads s = (if s \<noteq> [] \<and> set s = {CHR ''x''} then Some (from_nat (length s - 1)) else None)"

lemma sample_codec: "json_codec sample_loads sample_dumps (\<lambda>_. True)"
proof -
  have "sample_loads (sample_dumps v) = Some v" for v
    by (auto simp: sample_loads_def sample_dumps_def)
  moreover have "py_strip (sample_dumps v) = sample_dumps v" for v
  proof -
    have x: "\<not> py_space CHR ''x''" by (simp add: py_space_def)
    then have "dropWhile py_space (replicate n CHR ''x'') = replicate n CHR ''x''" for n by (cases n) simp_all
    then show ?thesis unfolding py_strip_def sample_dumps_def by (simp only: rev_replicate)
  qed
  moreover have "sample_loads ''[DONE]'' = None" by (simp add: sample_loads_def)
  ultimately show ?thesis by (simp add: json_codec_def sample_loads_def)
qed

definition text_event :: "string \<Rightarrow> json" where
  "text_event t = JObj [(''choices'', JList [JObj [(''delta'', JObj [(''content'', JStr t)])]])]"

definition stop_event :: json where
  "stop_event = JObj [(''choices'', JList [JObj [(''delta'', JObj []), (''finish_reason'', JStr ''stop'')]])]"

definition done_line :: string where
  "done_line = ''data: [DONE]''"

abbreviation text_line :: "string \<Rightarrow> string" where
  "text_line t \<equiv> sse_line sample_dumps (text_event t)"

abbreviation stop_line :: string where
  "stop_line \<equiv> sse_line sample_dumps stop_event"

definition stream_sample :: "response_timing \<Rightarrow> stream_env" where
  "stream_sample t = \<lparr>sv_loads = sample_loads, sv_dumps = sample_dumps, sv_sha = length, sv_ns = int, sv_mono = of_nat,
     sv_request_id = ''q'', sv_timing = t\<rparr>"

definition slow_timing :: response_timing where
  "slow_timing = default_timing\<lparr>rt_mode := SLOW, rt_target_duration_seconds := Some 10\<rparr>"

definition delayed_timing :: response_timing where
  "delayed_timing = default_timing\<lparr>rt_mode := DELAYED, rt_delay_seconds := Some 3\<rparr>"

lemma done_line_raw: "raw_data done_line = ''[DONE]''"
  by (simp add: raw_data_def done_line_def py_strip_def py_space_def)

lemma sample_lines:
  "plain_line sample_loads (text_line t)" "text_of_line sample_loads (text_line t) = t"
  "plain_line sample_loads stop_line" "text_of_line sample_loads stop_line = []"
  "plain_line sample_loads done_line" "text_of_line sample_loads done_line = []"
  "is_terminal sample_loads done_line" "\<not> is_terminal sample_loads stop_line"
proof -
  note p = parsed_sse_line [OF sample_codec TrueI]
  have a: "plain_event (text_event t)" "event_text (text_event t) = t"
    by (simp_all add: plain_event_def hashable_def text_event_def event_text_def jget_def string_or_empty_def)
  have b: "plain_event stop_event" "event_text stop_event = []"
    by (simp_all add: plain_event_def hashable_def stop_event_def event_text_def jget_def string_or_empty_def)
  show t: "plain_line sample_loads (text_line t)" by (rule plain_sse_line [OF sample_codec TrueI a(1)])
  show "text_of_line sample_loads (text_line t) = t" by (simp add: text_of_line_def extract_parsed [OF t] p a(2))
  show s: "plain_line sample_loads stop_line" by (rule plain_sse_line [OF sample_codec TrueI b(1)])
  show "text_of_line sample_loads stop_line = []" by (simp add: text_of_line_def extract_parsed [OF s] p b(2))
  show d: "plain_line sample_loads done_line" by (simp add: plain_line_def done_line_raw)
  show "text_of_line sample_loads done_line = []"
    by (simp add: text_of_line_def extract_parsed [OF d] parsed_line_def done_line_raw)
  show "is_terminal sample_loads done_line"
    by (simp add: is_terminal_def terminal_event_def done_line_raw) (simp add: is_data_def done_line_def starts_with_def)
  have "raw_data stop_line \<noteq> ''[DONE]''" "loads = sample_loads \<Longrightarrow> loads (raw_data stop_line) = Some stop_event" for loads
    using p(1) [of stop_event] by (auto simp: parsed_line_def split: if_splits)
  then show "\<not> is_terminal sample_loads stop_line"
    by (simp add: is_terminal_def terminal_event_def stop_event_def jget_def)
qed

lemma stream_sample_fields [simp]:
  "sv_loads (stream_sample t) = sample_loads" "sv_dumps (stream_sample t) = sample_dumps"
  "sv_timing (stream_sample t) = t" "sv_request_id (stream_sample t) = ''q''"
  by (simp_all add: stream_sample_def)

lemma timing_keeps_text_witness:
  "text_of_lines sample_loads (emitted_lines (snd (wrapped_run (stream_sample slow_timing)
     [text_line ''Hello, '', text_line ''world'', stop_line, done_line] Exhausted))) = ''Hello, world''"
  using timing_keeps_text [of "stream_sample slow_timing" "\<lambda>_. True"
      "[text_line ''Hello, '', text_line ''world'', stop_line, done_line]"] sample_codec sample_lines
  by (simp add: slow_timing_def default_timing_def)

lemma delayed_text_overtaken_witness:
  "emitted_lines (snd (wrapped_run (stream_sample delayed_timing) [text_line ''Hello'', stop_line, done_line] Exhausted)) =
     [stop_line, text_line ''Hello'', done_line]"
  using delayed_text_overtaken [of "stream_sample delayed_timing" "\<lambda>_. True" "[text_line ''Hello'', stop_line, done_line]"]
    sample_codec sample_lines
  by (simp add: delayed_timing_def default_timing_def quick_pieces_def)

lemma word_split_drops_space_witness:
  "text_of_lines sample_loads (split_sse_content sample_loads sample_dumps (text_line '' to be'') 1 WORD) = ''to be''"
proof -
  have w: "find_words '' to be'' = [''to '', ''be'']" by (simp add: find_words.simps py_space_def)
  have d: "dropWhile py_space '' to be'' = ''to be''" by (simp add: py_space_def)
  show ?thesis
    using word_split_drops_space [OF sample_codec sample_lines(1), of 1 "'' to be''"] sample_lines(2) [of "'' to be''"] w d
    by simp
qed



end
