(* ===== verification/Synthetic_Properties.thy ===== *)
theory Synthetic_Properties
  imports Response_Synthetic Stream_Outcome
begin

text \<open>What a participant receives of a response that arrives whole.\<close>

lemma concat_cut_pieces: "concat (cut_pieces sha seed lo hi i ps) = concat ps"
proof (induction sha seed lo hi i ps rule: cut_pieces.induct)
  case (2 sha seed lo hi i p ps)
  then show ?case by (metis (no_types, lifting) append_take_drop_id concat.simps(2) concat_append cut_pieces.simps(2))
qed simp

text \<open>Cutting by words loses the white space at the front, unless there is nothing else.\<close>

definition kept_content :: "stream_unit \<Rightarrow> string \<Rightarrow> string" where
  "kept_content unit content =
     (if unit = WORD \<and> \<not> list_all py_space content then dropWhile py_space content else content)"

lemma concat_bounded_chunks:
  "concat (bounded_text_chunks sha content seed unit lo hi) =
     (if unit = WORD then dropWhile py_space content else content)"
proof -
  let ?ps = "if unit = WORD then find_words content else map (\<lambda>c. [c]) content"
  have singles: "concat (map (\<lambda>c. [c]) content) = content" by (induction content) auto
  have "concat (cut_pieces sha seed lo hi 0 ?ps) = (if unit = WORD then dropWhile py_space content else content)"
    by (simp add: concat_cut_pieces concat_find_words singles)
  moreover have "concat (case cs of [only] \<Rightarrow> if 1 < length only then
      (let midpoint = max 1 (length only div 2) in [take midpoint only, drop midpoint only]) else cs | _ \<Rightarrow> cs) = concat cs"
    for cs :: "string list"
    by (auto simp: Let_def split: list.split)
  ultimately show ?thesis by (cases "unit = WORD") (simp_all add: bounded_text_chunks_def Let_def)
qed

lemma blank_chunks: "list_all py_space content \<Longrightarrow> bounded_text_chunks sha content seed WORD lo hi = []"
  using find_words_Nil [of content] by (simp add: bounded_text_chunks_def)

lemma concat_synthetic_chunks:
  "concat (synthetic_chunks e content) =
     kept_content (if rt_mode (sv_timing e) = SLOW then rt_stream_unit (sv_timing e) else CHARACTER) content"
proof -
  define unit where "unit = (if rt_mode (sv_timing e) = SLOW then rt_stream_unit (sv_timing e) else CHARACTER)"
  obtain lo where chunks: "synthetic_chunks e content =
      (let chunks = bounded_text_chunks (sv_sha e) content (sv_request_id e) unit lo (rt_maximum_chunk_size (sv_timing e))
       in if chunks = [] then [content] else chunks)"
    by (simp add: synthetic_chunks_def unit_def Let_def)
  let ?b = "bounded_text_chunks (sv_sha e) content (sv_request_id e) unit lo (rt_maximum_chunk_size (sv_timing e))"
  have c: "concat ?b = (if unit = WORD then dropWhile py_space content else content)" by (rule concat_bounded_chunks)
  show ?thesis
  proof (cases "?b = []")
    case True
    then have "unit = WORD \<longrightarrow> list_all py_space content" using c by (auto simp: list_all_iff dest: sym [of "[]"] simp: dropWhile_eq_Nil_conv)
    with True chunks show ?thesis by (auto simp: unit_def [symmetric] kept_content_def)
  next
    case False
    then have "unit = WORD \<longrightarrow> \<not> list_all py_space content" using blank_chunks by blast
    with False chunks c show ?thesis by (auto simp: unit_def [symmetric] kept_content_def)
  qed
qed

lemma send_chunk_sends:
  "sent (send_chunk e n chunk st) = sent st @ [sse_line (sv_dumps e) (content_event chunk)]"
  by (simp add: send_chunk_def Let_def update_def time_ns_def act_def emit_def)

lemma send_chunks_sends:
  "sent (send_chunks e n started total_weight cumulative ps st) =
     sent st @ map (\<lambda>(chunk, _). sse_line (sv_dumps e) (content_event chunk)) ps"
proof (induction ps arbitrary: cumulative st)
  case (Cons p ps)
  obtain chunk w where "p = (chunk, w)" by force
  then show ?case
    using Cons quiet_fields(1) [OF quiet_sleep(2)] by (simp add: Let_def send_chunk_sends)
qed simp

lemma synthetic_chunks_nonempty: "synthetic_chunks e content \<noteq> []"
  by (simp add: synthetic_chunks_def Let_def)

lemma synthetic_stream_sends:
  "\<exists>before. sent (synthetic_stream e response choice message content received st) = sent st @ before @
      map (\<lambda>chunk. sse_line (sv_dumps e) (content_event chunk)) (synthetic_chunks e content) @
      [sse_line (sv_dumps e) (final_event response choice), ''data: [DONE]'' @ [LF, LF]] \<and>
    before = (if truthy_json (jget message ''tool_calls'')
              then [sse_line (sv_dumps e) (tool_event (jget message ''tool_calls''))] else [])"
proof -
  let ?chunks = "synthetic_chunks e content"
  have fst_zip: "map (\<lambda>(chunk, _). f chunk) (zip xs (map g xs)) = map f xs" for f :: "string \<Rightarrow> string" and g :: "string \<Rightarrow> rat" and xs
    by (induction xs) auto
  have hd_tl: "f (hd ?chunks) # map f (tl ?chunks) = map f ?chunks" for f :: "string \<Rightarrow> string"
    using synthetic_chunks_nonempty [of e content] by (cases ?chunks) auto
  note q = quiet_fields(1) [OF quiet_update] quiet_fields(1) [OF quiet_update_timed] quiet_fields(1) [OF quiet_sleep(2)]
  have m: "sent (snd (monotonic e st)) = sent st" for st by (simp add: monotonic_def)
  show ?thesis
    unfolding synthetic_stream_def Let_def
    by (simp add: q send_chunk_sends send_chunks_sends fst_zip monotonic_def hd_tl [symmetric] del: append_Cons)
qed

lemma synthetic_recorded:
  "recorded Finished Finished r (fold row_action (ss_actions (synthetic_stream e response choice message content received st)) r)"
  unfolding synthetic_stream_def Let_def
  by (simp add: update_timed_def update_def time_ns_def act_def row_action_def recorded_def split: prod.split)

text \<open>
  A whole response that is turned into a stream is sent with its tool calls first, then its
  content in pieces that give the content back, then the finish reason and the end mark, and the
  request is recorded as completed. Cut by words the content loses the white space it starts with.
\<close>

theorem whole_reply_streamed:
  assumes "apply_nonstream_timing e (Some (JObj response)) = Inr (Replaced_By_Stream, acts)"
  shows "\<exists>c m tools chunks. response_message (Some (JObj response)) = Inr (Some (JObj c), JObj m) \<and>
    emitted_lines acts = tools @ map (\<lambda>chunk. sse_line (sv_dumps e) (content_event chunk)) chunks @
      [sse_line (sv_dumps e) (final_event response c), ''data: [DONE]'' @ [LF, LF]] \<and>
    tools = (if truthy_json (jget m ''tool_calls'')
             then [sse_line (sv_dumps e) (tool_event (jget m ''tool_calls''))] else []) \<and>
    concat chunks = kept_content (if rt_mode (sv_timing e) = SLOW then rt_stream_unit (sv_timing e) else CHARACTER)
      (message_content (JObj m)) \<and>
    recorded Finished Finished r (fold row_action acts r)"
proof -
  obtain c m received st where m: "response_message (Some (JObj response)) = Inr (Some (JObj c), JObj m)"
    and acts: "acts = ss_actions (synthetic_stream e response c m (message_content (JObj m)) received st)"
    and st: "sent st = []"
    using assms
    by (auto simp: apply_nonstream_timing_def time_ns_def monotonic_def bindE_Inr_iff update_def act_def
        initial_state_def Let_def split: if_splits option.splits json.splits)
  with synthetic_stream_sends [of e response c m "message_content (JObj m)" received st] show ?thesis
    using synthetic_recorded concat_synthetic_chunks [of e "message_content (JObj m)"] by (auto simp: acts)
qed

definition whole_reply :: "(string \<times> json) list" where
  "whole_reply = [(''choices'', JList [JObj [(''message'', JObj [(''role'', JStr ''assistant''),
     (''content'', JStr ''Hello'')]), (''finish_reason'', JStr ''stop'')]])]"

lemma whole_reply_streamed_witness:
  "\<exists>acts chunks rest. apply_nonstream_timing (stream_sample slow_timing) (Some (JObj whole_reply)) = Inr (Replaced_By_Stream, acts) \<and>
    emitted_lines acts = map (\<lambda>chunk. sse_line sample_dumps (content_event chunk)) chunks @ rest \<and>
    concat chunks = ''Hello''"
proof -
  let ?e = "stream_sample slow_timing"
  have m: "response_message (Some (JObj whole_reply)) = Inr (Some (JObj [(''message'', JObj [(''role'', JStr ''assistant''),
     (''content'', JStr ''Hello'')]), (''finish_reason'', JStr ''stop'')]), JObj [(''role'', JStr ''assistant''),
     (''content'', JStr ''Hello'')])"
    by (simp add: response_message_def whole_reply_def jget_def py_first_def)
  have t: "rt_mode slow_timing = SLOW" "rt_stream_unit slow_timing = CHARACTER"
    by (simp_all add: slow_timing_def default_timing_def)
  obtain acts where acts: "apply_nonstream_timing ?e (Some (JObj whole_reply)) = Inr (Replaced_By_Stream, acts)"
    using m t by (auto simp: apply_nonstream_timing_def time_ns_def monotonic_def message_content_def jget_def
        string_or_empty_def can_synthesize_def quick_synthetic_def response_error_def whole_reply_def Let_def)
  have "\<exists>c m tools chunks. response_message (Some (JObj whole_reply)) = Inr (Some (JObj c), JObj m) \<and>
    emitted_lines acts = tools @ map (\<lambda>chunk. sse_line (sv_dumps ?e) (content_event chunk)) chunks @
      [sse_line (sv_dumps ?e) (final_event whole_reply c), ''data: [DONE]'' @ [LF, LF]] \<and>
    tools = (if truthy_json (jget m ''tool_calls'')
             then [sse_line (sv_dumps ?e) (tool_event (jget m ''tool_calls''))] else []) \<and>
    concat chunks = kept_content (if rt_mode (sv_timing ?e) = SLOW then rt_stream_unit (sv_timing ?e) else CHARACTER)
      (message_content (JObj m)) \<and>
    recorded Finished Finished stored_sample (fold row_action acts stored_sample)"
    by (rule whole_reply_streamed [OF acts])
  then show ?thesis
    using acts t by (fastforce simp: m jget_def message_content_def string_or_empty_def kept_content_def)
qed

end
