(* ===== verification/Telemetry_Forms.thy ===== *)
theory Telemetry_Forms
  imports Warning_Runtime
begin

text \<open>
  The batches of interaction telemetry a participant's browser sends
  (\<open>routers/experiment_telemetry.py\<close>): the checks of the raw value, the form of an event with
  its validator, and the payload that is stored. Parsing a raw value into typed fields is
  pydantic's work; the forms below are its result. A timestamp is the number of nanoseconds the
  code computes from it.
\<close>

subsection \<open>Constants\<close>

definition MAX_BATCH_SIZE :: nat where "MAX_BATCH_SIZE = 100"

definition MAX_PAYLOAD_BYTES :: nat where "MAX_PAYLOAD_BYTES = 256 * 1024"

definition SCHEMA_VERSION :: int where "SCHEMA_VERSION = 4"

definition FORBIDDEN_KEYS :: "string list" where
  "FORBIDDEN_KEYS = [''text'', ''content'', ''raw'', ''key'', ''clipboard'', ''clipboard_text'', ''password'']"

definition TAB_EVENT_TYPES :: "string list" where
  "TAB_EVENT_TYPES = [''tab_snapshot'', ''tab_created'', ''tab_updated'', ''tab_activated'', ''tab_highlighted'',
     ''tab_moved'', ''tab_attached'', ''tab_detached'', ''tab_replaced'', ''tab_removed'']"

definition EVENT_TYPES :: "string list" where
  "EVENT_TYPES = [''keystroke'', ''copy'', ''cut'', ''paste'', ''visibility_change'', ''window_blur'', ''window_focus'',
     ''focus_away'', ''focus_return'', ''answer_change''] @ TAB_EVENT_TYPES @ [''window_focus_changed'', ''telemetry_loss'']"

definition KEY_CLASSES :: "string list" where
  "KEY_CLASSES = [''printable'', ''whitespace'', ''backspace'', ''delete'', ''enter'', ''arrow/navigation'', ''modifier'',
     ''shortcut'', ''other'']"

subsection \<open>Forbidden keys\<close>

text \<open>\<open>str.lower\<close> on the letters that can occur in a forbidden key.\<close>

definition lower_char :: "char \<Rightarrow> char" where
  "lower_char c = (let n = (of_char c :: nat) in if 65 \<le> n \<and> n \<le> 90 then char_of (n + 32) else c)"

definition lower :: "string \<Rightarrow> string" where
  "lower s = map lower_char s"

fun reject_forbidden_keys :: "json \<Rightarrow> err + unit"
  and reject_entries :: "(string \<times> json) list \<Rightarrow> err + unit"
  and reject_children :: "json list \<Rightarrow> err + unit" where
  "reject_forbidden_keys (JObj m) = reject_entries m"
| "reject_forbidden_keys (JList xs) = reject_children xs"
| "reject_forbidden_keys JNull = Inr ()"
| "reject_forbidden_keys (JBool b) = Inr ()"
| "reject_forbidden_keys (JNum n) = Inr ()"
| "reject_forbidden_keys (JStr s) = Inr ()"
| "reject_entries [] = Inr ()"
| "reject_entries ((k, child) # rest) =
     (if lower k \<in> set FORBIDDEN_KEYS then Inl (ValueError (''Forbidden telemetry field: '' @ k))
      else if lower k = ''incognito'' \<and> child \<noteq> JBool False
      then Inl (ValueError ''Incognito telemetry is forbidden.'')
      else bindE (reject_forbidden_keys child) (\<lambda>_. reject_entries rest))"
| "reject_children [] = Inr ()"
| "reject_children (child # rest) = bindE (reject_forbidden_keys child) (\<lambda>_. reject_children rest)"

subsection \<open>Forms\<close>

record modifier_flags =
  mf_ctrl :: bool
  mf_shift :: bool
  mf_alt :: bool
  mf_meta :: bool

record muted_info =
  mi_muted :: bool
  mi_reason :: "string option"
  mi_extension_id :: "string option"

record tab_form =
  tb_tab_id :: int
  tb_window_id :: int
  tb_index :: int
  tb_opener_tab_id :: "int option"
  tb_group_id :: "int option"
  tb_split_view_id :: "int option"
  tb_active :: bool
  tb_highlighted :: bool
  tb_pinned :: bool
  tb_incognito :: bool
  tb_audible :: "bool option"
  tb_auto_discardable :: "bool option"
  tb_discarded :: "bool option"
  tb_frozen :: "bool option"
  tb_muted_info :: "muted_info option"
  tb_status :: "string option"
  tb_url :: "string option"
  tb_pending_url :: "string option"
  tb_title :: "string option"
  tb_fav_icon_url :: "string option"
  tb_width :: "int option"
  tb_height :: "int option"
  tb_last_accessed :: "rat option"
  tb_session_id :: "string option"
  tb_truncated_fields :: "string list"

record event_form =
  ef_event_id :: string
  ef_type :: string
  ef_timestamp :: int
  ef_timezone :: bool
  ef_field :: string
  ef_session_task_id :: "string option"
  ef_question_id :: "string option"
  ef_submission_id :: "string option"
  ef_key_class :: "string option"
  ef_key_value :: "string option"
  ef_inter_key_interval_ms :: "int option"
  ef_hold_duration_ms :: "int option"
  ef_modifiers :: "modifier_flags option"
  ef_text_length :: "int option"
  ef_line_count :: "int option"
  ef_text_value :: "string option"
  ef_visibility :: "string option"
  ef_away_duration_ms :: "int option"
  ef_control_type :: "string option"
  ef_answered :: "bool option"
  ef_browser_session_id :: "string option"
  ef_sequence :: "int option"
  ef_tab :: "tab_form option"
  ef_snapshot_phase :: "string option"
  ef_changed_fields :: "string list option"
  ef_from_index :: "int option"
  ef_to_index :: "int option"
  ef_old_window_id :: "int option"
  ef_new_window_id :: "int option"
  ef_replaced_tab_id :: "int option"
  ef_is_window_closing :: "bool option"
  ef_window_id :: "int option"
  ef_window_focused :: "bool option"
  ef_dropped_event_count :: "int option"
  ef_fields_set :: "string list"

record batch_form =
  bf_experiment_session_id :: string
  bf_schema_version :: int
  bf_events :: "event_form list"

subsection \<open>Validators\<close>

definition between :: "'a :: ord \<Rightarrow> 'a \<Rightarrow> 'a \<Rightarrow> bool" where
  "between lo hi n \<longleftrightarrow> lo \<le> n \<and> n \<le> hi"

definition chrome_id :: "int \<Rightarrow> bool" where
  "chrome_id = between (- 1) 2147483647"

definition tab_fields_ok :: "tab_form \<Rightarrow> bool" where
  "tab_fields_ok t \<longleftrightarrow>
     chrome_id (tb_tab_id t) \<and> chrome_id (tb_window_id t) \<and> between (- 1) 1000000 (tb_index t) \<and>
     list_all (opt_ok chrome_id) [tb_opener_tab_id t, tb_group_id t, tb_split_view_id t] \<and>
     opt_ok (\<lambda>m. opt_ok (\<lambda>r. r \<in> {''user'', ''capture'', ''extension''}) (mi_reason m) \<and>
       opt_ok (\<lambda>i. length i \<le> 128) (mi_extension_id m)) (tb_muted_info t) \<and>
     opt_ok (\<lambda>s. s \<in> {''unloaded'', ''loading'', ''complete''}) (tb_status t) \<and>
     list_all (opt_ok (\<lambda>s. length s \<le> 16384)) [tb_url t, tb_pending_url t, tb_fav_icon_url t] \<and>
     opt_ok (\<lambda>s. length s \<le> 8192) (tb_title t) \<and>
     list_all (opt_ok (between 0 1000000)) [tb_width t, tb_height t] \<and>
     opt_ok (between 0 10000000000000000) (tb_last_accessed t) \<and>
     opt_ok (\<lambda>s. length s \<le> 256) (tb_session_id t) \<and>
     length (tb_truncated_fields t) \<le> 4 \<and>
     set (tb_truncated_fields t) \<subseteq> {''url'', ''pending_url'', ''title'', ''fav_icon_url''}"

definition validate_tab :: "tab_form \<Rightarrow> err + tab_form" where
  "validate_tab t =
     (if \<not> tab_fields_ok t then Inl (FieldError ''tab'')
      else if tb_incognito t then Inl (ValueError ''Incognito tabs are not accepted for experiment telemetry.'')
      else Inr t)"

definition event_fields_ok :: "event_form \<Rightarrow> bool" where
  "event_fields_ok f \<longleftrightarrow>
     ef_field f \<in> {''essay'', ''question'', ''chat'', ''unknown''} \<and>
     opt_ok (\<lambda>s. 1 \<le> length s \<and> length s \<le> 40) (ef_key_value f) \<and>
     opt_ok (between 0 3600000) (ef_inter_key_interval_ms f) \<and> opt_ok (between 0 600000) (ef_hold_duration_ms f) \<and>
     opt_ok (between 0 10000000) (ef_text_length f) \<and> opt_ok (between 0 1000000) (ef_line_count f) \<and>
     opt_ok (\<lambda>s. length s \<le> 20000) (ef_text_value f) \<and>
     opt_ok (\<lambda>s. s \<in> {''hidden'', ''visible''}) (ef_visibility f) \<and>
     opt_ok (between 0 86400000) (ef_away_duration_ms f) \<and>
     opt_ok (\<lambda>s. s \<in> {''single_choice'', ''multiple_select'', ''fill_blank'', ''free_text''}) (ef_control_type f) \<and>
     opt_ok (between 1 9007199254740991) (ef_sequence f) \<and>
     opt_ok (\<lambda>s. s \<in> {''initial'', ''final''}) (ef_snapshot_phase f) \<and>
     opt_ok (\<lambda>fs. length fs \<le> 64 \<and> list_all (\<lambda>s. 1 \<le> length s \<and> length s \<le> 128) fs) (ef_changed_fields f) \<and>
     list_all (opt_ok (between (- 1) 1000000)) [ef_from_index f, ef_to_index f] \<and>
     list_all (opt_ok chrome_id) [ef_old_window_id f, ef_new_window_id f, ef_replaced_tab_id f, ef_window_id f] \<and>
     opt_ok (between 1 10000000) (ef_dropped_event_count f)"

definition allowed_fields :: "string \<Rightarrow> string list" where
  "allowed_fields kind =
     (let tab = [''browser_session_id'', ''sequence'', ''tab''] in
      if kind = ''keystroke'' then [''key_class'', ''inter_key_interval_ms'', ''hold_duration_ms'', ''modifiers'', ''key_value'']
      else if kind \<in> {''copy'', ''cut'', ''paste''} then [''text_length'', ''line_count'', ''text_value'']
      else if kind = ''visibility_change'' then [''visibility'']
      else if kind = ''focus_return'' then [''away_duration_ms'']
      else if kind = ''answer_change'' then [''control_type'', ''answered'']
      else if kind = ''tab_snapshot'' then tab @ [''snapshot_phase'']
      else if kind = ''tab_updated'' then tab @ [''changed_fields'']
      else if kind = ''tab_moved'' then tab @ [''from_index'', ''to_index'']
      else if kind \<in> {''tab_attached'', ''tab_detached''} then tab @ [''old_window_id'', ''new_window_id'']
      else if kind = ''tab_replaced'' then tab @ [''replaced_tab_id'']
      else if kind = ''tab_removed'' then tab @ [''is_window_closing'']
      else if kind \<in> {''tab_created'', ''tab_activated'', ''tab_highlighted''} then tab
      else if kind = ''window_focus_changed'' then [''browser_session_id'', ''sequence'', ''window_id'', ''window_focused'']
      else if kind = ''telemetry_loss'' then [''browser_session_id'', ''sequence'', ''dropped_event_count'']
      else [])"

definition context_fields :: "string list" where
  "context_fields = [''event_id'', ''type'', ''timestamp'', ''field'', ''session_task_id'', ''question_id'', ''submission_id'']"

text \<open>The checks of \<open>validate_event_shape\<close> in order: the condition under which a message is raised.\<close>

definition shape_checks :: "event_form \<Rightarrow> (bool \<times> string) list" where
  "shape_checks f =
     (let kind = ef_type f in
      [(\<not> ef_timezone f, ''Telemetry timestamps must include a timezone.''),
       (kind \<notin> set EVENT_TYPES, ''Unsupported telemetry event type.''),
       (\<not> set (ef_fields_set f) - set context_fields \<subseteq> set (allowed_fields kind),
        ''Event contains fields that are not valid for its type.''),
       (kind = ''keystroke'' \<and> (opt_ok (\<lambda>c. c \<notin> set KEY_CLASSES) (ef_key_class f) \<or> ef_modifiers f = None \<or>
           \<not> truthy_str (ef_key_value f)),
        ''Keystroke events require a valid key class, key value, and modifier flags.''),
       (kind = ''visibility_change'' \<and> ef_visibility f = None, ''Visibility events require a visibility state.''),
       (kind = ''focus_return'' \<and> ef_away_duration_ms f = None, ''Focus return events require an away duration.''),
       (kind = ''answer_change'' \<and> (ef_field f \<noteq> ''question'' \<or> ef_control_type f = None \<or> ef_answered f = None),
        ''Question answer changes require control type and answered state.''),
       (ef_field f = ''question'' \<and> (\<not> truthy_str (ef_session_task_id f) \<or> \<not> truthy_str (ef_question_id f)),
        ''Question telemetry requires task and question context.''),
       (kind \<in> set TAB_EVENT_TYPES \<and> (ef_browser_session_id f = None \<or> ef_sequence f = None \<or> ef_tab f = None),
        ''Tab telemetry requires browser session, sequence, and tab snapshot.''),
       (kind = ''tab_snapshot'' \<and> ef_snapshot_phase f = None, ''Tab snapshots require an initial or final phase.''),
       (kind = ''tab_updated'' \<and> ef_changed_fields f = None, ''Tab updates require a changed-fields list.''),
       (kind = ''tab_moved'' \<and> (ef_from_index f = None \<or> ef_to_index f = None),
        ''Tab move telemetry requires original and destination positions.''),
       (kind = ''tab_attached'' \<and> ef_new_window_id f = None,
        ''Tab attachment telemetry requires the destination window.''),
       (kind = ''tab_detached'' \<and> ef_old_window_id f = None,
        ''Tab detachment telemetry requires the original window.''),
       (kind = ''tab_replaced'' \<and> ef_replaced_tab_id f = None,
        ''Tab replacement telemetry requires the replaced tab ID.''),
       (kind = ''tab_removed'' \<and> ef_is_window_closing f = None,
        ''Tab removal telemetry requires the window-closing state.''),
       (kind = ''window_focus_changed'' \<and> (ef_browser_session_id f = None \<or> ef_sequence f = None \<or>
           ef_window_id f = None \<or> ef_window_focused f = None),
        ''Window focus telemetry requires browser session, sequence, window, and focus state.''),
       (kind = ''telemetry_loss'' \<and> (ef_browser_session_id f = None \<or> ef_sequence f = None \<or>
           ef_dropped_event_count f = None),
        ''Telemetry loss events require browser session, sequence, and dropped count.'')])"

definition validate_event :: "event_form \<Rightarrow> err + event_form" where
  "validate_event f =
     bindE (case ef_tab f of None \<Rightarrow> Inr None | Some t \<Rightarrow> bindE (validate_tab t) (\<lambda>t. Inr (Some t))) (\<lambda>_.
       if \<not> event_fields_ok f then Inl (FieldError ''event'')
       else case find fst (shape_checks f) of
           Some (_, message) \<Rightarrow> Inl (ValueError message)
         | None \<Rightarrow> Inr f)"

text \<open>\<open>raw_bytes\<close> is the length of the compact JSON text of the raw value.\<close>

definition validate_batch :: "json \<Rightarrow> nat \<Rightarrow> batch_form \<Rightarrow> err + batch_form" where
  "validate_batch raw raw_bytes b =
     bindE (reject_forbidden_keys raw) (\<lambda>_.
       if MAX_PAYLOAD_BYTES < raw_bytes then Inl (ValueError ''Telemetry batch exceeds maximum payload size.'')
       else if \<not> (1 \<le> length (bf_experiment_session_id b) \<and> length (bf_experiment_session_id b) \<le> 100)
       then Inl (FieldError ''experiment_session_id'')
       else if \<not> between 1 SCHEMA_VERSION (bf_schema_version b) then Inl (FieldError ''schema_version'')
       else if \<not> (1 \<le> length (bf_events b) \<and> length (bf_events b) \<le> MAX_BATCH_SIZE) then Inl (FieldError ''events'')
       else bindE (mapE validate_event (bf_events b)) (\<lambda>_.
         if bf_schema_version b < 2 \<and> list_ex (\<lambda>f. ef_type f \<in> set TAB_EVENT_TYPES) (bf_events b)
         then Inl (ValueError ''Tab telemetry requires schema version 2.'')
         else Inr b))"

end
