(* ===== verification/Telemetry_Routes.thy ===== *)
theory Telemetry_Routes
  imports Telemetry_Forms
begin

text \<open>
  The telemetry routes (\<open>routers/experiment_telemetry.py\<close>) and the readiness of the browser
  extension, which \<open>routers/experiments.py\<close> asks for before an experiment starts. The state is the
  experiment store with the stored client events, the summary of each session and the presence of
  the extension. \<open>urlsplit\<close> is the parameter \<open>split\<close>: scheme, network location and host name, or
  \<open>None\<close> for its \<open>ValueError\<close>.
\<close>

subsection \<open>Tables\<close>

record telemetry_event =
  tv_id :: string
  tv_user_id :: string
  tv_experiment_session_id :: string
  tv_event_type :: string
  tv_event_time :: int
  tv_field_context :: string
  tv_payload :: json
  tv_created_at :: int
  tv_session_task_id :: "string option"
  tv_question_id :: "string option"
  tv_submission_id :: "string option"
  tv_schema_version :: int

record telemetry_summary =
  ts_id :: string
  ts_user_id :: string
  ts_experiment_session_id :: string
  ts_total_keystrokes :: int
  ts_avg_inter_key_interval_ms :: "rat option"
  ts_avg_key_hold_duration_ms :: "rat option"
  ts_pause_count :: int
  ts_longest_pause_ms :: int
  ts_copy_count :: int
  ts_cut_count :: int
  ts_paste_count :: int
  ts_total_pasted_chars :: int
  ts_tab_switch_count :: int
  ts_total_time_away_ms :: int
  ts_inter_key_interval_total_ms :: int
  ts_inter_key_interval_sample_count :: int
  ts_key_hold_duration_total_ms :: int
  ts_key_hold_duration_sample_count :: int
  ts_created_at :: int
  ts_updated_at :: int

record extension_presence =
  ep_experiment_session_id :: string
  ep_user_id :: string
  ep_extension_version :: string
  ep_schema_version :: int
  ep_tabs_permission :: bool
  ep_incognito_allowed :: bool
  ep_origin :: string
  ep_connected_at :: int
  ep_last_seen_at :: int

record telemetry_db =
  td_base :: experiment_db
  td_events :: "telemetry_event list"
  td_summaries :: "telemetry_summary list"
  td_presence :: "extension_presence list"

definition empty_summary :: "int \<Rightarrow> string \<Rightarrow> string \<Rightarrow> telemetry_summary" where
  "empty_summary now session_id user_id =
     \<lparr>ts_id = session_id, ts_user_id = user_id, ts_experiment_session_id = session_id, ts_total_keystrokes = 0,
      ts_avg_inter_key_interval_ms = None, ts_avg_key_hold_duration_ms = None, ts_pause_count = 0,
      ts_longest_pause_ms = 0, ts_copy_count = 0, ts_cut_count = 0, ts_paste_count = 0, ts_total_pasted_chars = 0,
      ts_tab_switch_count = 0, ts_total_time_away_ms = 0, ts_inter_key_interval_total_ms = 0,
      ts_inter_key_interval_sample_count = 0, ts_key_hold_duration_total_ms = 0,
      ts_key_hold_duration_sample_count = 0, ts_created_at = now, ts_updated_at = now\<rparr>"

subsection \<open>The stored payload\<close>

text \<open>\<open>model_dump\<close> with \<open>exclude_none\<close>: the fields that have a value.\<close>

definition entry :: "string \<Rightarrow> ('a \<Rightarrow> json) \<Rightarrow> 'a option \<Rightarrow> (string \<times> json) list" where
  "entry k f v = (case v of None \<Rightarrow> [] | Some x \<Rightarrow> [(k, f x)])"

abbreviation jint :: "int \<Rightarrow> json" where "jint n \<equiv> JNum (of_int n)"

definition dump_modifiers :: "modifier_flags \<Rightarrow> json" where
  "dump_modifiers m = JObj [(''ctrl'', JBool (mf_ctrl m)), (''shift'', JBool (mf_shift m)),
     (''alt'', JBool (mf_alt m)), (''meta'', JBool (mf_meta m))]"

definition dump_muted :: "muted_info \<Rightarrow> json" where
  "dump_muted m = JObj ((''muted'', JBool (mi_muted m)) # entry ''reason'' JStr (mi_reason m) @
     entry ''extension_id'' JStr (mi_extension_id m))"

definition dump_tab :: "tab_form \<Rightarrow> json" where
  "dump_tab t = JObj (
     [(''tab_id'', jint (tb_tab_id t)), (''window_id'', jint (tb_window_id t)), (''index'', jint (tb_index t))] @
     entry ''opener_tab_id'' jint (tb_opener_tab_id t) @ entry ''group_id'' jint (tb_group_id t) @
     entry ''split_view_id'' jint (tb_split_view_id t) @
     [(''active'', JBool (tb_active t)), (''highlighted'', JBool (tb_highlighted t)),
      (''pinned'', JBool (tb_pinned t)), (''incognito'', JBool (tb_incognito t))] @
     entry ''audible'' JBool (tb_audible t) @ entry ''auto_discardable'' JBool (tb_auto_discardable t) @
     entry ''discarded'' JBool (tb_discarded t) @ entry ''frozen'' JBool (tb_frozen t) @
     entry ''muted_info'' dump_muted (tb_muted_info t) @ entry ''status'' JStr (tb_status t) @
     entry ''url'' JStr (tb_url t) @ entry ''pending_url'' JStr (tb_pending_url t) @ entry ''title'' JStr (tb_title t) @
     entry ''fav_icon_url'' JStr (tb_fav_icon_url t) @ entry ''width'' jint (tb_width t) @
     entry ''height'' jint (tb_height t) @ entry ''last_accessed'' JNum (tb_last_accessed t) @
     entry ''session_id'' JStr (tb_session_id t) @
     [(''truncated_fields'', JList (map JStr (tb_truncated_fields t)))])"

definition payload :: "event_form \<Rightarrow> json" where
  "payload f = JObj (
     entry ''key_class'' JStr (ef_key_class f) @ entry ''key_value'' JStr (ef_key_value f) @
     entry ''inter_key_interval_ms'' jint (ef_inter_key_interval_ms f) @
     entry ''hold_duration_ms'' jint (ef_hold_duration_ms f) @ entry ''modifiers'' dump_modifiers (ef_modifiers f) @
     entry ''text_length'' jint (ef_text_length f) @ entry ''line_count'' jint (ef_line_count f) @
     entry ''text_value'' JStr (ef_text_value f) @ entry ''visibility'' JStr (ef_visibility f) @
     entry ''away_duration_ms'' jint (ef_away_duration_ms f) @ entry ''control_type'' JStr (ef_control_type f) @
     entry ''answered'' JBool (ef_answered f) @ entry ''browser_session_id'' JStr (ef_browser_session_id f) @
     entry ''sequence'' jint (ef_sequence f) @ entry ''tab'' dump_tab (ef_tab f) @
     entry ''snapshot_phase'' JStr (ef_snapshot_phase f) @
     entry ''changed_fields'' (\<lambda>fs. JList (map JStr fs)) (ef_changed_fields f) @
     entry ''from_index'' jint (ef_from_index f) @ entry ''to_index'' jint (ef_to_index f) @
     entry ''old_window_id'' jint (ef_old_window_id f) @ entry ''new_window_id'' jint (ef_new_window_id f) @
     entry ''replaced_tab_id'' jint (ef_replaced_tab_id f) @
     entry ''is_window_closing'' JBool (ef_is_window_closing f) @ entry ''window_id'' jint (ef_window_id f) @
     entry ''window_focused'' JBool (ef_window_focused f) @
     entry ''dropped_event_count'' jint (ef_dropped_event_count f))"

subsection \<open>The summary\<close>

text \<open>The average is rounded to two places; it is computed exactly where the code divides doubles.\<close>

definition average :: "int \<Rightarrow> int \<Rightarrow> rat" where
  "average total_ms samples = of_int (round_half_even (of_int total_ms / of_int samples * 100)) / 100"

definition add_interval :: "int \<Rightarrow> telemetry_summary \<Rightarrow> telemetry_summary" where
  "add_interval ms s =
     (let s = s\<lparr>ts_inter_key_interval_total_ms := ts_inter_key_interval_total_ms s + ms,
                ts_inter_key_interval_sample_count := ts_inter_key_interval_sample_count s + 1\<rparr>;
          s = s\<lparr>ts_avg_inter_key_interval_ms :=
                Some (average (ts_inter_key_interval_total_ms s) (ts_inter_key_interval_sample_count s))\<rparr>
      in if 2000 < ms
         then s\<lparr>ts_pause_count := ts_pause_count s + 1, ts_longest_pause_ms := max (ts_longest_pause_ms s) ms\<rparr>
         else s)"

definition add_hold :: "int \<Rightarrow> telemetry_summary \<Rightarrow> telemetry_summary" where
  "add_hold ms s =
     (let s = s\<lparr>ts_key_hold_duration_total_ms := ts_key_hold_duration_total_ms s + ms,
                ts_key_hold_duration_sample_count := ts_key_hold_duration_sample_count s + 1\<rparr>
      in s\<lparr>ts_avg_key_hold_duration_ms :=
           Some (average (ts_key_hold_duration_total_ms s) (ts_key_hold_duration_sample_count s))\<rparr>)"

definition apply_opt :: "('a \<Rightarrow> 'b \<Rightarrow> 'b) \<Rightarrow> 'a option \<Rightarrow> 'b \<Rightarrow> 'b" where
  "apply_opt f v s = (case v of None \<Rightarrow> s | Some x \<Rightarrow> f x s)"

definition apply_to_summary :: "int \<Rightarrow> event_form \<Rightarrow> telemetry_summary \<Rightarrow> telemetry_summary" where
  "apply_to_summary now f s =
     (let kind = ef_type f;
          s = (if kind = ''keystroke'' then
                 apply_opt add_hold (ef_hold_duration_ms f)
                   (apply_opt add_interval (ef_inter_key_interval_ms f)
                     (s\<lparr>ts_total_keystrokes := ts_total_keystrokes s + 1\<rparr>))
               else if kind = ''copy'' then s\<lparr>ts_copy_count := ts_copy_count s + 1\<rparr>
               else if kind = ''cut'' then s\<lparr>ts_cut_count := ts_cut_count s + 1\<rparr>
               else if kind = ''paste'' then
                 s\<lparr>ts_paste_count := ts_paste_count s + 1,
                   ts_total_pasted_chars := ts_total_pasted_chars s + or_int (ef_text_length f) 0\<rparr>
               else if kind = ''focus_away'' then s\<lparr>ts_tab_switch_count := ts_tab_switch_count s + 1\<rparr>
               else if kind = ''focus_return'' then
                 s\<lparr>ts_total_time_away_ms := ts_total_time_away_ms s + or_int (ef_away_duration_ms f) 0\<rparr>
               else s)
      in s\<lparr>ts_updated_at := now\<rparr>)"

subsection \<open>Receiving a batch\<close>

definition task_context_ok :: "string \<Rightarrow> experiment_db \<Rightarrow> event_form \<Rightarrow> bool" where
  "task_context_ok session_id d f \<longleftrightarrow> \<not> truthy_str (ef_session_task_id f) \<or>
     list_ex (\<lambda>t. Some (st_id t) = ef_session_task_id f \<and> st_experiment_session_id t = session_id) (xd_tasks d)"

definition question_context_ok :: "string \<Rightarrow> experiment_db \<Rightarrow> event_form \<Rightarrow> bool" where
  "question_context_ok session_id d f \<longleftrightarrow>
     list_ex (\<lambda>t. Some (st_id t) = ef_session_task_id f \<and> st_experiment_session_id t = session_id \<and>
       list_ex (\<lambda>q. st_question_task_id t = Some (tq_task_id q) \<and> Some (tq_id q) = ef_question_id f)
         (db_questions (xd_questions d))) (xd_tasks d)"

definition submission_context_ok :: "string \<Rightarrow> experiment_db \<Rightarrow> event_form \<Rightarrow> bool" where
  "submission_context_ok user_id d f \<longleftrightarrow> \<not> truthy_str (ef_submission_id f) \<or>
     list_ex (\<lambda>s. Some (qs_id s) = ef_submission_id f \<and> Some (qs_session_task_id s) = ef_session_task_id f \<and>
       qs_user_id s = user_id) (sd_submissions (xd_question_subs d))"

text \<open>The contexts are a set in the code; which of several bad contexts is met first does not
  change the answer but for its message.\<close>

definition check_contexts :: "string \<Rightarrow> string \<Rightarrow> experiment_db \<Rightarrow> event_form list \<Rightarrow> err + unit" where
  "check_contexts session_id user_id d evs =
     (if \<not> list_all (task_context_ok session_id d) evs
      then Inl (http 403 ''Telemetry task context is not assigned to this session.'')
      else foldE (\<lambda>f _.
             if \<not> question_context_ok session_id d f
             then Inl (http 403 ''Question telemetry context is not assigned to this session.'')
             else if \<not> submission_context_ok user_id d f
             then Inl (http 403 ''Question telemetry submission is not owned by user.'')
             else Inr ()) (filter (\<lambda>f. ef_field f = ''question'') evs) ())"

definition event_row :: "int \<Rightarrow> string \<Rightarrow> string \<Rightarrow> int \<Rightarrow> event_form \<Rightarrow> telemetry_event" where
  "event_row now user_id session_id schema_version f =
     \<lparr>tv_id = ef_event_id f, tv_user_id = user_id, tv_experiment_session_id = session_id, tv_event_type = ef_type f,
      tv_event_time = ef_timestamp f, tv_field_context = ef_field f, tv_payload = payload f, tv_created_at = now,
      tv_session_task_id = ef_session_task_id f, tv_question_id = ef_question_id f,
      tv_submission_id = ef_submission_id f, tv_schema_version = schema_version\<rparr>"

text \<open>The events that are not stored yet, each once.\<close>

fun fresh_events :: "string set \<Rightarrow> event_form list \<Rightarrow> event_form list" where
  "fresh_events seen [] = []"
| "fresh_events seen (f # rest) =
     (if ef_event_id f \<in> seen then fresh_events seen rest
      else f # fresh_events (insert (ef_event_id f) seen) rest)"

text \<open>All identifiers of events share one table with the events the server writes.\<close>

definition stored_ids :: "telemetry_db \<Rightarrow> string list" where
  "stored_ids d = map tv_id (td_events d) @ map re_id (xd_events (td_base d))"

definition put_summary :: "telemetry_summary \<Rightarrow> telemetry_summary list \<Rightarrow> telemetry_summary list" where
  "put_summary s rows =
     (if get_by ts_experiment_session_id (ts_experiment_session_id s) rows = None then add_row s rows
      else upd_by ts_experiment_session_id (ts_experiment_session_id s) (\<lambda>_. s) rows)"

definition telemetry_events ::
    "(nat \<Rightarrow> int) \<Rightarrow> user \<Rightarrow> batch_form \<Rightarrow> telemetry_db \<Rightarrow> (err + (int \<times> int)) \<times> telemetry_db" where
  "telemetry_events clock user b d =
     (let base = td_base d; sid = bf_experiment_session_id b in
      if us_admin user then (Inl (http 403 ''Administrators cannot submit telemetry.''), d)
      else case find_row (\<lambda>s. xs_id s = sid \<and> xs_user_id s = us_id user) (xd_sessions base) of
          None \<Rightarrow> (Inl (http 403 ''Experiment session is not owned by user.''), d)
        | Some session \<Rightarrow>
            if xs_state session \<noteq> IN_PROGRESS
            then (Inl (http 409 ''Experiment writing session is not active.''), d)
            else (case check_contexts sid (us_id user) base (bf_events b) of
                Inl err \<Rightarrow> (Inl err, d)
              | Inr _ \<Rightarrow>
                  let summary = (case get_by ts_experiment_session_id sid (td_summaries d) of
                          None \<Rightarrow> empty_summary (clock 0) sid (us_id user)
                        | Some s \<Rightarrow> s);
                      new = fresh_events (set (stored_ids d)) (bf_events b);
                      rows = map (\<lambda>(i, f). event_row (clock (2 * i + 1)) (us_id user) sid (bf_schema_version b) f)
                        (enumerate 0 new);
                      summary = foldl (\<lambda>s (i, f). apply_to_summary (clock (2 * i + 2)) f s) summary (enumerate 0 new);
                      stored = int (length new)
                  in (Inr (stored, int (length (bf_events b)) - stored),
                      d\<lparr>td_events := td_events d @ rows, td_summaries := put_summary summary (td_summaries d)\<rparr>)))"

end
