(* ===== verification/Extension_Presence.thy ===== *)
theory Extension_Presence
  imports Telemetry_Routes Completion_Observer
begin

text \<open>
  The heartbeat of the browser extension and its readiness, which is decided twice: by the
  heartbeat's answer (\<open>routers/experiment_telemetry.py\<close>) and by the guard of the start request
  (\<open>routers/experiments.py\<close>). The configuration is a record of the deployment's settings.
\<close>

record extension_config =
  xc_enabled :: bool
  xc_origin :: string
  xc_id :: string
  xc_name :: string
  xc_store_url :: string
  xc_min_version :: string
  xc_stale_seconds :: int

record url_parts =
  up_scheme :: string
  up_netloc :: string
  up_hostname :: "string option"

subsection \<open>Versions\<close>

text \<open>\<open>int(part)\<close>: white space around, a sign, digits with single underscores between them.\<close>

definition digit_value :: "char \<Rightarrow> int option" where
  "digit_value c = (let n = (of_char c :: int) in if 48 \<le> n \<and> n \<le> 57 then Some (n - 48) else None)"

fun digits_value :: "int \<Rightarrow> string \<Rightarrow> int option" where
  "digits_value acc [] = Some acc"
| "digits_value acc (c # cs) =
     (case digit_value c of
        Some v \<Rightarrow> digits_value (acc * 10 + v) cs
      | None \<Rightarrow>
          if c = CHR ''_'' \<and> cs \<noteq> [] \<and> digit_value (hd cs) \<noteq> None then digits_value acc cs else None)"

definition unsigned_int :: "string \<Rightarrow> int option" where
  "unsigned_int s = (case s of [] \<Rightarrow> None | c # _ \<Rightarrow> if digit_value c = None then None else digits_value 0 s)"

definition py_int :: "string \<Rightarrow> int option" where
  "py_int s =
     (case py_strip s of
        [] \<Rightarrow> None
      | c # cs \<Rightarrow>
          if c = CHR ''-'' then map_option uminus (unsigned_int cs)
          else if c = CHR ''+'' then unsigned_int cs
          else unsigned_int (c # cs))"

text \<open>\<open>s.split('.')\<close>\<close>

fun split_dots :: "string \<Rightarrow> string list" where
  "split_dots [] = [[]]"
| "split_dots (c # cs) =
     (if c = CHR ''.'' then [] # split_dots cs
      else (case split_dots cs of [] \<Rightarrow> [[c]] | p # ps \<Rightarrow> (c # p) # ps))"

text \<open>The empty tuple is the empty list.\<close>

definition version_tuple :: "string \<Rightarrow> int list" where
  "version_tuple s =
     (let parts = map py_int (split_dots s) in
      if list_ex (\<lambda>p. p = None) parts then []
      else
        let ns = map the parts in
        if \<not> (1 \<le> length ns \<and> length ns \<le> 4) \<or> list_ex (\<lambda>n. n < 0 \<or> 65535 < n) ns then []
        else ns @ replicate (4 - length ns) 0)"

text \<open>\<open>a >= b\<close> on tuples.\<close>

fun tuple_ge :: "int list \<Rightarrow> int list \<Rightarrow> bool" where
  "tuple_ge xs [] = True"
| "tuple_ge [] (y # ys) = False"
| "tuple_ge (x # xs) (y # ys) = (y < x \<or> x = y \<and> tuple_ge xs ys)"

definition rstrip_slash :: "string \<Rightarrow> string" where
  "rstrip_slash s = rev (dropWhile (\<lambda>c. c = CHR ''/'') (rev s))"

definition normalized :: "url_parts \<Rightarrow> string" where
  "normalized u = rstrip_slash (up_scheme u @ ''://'' @ up_netloc u)"

definition loopback :: "url_parts \<Rightarrow> bool" where
  "loopback u \<longleftrightarrow> up_hostname u \<in> {Some ''localhost'', Some ''127.0.0.1'', Some ''::1''}"

subsection \<open>The start guard\<close>

definition extension_configuration_error ::
    "(string \<Rightarrow> url_parts) \<Rightarrow> extension_config \<Rightarrow> string option" where
  "extension_configuration_error split x =
     (let u = split (xc_origin x) in
      if \<not> xc_enabled x then None
      else if (up_scheme u \<noteq> ''https'' \<and> \<not> (up_scheme u = ''http'' \<and> loopback u)) \<or> up_netloc u = [] \<or>
        normalized u \<noteq> xc_origin x
      then Some ''Extension origin must be fixed HTTPS, or HTTP loopback for development.''
      else if \<not> loopback u \<and> ((xc_id x = [] \<and> xc_name x = []) \<or> xc_store_url x = [])
      then Some ''Telemetry extension ID or name, and its download URL, must be configured.''
      else if xc_store_url x \<noteq> [] \<and> \<not> starts_with ''https://'' (xc_store_url x)
      then Some ''EXPERIMENT_TELEMETRY_EXTENSION_STORE_URL must be HTTPS.''
      else if version_tuple (xc_min_version x) = []
      then Some ''EXPERIMENT_TELEMETRY_EXTENSION_MIN_VERSION must be a Chrome extension version.''
      else None)"

definition extension_ready ::
    "(string \<Rightarrow> url_parts) \<Rightarrow> extension_config \<Rightarrow> int \<Rightarrow> extension_presence option \<Rightarrow> bool" where
  "extension_ready split x now presence =
     (if \<not> xc_enabled x then True
      else if extension_configuration_error split x \<noteq> None then False
      else case presence of
          None \<Rightarrow> False
        | Some p \<Rightarrow>
            now - ep_last_seen_at p \<le> xc_stale_seconds x * 10 ^ 9 \<and> ep_tabs_permission p \<and>
            \<not> ep_incognito_allowed p \<and> ep_schema_version p = SCHEMA_VERSION \<and>
            rstrip_slash (ep_origin p) = xc_origin x \<and> version_tuple (ep_extension_version p) \<noteq> [] \<and>
            tuple_ge (version_tuple (ep_extension_version p)) (version_tuple (xc_min_version x)))"

text \<open>The start request, whose guard runs before the start itself.\<close>

definition guarded_start ::
    "(string \<Rightarrow> url_parts) \<Rightarrow> extension_config \<Rightarrow> (nat \<Rightarrow> int) \<Rightarrow> session_env \<Rightarrow>
     (experiment_db \<Rightarrow> experiment_db) \<Rightarrow> user \<Rightarrow> telemetry_db \<Rightarrow> (err + unit) \<times> telemetry_db" where
  "guarded_start split x clock e race user d =
     (case get_current e user (td_base d) of
        (Inl err, b) \<Rightarrow> (Inl err, d\<lparr>td_base := b\<rparr>)
      | (Inr (state, session, _), b) \<Rightarrow>
          let d = d\<lparr>td_base := b\<rparr>;
              go = (case start e race user b of
                      (Inl err, b) \<Rightarrow> (Inl err, d\<lparr>td_base := b\<rparr>)
                    | (Inr _, b) \<Rightarrow> (Inr (), d\<lparr>td_base := b\<rparr>))
          in if \<not> xc_enabled x then go
             else (case session of
                 None \<Rightarrow> (Inl (http 409 ''Experiment task is not ready to start.''), d)
               | Some s \<Rightarrow>
                   if state \<notin> {TOPIC_REQUIRED, TASK_REQUIRED}
                   then (Inl (http 409 ''Experiment task is not ready to start.''), d)
                   else if \<not> extension_ready split x (clock 0)
                       (get_by ep_experiment_session_id (xs_id s) (td_presence d))
                   then (Inl (http 412 ''The required Chrome telemetry extension is not connected and ready.''), d)
                   else go))"

subsection \<open>The heartbeat\<close>

definition extension_presence_ready :: "extension_config \<Rightarrow> int \<Rightarrow> extension_presence option \<Rightarrow> bool" where
  "extension_presence_ready x now presence =
     (if \<not> xc_enabled x then True
      else case presence of
          None \<Rightarrow> False
        | Some p \<Rightarrow>
            now - ep_last_seen_at p \<le> xc_stale_seconds x * 10 ^ 9 \<and> ep_tabs_permission p \<and>
            \<not> ep_incognito_allowed p \<and> ep_schema_version p = SCHEMA_VERSION \<and>
            version_tuple (ep_extension_version p) \<noteq> [] \<and> version_tuple (xc_min_version x) \<noteq> [] \<and>
            tuple_ge (version_tuple (ep_extension_version p)) (version_tuple (xc_min_version x)) \<and>
            rstrip_slash (ep_origin p) = xc_origin x)"

record heartbeat_form =
  hb_extension_version :: string
  hb_extension_id :: string
  hb_extension_name :: "string option"
  hb_schema_version :: int
  hb_tabs_permission :: bool
  hb_incognito_allowed :: bool
  hb_origin :: string

definition validate_heartbeat :: "heartbeat_form \<Rightarrow> err + heartbeat_form" where
  "validate_heartbeat h =
     (if \<not> (1 \<le> length (hb_extension_version h) \<and> length (hb_extension_version h) \<le> 32)
      then Inl (FieldError ''extension_version'')
      else if \<not> (1 \<le> length (hb_extension_id h) \<and> length (hb_extension_id h) \<le> 64)
      then Inl (FieldError ''extension_id'')
      else if \<not> opt_ok (\<lambda>n. length n \<le> 128) (hb_extension_name h) then Inl (FieldError ''extension_name'')
      else if hb_schema_version h \<noteq> SCHEMA_VERSION then Inl (FieldError ''schema_version'')
      else if \<not> (1 \<le> length (hb_origin h) \<and> length (hb_origin h) \<le> 2048) then Inl (FieldError ''origin'')
      else Inr h)"

text \<open>\<open>split\<close> gives \<open>None\<close> where \<open>urlsplit\<close> raises; \<open>normal\<close> splits the normalized origin again.\<close>

definition check_origin ::
    "(string \<Rightarrow> url_parts option) \<Rightarrow> extension_config \<Rightarrow> heartbeat_form \<Rightarrow> err + string" where
  "check_origin split x h =
     (case split (hb_origin h) of
        None \<Rightarrow> Inl (http 422 ''Invalid extension origin.'')
      | Some u \<Rightarrow>
         (case split (normalized u) of
            None \<Rightarrow> Inl (ValueError ''urlsplit'')
          | Some n \<Rightarrow>
              if normalized u = [] \<or> (up_scheme n \<noteq> ''https'' \<and> \<not> (up_scheme n = ''http'' \<and> loopback n)) \<or>
                up_netloc n = [] \<or> normalized u \<noteq> rstrip_slash (hb_origin h)
              then Inl (http 422 ''Extension origin must be one HTTPS origin, or HTTP loopback for development.'')
              else if xc_origin x \<noteq> [] \<and> normalized u \<noteq> xc_origin x
              then Inl (http 403 ''Extension origin does not match this deployment.'')
              else if xc_id x \<noteq> [] \<and> hb_extension_id h \<noteq> xc_id x
              then Inl (http 403 ''Unexpected telemetry extension identity.'')
              else if xc_id x = [] \<and> xc_name x \<noteq> [] \<and> hb_extension_name h \<noteq> Some (xc_name x)
              then Inl (http 403 ''Unexpected telemetry extension name.'')
              else Inr (normalized u)))"

definition put_presence :: "int \<Rightarrow> string \<Rightarrow> string \<Rightarrow> string \<Rightarrow> heartbeat_form \<Rightarrow> telemetry_db \<Rightarrow> telemetry_db" where
  "put_presence now sid user_id origin h d =
     (let fill = (\<lambda>p. p\<lparr>ep_extension_version := hb_extension_version h, ep_schema_version := hb_schema_version h,
            ep_tabs_permission := hb_tabs_permission h, ep_incognito_allowed := hb_incognito_allowed h,
            ep_origin := origin, ep_last_seen_at := now\<rparr>) in
      if get_by ep_experiment_session_id sid (td_presence d) = None
      then d\<lparr>td_presence := add_row (fill \<lparr>ep_experiment_session_id = sid, ep_user_id = user_id,
               ep_extension_version = [], ep_schema_version = 0, ep_tabs_permission = False,
               ep_incognito_allowed = False, ep_origin = [], ep_connected_at = now, ep_last_seen_at = 0\<rparr>)
             (td_presence d)\<rparr>
      else d\<lparr>td_presence := upd_by ep_experiment_session_id sid fill (td_presence d)\<rparr>)"

definition extension_heartbeat ::
    "(string \<Rightarrow> url_parts option) \<Rightarrow> extension_config \<Rightarrow> (nat \<Rightarrow> int) \<Rightarrow> session_env \<Rightarrow> user \<Rightarrow> heartbeat_form \<Rightarrow>
     telemetry_db \<Rightarrow> (err + bool \<times> string \<times> experiment_state) \<times> telemetry_db" where
  "extension_heartbeat split x clock e user h d =
     (if \<not> xc_enabled x then (Inl (http 409 ''Experiment telemetry extension is disabled.''), d)
      else if us_admin user then (Inl (http 403 ''Administrators cannot report telemetry.''), d)
      else case get_current e user (td_base d) of
          (Inl err, b) \<Rightarrow> (Inl err, d\<lparr>td_base := b\<rparr>)
        | (Inr (state, session, _), b) \<Rightarrow>
            let d = d\<lparr>td_base := b\<rparr> in
            (case session of
               None \<Rightarrow> (Inl (http 409 ''Experiment extension is not required now.''), d)
             | Some s \<Rightarrow>
                 if state \<notin> {TOPIC_REQUIRED, TASK_REQUIRED, IN_PROGRESS}
                 then (Inl (http 409 ''Experiment extension is not required now.''), d)
                 else (case check_origin split x h of
                     Inl err \<Rightarrow> (Inl err, d)
                   | Inr origin \<Rightarrow>
                       let d = put_presence (clock 0) (xs_id s) (us_id user) origin h d in
                       (Inr (extension_presence_ready x (clock 1)
                               (get_by ep_experiment_session_id (xs_id s) (td_presence d)), xs_id s, state), d))))"

subsection \<open>The status of telemetry\<close>

definition telemetry_status :: "session_env \<Rightarrow> user \<Rightarrow> telemetry_db \<Rightarrow> (err + string option) \<times> telemetry_db" where
  "telemetry_status e user d =
     (if us_admin user then (Inr None, d)
      else case get_current e user (td_base d) of
          (Inl err, b) \<Rightarrow> (Inl err, d\<lparr>td_base := b\<rparr>)
        | (Inr (state, session, _), b) \<Rightarrow>
            (Inr (if state = IN_PROGRESS then map_option xs_id session else None), d\<lparr>td_base := b\<rparr>))"

end
