(* ===== verification/Telemetry_Properties.thy ===== *)
theory Telemetry_Properties
  imports Extension_Presence
begin

text \<open>
  What telemetry keeps: the summary of a session counts its stored events, a batch that is sent
  again changes nothing, and no accepted batch holds a forbidden field at any depth.
\<close>

subsection \<open>Counting events\<close>

definition of_kind :: "string \<Rightarrow> telemetry_event list \<Rightarrow> int" where
  "of_kind kind evs = int (length (filter (\<lambda>v. tv_event_type v = kind) evs))"

definition payload_number :: "string \<Rightarrow> telemetry_event \<Rightarrow> int" where
  "payload_number k v =
     (case tv_payload v of JObj m \<Rightarrow> (case jget m k of JNum n \<Rightarrow> \<lfloor>n\<rfloor> | _ \<Rightarrow> 0) | _ \<Rightarrow> 0)"

definition sum_kind :: "string \<Rightarrow> string \<Rightarrow> telemetry_event list \<Rightarrow> int" where
  "sum_kind kind k evs = sum_list (map (payload_number k) (filter (\<lambda>v. tv_event_type v = kind) evs))"

text \<open>The summary says what the events say.\<close>

definition counts :: "telemetry_summary \<Rightarrow> telemetry_event list \<Rightarrow> bool" where
  "counts s evs \<longleftrightarrow>
     ts_total_keystrokes s = of_kind ''keystroke'' evs \<and> ts_copy_count s = of_kind ''copy'' evs \<and>
     ts_cut_count s = of_kind ''cut'' evs \<and> ts_paste_count s = of_kind ''paste'' evs \<and>
     ts_tab_switch_count s = of_kind ''focus_away'' evs \<and>
     ts_total_pasted_chars s = sum_kind ''paste'' ''text_length'' evs \<and>
     ts_total_time_away_ms s = sum_kind ''focus_return'' ''away_duration_ms'' evs \<and>
     ts_inter_key_interval_total_ms s = sum_kind ''keystroke'' ''inter_key_interval_ms'' evs \<and>
     ts_key_hold_duration_total_ms s = sum_kind ''keystroke'' ''hold_duration_ms'' evs"

definition session_events :: "string \<Rightarrow> telemetry_event list \<Rightarrow> telemetry_event list" where
  "session_events sid evs = filter (\<lambda>v. tv_experiment_session_id v = sid) evs"

definition summaries_count :: "telemetry_db \<Rightarrow> bool" where
  "summaries_count d \<longleftrightarrow>
     (\<forall>s \<in> set (td_summaries d). counts s (session_events (ts_experiment_session_id s) (td_events d))) \<and>
     (\<forall>v \<in> set (td_events d). \<exists>s \<in> set (td_summaries d). ts_experiment_session_id s = tv_experiment_session_id v)"

lemma of_kind_simps [simp]:
  "of_kind k [] = 0" "of_kind k (xs @ ys) = of_kind k xs + of_kind k ys"
  "of_kind k [v] = (if tv_event_type v = k then 1 else 0)"
  by (simp_all add: of_kind_def)

lemma sum_kind_simps [simp]:
  "sum_kind k f [] = 0" "sum_kind k f (xs @ ys) = sum_kind k f xs + sum_kind k f ys"
  "sum_kind k f [v] = (if tv_event_type v = k then payload_number f v else 0)"
  by (simp_all add: sum_kind_def)

lemma jget_entry:
  "jget (entry k f v @ m) k' = (if k' = k then (case v of None \<Rightarrow> jget m k' | Some x \<Rightarrow> f x) else jget m k')"
  by (simp add: entry_def jget_def split: option.split)

lemma jget_entry_last:
  "jget (entry k f v) k' = (if k' = k then (case v of None \<Rightarrow> JNull | Some x \<Rightarrow> f x) else JNull)"
  by (simp add: entry_def jget_def split: option.split)

lemma payload_numbers:
  "payload_number ''text_length'' (event_row now u s v f) = or_int (ef_text_length f) 0"
  "payload_number ''away_duration_ms'' (event_row now u s v f) = or_int (ef_away_duration_ms f) 0"
  "payload_number ''inter_key_interval_ms'' (event_row now u s v f) = or_int (ef_inter_key_interval_ms f) 0"
  "payload_number ''hold_duration_ms'' (event_row now u s v f) = or_int (ef_hold_duration_ms f) 0"
  by (simp_all add: payload_number_def event_row_def payload_def jget_entry jget_entry_last or_int_def split: option.split)

lemma counts_step:
  assumes "counts s evs"
  shows "counts (apply_to_summary n f s) (evs @ [event_row now u sid v f])"
proof -
  have t: "tv_event_type (event_row now u sid v f) = ef_type f" by (simp add: event_row_def)
  show ?thesis
    using assms
    by (simp add: counts_def t payload_numbers apply_to_summary_def add_interval_def add_hold_def apply_opt_def
        or_int_def Let_def split: option.split)
qed

lemma apply_session [simp]: "ts_experiment_session_id (apply_to_summary n f s) = ts_experiment_session_id s"
  by (simp add: apply_to_summary_def add_interval_def add_hold_def apply_opt_def Let_def split: option.split)

lemma counts_fold:
  assumes "counts s evs"
  shows "counts (foldl (\<lambda>s (i, f). apply_to_summary (c i) f s) s fs) (evs @ map (\<lambda>(i, f). event_row (c' i) u sid v f) fs)"
  using assms
proof (induction fs arbitrary: s evs)
  case (Cons p fs)
  obtain i f where p: "p = (i, f)" by force
  from Cons.IH [OF counts_step [OF Cons.prems, of "c i" f "c' i" u sid v]] show ?case by (simp add: p)
qed simp

lemma fold_session [simp]:
  "ts_experiment_session_id (foldl (\<lambda>s (i, f). apply_to_summary (c i) f s) s fs) = ts_experiment_session_id s"
  by (induction fs arbitrary: s) (auto split: prod.split)

lemma counts_empty: "counts (empty_summary now sid u) []"
  by (simp add: counts_def empty_summary_def)

text \<open>What an accepted batch stores.\<close>

definition batch_rows :: "(nat \<Rightarrow> int) \<Rightarrow> user \<Rightarrow> batch_form \<Rightarrow> event_form list \<Rightarrow> telemetry_event list" where
  "batch_rows clock user b new = map (\<lambda>(i, f). event_row (clock (2 * i + 1)) (us_id user)
     (bf_experiment_session_id b) (bf_schema_version b) f) (enumerate 0 new)"

definition batch_summary :: "(nat \<Rightarrow> int) \<Rightarrow> user \<Rightarrow> batch_form \<Rightarrow> event_form list \<Rightarrow> telemetry_db \<Rightarrow> telemetry_summary" where
  "batch_summary clock user b new d =
     foldl (\<lambda>s (i, f). apply_to_summary (clock (2 * i + 2)) f s)
       (case get_by ts_experiment_session_id (bf_experiment_session_id b) (td_summaries d) of
          None \<Rightarrow> empty_summary (clock 0) (bf_experiment_session_id b) (us_id user) | Some s \<Rightarrow> s) (enumerate 0 new)"

definition batch_allowed :: "user \<Rightarrow> batch_form \<Rightarrow> telemetry_db \<Rightarrow> bool" where
  "batch_allowed user b d \<longleftrightarrow> \<not> us_admin user \<and>
     (case find_row (\<lambda>s. xs_id s = bf_experiment_session_id b \<and> xs_user_id s = us_id user) (xd_sessions (td_base d)) of
        None \<Rightarrow> False
      | Some s \<Rightarrow> xs_state s = IN_PROGRESS \<and>
          check_contexts (bf_experiment_session_id b) (us_id user) (td_base d) (bf_events b) = Inr ())"

lemma telemetry_events_cases:
  obtains (refused) err where "telemetry_events clock user b d = (Inl err, d)" "\<not> batch_allowed user b d"
  | (accepted) new where "new = fresh_events (set (stored_ids d)) (bf_events b)" "batch_allowed user b d"
      "telemetry_events clock user b d =
        (Inr (int (length new), int (length (bf_events b)) - int (length new)),
         d\<lparr>td_events := td_events d @ batch_rows clock user b new,
           td_summaries := put_summary (batch_summary clock user b new d) (td_summaries d)\<rparr>)"
proof (cases "batch_allowed user b d")
  case True
  then obtain s where "\<not> us_admin user"
    "find_row (\<lambda>s. xs_id s = bf_experiment_session_id b \<and> xs_user_id s = us_id user) (xd_sessions (td_base d)) = Some s"
    "xs_state s = IN_PROGRESS"
    "check_contexts (bf_experiment_session_id b) (us_id user) (td_base d) (bf_events b) = Inr ()"
    by (auto simp: batch_allowed_def split: option.splits)
  then have "telemetry_events clock user b d =
      (let new = fresh_events (set (stored_ids d)) (bf_events b) in
        (Inr (int (length new), int (length (bf_events b)) - int (length new)),
         d\<lparr>td_events := td_events d @ batch_rows clock user b new,
           td_summaries := put_summary (batch_summary clock user b new d) (td_summaries d)\<rparr>))"
    by (simp add: telemetry_events_def batch_rows_def batch_summary_def Let_def del: One_nat_def)
  with True accepted [OF refl] show ?thesis by (simp add: Let_def)
next
  case False
  then have "\<exists>err. telemetry_events clock user b d = (Inl err, d)"
    by (auto simp: telemetry_events_def batch_allowed_def Let_def split: option.splits sum.splits)
  with False refused show ?thesis by blast
qed

lemma batch_summary_session [simp]: "ts_experiment_session_id (batch_summary clock user b new d) = bf_experiment_session_id b"
  by (auto simp: batch_summary_def empty_summary_def split: option.split dest: get_by_Some)

lemma batch_rows_session: "v \<in> set (batch_rows clock user b new) \<Longrightarrow> tv_experiment_session_id v = bf_experiment_session_id b"
  by (auto simp: batch_rows_def event_row_def)

lemma put_summary_set: "s' \<in> set (put_summary s rows) \<Longrightarrow> s' = s \<or> (s' \<in> set rows \<and>
    ts_experiment_session_id s' \<noteq> ts_experiment_session_id s)"
  by (auto simp: put_summary_def add_row_def in_upd_by get_by_None image_iff split: if_splits)

lemma put_summary_has: "s \<in> set (put_summary s rows)"
  by (auto simp: put_summary_def add_row_def in_upd_by dest: get_by_Some)

lemma put_summary_keeps:
  "s' \<in> set rows \<Longrightarrow> \<exists>x \<in> set (put_summary s rows). ts_experiment_session_id x = ts_experiment_session_id s'"
proof (cases "ts_experiment_session_id s' = ts_experiment_session_id s")
  case True
  then show ?thesis using put_summary_has [of s rows] by metis
next
  case False
  assume "s' \<in> set rows"
  with False have "s' \<in> set (put_summary s rows)" by (auto simp: put_summary_def add_row_def in_upd_by)
  then show ?thesis by blast
qed

lemma batch_counts:
  assumes inv: "summaries_count d"
  shows "summaries_count (snd (telemetry_events clock user b d))"
proof (cases rule: telemetry_events_cases [of clock user b d])
  case (refused err)
  with inv show ?thesis by simp
next
  case (accepted new)
  let ?sid = "bf_experiment_session_id b" and ?s = "batch_summary clock user b new d"
  let ?rows = "batch_rows clock user b new"
  have old: "counts (case get_by ts_experiment_session_id ?sid (td_summaries d) of
      None \<Rightarrow> empty_summary (clock 0) ?sid (us_id user) | Some s \<Rightarrow> s) (session_events ?sid (td_events d))"
  proof (cases "get_by ts_experiment_session_id ?sid (td_summaries d)")
    case None
    then have no: "?sid \<notin> ts_experiment_session_id ` set (td_summaries d)" by (simp add: get_by_None)
    have "tv_experiment_session_id v \<noteq> ?sid" if v: "v \<in> set (td_events d)" for v
    proof -
      obtain s where "s \<in> set (td_summaries d)" "ts_experiment_session_id s = tv_experiment_session_id v"
        using inv v by (auto simp: summaries_count_def)
      with no show ?thesis by (metis imageI)
    qed
    then have "session_events ?sid (td_events d) = []" by (auto simp: session_events_def filter_empty_conv)
    then show ?thesis using None counts_empty by simp
  next
    case (Some s)
    then have s: "s \<in> set (td_summaries d)" "ts_experiment_session_id s = ?sid" by (auto dest: get_by_Some)
    have "counts s (session_events (ts_experiment_session_id s) (td_events d))"
      using inv s(1) unfolding summaries_count_def by blast
    then have "counts s (session_events ?sid (td_events d))" by (simp only: s(2))
    with Some show ?thesis by simp
  qed
  have mine: "session_events ?sid (td_events d @ ?rows) = session_events ?sid (td_events d) @ ?rows"
    using batch_rows_session by (auto simp: session_events_def)
  have other: "session_events q (td_events d @ ?rows) = session_events q (td_events d)" if "q \<noteq> ?sid" for q
    using batch_rows_session that by (auto simp: session_events_def filter_empty_conv)
  have "counts ?s (session_events ?sid (td_events d) @ ?rows)"
    unfolding batch_summary_def batch_rows_def by (rule counts_fold [OF old])
  then have new: "counts ?s (session_events ?sid (td_events d @ ?rows))" by (simp only: mine)
  show ?thesis
    unfolding accepted(3) summaries_count_def snd_conv
  proof (intro conjI ballI)
    fix s assume "s \<in> set (td_summaries (d\<lparr>td_events := td_events d @ ?rows, td_summaries := put_summary ?s (td_summaries d)\<rparr>))"
    then have "s = ?s \<or> (s \<in> set (td_summaries d) \<and> ts_experiment_session_id s \<noteq> ?sid)"
      using put_summary_set [of s ?s] by auto
    then show "counts s (session_events (ts_experiment_session_id s)
        (td_events (d\<lparr>td_events := td_events d @ ?rows, td_summaries := put_summary ?s (td_summaries d)\<rparr>)))"
      using new other inv by (auto simp: summaries_count_def)
  next
    fix v assume v: "v \<in> set (td_events (d\<lparr>td_events := td_events d @ ?rows, td_summaries := put_summary ?s (td_summaries d)\<rparr>))"
    show "\<exists>s \<in> set (td_summaries (d\<lparr>td_events := td_events d @ ?rows, td_summaries := put_summary ?s (td_summaries d)\<rparr>)).
        ts_experiment_session_id s = tv_experiment_session_id v"
    proof (cases "v \<in> set ?rows")
      case True
      then show ?thesis using batch_rows_session [OF True] put_summary_has [of ?s "td_summaries d"]
        by (intro bexI [of _ ?s]) simp_all
    next
      case False
      then obtain s where "s \<in> set (td_summaries d)" "ts_experiment_session_id s = tv_experiment_session_id v"
        using v inv by (auto simp: summaries_count_def)
      then show ?thesis using put_summary_keeps [of s "td_summaries d" ?s] by simp
    qed
  qed
qed

subsection \<open>A batch that is sent again\<close>

lemma fresh_events_ids: "ef_event_id ` set evs \<subseteq> seen \<union> ef_event_id ` set (fresh_events seen evs)"
  by (induction seen evs rule: fresh_events.induct) auto

lemma fresh_events_none: "ef_event_id ` set evs \<subseteq> seen \<Longrightarrow> fresh_events seen evs = []"
  by (induction seen evs rule: fresh_events.induct) auto

lemma batch_rows_ids: "map tv_id (batch_rows clock user b new) = map ef_event_id new"
proof -
  have "map tv_id (batch_rows clock user b new) = map (ef_event_id \<circ> snd) (enumerate 0 new)"
    by (simp add: batch_rows_def event_row_def case_prod_unfold comp_def)
  then show ?thesis by (simp only: map_map [symmetric] map_snd_enumerate)
qed

lemma put_summary_same: "put_summary s (put_summary s rows) = put_summary s rows"
proof -
  let ?k = "ts_experiment_session_id s"
  have g: "get_by ts_experiment_session_id ?k (put_summary s rows) \<noteq> None"
    using put_summary_has [of s rows] by (auto simp: get_by_None)
  have two: "upd_by ts_experiment_session_id ?k (\<lambda>_. s) (upd_by ts_experiment_session_id ?k (\<lambda>_. s) rs) =
      upd_by ts_experiment_session_id ?k (\<lambda>_. s) rs" for rs
    by (induction rs) auto
  have add: "upd_by ts_experiment_session_id ?k (\<lambda>_. s) (add_row s rs) = add_row s rs"
    if "?k \<notin> ts_experiment_session_id ` set rs" for rs
    using that by (induction rs) (auto simp: add_row_def)
  have "upd_by ts_experiment_session_id ?k (\<lambda>_. s) (put_summary s rows) = put_summary s rows"
    by (simp add: put_summary_def two add get_by_None)
  moreover obtain y where "get_by ts_experiment_session_id ?k (put_summary s rows) = Some y" using g by auto
  ultimately show ?thesis by (subst put_summary_def) simp
qed

lemma get_put_summary: "get_by ts_experiment_session_id (ts_experiment_session_id s) (put_summary s rows) = Some s"
proof (cases "get_by ts_experiment_session_id (ts_experiment_session_id s) rows = None")
  case True
  then show ?thesis by (simp add: put_summary_def table.get_ins)
next
  case False
  then show ?thesis by (simp add: put_summary_def) (induction rows; auto split: if_splits)
qed

lemma replay:
  assumes "telemetry_events clock user b d = (Inr r, d')"
  shows "telemetry_events clock' user b d' = (Inr (0, int (length (bf_events b))), d')"
proof (cases rule: telemetry_events_cases [of clock user b d])
  case (refused err)
  with assms show ?thesis by simp
next
  case (accepted new)
  then have d': "d' = d\<lparr>td_events := td_events d @ batch_rows clock user b new,
      td_summaries := put_summary (batch_summary clock user b new d) (td_summaries d)\<rparr>" using assms by simp
  have "ef_event_id ` set (bf_events b) \<subseteq> set (stored_ids d')"
    using fresh_events_ids [of "bf_events b" "set (stored_ids d)"] accepted(1) batch_rows_ids [of clock user b new]
    by (auto simp: stored_ids_def d' simp flip: set_map)
  then have none: "fresh_events (set (stored_ids d')) (bf_events b) = []" by (rule fresh_events_none)
  have base: "td_base d' = td_base d" by (simp add: d')
  have al: "batch_allowed user b d'" using accepted(2) unfolding batch_allowed_def base .
  have s: "batch_summary clock' user b [] d' = batch_summary clock user b new d"
    using get_put_summary [of "batch_summary clock user b new d" "td_summaries d"]
    by (simp add: batch_summary_def [of clock'] d')
  show ?thesis
  proof (cases rule: telemetry_events_cases [of clock' user b d'])
    case (refused err)
    with al show ?thesis by simp
  next
    case second: (accepted new')
    then have "new' = []" using none by simp
    then show ?thesis using second(3) s by (simp add: d' batch_rows_def put_summary_same)
  qed
qed

subsection \<open>What an accepted batch does not hold\<close>

text \<open>All keys of a value, at every depth, with their values.\<close>

fun all_entries :: "json \<Rightarrow> (string \<times> json) list"
  and entries_of :: "(string \<times> json) list \<Rightarrow> (string \<times> json) list"
  and children_of :: "json list \<Rightarrow> (string \<times> json) list" where
  "all_entries (JObj m) = entries_of m"
| "all_entries (JList xs) = children_of xs"
| "all_entries JNull = []"
| "all_entries (JBool b) = []"
| "all_entries (JNum n) = []"
| "all_entries (JStr s) = []"
| "entries_of [] = []"
| "entries_of ((k, child) # rest) = (k, child) # all_entries child @ entries_of rest"
| "children_of [] = []"
| "children_of (child # rest) = all_entries child @ children_of rest"

definition permitted :: "string \<times> json \<Rightarrow> bool" where
  "permitted kv \<longleftrightarrow> lower (fst kv) \<notin> set FORBIDDEN_KEYS \<and> (lower (fst kv) = ''incognito'' \<longrightarrow> snd kv = JBool False)"

lemma reject_iff:
  "reject_forbidden_keys v = Inr () \<longleftrightarrow> list_all permitted (all_entries v)"
  "reject_entries m = Inr () \<longleftrightarrow> list_all permitted (entries_of m)"
  "reject_children xs = Inr () \<longleftrightarrow> list_all permitted (children_of xs)"
  by (induction v and m and xs rule: reject_forbidden_keys_reject_entries_reject_children.induct)
    (auto simp: permitted_def bindE_Inr_iff)

lemma validate_batch_Inr:
  assumes "validate_batch raw n b = Inr b'"
  shows "reject_forbidden_keys raw = Inr ()" and "n \<le> MAX_PAYLOAD_BYTES" and "length (bf_events b) \<le> MAX_BATCH_SIZE"
    and "\<exists>fs. mapE validate_event (bf_events b) = Inr fs" and "b' = b"
proof -
  from assms obtain u where r: "reject_forbidden_keys raw = Inr u"
    unfolding validate_batch_def bindE_Inr_iff by blast
  then show r': "reject_forbidden_keys raw = Inr ()" by simp
  note a = assms [unfolded validate_batch_def r' bindE_simps]
  show n: "n \<le> MAX_PAYLOAD_BYTES" using a by (rule contrapos_pp) (simp only: not_le if_True sum.distinct not_False_eq_True)
  note b = a [unfolded if_not_P [OF n [unfolded not_less [symmetric]]]]
  show l: "length (bf_events b) \<le> MAX_BATCH_SIZE" using b by (auto split: if_splits)
  have "\<exists>fs. mapE validate_event (bf_events b) = Inr fs \<and> b' = b"
    using b by (cases "mapE validate_event (bf_events b)") (simp_all split: if_splits)
  then show "\<exists>fs. mapE validate_event (bf_events b) = Inr fs" "b' = b" by blast+
qed

lemma validate_event_same: "validate_event f = Inr g \<Longrightarrow> g = f"
proof -
  assume "validate_event f = Inr g"
  then have "(if \<not> event_fields_ok f then Inl (FieldError ''event'')
       else case find fst (shape_checks f) of Some (_, message) \<Rightarrow> Inl (ValueError message) | None \<Rightarrow> Inr f) = Inr g"
    unfolding validate_event_def bindE_Inr_iff by blast
  then show "g = f" by (cases "find fst (shape_checks f)") (simp_all split: if_splits prod.splits)
qed

lemma validated_events:
  assumes "validate_batch raw n b = Inr b'" and "f \<in> set (bf_events b)"
  shows "validate_event f = Inr f"
proof -
  obtain fs where fs: "list_all2 (\<lambda>x y. validate_event x = Inr y) (bf_events b) fs"
    using validate_batch_Inr(4) [OF assms(1)] mapE_Inr_list_all2 by blast
  obtain i where i: "i < length (bf_events b)" "f = bf_events b ! i"
    using assms(2) unfolding in_set_conv_nth by blast
  have "validate_event f = Inr (fs ! i)" unfolding i(2) by (rule list_all2_nthD [OF fs i(1)])
  moreover from this have "fs ! i = f" by (rule validate_event_same)
  ultimately show ?thesis by simp
qed

lemma validate_event_tab:
  assumes "validate_event f = Inr g" and "ef_tab f = Some t"
  shows "\<not> tb_incognito t"
proof -
  obtain v where "validate_tab t = Inr v"
    using assms unfolding validate_event_def bindE_Inr_iff assms(2) option.case by blast
  then show ?thesis by (cases "tb_incognito t") (simp_all add: validate_tab_def split: if_splits)
qed

lemma accepted_batch:
  assumes "validate_batch raw n b = Inr b'"
  shows "list_all permitted (all_entries raw) \<and> n \<le> MAX_PAYLOAD_BYTES \<and> length (bf_events b') \<le> MAX_BATCH_SIZE \<and>
    (\<forall>f \<in> set (bf_events b'). case ef_tab f of None \<Rightarrow> True | Some t \<Rightarrow> \<not> tb_incognito t)"
proof (intro conjI ballI)
  note v = validate_batch_Inr [OF assms]
  show "list_all permitted (all_entries raw)" using v(1) reject_iff(1) [of raw] by simp
  show "n \<le> MAX_PAYLOAD_BYTES" by (rule v(2))
  show "length (bf_events b') \<le> MAX_BATCH_SIZE" using v(3,5) by simp
  fix f assume "f \<in> set (bf_events b')"
  then have "validate_event f = Inr f" using validated_events [OF assms, of f] v(5) by simp
  then show "case ef_tab f of None \<Rightarrow> True | Some t \<Rightarrow> \<not> tb_incognito t"
    using validate_event_tab by (auto split: option.split)
qed

subsection \<open>Readiness\<close>

text \<open>The heartbeat's answer and the guard of the start request agree exactly where the deployment
  is configured; where it is not, the heartbeat still answers that the extension is ready.\<close>

lemma readiness_agrees:
  "extension_ready split x now p \<longleftrightarrow>
     \<not> xc_enabled x \<or> (extension_configuration_error split x = None \<and> extension_presence_ready x now p)"
  by (auto simp: extension_ready_def extension_presence_ready_def extension_configuration_error_def Let_def
      split: option.split if_splits)

subsection \<open>The properties\<close>

text \<open>
  C27. The summary of a session counts what is stored for it: after any batch, accepted or refused,
  the numbers of keystrokes, copies, cuts, pastes and absences and the totals of pasted characters,
  absences, intervals and holds are those of the stored events of the session.
\<close>

theorem telemetry_summary_counts:
  assumes "summaries_count d"
  shows "summaries_count (snd (telemetry_events clock user b d))"
  by (rule batch_counts [OF assms])

text \<open>
  C28. A batch that was accepted can be sent again without effect: all its events are answered as
  duplicates and the store stays as it is.
\<close>

theorem batch_sent_again:
  assumes "telemetry_events clock user b d = (Inr r, d')"
  shows "telemetry_events clock' user b d' = (Inr (0, int (length (bf_events b))), d')"
  by (rule replay [OF assms])

text \<open>
  C29. A batch that passes validation holds no forbidden key at any depth of its raw value, no
  \<open>incognito\<close> entry other than false, no tab that is incognito, and is within its bounds.
\<close>

theorem accepted_batch_is_private:
  assumes "validate_batch raw n b = Inr b'"
  shows "list_all permitted (all_entries raw) \<and> n \<le> MAX_PAYLOAD_BYTES \<and> length (bf_events b') \<le> MAX_BATCH_SIZE \<and>
    (\<forall>f \<in> set (bf_events b'). case ef_tab f of None \<Rightarrow> True | Some t \<Rightarrow> \<not> tb_incognito t)"
  by (rule accepted_batch [OF assms])

end
