(* ===== verification/Telemetry_Samples.thy ===== *)
theory Telemetry_Samples
  imports Telemetry_Properties Sample_Store
begin

text \<open>A batch of a participant who writes, pastes and leaves the page.\<close>

definition plain_form :: "string \<Rightarrow> string \<Rightarrow> event_form" where
  "plain_form i kind = \<lparr>ef_event_id = i, ef_type = kind, ef_timestamp = 7, ef_timezone = True, ef_field = ''essay'',
     ef_session_task_id = None, ef_question_id = None, ef_submission_id = None, ef_key_class = None,
     ef_key_value = None, ef_inter_key_interval_ms = None, ef_hold_duration_ms = None, ef_modifiers = None,
     ef_text_length = None, ef_line_count = None, ef_text_value = None, ef_visibility = None,
     ef_away_duration_ms = None, ef_control_type = None, ef_answered = None, ef_browser_session_id = None,
     ef_sequence = None, ef_tab = None, ef_snapshot_phase = None, ef_changed_fields = None, ef_from_index = None,
     ef_to_index = None, ef_old_window_id = None, ef_new_window_id = None, ef_replaced_tab_id = None,
     ef_is_window_closing = None, ef_window_id = None, ef_window_focused = None, ef_dropped_event_count = None,
     ef_fields_set = [''event_id'', ''type'', ''timestamp'', ''field'']\<rparr>"

definition paste_form :: event_form where
  "paste_form = (plain_form ''e1'' ''paste'')\<lparr>ef_text_length := Some 5,
     ef_fields_set := [''event_id'', ''type'', ''timestamp'', ''field'', ''text_length'']\<rparr>"

definition sample_batch :: batch_form where
  "sample_batch = \<lparr>bf_experiment_session_id = ''s'', bf_schema_version = 1,
     bf_events = [paste_form, plain_form ''e2'' ''focus_away'', paste_form]\<rparr>"

definition sample_telemetry :: telemetry_db where
  "sample_telemetry = \<lparr>td_base = store_in IN_PROGRESS, td_events = [], td_summaries = [], td_presence = []\<rparr>"

lemma sample_allowed: "batch_allowed sample_user sample_batch sample_telemetry"
  by (simp add: batch_allowed_def sample_user_def sample_batch_def sample_telemetry_def store_in_def store_with_def
      session_in_def sample_participant_def check_contexts_def task_context_ok_def paste_form_def plain_form_def)

lemma sample_accepted:
  "telemetry_events int sample_user sample_batch sample_telemetry =
     (Inr (2, 1), sample_telemetry
       \<lparr>td_events := batch_rows int sample_user sample_batch [paste_form, plain_form ''e2'' ''focus_away''],
        td_summaries := [batch_summary int sample_user sample_batch [paste_form, plain_form ''e2'' ''focus_away'']
          sample_telemetry]\<rparr>)"
proof (cases rule: telemetry_events_cases [of int sample_user sample_batch sample_telemetry])
  case (refused err)
  then show ?thesis using sample_allowed by simp
next
  case (accepted new)
  have "new = [paste_form, plain_form ''e2'' ''focus_away'']"
    unfolding accepted(1)
    by (simp add: sample_batch_def stored_ids_def sample_telemetry_def store_in_def store_with_def empty_store_def
        paste_form_def plain_form_def)
  then show ?thesis
    using accepted(3) by (simp add: sample_batch_def sample_telemetry_def put_summary_def add_row_def)
qed

lemma telemetry_summary_counts_witness:
  "summaries_count (snd (telemetry_events int sample_user sample_batch sample_telemetry)) \<and>
   map ts_total_pasted_chars (td_summaries (snd (telemetry_events int sample_user sample_batch sample_telemetry))) = [5]"
proof -
  have "summaries_count sample_telemetry" by (simp add: summaries_count_def sample_telemetry_def)
  then have "summaries_count (snd (telemetry_events int sample_user sample_batch sample_telemetry))"
    by (rule telemetry_summary_counts)
  moreover have "ts_total_pasted_chars (batch_summary int sample_user sample_batch
      [paste_form, plain_form ''e2'' ''focus_away''] sample_telemetry) = 5"
    by (simp add: batch_summary_def sample_telemetry_def apply_to_summary_def empty_summary_def paste_form_def
        plain_form_def or_int_def Let_def)
  ultimately show ?thesis by (simp add: sample_accepted)
qed

lemma batch_sent_again_witness:
  "\<exists>d'. telemetry_events int sample_user sample_batch sample_telemetry = (Inr (2, 1), d') \<and>
    telemetry_events (\<lambda>n. int n + 100) sample_user sample_batch d' = (Inr (0, 3), d')"
proof -
  obtain d' where d': "telemetry_events int sample_user sample_batch sample_telemetry = (Inr (2, 1), d')"
    using sample_accepted by blast
  from batch_sent_again [OF d', of "\<lambda>n. int n + 100"] d' show ?thesis by (auto simp: sample_batch_def)
qed

subsection \<open>Clipboard events of an old schema\<close>

text \<open>A copy event without its text passes in a batch of schema version 1.\<close>

lemma old_schema_clipboard_accepted:
  "validate_batch (JObj [(''schema_version'', JNum 1)]) 24 sample_batch = Inr sample_batch"
proof -
  have "event_fields_ok paste_form" "event_fields_ok (plain_form ''e2'' ''focus_away'')"
    by (simp_all add: event_fields_ok_def paste_form_def plain_form_def opt_ok_def between_def)
  moreover have "find fst (shape_checks paste_form) = None" "find fst (shape_checks (plain_form ''e2'' ''focus_away'')) = None"
    by (simp_all add: shape_checks_def paste_form_def plain_form_def EVENT_TYPES_def TAB_EVENT_TYPES_def
        context_fields_def allowed_fields_def Let_def)
  moreover have "ef_tab paste_form = None" "ef_tab (plain_form ''e2'' ''focus_away'') = None"
    "ef_type paste_form = ''paste''" "ef_type (plain_form ''e2'' ''focus_away'') = ''focus_away''"
    by (simp_all add: paste_form_def plain_form_def)
  moreover have "lower ''schema_version'' \<notin> set FORBIDDEN_KEYS" "lower ''schema_version'' \<noteq> ''incognito''" by code_simp+
  ultimately show ?thesis
    by (simp add: validate_batch_def validate_event_def sample_batch_def MAX_PAYLOAD_BYTES_def MAX_BATCH_SIZE_def
        SCHEMA_VERSION_def between_def TAB_EVENT_TYPES_def)
qed

lemma accepted_batch_is_private_witness:
  "list_all permitted (all_entries (JObj [(''schema_version'', JNum 1)])) \<and> length (bf_events sample_batch) \<le> MAX_BATCH_SIZE"
  using accepted_batch_is_private [OF old_schema_clipboard_accepted] by blast

end
