(* ===== verification/Text_Pattern.thy ===== *)
theory Text_Pattern
  imports Prelude
begin

text \<open>
  The part of Python's regular expressions the grading code uses: a pattern is matched by
  backtracking, and \<open>matches\<close> lists the states a pattern can end in, in the order the engine
  tries them. The first of them is the match; repetition without progress ends, as in the engine.
\<close>

datatype pattern =
    Nothing
  | Char_In "char \<Rightarrow> bool"
  | Then pattern pattern
  | Or pattern pattern
  | Many pattern
  | Lazy pattern
  | Perhaps pattern
  | Capture nat pattern
  | Word_Edge

record match_state =
  ms_before :: string
  ms_rest :: string
  ms_groups :: "(nat \<times> string) list"

text \<open>\<open>\w\<close> below code point 256.\<close>

definition word_char :: "char \<Rightarrow> bool" where
  "word_char c = (let n = (of_char c :: nat) in
     (48 \<le> n \<and> n \<le> 57) \<or> (65 \<le> n \<and> n \<le> 90) \<or> n = 95 \<or> (97 \<le> n \<and> n \<le> 122) \<or>
     n \<in> {170, 178, 179, 181, 185, 186, 188, 189, 190} \<or> (192 \<le> n \<and> n \<noteq> 215 \<and> n \<noteq> 247))"

definition starts_word :: "string \<Rightarrow> bool" where
  "starts_word s = (case s of [] \<Rightarrow> False | c # _ \<Rightarrow> word_char c)"

definition shorter :: "match_state \<Rightarrow> match_state \<Rightarrow> bool" where
  "shorter m' m \<longleftrightarrow> length (ms_rest m') < length (ms_rest m)"

definition captured :: "match_state \<Rightarrow> match_state \<Rightarrow> string" where
  "captured m m' = rev (take (length (ms_before m') - length (ms_before m)) (ms_before m'))"

function matches :: "pattern \<Rightarrow> match_state \<Rightarrow> match_state list" where
  "matches Nothing m = [m]"
| "matches (Char_In P) m =
     (case ms_rest m of
        [] \<Rightarrow> []
      | c # cs \<Rightarrow> if P c then [m\<lparr>ms_before := c # ms_before m, ms_rest := cs\<rparr>] else [])"
| "matches (Then p q) m = concat (map (matches q) (matches p m))"
| "matches (Or p q) m = matches p m @ matches q m"
| "matches (Many p) m =
     concat (map (\<lambda>m'. if shorter m' m then matches (Many p) m' else [m']) (matches p m)) @ [m]"
| "matches (Lazy p) m =
     m # concat (map (\<lambda>m'. if shorter m' m then matches (Lazy p) m' else []) (matches p m))"
| "matches (Perhaps p) m = matches p m @ [m]"
| "matches (Capture n p) m =
     map (\<lambda>m'. m'\<lparr>ms_groups := (n, captured m m') # ms_groups m'\<rparr>) (matches p m)"
| "matches Word_Edge m = (if starts_word (ms_before m) \<noteq> starts_word (ms_rest m) then [m] else [])"
  by pat_completeness auto

termination
  by (relation "measures [\<lambda>(p, m). size p, \<lambda>(p, m). length (ms_rest m)]") (auto simp: shorter_def)

declare matches.simps(5,6) [simp del]

subsection \<open>\<open>search\<close> and \<open>sub\<close>\<close>

fun search_from :: "pattern \<Rightarrow> string \<Rightarrow> string \<Rightarrow> match_state option" where
  "search_from p prev rest =
     (case matches p \<lparr>ms_before = prev, ms_rest = rest, ms_groups = []\<rparr> of
        m # _ \<Rightarrow> Some m
      | [] \<Rightarrow> (case rest of [] \<Rightarrow> None | c # cs \<Rightarrow> search_from p (c # prev) cs))"

declare search_from.simps [simp del]

definition search :: "pattern \<Rightarrow> string \<Rightarrow> match_state option" where
  "search p s = search_from p [] s"

definition group :: "nat \<Rightarrow> match_state \<Rightarrow> string" where
  "group n m = (case map_of (ms_groups m) n of None \<Rightarrow> [] | Some s \<Rightarrow> s)"

text \<open>\<open>p.sub('', s)\<close>\<close>

function remove_from :: "pattern \<Rightarrow> string \<Rightarrow> string \<Rightarrow> string" where
  "remove_from p prev rest =
     (case matches p \<lparr>ms_before = prev, ms_rest = rest, ms_groups = []\<rparr> of
        m # _ \<Rightarrow>
          if length (ms_rest m) < length rest then remove_from p (ms_before m) (ms_rest m)
          else (case rest of [] \<Rightarrow> [] | c # cs \<Rightarrow> c # remove_from p (c # prev) cs)
      | [] \<Rightarrow> (case rest of [] \<Rightarrow> [] | c # cs \<Rightarrow> c # remove_from p (c # prev) cs))"
  by pat_completeness auto

termination
  by (relation "measure (\<lambda>(_, _, rest). length rest)") auto

declare remove_from.simps [simp del]

definition remove_all :: "pattern \<Rightarrow> string \<Rightarrow> string" where
  "remove_all p s = remove_from p [] s"

subsection \<open>Building patterns\<close>

definition one :: "char \<Rightarrow> pattern" where
  "one c = Char_In (\<lambda>d. d = c)"

definition one_of :: "string \<Rightarrow> pattern" where
  "one_of s = Char_In (\<lambda>c. c \<in> set s)"

definition any_char :: pattern where
  "any_char = Char_In (\<lambda>_. True)"

definition space :: pattern where
  "space = Char_In py_space"

definition digit :: pattern where
  "digit = Char_In (\<lambda>c. c \<in> set ''0123456789'')"

text \<open>A letter, in either case.\<close>

definition flip_case :: "char \<Rightarrow> char" where
  "flip_case c = (let n = (of_char c :: nat) in if 97 \<le> n \<and> n \<le> 122 then char_of (n - 32) else c)"

definition letter :: "char \<Rightarrow> pattern" where
  "letter c = Char_In (\<lambda>d. d = c \<or> d = flip_case c)"

fun in_order :: "pattern list \<Rightarrow> pattern" where
  "in_order [] = Nothing"
| "in_order [p] = p"
| "in_order (p # q # ps) = Then p (in_order (q # ps))"

definition word :: "string \<Rightarrow> pattern" where
  "word s = in_order (map letter s)"

fun alternatives :: "pattern list \<Rightarrow> pattern" where
  "alternatives [] = Char_In (\<lambda>_. False)"
| "alternatives [p] = p"
| "alternatives (p # q # ps) = Or p (alternatives (q # ps))"

definition once_or_more :: "pattern \<Rightarrow> pattern" where
  "once_or_more p = Then p (Many p)"

subsection \<open>A match is a part of the text\<close>

definition follows :: "match_state \<Rightarrow> match_state \<Rightarrow> bool" where
  "follows m m' \<longleftrightarrow> (\<exists>s. ms_rest m = s @ ms_rest m' \<and> ms_before m' = rev s @ ms_before m)"

lemma follows_refl [simp]: "follows m m"
  by (simp add: follows_def)

lemma follows_trans: "follows a b \<Longrightarrow> follows b c \<Longrightarrow> follows a c"
  by (fastforce simp: follows_def)

lemma follows_length: "follows m m' \<Longrightarrow> length (ms_rest m') \<le> length (ms_rest m)"
  by (auto simp: follows_def)

lemma follows_groups [simp]: "follows m (m'\<lparr>ms_groups := g\<rparr>) = follows m m'"
  by (simp add: follows_def)

lemma in_matches_Many:
  "m' \<in> set (matches (Many p) m) \<Longrightarrow>
     m' = m \<or> (\<exists>x \<in> set (matches p m). m' \<in> set (if shorter x m then matches (Many p) x else [x]))"
  by (subst (asm) matches.simps(5)) (simp only: set_append set_concat set_map list.set Un_iff UN_iff insert_iff empty_iff image_iff bex_simps, blast)

lemma in_matches_Lazy:
  "m' \<in> set (matches (Lazy p) m) \<Longrightarrow>
     m' = m \<or> (\<exists>x \<in> set (matches p m). m' \<in> set (if shorter x m then matches (Lazy p) x else []))"
  by (subst (asm) matches.simps(6)) (fastforce split: if_splits)

lemma matches_follow: "m' \<in> set (matches p m) \<Longrightarrow> follows m m'"
proof (induction p m arbitrary: m' rule: matches.induct)
  case (2 P m)
  then show ?case by (auto simp: follows_def split: list.splits if_splits)
next
  case (3 p q m)
  then obtain x where "x \<in> set (matches p m)" "m' \<in> set (matches q x)" by auto
  with 3 show ?case using follows_trans by blast
next
  case (5 p m)
  show ?case
  proof (cases "m' = m")
    case False
    then obtain x where x: "x \<in> set (matches p m)" "m' \<in> set (if shorter x m then matches (Many p) x else [x])"
      using in_matches_Many [OF 5(3)] by blast
    have "follows m x" by (rule 5(1) [OF x(1)])
    moreover have "follows x m'" proof (cases "shorter x m")
      case True
      show ?thesis by (rule 5(2) [OF x(1) True]) (use x(2) True in \<open>simp only: if_True\<close>)
    qed (use x(2) in simp)
    ultimately show ?thesis by (rule follows_trans)
  qed simp
next
  case (6 p m)
  show ?case
  proof (cases "m' = m")
    case False
    then obtain x where x: "x \<in> set (matches p m)" "m' \<in> set (if shorter x m then matches (Lazy p) x else [])"
      using in_matches_Lazy [OF 6(3)] by blast
    have "follows m x" by (rule 6(1) [OF x(1)])
    moreover have "follows x m'" proof (cases "shorter x m")
      case True
      show ?thesis by (rule 6(2) [OF x(1) True]) (use x(2) True in \<open>simp only: if_True\<close>)
    qed (use x(2) in simp)
    ultimately show ?thesis by (rule follows_trans)
  qed simp
qed (auto split: if_splits)

end
