(* ===== verification/Grade_Parser.thy ===== *)
theory Grade_Parser
  imports Text_Pattern Completion_Observer
begin

text \<open>
  Reading the answer of the grading model (\<open>utils/question_grading.py\<close>, \<open>_content\<close> to
  \<open>_repair_payload\<close>). JSON decoding and pydantic's conversions to \<open>Decimal\<close> and \<open>bool\<close> are the
  fields of a codec; \<open>None\<close> stands for their exception. An absent key and a null are told apart
  where the code tells them apart.
\<close>

record grade_codec =
  gc_loads :: "string \<Rightarrow> json option"
  gc_raw_decode :: "string \<Rightarrow> json option"
  gc_dumps :: "json \<Rightarrow> string"
  gc_decimal :: "json \<Rightarrow> rat option"
  gc_bool :: "json \<Rightarrow> bool option"

record grade_result =
  gr_awarded_score :: rat
  gr_maximum_score :: rat
  gr_rationale :: string
  gr_success :: bool

subsection \<open>Patterns\<close>

definition thought_block :: pattern where
  "thought_block =
     (let tag = alternatives [word ''think'', word ''analysis''] in
      in_order [one CHR ''<'', tag, one CHR ''>'', Lazy any_char,
        one CHR ''<'', one CHR ''/'', tag, one CHR ''>''])"

definition number :: pattern where
  "number = in_order [Perhaps (one CHR ''-''), once_or_more digit, Perhaps (Then (one CHR ''.'') (once_or_more digit))]"

definition plain_score :: pattern where
  "plain_score = in_order [Word_Edge,
     alternatives [in_order [word ''awarded'', Perhaps (one_of '' _-''), word ''score''], word ''score'',
       Then (word ''point'') (Perhaps (letter CHR ''s''))],
     Many space, Perhaps (one_of '':=''), Many space, Capture 1 number, Many space,
     alternatives [one CHR ''/'', in_order [word ''out'', once_or_more space, word ''of'']],
     Many space, Capture 2 number]"

definition rationale_line :: pattern where
  "rationale_line = in_order [Word_Edge,
     alternatives [word ''rationale'', word ''reason'', word ''feedback'', word ''explanation''],
     Many space, one CHR '':'', Many space, Capture 1 (once_or_more any_char)]"

definition strip_thoughts :: "string \<Rightarrow> string" where
  "strip_thoughts s = py_strip (remove_all thought_block s)"

subsection \<open>The content of a reply\<close>

definition has_key :: "(string \<times> json) list \<Rightarrow> string \<Rightarrow> bool" where
  "has_key m k \<longleftrightarrow> map_of m k \<noteq> None"

definition choice_content :: "(string \<times> json) list \<Rightarrow> json" where
  "choice_content m =
     (case jget m ''choices'' of
        JList (JObj choice # _) \<Rightarrow>
          (case jget choice ''message'' of JObj message \<Rightarrow> jget message ''content'' | _ \<Rightarrow> JNull)
      | _ \<Rightarrow> JNull)"

definition raw_content :: "json \<Rightarrow> json" where
  "raw_content response =
     (case response of
        JObj m \<Rightarrow>
          let content = choice_content m;
              content = (if content \<noteq> JNull then content
                         else if has_key m ''response'' then jget m ''response'' else jget m ''content'')
          in if content = JNull \<and> list_ex (has_key m) [''awarded_score'', ''score'', ''grade'', ''result'']
             then response else content
      | _ \<Rightarrow> JNull)"

definition text_part :: "json \<Rightarrow> string" where
  "text_part item =
     (case item of
        JObj m \<Rightarrow>
          (case (case jget m ''text'' of JObj t \<Rightarrow> jget t ''value'' | v \<Rightarrow> v) of JStr s \<Rightarrow> s | _ \<Rightarrow> [])
      | _ \<Rightarrow> [])"

definition reply_content :: "json \<Rightarrow> err + json" where
  "reply_content response =
     (let content = (case raw_content response of JList items \<Rightarrow> JStr (concat (map text_part items)) | v \<Rightarrow> v) in
      case content of
        JObj m \<Rightarrow> Inr (JObj m)
      | JStr s \<Rightarrow> Inr (JStr (py_strip s))
      | _ \<Rightarrow> Inl (ValueError ''missing_content''))"

subsection \<open>The grade in a text\<close>

fun first_object :: "(string \<Rightarrow> json option) \<Rightarrow> string \<Rightarrow> (string \<times> json) list option" where
  "first_object raw [] = None"
| "first_object raw (c # cs) =
     (if c = CHR ''{'' then
        (case raw (c # cs) of Some (JObj m) \<Rightarrow> Some m | _ \<Rightarrow> first_object raw cs)
      else first_object raw cs)"

definition json_object :: "grade_codec \<Rightarrow> string \<Rightarrow> err + (string \<times> json) list" where
  "json_object codec s =
     (let s = strip_thoughts s in
      case gc_loads codec s of
        Some (JObj m) \<Rightarrow> Inr m
      | _ \<Rightarrow>
        (case first_object (gc_raw_decode codec) s of
           Some m \<Rightarrow> Inr m
         | None \<Rightarrow> Inl (ValueError ''missing_json_object'')))"

definition plain_grade :: "string \<Rightarrow> err + (string \<times> json) list" where
  "plain_grade s =
     (let s = strip_thoughts s in
      case (search plain_score s, search rationale_line s) of
        (Some score, Some rationale) \<Rightarrow>
          Inr [(''awarded_score'', JStr (group 1 score)), (''maximum_score'', JStr (group 2 score)),
               (''rationale'', JStr (py_strip (group 1 rationale))), (''success'', JBool True)]
      | _ \<Rightarrow> Inl (ValueError ''missing_grade_fields''))"

subsection \<open>Keys\<close>

definition lower_ascii :: "char \<Rightarrow> char" where
  "lower_ascii c = (let n = (of_char c :: nat) in if 65 \<le> n \<and> n \<le> 90 then char_of (n + 32) else c)"

definition key_char :: "char \<Rightarrow> bool" where
  "key_char c \<longleftrightarrow> c \<in> set ''abcdefghijklmnopqrstuvwxyz0123456789''"

text \<open>\<open>re.sub(r'[^a-z0-9]+', '_', s)\<close>; letters beyond ASCII are replaced in either case.\<close>

function join_runs :: "string \<Rightarrow> string" where
  "join_runs s =
     (case s of
        [] \<Rightarrow> []
      | c # cs \<Rightarrow>
          if key_char c then c # join_runs cs
          else CHR ''_'' # join_runs (dropWhile (\<lambda>c. \<not> key_char c) cs))"
  by pat_completeness auto

termination
  by (relation "measure length") (auto simp: less_Suc_eq_le length_dropWhile_le)

declare join_runs.simps [simp del]

definition strip_underscores :: "string \<Rightarrow> string" where
  "strip_underscores s =
     rev (dropWhile (\<lambda>c. c = CHR ''_'') (rev (dropWhile (\<lambda>c. c = CHR ''_'') s)))"

definition normalized_key :: "string \<Rightarrow> string" where
  "normalized_key k = strip_underscores (join_runs (map lower_ascii (py_strip k)))"

definition normalized_keys :: "(string \<times> json) list \<Rightarrow> (string \<times> json) list" where
  "normalized_keys m = dict_of (map (\<lambda>(k, v). (normalized_key k, v)) m)"

fun first_of :: "(string \<times> json) list \<Rightarrow> string list \<Rightarrow> json" where
  "first_of m [] = JNull"
| "first_of m (k # ks) = (if jget m k \<noteq> JNull then jget m k else first_of m ks)"

fun unwrap :: "(string \<times> json) list \<Rightarrow> string list \<Rightarrow> (string \<times> json) list" where
  "unwrap m [] = m"
| "unwrap m (k # ks) = (case jget m k of JObj nested \<Rightarrow> normalized_keys nested | _ \<Rightarrow> unwrap m ks)"

subsection \<open>The grade\<close>

definition validate_grade ::
    "grade_codec \<Rightarrow> rat \<Rightarrow> (string \<times> json) list \<Rightarrow> err + grade_result" where
  "validate_grade codec maximum m =
     (let explicit = first_of m [''maximum_score'', ''maximumscore'', ''max_score'', ''maxscore'', ''maximum'',
            ''max_points'', ''maxpoints''];
          awarded = first_of m [''awarded_score'', ''awardedscore'', ''score'', ''awarded'', ''points'', ''grade''];
          max_score = (if explicit = JNull then Some maximum else gc_decimal codec explicit);
          success = (if has_key m ''success'' then gc_bool codec (jget m ''success'') else Some True)
      in case (gc_decimal codec awarded, max_score, first_of m [''rationale'', ''reason'', ''feedback'', ''explanation''],
               success) of
        (Some awarded, Some max_score, JStr rationale, Some success) \<Rightarrow>
          if 1 \<le> length rationale \<and> length rationale \<le> 1000
          then Inr \<lparr>gr_awarded_score = awarded, gr_maximum_score = max_score, gr_rationale = rationale,
                   gr_success = success\<rparr>
          else Inl (FieldError ''rationale'')
      | _ \<Rightarrow> Inl (FieldError ''grade''))"

definition parse_grade :: "grade_codec \<Rightarrow> json \<Rightarrow> rat \<Rightarrow> err + grade_result" where
  "parse_grade codec response maximum =
     bindE (reply_content response) (\<lambda>content.
     bindE (case content of
              JObj m \<Rightarrow> Inr m
            | JStr s \<Rightarrow> (case json_object codec s of Inr m \<Rightarrow> Inr m | Inl _ \<Rightarrow> plain_grade s)
            | _ \<Rightarrow> Inl TypeError) (\<lambda>m.
     bindE (validate_grade codec maximum (unwrap (normalized_keys m) [''grade'', ''result'', ''data''])) (\<lambda>result.
       if \<not> gr_success result \<or> gr_maximum_score result \<noteq> maximum \<or> gr_awarded_score result < 0 \<or>
          maximum < gr_awarded_score result
       then Inl (ValueError ''invalid_grade'') else Inr result)))"

end
