(* ===== verification/Grading_Properties.thy ===== *)
theory Grading_Properties
  imports Grading_Run Submission_Grading
begin

text \<open>
  What grading by a model guarantees: a claimed attempt is settled, an administrator's score stays
  in force, and the totals of a submission follow its responses.
\<close>

text \<open>What other requests commit in between does not undo \<open>P\<close>.\<close>

definition keeps :: "('d \<Rightarrow> bool) \<Rightarrow> (nat \<Rightarrow> 'd \<Rightarrow> 'd) \<Rightarrow> bool" where
  "keeps P race \<longleftrightarrow> (\<forall>n d. P d \<longrightarrow> P (race n d))"

lemma keepsD: "keeps P race \<Longrightarrow> P d \<Longrightarrow> P (race n d)"
  by (simp add: keeps_def)

lemma keeps_id [simp]: "keeps P (\<lambda>n d. d)"
  by (simp add: keeps_def)

subsection \<open>Rows\<close>

lemma sort_key_map: "sort_key k (map f xs) = map f (sort_key (\<lambda>x. k (f x)) xs)"
proof (induction xs)
  case (Cons x xs)
  have "insort_key k (f x) (map f ys) = map f (insort_key (\<lambda>x. k (f x)) x ys)" for ys
    by (induction ys) simp_all
  with Cons show ?case by simp
qed simp

lemma latest_set_attempt:
  assumes "\<And>a. ga_created_at (f a) = ga_created_at a" and "\<And>a. P (f a) = P a"
  shows "latest_attempt P (set_attempt i f s) = map_option (\<lambda>a. if ga_id a = i then f a else a) (latest_attempt P s)"
proof -
  let ?g = "\<lambda>a. if ga_id a = i then f a else a"
  have "filter P (map ?g xs) = map ?g (filter P xs)" for xs
    by (induction xs) (simp_all add: assms(2))
  moreover have "(\<lambda>a. - ga_created_at (?g a)) = (\<lambda>a. - ga_created_at a)"
    by (auto simp: assms(1))
  ultimately have "order_desc ga_created_at (filter P (map ?g xs)) = map ?g (order_desc ga_created_at (filter P xs))" for xs
    by (simp add: order_desc_def sort_key_map)
  then show ?thesis
    by (simp add: latest_attempt_def set_attempt_def upd_by_def upd_rows_def first_row_def split: list.split)
qed

lemma latest_Some: "latest_attempt P s = Some a \<Longrightarrow> a \<in> set (sd_attempts s) \<and> P a"
  using first_order_desc_max by (fastforce simp: latest_attempt_def)

lemma latest_exists: "(\<exists>a. latest_attempt P s = Some a) \<longleftrightarrow> (\<exists>a \<in> set (sd_attempts s). P a)"
proof
  assume "\<exists>a. latest_attempt P s = Some a"
  then show "\<exists>a \<in> set (sd_attempts s). P a" using latest_Some by blast
next
  assume "\<exists>a \<in> set (sd_attempts s). P a"
  then have "set (order_desc ga_created_at (filter P (sd_attempts s))) \<noteq> {}"
    by (auto simp: order_desc_def)
  then show "\<exists>a. latest_attempt P s = Some a"
    by (auto simp: latest_attempt_def first_row_def split: list.split)
qed

lemma set_response_other [simp]:
  "sd_submissions (set_response i f s) = sd_submissions s" "sd_attempts (set_response i f s) = sd_attempts s"
  "latest_attempt P (set_response i f s) = latest_attempt P s"
  by (simp_all add: set_response_def latest_attempt_def)

lemma set_attempt_other [simp]:
  "sd_submissions (set_attempt i f s) = sd_submissions s" "sd_responses (set_attempt i f s) = sd_responses s"
  by (simp_all add: set_attempt_def)

lemma get_set_response:
  "(\<And>r. qr_id (f r) = qr_id r) \<Longrightarrow> get_by qr_id rid (sd_responses (set_response i f s)) =
     (if rid = i then map_option f (get_by qr_id rid (sd_responses s)) else get_by qr_id rid (sd_responses s))"
  by (simp add: set_response_def table.get_upd)

lemma get_set_attempt:
  "(\<And>a. ga_id (f a) = ga_id a) \<Longrightarrow> get_by ga_id aid (sd_attempts (set_attempt i f s)) =
     (if aid = i then map_option f (get_by ga_id aid (sd_attempts s)) else get_by ga_id aid (sd_attempts s))"
  by (simp add: set_attempt_def table.get_upd)

lemma recalculate_Inr:
  "get_by qs_id sid (sd_submissions s) = Some x \<Longrightarrow>
   \<exists>s'. recalculate sid s = Inr s' \<and> sd_responses s' = sd_responses s \<and> sd_attempts s' = sd_attempts s"
  by (simp add: recalculate_def Let_def)

lemma recalculate_rows:
  assumes "recalculate sid s = Inr s'"
  shows "sd_responses s' = sd_responses s" and "sd_attempts s' = sd_attempts s"
  using assms by (auto simp: recalculate_def Let_def split: option.splits)

lemma graded_fields [simp]:
  "qr_id (graded_response v t r) = qr_id r" "qr_submission_id (graded_response v t r) = qr_submission_id r"
  "qr_generated_score (graded_response v t r) = Some v" "qr_grading_status (graded_response v t r) = GRADED"
  "qr_grading_method (graded_response v t r) =
     (if qr_grading_method r = Some ADMIN_OVERRIDE then Some ADMIN_OVERRIDE else Some (Mode LLM_ASSISTED))"
  "qr_effective_score (graded_response v t r) =
     (if qr_grading_method r = Some ADMIN_OVERRIDE then qr_effective_score r else Some v)"
  by (simp_all add: graded_response_def Let_def)

lemma failed_fields [simp]:
  "qr_id (failed_response r) = qr_id r" "qr_submission_id (failed_response r) = qr_submission_id r"
  "qr_grading_method (failed_response r) = qr_grading_method r"
  "qr_grading_method r = Some ADMIN_OVERRIDE \<Longrightarrow> failed_response r = r"
  by (simp_all add: failed_response_def)

subsection \<open>An accepted grade\<close>

lemma parse_grade_range:
  assumes "parse_grade codec response maximum = Inr g"
  shows "0 \<le> gr_awarded_score g \<and> gr_awarded_score g \<le> maximum"
proof -
  obtain g' where "(if \<not> gr_success g' \<or> gr_maximum_score g' \<noteq> maximum \<or> gr_awarded_score g' < 0 \<or>
      maximum < gr_awarded_score g' then Inl (ValueError ''invalid_grade'') else Inr g') = Inr g"
    using assms unfolding parse_grade_def bindE_Inr_iff by blast
  then show ?thesis by (auto split: if_splits)
qed

lemma dialogue_range:
  assumes "dialogue e maximum request = Inr g"
  shows "0 \<le> gr_awarded_score g \<and> gr_awarded_score g \<le> maximum"
proof -
  obtain raw where raw: "(case parse_grade (ge_codec e) raw maximum of
         Inr result \<Rightarrow> Inr result
       | Inl x \<Rightarrow>
           if \<not> repairable x then Inl (Raised x)
           else bindE (ge_ask e 1 (request (repair_messages (ge_codec e) raw))) (\<lambda>raw.
                  lift_failure (parse_grade (ge_codec e) raw maximum))) = Inr g"
    using assms unfolding dialogue_def bindE_Inr_iff by blast
  have "\<exists>raw. parse_grade (ge_codec e) raw maximum = Inr g"
  proof (cases "parse_grade (ge_codec e) raw maximum")
    case (Inl x)
    then obtain raw' where "lift_failure (parse_grade (ge_codec e) raw' maximum) = Inr g"
      using raw by (auto simp: bindE_Inr_iff split: if_splits)
    then show ?thesis by (cases "parse_grade (ge_codec e) raw' maximum") (auto simp: lift_failure_def)
  qed (use raw in auto)
  then obtain raw where "parse_grade (ge_codec e) raw maximum = Inr g" ..
  then show ?thesis by (rule parse_grade_range)
qed

lemma generate_grade_range:
  assumes "generate_grade e model rid d = Inr g"
  shows "\<exists>r q. read_question rid d = Inr (r, q) \<and> 0 \<le> gr_awarded_score g \<and> gr_awarded_score g \<le> qm_max_score q"
proof -
  obtain i r q where "read_question rid d = Inr (r, q)"
      "dialogue e (qm_max_score q) (grading_payload (ge_codec e) i rid r q (the (qm_strictness q))) = Inr g"
    using assms by (auto simp: generate_grade_def bindE_Inr_iff lift_failure_def split: option.splits sum.splits prod.splits)
  then show ?thesis using dialogue_range by blast
qed

subsection \<open>Settling an attempt\<close>

definition gradable :: "string \<Rightarrow> experiment_db \<Rightarrow> bool" where
  "gradable rid d \<longleftrightarrow>
     (let s = xd_question_subs d in
      (case get_by qr_id rid (sd_responses s) of
         None \<Rightarrow> False
       | Some r \<Rightarrow> get_by qs_id (qr_submission_id r) (sd_submissions s) \<noteq> None) \<and>
      list_ex (\<lambda>a. ga_response_id a = rid) (sd_attempts s) \<and> distinct (map ga_id (sd_attempts s))) \<and>
     list_all (\<lambda>q. score_ok (tq_max_score q)) (db_questions (xd_questions d))"

text \<open>The outcome of the attempt \<open>aid\<close> of the response \<open>rid\<close>.\<close>

definition settled :: "int \<Rightarrow> string \<Rightarrow> string \<Rightarrow> rat \<Rightarrow> submission_db \<Rightarrow> bool" where
  "settled now rid aid bound s \<longleftrightarrow>
     (case (get_by qr_id rid (sd_responses s), get_by ga_id aid (sd_attempts s)) of
        (Some r, Some a) \<Rightarrow>
          ga_response_id a = rid \<and> ga_completed_at a = Some now \<and> qr_updated_at r = now \<and>
          (if ga_status a = GRADED
           then (case ga_awarded_score a of
                   None \<Rightarrow> False
                 | Some v \<Rightarrow> 0 \<le> v \<and> v \<le> bound \<and> is_cents v \<and> qr_generated_score r = Some v \<and>
                     qr_grading_status r = GRADED \<and>
                     (qr_grading_method r = Some ADMIN_OVERRIDE \<or> qr_effective_score r = Some v))
           else ga_status a = G_FAILED \<and> ga_error_code a \<noteq> None \<and>
             (qr_grading_method r = Some ADMIN_OVERRIDE \<or>
              qr_grading_status r = G_FAILED \<and> qr_effective_score r = None \<and> qr_generated_score r = None))
      | _ \<Rightarrow> False)"

lemma find_task_score:
  assumes "find_task content t = Some task" and "q \<in> set (tm_questions task)"
    and "list_all (\<lambda>q. score_ok (tq_max_score q)) (db_questions content)"
  shows "score_ok (qm_max_score q)"
proof -
  obtain i where "tm_questions task = load_questions i content"
    using assms(1) by (auto simp: find_task_def get_question_task_def split: option.splits)
  then obtain x where "x \<in> set (db_questions content)" "qm_max_score q = tq_max_score x"
    using assms(2) by (auto simp: load_questions_def Let_def order_by_def question_model_of_def)
  then show ?thesis using assms(3) by (simp add: list_all_iff)
qed

lemma read_question_score:
  assumes "read_question rid d = Inr (r, q)" and "list_all (\<lambda>q. score_ok (tq_max_score q)) (db_questions (xd_questions d))"
  shows "score_ok (qm_max_score q)"
proof -
  obtain t task where "find_task (xd_questions d) t = Some task" "get_by qm_id (qr_question_id r) (tm_questions task) = Some q"
    using assms(1) by (auto simp: read_question_def split: option.splits)
  then show ?thesis using find_task_score [OF _ _ assms(2)] get_by_Some by metis
qed

lemma record_grade_settles:
  assumes r: "get_by qr_id rid (sd_responses s) = Some r" and sub: "get_by qs_id (qr_submission_id r) (sd_submissions s) = Some x"
    and a: "latest_attempt (\<lambda>a. ga_response_id a = rid) s = Some a" and ids: "distinct (map ga_id (sd_attempts s))"
    and g: "\<And>g. outcome = Inr g \<Longrightarrow> \<exists>v. score_value (gr_awarded_score g) = Inr v \<and> 0 \<le> v \<and> v \<le> bound \<and> is_cents v"
  shows "\<exists>s'. record_grade now rid outcome s = Inr s' \<and> settled now rid (ga_id a) bound s'"
proof -
  have mem: "ga_response_id a = rid" "get_by ga_id (ga_id a) (sd_attempts s) = Some a"
    using latest_Some [OF a] get_by_distinct [OF ids] by auto
  have step: "\<exists>s'. recalculate (qr_submission_id r)
        (set_attempt (ga_id a) (\<lambda>a. (h a)\<lparr>ga_completed_at := Some now\<rparr>)
          (set_response rid (\<lambda>r. (f r)\<lparr>qr_updated_at := now\<rparr>) s)) = Inr s' \<and>
      get_by qr_id rid (sd_responses s') = Some ((f r)\<lparr>qr_updated_at := now\<rparr>) \<and>
      get_by ga_id (ga_id a) (sd_attempts s') = Some ((h a)\<lparr>ga_completed_at := Some now\<rparr>)"
    if f: "\<And>r. qr_id (f r) = qr_id r" and h: "\<And>a. ga_id (h a) = ga_id a"
    for f h
  proof -
    let ?s = "set_attempt (ga_id a) (\<lambda>a. (h a)\<lparr>ga_completed_at := Some now\<rparr>)
          (set_response rid (\<lambda>r. (f r)\<lparr>qr_updated_at := now\<rparr>) s)"
    obtain s' where s': "recalculate (qr_submission_id r) ?s = Inr s'" "sd_responses s' = sd_responses ?s"
        "sd_attempts s' = sd_attempts ?s"
      using recalculate_Inr [of "qr_submission_id r" ?s x] sub by auto
    show ?thesis
      using s' mem(2) r f h by (simp add: get_set_response get_set_attempt)
  qed
  show ?thesis
  proof (cases outcome)
    case (Inl e)
    define h where "h = (\<lambda>a :: grading_attempt. a\<lparr>ga_status := G_FAILED, ga_error_code := Some (error_code e)\<rparr>)"
    obtain s' where "record_grade now rid outcome s = Inr s'"
        "get_by qr_id rid (sd_responses s') = Some ((failed_response r)\<lparr>qr_updated_at := now\<rparr>)"
        "get_by ga_id (ga_id a) (sd_attempts s') = Some ((h a)\<lparr>ga_completed_at := Some now\<rparr>)"
      using step [of failed_response h] by (auto simp: record_grade_def r a Inl h_def)
    then show ?thesis
      by (intro exI conjI) (auto simp: settled_def h_def failed_response_def mem(1))
  next
    case (Inr g')
    from g [OF Inr] obtain v where v: "score_value (gr_awarded_score g') = Inr v" "0 \<le> v" "v \<le> bound" "is_cents v" by blast
    define t where "t = py_strip (gr_rationale g')"
    define h where "h = (\<lambda>a :: grading_attempt. a\<lparr>ga_status := GRADED, ga_awarded_score := Some v, ga_rationale := Some t\<rparr>)"
    obtain s' where "record_grade now rid outcome s = Inr s'"
        "get_by qr_id rid (sd_responses s') = Some ((graded_response v t r)\<lparr>qr_updated_at := now\<rparr>)"
        "get_by ga_id (ga_id a) (sd_attempts s') = Some ((h a)\<lparr>ga_completed_at := Some now\<rparr>)"
      using step [of "graded_response v t" h] by (auto simp: record_grade_def Let_def r a Inr v h_def t_def)
    then show ?thesis
      using v by (intro exI conjI) (auto simp: settled_def h_def mem(1))
  qed
qed

lemma gradable_rows:
  assumes "gradable rid d"
  obtains r x a where "get_by qr_id rid (sd_responses (xd_question_subs d)) = Some r"
    "get_by qs_id (qr_submission_id r) (sd_submissions (xd_question_subs d)) = Some x"
    "latest_attempt (\<lambda>a. ga_response_id a = rid) (xd_question_subs d) = Some a"
    "distinct (map ga_id (sd_attempts (xd_question_subs d)))"
proof -
  have "\<exists>a. latest_attempt (\<lambda>a. ga_response_id a = rid) (xd_question_subs d) = Some a"
    using assms by (auto simp: latest_exists gradable_def Let_def list_ex_iff)
  then show ?thesis using assms that by (auto simp: gradable_def Let_def split: option.splits)
qed

lemma gradable_claim:
  assumes "gradable rid d" and "claim_attempt now model rid (xd_question_subs d) = Some s"
  shows "gradable rid (d\<lparr>xd_question_subs := s\<rparr>)"
proof -
  define f g where "f = (\<lambda>r :: question_response. r\<lparr>qr_grading_status := G_RUNNING\<rparr>)"
    and "g = (\<lambda>a :: grading_attempt. a\<lparr>ga_status := G_RUNNING, ga_started_at := Some now, ga_model_id := model\<rparr>)"
  obtain i s0 where s: "s = set_attempt i g s0" "s0 = xd_question_subs d \<or> s0 = set_response rid f (xd_question_subs d)"
    using assms(2) by (auto simp: claim_attempt_def f_def g_def split: option.splits if_splits)
  have "get_by qr_id rid (sd_responses s) = get_by qr_id rid (sd_responses (xd_question_subs d)) \<or>
      get_by qr_id rid (sd_responses s) = map_option f (get_by qr_id rid (sd_responses (xd_question_subs d)))"
    using s by (auto simp: get_set_response f_def)
  moreover have "map ga_response_id (sd_attempts s) = map ga_response_id (sd_attempts (xd_question_subs d))"
    using s by (auto simp: set_attempt_def g_def map_upd_by)
  then have "list_ex (\<lambda>a. ga_response_id a = rid) (sd_attempts s) =
      list_ex (\<lambda>a. ga_response_id a = rid) (sd_attempts (xd_question_subs d))"
    by (simp only: list_ex_iff flip: bex_simps(7)) (metis (no_types) image_iff list.set_map)
  moreover have "map ga_id (sd_attempts s) = map ga_id (sd_attempts (xd_question_subs d))"
    using s by (auto simp: set_attempt_def g_def map_upd_by)
  moreover have "sd_submissions s = sd_submissions (xd_question_subs d)" using s by auto
  ultimately show ?thesis
    using assms(1) by (auto simp: gradable_def Let_def f_def split: option.splits)
qed

subsection \<open>The claimed attempt\<close>

text \<open>
  The job claims the latest pending attempt and records on the latest attempt of all. These are the same
  one as long as only the newest attempt of a response is open, which holds because an attempt is added
  only when the answers are finalized or when \<open>retry_question_grading\<close> finds no open one.
\<close>

definition open_attempt :: "string \<Rightarrow> grading_attempt \<Rightarrow> bool" where
  "open_attempt rid a \<longleftrightarrow> ga_response_id a = rid \<and> ga_status a \<in> {G_PENDING, G_RUNNING}"

definition newest_open :: "string \<Rightarrow> submission_db \<Rightarrow> bool" where
  "newest_open rid s \<longleftrightarrow> (\<forall>a \<in> set (sd_attempts s). open_attempt rid a \<longrightarrow>
     latest_attempt (\<lambda>a. ga_response_id a = rid) s = Some a)"

definition claimed :: "string \<Rightarrow> string \<Rightarrow> submission_db \<Rightarrow> bool" where
  "claimed rid aid s \<longleftrightarrow>
     (case latest_attempt (\<lambda>a. ga_response_id a = rid) s of
        None \<Rightarrow> False | Some a \<Rightarrow> ga_id a = aid \<and> ga_status a = G_RUNNING)"

lemma claim_holds:
  assumes "newest_open rid s" and "latest_attempt (\<lambda>a. ga_response_id a = rid \<and> ga_status a = G_PENDING) s = Some a"
    and "claim_attempt now model rid s = Some s'"
  shows "claimed rid (ga_id a) s'"
proof -
  define g where "g = (\<lambda>a :: grading_attempt. a\<lparr>ga_status := G_RUNNING, ga_started_at := Some now, ga_model_id := model\<rparr>)"
  have "latest_attempt (\<lambda>a. ga_response_id a = rid) s = Some a"
    using assms(1) latest_Some [OF assms(2)] by (auto simp: newest_open_def open_attempt_def)
  moreover obtain s0 where "s' = set_attempt (ga_id a) g s0" "sd_attempts s0 = sd_attempts s"
    using assms(2,3) by (auto simp: claim_attempt_def g_def split: option.splits if_splits)
  ultimately have "latest_attempt (\<lambda>a. ga_response_id a = rid) s' = Some (g a)"
    by (subst \<open>s' = _\<close>, subst latest_set_attempt) (simp_all add: g_def latest_attempt_def)
  then show ?thesis by (simp add: claimed_def g_def)
qed

lemma grade_response_settles:
  assumes calm: "keeps (\<lambda>d. gradable rid d \<and> claimed rid (ga_id a0) (xd_question_subs d)) race" and d: "gradable rid d"
    and n: "newest_open rid (xd_question_subs d)"
    and a0: "latest_attempt (\<lambda>a. ga_response_id a = rid \<and> ga_status a = G_PENDING) (xd_question_subs d) = Some a0"
    and s: "claim_attempt (clock 0) (resolve_grading_model e) rid (xd_question_subs d) = Some s"
  shows "\<exists>d' bound. grade_response e clock race rid d = (Inr (), d') \<and>
    settled (clock 1) rid (ga_id a0) bound (xd_question_subs d') \<and>
    (\<forall>r q. read_question rid (race 0 (d\<lparr>xd_question_subs := s\<rparr>)) = Inr (r, q) \<longrightarrow> bound = qm_max_score q)"
proof -
  let ?m = "resolve_grading_model e"
  let ?d0 = "race 0 (d\<lparr>xd_question_subs := s\<rparr>)"
  let ?o = "generate_grade e ?m rid ?d0"
  have "gradable rid (d\<lparr>xd_question_subs := s\<rparr>) \<and> claimed rid (ga_id a0) (xd_question_subs (d\<lparr>xd_question_subs := s\<rparr>))"
    using gradable_claim [OF d s] claim_holds [OF n a0 s] by simp
  then have d0: "gradable rid ?d0 \<and> claimed rid (ga_id a0) (xd_question_subs ?d0)" by (rule keepsD [OF calm])
  then have d1: "gradable rid (race 1 ?d0) \<and> claimed rid (ga_id a0) (xd_question_subs (race 1 ?d0))"
    by (rule keepsD [OF calm])
  define bound where "bound = (case read_question rid ?d0 of Inr (r, q) \<Rightarrow> qm_max_score q | Inl _ \<Rightarrow> 0)"
  have g: "\<exists>v. score_value (gr_awarded_score g) = Inr v \<and> 0 \<le> v \<and> v \<le> bound \<and> is_cents v" if o: "?o = Inr g" for g
  proof -
    obtain r q where q: "read_question rid ?d0 = Inr (r, q)" "0 \<le> gr_awarded_score g" "gr_awarded_score g \<le> qm_max_score q"
      using generate_grade_range [OF o] by blast
    have "score_ok (qm_max_score q)"
      by (rule read_question_score [OF q(1)]) (use d0 in \<open>simp add: gradable_def\<close>)
    then show ?thesis using score_value_bounds [OF q(2,3)] by (auto simp: bound_def q(1))
  qed
  obtain r x a where rows: "get_by qr_id rid (sd_responses (xd_question_subs (race 1 ?d0))) = Some r"
      "get_by qs_id (qr_submission_id r) (sd_submissions (xd_question_subs (race 1 ?d0))) = Some x"
      "latest_attempt (\<lambda>a. ga_response_id a = rid) (xd_question_subs (race 1 ?d0)) = Some a"
      "distinct (map ga_id (sd_attempts (xd_question_subs (race 1 ?d0))))"
    using gradable_rows [OF conjunct1 [OF d1]] .
  have id: "ga_id a = ga_id a0" using d1 rows(3) by (simp add: claimed_def)
  obtain s' where s': "record_grade (clock 1) rid ?o (xd_question_subs (race 1 ?d0)) = Inr s'"
      "settled (clock 1) rid (ga_id a0) bound s'"
    unfolding id [symmetric] using record_grade_settles [OF rows, of ?o bound "clock 1"] g by blast
  show ?thesis
  proof (intro exI conjI)
    show "grade_response e clock race rid d = (Inr (), (race 1 ?d0)\<lparr>xd_question_subs := s'\<rparr>)"
      by (simp only: grade_response_def Let_def s s'(1) option.case sum.case)
    show "settled (clock 1) rid (ga_id a0) bound (xd_question_subs ((race 1 ?d0)\<lparr>xd_question_subs := s'\<rparr>))"
      using s'(2) by simp
    show "\<forall>r q. read_question rid ?d0 = Inr (r, q) \<longrightarrow> bound = qm_max_score q"
      by (simp add: bound_def)
  qed
qed

subsection \<open>An administrator's score\<close>

definition in_force :: "string \<Rightarrow> rat \<Rightarrow> experiment_db \<Rightarrow> bool" where
  "in_force rid score d \<longleftrightarrow>
     (case get_by qr_id rid (sd_responses (xd_question_subs d)) of
        None \<Rightarrow> False
      | Some r \<Rightarrow> qr_grading_method r = Some ADMIN_OVERRIDE \<and> qr_effective_score r = Some score)"

lemma in_force_claim:
  assumes "claim_attempt now model rid (xd_question_subs d) = Some s" and "in_force i v d"
  shows "in_force i v (d\<lparr>xd_question_subs := s\<rparr>)"
  using assms by (auto simp: claim_attempt_def in_force_def get_set_response split: option.splits if_splits)

lemma record_grade_Inr:
  assumes "record_grade now rid outcome s = Inr s'"
  obtains r a f h where "get_by qr_id rid (sd_responses s) = Some r"
    and "latest_attempt (\<lambda>a. ga_response_id a = rid) s = Some a"
    and "f = failed_response \<or> (\<exists>v t. f = graded_response v t)"
    and "recalculate (qr_submission_id r) (set_attempt (ga_id a) (\<lambda>a. (h a)\<lparr>ga_completed_at := Some now\<rparr>)
           (set_response rid (\<lambda>r. (f r)\<lparr>qr_updated_at := now\<rparr>) s)) = Inr s'"
proof -
  obtain r a where r: "get_by qr_id rid (sd_responses s) = Some r" "latest_attempt (\<lambda>a. ga_response_id a = rid) s = Some a"
    using assms by (auto simp: record_grade_def split: option.splits)
  show ?thesis
  proof (cases outcome)
    case (Inl e)
    then show ?thesis
      using assms r that [of r a failed_response "\<lambda>a. a\<lparr>ga_status := G_FAILED, ga_error_code := Some (error_code e)\<rparr>"]
      by (simp add: record_grade_def Let_def)
  next
    case (Inr g)
    then obtain v where v: "score_value (gr_awarded_score g) = Inr v"
      using assms r by (auto simp: record_grade_def bindE_Inr_iff)
    show ?thesis
    proof (rule that [OF r])
      show "graded_response v (py_strip (gr_rationale g)) = failed_response \<or>
          (\<exists>w t. graded_response v (py_strip (gr_rationale g)) = graded_response w t)" by blast
      show "recalculate (qr_submission_id r) (set_attempt (ga_id a)
          (\<lambda>x. (x\<lparr>ga_status := GRADED, ga_awarded_score := Some v, ga_rationale := Some (py_strip (gr_rationale g))\<rparr>)
            \<lparr>ga_completed_at := Some now\<rparr>)
          (set_response rid (\<lambda>x. (graded_response v (py_strip (gr_rationale g)) x)\<lparr>qr_updated_at := now\<rparr>) s)) = Inr s'"
        using assms r Inr v by (simp add: record_grade_def Let_def)
    qed
  qed
qed

lemma record_response:
  assumes "record_grade now rid outcome s = Inr s'"
  obtains f where "get_by qr_id i (sd_responses s') = (if i = rid then map_option f (get_by qr_id i (sd_responses s))
      else get_by qr_id i (sd_responses s))" and "\<And>r. qr_grading_method r = Some ADMIN_OVERRIDE \<Longrightarrow>
      qr_grading_method (f r) = Some ADMIN_OVERRIDE \<and> qr_effective_score (f r) = qr_effective_score r"
proof -
  obtain sid aid f h where f: "f = failed_response \<or> (\<exists>v t. f = graded_response v t)"
    and s': "recalculate sid (set_attempt aid h (set_response rid (\<lambda>r. (f r)\<lparr>qr_updated_at := now\<rparr>) s)) = Inr s'"
    using record_grade_Inr [OF assms] .
  have "get_by qr_id i (sd_responses s') =
      (if i = rid then map_option (\<lambda>r. (f r)\<lparr>qr_updated_at := now\<rparr>) (get_by qr_id i (sd_responses s))
       else get_by qr_id i (sd_responses s))"
    using recalculate_rows(1) [OF s'] f by (auto simp: get_set_response)
  moreover have "qr_grading_method (f r) = Some ADMIN_OVERRIDE \<and> qr_effective_score (f r) = qr_effective_score r"
    if "qr_grading_method r = Some ADMIN_OVERRIDE" for r using f that by auto
  ultimately show ?thesis using that [of "\<lambda>r. (f r)\<lparr>qr_updated_at := now\<rparr>"] by simp
qed

lemma in_force_grading:
  assumes calm: "keeps (in_force i v) race" and d: "in_force i v d"
  shows "in_force i v (snd (grade_response e clock race rid d))"
proof (cases "claim_attempt (clock 0) (resolve_grading_model e) rid (xd_question_subs d)")
  case None
  then show ?thesis using d by (simp add: grade_response_def Let_def)
next
  case (Some s)
  let ?d = "race 1 (race 0 (d\<lparr>xd_question_subs := s\<rparr>))"
  let ?o = "generate_grade e (resolve_grading_model e) rid (race 0 (d\<lparr>xd_question_subs := s\<rparr>))"
  have d1: "in_force i v ?d" by (intro keepsD [OF calm] in_force_claim [OF Some d])
  show ?thesis
  proof (cases "record_grade (clock 1) rid ?o (xd_question_subs ?d)")
    case (Inl x)
    then show ?thesis using d1 by (simp only: grade_response_def Let_def Some option.case sum.case snd_conv)
  next
    case (Inr s')
    obtain f where "get_by qr_id i (sd_responses s') = (if i = rid then map_option f (get_by qr_id i (sd_responses (xd_question_subs ?d)))
          else get_by qr_id i (sd_responses (xd_question_subs ?d)))"
        "\<And>r. qr_grading_method r = Some ADMIN_OVERRIDE \<Longrightarrow>
          qr_grading_method (f r) = Some ADMIN_OVERRIDE \<and> qr_effective_score (f r) = qr_effective_score r"
      using record_response [OF Inr, of i] by blast
    then have "in_force i v (?d\<lparr>xd_question_subs := s'\<rparr>)"
      using d1 by (auto simp: in_force_def split: option.splits)
    then show ?thesis by (simp only: grade_response_def Let_def Some Inr option.case sum.case snd_conv)
  qed
qed

lemma override_takes_force:
  assumes "override_question_score uid now admin rid form d = Inr d'"
    and "get_by qr_id rid (sd_responses (xd_question_subs d)) = Some r" and "qr_grading_status r \<noteq> AWAITING_REVIEW"
  shows "in_force rid (of_score form) d'"
proof -
  obtain sid s s' where "recalculate sid (set_response rid (overridden_response now (of_score form)) s) = Inr s'"
      "sd_responses s = sd_responses (xd_question_subs d)" "d' = d\<lparr>xd_question_subs := s'\<rparr>"
    using assms(1) by (fastforce simp: override_question_score_def bindE_Inr_iff Let_def split: option.splits if_splits prod.splits)
  then show ?thesis
    using assms(2,3) recalculate_rows(1)
    by (fastforce simp: in_force_def get_set_response overridden_response_def)
qed

text \<open>The override route does not ask whether the submission is finalized: a score set on a draft is
  overwritten when the participant finalizes it.\<close>

lemma draft_override_lost:
  assumes "qm_grading_mode q = AUTOMATIC" and "auto_grade q selected blanks = Inr (Some s)"
  shows "\<exists>r'. finalize_response now q selected blanks (overridden_response t score r) = Inr (r', False) \<and>
    qr_effective_score r' = Some s \<and> qr_grading_method r' = Some (Mode AUTOMATIC)"
  using assms by (simp add: finalize_response_def apply_auto_def)

subsection \<open>The properties\<close>

text \<open>
  C30. A claimed attempt is always settled: whatever the model answers, and however often, the job
  ends without an error and the attempt it claimed is completed, either graded, with the same score
  in cents on the attempt and the response, between 0 and the maximum of the question that was read,
  or failed with an error code and no score. Only an administrator's score is left as it is. The
  rows must be there, only the newest attempt of the response may be open (pending or running), and
  what commits meanwhile keeps the claimed attempt running and the newest.
\<close>

theorem grading_settles:
  assumes "gradable rid d" and "newest_open rid (xd_question_subs d)"
    and "latest_attempt (\<lambda>a. ga_response_id a = rid \<and> ga_status a = G_PENDING) (xd_question_subs d) = Some a"
    and "keeps (\<lambda>d. gradable rid d \<and> claimed rid (ga_id a) (xd_question_subs d)) race"
    and "claim_attempt (clock 0) (resolve_grading_model e) rid (xd_question_subs d) = Some s"
  shows "\<exists>d' bound. grade_response e clock race rid d = (Inr (), d') \<and>
    settled (clock 1) rid (ga_id a) bound (xd_question_subs d') \<and>
    (\<forall>r q. read_question rid (race 0 (d\<lparr>xd_question_subs := s\<rparr>)) = Inr (r, q) \<longrightarrow> bound = qm_max_score q)"
  by (rule grade_response_settles [where clock = clock, OF assms(4,1,2,3,5)])

text \<open>
  While an attempt is claimed, asking for a new grade adds no attempt, and a second job for the
  same response finds nothing to claim.
\<close>

lemma retry_keeps_claim:
  assumes "claimed rid aid (xd_question_subs d)" and "retry_question_grading uid now rid d = Inr (v, d')"
  shows "d' = d"
proof -
  obtain a where "latest_attempt (\<lambda>a. ga_response_id a = rid) (xd_question_subs d) = Some a" "ga_status a = G_RUNNING"
    using assms(1) by (auto simp: claimed_def split: option.splits)
  then have "\<exists>x. latest_attempt (\<lambda>a. ga_response_id a = rid \<and> ga_status a \<in> {G_PENDING, G_RUNNING}) (xd_question_subs d) = Some x"
    unfolding latest_exists using latest_Some by fastforce
  then show ?thesis
    using assms(2) by (auto simp: retry_question_grading_def bindE_Inr_iff Let_def split: if_splits)
qed

lemma second_job_idle:
  assumes "newest_open rid s" and "claimed rid aid s"
  shows "claim_attempt now model rid s = None"
proof -
  obtain a where a: "latest_attempt (\<lambda>a. ga_response_id a = rid) s = Some a" "ga_status a = G_RUNNING"
    using assms(2) by (auto simp: claimed_def split: option.splits)
  have "latest_attempt (\<lambda>a. ga_response_id a = rid \<and> ga_status a = G_PENDING) s = None"
  proof (rule ccontr)
    assume "latest_attempt (\<lambda>a. ga_response_id a = rid \<and> ga_status a = G_PENDING) s \<noteq> None"
    then obtain x where "x \<in> set (sd_attempts s)" "ga_response_id x = rid" "ga_status x = G_PENDING"
      using latest_Some by fastforce
    with assms(1) a show False by (auto simp: newest_open_def open_attempt_def)
  qed
  then show ?thesis by (simp add: claim_attempt_def split: option.split)
qed

text \<open>A new attempt that is younger than all others keeps only the newest one open.\<close>

lemma retry_newest_open:
  assumes "newest_open rid (xd_question_subs d)" and "\<forall>a \<in> set (sd_attempts (xd_question_subs d)). ga_created_at a < now"
    and "retry_question_grading uid now rid d = Inr (v, d')"
  shows "newest_open rid (xd_question_subs d')"
proof (cases "d' = d")
  case False
  define n where "n = new_attempt (\<lambda>_. uid) now rid"
  have n: "ga_created_at n = now" "ga_response_id n = rid" by (simp_all add: n_def new_attempt_def)
  have none: "latest_attempt (\<lambda>a. ga_response_id a = rid \<and> ga_status a \<in> {G_PENDING, G_RUNNING}) (xd_question_subs d) = None"
    and rows: "sd_attempts (xd_question_subs d') = add_row n (sd_attempts (xd_question_subs d))"
    using assms(3) False
    by (auto simp: retry_question_grading_def bindE_Inr_iff Let_def n_def split: if_splits option.splits dest!: recalculate_rows(2))
  have closed: "\<not> open_attempt rid a" if "a \<in> set (sd_attempts (xd_question_subs d))" for a
  proof
    assume "open_attempt rid a"
    then have "\<exists>x. latest_attempt (\<lambda>a. ga_response_id a = rid \<and> ga_status a \<in> {G_PENDING, G_RUNNING}) (xd_question_subs d) = Some x"
      unfolding latest_exists using that by (auto simp: open_attempt_def)
    with none show False by simp
  qed
  obtain x where x: "latest_attempt (\<lambda>a. ga_response_id a = rid) (xd_question_subs d') = Some x"
    using latest_exists [of "\<lambda>a. ga_response_id a = rid" "xd_question_subs d'"] n(2) by (auto simp: rows add_row_def)
  have "ga_created_at n \<le> ga_created_at x"
    using first_order_desc_max [OF x [unfolded latest_attempt_def]] n by (simp add: rows add_row_def)
  moreover have "x = n \<or> x \<in> set (sd_attempts (xd_question_subs d))"
    using latest_Some [OF x] by (auto simp: rows add_row_def)
  ultimately have "x = n" using assms(2) n(1) by force
  with x closed show ?thesis by (auto simp: newest_open_def rows add_row_def)
qed (use assms(1) in simp)

text \<open>
  C31. A score an administrator sets stays in force through any later grading by the model: the
  effective score is the one of the form, whatever the model answers, as long as nobody overrides
  it again. The response was not waiting for its review when the score was set.
\<close>

theorem override_survives:
  assumes "override_question_score uid now admin rid form d = Inr d'"
    and "get_by qr_id rid (sd_responses (xd_question_subs d)) = Some r" and "qr_grading_status r \<noteq> AWAITING_REVIEW"
    and "keeps (in_force rid (of_score form)) race"
  shows "in_force rid (of_score form) (snd (grade_response e clock race i d'))"
  by (rule in_force_grading [OF assms(4) override_takes_force [OF assms(1-3)]])

end
