(* ===== verification/Submission_Totals.thy ===== *)
theory Submission_Totals
  imports Grading_Properties
begin

text \<open>
  The totals of a submission are always those of its responses: its provisional score is their
  sum, its grading status summarises theirs, and the final score is there exactly when everything
  is graded. Every operation that touches a response keeps this.
\<close>

definition rows_in :: "string \<Rightarrow> submission_db \<Rightarrow> question_response list" where
  "rows_in sid s = filter (\<lambda>r. qr_submission_id r = sid) (sd_responses s)"

definition totals_of :: "question_submission \<Rightarrow> question_response list \<Rightarrow> rat \<times> grading_status \<times> rat option" where
  "totals_of x rows =
     (let provisional = foldl dec_add 0 (map score_or_0 rows);
          grading = grading_summary (qs_status x) (set (map qr_grading_status rows))
      in (provisional, grading, if grading = GRADED then Some provisional else None))"

definition agrees :: "submission_db \<Rightarrow> question_submission \<Rightarrow> bool" where
  "agrees s x \<longleftrightarrow>
     (qs_provisional_score x, qs_grading_status x, qs_current_score x) = totals_of x (rows_in (qs_id x) s)"

definition totals_agree :: "submission_db \<Rightarrow> bool" where
  "totals_agree s \<longleftrightarrow>
     distinct (map qs_id (sd_submissions s)) \<and> distinct (map qr_id (sd_responses s)) \<and> list_all (agrees s) (sd_submissions s)"

lemma score_or_0_map: "map (\<lambda>r. case qr_effective_score r of None \<Rightarrow> 0 | Some s \<Rightarrow> s) rows = map score_or_0 rows"
  by (simp add: score_or_0_def)

text \<open>Recomputing one submission is enough when only its responses have changed.\<close>

lemma recalculate_agrees:
  assumes rec: "recalculate sid s1 = Inr s'" and s: "totals_agree s"
    and subs: "sd_submissions s1 = sd_submissions s" and ids: "distinct (map qr_id (sd_responses s1))"
    and other: "\<And>i. i \<noteq> sid \<Longrightarrow> rows_in i s1 = rows_in i s"
  shows "totals_agree s'"
proof -
  obtain x where x: "get_by qs_id sid (sd_submissions s1) = Some x"
    using rec by (auto simp: recalculate_def split: option.splits)
  define t where "t = totals_of x (rows_in sid s1)"
  let ?f = "\<lambda>y. y\<lparr>qs_provisional_score := fst t, qs_has_grading_error := G_FAILED \<in> set (map qr_grading_status (rows_in sid s1)),
      qs_grading_status := fst (snd t), qs_current_score := snd (snd t)\<rparr>"
  have s': "s' = s1\<lparr>sd_submissions := upd_by qs_id sid ?f (sd_submissions s1)\<rparr>"
    using rec by (simp add: recalculate_def x Let_def t_def totals_of_def rows_in_def score_or_0_map)
  have rows: "rows_in i s' = rows_in i s1" for i by (simp add: s' rows_in_def)
  have d: "distinct (map qs_id (sd_submissions s))" "list_all (agrees s) (sd_submissions s)"
    using s by (simp_all add: totals_agree_def)
  have "agrees s' y'" if "y' \<in> set (sd_submissions s')" for y'
  proof -
    have "y' \<in> set (upd_by qs_id sid ?f (sd_submissions s))" using that by (simp add: s' subs)
    then obtain y where y: "y \<in> set (sd_submissions s)" "y' = (if qs_id y = sid then ?f y else y)"
      unfolding in_upd_by by blast
    show ?thesis
    proof (cases "qs_id y = sid")
      case True
      then have "y = x" using row_unique [OF d(1) y(1)] get_by_Some [OF x] subs by metis
      then have "y' = ?f x" using y(2) True by simp
      then show ?thesis
        using True \<open>y = x\<close> by (simp add: agrees_def rows t_def) (simp add: totals_of_def Let_def)
    next
      case False
      then have "y' = y" "rows_in (qs_id y') s' = rows_in (qs_id y) s" using y(2) other rows by simp_all
      then show ?thesis using d(2) y(1) by (simp add: agrees_def list_all_iff)
    qed
  qed
  then show ?thesis
    using d(1) ids by (simp add: totals_agree_def list_all_iff) (simp add: s' subs map_upd_by)
qed

lemma rows_set_response:
  assumes "distinct (map qr_id (sd_responses s))" and "get_by qr_id rid (sd_responses s) = Some r"
    and "\<And>r. qr_submission_id (f r) = qr_submission_id r" and "i \<noteq> qr_submission_id r"
  shows "rows_in i (set_response rid f s) = rows_in i s"
proof -
  have "filter (\<lambda>r. qr_submission_id r = i) (upd_by qr_id rid f rows) = filter (\<lambda>r. qr_submission_id r = i) rows"
    if "\<forall>x \<in> set rows. qr_id x = rid \<longrightarrow> qr_submission_id x \<noteq> i" for rows
    using that by (induction rows) (simp_all add: assms(3))
  moreover have "\<forall>x \<in> set (sd_responses s). qr_id x = rid \<longrightarrow> qr_submission_id x \<noteq> i"
    using row_unique [OF assms(1)] get_by_Some [OF assms(2)] assms(4) by metis
  ultimately show ?thesis by (simp add: rows_in_def set_response_def)
qed

lemma ids_set_response: "(\<And>r. qr_id (f r) = qr_id r) \<Longrightarrow>
    map qr_id (sd_responses (set_response rid f s)) = map qr_id (sd_responses s)"
  by (simp add: set_response_def map_upd_by)

lemma recalculate_after_response:
  assumes rec: "recalculate (qr_submission_id r) s1 = Inr s'" and s: "totals_agree s"
    and r: "get_by qr_id rid (sd_responses s) = Some r"
    and f: "\<And>r. qr_id (f r) = qr_id r" "\<And>r. qr_submission_id (f r) = qr_submission_id r"
    and s1: "sd_submissions s1 = sd_submissions s" "sd_responses s1 = sd_responses (set_response rid f s)"
  shows "totals_agree s'"
proof (rule recalculate_agrees [OF rec s s1(1)])
  have d: "distinct (map qr_id (sd_responses s))" using s by (simp add: totals_agree_def)
  then show "distinct (map qr_id (sd_responses s1))" by (simp only: s1(2) ids_set_response [of f, OF f(1)])
  fix i assume "i \<noteq> qr_submission_id r"
  then show "rows_in i s1 = rows_in i s"
    using rows_set_response [OF d r, of f i] f(2) by (simp add: rows_in_def s1(2))
qed

subsection \<open>The operations\<close>

lemma record_totals:
  assumes "record_grade now rid outcome s = Inr s'" and "totals_agree s"
  shows "totals_agree s'"
proof -
  obtain r a f h where r: "get_by qr_id rid (sd_responses s) = Some r"
    and "latest_attempt (\<lambda>a. ga_response_id a = rid) s = Some a"
    and f: "f = failed_response \<or> (\<exists>v t. f = graded_response v t)"
    and rec: "recalculate (qr_submission_id r) (set_attempt (ga_id a) (\<lambda>a. (h a)\<lparr>ga_completed_at := Some now\<rparr>)
           (set_response rid (\<lambda>r. (f r)\<lparr>qr_updated_at := now\<rparr>) s)) = Inr s'"
    using record_grade_Inr [OF assms(1)] .
  show ?thesis by (rule recalculate_after_response [OF rec assms(2) r]) (use f in auto)
qed

lemma running_rows:
  assumes r: "r \<in> set rows" "qr_id r = rid" "qr_grading_status r \<in> {G_PENDING, G_FAILED}"
    and d: "distinct (map qr_id rows)"
  shows "totals_of x (upd_by qr_id rid (\<lambda>r. r\<lparr>qr_grading_status := G_RUNNING\<rparr>) rows) = totals_of x rows"
proof -
  let ?rows = "upd_by qr_id rid (\<lambda>r. r\<lparr>qr_grading_status := G_RUNNING\<rparr>) rows"
  have "map score_or_0 ?rows = map score_or_0 rows" by (rule map_upd_by) (simp add: score_or_0_def)
  moreover
  have "r\<lparr>qr_grading_status := G_RUNNING\<rparr> \<in> set ?rows" using r unfolding in_upd_by by force
  then have "qr_grading_status (r\<lparr>qr_grading_status := G_RUNNING\<rparr>) \<in> set (map qr_grading_status ?rows)"
    by (simp only: set_map imageI)
  then have "G_RUNNING \<in> set (map qr_grading_status ?rows)" by simp
  then have "grading_summary st (set (map qr_grading_status ?rows)) = grading_summary st (set (map qr_grading_status rows))" for st
    using r by (auto simp: grading_summary_def image_iff intro: bexI [of _ r])
  ultimately show ?thesis by (simp only: totals_of_def)
qed

lemma claim_totals:
  assumes c: "claim_attempt now model rid s = Some s'" and s: "totals_agree s"
  shows "totals_agree s'"
proof -
  obtain r i g where r: "get_by qr_id rid (sd_responses s) = Some r"
    and s': "s' = set_attempt i g s \<or>
      qr_grading_status r \<in> {G_PENDING, G_FAILED} \<and>
      s' = set_attempt i g (set_response rid (\<lambda>r. r\<lparr>qr_grading_status := G_RUNNING\<rparr>) s)"
    using c by (auto simp: claim_attempt_def split: option.splits if_splits)
  note d = s [unfolded totals_agree_def]
  from s' show ?thesis
  proof
    assume "s' = set_attempt i g s"
    moreover have "agrees (set_attempt i g s) = agrees s" by (simp add: agrees_def rows_in_def fun_eq_iff)
    ultimately show ?thesis using s by (simp add: totals_agree_def agrees_def rows_in_def)
  next
    let ?f = "\<lambda>r. r\<lparr>qr_grading_status := G_RUNNING\<rparr>"
    assume h: "qr_grading_status r \<in> {G_PENDING, G_FAILED} \<and> s' = set_attempt i g (set_response rid ?f s)"
    have "totals_of x (rows_in j s') = totals_of x (rows_in j s)" for x j
    proof (cases "j = qr_submission_id r")
      case False
      then have "rows_in j (set_response rid ?f s) = rows_in j s"
        using rows_set_response [OF _ r, of ?f j] d by simp
      then show ?thesis using h by (simp add: rows_in_def)
    next
      case True
      have "filter (\<lambda>r. qr_submission_id r = j) (upd_by qr_id rid ?f rows) =
          upd_by qr_id rid ?f (filter (\<lambda>r. qr_submission_id r = j) rows)" for rows by (induction rows) auto
      then have "rows_in j s' = upd_by qr_id rid ?f (rows_in j s)"
        using h by (simp add: rows_in_def set_response_def)
      moreover have "r \<in> set (rows_in j s)" "qr_id r = rid" "distinct (map qr_id (rows_in j s))"
        using get_by_Some [OF r] True d by (simp_all add: rows_in_def distinct_map_filter)
      ultimately show ?thesis using running_rows [of r "rows_in j s" rid x] h by simp
    qed
    then have "agrees s' = agrees s" by (simp add: agrees_def fun_eq_iff)
    then show ?thesis using d h by (simp add: totals_agree_def ids_set_response)
  qed
qed

lemma grading_totals:
  assumes calm: "keeps (\<lambda>d. totals_agree (xd_question_subs d)) race" and d: "totals_agree (xd_question_subs d)"
  shows "totals_agree (xd_question_subs (snd (grade_response e clock race rid d)))"
proof (cases "claim_attempt (clock 0) (resolve_grading_model e) rid (xd_question_subs d)")
  case None
  then show ?thesis using d by (simp add: grade_response_def Let_def)
next
  case (Some s)
  let ?d = "race 1 (race 0 (d\<lparr>xd_question_subs := s\<rparr>))"
  let ?o = "generate_grade e (resolve_grading_model e) rid (race 0 (d\<lparr>xd_question_subs := s\<rparr>))"
  have "totals_agree (xd_question_subs (d\<lparr>xd_question_subs := s\<rparr>))" using claim_totals [OF Some d] by simp
  then have d1: "totals_agree (xd_question_subs ?d)" using calm by (simp add: keeps_def)
  show ?thesis
  proof (cases "record_grade (clock 1) rid ?o (xd_question_subs ?d)")
    case (Inl x)
    then show ?thesis using d1 by (simp only: grade_response_def Let_def Some option.case sum.case snd_conv)
  next
    case (Inr s')
    then have "totals_agree (xd_question_subs (?d\<lparr>xd_question_subs := s'\<rparr>))" using record_totals d1 by simp
    then show ?thesis by (simp only: grade_response_def Let_def Some Inr option.case sum.case snd_conv)
  qed
qed

lemma override_totals:
  assumes "override_question_score uid now admin rid form d = Inr d'" and "totals_agree (xd_question_subs d)"
  shows "totals_agree (xd_question_subs d')"
proof -
  obtain r s s' where r: "get_by qr_id rid (sd_responses (xd_question_subs d)) = Some r"
    and rec: "recalculate (qr_submission_id r) (set_response rid (overridden_response now (of_score form)) s) = Inr s'"
    and s: "sd_submissions s = sd_submissions (xd_question_subs d)" "sd_responses s = sd_responses (xd_question_subs d)"
    and d': "d' = d\<lparr>xd_question_subs := s'\<rparr>"
    using assms(1) by (fastforce simp: override_question_score_def load_review_def bindE_Inr_iff Let_def
        split: option.splits if_splits prod.splits)
  have "totals_agree s'"
    by (rule recalculate_after_response [OF rec assms(2) r, of "overridden_response now (of_score form)"])
      (simp_all add: overridden_response_def s set_response_def)
  then show ?thesis by (simp add: d')
qed

lemma retry_totals:
  assumes "retry_question_grading uid now rid d = Inr (v, d')" and "totals_agree (xd_question_subs d)"
  shows "totals_agree (xd_question_subs d')"
proof -
  let ?s = "xd_question_subs d"
  let ?f = "\<lambda>r :: question_response. r\<lparr>qr_generated_score := None, qr_effective_score := None,
      qr_rationale := None, qr_grading_status := G_PENDING\<rparr>"
  obtain r task where load: "load_review rid d = Inr (r, task)"
    using assms(1) by (auto simp: retry_question_grading_def bindE_Inr_iff)
  then have r: "get_by qr_id rid (sd_responses ?s) = Some r"
    by (auto simp: load_review_def split: option.splits)
  show ?thesis
  proof (cases "latest_attempt (\<lambda>a. ga_response_id a = rid \<and> ga_status a \<in> {G_PENDING, G_RUNNING}) ?s")
    case (Some a)
    then show ?thesis using assms by (auto simp: retry_question_grading_def load split: if_splits)
  next
    case None
    then obtain s1 s' where rec: "recalculate (qr_submission_id r) s1 = Inr s'" and d': "d' = d\<lparr>xd_question_subs := s'\<rparr>"
      and s1: "sd_submissions s1 = sd_submissions ?s"
        "sd_responses s1 = (if score_overridden r then sd_responses ?s else sd_responses (set_response rid ?f ?s))"
      using assms(1) by (auto simp: retry_question_grading_def load bindE_Inr_iff Let_def split: if_splits)
    have "totals_agree s'"
    proof (cases "score_overridden r")
      case True
      have "totals_agree s'"
        by (rule recalculate_after_response [OF rec assms(2) r, of "\<lambda>r. r"])
          (use s1 True in \<open>simp_all add: set_response_def upd_by_def upd_rows_def\<close>)
      then show ?thesis .
    next
      case False
      show ?thesis by (rule recalculate_after_response [OF rec assms(2) r, of ?f]) (use s1 False in simp_all)
    qed
    then show ?thesis by (simp add: d')
  qed
qed

subsection \<open>The property\<close>

text \<open>
  C32. The totals of every submission stay those of its responses: provisional score, grading
  status and final score agree with them after grading by the model, after an administrator's
  score and after a retry.
\<close>

theorem totals_follow_responses:
  assumes "totals_agree (xd_question_subs d)"
    and "keeps (\<lambda>d. totals_agree (xd_question_subs d)) race"
  shows "totals_agree (xd_question_subs (snd (grade_response e clock race rid d))) \<and>
    (\<forall>d'. override_question_score uid now admin rid form d = Inr d' \<longrightarrow> totals_agree (xd_question_subs d')) \<and>
    (\<forall>v d'. retry_question_grading uid now rid d = Inr (v, d') \<longrightarrow> totals_agree (xd_question_subs d'))"
  using grading_totals [OF assms(2,1)] override_totals [OF _ assms(1)] retry_totals [OF _ assms(1)] by blast

end
