(* ===== verification/Thought_Removal.thy ===== *)
theory Thought_Removal
  imports Grade_Parser
begin

text \<open>
  A model may think aloud before it answers: a leading block between thinking tags does not change
  the grade that is read. The proof rests on two facts about patterns: one without word edges does
  not look at the text before it, and a lazy repetition ends at the first place where the rest of
  the pattern fits.
\<close>

subsection \<open>Patterns without word edges\<close>

fun edge_free :: "pattern \<Rightarrow> bool" where
  "edge_free Word_Edge = False"
| "edge_free (Then p q) = (edge_free p \<and> edge_free q)"
| "edge_free (Or p q) = (edge_free p \<and> edge_free q)"
| "edge_free (Many p) = edge_free p"
| "edge_free (Lazy p) = edge_free p"
| "edge_free (Perhaps p) = edge_free p"
| "edge_free (Capture n p) = edge_free p"
| "edge_free p = True"

definition same_rest :: "match_state \<Rightarrow> match_state \<Rightarrow> bool" where
  "same_rest m n \<longleftrightarrow> ms_rest m = ms_rest n"

lemma same_rest_shorter: "same_rest m n \<Longrightarrow> same_rest m' n' \<Longrightarrow> shorter m' m = shorter n' n"
  by (simp add: same_rest_def shorter_def)

lemma list_all2_concat_map:
  assumes "list_all2 R xs ys" and "\<And>x y. x \<in> set xs \<Longrightarrow> R x y \<Longrightarrow> list_all2 S (f x) (g y)"
  shows "list_all2 S (concat (map f xs)) (concat (map g ys))"
  using assms by (induction rule: list_all2_induct) (auto intro!: list_all2_appendI)

lemma matches_same:
  assumes "edge_free p" and "same_rest m n"
  shows "list_all2 same_rest (matches p m) (matches p n)"
  using assms
proof (induction p m arbitrary: n rule: matches.induct)
  case (2 P m)
  then show ?case by (auto simp: same_rest_def split: list.split)
next
  case (3 p q m)
  then show ?case by (auto intro!: list_all2_concat_map)
next
  case (4 p q m)
  then show ?case by (auto intro!: list_all2_appendI)
next
  case (5 p m)
  have p: "list_all2 same_rest (matches p m) (matches p n)" using 5 by simp
  have "list_all2 same_rest (if shorter x m then matches (Many p) x else [x]) (if shorter y n then matches (Many p) y else [y])"
    if "x \<in> set (matches p m)" "same_rest x y" for x y
    using 5(2) [OF that(1)] 5(3,4) that(2) same_rest_shorter [OF 5(4) that(2)] by auto
  from list_all2_concat_map [OF p this] show ?case
    using 5(4) unfolding matches.simps(5) [of p m] matches.simps(5) [of p n]
    by (intro list_all2_appendI) simp_all
next
  case (6 p m)
  have p: "list_all2 same_rest (matches p m) (matches p n)" using 6 by simp
  have "list_all2 same_rest (if shorter x m then matches (Lazy p) x else []) (if shorter y n then matches (Lazy p) y else [])"
    if "x \<in> set (matches p m)" "same_rest x y" for x y
    using 6(2) [OF that(1)] 6(3,4) that(2) same_rest_shorter [OF 6(4) that(2)] by auto
  from list_all2_concat_map [OF p this] show ?case
    using 6(4) unfolding matches.simps(6) [of p m] matches.simps(6) [of p n] by simp
next
  case (7 p m)
  then show ?case by (auto intro!: list_all2_appendI)
next
  case (8 i p m)
  then have "list_all2 same_rest (matches p m) (matches p n)" by simp
  then show ?case by (auto simp: list_all2_map1 list_all2_map2 same_rest_def elim!: list_all2_mono)
qed (auto simp: same_rest_def)

lemma remove_from_prev:
  assumes "edge_free p"
  shows "remove_from p a rest = remove_from p b rest"
proof (induction "length rest" arbitrary: a b rest rule: less_induct)
  case less
  let ?m = "\<lambda>a. \<lparr>ms_before = a, ms_rest = rest, ms_groups = []\<rparr>"
  have same: "list_all2 same_rest (matches p (?m a)) (matches p (?m b))"
    by (rule matches_same [OF assms]) (simp add: same_rest_def)
  have tail: "remove_from p x cs = remove_from p y cs" if "rest = c # cs" for x y c cs
    using less [of cs] that by simp
  show ?case
  proof (cases "matches p (?m a)")
    case Nil
    with same have "matches p (?m b) = []" by simp
    with Nil show ?thesis
      using tail by (subst (1 2) remove_from.simps) (auto split: list.split)
  next
    case (Cons x xs)
    with same obtain y ys where y: "matches p (?m b) = y # ys" "ms_rest y = ms_rest x"
      by (auto simp: list_all2_Cons1 same_rest_def)
    have "remove_from p (ms_before x) (ms_rest x) = remove_from p (ms_before y) (ms_rest x)"
      if "length (ms_rest x) < length rest" using less [OF that] .
    with Cons y show ?thesis
      using tail by (subst (1 2) remove_from.simps) (auto split: list.split)
  qed
qed

subsection \<open>The block in front\<close>

abbreviation reading :: "string \<Rightarrow> string \<Rightarrow> (nat \<times> string) list \<Rightarrow> match_state" where
  "reading b r g \<equiv> \<lparr>ms_before = b, ms_rest = r, ms_groups = g\<rparr>"

definition tags :: "string list" where
  "tags = [''think'', ''analysis'']"

definition thought_end :: pattern where
  "thought_end = (let tag = alternatives [word ''think'', word ''analysis''] in
     in_order [one CHR ''<'', one CHR ''/'', tag, one CHR ''>''])"

definition tag_end :: pattern where
  "tag_end = Then (alternatives [word ''think'', word ''analysis'']) (one CHR ''>'')"

lemma flip_letters:
  "flip_case CHR ''t'' = CHR ''T''"
  "flip_case CHR ''h'' = CHR ''H''"
  "flip_case CHR ''i'' = CHR ''I''"
  "flip_case CHR ''n'' = CHR ''N''"
  "flip_case CHR ''k'' = CHR ''K''"
  "flip_case CHR ''a'' = CHR ''A''"
  "flip_case CHR ''l'' = CHR ''L''"
  "flip_case CHR ''y'' = CHR ''Y''"
  "flip_case CHR ''s'' = CHR ''S''"
  by code_simp+

lemma matches_tag_end:
  "k \<in> set tags \<Longrightarrow> \<exists>b'. matches tag_end (reading b (k @ CHR ''>'' # u) g) = [reading b' u g]"
  by (auto simp: tags_def tag_end_def word_def letter_def one_def flip_letters)

lemma matches_thought_end:
  "k \<in> set tags \<Longrightarrow> \<exists>b'. matches thought_end (reading b (''</'' @ k @ CHR ''>'' # u) g) = [reading b' u g]"
  using matches_tag_end [of k "CHR ''/'' # CHR ''<'' # b" u g]
  by (simp add: thought_end_def tag_end_def Let_def one_def)

lemma lazy_step:
  "matches (Lazy any_char) (reading b (c # cs) g) = reading b (c # cs) g # matches (Lazy any_char) (reading (c # b) cs g)"
  by (subst matches.simps(6)) (simp add: any_char_def shorter_def)

lemma lazy_thought_end:
  assumes "CHR ''<'' \<notin> set t" and "k \<in> set tags"
  shows "\<exists>b' ms. matches (Then (Lazy any_char) thought_end) (reading b (t @ ''</'' @ k @ CHR ''>'' # u) g) = reading b' u g # ms"
  using assms(1)
proof (induction t arbitrary: b)
  case Nil
  then show ?case using matches_thought_end [OF assms(2), of b u g] by (auto simp: lazy_step)
next
  case (Cons c cs)
  have "matches thought_end (reading b (c # cs @ ''</'' @ k @ CHR ''>'' # u) g) = []"
    using Cons.prems by (auto simp: thought_end_def Let_def one_def)
  then show ?case using Cons.IH [of "c # b"] Cons.prems by (simp add: lazy_step)
qed

lemma matches_then_assoc: "matches (Then p (Then q r)) = matches (Then (Then p q) r)"
proof
  fix m
  have "concat (map (\<lambda>x. concat (map f (h x))) xs) = concat (map f (concat (map h xs)))"
    for f :: "match_state \<Rightarrow> match_state list" and h :: "match_state \<Rightarrow> match_state list" and xs
    by (induction xs) simp_all
  moreover have "matches (Then q r) = (\<lambda>m. concat (map (matches r) (matches q m)))" by (rule ext) simp
  ultimately show "matches (Then p (Then q r)) m = matches (Then (Then p q) r) m" by simp
qed

lemma matches_then_cong: "matches q = matches q' \<Longrightarrow> matches (Then p q) = matches (Then p q')"
  by (rule ext) simp

lemma thought_block_split:
  "thought_block = Then (one CHR ''<'') (Then (alternatives [word ''think'', word ''analysis''])
     (Then (one CHR ''>'') (Then (Lazy any_char) thought_end)))"
  by (simp add: thought_block_def thought_end_def Let_def)

lemma matches_thought:
  assumes "CHR ''<'' \<notin> set t" and "k \<in> set tags" and "k' \<in> set tags"
  shows "\<exists>b' ms. matches thought_block (reading b (''<'' @ k @ CHR ''>'' # t @ ''</'' @ k' @ CHR ''>'' # u) g) = reading b' u g # ms"
proof -
  let ?r = "t @ ''</'' @ k' @ CHR ''>'' # u"
  obtain b1 where b1: "matches tag_end (reading (CHR ''<'' # b) (k @ CHR ''>'' # ?r) g) = [reading b1 ?r g]"
    using matches_tag_end [OF assms(2)] by blast
  obtain b' ms where e: "matches (Then (Lazy any_char) thought_end) (reading b1 ?r g) = reading b' u g # ms"
    using lazy_thought_end [OF assms(1,3)] by blast
  have "matches thought_block (reading b (''<'' @ k @ CHR ''>'' # ?r) g) =
      matches (Then tag_end (Then (Lazy any_char) thought_end)) (reading (CHR ''<'' # b) (k @ CHR ''>'' # ?r) g)"
    unfolding thought_block_split matches_then_cong [OF matches_then_assoc, of "one CHR ''<''" "alternatives [word ''think'', word ''analysis'']"
        "one CHR ''>''"] tag_end_def [symmetric]
    by (subst matches.simps(3)) (simp add: one_def del: matches.simps(3))
  then have "matches thought_block (reading b (''<'' @ k @ CHR ''>'' # ?r) g) =
      concat (map (matches (Then (Lazy any_char) thought_end)) (matches tag_end (reading (CHR ''<'' # b) (k @ CHR ''>'' # ?r) g)))"
    by (simp only: matches.simps(3))
  then show ?thesis unfolding b1 using e by simp
qed

lemma thought_block_edge_free: "edge_free thought_block"
  by (simp add: thought_block_def Let_def one_def word_def letter_def any_char_def)

lemma remove_thought:
  assumes "CHR ''<'' \<notin> set t" and "k \<in> set tags" and "k' \<in> set tags"
  shows "remove_all thought_block (''<'' @ k @ CHR ''>'' # t @ ''</'' @ k' @ CHR ''>'' # u) = remove_all thought_block u"
proof -
  obtain b' ms where m: "matches thought_block (reading [] (''<'' @ k @ CHR ''>'' # t @ ''</'' @ k' @ CHR ''>'' # u) []) = reading b' u [] # ms"
    using matches_thought [OF assms] by blast
  show ?thesis
    unfolding remove_all_def
    by (subst remove_from.simps) (simp add: m [simplified] remove_from_prev [OF thought_block_edge_free, of b' u "[]"])
qed

subsection \<open>White space around\<close>

lemma strip_comm: "dropWhile P (rev (dropWhile P (rev s))) = rev (dropWhile P (rev (dropWhile P s)))"
proof (induction s)
  case (Cons c cs)
  then show ?case by (auto simp: dropWhile_append dest: set_dropWhileD)
qed simp

lemma remove_spaces:
  "list_all py_space sp \<Longrightarrow> remove_from thought_block b (sp @ u) = sp @ remove_from thought_block b u"
proof (induction sp arbitrary: b)
  case (Cons c cs)
  then have "matches thought_block (reading b (c # cs @ u) []) = []"
    by (auto simp: thought_block_split one_def py_space_def)
  then show ?case
    using Cons remove_from_prev [OF thought_block_edge_free, of "c # b" u b]
    by simp (subst remove_from.simps, simp)
qed simp

lemma strip_lead: "list_all py_space sp \<Longrightarrow> py_strip (sp @ u) = py_strip u"
  by (induction sp) (simp_all add: py_strip_def)

lemma strip_thoughts_lead: "list_all py_space sp \<Longrightarrow> strip_thoughts (sp @ u) = strip_thoughts u"
  by (simp add: strip_thoughts_def remove_all_def remove_spaces strip_lead)

definition rstrip :: "string \<Rightarrow> string" where
  "rstrip s = rev (dropWhile py_space (rev s))"

lemma strip_thoughts_strip: "strip_thoughts (py_strip s) = strip_thoughts (rstrip s)"
proof -
  have "rstrip s = takeWhile py_space (rstrip s) @ dropWhile py_space (rstrip s)" by simp
  moreover have "dropWhile py_space (rstrip s) = py_strip s"
    by (simp add: rstrip_def py_strip_def strip_comm)
  ultimately show ?thesis
    using strip_thoughts_lead [of "takeWhile py_space (rstrip s)" "py_strip s"]
    by (metis list_all_iff set_takeWhileD)
qed

lemma strip_block: "\<not> py_space c \<Longrightarrow> \<not> py_space e \<Longrightarrow> py_strip (c # t @ e # s) = c # t @ e # rstrip s"
  by (auto simp: py_strip_def rstrip_def dropWhile_append)

lemma strip_thoughts_block:
  assumes "CHR ''<'' \<notin> set t" and "k \<in> set tags" and "k' \<in> set tags"
  shows "strip_thoughts (py_strip (''<'' @ k @ CHR ''>'' # t @ ''</'' @ k' @ CHR ''>'' # s)) = strip_thoughts (py_strip s)"
proof -
  have "py_strip (''<'' @ k @ CHR ''>'' # t @ ''</'' @ k' @ CHR ''>'' # s) = ''<'' @ k @ CHR ''>'' # t @ ''</'' @ k' @ CHR ''>'' # rstrip s"
    using strip_block [of "CHR ''<''" "CHR ''>''" "k @ CHR ''>'' # t @ ''</'' @ k'" s] by (simp add: py_space_def)
  then have "strip_thoughts (py_strip (''<'' @ k @ CHR ''>'' # t @ ''</'' @ k' @ CHR ''>'' # s)) = strip_thoughts (rstrip s)"
    by (simp only: strip_thoughts_def remove_thought [OF assms])
  then show ?thesis by (simp only: strip_thoughts_strip)
qed

subsection \<open>The grade\<close>

definition chat_reply :: "string \<Rightarrow> json" where
  "chat_reply s = JObj [(''choices'', JList [JObj [(''message'', JObj [(''content'', JStr s)])]])]"

lemma parse_grade_strip:
  assumes "strip_thoughts (py_strip s) = strip_thoughts (py_strip s')"
  shows "parse_grade codec (chat_reply s) maximum = parse_grade codec (chat_reply s') maximum"
proof -
  have c: "reply_content (chat_reply x) = Inr (JStr (py_strip x))" for x
    by (simp add: reply_content_def raw_content_def choice_content_def chat_reply_def jget_def)
  have "json_object codec (py_strip s) = json_object codec (py_strip s')" "plain_grade (py_strip s) = plain_grade (py_strip s')"
    by (simp_all only: json_object_def plain_grade_def assms)
  then show ?thesis by (simp only: parse_grade_def c bindE_simps json.case)
qed

text \<open>
  A block between thinking tags in front of an answer does not change the grade that is read
  from it, whatever the block says.
\<close>

theorem thinking_is_ignored:
  assumes "CHR ''<'' \<notin> set t" and "k \<in> set tags" and "k' \<in> set tags"
  shows "parse_grade codec (chat_reply (''<'' @ k @ CHR ''>'' # t @ ''</'' @ k' @ CHR ''>'' # s)) maximum =
    parse_grade codec (chat_reply s) maximum"
  by (rule parse_grade_strip [OF strip_thoughts_block [OF assms]])

end
