(* ===== verification/Grading_Samples.thy ===== *)
theory Grading_Samples
  imports Submission_Totals Thought_Removal Sample_Store
begin

text \<open>A finalized submission with one free-text answer that waits for the model, and a model that
  answers at once.\<close>

definition essay_question :: question_row where
  "essay_question = \<lparr>tq_id = ''q'', tq_task_id = ''t'', tq_title = ''Why?'', tq_description = '''',
     tq_question_type = FREE_TEXT, tq_position = 0, tq_max_score = 5, tq_grading_mode = LLM_ASSISTED,
     tq_image_file_id = None, tq_case_sensitive = False, tq_created_at = 0, tq_updated_at = 0\<rparr>"

definition quiz_row :: question_task_row where
  "quiz_row = \<lparr>qt_id = ''t'', qt_family_id = ''t'', qt_version = 1, qt_title = ''Quiz'', qt_description = '''',
     qt_status = QT_PUBLISHED, qt_locked_at = None, qt_archived_at = None, qt_workflow_managed = False,
     qt_created_at = 0, qt_updated_at = 0\<rparr>"

definition waiting_response :: question_response where
  "waiting_response = \<lparr>qr_id = ''r'', qr_submission_id = ''sub'', qr_question_id = ''q'', qr_free_text_answer = Some ''So'',
     qr_is_answered = True, qr_grading_status = G_PENDING, qr_generated_score = None, qr_effective_score = None,
     qr_grading_method = Some (Mode LLM_ASSISTED), qr_rationale = None, qr_created_at = 1, qr_updated_at = 1\<rparr>"

definition waiting_submission :: question_submission where
  "waiting_submission = \<lparr>qs_id = ''sub'', qs_session_task_id = ''st'', qs_user_id = ''u'', qs_status = S_FINALIZED,
     qs_grading_status = G_PENDING, qs_current_score = None, qs_provisional_score = 0, qs_has_grading_error = False,
     qs_maximum_score = 5, qs_submitted_at = Some 1, qs_created_at = 0, qs_updated_at = 1\<rparr>"

definition waiting_store :: experiment_db where
  "waiting_store = empty_store
     \<lparr>xd_questions := empty_questions
        \<lparr>db_tasks := [quiz_row], db_questions := [essay_question],
         db_configs := [\<lparr>cg_question_id = ''q'', cg_expected_answer = ''So'', cg_strictness = BALANCED\<rparr>]\<rparr>,
      xd_tasks := [sample_session_task],
      xd_question_subs := \<lparr>sd_submissions = [waiting_submission], sd_responses = [waiting_response], sd_choices = [],
        sd_blanks = [], sd_attempts = [new_attempt (\<lambda>_. ''a'') 1 ''r''], sd_overrides = []\<rparr>\<rparr>"

definition plain_codec :: grade_codec where
  "plain_codec = \<lparr>gc_loads = (\<lambda>_. None), gc_raw_decode = (\<lambda>_. None), gc_dumps = (\<lambda>_. []),
     gc_decimal = (\<lambda>v. case v of JNum n \<Rightarrow> Some n | _ \<Rightarrow> None), gc_bool = (\<lambda>v. case v of JBool b \<Rightarrow> Some b | _ \<Rightarrow> None)\<rparr>"

definition kind_model :: grading_env where
  "kind_model = \<lparr>ge_codec = plain_codec, ge_models = [''m''], ge_task_model = Some ''m'', ge_task_model_external = None,
     ge_ask = (\<lambda>_ _. Inr (JObj [(''score'', JNum 4), (''reason'', JStr ''fine'')]))\<rparr>"

lemma waiting_gradable: "gradable ''r'' waiting_store"
  by (simp add: gradable_def waiting_store_def empty_store_def waiting_response_def waiting_submission_def new_attempt_def
      essay_question_def score_ok_def is_cents_def)

lemma waiting_claimed:
  "\<exists>s. claim_attempt 7 (resolve_grading_model kind_model) ''r'' (xd_question_subs waiting_store) = Some s"
  by (simp add: claim_attempt_def waiting_store_def empty_store_def waiting_response_def new_attempt_def
      latest_attempt_def order_desc_def score_overridden_def)

lemma waiting_attempt:
  "latest_attempt (\<lambda>a. ga_response_id a = ''r'' \<and> ga_status a = G_PENDING) (xd_question_subs waiting_store) =
    Some (new_attempt (\<lambda>_. ''a'') 1 ''r'')"
  "newest_open ''r'' (xd_question_subs waiting_store)"
  by (simp_all add: newest_open_def waiting_store_def empty_store_def new_attempt_def latest_attempt_def order_desc_def)

lemma grading_settles_witness:
  "\<exists>d' bound. grade_response kind_model (\<lambda>n. 7 + int n) (\<lambda>_ d. d) ''r'' waiting_store = (Inr (), d') \<and>
    settled 8 ''r'' ''a'' bound (xd_question_subs d')"
proof -
  obtain s where s: "claim_attempt 7 (resolve_grading_model kind_model) ''r'' (xd_question_subs waiting_store) = Some s"
    using waiting_claimed by blast
  have "ga_id (new_attempt (\<lambda>_. ''a'') 1 ''r'') = ''a''" by (simp add: new_attempt_def)
  then show ?thesis
    using grading_settles [OF waiting_gradable waiting_attempt(2,1) keeps_id, of "\<lambda>n. 7 + int n" kind_model s] s by auto
qed

lemma waiting_loads:
  "load_review ''r'' waiting_store = Inr (waiting_response, the (find_task (xd_questions waiting_store) sample_session_task))"
  by (simp add: load_review_def waiting_store_def empty_store_def waiting_response_def waiting_submission_def
      find_task_def sample_session_task_def get_question_task_def quiz_row_def empty_questions_def)

definition full_marks :: override_form where
  "full_marks = \<lparr>of_score = 5, of_note = None\<rparr>"

lemma waiting_override: "\<exists>d'. override_question_score ''o'' 9 ''admin'' ''r'' full_marks waiting_store = Inr d'"
proof -
  have "\<exists>q. get_by qm_id ''q'' (tm_questions (the (find_task (xd_questions waiting_store) sample_session_task))) = Some q \<and>
      qm_max_score q = 5"
    by (simp add: find_task_def sample_session_task_def waiting_store_def get_question_task_def quiz_row_def
        load_questions_def order_by_def question_model_of_def essay_question_def Let_def empty_questions_def)
  then obtain q where "get_by qm_id ''q'' (tm_questions (the (find_task (xd_questions waiting_store) sample_session_task))) = Some q"
      "qm_max_score q = 5" by blast
  then show ?thesis
    by (simp add: override_question_score_def waiting_loads waiting_response_def full_marks_def Let_def)
      (simp add: waiting_store_def empty_store_def waiting_submission_def set_response_def recalculate_def Let_def)
qed

lemma override_survives_witness:
  "\<exists>d'. override_question_score ''o'' 9 ''admin'' ''r'' full_marks waiting_store = Inr d' \<and>
    in_force ''r'' 5 (snd (grade_response kind_model int (\<lambda>_ d. d) ''r'' d'))"
proof -
  obtain d' where d': "override_question_score ''o'' 9 ''admin'' ''r'' full_marks waiting_store = Inr d'"
    using waiting_override by blast
  have "get_by qr_id ''r'' (sd_responses (xd_question_subs waiting_store)) = Some waiting_response"
    "qr_grading_status waiting_response \<noteq> AWAITING_REVIEW"
    by (simp_all add: waiting_store_def empty_store_def waiting_response_def)
  from override_survives [OF d' this keeps_id] d' show ?thesis by (auto simp: full_marks_def)
qed

lemma totals_follow_responses_witness:
  "totals_agree (xd_question_subs (snd (grade_response kind_model int (\<lambda>_ d. d) ''r'' waiting_store)))"
proof -
  have "totals_agree (xd_question_subs waiting_store)"
    by (simp add: totals_agree_def agrees_def totals_of_def rows_in_def waiting_store_def empty_store_def
        waiting_submission_def waiting_response_def score_or_0_def grading_summary_def dec_add_def)
  from totals_follow_responses [OF this keeps_id] show ?thesis by blast
qed

lemma thinking_is_ignored_witness:
  "parse_grade plain_codec (chat_reply ''<think>4 or 5?</think> Score: 4/5. Reason: fine'') 5 =
    parse_grade plain_codec (chat_reply '' Score: 4/5. Reason: fine'') 5"
  using thinking_is_ignored [of "''4 or 5?''" "''think''" "''think''" plain_codec "'' Score: 4/5. Reason: fine''" 5]
  by (simp add: tags_def)

end
