(* ===== verification/Workflow_Definition.thy ===== *)
theory Workflow_Definition
  imports Plan_Store Completion_Observer Condition_Assignment
begin

text \<open>
  Workflow definitions (\<open>models/experiment_workflows.py\<close>): JSON values an administrator writes,
  their normalization and the issues that keep a workflow from being applied. Reading a JSON value
  into the typed forms of a plan or a prompt budget is pydantic's work and a parameter; the
  validators that run on the typed forms are those of \<open>Experiment_Plan\<close> and \<open>Prompt_Budget\<close>, of
  whose errors the model lists the first. Python's sets of identifiers are lists without
  duplicates here.
\<close>

record workflow_issue =
  wi_path :: string
  wi_message :: string

record workflow_env =
  we_read_plan :: "json \<Rightarrow> workflow_issue list + plan_form"
  we_read_budget :: "json \<Rightarrow> prompt_budget option"

datatype workflow_draw = DEmpty | DRow | DDefault | DGuess nat | DFresh nat

subsection \<open>Defaults\<close>

definition default_budget_json :: json where
  "default_budget_json = JObj [(''mode'', JStr ''TASK''), (''limit'', JNum 100), (''question_limits'', JObj [])]"

text \<open>\<open>default_control_condition().model_dump(mode='json')\<close>\<close>

definition default_condition_json :: "string \<Rightarrow> json" where
  "default_condition_json key = JObj
     [(''key'', JStr key), (''id'', JNull), (''name'', JStr ''Control''), (''allocation_percent'', JNum 100),
      (''enabled'', JBool True), (''is_control'', JBool True),
      (''prompt_injection'', JObj [(''enabled'', JBool False), (''instruction'', JStr []), (''position'', JStr ''SYSTEM''),
         (''activation'', JObj [(''mode'', JStr ''EVERY_REQUEST''), (''count'', JNull), (''range_start'', JNull),
            (''range_end'', JNull), (''probability'', JNum 1), (''scope'', JStr ''ALL_TASKS''), (''plan_item_ids'', JList [])])]),
      (''warning_modal'', JObj [(''enabled'', JBool False), (''title'', JStr ''Important reminder''),
         (''message'', JStr ''LLMs can make mistakes. Double-check important answers.''),
         (''confirmation_text'', JStr ''Continue''), (''must_acknowledge'', JBool True), (''cadence'', JStr ''BEGINNING''),
         (''cadence_value'', JNull), (''prompt_numbers'', JList [])]),
      (''response_timing'', JObj [(''mode'', JStr ''NORMAL''), (''delay_seconds'', JNull), (''show_loading'', JBool True),
         (''reveal_style'', JStr ''FULL''), (''target_duration_seconds'', JNull), (''stream_unit'', JStr ''CHARACTER''),
         (''minimum_chunk_size'', JNum 1), (''maximum_chunk_size'', JNum 20), (''punctuation_pauses'', JBool False),
         (''rate_value'', JNull), (''rate_unit'', JStr ''CHARACTERS_PER_SECOND'')])]"

definition default_workflow_definition :: "string \<Rightarrow> (string \<times> json) list" where
  "default_workflow_definition key =
     [(''progression_mode'', JStr ''STRICT_SEQUENTIAL''), (''chat_mode'', JStr ''SHARED_EXPERIMENT''),
      (''consent_enabled'', JBool True), (''items'', JList []), (''conditions'', JList [default_condition_json key])]"

subsection \<open>\<open>normalize_definition\<close>\<close>

definition get_or :: "(string \<times> json) list \<Rightarrow> string \<Rightarrow> json \<Rightarrow> json" where
  "get_or m k v = (case map_of m k of None \<Rightarrow> v | Some x \<Rightarrow> x)"

definition has_memory :: "json \<Rightarrow> bool" where
  "has_memory c = (case c of JObj m \<Rightarrow> map_of m ''memory_injection'' \<noteq> None | _ \<Rightarrow> False)"

definition normalize_item :: "json \<Rightarrow> json" where
  "normalize_item item =
     (case item of
        JObj m \<Rightarrow>
          if jget m ''task_type'' \<in> {JStr ''ESSAY'', JStr ''QUESTION''} \<and> map_of m ''llm_prompt_budget'' = None
          then JObj (m @ [(''llm_prompt_budget'', default_budget_json)]) else item
      | _ \<Rightarrow> item)"

definition first_truthy :: "json list \<Rightarrow> json" where
  "first_truthy vs = (case find truthy_json vs of None \<Rightarrow> (if vs = [] then JNull else last vs) | Some v \<Rightarrow> v)"

definition chosen_key :: "(workflow_draw \<Rightarrow> string) \<Rightarrow> nat \<Rightarrow> string set \<Rightarrow> (string \<times> json) list \<Rightarrow> string" where
  "chosen_key uid n keys m =
     (case first_truthy [jget m ''key'', jget m ''id'', JStr (uid (DGuess n))] of
        JStr s \<Rightarrow> if s = [] \<or> s \<in> keys then uid (DFresh n) else s
      | _ \<Rightarrow> uid (DFresh n))"

fun normalize_conditions :: "(workflow_draw \<Rightarrow> string) \<Rightarrow> nat \<Rightarrow> string set \<Rightarrow> json list \<Rightarrow> json list" where
  "normalize_conditions uid n keys [] = []"
| "normalize_conditions uid n keys (JObj m # cs) =
     (let key = chosen_key uid n keys m in
      JObj (AList.delete ''id'' (put_key ''key'' (JStr key) m)) #
        normalize_conditions uid (n + 1) (insert key keys) cs)"
| "normalize_conditions uid n keys (c # cs) = c # normalize_conditions uid (n + 1) keys cs"

definition update_all :: "(string \<times> json) list \<Rightarrow> (string \<times> json) list \<Rightarrow> (string \<times> json) list" where
  "update_all m m' = foldl (\<lambda>m (k, v). put_key k v m) m m'"

definition normalize_definition :: "(workflow_draw \<Rightarrow> string) \<Rightarrow> json \<Rightarrow> err + (string \<times> json) list" where
  "normalize_definition uid definition =
     (case definition of
        JObj m \<Rightarrow>
          (let conditions = (case get_or m ''conditions'' (JList []) of JList cs \<Rightarrow> cs | _ \<Rightarrow> []);
               d = update_all (default_workflow_definition (uid DDefault)) m
           in if list_ex has_memory conditions
              then Inl (http 422 ''Memory or context injection is no longer supported.'')
              else (case (jget d ''items'', jget d ''conditions'') of
                  (JList is, JList cs) \<Rightarrow>
                    Inr (put_key ''conditions'' (JList (normalize_conditions uid 0 {} cs))
                          (put_key ''items'' (JList (map normalize_item is)) d))
                | (JList _, _) \<Rightarrow> Inl (http 422 ''Workflow field conditions must be an array.'')
                | _ \<Rightarrow> Inl (http 422 ''Workflow field items must be an array.'')))
      | _ \<Rightarrow> Inl (http 422 ''Workflow definition must be an object.''))"

subsection \<open>\<open>validate_definition\<close>\<close>

definition issue :: "string \<Rightarrow> string \<Rightarrow> workflow_issue" where
  "issue path message = \<lparr>wi_path = path, wi_message = message\<rparr>"

text \<open>The definitions that are stored have a list of items; another value is read as none.\<close>

definition items_of :: "(string \<times> json) list \<Rightarrow> json list" where
  "items_of m = (case get_or m ''items'' (JList []) of JList is \<Rightarrow> is | _ \<Rightarrow> [])"

definition conditions_of :: "(string \<times> json) list \<Rightarrow> json list" where
  "conditions_of m = (case get_or m ''conditions'' (JList []) of JList cs \<Rightarrow> cs | _ \<Rightarrow> [])"

definition mapped_item :: "(string \<times> json) list \<Rightarrow> (string \<times> json) list" where
  "mapped_item m =
     [(''id'', jget m ''key''), (''task_type'', jget m ''task_type''), (''title'', get_or m ''title'' (JStr [])),
      (''enabled'', get_or m ''enabled'' (JBool True)), (''question_task_id'', jget m ''question_task_id''),
      (''llm_prompt_budget'', get_or m ''llm_prompt_budget'' default_budget_json),
      (''essay_topic_mode'', jget m ''essay_topic_mode''), (''essay_topic_id'', jget m ''essay_topic_id''),
      (''essay_topic_ids'', get_or m ''essay_topic_ids'' (JList [])), (''survey_task_id'', jget m ''survey_task_id''),
      (''survey_required'', get_or m ''survey_required'' (JBool True))]"

fun item_issues :: "nat \<Rightarrow> string set \<Rightarrow> json list \<Rightarrow> workflow_issue list \<times> json list" where
  "item_issues i keys [] = ([], [])"
| "item_issues i keys (JObj m # items) =
     (case jget m ''key'' of
        JStr key \<Rightarrow>
          if key = [] \<or> key \<in> keys
          then (case item_issues (i + 1) keys items of (issues, plan_items) \<Rightarrow>
            (issue (''items.'' @ nat_str i @ ''.key'') ''A unique stable key is required.'' # issues, plan_items))
          else (case item_issues (i + 1) (insert key keys) items of (issues, plan_items) \<Rightarrow>
            (if jget (mapped_item m) ''essay_topic_mode'' = JStr ''RANDOM_ALL'' \<and>
                \<not> truthy_json (jget (mapped_item m) ''essay_topic_ids'')
             then issue (''items.'' @ nat_str i @ ''.essay_topic_ids'')
                    ''Random from all requires at least one saved essay topic.'' # issues
             else issues, JObj (mapped_item m) # plan_items))
      | _ \<Rightarrow> (case item_issues (i + 1) keys items of (issues, plan_items) \<Rightarrow>
            (issue (''items.'' @ nat_str i @ ''.key'') ''A unique stable key is required.'' # issues, plan_items)))"
| "item_issues i keys (item # items) =
     (case item_issues (i + 1) keys items of (issues, plan_items) \<Rightarrow>
        (issue (''items.'' @ nat_str i) ''Must be an object.'' # issues, plan_items))"

text \<open>\<open>condition.pop('key', None) or condition.get('id')\<close>\<close>

definition condition_json :: "json \<Rightarrow> json" where
  "condition_json c =
     (case c of
        JObj m \<Rightarrow> JObj (put_key ''id'' (first_truthy [jget m ''key'', jget m ''id'']) (AList.delete ''key'' m))
      | _ \<Rightarrow> c)"

definition plan_issues :: "workflow_env \<Rightarrow> json \<Rightarrow> workflow_issue list" where
  "plan_issues e j =
     (case we_read_plan e j of
        Inl issues \<Rightarrow> issues
      | Inr form \<Rightarrow>
          (case validate_plan_form form of
             Inr _ \<Rightarrow> []
           | Inl (FieldError field) \<Rightarrow> [issue field ''Invalid value.'']
           | Inl (ValueError message) \<Rightarrow> [issue [] message]
           | Inl _ \<Rightarrow> [issue [] ''Invalid plan.'']))"

definition plan_json :: "(string \<times> json) list \<Rightarrow> json list \<Rightarrow> json list \<Rightarrow> json" where
  "plan_json m items conditions = JObj
     [(''progression_mode'', get_or m ''progression_mode'' (JStr ''STRICT_SEQUENTIAL'')),
      (''chat_mode'', get_or m ''chat_mode'' (JStr ''SHARED_EXPERIMENT'')),
      (''consent_enabled'', get_or m ''consent_enabled'' (JBool True)), (''items'', JList items),
      (''conditions'', JList conditions)]"

definition validate_definition :: "workflow_env \<Rightarrow> json \<Rightarrow> workflow_issue list" where
  "validate_definition e definition =
     (case definition of
        JObj m \<Rightarrow>
          (case get_or m ''items'' (JList []) of
             JList items \<Rightarrow>
               (case item_issues 0 {} items of (issues, plan_items) \<Rightarrow>
                 (case get_or m ''conditions'' (JList []) of
                    JList _ \<Rightarrow> [] | _ \<Rightarrow> [issue ''conditions'' ''Must be an array.'']) @
                 issues @ plan_issues e (plan_json m plan_items (map condition_json (conditions_of m))))
           | _ \<Rightarrow> [issue ''items'' ''Must be an array.''])
      | _ \<Rightarrow> [issue ''definition'' ''Workflow definition must be an object.''])"

subsection \<open>References\<close>

definition id_value :: "json \<Rightarrow> string list" where
  "id_value v = (case v of JStr s \<Rightarrow> if s = [] then [] else [s] | _ \<Rightarrow> [])"

definition item_fields :: "json \<Rightarrow> (string \<times> json) list" where
  "item_fields item = (case item of JObj m \<Rightarrow> m | _ \<Rightarrow> [])"

definition item_topics :: "(string \<times> json) list \<Rightarrow> string list" where
  "item_topics m =
     (if jget m ''task_type'' \<noteq> JStr ''ESSAY'' then []
      else if jget m ''essay_topic_mode'' = JStr ''SPECIFIC'' then id_value (jget m ''essay_topic_id'')
      else (case jget m ''essay_topic_ids'' of JList pool \<Rightarrow> concat (map id_value pool) | _ \<Rightarrow> []))"

definition item_question :: "(string \<times> json) list \<Rightarrow> string list" where
  "item_question m =
     (if jget m ''task_type'' = JStr ''QUESTION'' then id_value (jget m ''question_task_id'') else [])"

definition item_survey :: "(string \<times> json) list \<Rightarrow> string list" where
  "item_survey m =
     (if jget m ''task_type'' = JStr ''SURVEY'' then id_value (jget m ''survey_task_id'') else [])"

definition referenced_ids :: "(string \<times> json) list \<Rightarrow> string list \<times> string list \<times> string list" where
  "referenced_ids m =
     (let collect = (\<lambda>f. unique_list (concat (map (\<lambda>item. f (item_fields item)) (items_of m)))) in
      (collect item_topics, collect item_question, collect item_survey))"

subsection \<open>\<open>_validation_issues\<close>\<close>

definition budget_of_json :: "workflow_env \<Rightarrow> json \<Rightarrow> err + prompt_budget" where
  "budget_of_json e v =
     (if \<not> truthy_json v then Inr default_prompt_budget
      else case we_read_budget e v of
          None \<Rightarrow> Inl (FieldError ''llm_prompt_budget'')
        | Some b \<Rightarrow> model_validate_budget b)"

definition topic_issues :: "experiment_db \<Rightarrow> string \<Rightarrow> workflow_issue list" where
  "topic_issues d t =
     (case get_by to_id t (xd_topics d) of
        Some topic \<Rightarrow> if to_workflow_managed topic
          then [issue ''items'' (''Essay topic '' @ t @ '' is unavailable.'')] else []
      | None \<Rightarrow> [issue ''items'' (''Essay topic '' @ t @ '' is unavailable.'')])"

text \<open>\<open>item.get\<close> on an item that is no object raises.\<close>

definition budget_issues ::
    "workflow_env \<Rightarrow> string \<Rightarrow> question_task_model \<Rightarrow> nat \<times> json \<Rightarrow> err + workflow_issue list" where
  "budget_issues e t task = (\<lambda>(i, item).
     case item of
       JObj m \<Rightarrow>
         Inr (if jget m ''question_task_id'' \<noteq> JStr t then []
              else case budget_of_json e (jget m ''llm_prompt_budget'') of
                  Inl _ \<Rightarrow> []
                | Inr b \<Rightarrow>
                    if bmode b = PER_QUESTION \<and> set (map fst (question_limits b)) \<noteq> set (map qm_id (tm_questions task))
                    then [issue (''items.'' @ nat_str i @ ''.llm_prompt_budget'')
                            ''Prompt limits must cover exactly the selected task questions.'']
                    else [])
     | _ \<Rightarrow> Inl AttributeError)"

definition question_issues ::
    "workflow_env \<Rightarrow> bool \<Rightarrow> experiment_db \<Rightarrow> (string \<times> json) list \<Rightarrow> string \<Rightarrow> err + workflow_issue list" where
  "question_issues e model_available d m t =
     (let unavailable = [issue ''items'' (''Published Question Task '' @ t @ '' is unavailable.'')] in
      case (get_by qt_id t (db_tasks (xd_questions d)), get_question_task t (xd_questions d)) of
        (Some row, Some task) \<Rightarrow>
          if qt_workflow_managed row \<or> qt_status row \<noteq> QT_PUBLISHED then Inr unavailable
          else bindE (mapE (budget_issues e t task) (enumerate 0 (items_of m))) (\<lambda>issues.
                 Inr (concat issues @
                   (if \<not> model_available \<and> list_ex (\<lambda>q. qm_grading_mode q = LLM_ASSISTED) (tm_questions task)
                    then [issue ''items'' (''Question Task '' @ tm_title task @ '' requires an available global task model.'')]
                    else [])))
      | _ \<Rightarrow> Inr unavailable)"

definition survey_issues :: "experiment_db \<Rightarrow> string \<Rightarrow> workflow_issue list" where
  "survey_issues d t =
     (let unavailable = [issue ''items'' (''Published Survey Task '' @ t @ '' is unavailable.'')] in
      case get_by sv_id t (svd_tasks (xd_surveys d)) of
        None \<Rightarrow> unavailable
      | Some row \<Rightarrow> if sv_workflow_managed row \<or> sv_status row \<noteq> SV_PUBLISHED then unavailable else [])"

definition validation_issues ::
    "workflow_env \<Rightarrow> bool \<Rightarrow> experiment_db \<Rightarrow> (string \<times> json) list \<Rightarrow> err + workflow_issue list" where
  "validation_issues e model_available d m =
     (case referenced_ids m of (topics, questions, surveys) \<Rightarrow>
        bindE (mapE (question_issues e model_available d m) questions) (\<lambda>from_questions.
          Inr (validate_definition e (JObj m) @ concat (map (topic_issues d) topics) @ concat from_questions @
            concat (map (survey_issues d) surveys))))"

end
