(* ===== verification/Workflow_Store.thy ===== *)
theory Workflow_Store
  imports Workflow_Definition Essay_Topic
begin

text \<open>
  The library of workflows (\<open>ExperimentWorkflowTable\<close> in \<open>models/experiment_workflows.py\<close>):
  listing, reading, creating, updating and deleting. Creating and updating commit before they
  compute the issues of the answer, so their result is an error or the answer together with what
  is committed in either case.
\<close>

record workflow_row =
  wf_id :: string
  wf_name :: string
  wf_description :: string
  wf_definition :: "(string \<times> json) list"
  wf_revision :: int
  wf_created_by :: "string option"
  wf_updated_by :: "string option"
  wf_created_at :: int
  wf_updated_at :: int

record workflow_db =
  wd_base :: experiment_db
  wd_workflows :: "workflow_row list"

record workflow_form =
  ww_name :: string
  ww_description :: string
  ww_definition :: "(string \<times> json) list"
  ww_revision :: "int option"

datatype workflow_status = WF_DRAFT | WF_READY

record workflow_model =
  wm_row :: workflow_row
  wm_status :: workflow_status
  wm_issues :: "workflow_issue list"

definition validate_write_form :: "workflow_form \<Rightarrow> err + workflow_form" where
  "validate_write_form f =
     (if \<not> (1 \<le> length (ww_name f) \<and> length (ww_name f) \<le> 500) then Inl (FieldError ''name'')
      else if 20000 < length (ww_description f) then Inl (FieldError ''description'')
      else if py_strip (ww_name f) = [] then Inl (ValueError ''Workflow name is required.'')
      else Inr (f\<lparr>ww_name := py_strip (ww_name f), ww_description := py_strip (ww_description f)\<rparr>))"

definition workflow_model_of :: "workflow_env \<Rightarrow> bool \<Rightarrow> experiment_db \<Rightarrow> workflow_row \<Rightarrow> err + workflow_model" where
  "workflow_model_of e model_available d row =
     bindE (validation_issues e model_available d (wf_definition row)) (\<lambda>issues.
       Inr \<lparr>wm_row = row, wm_status = (if issues = [] then WF_READY else WF_DRAFT), wm_issues = issues\<rparr>)"

subsection \<open>Ordering\<close>

fun insert_before :: "('a \<Rightarrow> 'a \<Rightarrow> bool) \<Rightarrow> 'a \<Rightarrow> 'a list \<Rightarrow> 'a list" where
  "insert_before lt x [] = [x]"
| "insert_before lt x (y # ys) = (if lt y x then y # insert_before lt x ys else x # y # ys)"

definition sort_less :: "('a \<Rightarrow> 'a \<Rightarrow> bool) \<Rightarrow> 'a list \<Rightarrow> 'a list" where
  "sort_less lt xs = foldr (insert_before lt) xs []"

definition topic_before :: "essay_topic \<Rightarrow> essay_topic \<Rightarrow> bool" where
  "topic_before a b \<longleftrightarrow>
     to_created_at a < to_created_at b \<or> to_created_at a = to_created_at b \<and> str_less (to_id a) (to_id b)"

subsection \<open>Operations\<close>

text \<open>An essay that draws from all topics is stored with the topics there are when it is saved.\<close>

definition expand_item :: "json \<Rightarrow> json \<Rightarrow> json" where
  "expand_item topic_ids item =
     (case item of
        JObj m \<Rightarrow>
          if jget m ''task_type'' = JStr ''ESSAY'' \<and> jget m ''essay_topic_mode'' = JStr ''RANDOM_ALL''
          then JObj (put_key ''essay_topic_ids'' topic_ids m) else item
      | _ \<Rightarrow> item)"

definition expand_random_all :: "experiment_db \<Rightarrow> (string \<times> json) list \<Rightarrow> (string \<times> json) list" where
  "expand_random_all d m =
     (let topics = sort_less topic_before (filter (\<lambda>t. \<not> to_workflow_managed t) (xd_topics d));
          topic_ids = JList (map (\<lambda>t. JStr (to_id t)) topics)
      in (case map_of m ''items'' of
            Some (JList is) \<Rightarrow> put_key ''items'' (JList (map (expand_item topic_ids) is)) m
          | _ \<Rightarrow> m))"

definition list_workflows :: "workflow_env \<Rightarrow> bool \<Rightarrow> workflow_db \<Rightarrow> err + workflow_model list" where
  "list_workflows e model_available d =
     mapE (workflow_model_of e model_available (wd_base d)) (order_desc wf_updated_at (wd_workflows d))"

definition get_workflow :: "workflow_env \<Rightarrow> bool \<Rightarrow> string \<Rightarrow> workflow_db \<Rightarrow> err + workflow_model option" where
  "get_workflow e model_available workflow_id d =
     (case get_by wf_id workflow_id (wd_workflows d) of
        None \<Rightarrow> Inr None
      | Some row \<Rightarrow> bindE (workflow_model_of e model_available (wd_base d) row) (\<lambda>m. Inr (Some m)))"

definition create_workflow ::
    "workflow_env \<Rightarrow> (workflow_draw \<Rightarrow> string) \<Rightarrow> int \<Rightarrow> string \<Rightarrow> workflow_form \<Rightarrow> workflow_db \<Rightarrow>
     (err + workflow_model) \<times> workflow_db" where
  "create_workflow e uid now user_id form d =
     (let definition = (if ww_definition form = [] then default_workflow_definition (uid DEmpty) else ww_definition form) in
      case normalize_definition uid (JObj definition) of
        Inl err \<Rightarrow> (Inl err, d)
      | Inr definition \<Rightarrow>
          let row = \<lparr>wf_id = uid DRow, wf_name = py_strip (ww_name form), wf_description = py_strip (ww_description form),
                wf_definition = expand_random_all (wd_base d) definition, wf_revision = 1,
                wf_created_by = Some user_id, wf_updated_by = Some user_id, wf_created_at = now, wf_updated_at = now\<rparr>
          in if get_by wf_id (uid DRow) (wd_workflows d) \<noteq> None then (Inl IntegrityError, d)
             else let d = d\<lparr>wd_workflows := add_row row (wd_workflows d)\<rparr>
                  in (workflow_model_of e True (wd_base d) row, d))"

text \<open>The row is locked while it is updated; \<open>None\<close> where it does not exist.\<close>

definition update_workflow ::
    "workflow_env \<Rightarrow> (workflow_draw \<Rightarrow> string) \<Rightarrow> int \<Rightarrow> string \<Rightarrow> workflow_form \<Rightarrow> string \<Rightarrow> workflow_db \<Rightarrow>
     (err + workflow_model option) \<times> workflow_db" where
  "update_workflow e uid now user_id form workflow_id d =
     (case get_by wf_id workflow_id (wd_workflows d) of
        None \<Rightarrow> (Inr None, d)
      | Some row \<Rightarrow>
          if ww_revision form \<noteq> Some (wf_revision row)
          then (Inl (http 409 ''This workflow changed after it was opened. Reload it first.''), d)
          else (case normalize_definition uid (JObj (ww_definition form)) of
              Inl err \<Rightarrow> (Inl err, d)
            | Inr definition \<Rightarrow>
                let row = row\<lparr>wf_name := py_strip (ww_name form), wf_description := py_strip (ww_description form),
                      wf_definition := expand_random_all (wd_base d) definition, wf_revision := wf_revision row + 1,
                      wf_updated_by := Some user_id, wf_updated_at := now\<rparr>;
                    d = d\<lparr>wd_workflows := upd_by wf_id workflow_id (\<lambda>_. row) (wd_workflows d)\<rparr>
                in (bindE (workflow_model_of e True (wd_base d) row) (\<lambda>m. Inr (Some m)), d)))"

definition delete_workflow :: "string \<Rightarrow> int \<Rightarrow> workflow_db \<Rightarrow> err + bool \<times> workflow_db" where
  "delete_workflow workflow_id revision d =
     (case get_by wf_id workflow_id (wd_workflows d) of
        None \<Rightarrow> Inr (False, d)
      | Some row \<Rightarrow>
          if revision \<noteq> wf_revision row
          then Inl (http 409 ''This workflow changed after it was opened. Reload it first.'')
          else Inr (True, d\<lparr>wd_workflows := del_rows (\<lambda>w. wf_id w = workflow_id) (wd_workflows d)\<rparr>))"

end
