(* ===== verification/Workflow_Apply.thy ===== *)
theory Workflow_Apply
  imports Workflow_Store
begin

text \<open>
  Applying a workflow to a group (\<open>ExperimentWorkflowTable.apply\<close>): the topics, tasks and surveys
  it refers to are copied, a new plan version is published over the copies and the current one is
  superseded, all in one transaction. A copy of an image is what \<open>copy_file\<close> makes of a file
  identifier (reading, checking and storing the file), the fingerprint of the plan is the parameter
  \<open>fingerprint\<close>.
\<close>

datatype apply_draw =
    AP_Topic string
  | AP_Question string
  | AP_Item string nat
  | AP_Content string draw
  | AP_Survey string
  | AP_Survey_Content string survey_draw
  | AP_Plan plan_draw

record apply_env =
  ae_workflow :: workflow_env
  ae_uid :: "apply_draw \<Rightarrow> string"
  ae_clock :: "nat \<Rightarrow> int"
  ae_copy_file :: "string \<Rightarrow> err + string"
  ae_fingerprint :: "string \<Rightarrow> experiment_db \<Rightarrow> string"

record apply_form =
  ap_group_id :: string
  ap_workflow_revision :: int
  ap_expected_current_plan_version :: int

definition validate_apply :: "apply_form \<Rightarrow> err + apply_form" where
  "validate_apply f =
     (if ap_workflow_revision f \<le> 0 then Inl (FieldError ''workflow_revision'')
      else if ap_expected_current_plan_version f < 0 then Inl (FieldError ''expected_current_plan_version'')
      else Inr f)"

subsection \<open>Copies\<close>

type_synonym id_map = "(string \<times> string) list"

definition copy_topic :: "apply_env \<Rightarrow> string \<Rightarrow> experiment_db \<Rightarrow> err + experiment_db" where
  "copy_topic e source_id d =
     (let unavailable = Inl (http 422 ''A referenced essay topic became unavailable.'') in
      case get_by to_id source_id (xd_topics d) of
        None \<Rightarrow> unavailable
      | Some source \<Rightarrow>
          if to_workflow_managed source then unavailable
          else Inr (d\<lparr>xd_topics := add_row
            \<lparr>to_id = ae_uid e (AP_Topic source_id), to_title = to_title source, to_question = to_question source,
             to_locked_at = Some (ae_clock e 0), to_workflow_managed = True, to_created_at = ae_clock e 0,
             to_updated_at = ae_clock e 0\<rparr> (xd_topics d)\<rparr>))"

text \<open>The image of a question: an image met before has its copy already.\<close>

definition copy_image :: "apply_env \<Rightarrow> string option \<Rightarrow> id_map \<Rightarrow> err + (string option \<times> id_map)" where
  "copy_image e file_id copied =
     (case file_id of
        None \<Rightarrow> Inr (None, copied)
      | Some i \<Rightarrow>
          if i = [] then Inr (None, copied)
          else (case map_of copied i of
              Some c \<Rightarrow> Inr (Some c, copied)
            | None \<Rightarrow> bindE (ae_copy_file e i) (\<lambda>c. Inr (Some c, (i, c) # copied))))"

fun copy_images ::
    "apply_env \<Rightarrow> string \<Rightarrow> (nat \<times> question_model) list \<Rightarrow> id_map \<Rightarrow> err + (question_form list \<times> id_map)" where
  "copy_images e source_id [] copied = Inr ([], copied)"
| "copy_images e source_id ((i, q) # qs) copied =
     bindE (copy_image e (qm_image_file_id q) copied) (\<lambda>(file_id, copied).
     bindE (copy_images e source_id qs copied) (\<lambda>(forms, copied).
       Inr ((form_of_model q)\<lparr>qf_id := Some (ae_uid e (AP_Item source_id i)), qf_image_file_id := file_id\<rparr> # forms,
            copied)))"

text \<open>The state of the loop: the store, the copies of questions and those of files.\<close>

definition copy_question_task ::
    "apply_env \<Rightarrow> string \<Rightarrow> experiment_db \<times> id_map \<times> id_map \<Rightarrow> err + (experiment_db \<times> id_map \<times> id_map)" where
  "copy_question_task e source_id = (\<lambda>(d, questions, files).
     let content = xd_questions d; unavailable = Inl (http 422 ''A referenced Question Task became unavailable.'') in
     case (get_by qt_id source_id (db_tasks content), get_question_task source_id content) of
       (Some row, Some source) \<Rightarrow>
         if qt_workflow_managed row \<or> qt_status row \<noteq> QT_PUBLISHED then unavailable
         else
           let task_id = ae_uid e (AP_Question source_id);
               copy = \<lparr>qt_id = task_id, qt_family_id = task_id, qt_version = 1, qt_title = tm_title source,
                 qt_description = tm_description source, qt_status = QT_PUBLISHED, qt_locked_at = Some (ae_clock e 0),
                 qt_archived_at = None, qt_workflow_managed = True, qt_created_at = ae_clock e 0,
                 qt_updated_at = ae_clock e 0\<rparr>;
               numbered = enumerate 0 (tm_questions source)
           in bindE (commit_content (content\<lparr>db_tasks := add_row copy (db_tasks content)\<rparr>)) (\<lambda>content.
              bindE (copy_images e source_id numbered files) (\<lambda>(forms, files).
              bindE (validate_question_task \<lparr>tf_title = tm_title source, tf_description = tm_description source,
                       tf_questions = forms\<rparr>) (\<lambda>parsed.
              bindE (commit_content (replace_questions (\<lambda>x. ae_uid e (AP_Content source_id x)) (ae_clock e 1) task_id
                       (tf_questions parsed) content)) (\<lambda>content.
                Inr (d\<lparr>xd_questions := content\<rparr>,
                     questions @ map (\<lambda>(i, q). (qm_id q, ae_uid e (AP_Item source_id i))) numbered, files)))))
     | _ \<Rightarrow> unavailable)"

definition copy_survey_task :: "apply_env \<Rightarrow> string \<Rightarrow> experiment_db \<Rightarrow> err + experiment_db" where
  "copy_survey_task e source_id d =
     (let surveys = xd_surveys d; unavailable = Inl (http 422 ''A referenced Survey Task became unavailable.'') in
      case (get_by sv_id source_id (svd_tasks surveys), get_survey_task source_id surveys) of
        (Some row, Some source) \<Rightarrow>
          if sv_workflow_managed row \<or> sv_status row \<noteq> SV_PUBLISHED then unavailable
          else
            let task_id = ae_uid e (AP_Survey source_id);
                copy = \<lparr>sv_id = task_id, sv_family_id = task_id, sv_version = 1, sv_title = stm_title source,
                  sv_description = stm_description source, sv_status = SV_PUBLISHED, sv_locked_at = Some (ae_clock e 0),
                  sv_archived_at = None, sv_workflow_managed = True, sv_created_at = ae_clock e 0,
                  sv_updated_at = ae_clock e 0\<rparr>
            in bindE (commit_survey (surveys\<lparr>svd_tasks := add_row copy (svd_tasks surveys)\<rparr>)) (\<lambda>surveys.
               bindE (validate_survey_task \<lparr>stf_title = stm_title source, stf_description = stm_description source,
                        stf_questions = map survey_form_of_model (stm_questions source)\<rparr>) (\<lambda>parsed.
               bindE (commit_survey (replace_survey_questions (\<lambda>x. ae_uid e (AP_Survey_Content source_id x))
                        (ae_clock e 2) task_id (stf_questions parsed) surveys)) (\<lambda>surveys.
                 Inr (d\<lparr>xd_surveys := surveys\<rparr>))))
      | _ \<Rightarrow> unavailable)"

subsection \<open>Values of the definition\<close>

text \<open>A definition without issues has these values; where the code would store another one, the
  database refuses it.\<close>

definition as_bool :: "json \<Rightarrow> err + bool" where
  "as_bool v = (case v of JBool b \<Rightarrow> Inr b | JNull \<Rightarrow> Inl IntegrityError
     | JNum n \<Rightarrow> if n = 0 then Inr False else if n = 1 then Inr True else Inl TypeError | _ \<Rightarrow> Inl TypeError)"

definition as_progression :: "json \<Rightarrow> err + progression_mode" where
  "as_progression v =
     (if v = JStr ''STRICT_SEQUENTIAL'' then Inr STRICT_SEQUENTIAL
      else if v = JStr ''FREE_NAVIGATION'' then Inr FREE_NAVIGATION
      else if v = JStr ''SEQUENTIAL_REVIEW'' then Inr SEQUENTIAL_REVIEW else Inl TypeError)"

definition as_chat_mode :: "json \<Rightarrow> err + chat_mode" where
  "as_chat_mode v =
     (if v = JStr ''SHARED_EXPERIMENT'' then Inr SHARED_EXPERIMENT
      else if v = JStr ''FRESH_PER_TASK'' then Inr FRESH_PER_TASK else Inl TypeError)"

definition as_task_type :: "json \<Rightarrow> err + experiment_task_type" where
  "as_task_type v =
     (if v = JStr ''ESSAY'' then Inr ESSAY else if v = JStr ''QUESTION'' then Inr QUESTION
      else if v = JStr ''SURVEY'' then Inr SURVEY else Inl TypeError)"

definition as_topic_mode :: "json \<Rightarrow> err + essay_topic_mode option" where
  "as_topic_mode v =
     (if v = JNull then Inr None else if v = JStr ''SPECIFIC'' then Inr (Some SPECIFIC)
      else if v = JStr ''RANDOM_ALL'' then Inr (Some RANDOM_ALL)
      else if v = JStr ''RANDOM_SELECTED'' then Inr (Some RANDOM_SELECTED) else Inl TypeError)"

definition as_string :: "json \<Rightarrow> err + string" where
  "as_string v = (case v of JStr s \<Rightarrow> Inr s | _ \<Rightarrow> Inl AttributeError)"

definition as_object :: "json \<Rightarrow> err + (string \<times> json) list" where
  "as_object v = (case v of JObj m \<Rightarrow> Inr m | _ \<Rightarrow> Inl TypeError)"

definition as_list :: "json \<Rightarrow> err + json list" where
  "as_list v = (case v of JList xs \<Rightarrow> Inr xs | _ \<Rightarrow> Inl TypeError)"

text \<open>\<open>m[key]\<close> and \<open>ids.get(value)\<close>\<close>

definition item_at :: "(string \<times> json) list \<Rightarrow> string \<Rightarrow> err + json" where
  "item_at m k = (case map_of m k of None \<Rightarrow> Inl (KeyError k) | Some v \<Rightarrow> Inr v)"

definition lookup :: "id_map \<Rightarrow> json \<Rightarrow> err + string option" where
  "lookup ids v = (case v of JStr s \<Rightarrow> Inr (map_of ids s) | JList _ \<Rightarrow> Inl TypeError | JObj _ \<Rightarrow> Inl TypeError | _ \<Rightarrow> Inr None)"

definition remapped_budget :: "workflow_env \<Rightarrow> json \<Rightarrow> id_map \<Rightarrow> err + prompt_budget" where
  "remapped_budget e v ids =
     (if \<not> truthy_json v then remap_prompt_budget None ids
      else case we_read_budget e v of
          None \<Rightarrow> Inl (FieldError ''llm_prompt_budget'')
        | Some b \<Rightarrow> remap_prompt_budget (Some b) ids)"

subsection \<open>The plan\<close>

record copies =
  cp_topics :: id_map
  cp_questions :: id_map
  cp_surveys :: id_map
  cp_inner :: id_map

definition variant_of_items :: "(string \<times> json) list list \<Rightarrow> survey_variant" where
  "variant_of_items items =
     (if 1 < length items \<or> list_ex (\<lambda>m. jget m ''task_type'' = JStr ''QUESTION'') items then TASK_NEUTRAL
      else ESSAY_VARIANT)"

definition applied_plan ::
    "apply_env \<Rightarrow> workflow_row \<Rightarrow> string \<Rightarrow> (string \<times> json) list list \<Rightarrow> experiment_db \<Rightarrow> err + plan_row" where
  "applied_plan e w group_id items d =
     (let m = wf_definition w in
      bindE (as_progression (get_or m ''progression_mode'' (JStr ''STRICT_SEQUENTIAL''))) (\<lambda>progression.
      bindE (as_chat_mode (get_or m ''chat_mode'' (JStr ''SHARED_EXPERIMENT''))) (\<lambda>chat.
      bindE (as_bool (get_or m ''consent_enabled'' (JBool True))) (\<lambda>consent.
        Inr \<lparr>pn_id = ae_uid e (AP_Plan DPlan), pn_source_workflow_id = Some (wf_id w),
             pn_source_workflow_name = Some (wf_name w), pn_source_workflow_revision = Some (wf_revision w),
             pn_workflow_origin = Some ''recorded'', pn_configuration_fingerprint = None, pn_group_id = group_id,
             pn_version = or_int (max_of pn_version (filter (\<lambda>p. pn_group_id p = group_id) (xd_plans d))) 0 + 1,
             pn_status = PN_PUBLISHED, pn_progression_mode = progression, pn_chat_mode = chat,
             pn_survey_variant = variant_of_items items, pn_consent_enabled = consent, pn_locked_at = None,
             pn_created_at = ae_clock e 0, pn_updated_at = ae_clock e 0\<rparr>))))"

definition item_budget :: "apply_env \<Rightarrow> copies \<Rightarrow> (string \<times> json) list \<Rightarrow> err + prompt_budget option" where
  "item_budget e c m =
     bindE (item_at m ''task_type'') (\<lambda>task_type.
       if task_type = JStr ''SURVEY'' then Inr None
       else bindE (remapped_budget (ae_workflow e) (jget m ''llm_prompt_budget'') (cp_inner c)) (\<lambda>b. Inr (Some b)))"

text \<open>The row of an item and the rows of its topic pool.\<close>

definition applied_item ::
    "apply_env \<Rightarrow> copies \<Rightarrow> string \<Rightarrow> nat \<times> (string \<times> json) list \<Rightarrow> err + (item_row \<times> pool_row list)" where
  "applied_item e c plan_id = (\<lambda>(p, m).
     let item_id = ae_uid e (AP_Plan (DItem p)) in
     bindE (bindE (item_at m ''key'') as_string) (\<lambda>key.
     bindE (bindE (item_at m ''task_type'') as_task_type) (\<lambda>task_type.
     bindE (bindE (item_at m ''title'') as_string) (\<lambda>title.
     bindE (item_budget e c m) (\<lambda>budget.
     bindE (lookup (cp_questions c) (jget m ''question_task_id'')) (\<lambda>question.
     bindE (as_topic_mode (jget m ''essay_topic_mode'')) (\<lambda>mode.
     bindE (lookup (cp_topics c) (jget m ''essay_topic_id'')) (\<lambda>topic.
     bindE (lookup (cp_surveys c) (jget m ''survey_task_id'')) (\<lambda>survey.
     bindE (as_bool (get_or m ''survey_required'' (JBool True))) (\<lambda>required.
     bindE (as_bool (get_or m ''enabled'' (JBool True))) (\<lambda>enabled.
     bindE (bindE (as_list (get_or m ''essay_topic_ids'' (JList []))) (mapE (lookup (cp_topics c)))) (\<lambda>pool.
       Inr (\<lparr>it_id = item_id, it_source_step_key = Some key, it_plan_id = plan_id, it_position = int p,
              it_task_type = task_type, it_title = py_strip title, it_llm_prompt_budget = budget,
              it_question_task_id = question, it_essay_topic_mode = mode, it_essay_topic_id = topic,
              it_survey_task_id = survey, it_survey_required = required, it_enabled = enabled\<rparr>,
            map (\<lambda>t. \<lparr>po_plan_item_id = item_id, po_topic_id = t\<rparr>)
              (unique_list (concat (map (\<lambda>t. case t of None \<Rightarrow> [] | Some t \<Rightarrow> [t]) pool))))))))))))))))"

subsection \<open>The conditions\<close>

definition opt_id_json :: "string option \<Rightarrow> json" where
  "opt_id_json v = (case v of None \<Rightarrow> JNull | Some s \<Rightarrow> JStr s)"

definition budget_json :: "prompt_budget option \<Rightarrow> json" where
  "budget_json v =
     (case v of
        None \<Rightarrow> JNull
      | Some b \<Rightarrow> JObj
          [(''mode'', JStr (if bmode b = TASK_MODE then ''TASK'' else ''PER_QUESTION'')),
           (''limit'', case blimit b of None \<Rightarrow> JNull | Some n \<Rightarrow> JNum (of_int n)),
           (''question_limits'', JObj (map (\<lambda>(k, n). (k, JNum (of_int n))) (question_limits b)))])"

definition saved_item_json :: "copies \<Rightarrow> item_row \<times> (string \<times> json) list \<Rightarrow> json" where
  "saved_item_json c = (\<lambda>(row, m). JObj
     [(''id'', JStr (it_id row)), (''task_type'', jget m ''task_type''), (''title'', jget m ''title''),
      (''enabled'', get_or m ''enabled'' (JBool True)), (''question_task_id'', opt_id_json (it_question_task_id row)),
      (''llm_prompt_budget'', budget_json (it_llm_prompt_budget row)),
      (''survey_task_id'', opt_id_json (it_survey_task_id row)),
      (''survey_required'', get_or m ''survey_required'' (JBool True)),
      (''essay_topic_mode'', jget m ''essay_topic_mode''), (''essay_topic_id'', opt_id_json (it_essay_topic_id row)),
      (''essay_topic_ids'', JList (concat (map (\<lambda>v. case v of
            JStr s \<Rightarrow> (case map_of (cp_topics c) s of None \<Rightarrow> [] | Some t \<Rightarrow> [JStr t])
          | _ \<Rightarrow> []) (case get_or m ''essay_topic_ids'' (JList []) of JList xs \<Rightarrow> xs | _ \<Rightarrow> []))))])"

text \<open>\<open>condition['prompt_injection']['activation']\<close> with its plan items translated.\<close>

definition applied_condition :: "id_map \<Rightarrow> json \<Rightarrow> err + json" where
  "applied_condition item_keys c =
     bindE (as_object c) (\<lambda>m.
     bindE (bindE (item_at m ''prompt_injection'') as_object) (\<lambda>prompt.
     bindE (bindE (item_at prompt ''activation'') as_object) (\<lambda>activation.
     bindE (as_list (get_or activation ''plan_item_ids'' (JList []))) (\<lambda>ids.
     bindE (mapE (lookup item_keys) ids) (\<lambda>mapped.
       let mapped = JList (concat (map (\<lambda>v. case v of None \<Rightarrow> [] | Some i \<Rightarrow> [JStr i]) mapped));
           prompt = put_key ''activation'' (JObj (put_key ''plan_item_ids'' mapped activation)) prompt
       in Inr (JObj (put_key ''prompt_injection'' (JObj prompt)
            (AList.delete ''key'' (put_key ''id'' JNull m)))))))))"

definition source_keys :: "string \<Rightarrow> json list \<Rightarrow> experiment_db \<Rightarrow> experiment_db" where
  "source_keys plan_id conditions d =
     (let rows = order_by ec_position (filter (\<lambda>c. ec_plan_id c = plan_id) (xd_conditions d));
          pairs = zip (map ec_id rows) conditions
      in d\<lparr>xd_conditions := map (\<lambda>c. case map_of pairs (ec_id c) of
             None \<Rightarrow> c
           | Some original \<Rightarrow> c\<lparr>ec_source_condition_key :=
               (case jget (item_fields original) ''key'' of JStr k \<Rightarrow> Some k | _ \<Rightarrow> None)\<rparr>) (xd_conditions d)\<rparr>)"

subsection \<open>\<open>apply\<close>\<close>

definition latest_published :: "string \<Rightarrow> experiment_db \<Rightarrow> plan_row option" where
  "latest_published group_id d = first_row (order_desc pn_version
     (filter (\<lambda>p. pn_group_id p = group_id \<and> pn_status p = PN_PUBLISHED) (xd_plans d)))"

definition copy_material :: "apply_env \<Rightarrow> (string \<times> json) list \<Rightarrow> experiment_db \<Rightarrow> err + (copies \<times> experiment_db)" where
  "copy_material e m d =
     (case referenced_ids m of (topics, questions, surveys) \<Rightarrow>
        let topics = sort_less str_less topics; questions = sort_less str_less questions;
            surveys = sort_less str_less surveys
        in bindE (foldE (copy_topic e) topics d) (\<lambda>d.
           bindE (foldE (copy_question_task e) questions (d, [], [])) (\<lambda>(d, inner, _).
           bindE (foldE (copy_survey_task e) surveys d) (\<lambda>d.
             Inr (\<lparr>cp_topics = map (\<lambda>t. (t, ae_uid e (AP_Topic t))) topics,
                   cp_questions = map (\<lambda>t. (t, ae_uid e (AP_Question t))) questions,
                   cp_surveys = map (\<lambda>t. (t, ae_uid e (AP_Survey t))) surveys, cp_inner = inner\<rparr>, d)))))"

definition supersede :: "int \<Rightarrow> plan_row option \<Rightarrow> experiment_db \<Rightarrow> experiment_db" where
  "supersede now current d =
     (case current of
        None \<Rightarrow> d
      | Some p \<Rightarrow> d\<lparr>xd_plans := upd_by pn_id (pn_id p)
          (\<lambda>p. p\<lparr>pn_status := PN_SUPERSEDED, pn_updated_at := now\<rparr>) (xd_plans d)\<rparr>)"

definition build_plan ::
    "apply_env \<Rightarrow> workflow_row \<Rightarrow> string \<Rightarrow> copies \<Rightarrow> experiment_db \<Rightarrow> err + (plan_model option \<times> experiment_db)" where
  "build_plan e w group_id c d =
     (let m = wf_definition w in
      bindE (mapE as_object (items_of m)) (\<lambda>items.
      bindE (applied_plan e w group_id items d) (\<lambda>plan.
      bindE (mapE (applied_item e c (pn_id plan)) (enumerate 0 items)) (\<lambda>rows.
        let d = d\<lparr>xd_plans := add_row plan (xd_plans d), xd_items := xd_items d @ map fst rows,
                  xd_pools := xd_pools d @ concat (map snd rows)\<rparr>;
            item_keys = rev (map (\<lambda>(row, _). (case it_source_step_key row of None \<Rightarrow> [] | Some k \<Rightarrow> k, it_id row)) rows)
        in if \<not> plan_keys d then Inl IntegrityError
           else
             bindE (mapE (applied_condition item_keys) (conditions_of m)) (\<lambda>conditions.
             bindE (case we_read_plan (ae_workflow e)
                       (plan_json m (map (saved_item_json c) (zip (map fst rows) items)) conditions) of
                      Inl _ \<Rightarrow> Inl (FieldError ''plan'')
                    | Inr form \<Rightarrow> validate_plan_form form) (\<lambda>form.
               let d = save_conditions (\<lambda>x. ae_uid e (AP_Plan x)) (ae_clock e 3) (pn_id plan) (fm_conditions form)
                     (zip (fm_items form) (map (\<lambda>(row, _). it_id row) rows)) True d
               in if \<not> plan_keys d then Inl IntegrityError
                  else
                    let d = source_keys (pn_id plan) (conditions_of m) d;
                        d = d\<lparr>xd_plans := upd_by pn_id (pn_id plan)
                          (\<lambda>p. p\<lparr>pn_configuration_fingerprint := Some (ae_fingerprint e (pn_id plan) d)\<rparr>) (xd_plans d)\<rparr>
                    in bindE (get_plan (pn_id plan) d) (\<lambda>result. Inr (result, d))))))))"

definition apply_workflow ::
    "apply_env \<Rightarrow> bool \<Rightarrow> apply_form \<Rightarrow> string \<Rightarrow> workflow_db \<Rightarrow> err + (plan_model option \<times> workflow_db)" where
  "apply_workflow e model_available form workflow_id d =
     (let base = wd_base d in
      case get_by wf_id workflow_id (wd_workflows d) of
        None \<Rightarrow> Inl (http 404 ''Workflow not found.'')
      | Some w \<Rightarrow>
          if wf_revision w \<noteq> ap_workflow_revision form
          then Inl (http 409 ''This workflow changed after review. Review it again.'')
          else bindE (validation_issues (ae_workflow e) model_available base (wf_definition w)) (\<lambda>issues.
            if issues \<noteq> [] then Inl (http 422 ''Workflow is not ready to apply.'')
            else if ap_group_id form \<notin> set (map fst (xd_groups base)) then Inl (http 404 ''Group not found.'')
            else
              let current = latest_published (ap_group_id form) base in
              if (case current of None \<Rightarrow> 0 | Some p \<Rightarrow> pn_version p) \<noteq> ap_expected_current_plan_version form
              then Inl (http 409 ''The group plan changed after review. Review it again.'')
              else bindE (copy_material e (wf_definition w) base) (\<lambda>(c, base).
                   bindE (build_plan e w (ap_group_id form) c (supersede (ae_clock e 0) current base)) (\<lambda>(result, base).
                     Inr (result, d\<lparr>wd_base := base\<rparr>)))))"

end
