(* ===== verification/Workflow_Properties.thy ===== *)
theory Workflow_Properties
  imports Workflow_Apply
begin

text \<open>What the workflow library guarantees: no lost updates, normalized definitions, and what
  applying a workflow does to the store.\<close>

subsection \<open>Revisions\<close>

lemma update_cases:
  assumes "update_workflow e uid now user form i d = (r, d')"
  obtains (same) "d' = d"
  | (changed) row row' where "get_by wf_id i (wd_workflows d) = Some row" "ww_revision form = Some (wf_revision row)"
      "wf_id row' = wf_id row" "wf_revision row' = wf_revision row + 1"
      "d' = d\<lparr>wd_workflows := upd_by wf_id i (\<lambda>_. row') (wd_workflows d)\<rparr>"
proof (cases "get_by wf_id i (wd_workflows d)")
  case None
  then show ?thesis using assms that(1) by (simp add: update_workflow_def)
next
  case (Some row)
  show ?thesis
  proof (cases "ww_revision form = Some (wf_revision row)")
    case False
    then show ?thesis using assms that(1) Some by (simp add: update_workflow_def)
  next
    case rev: True
    show ?thesis
    proof (cases "normalize_definition uid (JObj (ww_definition form))")
      case (Inl err)
      then show ?thesis using assms that(1) Some rev by (simp add: update_workflow_def)
    next
      case (Inr m)
      let ?row = "row\<lparr>wf_name := py_strip (ww_name form), wf_description := py_strip (ww_description form),
          wf_definition := expand_random_all (wd_base d) m, wf_revision := wf_revision row + 1,
          wf_updated_by := Some user, wf_updated_at := now\<rparr>"
      have "d' = d\<lparr>wd_workflows := upd_by wf_id i (\<lambda>_. ?row) (wd_workflows d)\<rparr>"
        using assms Some rev Inr by (simp add: update_workflow_def Let_def)
      then show ?thesis using that(2) [OF Some rev, of ?row] by simp
    qed
  qed
qed

lemma get_by_replaced:
  "get_by key k rows = Some r \<Longrightarrow> key r' = k \<Longrightarrow> get_by key k (upd_by key k (\<lambda>_. r') rows) = Some r'"
  by (induction rows) auto

lemma revision_used_up:
  assumes "update_workflow e uid now user form i d = (r, d')" and "d' \<noteq> d"
  obtains row where "get_by wf_id i (wd_workflows d') = Some row" "ww_revision form = Some (wf_revision row - 1)"
  using assms(1)
proof (cases rule: update_cases)
  case same
  with assms(2) show ?thesis by simp
next
  case (changed row row')
  have "wf_id row' = i" using changed(3) get_by_Some [OF changed(1)] by simp
  then have "get_by wf_id i (wd_workflows d') = Some row'"
    using get_by_replaced [OF changed(1)] changed(5) by simp
  then show ?thesis using that changed(2,4) by simp
qed

subsection \<open>Extending a store\<close>

definition extends :: "'a list \<Rightarrow> 'a list \<Rightarrow> bool" where
  "extends xs ys \<longleftrightarrow> (\<exists>zs. ys = xs @ zs)"

lemma extends_refl [simp]: "extends xs xs"
  by (simp add: extends_def)

lemma extends_append [simp]: "extends xs (xs @ ys)" "extends xs (add_row y xs)"
  by (simp_all add: extends_def add_row_def)

lemma extends_trans: "extends xs ys \<Longrightarrow> extends ys zs \<Longrightarrow> extends xs zs"
  by (auto simp: extends_def)

text \<open>What copying leaves as it is, and what it only adds to.\<close>

definition content_extends :: "question_db \<Rightarrow> question_db \<Rightarrow> bool" where
  "content_extends d d' \<longleftrightarrow>
     extends (db_tasks d) (db_tasks d') \<and> extends (db_questions d) (db_questions d') \<and>
     extends (db_choices d) (db_choices d') \<and> extends (db_blanks d) (db_blanks d') \<and>
     extends (db_accepted d) (db_accepted d') \<and> extends (db_configs d) (db_configs d')"

definition surveys_extend :: "survey_db \<Rightarrow> survey_db \<Rightarrow> bool" where
  "surveys_extend d d' \<longleftrightarrow> extends (svd_tasks d) (svd_tasks d') \<and> extends (svd_questions d) (svd_questions d') \<and>
     extends (svd_choices d) (svd_choices d')"

definition material_extends :: "experiment_db \<Rightarrow> experiment_db \<Rightarrow> bool" where
  "material_extends d d' \<longleftrightarrow>
     extends (xd_topics d) (xd_topics d') \<and> content_extends (xd_questions d) (xd_questions d') \<and>
     surveys_extend (xd_surveys d) (xd_surveys d') \<and>
     d' = d\<lparr>xd_topics := xd_topics d', xd_questions := xd_questions d', xd_surveys := xd_surveys d'\<rparr>"

lemma content_extends_refl [simp]: "content_extends d d"
  by (simp add: content_extends_def)

lemma surveys_extend_refl [simp]: "surveys_extend d d"
  by (simp add: surveys_extend_def)

lemma material_refl [simp]: "material_extends d d"
  by (simp add: material_extends_def)

lemma content_extends_trans: "content_extends a b \<Longrightarrow> content_extends b c \<Longrightarrow> content_extends a c"
  unfolding content_extends_def by (elim conjE, intro conjI) (erule (1) extends_trans)+

lemma surveys_extend_trans: "surveys_extend a b \<Longrightarrow> surveys_extend b c \<Longrightarrow> surveys_extend a c"
  unfolding surveys_extend_def by (elim conjE, intro conjI) (erule (1) extends_trans)+

lemma material_trans:
  assumes "material_extends a b" and "material_extends b c"
  shows "material_extends a c"
proof -
  have "c = b\<lparr>xd_topics := xd_topics c, xd_questions := xd_questions c, xd_surveys := xd_surveys c\<rparr>"
    using assms(2) by (simp only: material_extends_def)
  also have "\<dots> = a\<lparr>xd_topics := xd_topics c, xd_questions := xd_questions c, xd_surveys := xd_surveys c\<rparr>"
    using assms(1) by (cases a; cases b) (simp add: material_extends_def)
  finally have c: "c = a\<lparr>xd_topics := xd_topics c, xd_questions := xd_questions c, xd_surveys := xd_surveys c\<rparr>" .
  note a = assms [unfolded material_extends_def]
  have "extends (xd_topics a) (xd_topics c)" by (rule extends_trans [OF conjunct1 [OF a(1)] conjunct1 [OF a(2)]])
  moreover have "content_extends (xd_questions a) (xd_questions c)"
    using a content_extends_trans [of "xd_questions a" "xd_questions b" "xd_questions c"] by simp
  moreover have "surveys_extend (xd_surveys a) (xd_surveys c)" 
    using a surveys_extend_trans [of "xd_surveys a" "xd_surveys b" "xd_surveys c"] by simp
  ultimately show ?thesis using c by (simp only: material_extends_def)
qed

lemma replace_extends: "content_extends d (replace_questions uid now i forms d)"
  by (simp add: content_extends_def replace_questions_def Let_def)

lemma replace_surveys_extend: "surveys_extend d (replace_survey_questions uid now i forms d)"
  by (simp add: surveys_extend_def replace_survey_questions_def Let_def)

lemma copy_topic_extends: "copy_topic e t d = Inr d' \<Longrightarrow> material_extends d d'"
  by (auto simp: copy_topic_def material_extends_def Let_def split: option.splits if_splits)

lemma commit_survey_ok [simp]: "commit_survey d = Inr d' \<longleftrightarrow> survey_keys d \<and> d' = d"
  by (auto simp: commit_survey_def)

lemma copy_question_extends:
  assumes "copy_question_task e t (d, qs, fs) = Inr (d', qs', fs')"
  shows "material_extends d d'"
proof -
  obtain copy i forms where d': "d' = d\<lparr>xd_questions := replace_questions (\<lambda>x. ae_uid e (AP_Content t x)) (ae_clock e 1) i forms
      ((xd_questions d)\<lparr>db_tasks := add_row copy (db_tasks (xd_questions d))\<rparr>)\<rparr>"
    using assms by (auto simp: copy_question_task_def Let_def bindE_Inr_iff split: option.splits if_splits)
  have "content_extends (xd_questions d) ((xd_questions d)\<lparr>db_tasks := add_row copy (db_tasks (xd_questions d))\<rparr>)"
    by (simp add: content_extends_def)
  then show ?thesis
    using content_extends_trans [OF _ replace_extends] by (simp add: material_extends_def d')
qed

lemma copy_survey_extends:
  assumes "copy_survey_task e t d = Inr d'"
  shows "material_extends d d'"
proof -
  obtain copy i forms where d': "d' = d\<lparr>xd_surveys := replace_survey_questions (\<lambda>x. ae_uid e (AP_Survey_Content t x)) (ae_clock e 2) i forms
      ((xd_surveys d)\<lparr>svd_tasks := add_row copy (svd_tasks (xd_surveys d))\<rparr>)\<rparr>"
    using assms by (auto simp: copy_survey_task_def Let_def bindE_Inr_iff split: option.splits if_splits)
  have "surveys_extend (xd_surveys d) ((xd_surveys d)\<lparr>svd_tasks := add_row copy (svd_tasks (xd_surveys d))\<rparr>)"
    by (simp add: surveys_extend_def)
  then show ?thesis
    using surveys_extend_trans [OF _ replace_surveys_extend] by (simp add: material_extends_def d')
qed

lemma copy_material_extends:
  assumes "copy_material e m d = Inr (c, d')"
  shows "material_extends d d'"
proof -
  obtain ts qs ss d1 d2 inner fs where
    fold: "foldE (copy_topic e) ts d = Inr d1" "foldE (copy_question_task e) qs (d1, [], []) = Inr (d2, inner, fs)"
      "foldE (copy_survey_task e) ss d2 = Inr d'"
    using assms by (auto simp: copy_material_def Let_def bindE_Inr_iff split: prod.splits)
  have "material_extends d d1"
    by (rule foldE_invariant [OF fold(1), where P = "material_extends d"])
      (auto intro: material_trans copy_topic_extends)
  moreover have "material_extends d1 (fst (d2, inner, fs))"
    by (rule foldE_invariant [OF fold(2), where P = "\<lambda>s. material_extends d1 (fst s)"])
      (auto dest!: copy_question_extends elim: material_trans)
  moreover have "material_extends d2 d'"
    by (rule foldE_invariant [OF fold(3), where P = "material_extends d2"])
      (auto intro: material_trans copy_survey_extends)
  ultimately show ?thesis using material_trans by auto
qed

subsection \<open>The plan that is built\<close>

text \<open>
  What the tables of plans hold is left alone: items, pools, conditions and the rows of a condition
  are only added to. A condition names an existing plan (its foreign key).
\<close>

definition plan_tables_extend :: "experiment_db \<Rightarrow> experiment_db \<Rightarrow> bool" where
  "plan_tables_extend d d' \<longleftrightarrow>
     extends (xd_items d) (xd_items d') \<and> extends (xd_pools d) (xd_pools d') \<and>
     extends (xd_injections d) (xd_injections d') \<and> extends (xd_warning_rows d) (xd_warning_rows d') \<and>
     extends (xd_timings d) (xd_timings d') \<and> extends (xd_scopes d) (xd_scopes d') \<and>
     extends (xd_conditions d) (xd_conditions d')"

definition conditions_have_plans :: "experiment_db \<Rightarrow> bool" where
  "conditions_have_plans d \<longleftrightarrow> ec_plan_id ` set (xd_conditions d) \<subseteq> pn_id ` set (xd_plans d)"

lemma source_keys_extend:
  assumes "xd_conditions d = old @ new" and "distinct (map ec_id (xd_conditions d))"
    and "p \<notin> ec_plan_id ` set old"
  shows "extends old (xd_conditions (source_keys p k d))"
proof -
  let ?rows = "order_by ec_position (filter (\<lambda>c. ec_plan_id c = p) (xd_conditions d))"
  let ?pairs = "zip (map ec_id ?rows) k"
  have "map_of ?pairs (ec_id c) = None" if "c \<in> set old" for c
  proof -
    have "ec_id c \<notin> ec_id ` set new" using assms(1,2) that by auto
    moreover have "set ?rows \<subseteq> set new" using assms(1,3) by (auto simp: order_by_def)
    ultimately have "ec_id c \<notin> set (map ec_id ?rows)" by auto
    then show ?thesis by (auto simp: map_of_eq_None_iff dest: set_zip_leftD)
  qed
  then have "map (\<lambda>c. case map_of ?pairs (ec_id c) of None \<Rightarrow> c
      | Some v \<Rightarrow> c\<lparr>ec_source_condition_key := (case jget (item_fields v) ''key'' of JStr s \<Rightarrow> Some s | _ \<Rightarrow> None)\<rparr>) old = old"
    by (intro map_idI) simp
  then show ?thesis unfolding source_keys_def Let_def by (simp add: assms(1) extends_def)
qed

definition newest_version :: "string \<Rightarrow> experiment_db \<Rightarrow> int" where
  "newest_version g d = or_int (max_of pn_version (filter (\<lambda>p. pn_group_id p = g) (xd_plans d))) 0"

lemma upd_by_append: "upd_by key k f (xs @ ys) = upd_by key k f xs @ upd_by key k f ys"
  by (simp add: upd_by_def upd_rows_append)

lemma build_plan_Inr:
  assumes "build_plan e w g c d = Inr (r, d')" and "conditions_have_plans d"
  obtains plan where "pn_source_workflow_id plan = Some (wf_id w)" "pn_source_workflow_revision plan = Some (wf_revision w)"
    and "pn_group_id plan = g" "pn_status plan = PN_PUBLISHED" "pn_version plan = newest_version g d + 1"
    and "pn_id plan \<notin> pn_id ` set (xd_plans d)" "distinct (map pn_id (xd_plans d))"
    and "xd_plans d' = add_row plan (xd_plans d)" "plan_tables_extend d d'"
    and "d' = d\<lparr>xd_plans := xd_plans d', xd_items := xd_items d', xd_pools := xd_pools d', xd_conditions := xd_conditions d',
      xd_injections := xd_injections d', xd_warning_rows := xd_warning_rows d', xd_timings := xd_timings d',
      xd_scopes := xd_scopes d'\<rparr>"
proof -
  obtain items plan rows forms pairs k where
    plan: "applied_plan e w g items d = Inr plan"
    and keys: "plan_keys (d\<lparr>xd_plans := add_row plan (xd_plans d), xd_items := xd_items d @ map fst rows,
        xd_pools := xd_pools d @ concat (map snd rows)\<rparr>)"
    and keys2: "plan_keys (save_conditions (\<lambda>x. ae_uid e (AP_Plan x)) (ae_clock e 3) (pn_id plan) forms pairs True
        (d\<lparr>xd_plans := add_row plan (xd_plans d), xd_items := xd_items d @ map fst rows,
          xd_pools := xd_pools d @ concat (map snd rows)\<rparr>))"
    and d': "d' = (let d = d\<lparr>xd_plans := add_row plan (xd_plans d), xd_items := xd_items d @ map fst rows,
          xd_pools := xd_pools d @ concat (map snd rows)\<rparr>;
        d = save_conditions (\<lambda>x. ae_uid e (AP_Plan x)) (ae_clock e 3) (pn_id plan) forms pairs True d;
        d = source_keys (pn_id plan) k d
      in d\<lparr>xd_plans := upd_by pn_id (pn_id plan)
           (\<lambda>p. p\<lparr>pn_configuration_fingerprint := Some (ae_fingerprint e (pn_id plan) d)\<rparr>) (xd_plans d)\<rparr>)"
    using assms(1) by (auto simp: build_plan_def Let_def bindE_Inr_iff split: if_splits)
  have fresh: "pn_id plan \<notin> pn_id ` set (xd_plans d)" and ids: "distinct (map pn_id (xd_plans d))"
    using keys by (simp_all add: plan_keys_def add_row_def)
  define D where "D = source_keys (pn_id plan) k (save_conditions (\<lambda>x. ae_uid e (AP_Plan x)) (ae_clock e 3) (pn_id plan)
      forms pairs True (d\<lparr>xd_plans := add_row plan (xd_plans d), xd_items := xd_items d @ map fst rows,
          xd_pools := xd_pools d @ concat (map snd rows)\<rparr>))"
  define t where "t = Some (ae_fingerprint e (pn_id plan) D)"
  have d'_D: "d' = D\<lparr>xd_plans := upd_by pn_id (pn_id plan) (\<lambda>p. p\<lparr>pn_configuration_fingerprint := t\<rparr>) (xd_plans D)\<rparr>"
    by (simp only: d' D_def t_def Let_def)
  have plans: "xd_plans D = xd_plans d @ [plan]" by (simp add: D_def save_conditions_def source_keys_def add_row_def Let_def)
  have "pn_id plan \<notin> ec_plan_id ` set (xd_conditions d)" using assms(2) fresh by (auto simp: conditions_have_plans_def)
  with keys2 have "extends (xd_conditions d) (xd_conditions D)"
    unfolding D_def by (intro source_keys_extend) (simp_all add: save_conditions_def plan_keys_def Let_def)
  moreover have "extends (xd_items d) (xd_items D) \<and> extends (xd_pools d) (xd_pools D) \<and>
      extends (xd_injections d) (xd_injections D) \<and> extends (xd_warning_rows d) (xd_warning_rows D) \<and>
      extends (xd_timings d) (xd_timings D) \<and> extends (xd_scopes d) (xd_scopes D)"
    by (simp add: D_def save_conditions_def source_keys_def Let_def)
  ultimately have "plan_tables_extend d D" by (simp add: plan_tables_extend_def)
  then have "plan_tables_extend d d'" by (simp add: plan_tables_extend_def d'_D)
  moreover have "xd_plans d' = add_row (plan\<lparr>pn_configuration_fingerprint := t\<rparr>) (xd_plans d)"
    using fresh by (simp add: d'_D plans add_row_def upd_by_append upd_by_absent)
  moreover have "D = d\<lparr>xd_plans := xd_plans D, xd_items := xd_items D, xd_pools := xd_pools D, xd_conditions := xd_conditions D,
      xd_injections := xd_injections D, xd_warning_rows := xd_warning_rows D, xd_timings := xd_timings D,
      xd_scopes := xd_scopes D\<rparr>"
    by (simp add: D_def save_conditions_def source_keys_def Let_def)
  then have "d' = d\<lparr>xd_plans := xd_plans d', xd_items := xd_items d', xd_pools := xd_pools d', xd_conditions := xd_conditions d',
      xd_injections := xd_injections d', xd_warning_rows := xd_warning_rows d', xd_timings := xd_timings d',
      xd_scopes := xd_scopes d'\<rparr>"
    unfolding d'_D by (cases D; cases d) simp
  moreover have "pn_source_workflow_id plan = Some (wf_id w)" "pn_source_workflow_revision plan = Some (wf_revision w)"
    "pn_group_id plan = g" "pn_status plan = PN_PUBLISHED" "pn_version plan = newest_version g d + 1"
    using plan by (auto simp: applied_plan_def Let_def bindE_Inr_iff newest_version_def)
  ultimately show ?thesis using that [of "plan\<lparr>pn_configuration_fingerprint := t\<rparr>"] fresh ids by simp
qed

end
