(* ===== verification/Workflow_Normal.thy ===== *)
theory Workflow_Normal
  imports Workflow_Definition
begin

text \<open>
  A normalized definition is a fixed point: normalizing it again, with any draws, changes nothing,
  and its conditions have keys that are distinct. A JSON object has distinct keys.
\<close>

subsection \<open>Updating an association list\<close>

lemma update_same: "map_of m k = Some v \<Longrightarrow> AList.update k v m = m"
  by (induction m) (auto split: if_splits)

lemma update_new: "k \<notin> fst ` set m \<Longrightarrow> AList.update k v m = m @ [(k, v)]"
  by (induction m) auto

lemma update_at: "k \<notin> fst ` set p \<Longrightarrow> AList.update k v (p @ (k, v') # b) = p @ (k, v) # b"
  by (induction p) auto

lemma map_fst_update:
  "map fst (AList.update k v m) = (if k \<in> fst ` set m then map fst m else map fst m @ [k])"
  by (induction m) auto

lemma update_all_keys: "\<exists>extra. map fst (update_all m m') = map fst m @ extra"
proof (induction m' rule: rev_induct)
  case Nil
  then show ?case by (simp add: update_all_def)
next
  case (snoc kv m')
  then show ?case
    by (cases kv) (auto simp: update_all_def put_key_def map_fst_update)
qed

lemma update_all_distinct: "distinct (map fst m) \<Longrightarrow> distinct (map fst (update_all m m'))"
  by (induction m' rule: rev_induct) (auto simp: update_all_def put_key_def map_fst_update)

lemma update_all_map_of: "distinct (map fst m') \<Longrightarrow> map_of (update_all m m') k = (case map_of m' k of None \<Rightarrow> map_of m k | v \<Rightarrow> v)"
proof (induction m' rule: rev_induct)
  case Nil
  then show ?case by (simp add: update_all_def)
next
  case (snoc kv m')
  obtain k' v where kv: "kv = (k', v)" by force
  have "map_of m' k' = None" using snoc.prems by (simp add: kv map_of_eq_None_iff)
  then show ?case
    using snoc by (auto simp: update_all_def put_key_def kv update_conv' map_add_def split: option.splits)
qed

lemma update_all_replaces:
  "map fst b = map fst n \<Longrightarrow> distinct (map fst (p @ n)) \<Longrightarrow> update_all (p @ b) n = p @ n"
proof (induction n arbitrary: p b)
  case Nil
  then show ?case by (simp add: update_all_def)
next
  case (Cons kv n)
  obtain k v where kv: "kv = (k, v)" by force
  obtain v' b' where b: "b = (k, v') # b'" "map fst b' = map fst n" using Cons.prems(1) by (cases b) (auto simp: kv)
  have "k \<notin> fst ` set p" using Cons.prems(2) by (auto simp: kv)
  then have "update_all (p @ b) (kv # n) = update_all ((p @ [kv]) @ b') n"
    by (simp add: update_all_def put_key_def kv b(1) update_at)
  also have "\<dots> = (p @ [kv]) @ n" by (rule Cons.IH [OF b(2)]) (use Cons.prems(2) in simp)
  finally show ?case by simp
qed

lemma update_all_appends: "distinct (map fst (m @ n)) \<Longrightarrow> update_all m n = m @ n"
proof (induction n arbitrary: m)
  case Nil
  then show ?case by (simp add: update_all_def)
next
  case (Cons kv n)
  obtain k v where kv: "kv = (k, v)" by force
  have "k \<notin> fst ` set m" using Cons.prems by (auto simp: kv)
  then have "update_all m (kv # n) = update_all (m @ [kv]) n" by (simp add: update_all_def put_key_def kv update_new)
  also have "\<dots> = (m @ [kv]) @ n" by (rule Cons.IH) (use Cons.prems in simp)
  finally show ?case by simp
qed

lemma update_all_fixed:
  assumes "distinct (map fst n)" and "map fst n = map fst b @ extra"
  shows "update_all b n = n"
proof -
  define n1 n2 where "n1 = take (length b) n" and "n2 = drop (length b) n"
  have n: "n = n1 @ n2" by (simp add: n1_def n2_def)
  have n1: "map fst b = map fst n1"
    using arg_cong [OF assms(2), of "take (length b)"] by (simp add: n1_def take_map)
  have "update_all b n = update_all (update_all b n1) n2" by (simp add: update_all_def n)
  also have "update_all b n1 = n1" using update_all_replaces [OF n1, of "[]"] assms(1) by (simp add: n)
  also have "update_all n1 n2 = n1 @ n2" by (rule update_all_appends) (use assms(1) n in simp)
  finally show ?thesis by (simp add: n)
qed

subsection \<open>Items and conditions\<close>

lemma normalize_item_idem: "normalize_item (normalize_item i) = normalize_item i"
proof (cases i)
  case (JObj m)
  show ?thesis
  proof (cases "jget m ''task_type'' \<in> {JStr ''ESSAY'', JStr ''QUESTION''} \<and> map_of m ''llm_prompt_budget'' = None")
    case True
    have "map_of (m @ [(''llm_prompt_budget'', default_budget_json)]) ''llm_prompt_budget'' \<noteq> None"
      by (simp add: map_add_def split: option.split)
    then have "normalize_item (JObj (m @ [(''llm_prompt_budget'', default_budget_json)])) =
        JObj (m @ [(''llm_prompt_budget'', default_budget_json)])"
      by (simp only: normalize_item_def json.case if_False simp_thms)
    then show ?thesis using True by (simp only: normalize_item_def JObj json.case if_True simp_thms)
  next
    case False
    then show ?thesis by (simp only: normalize_item_def JObj json.case if_False)
  qed
qed (simp_all add: normalize_item_def)

text \<open>The keys of the conditions that are objects.\<close>

definition condition_keys :: "json list \<Rightarrow> json list" where
  "condition_keys cs = concat (map (\<lambda>c. case c of JObj m \<Rightarrow> [jget m ''key''] | _ \<Rightarrow> []) cs)"

text \<open>The fresh draws meet no key that is there already.\<close>

definition draws_fresh :: "(workflow_draw \<Rightarrow> string) \<Rightarrow> json list \<Rightarrow> bool" where
  "draws_fresh uid cs \<longleftrightarrow>
     (\<forall>n. uid (DFresh n) \<noteq> [] \<and> (\<forall>k. uid (DGuess k) \<noteq> uid (DFresh n)) \<and> (\<forall>k. k \<noteq> n \<longrightarrow> uid (DFresh k) \<noteq> uid (DFresh n)) \<and>
       (\<forall>c \<in> set cs. jget (item_fields c) ''key'' \<noteq> JStr (uid (DFresh n)) \<and> jget (item_fields c) ''id'' \<noteq> JStr (uid (DFresh n))))"

lemma chosen_key_new:
  assumes "draws_fresh uid cs" and "JObj m \<in> set cs" and "\<And>k. n \<le> k \<Longrightarrow> uid (DFresh k) \<notin> keys"
  shows "chosen_key uid n keys m \<noteq> []" and "chosen_key uid n keys m \<notin> keys"
    and "\<And>k. n < k \<Longrightarrow> chosen_key uid n keys m \<noteq> uid (DFresh k)"
proof -
  have f: "uid (DFresh n) \<noteq> []" "uid (DFresh n) \<notin> keys" using assms(1,3) by (simp_all add: draws_fresh_def)
  let ?v = "first_truthy [jget m ''key'', jget m ''id'', JStr (uid (DGuess n))]"
  have v: "?v \<in> {jget m ''key'', jget m ''id'', JStr (uid (DGuess n))}" by (simp add: first_truthy_def)
  show "chosen_key uid n keys m \<noteq> []" "chosen_key uid n keys m \<notin> keys"
    using f by (auto simp: chosen_key_def split: json.split)
  fix k assume k: "n < k"
  have "?v \<noteq> JStr (uid (DFresh k))"
  proof
    assume "?v = JStr (uid (DFresh k))"
    then have "jget m ''key'' = JStr (uid (DFresh k)) \<or> jget m ''id'' = JStr (uid (DFresh k)) \<or> uid (DGuess n) = uid (DFresh k)"
      using v by auto
    then show False using assms(1,2) unfolding draws_fresh_def by (fastforce simp: item_fields_def)
  qed
  moreover have "uid (DFresh n) \<noteq> uid (DFresh k)" using assms(1) k by (auto simp: draws_fresh_def)
  ultimately show "chosen_key uid n keys m \<noteq> uid (DFresh k)"
    by (auto simp: chosen_key_def split: json.split)
qed

definition with_key :: "string \<Rightarrow> (string \<times> json) list \<Rightarrow> (string \<times> json) list" where
  "with_key key m = AList.delete ''id'' (put_key ''key'' (JStr key) m)"

lemma with_key_get: "jget (with_key key m) ''key'' = JStr key"
  by (simp add: with_key_def jget_def put_key_def delete_conv' update_conv')

lemma with_key_again: "with_key key (with_key key m) = with_key key m"
proof -
  have "map_of (with_key key m) ''key'' = Some (JStr key)"
    by (simp add: with_key_def put_key_def delete_conv' update_conv')
  then have "put_key ''key'' (JStr key) (with_key key m) = with_key key m" by (simp add: put_key_def update_same)
  then have "with_key key (with_key key m) = AList.delete ''id'' (with_key key m)" by (simp only: with_key_def [of key "with_key key m"])
  then show ?thesis by (simp add: with_key_def delete_idem)
qed

lemma chosen_again: "key \<noteq> [] \<Longrightarrow> key \<notin> keys \<Longrightarrow> chosen_key uid n keys (with_key key m) = key"
  by (simp add: chosen_key_def first_truthy_def with_key_get)

lemma condition_keys_simps [simp]:
  "condition_keys [] = []"
  "condition_keys (JObj m # cs) = jget m ''key'' # condition_keys cs"
  "\<forall>m. c \<noteq> JObj m \<Longrightarrow> condition_keys (c # cs) = condition_keys cs"
  by (auto simp: condition_keys_def split: json.split)

lemma normalize_object:
  "normalize_conditions uid n keys (JObj m # cs) =
     JObj (with_key (chosen_key uid n keys m) m) #
       normalize_conditions uid (n + 1) (insert (chosen_key uid n keys m) keys) cs"
  by (simp add: with_key_def Let_def)

lemma normalize_conditions_fixed:
  assumes "draws_fresh uid all" and "set cs \<subseteq> set all" and "\<And>k. n \<le> k \<Longrightarrow> uid (DFresh k) \<notin> keys"
  shows "normalize_conditions uid' n' keys (normalize_conditions uid n keys cs) = normalize_conditions uid n keys cs \<and>
    distinct (condition_keys (normalize_conditions uid n keys cs)) \<and>
    set (condition_keys (normalize_conditions uid n keys cs)) \<inter> JStr ` keys = {}"
  using assms(2,3)
proof (induction cs arbitrary: n n' keys)
  case Nil
  then show ?case by (simp add: condition_keys_def)
next
  case (Cons c cs)
  have sub: "set cs \<subseteq> set all" and c: "c \<in> set all" using Cons.prems(1) by auto
  show ?case
  proof (cases c)
    case (JObj m)
    let ?key = "chosen_key uid n keys m"
    have new: "?key \<noteq> []" "?key \<notin> keys" "\<And>k. n < k \<Longrightarrow> ?key \<noteq> uid (DFresh k)"
      using chosen_key_new [OF assms(1) c [unfolded JObj], of n keys] Cons.prems(2) by blast+
    have ih: "uid (DFresh k) \<notin> insert ?key keys" if "n + 1 \<le> k" for k
    proof -
      have "uid (DFresh k) \<notin> keys" by (rule Cons.prems(2)) (use that in simp)
      moreover have "?key \<noteq> uid (DFresh k)" by (rule new(3)) (use that in linarith)
      ultimately show ?thesis by simp
    qed
    let ?rest = "normalize_conditions uid (n + 1) (insert ?key keys) cs"
    have rest: "normalize_conditions uid' (n' + 1) (insert ?key keys) ?rest = ?rest"
      "distinct (condition_keys ?rest)" "set (condition_keys ?rest) \<inter> JStr ` insert ?key keys = {}"
      using Cons.IH [OF sub, of "n + 1" "insert ?key keys" "n' + 1"] ih by blast+
    have whole: "normalize_conditions uid n keys (c # cs) = JObj (with_key ?key m) # ?rest"
      by (simp only: JObj normalize_object)
    have "chosen_key uid' n' keys (with_key ?key m) = ?key" by (rule chosen_again [OF new(1,2)])
    then have "normalize_conditions uid' n' keys (JObj (with_key ?key m) # ?rest) = JObj (with_key ?key m) # ?rest"
      using rest by (simp only: normalize_object with_key_again)
    moreover have "distinct (condition_keys (JObj (with_key ?key m) # ?rest))"
      "set (condition_keys (JObj (with_key ?key m) # ?rest)) \<inter> JStr ` keys = {}"
      using rest new(2) by (auto simp: with_key_get)
    ultimately show ?thesis by (simp only: whole)
  qed (use Cons.IH [OF sub, of "n + 1" keys "n' + 1"] Cons.prems(2) in \<open>simp_all add: condition_keys_def\<close>)
qed

lemma no_memory: "has_memory (JObj (with_key key m)) \<Longrightarrow> has_memory (JObj m)"
  by (auto simp: has_memory_def with_key_def put_key_def delete_conv' update_conv' split: if_splits)

lemma normalize_conditions_memory:
  "list_ex has_memory (normalize_conditions uid n keys cs) \<Longrightarrow> list_ex has_memory cs"
proof (induction cs arbitrary: n keys)
  case (Cons c cs)
  show ?case
  proof (cases c)
    case (JObj m)
    then show ?thesis
      using Cons no_memory [of "chosen_key uid n keys m" m] by (auto simp: normalize_object simp del: normalize_conditions.simps(2))
  qed (use Cons in auto)
qed simp

end
