(* ===== verification/Workflow_Claims.thy ===== *)
theory Workflow_Claims
  imports Workflow_Properties Workflow_Normal
begin

text \<open>
  The properties of the workflow library: no lost updates, normalization, what applying a workflow
  does to the store, and two definitions the code accepts and cannot work with.
\<close>

subsection \<open>Stale revisions\<close>

text \<open>
  What can happen to the library after an update: further requests of any user, with any result, and
  \<open>LR_Other\<close> for the rest of the program, which adds workflows (an import does) and changes the other
  tables in any way.
\<close>

datatype library_request =
    LR_Create workflow_env "workflow_draw \<Rightarrow> string" int string workflow_form
  | LR_Update workflow_env "workflow_draw \<Rightarrow> string" int string workflow_form string
  | LR_Delete string int
  | LR_Apply apply_env bool apply_form string
  | LR_Other "workflow_row list" experiment_db

primrec library_step :: "library_request \<Rightarrow> workflow_db \<Rightarrow> workflow_db" where
  "library_step (LR_Create e uid now user form) d = snd (create_workflow e uid now user form d)"
| "library_step (LR_Update e uid now user form j) d = snd (update_workflow e uid now user form j d)"
| "library_step (LR_Delete j v) d = (case delete_workflow j v d of Inl _ \<Rightarrow> d | Inr (_, d') \<Rightarrow> d')"
| "library_step (LR_Apply e b form j) d = (case apply_workflow e b form j d of Inl _ \<Rightarrow> d | Inr (_, d') \<Rightarrow> d')"
| "library_step (LR_Other rows base) d = d\<lparr>wd_base := base, wd_workflows := wd_workflows d @ rows\<rparr>"

definition library_run :: "library_request list \<Rightarrow> workflow_db \<Rightarrow> workflow_db" where
  "library_run qs d = fold library_step qs d"

text \<open>The ids of new workflows are fresh: none is the id of the workflow in question.\<close>

primrec fresh_for :: "string \<Rightarrow> library_request \<Rightarrow> bool" where
  "fresh_for i (LR_Create e uid now user form) \<longleftrightarrow> uid DRow \<noteq> i"
| "fresh_for i (LR_Update e uid now user form j) \<longleftrightarrow> True"
| "fresh_for i (LR_Delete j v) \<longleftrightarrow> True"
| "fresh_for i (LR_Apply e b form j) \<longleftrightarrow> True"
| "fresh_for i (LR_Other rows base) \<longleftrightarrow> i \<notin> wf_id ` set rows"

text \<open>The workflow is past a revision, or is gone.\<close>

definition past :: "int \<Rightarrow> string \<Rightarrow> workflow_db \<Rightarrow> bool" where
  "past v i d \<longleftrightarrow> (case get_by wf_id i (wd_workflows d) of None \<Rightarrow> True | Some row \<Rightarrow> v < wf_revision row)"

lemma get_by_upd_other: "i \<noteq> j \<Longrightarrow> (\<And>r. key r = j \<Longrightarrow> key (f r) = j) \<Longrightarrow> get_by key i (upd_by key j f rows) = get_by key i rows"
  by (induction rows) auto

lemma get_by_append: "get_by key i (xs @ ys) = (case get_by key i xs of None \<Rightarrow> get_by key i ys | Some r \<Rightarrow> Some r)"
  by (induction xs) auto

lemma get_by_absent: "i \<notin> key ` set rows \<Longrightarrow> get_by key i rows = None"
  by (induction rows) auto

lemma get_by_del: "get_by key i (del_rows (\<lambda>r. key r = j) rows) = (if i = j then None else get_by key i rows)"
  by (induction rows) (auto simp: del_rows_def)

lemma update_get:
  assumes "update_workflow e uid now user form j d = (r, d')"
  shows "get_by wf_id i (wd_workflows d') = get_by wf_id i (wd_workflows d) \<or>
    i = j \<and> (\<exists>row row'. get_by wf_id i (wd_workflows d) = Some row \<and> get_by wf_id i (wd_workflows d') = Some row' \<and>
      ww_revision form = Some (wf_revision row) \<and> wf_revision row' = wf_revision row + 1)"
  using assms
proof (cases rule: update_cases)
  case (changed row row')
  have id: "wf_id row' = j" using changed(3) get_by_Some [OF changed(1)] by simp
  show ?thesis
  proof (cases "i = j")
    case True
    then show ?thesis using get_by_replaced [OF changed(1) id] changed by simp
  next
    case False
    then show ?thesis using id changed(5) by (simp add: get_by_upd_other)
  qed
qed simp

lemma apply_Inr:
  assumes "apply_workflow e b form i d = Inr (result, d')"
  obtains w c base where "get_by wf_id i (wd_workflows d) = Some w" "wf_revision w = ap_workflow_revision form"
    and "validation_issues (ae_workflow e) b (wd_base d) (wf_definition w) = Inr []"
    and "ap_group_id form \<in> set (map fst (xd_groups (wd_base d)))"
    and "(case latest_published (ap_group_id form) (wd_base d) of None \<Rightarrow> 0 | Some p \<Rightarrow> pn_version p) =
      ap_expected_current_plan_version form"
    and "copy_material e (wf_definition w) (wd_base d) = Inr (c, base)"
    and "build_plan e w (ap_group_id form) c
      (supersede (ae_clock e 0) (latest_published (ap_group_id form) (wd_base d)) base) = Inr (result, wd_base d')"
    and "d' = d\<lparr>wd_base := wd_base d'\<rparr>"
  using assms by (auto simp: apply_workflow_def Let_def bindE_Inr_iff split: option.splits if_splits)

lemma step_keeps_past:
  assumes "past v i d" and "fresh_for i q"
  shows "past v i (library_step q d)"
proof (cases q)
  case (LR_Create e uid now user form)
  have "get_by wf_id i (wd_workflows (library_step q d)) = get_by wf_id i (wd_workflows d)"
    using assms(2) LR_Create by (auto simp: create_workflow_def Let_def add_row_def get_by_append split: sum.split option.split)
  with assms(1) show ?thesis by (simp add: past_def)
next
  case (LR_Update e uid now user form j)
  obtain r d' where u: "update_workflow e uid now user form j d = (r, d')" by force
  from update_get [OF u, of i] assms(1) LR_Update u show ?thesis by (auto simp: past_def)
next
  case (LR_Delete j w)
  with assms(1) show ?thesis by (auto simp: past_def delete_workflow_def get_by_del split: option.splits)
next
  case (LR_Apply e b form j)
  have "wd_workflows (library_step q d) = wd_workflows d"
  proof (cases "apply_workflow e b form j d")
    case (Inr r)
    obtain result d' where r: "r = (result, d')" by force
    then have "d' = d\<lparr>wd_base := wd_base d'\<rparr>" using Inr by (auto elim: apply_Inr)
    then have "wd_workflows d' = wd_workflows d" by (cases d) (metis workflow_db.select_convs(2) workflow_db.update_convs(1))
    then show ?thesis using Inr r LR_Apply by simp
  qed (simp add: LR_Apply)
  with assms(1) show ?thesis by (simp add: past_def)
next
  case (LR_Other rows base)
  with assms show ?thesis by (auto simp: past_def get_by_append get_by_absent split: option.splits)
qed

lemma run_keeps_past: "past v i d \<Longrightarrow> \<forall>q \<in> set qs. fresh_for i q \<Longrightarrow> past v i (library_run qs d)"
  unfolding library_run_def by (induction qs arbitrary: d) (auto intro: step_keeps_past)

text \<open>Only a deletion takes the workflow away.\<close>

lemma step_keeps_row:
  assumes "get_by wf_id i (wd_workflows d) \<noteq> None" and "\<forall>w. q \<noteq> LR_Delete i w"
  shows "get_by wf_id i (wd_workflows (library_step q d)) \<noteq> None"
proof (cases q)
  case (LR_Create e uid now user form)
  with assms(1) show ?thesis by (auto simp: create_workflow_def Let_def add_row_def get_by_append split: sum.split)
next
  case (LR_Update e uid now user form j)
  obtain r d' where u: "update_workflow e uid now user form j d = (r, d')" by force
  from update_get [OF u, of i] assms(1) LR_Update u show ?thesis by auto
next
  case (LR_Delete j w)
  with assms show ?thesis by (auto simp: delete_workflow_def get_by_del split: option.splits)
next
  case (LR_Apply e b form j)
  have "wd_workflows (library_step q d) = wd_workflows d"
    by (auto simp: LR_Apply apply_workflow_def Let_def bindE_def split: sum.split option.split)
  with assms(1) show ?thesis by simp
next
  case (LR_Other rows base)
  with assms(1) show ?thesis by (auto simp: get_by_append split: option.split)
qed

lemma run_keeps_row:
  "get_by wf_id i (wd_workflows d) \<noteq> None \<Longrightarrow> \<forall>w. LR_Delete i w \<notin> set qs \<Longrightarrow>
    get_by wf_id i (wd_workflows (library_run qs d)) \<noteq> None"
proof (unfold library_run_def, induction qs arbitrary: d)
  case (Cons q qs)
  have "get_by wf_id i (wd_workflows (library_step q d)) \<noteq> None" using Cons.prems by (intro step_keeps_row) auto
  with Cons show ?case by simp
qed simp

text \<open>A request under a revision that was passed is refused.\<close>

definition stale_edit :: string where
  "stale_edit = ''This workflow changed after it was opened. Reload it first.''"

lemma past_refused:
  assumes "past v i d"
  shows "ww_revision form = Some v \<Longrightarrow> update_workflow e uid now user form i d =
      (if get_by wf_id i (wd_workflows d) = None then Inr None else Inl (http 409 stale_edit), d)"
    and "delete_workflow i v d = (if get_by wf_id i (wd_workflows d) = None then Inr (False, d) else Inl (http 409 stale_edit))"
    and "ap_workflow_revision ap = v \<Longrightarrow> apply_workflow ae b ap i d =
      Inl (if get_by wf_id i (wd_workflows d) = None then http 404 ''Workflow not found.''
           else http 409 ''This workflow changed after review. Review it again.'')"
  using assms
  by (auto simp: past_def stale_edit_def update_workflow_def delete_workflow_def apply_workflow_def Let_def split: option.splits)

lemma update_is_past:
  assumes "update_workflow e uid now user form i d = (r, d')" and "d' \<noteq> d" and "ww_revision form = Some v"
  shows "past v i d'" and "get_by wf_id i (wd_workflows d') \<noteq> None"
proof -
  obtain row where "get_by wf_id i (wd_workflows d') = Some row" "ww_revision form = Some (wf_revision row - 1)"
    using assms(1,2) by (rule revision_used_up)
  with assms(3) show "past v i d'" and "get_by wf_id i (wd_workflows d') \<noteq> None" by (auto simp: past_def)
qed

subsection \<open>Normalization\<close>

lemma default_keys: "map fst (default_workflow_definition k) =
    [''progression_mode'', ''chat_mode'', ''consent_enabled'', ''items'', ''conditions'']"
  by (simp add: default_workflow_definition_def)

lemma put_key_fst: "k \<in> set (map fst m) \<Longrightarrow> map fst (put_key k v m) = map fst m"
  by (simp only: put_key_def map_fst_update set_map if_True)

lemma put_key_get: "jget (put_key k v m) k' = (if k' = k then v else jget m k')"
  by (simp add: put_key_def jget_def update_conv')

lemma put_key_same: "map_of m k = Some v \<Longrightarrow> put_key k v m = m"
  by (simp add: put_key_def update_same)

lemma normalize_Inr:
  assumes "normalize_definition uid (JObj m) = Inr n"
  obtains "is" cs where "jget (update_all (default_workflow_definition (uid DDefault)) m) ''items'' = JList is"
    "jget (update_all (default_workflow_definition (uid DDefault)) m) ''conditions'' = JList cs"
    "n = put_key ''conditions'' (JList (normalize_conditions uid 0 {} cs))
       (put_key ''items'' (JList (map normalize_item is)) (update_all (default_workflow_definition (uid DDefault)) m))"
    "\<not> list_ex has_memory (case get_or m ''conditions'' (JList []) of JList cs \<Rightarrow> cs | _ \<Rightarrow> [])"
  using assms by (auto simp: normalize_definition_def Let_def split: json.splits if_splits)

lemma default_no_memory: "\<not> has_memory (default_condition_json k)"
  by (simp add: has_memory_def default_condition_json_def)

lemma normalize_again:
  assumes n: "normalize_definition uid (JObj m) = Inr n" and m: "distinct (map fst m)"
    and fresh: "draws_fresh uid (conditions_of (update_all (default_workflow_definition (uid DDefault)) m))"
  shows "normalize_definition uid' (JObj n) = Inr n \<and> distinct (condition_keys (conditions_of n))"
proof -
  let ?d = "update_all (default_workflow_definition (uid DDefault)) m"
  obtain "is" cs where d: "jget ?d ''items'' = JList is" "jget ?d ''conditions'' = JList cs"
    and eq: "n = put_key ''conditions'' (JList (normalize_conditions uid 0 {} cs))
      (put_key ''items'' (JList (map normalize_item is)) ?d)"
    and memory: "\<not> list_ex has_memory (case get_or m ''conditions'' (JList []) of JList cs \<Rightarrow> cs | _ \<Rightarrow> [])"
    using n by (rule normalize_Inr)
  have some: "map_of ?d ''conditions'' = Some (JList cs)" "map_of ?d ''items'' = Some (JList is)"
    using d by (auto simp: jget_def split: option.splits)
  have cs: "conditions_of ?d = cs" using some by (simp add: conditions_of_def get_or_def)
  have keys: "''items'' \<in> set (map fst ?d)" "''conditions'' \<in> set (map fst ?d)"
    using map_of_SomeD [OF some(1)] map_of_SomeD [OF some(2)] by force+
  have fst_n: "map fst n = map fst ?d" unfolding eq
    by (rule trans [OF put_key_fst put_key_fst]) (simp_all only: put_key_fst [OF keys(1)] keys)
  obtain extra where extra: "map fst ?d = map fst (default_workflow_definition (uid DDefault)) @ extra"
    using update_all_keys by blast
  have "distinct (map fst ?d)" by (rule update_all_distinct) (simp add: default_keys)
  then have again: "update_all (default_workflow_definition (uid' DDefault)) n = n"
    by (intro update_all_fixed [of n _ extra]) (simp_all add: fst_n extra default_keys)
  note fixed = normalize_conditions_fixed [where all = cs and uid = uid and cs = cs and keys = "{}" and n = 0,
      OF fresh [unfolded cs] subset_refl, simplified]
  have of_n: "map_of n ''conditions'' = Some (JList (normalize_conditions uid 0 {} cs))"
    "map_of n ''items'' = Some (JList (map normalize_item is))"
    by (simp_all add: eq put_key_def update_conv')
  have "map_of ?d ''conditions'' = (case map_of m ''conditions'' of None \<Rightarrow> Some (JList [default_condition_json (uid DDefault)]) | v \<Rightarrow> v)"
    using m by (simp add: update_all_map_of default_workflow_definition_def split: option.split)
  then have "\<not> list_ex has_memory cs"
    using memory some(1) by (auto simp: get_or_def default_no_memory split: option.splits)
  then have "\<not> list_ex has_memory (normalize_conditions uid 0 {} cs)" using normalize_conditions_memory by blast
  moreover have "map normalize_item (map normalize_item is) = map normalize_item is"
    by (simp add: normalize_item_idem)
  ultimately have "normalize_definition uid' (JObj n) = Inr n"
    using of_n fixed by (simp add: normalize_definition_def get_or_def again jget_def put_key_same del: map_map)
  moreover have "distinct (condition_keys (conditions_of n))" using fixed of_n by (simp add: conditions_of_def get_or_def)
  ultimately show ?thesis by simp
qed

subsection \<open>Applying\<close>

lemma published_in: "latest_published g d = Some p \<Longrightarrow> p \<in> set (xd_plans d) \<and> pn_group_id p = g \<and> pn_status p = PN_PUBLISHED"
  unfolding latest_published_def by (drule first_order_desc_max) simp

lemma max_of_map: "map key xs = map key ys \<Longrightarrow> max_of key xs = max_of key ys"
proof -
  assume "map key xs = map key ys"
  moreover from this have "xs = [] \<longleftrightarrow> ys = []" by (metis map_is_Nil_conv)
  ultimately show ?thesis unfolding max_of_def by (simp only:)
qed

lemma supersede_versions: "newest_version g (supersede now p d) = newest_version g d"
proof (cases p)
  case (Some q)
  have "map pn_version (filter (\<lambda>p. pn_group_id p = g) (upd_by pn_id (pn_id q)
      (\<lambda>p. p\<lparr>pn_status := PN_SUPERSEDED, pn_updated_at := now\<rparr>) rows)) =
    map pn_version (filter (\<lambda>p. pn_group_id p = g) rows)" for rows
    by (induction rows) (auto simp: upd_by_def upd_rows_def)
  from max_of_map [OF this [of "xd_plans d"]] show ?thesis
    unfolding newest_version_def supersede_def Some option.case by simp
qed (simp add: newest_version_def supersede_def)

abbreviation is_published :: "string \<Rightarrow> plan_row \<Rightarrow> bool" where
  "is_published g p \<equiv> pn_group_id p = g \<and> pn_status p = PN_PUBLISHED"

lemma supersede_clears:
  assumes "length (filter (is_published g) (xd_plans d)) \<le> 1"
  shows "filter (is_published g) (xd_plans (supersede now (latest_published g d) d)) = []"
proof (cases "filter (is_published g) (xd_plans d)")
  case Nil
  then show ?thesis by (simp add: latest_published_def order_desc_def supersede_def)
next
  case (Cons p ps)
  then have one: "filter (is_published g) (xd_plans d) = [p]" using assms by simp
  then have "latest_published g d = Some p" by (simp add: latest_published_def order_desc_def)
  moreover have "q = p" if "q \<in> set (xd_plans d)" "is_published g q" for q
    using arg_cong [OF one, of set] that by auto
  ultimately show ?thesis
    by (auto simp: supersede_def filter_empty_conv upd_by_def upd_rows_def)
qed

text \<open>Superseding changes the published plan of the group and nothing else.\<close>

definition superseded :: "string \<Rightarrow> int \<Rightarrow> plan_row \<Rightarrow> plan_row" where
  "superseded g now p = (if is_published g p then p\<lparr>pn_status := PN_SUPERSEDED, pn_updated_at := now\<rparr> else p)"

lemma supersede_plans:
  assumes "length (filter (is_published g) (xd_plans d)) \<le> 1" and "distinct (map pn_id (xd_plans d))"
  shows "xd_plans (supersede now (latest_published g d) d) = map (superseded g now) (xd_plans d)"
proof (cases "filter (is_published g) (xd_plans d)")
  case Nil
  then have "map (superseded g now) (xd_plans d) = xd_plans d"
    by (intro map_idI) (auto simp: superseded_def filter_empty_conv)
  then show ?thesis using Nil by (simp add: latest_published_def order_desc_def supersede_def)
next
  case (Cons p ps)
  then have one: "filter (is_published g) (xd_plans d) = [p]" using assms by simp
  then have "latest_published g d = Some p" by (simp add: latest_published_def order_desc_def)
  moreover have "is_published g q \<longleftrightarrow> pn_id q = pn_id p" if "q \<in> set (xd_plans d)" for q
  proof
    assume "is_published g q"
    then show "pn_id q = pn_id p" using arg_cong [OF one, of set] that by auto
  next
    have p: "p \<in> set (xd_plans d)" "is_published g p" using arg_cong [OF one, of set] by auto
    assume "pn_id q = pn_id p"
    then have "q = p" using assms(2) p(1) that by (auto simp: distinct_map dest: inj_onD)
    then show "is_published g q" using p(2) by simp
  qed
  ultimately show ?thesis by (simp add: supersede_def upd_by_def upd_rows_def superseded_def)
qed

lemma supersede_ids: "map pn_id (xd_plans (supersede now p d)) = map pn_id (xd_plans d)"
  by (simp add: supersede_def map_upd_by split: option.split)

lemma supersede_other: "supersede now p d = d\<lparr>xd_plans := xd_plans (supersede now p d)\<rparr>"
  by (simp add: supersede_def split: option.split)

lemma newest_version_ge:
  assumes "p \<in> set (xd_plans d)" and "pn_group_id p = g"
  shows "pn_version p \<le> newest_version g d"
proof -
  obtain m where "max_of pn_version (filter (\<lambda>p. pn_group_id p = g) (xd_plans d)) = Some m" "pn_version p \<le> m"
    using max_of_ge [of p "filter (\<lambda>p. pn_group_id p = g) (xd_plans d)" pn_version] assms by auto
  then show ?thesis by (auto simp: newest_version_def or_int_def)
qed

lemma apply_effect:
  assumes "apply_workflow e b form i d = Inr (result, d')"
    and "length (filter (is_published (ap_group_id form)) (xd_plans (wd_base d))) \<le> 1"
    and "conditions_have_plans (wd_base d)"
  shows "\<exists>w plan. get_by wf_id i (wd_workflows d) = Some w \<and> wf_revision w = ap_workflow_revision form \<and>
      filter (is_published (ap_group_id form)) (xd_plans (wd_base d')) = [plan] \<and>
      pn_source_workflow_id plan = Some (wf_id w) \<and> pn_source_workflow_revision plan = Some (wf_revision w) \<and>
      xd_plans (wd_base d') = map (superseded (ap_group_id form) (ae_clock e 0)) (xd_plans (wd_base d)) @ [plan] \<and>
      (\<forall>p \<in> set (xd_plans (wd_base d)). pn_group_id p = ap_group_id form \<longrightarrow> pn_version p < pn_version plan) \<and>
      wd_workflows d' = wd_workflows d \<and> material_extends (wd_base d)
        ((wd_base d)\<lparr>xd_topics := xd_topics (wd_base d'), xd_questions := xd_questions (wd_base d'), xd_surveys := xd_surveys (wd_base d')\<rparr>) \<and>
      plan_tables_extend (wd_base d) (wd_base d') \<and>
      xd_sessions (wd_base d') = xd_sessions (wd_base d) \<and> xd_tasks (wd_base d') = xd_tasks (wd_base d)"
proof -
  let ?g = "ap_group_id form"
  obtain w c base where w: "get_by wf_id i (wd_workflows d) = Some w" "wf_revision w = ap_workflow_revision form"
    and copied: "copy_material e (wf_definition w) (wd_base d) = Inr (c, base)"
    and built: "build_plan e w ?g c (supersede (ae_clock e 0) (latest_published ?g (wd_base d)) base) = Inr (result, wd_base d')"
    and d': "d' = d\<lparr>wd_base := wd_base d'\<rparr>"
    using assms(1) by (rule apply_Inr)
  let ?s = "supersede (ae_clock e 0) (latest_published ?g (wd_base d)) base"
  have mat: "material_extends (wd_base d) base" using copied by (rule copy_material_extends)
  then have base: "base = (wd_base d)\<lparr>xd_topics := xd_topics base, xd_questions := xd_questions base, xd_surveys := xd_surveys base\<rparr>"
    by (simp only: material_extends_def)
  have plans: "xd_plans base = xd_plans (wd_base d)" by (subst base) simp
  have same: "latest_published ?g (wd_base d) = latest_published ?g base" by (simp add: latest_published_def plans)
  obtain plan where plan: "pn_source_workflow_id plan = Some (wf_id w)" "pn_source_workflow_revision plan = Some (wf_revision w)"
      "pn_group_id plan = ?g" "pn_status plan = PN_PUBLISHED" "pn_version plan = newest_version ?g ?s + 1"
    and ids: "distinct (map pn_id (xd_plans ?s))" and added: "xd_plans (wd_base d') = add_row plan (xd_plans ?s)" and tables: "plan_tables_extend ?s (wd_base d')"
    and rest: "wd_base d' = ?s\<lparr>xd_plans := xd_plans (wd_base d'), xd_items := xd_items (wd_base d'), xd_pools := xd_pools (wd_base d'),
      xd_conditions := xd_conditions (wd_base d'), xd_injections := xd_injections (wd_base d'),
      xd_warning_rows := xd_warning_rows (wd_base d'), xd_timings := xd_timings (wd_base d'), xd_scopes := xd_scopes (wd_base d')\<rparr>"
  proof (rule build_plan_Inr [OF built])
    have "xd_conditions ?s = xd_conditions (wd_base d)" by (subst supersede_other, simp, subst base) simp
    then show "conditions_have_plans ?s"
      using assms(3) arg_cong [OF supersede_ids [of "ae_clock e 0" "latest_published ?g (wd_base d)" base], of set]
      by (simp add: conditions_have_plans_def plans)
  qed
  have "filter (is_published ?g) (xd_plans (wd_base d')) = [plan]"
    using supersede_clears [of ?g base] assms(2) plan(3,4) by (simp add: added same plans add_row_def)
  moreover have "xd_plans (wd_base d') = map (superseded ?g (ae_clock e 0)) (xd_plans (wd_base d)) @ [plan]"
    using supersede_plans [of ?g base] assms(2) ids by (simp add: added same plans add_row_def supersede_ids)
  moreover have "newest_version ?g ?s = newest_version ?g (wd_base d)"
    by (simp add: supersede_versions) (simp add: newest_version_def plans)
  then have "\<forall>p \<in> set (xd_plans (wd_base d)). pn_group_id p = ?g \<longrightarrow> pn_version p < pn_version plan"
    using newest_version_ge plan(5) by fastforce
  moreover have "wd_workflows d' = wd_workflows d" by (subst d') simp
  moreover have keep: "xd_topics (wd_base d') = xd_topics base" "xd_questions (wd_base d') = xd_questions base"
      "xd_surveys (wd_base d') = xd_surveys base" "xd_sessions (wd_base d') = xd_sessions base" "xd_tasks (wd_base d') = xd_tasks base"
    by (subst rest, subst supersede_other, simp)+
  moreover have "plan_tables_extend (wd_base d) (wd_base d')"
  proof -
    have "plan_tables_extend base (wd_base d')" using tables by (simp add: plan_tables_extend_def) (subst (asm) supersede_other, simp)+
    then show ?thesis by (subst (asm) base) (simp add: plan_tables_extend_def)
  qed
  moreover have "xd_sessions base = xd_sessions (wd_base d)" "xd_tasks base = xd_tasks (wd_base d)" by (subst base, simp)+
  ultimately show ?thesis using w plan(1,2) mat base by auto
qed

subsection \<open>Definitions that are accepted and cannot be worked with\<close>

lemma mapE_Inr_member: "mapE f xs = Inr ys \<Longrightarrow> x \<in> set xs \<Longrightarrow> \<exists>y. f x = Inr y"
  by (induction xs arbitrary: ys) (auto simp: bindE_def split: sum.splits)

lemma condition_without_prompt:
  assumes "build_plan e w g c d = Inr r" and "JObj m \<in> set (conditions_of (wf_definition w))"
  shows "map_of m ''prompt_injection'' \<noteq> None"
proof -
  obtain keys cs where "mapE (applied_condition keys) (conditions_of (wf_definition w)) = Inr cs"
    using assms(1) by (auto simp: build_plan_def Let_def bindE_Inr_iff split: if_splits)
  from mapE_Inr_member [OF this assms(2)] show ?thesis
    by (auto simp: applied_condition_def as_object_def item_at_def bindE_Inr_iff split: option.splits)
qed

lemma apply_needs_prompt:
  assumes "get_by wf_id i (wd_workflows d) = Some w" and "JObj m \<in> set (conditions_of (wf_definition w))"
    and "map_of m ''prompt_injection'' = None"
  shows "isl (apply_workflow e b form i d)"
proof (cases "apply_workflow e b form i d")
  case (Inr r)
  obtain result d' where r: "r = (result, d')" by force
  from Inr [unfolded r] show ?thesis
  proof (rule apply_Inr)
    fix w' c base
    assume "get_by wf_id i (wd_workflows d) = Some w'"
      and "build_plan e w' (ap_group_id form) c
        (supersede (ae_clock e 0) (latest_published (ap_group_id form) (wd_base d)) base) = Inr (result, wd_base d')"
    with condition_without_prompt [of e w' "ap_group_id form" c] assms show ?thesis by fastforce
  qed
qed simp

text \<open>Every error of the issues of a workflow is the one of \<open>item.get\<close>.\<close>

lemma mapE_one_error:
  "\<forall>x \<in> set xs. \<forall>err. f x = Inl err \<longrightarrow> err = E \<Longrightarrow> mapE f xs = Inl err \<Longrightarrow> err = E"
  by (induction xs) (auto simp: bindE_def split: sum.splits)

lemma mapE_fails: "x \<in> set xs \<Longrightarrow> isl (f x) \<Longrightarrow> isl (mapE f xs)"
  by (induction xs) (auto simp: bindE_def split: sum.splits)

lemma budget_issues_error: "budget_issues e t task item = Inl err \<Longrightarrow> err = AttributeError"
  by (auto simp: budget_issues_def split: prod.splits json.splits)

lemma question_issues_error: "question_issues e b d m t = Inl err \<Longrightarrow> err = AttributeError"
  using mapE_one_error [of "enumerate 0 (items_of m)" "budget_issues e t task" AttributeError err for task]
    budget_issues_error
  by (auto simp: question_issues_def Let_def bindE_def split: option.splits sum.splits if_splits)

lemma model_error: "workflow_model_of e b d w = Inl err \<Longrightarrow> err = AttributeError"
  using mapE_one_error [of qs "question_issues e b d (wf_definition w)" AttributeError err for qs] question_issues_error
  by (auto simp: workflow_model_of_def validation_issues_def bindE_def split: prod.splits sum.splits)

definition usable_question :: "experiment_db \<Rightarrow> string \<Rightarrow> bool" where
  "usable_question d t \<longleftrightarrow> get_question_task t (xd_questions d) \<noteq> None \<and>
     (case get_by qt_id t (db_tasks (xd_questions d)) of None \<Rightarrow> False
      | Some r \<Rightarrow> \<not> qt_workflow_managed r \<and> qt_status r = QT_PUBLISHED)"

lemma question_issues_fails:
  assumes "usable_question d t" and "c \<in> set (items_of m)" and "\<forall>obj. c \<noteq> JObj obj"
  shows "isl (question_issues e b d m t)"
proof -
  obtain r task where r: "get_by qt_id t (db_tasks (xd_questions d)) = Some r" "get_question_task t (xd_questions d) = Some task"
    "\<not> qt_workflow_managed r" "qt_status r = QT_PUBLISHED" using assms(1) by (auto simp: usable_question_def split: option.splits)
  obtain n where "n < length (items_of m)" "items_of m ! n = c" using assms(2) by (auto simp: in_set_conv_nth)
  then have "(n, c) \<in> set (enumerate 0 (items_of m))" by (simp add: in_set_enumerate_eq)
  moreover have "isl (budget_issues e t task (n, c))" using assms(3) by (simp add: budget_issues_def split: json.split)
  ultimately have "isl (mapE (budget_issues e t task) (enumerate 0 (items_of m)))" by (rule mapE_fails)
  with r show ?thesis by (auto simp: question_issues_def Let_def bindE_def isl_def)
qed

lemma listing_fails:
  assumes "row \<in> set (wd_workflows d)" and "usable_question (wd_base d) t" and "JObj obj \<in> set (items_of (wf_definition row))"
    and "item_question obj = [t]" and "c \<in> set (items_of (wf_definition row))" and "\<forall>obj. c \<noteq> JObj obj"
  shows "list_workflows e b d = Inl AttributeError"
proof -
  obtain topics questions surveys where ids: "referenced_ids (wf_definition row) = (topics, questions, surveys)"
    using prod_cases3 by blast
  have "t \<in> (\<Union>item \<in> set (items_of (wf_definition row)). set (item_question (item_fields item)))"
    by (rule UN_I [OF assms(3)]) (simp add: item_fields_def assms(4))
  then have "t \<in> set questions" using ids by (auto simp: referenced_ids_def Let_def unique_list_def)
  then have "isl (mapE (question_issues e b (wd_base d) (wf_definition row)) questions)"
    by (rule mapE_fails) (rule question_issues_fails [OF assms(2,5,6)])
  then have "isl (workflow_model_of e b (wd_base d) row)"
    by (auto simp: workflow_model_of_def validation_issues_def ids bindE_def isl_def)
  moreover have "row \<in> set (order_desc wf_updated_at (wd_workflows d))" using assms(1) by (simp add: order_desc_def)
  ultimately have "isl (list_workflows e b d)" unfolding list_workflows_def by (intro mapE_fails)
  then obtain err where "list_workflows e b d = Inl err" by (auto simp: isl_def)
  with mapE_one_error [of _ "workflow_model_of e b (wd_base d)" AttributeError err] model_error show ?thesis
    unfolding list_workflows_def by metis
qed

end
