(* ===== verification/Workflow_Samples.thy ===== *)
theory Workflow_Samples
  imports Workflow_Claims Plan_Samples "HOL-Library.Monad_Syntax"
begin

text \<open>Concrete workflows with a concrete reader of plans, and the properties of the library with their
  witnesses.\<close>

subsection \<open>Reading a plan\<close>

text \<open>
  A concrete reader for the parameter \<open>workflow_env\<close>: the fields of \<open>ExperimentPlanForm\<close> and the forms
  in it, with their defaults and the fields they require. It is pydantic's reading without its
  conversions between types: a value of another type than the field's is refused. A form that forbids extra
  fields refuses them.
\<close>

definition rd_str :: "json \<Rightarrow> string option" where
  "rd_str v = (case v of JStr s \<Rightarrow> Some s | _ \<Rightarrow> None)"

definition rd_bool :: "json \<Rightarrow> bool option" where
  "rd_bool v = (case v of JBool b \<Rightarrow> Some b | _ \<Rightarrow> None)"

definition rd_num :: "json \<Rightarrow> rat option" where
  "rd_num v = (case v of JNum n \<Rightarrow> Some n | _ \<Rightarrow> None)"

definition rd_int :: "json \<Rightarrow> int option" where
  "rd_int v = (case v of JNum n \<Rightarrow> if of_int \<lfloor>n\<rfloor> = n then Some \<lfloor>n\<rfloor> else None | _ \<Rightarrow> None)"

definition rd_null :: "(json \<Rightarrow> 'a option) \<Rightarrow> json \<Rightarrow> 'a option option" where
  "rd_null r v = (if v = JNull then Some None else map_option Some (r v))"

definition rd_enum :: "(string \<times> 'a) list \<Rightarrow> json \<Rightarrow> 'a option" where
  "rd_enum names v = (case v of JStr s \<Rightarrow> map_of names s | _ \<Rightarrow> None)"

fun rd_all :: "('a \<Rightarrow> 'b option) \<Rightarrow> 'a list \<Rightarrow> 'b list option" where
  "rd_all r [] = Some []"
| "rd_all r (v # vs) = (case r v of None \<Rightarrow> None | Some x \<Rightarrow> map_option ((#) x) (rd_all r vs))"

definition rd_list :: "(json \<Rightarrow> 'a option) \<Rightarrow> json \<Rightarrow> 'a list option" where
  "rd_list r v = (case v of JList vs \<Rightarrow> rd_all r vs | _ \<Rightarrow> None)"

definition rd_obj :: "json \<Rightarrow> (string \<times> json) list option" where
  "rd_obj v = (case v of JObj m \<Rightarrow> Some m | _ \<Rightarrow> None)"

definition rd_only :: "string list \<Rightarrow> json \<Rightarrow> (string \<times> json) list option" where
  "rd_only ks v = (case v of JObj m \<Rightarrow> if fst ` set m \<subseteq> set ks then Some m else None | _ \<Rightarrow> None)"

text \<open>A required field, and one with a default.\<close>

definition must :: "(string \<times> json) list \<Rightarrow> string \<Rightarrow> (json \<Rightarrow> 'a option) \<Rightarrow> 'a option" where
  "must m k r = (case map_of m k of None \<Rightarrow> None | Some v \<Rightarrow> r v)"

definition may :: "(string \<times> json) list \<Rightarrow> string \<Rightarrow> 'a \<Rightarrow> (json \<Rightarrow> 'a option) \<Rightarrow> 'a option" where
  "may m k d r = (case map_of m k of None \<Rightarrow> Some d | Some v \<Rightarrow> r v)"

definition read_activation :: "json \<Rightarrow> activation_rule option" where
  "read_activation v = do {
     m \<leftarrow> rd_only [''mode'', ''count'', ''range_start'', ''range_end'', ''probability'', ''scope'', ''plan_item_ids''] v;
     mode \<leftarrow> may m ''mode'' EVERY_REQUEST (rd_enum [(''EVERY_REQUEST'', EVERY_REQUEST), (''FIRST_REQUEST'', FIRST_REQUEST),
       (''AFTER_PROMPT_COUNT'', AFTER_PROMPT_COUNT), (''EVERY_N_PROMPTS'', A_EVERY_N_PROMPTS), (''PROMPT_RANGE'', PROMPT_RANGE)]);
     count \<leftarrow> may m ''count'' None (rd_null rd_int);
     start \<leftarrow> may m ''range_start'' None (rd_null rd_int);
     stop \<leftarrow> may m ''range_end'' None (rd_null rd_int);
     probability \<leftarrow> may m ''probability'' 1 rd_num;
     scope \<leftarrow> may m ''scope'' ALL_TASKS (rd_enum [(''ALL_TASKS'', ALL_TASKS), (''SELECTED_TASKS'', SELECTED_TASKS)]);
     ids \<leftarrow> may m ''plan_item_ids'' [] (rd_list rd_str);
     Some \<lparr>ar_mode = mode, ar_count = count, ar_range_start = start, ar_range_end = stop, ar_probability = probability,
       ar_scope = scope, ar_plan_item_ids = ids\<rparr> }"

definition read_injection :: "json \<Rightarrow> prompt_injection option" where
  "read_injection v = do {
     m \<leftarrow> rd_only [''enabled'', ''instruction'', ''position'', ''activation''] v;
     enabled \<leftarrow> may m ''enabled'' False rd_bool;
     instruction \<leftarrow> may m ''instruction'' [] rd_str;
     position \<leftarrow> may m ''position'' SYSTEM (rd_enum [(''SYSTEM'', SYSTEM), (''BEFORE_PARTICIPANT'', BEFORE_PARTICIPANT),
       (''AFTER_PARTICIPANT'', AFTER_PARTICIPANT)]);
     activation \<leftarrow> may m ''activation'' default_activation read_activation;
     Some \<lparr>pi_enabled = enabled, pi_instruction = instruction, pi_position = position, pi_activation = activation\<rparr> }"

definition read_warning :: "json \<Rightarrow> warning_modal option" where
  "read_warning v = do {
     m \<leftarrow> rd_only [''enabled'', ''title'', ''message'', ''confirmation_text'', ''must_acknowledge'', ''cadence'', ''cadence_value'',
       ''prompt_numbers''] v;
     enabled \<leftarrow> may m ''enabled'' False rd_bool;
     title \<leftarrow> may m ''title'' (wm_title default_warning) rd_str;
     msg \<leftarrow> may m ''message'' (wm_message default_warning) rd_str;
     confirm \<leftarrow> may m ''confirmation_text'' (wm_confirmation_text default_warning) rd_str;
     acknowledge \<leftarrow> may m ''must_acknowledge'' True rd_bool;
     cadence \<leftarrow> may m ''cadence'' BEGINNING (rd_enum [(''BEGINNING'', BEGINNING), (''EVERY_N_PROMPTS'', W_EVERY_N_PROMPTS),
       (''PROMPT_LIST'', PROMPT_LIST), (''ONCE_AFTER_PROMPT'', ONCE_AFTER_PROMPT),
       (''EVERY_N_ACTIVE_MINUTES'', EVERY_N_ACTIVE_MINUTES), (''AFTER_ACTIVE_MINUTES'', AFTER_ACTIVE_MINUTES),
       (''ONCE_AFTER_ACTIVE_DELAY'', ONCE_AFTER_ACTIVE_DELAY)]);
     n \<leftarrow> may m ''cadence_value'' None (rd_null rd_int);
     numbers \<leftarrow> may m ''prompt_numbers'' [] (rd_list rd_int);
     Some \<lparr>wm_enabled = enabled, wm_title = title, wm_message = msg, wm_confirmation_text = confirm,
       wm_must_acknowledge = acknowledge, wm_cadence = cadence, wm_cadence_value = n, wm_prompt_numbers = numbers\<rparr> }"

definition read_timing :: "json \<Rightarrow> response_timing option" where
  "read_timing v = do {
     m \<leftarrow> rd_only [''mode'', ''delay_seconds'', ''show_loading'', ''reveal_style'', ''target_duration_seconds'', ''stream_unit'',
       ''minimum_chunk_size'', ''maximum_chunk_size'', ''punctuation_pauses'', ''rate_value'', ''rate_unit''] v;
     mode \<leftarrow> may m ''mode'' NORMAL (rd_enum [(''NORMAL'', NORMAL), (''DELAYED'', DELAYED), (''SLOW'', SLOW), (''FAST'', FAST)]);
     delay \<leftarrow> may m ''delay_seconds'' None (rd_null rd_num);
     loading \<leftarrow> may m ''show_loading'' True rd_bool;
     reveal_style \<leftarrow> may m ''reveal_style'' FULL (rd_enum [(''FULL'', FULL), (''QUICK_STREAM'', QUICK_STREAM)]);
     duration \<leftarrow> may m ''target_duration_seconds'' None (rd_null rd_num);
     unit \<leftarrow> may m ''stream_unit'' CHARACTER (rd_enum [(''CHARACTER'', CHARACTER), (''WORD'', WORD), (''CHUNK'', CHUNK)]);
     minimum \<leftarrow> may m ''minimum_chunk_size'' 1 rd_int;
     maximum \<leftarrow> may m ''maximum_chunk_size'' 20 rd_int;
     pauses \<leftarrow> may m ''punctuation_pauses'' False rd_bool;
     rate \<leftarrow> may m ''rate_value'' None (rd_null rd_num);
     rate_unit \<leftarrow> may m ''rate_unit'' CHARACTERS_PER_SECOND (rd_enum [(''CHARACTERS_PER_SECOND'', CHARACTERS_PER_SECOND),
       (''WORDS_PER_SECOND'', WORDS_PER_SECOND), (''TARGET_DURATION'', TARGET_DURATION)]);
     Some \<lparr>rt_mode = mode, rt_delay_seconds = delay, rt_show_loading = loading, rt_reveal_style = reveal_style,
       rt_target_duration_seconds = duration, rt_stream_unit = unit, rt_minimum_chunk_size = minimum,
       rt_maximum_chunk_size = maximum, rt_punctuation_pauses = pauses, rt_rate_value = rate, rt_rate_unit = rate_unit\<rparr> }"

definition read_condition :: "json \<Rightarrow> condition_form option" where
  "read_condition v = do {
     m \<leftarrow> rd_only [''id'', ''name'', ''allocation_percent'', ''enabled'', ''is_control'', ''prompt_injection'', ''warning_modal'',
       ''response_timing''] v;
     i \<leftarrow> may m ''id'' None (rd_null rd_str);
     name \<leftarrow> must m ''name'' rd_str;
     share \<leftarrow> must m ''allocation_percent'' rd_int;
     enabled \<leftarrow> may m ''enabled'' True rd_bool;
     control \<leftarrow> may m ''is_control'' False rd_bool;
     injection \<leftarrow> may m ''prompt_injection'' default_injection read_injection;
     warning \<leftarrow> may m ''warning_modal'' default_warning read_warning;
     timing \<leftarrow> may m ''response_timing'' default_timing read_timing;
     Some \<lparr>cd_id = i, cd_name = name, cd_allocation_percent = share, cd_enabled = enabled, cd_is_control = control,
       cd_prompt_injection = injection, cd_warning_modal = warning, cd_response_timing = timing\<rparr> }"

definition read_budget :: "json \<Rightarrow> prompt_budget option" where
  "read_budget v = do {
     m \<leftarrow> rd_only [''mode'', ''limit'', ''question_limits''] v;
     mode \<leftarrow> may m ''mode'' TASK_MODE (rd_enum [(''TASK'', TASK_MODE), (''PER_QUESTION'', PER_QUESTION)]);
     limit \<leftarrow> may m ''limit'' (Some 100) (rd_null rd_int);
     limits \<leftarrow> may m ''question_limits'' [] (\<lambda>v. do { m \<leftarrow> rd_obj v; rd_all (\<lambda>(k, v). map_option (Pair k) (rd_int v)) m });
     Some \<lparr>bmode = mode, blimit = limit, question_limits = limits\<rparr> }"

definition read_item :: "json \<Rightarrow> plan_item_form option" where
  "read_item v = do {
     m \<leftarrow> rd_obj v;
     i \<leftarrow> may m ''id'' None (rd_null rd_str);
     type \<leftarrow> must m ''task_type'' (rd_enum [(''ESSAY'', ESSAY), (''QUESTION'', QUESTION), (''SURVEY'', SURVEY)]);
     title \<leftarrow> must m ''title'' rd_str;
     budget \<leftarrow> may m ''llm_prompt_budget'' (Some LLMPromptBudget_default) (rd_null read_budget);
     question \<leftarrow> may m ''question_task_id'' None (rd_null rd_str);
     mode \<leftarrow> may m ''essay_topic_mode'' None (rd_null (rd_enum [(''SPECIFIC'', SPECIFIC), (''RANDOM_ALL'', RANDOM_ALL),
       (''RANDOM_SELECTED'', RANDOM_SELECTED)]));
     topic \<leftarrow> may m ''essay_topic_id'' None (rd_null rd_str);
     topics \<leftarrow> may m ''essay_topic_ids'' [] (rd_list rd_str);
     survey \<leftarrow> may m ''survey_task_id'' None (rd_null rd_str);
     required \<leftarrow> may m ''survey_required'' True rd_bool;
     enabled \<leftarrow> may m ''enabled'' True rd_bool;
     Some \<lparr>pf_id = i, pf_task_type = type, pf_title = title, pf_llm_prompt_budget = budget, pf_question_task_id = question,
       pf_essay_topic_mode = mode, pf_essay_topic_id = topic, pf_essay_topic_ids = topics, pf_survey_task_id = survey,
       pf_survey_required = required, pf_enabled = enabled\<rparr> }"

definition read_plan :: "json \<Rightarrow> plan_form option" where
  "read_plan v = do {
     m \<leftarrow> rd_obj v;
     progression \<leftarrow> may m ''progression_mode'' STRICT_SEQUENTIAL (rd_enum [(''STRICT_SEQUENTIAL'', STRICT_SEQUENTIAL),
       (''FREE_NAVIGATION'', FREE_NAVIGATION), (''SEQUENTIAL_REVIEW'', SEQUENTIAL_REVIEW)]);
     chat \<leftarrow> may m ''chat_mode'' SHARED_EXPERIMENT (rd_enum [(''SHARED_EXPERIMENT'', SHARED_EXPERIMENT),
       (''FRESH_PER_TASK'', FRESH_PER_TASK)]);
     consent \<leftarrow> may m ''consent_enabled'' True rd_bool;
     items \<leftarrow> must m ''items'' (rd_list read_item);
     conditions \<leftarrow> may m ''conditions'' [default_control_condition] (rd_list read_condition);
     Some \<lparr>fm_progression_mode = progression, fm_chat_mode = chat, fm_consent_enabled = consent, fm_items = items,
       fm_conditions = conditions\<rparr> }"

definition read_one :: workflow_env where
  "read_one = \<lparr>we_read_plan = (\<lambda>v. case read_plan v of None \<Rightarrow> Inl [issue [] ''Invalid input.''] | Some form \<Rightarrow> Inr form),
     we_read_budget = read_budget\<rparr>"

subsection \<open>Samples\<close>

definition seed_draws :: "workflow_draw \<Rightarrow> string" where
  "seed_draws x = (case x of DEmpty \<Rightarrow> ''e'' | DRow \<Rightarrow> ''w'' | DDefault \<Rightarrow> ''d'' | DGuess n \<Rightarrow> ''g'' @ nat_str n
     | DFresh n \<Rightarrow> ''f'' @ nat_str n)"

definition essay_item :: "string \<Rightarrow> string \<Rightarrow> plan_item_form" where
  "essay_item i topic = \<lparr>pf_id = Some i, pf_task_type = ESSAY, pf_title = ''t'', pf_llm_prompt_budget = Some default_prompt_budget,
     pf_question_task_id = None, pf_essay_topic_mode = Some SPECIFIC, pf_essay_topic_id = Some topic,
     pf_essay_topic_ids = [], pf_survey_task_id = None, pf_survey_required = True, pf_enabled = True\<rparr>"

definition essay_json :: json where
  "essay_json = JObj [(''key'', JStr ''k''), (''task_type'', JStr ''ESSAY''), (''title'', JStr ''t''),
     (''essay_topic_mode'', JStr ''SPECIFIC''), (''essay_topic_id'', JStr ''tp'')]"

definition bare_json :: "(string \<times> json) list" where
  "bare_json = [(''key'', JStr ''c''), (''name'', JStr ''c''), (''allocation_percent'', JNum 100), (''is_control'', JBool True)]"

definition bare_condition :: "(string \<times> json) list" where
  "bare_condition = [(''items'', JList [essay_json]), (''conditions'', JList [JObj bare_json])]"

definition essay_condition :: json where
  "essay_condition = JObj (bare_json @ [(''prompt_injection'', JObj [(''activation'', JObj [])])])"

definition one_essay :: "(string \<times> json) list" where
  "one_essay = [(''items'', JList [essay_json]), (''conditions'', JList [essay_condition])]"

definition workflow_of :: "(string \<times> json) list \<Rightarrow> workflow_form" where
  "workflow_of m = \<lparr>ww_name = ''n'', ww_description = [], ww_definition = m, ww_revision = Some 1\<rparr>"

definition library :: workflow_db where
  "library = \<lparr>wd_base = plan_store\<lparr>xd_topics := [\<lparr>to_id = ''tp'', to_title = ''T'', to_question = ''Q'', to_locked_at = None,
     to_workflow_managed = False, to_created_at = 0, to_updated_at = 0\<rparr>]\<rparr>, wd_workflows = []\<rparr>"

abbreviation store_workflow :: "(string \<times> json) list \<Rightarrow> workflow_db \<Rightarrow> (err + workflow_model) \<times> workflow_db" where
  "store_workflow m \<equiv> create_workflow read_one seed_draws 5 ''a'' (workflow_of m)"

definition sample_apply :: apply_env where
  "sample_apply = \<lparr>ae_workflow = read_one, ae_uid = (\<lambda>x. case x of AP_Plan DPlan \<Rightarrow> ''p'' | _ \<Rightarrow> ''x''), ae_clock = int,
     ae_copy_file = Inr, ae_fingerprint = (\<lambda>_ _. ''h'')\<rparr>"

definition apply_to_g :: apply_form where
  "apply_to_g = \<lparr>ap_group_id = ''g'', ap_workflow_revision = 1, ap_expected_current_plan_version = 1\<rparr>"

subsection \<open>A workflow of one essay\<close>

definition budgeted_essay :: "(string \<times> json) list" where
  "budgeted_essay = (case essay_json of JObj m \<Rightarrow> m @ [(''llm_prompt_budget'', default_budget_json)] | _ \<Rightarrow> [])"

definition essay_with :: "json list \<Rightarrow> (string \<times> json) list" where
  "essay_with conditions = [(''progression_mode'', JStr ''STRICT_SEQUENTIAL''), (''chat_mode'', JStr ''SHARED_EXPERIMENT''),
     (''consent_enabled'', JBool True), (''items'', JList [JObj budgeted_essay]), (''conditions'', JList conditions)]"

definition essay_definition :: "(string \<times> json) list" where
  "essay_definition = essay_with [essay_condition]"

definition essay_workflow :: workflow_row where
  "essay_workflow = \<lparr>wf_id = ''w'', wf_name = ''n'', wf_description = [], wf_definition = essay_definition, wf_revision = 1,
     wf_created_by = Some ''a'', wf_updated_by = Some ''a'', wf_created_at = 5, wf_updated_at = 5\<rparr>"

definition stored :: workflow_db where
  "stored = snd (store_workflow one_essay library)"

lemma stored_rows: "wd_workflows stored = [essay_workflow]" by code_simp


lemma library_empty: "wd_workflows library = []" "xd_topics (wd_base library) \<noteq> []"
  by (simp_all add: library_def)

lemma bare_normal: "normalize_definition seed_draws (JObj bare_condition) = Inr (essay_with [JObj bare_json])"
  by code_simp

lemma bare_expanded: "expand_random_all (wd_base library) (essay_with cs) = essay_with cs"
  by (simp add: expand_random_all_def essay_with_def expand_item_def budgeted_essay_def essay_json_def jget_def put_key_def Let_def)

lemma stored_base: "wd_base stored = wd_base library"
  by (simp add: stored_def create_workflow_def Let_def split: sum.split)

lemma essay_item_valid: "validate_item (essay_item i (t # ts)) = Inr (essay_item i (t # ts))"
proof -
  have s: "py_strip ''t'' = ''t''" "model_validate_budget default_prompt_budget = Inr default_prompt_budget" "bmode default_prompt_budget = TASK_MODE" by code_simp+
  show ?thesis unfolding validate_item_def by (simp add: essay_item_def s truthy_str_def)
qed

definition essay_control :: "string option \<Rightarrow> condition_form" where
  "essay_control i = default_control_condition\<lparr>cd_id := i, cd_name := ''c''\<rparr>"

lemma essay_control_valid: "validate_condition (essay_control i) = Inr (essay_control i)"
proof -
  have id: "validate_condition (c\<lparr>cd_id := i\<rparr>) = (case validate_condition c of Inl err \<Rightarrow> Inl err | Inr c \<Rightarrow> Inr (c\<lparr>cd_id := i\<rparr>))" for c
    by (auto simp: validate_condition_def bindE_def split: sum.split)
  have "validate_condition (essay_control None) = Inr (essay_control None)" by code_simp
  moreover have "essay_control i = (essay_control None)\<lparr>cd_id := i\<rparr>" by (simp add: essay_control_def)
  ultimately show ?thesis by (simp add: id)
qed

definition essay_form :: "string option \<Rightarrow> string \<Rightarrow> string \<Rightarrow> plan_form" where
  "essay_form c i topic = \<lparr>fm_progression_mode = STRICT_SEQUENTIAL, fm_chat_mode = SHARED_EXPERIMENT, fm_consent_enabled = True,
     fm_items = [essay_item i topic], fm_conditions = [essay_control c]\<rparr>"

lemma essay_form_valid: "validate_plan_form (essay_form c i (t # ts)) = Inr (essay_form c i (t # ts))"
proof -
  have "validate_plan (essay_form c i (t # ts)) = Inr (essay_form c i (t # ts))"
    by (simp add: validate_plan_def essay_form_def survey_inside_block_def essay_control_def default_control_condition_def
      default_injection_def default_activation_def Let_def) (simp add: essay_item_def)
  then show ?thesis
    by (simp add: validate_plan_form_def essay_item_valid essay_control_valid essay_form_def)
qed

text \<open>What the reader makes of the essay, with a condition that leaves out its prompt injection, with the
  default filled in, and with an empty activation.\<close>

definition default_injection_json :: json where
  "default_injection_json = JObj [(''enabled'', JBool False), (''instruction'', JStr []), (''position'', JStr ''SYSTEM''),
     (''activation'', JObj [(''mode'', JStr ''EVERY_REQUEST''), (''count'', JNull), (''range_start'', JNull),
        (''range_end'', JNull), (''probability'', JNum 1), (''scope'', JStr ''ALL_TASKS''), (''plan_item_ids'', JList [])])]"

definition filled_condition :: json where
  "filled_condition = JObj (put_key ''prompt_injection'' default_injection_json bare_json)"

abbreviation essay_plan :: "json list \<Rightarrow> json" where
  "essay_plan cs \<equiv> plan_json (essay_with cs) [JObj (mapped_item budgeted_essay)] (map condition_json cs)"

lemma essay_read:
  "read_plan (essay_plan [JObj bare_json]) = Some (essay_form (Some ''c'') ''k'' ''tp'')"
  "read_plan (essay_plan [filled_condition]) = Some (essay_form (Some ''c'') ''k'' ''tp'')"
  "read_plan (essay_plan [essay_condition]) = Some (essay_form (Some ''c'') ''k'' ''tp'')"
  by code_simp+

lemma essay_issues:
  assumes "read_plan (essay_plan conditions) = Some (essay_form (Some ''c'') ''k'' ''tp'')"
  shows "validation_issues read_one True (wd_base library) (essay_with conditions) = Inr []"
proof -
  have p: "plan_issues read_one (essay_plan conditions) = []" by (simp add: plan_issues_def read_one_def assms essay_form_valid)
  have t: "topic_issues (wd_base library) ''tp'' = []" by (simp add: topic_issues_def library_def)
  have c: "conditions_of (essay_with conditions) = conditions" "get_or (essay_with conditions) ''items'' j = JList [JObj budgeted_essay]"
    "get_or (essay_with conditions) ''conditions'' j = JList conditions" "items_of (essay_with conditions) = [JObj budgeted_essay]" for j
    by (simp_all add: conditions_of_def items_of_def get_or_def essay_with_def)
  have i: "item_issues 0 {} [JObj budgeted_essay] = ([], [JObj (mapped_item budgeted_essay)])"
    by (simp add: budgeted_essay_def essay_json_def jget_def mapped_item_def)
  have r: "referenced_ids (essay_with conditions) = ([''tp''], [], [])"
    by (simp add: referenced_ids_def c budgeted_essay_def essay_json_def item_fields_def item_topics_def item_question_def
      item_survey_def jget_def id_value_def unique_list_def)
  show ?thesis by (simp add: validation_issues_def r t validate_definition_def c i p del: item_issues.simps)
qed

definition essay_copies :: copies where
  "essay_copies = \<lparr>cp_topics = [(''tp'', ''x'')], cp_questions = [], cp_surveys = [], cp_inner = []\<rparr>"

definition copied_library :: experiment_db where
  "copied_library = (case copy_topic sample_apply ''tp'' (wd_base library) of Inr d \<Rightarrow> d | Inl _ \<Rightarrow> wd_base library)"

lemma copied_plans: "xd_plans copied_library = [published_plan]" "xd_items copied_library = []" "xd_pools copied_library = []"
  "xd_conditions copied_library = []" "xd_injections copied_library = []" "xd_warning_rows copied_library = []"
  "xd_timings copied_library = []" "xd_scopes copied_library = []"
  by (simp_all add: copied_library_def copy_topic_def library_def plan_store_def empty_store_def)

lemma essay_copied: "copy_material sample_apply essay_definition (wd_base library) = Inr (essay_copies, copied_library)"
proof -
  have t: "copy_topic sample_apply ''tp'' (wd_base library) = Inr copied_library"
    by (simp add: copied_library_def copy_topic_def library_def)
  show ?thesis
    by (simp add: copy_material_def referenced_ids_def items_of_def get_or_def essay_definition_def essay_with_def budgeted_essay_def essay_json_def
      item_fields_def item_topics_def item_question_def item_survey_def jget_def id_value_def unique_list_def t
      sort_less_def essay_copies_def Let_def) (simp add: sample_apply_def)
qed

definition essay_row :: item_row where
  "essay_row = \<lparr>it_id = ''x'', it_source_step_key = Some ''k'', it_plan_id = ''p'', it_position = 0, it_task_type = ESSAY,
     it_title = ''t'', it_llm_prompt_budget = Some default_prompt_budget, it_question_task_id = None,
     it_essay_topic_mode = Some SPECIFIC, it_essay_topic_id = Some ''x'', it_survey_task_id = None, it_survey_required = True,
     it_enabled = True\<rparr>"

lemma essay_item_applied: "applied_item sample_apply essay_copies ''p'' (0, budgeted_essay) = Inr (essay_row, [])"
  by code_simp

text \<open>At the application the item has a new row, the topic is the copy, and the condition has no id.\<close>

definition applied_essay :: json where
  "applied_essay = (case applied_condition [(''k'', ''x'')] essay_condition of Inr c \<Rightarrow> c | Inl _ \<Rightarrow> JNull)"

lemma essay_condition_applied: "applied_condition [(''k'', ''x'')] essay_condition = Inr applied_essay"
proof -
  have "\<not> isl (applied_condition [(''k'', ''x'')] essay_condition)" by code_simp
  then show ?thesis by (auto simp: applied_essay_def isl_def split: sum.splits)
qed

lemma applied_read: "read_plan (plan_json essay_definition [saved_item_json essay_copies (essay_row, budgeted_essay)] [applied_essay]) =
    Some (essay_form None ''x'' ''x'')"
  by code_simp

definition new_plan :: plan_row where
  "new_plan = \<lparr>pn_id = ''p'', pn_source_workflow_id = Some ''w'', pn_source_workflow_name = Some ''n'',
     pn_source_workflow_revision = Some 1, pn_workflow_origin = Some ''recorded'', pn_configuration_fingerprint = None,
     pn_group_id = ''g'', pn_version = 2, pn_status = PN_PUBLISHED, pn_progression_mode = STRICT_SEQUENTIAL,
     pn_chat_mode = SHARED_EXPERIMENT, pn_survey_variant = ESSAY_VARIANT, pn_consent_enabled = True, pn_locked_at = None,
     pn_created_at = 0, pn_updated_at = 0\<rparr>"

lemma essay_plan_applied:
  "applied_plan sample_apply essay_workflow ''g'' [budgeted_essay] (supersede 0 (Some published_plan) copied_library) = Inr new_plan"
  by (simp add: applied_plan_def essay_workflow_def essay_definition_def essay_with_def get_or_def as_progression_def as_chat_mode_def as_bool_def
    new_plan_def sample_apply_def variant_of_items_def budgeted_essay_def essay_json_def jget_def supersede_def copied_plans
    published_plan_def or_int_def)


definition essay_stored :: experiment_db where
  "essay_stored = (let d = supersede 0 (Some published_plan) copied_library in
     d\<lparr>xd_plans := add_row new_plan (xd_plans d), xd_items := xd_items d @ [essay_row], xd_pools := xd_pools d\<rparr>)"

lemma essay_stored_fields: "xd_plans essay_stored = [published_plan\<lparr>pn_status := PN_SUPERSEDED, pn_updated_at := 0\<rparr>, new_plan]"
  "xd_items essay_stored = [essay_row]" "xd_pools essay_stored = []"
  "xd_conditions essay_stored = []" "xd_injections essay_stored = []" "xd_warning_rows essay_stored = []"
  "xd_timings essay_stored = []" "xd_scopes essay_stored = []"
  by (simp_all add: essay_stored_def supersede_def copied_plans add_row_def Let_def published_plan_def)

definition essay_saved :: experiment_db where
  "essay_saved = save_conditions (\<lambda>x. ae_uid sample_apply (AP_Plan x)) (ae_clock sample_apply 3) ''p'' (fm_conditions (essay_form None ''x'' ''x''))
     (zip (fm_items (essay_form None ''x'' ''x'')) [''x'']) True essay_stored"

lemma essay_keys: "plan_keys essay_stored" "plan_keys essay_saved"
  by (simp_all add: plan_keys_def essay_saved_def save_conditions_def essay_stored_fields Let_def new_plan_def published_plan_def
    essay_form_def new_scopes_def essay_control_def default_control_condition_def default_injection_def default_activation_def)

text \<open>The steps of building a plan, for computing it one at a time.\<close>

lemma build_plan_steps:
  assumes "mapE as_object (items_of (wf_definition w)) = Inr items" and "applied_plan e w g items d = Inr plan"
    and "mapE (applied_item e c (pn_id plan)) (enumerate 0 items) = Inr rows"
    and "d1 = d\<lparr>xd_plans := add_row plan (xd_plans d), xd_items := xd_items d @ map fst rows,
      xd_pools := xd_pools d @ concat (map snd rows)\<rparr>" and "plan_keys d1"
    and "mapE (applied_condition (rev (map (\<lambda>(row, _). (case it_source_step_key row of None \<Rightarrow> [] | Some k \<Rightarrow> k, it_id row)) rows)))
      (conditions_of (wf_definition w)) = Inr cs"
    and "we_read_plan (ae_workflow e) (plan_json (wf_definition w) (map (saved_item_json c) (zip (map fst rows) items)) cs) = Inr form"
    and "validate_plan_form form = Inr valid"
    and "d2 = save_conditions (\<lambda>x. ae_uid e (AP_Plan x)) (ae_clock e 3) (pn_id plan) (fm_conditions valid)
      (zip (fm_items valid) (map (\<lambda>(row, _). it_id row) rows)) True d1" and "plan_keys d2"
    and "d3 = (let d = source_keys (pn_id plan) (conditions_of (wf_definition w)) d2 in
      d\<lparr>xd_plans := upd_by pn_id (pn_id plan)
        (\<lambda>p. p\<lparr>pn_configuration_fingerprint := Some (ae_fingerprint e (pn_id plan) d)\<rparr>) (xd_plans d)\<rparr>)"
    and "get_plan (pn_id plan) d3 = Inr r"
  shows "build_plan e w g c d = Inr (r, d3)"
proof -
  note s = assms(4, 9, 11) [symmetric, unfolded Let_def]
  show ?thesis
    unfolding build_plan_def Let_def assms(1-3) bindE_simps s(1) assms(6-8) sum.case s(2) s(3) assms(12)
    using assms(5,10) by simp
qed

definition essay_final :: experiment_db where
  "essay_final = (source_keys ''p'' [essay_condition] essay_saved)\<lparr>xd_plans :=
     [published_plan\<lparr>pn_status := PN_SUPERSEDED, pn_updated_at := 0\<rparr>, new_plan\<lparr>pn_configuration_fingerprint := Some ''h''\<rparr>]\<rparr>"

lemma essay_final_read: "\<not> isl (get_plan ''p'' essay_final)"
  by code_simp

lemma essay_built:
  "\<exists>r. build_plan sample_apply essay_workflow ''g'' essay_copies (supersede 0 (Some published_plan) copied_library) = Inr (r, essay_final)"
proof -
  have 1: "items_of essay_definition = [JObj budgeted_essay]" "conditions_of essay_definition = [essay_condition]"
    by (simp_all add: items_of_def conditions_of_def get_or_def essay_definition_def essay_with_def)
  have 2: "wf_definition essay_workflow = essay_definition" "pn_id new_plan = ''p''" "it_id essay_row = ''x''"
    by (simp_all add: essay_workflow_def new_plan_def essay_row_def)
  have 3: "as_object (JObj budgeted_essay) = Inr budgeted_essay" by (simp add: as_object_def)
  have key: "it_source_step_key essay_row = Some ''k''" by (simp add: essay_row_def)
  have 4: "we_read_plan (ae_workflow sample_apply) (plan_json essay_definition [saved_item_json essay_copies (essay_row, budgeted_essay)]
      [applied_essay]) = Inr (essay_form None ''x'' ''x'')" by (simp add: sample_apply_def read_one_def applied_read)
  have 5: "upd_by pn_id ''p'' (\<lambda>p. p\<lparr>pn_configuration_fingerprint := Some (ae_fingerprint sample_apply ''p'' D)\<rparr>) (xd_plans essay_saved) =
      [published_plan\<lparr>pn_status := PN_SUPERSEDED, pn_updated_at := 0\<rparr>, new_plan\<lparr>pn_configuration_fingerprint := Some ''h''\<rparr>]" for D
    by (simp add: essay_saved_def save_conditions_def essay_stored_fields published_plan_def new_plan_def sample_apply_def Let_def)
  have 6: "xd_plans (source_keys p cs d) = xd_plans d" for p cs d by (simp add: source_keys_def Let_def)
  obtain r where r: "get_plan ''p'' essay_final = Inr r" using essay_final_read by (cases "get_plan ''p'' essay_final") auto
  show ?thesis
  proof (rule exI, rule build_plan_steps)
    show "mapE as_object (items_of (wf_definition essay_workflow)) = Inr [budgeted_essay]" by (simp add: 1 2 3 bindE_simps)
    show "applied_plan sample_apply essay_workflow ''g'' [budgeted_essay] (supersede 0 (Some published_plan) copied_library) = Inr new_plan"
      by (rule essay_plan_applied)
    show "mapE (applied_item sample_apply essay_copies (pn_id new_plan)) (enumerate 0 [budgeted_essay]) = Inr [(essay_row, [])]"
      by (simp add: 2 essay_item_applied)
    show "mapE (applied_condition (rev (map (\<lambda>(row, _). (case it_source_step_key row of None \<Rightarrow> [] | Some k \<Rightarrow> k, it_id row)) [(essay_row, [])])))
      (conditions_of (wf_definition essay_workflow)) = Inr [applied_essay]" by (simp add: 1 2 key essay_condition_applied)
    show "we_read_plan (ae_workflow sample_apply) (plan_json (wf_definition essay_workflow)
        (map (saved_item_json essay_copies) (zip (map fst [(essay_row, [])]) [budgeted_essay])) [applied_essay]) = Inr (essay_form None ''x'' ''x'')" by (simp add: 2 4)
    show "validate_plan_form (essay_form None ''x'' ''x'') = Inr (essay_form None ''x'' ''x'')" by (rule essay_form_valid)
    show "essay_stored = (supersede 0 (Some published_plan) copied_library)\<lparr>xd_plans := add_row new_plan (xd_plans (supersede 0 (Some published_plan) copied_library)),
        xd_items := xd_items (supersede 0 (Some published_plan) copied_library) @ map fst [(essay_row, [])],
        xd_pools := xd_pools (supersede 0 (Some published_plan) copied_library) @ concat (map snd [(essay_row, [])])\<rparr>"
      by (simp add: essay_stored_def Let_def)
    show "essay_saved = save_conditions (\<lambda>x. ae_uid sample_apply (AP_Plan x)) (ae_clock sample_apply 3) (pn_id new_plan) (fm_conditions (essay_form None ''x'' ''x''))
      (zip (fm_items (essay_form None ''x'' ''x'')) (map (\<lambda>(row, _). it_id row) [(essay_row, [])])) True essay_stored"
      by (simp add: essay_saved_def 2)
    show "plan_keys essay_stored" "plan_keys essay_saved" by (rule essay_keys)+
    show "essay_final = (let d = source_keys (pn_id new_plan) (conditions_of (wf_definition essay_workflow)) essay_saved in
      d\<lparr>xd_plans := upd_by pn_id (pn_id new_plan)
        (\<lambda>p. p\<lparr>pn_configuration_fingerprint := Some (ae_fingerprint sample_apply (pn_id new_plan) d)\<rparr>) (xd_plans d)\<rparr>)"
      by (simp add: 1 2 5 6 essay_final_def Let_def)
    show "get_plan (pn_id new_plan) essay_final = Inr r" by (simp add: r 2)
  qed
qed
subsection \<open>No lost update\<close>

text \<open>
  C9. A successful update of a workflow uses up the revision it was made for, for good: whatever
  requests follow, of any user and with any outcome (creations, updates, deletions, applications, and
  changes of the rest of the program), an update, a deletion or an application under that revision changes
  nothing and is refused, with 409, or as one of a workflow that does not exist (404) where a later request deleted it.
  The ids drawn for new workflows are fresh.
\<close>

theorem no_lost_update:
  assumes "update_workflow e uid now user form i d = (r, d')" and "d' \<noteq> d" and "ww_revision form = Some v"
    and "\<forall>q \<in> set later. fresh_for i q"
    and "ww_revision form' = Some v" and "ap_workflow_revision ap = v"
  shows "let s = library_run later d'; gone = (get_by wf_id i (wd_workflows s) = None) in
    update_workflow e' uid' now' user' form' i s = (if gone then Inr None else Inl (http 409 stale_edit), s) \<and>
    delete_workflow i v s = (if gone then Inr (False, s) else Inl (http 409 stale_edit)) \<and>
    apply_workflow ae b ap i s = Inl (if gone then http 404 ''Workflow not found.''
      else http 409 ''This workflow changed after review. Review it again.'') \<and>
    (gone \<longrightarrow> (\<exists>w. LR_Delete i w \<in> set later))"
proof -
  have "past v i (library_run later d')"
    by (rule run_keeps_past [OF update_is_past(1) [OF assms(1-3)] assms(4)])
  note refused = past_refused [OF this]
  have "get_by wf_id i (wd_workflows (library_run later d')) = None \<longrightarrow> (\<exists>w. LR_Delete i w \<in> set later)"
    using run_keeps_row [OF update_is_past(2) [OF assms(1-3)]] by blast
  with refused(1) [OF assms(5)] refused(2) refused(3) [OF assms(6)] show ?thesis by (simp add: Let_def)
qed

definition updated :: "(err + workflow_model option) \<times> workflow_db" where
  "updated = update_workflow read_one seed_draws 6 ''b'' (workflow_of bare_condition) ''w'' stored"

text \<open>Another update and an application follow; then the first user tries again.\<close>

definition later_requests :: "library_request list" where
  "later_requests = [LR_Update read_one seed_draws 8 ''b'' ((workflow_of one_essay)\<lparr>ww_revision := Some 2\<rparr>) ''w'',
     LR_Apply sample_apply True (apply_to_g\<lparr>ap_workflow_revision := 3\<rparr>) ''w'',
     LR_Create read_one (\<lambda>_. ''other'') 9 ''b'' (workflow_of one_essay)]"

theorem no_lost_update_witness:
  "update_workflow read_one seed_draws 10 ''a'' (workflow_of one_essay) ''w'' (library_run later_requests (snd updated)) =
      (Inl (http 409 stale_edit), library_run later_requests (snd updated)) \<and>
    delete_workflow ''w'' 1 (library_run later_requests (snd updated)) = Inl (http 409 stale_edit) \<and>
    apply_workflow sample_apply True apply_to_g ''w'' (library_run later_requests (snd updated)) =
      Inl (http 409 ''This workflow changed after review. Review it again.'')"
proof -
  have "map wf_revision (wd_workflows (snd updated)) = [2]"
    by (simp add: updated_def update_workflow_def stored_rows bare_normal workflow_of_def essay_workflow_def Let_def)
  moreover have "map wf_revision (wd_workflows stored) = [1]" by (simp add: stored_rows) (simp add: essay_workflow_def)
  ultimately have "snd updated \<noteq> stored" by auto
  moreover have "update_workflow read_one seed_draws 6 ''b'' (workflow_of bare_condition) ''w'' stored = (fst updated, snd updated)"
    by (simp only: updated_def prod.collapse)
  moreover have "ww_revision (workflow_of one_essay) = Some 1"
    "ww_revision (workflow_of bare_condition) = Some 1" "ap_workflow_revision apply_to_g = 1"
    by (simp_all add: workflow_of_def apply_to_g_def)
  moreover have "\<forall>q \<in> set later_requests. fresh_for ''w'' q" by (simp add: later_requests_def)
  moreover have "\<forall>w. LR_Delete ''w'' w \<notin> set later_requests" by (simp add: later_requests_def)
  ultimately show ?thesis
    using no_lost_update [of read_one seed_draws 6 "''b''" "workflow_of bare_condition" "''w''" stored "fst updated" "snd updated" 1
      later_requests "workflow_of one_essay" apply_to_g read_one seed_draws 10 "''a''" sample_apply True]
    unfolding Let_def by auto
qed

subsection \<open>Normalization\<close>

text \<open>
  C33. A normalized definition is a fixed point of normalization under any later draws, and its
  conditions have distinct keys; the definition is a JSON object, whose keys are distinct, and the
  fresh identifiers drawn are not among those it holds.
\<close>

theorem normalization_settles:
  assumes "normalize_definition uid (JObj m) = Inr n" and "distinct (map fst m)"
    and "draws_fresh uid (conditions_of (update_all (default_workflow_definition (uid DDefault)) m))"
  shows "normalize_definition uid' (JObj n) = Inr n \<and> distinct (condition_keys (conditions_of n))"
  by (rule normalize_again [OF assms])

definition twins :: "(string \<times> json) list" where
  "twins = [(''conditions'', JList [JObj [(''key'', JStr ''c'')], JObj [(''id'', JStr ''c'')], JObj []])]"

definition long_draws :: "workflow_draw \<Rightarrow> string" where
  "long_draws x = (case x of DFresh n \<Rightarrow> replicate (n + 2) CHR ''x'' | _ \<Rightarrow> ''y'')"

theorem normalization_settles_witness:
  "\<exists>n. normalize_definition long_draws (JObj twins) = Inr n \<and> normalize_definition seed_draws (JObj n) = Inr n \<and>
     condition_keys (conditions_of n) = [JStr ''c'', JStr ''xxx'', JStr ''y''] \<and> distinct (condition_keys (conditions_of n))"
proof -
  obtain n where n: "normalize_definition long_draws (JObj twins) = Inr n"
    and keys: "condition_keys (conditions_of n) = [JStr ''c'', JStr ''xxx'', JStr ''y'']"
  proof -
    have "(case normalize_definition long_draws (JObj twins) of Inl _ \<Rightarrow> False
        | Inr n \<Rightarrow> condition_keys (conditions_of n) = [JStr ''c'', JStr ''xxx'', JStr ''y''])" by code_simp
    then show ?thesis using that by (simp split: sum.splits)
  qed
  have "conditions_of (update_all (default_workflow_definition (long_draws DDefault)) twins) =
      [JObj [(''key'', JStr ''c'')], JObj [(''id'', JStr ''c'')], JObj []]" by code_simp
  then have "draws_fresh long_draws (conditions_of (update_all (default_workflow_definition (long_draws DDefault)) twins))"
    by (auto simp: draws_fresh_def long_draws_def item_fields_def jget_def) 
  moreover have "distinct (map fst twins)" by (simp add: twins_def)
  ultimately have "normalize_definition seed_draws (JObj n) = Inr n \<and> distinct (condition_keys (conditions_of n))"
    by (intro normalization_settles [OF n])
  with n keys show ?thesis by blast
qed

subsection \<open>Applying\<close>

text \<open>
  C8. Applying a workflow leaves the group with exactly one published plan: a new version above all
  others that names the workflow and the revision that was reviewed. The group had at most one
  published plan before, and every condition names an existing plan. The rows of plans stay in place and
  as they are, those of other groups included, but for the published plan of the group, whose status
  becomes superseded; the new plan is added after them. What participants already answer to is
  untouched: the material, the plan items and the conditions are only added to, and sessions and their
  tasks stay as they are.
\<close>

theorem apply_publishes_next_version:
  assumes "apply_workflow e b form i d = Inr (result, d')"
    and "length (filter (is_published (ap_group_id form)) (xd_plans (wd_base d))) \<le> 1"
    and "conditions_have_plans (wd_base d)"
  shows "\<exists>w plan. get_by wf_id i (wd_workflows d) = Some w \<and> wf_revision w = ap_workflow_revision form \<and>
      filter (is_published (ap_group_id form)) (xd_plans (wd_base d')) = [plan] \<and>
      pn_source_workflow_id plan = Some (wf_id w) \<and> pn_source_workflow_revision plan = Some (wf_revision w) \<and>
      xd_plans (wd_base d') = map (superseded (ap_group_id form) (ae_clock e 0)) (xd_plans (wd_base d)) @ [plan] \<and>
      (\<forall>p \<in> set (xd_plans (wd_base d)). pn_group_id p = ap_group_id form \<longrightarrow> pn_version p < pn_version plan) \<and>
      wd_workflows d' = wd_workflows d \<and> material_extends (wd_base d)
        ((wd_base d)\<lparr>xd_topics := xd_topics (wd_base d'), xd_questions := xd_questions (wd_base d'), xd_surveys := xd_surveys (wd_base d')\<rparr>) \<and>
      plan_tables_extend (wd_base d) (wd_base d') \<and>
      xd_sessions (wd_base d') = xd_sessions (wd_base d) \<and> xd_tasks (wd_base d') = xd_tasks (wd_base d)"
  by (rule apply_effect [OF assms])

lemma apply_sample: "\<exists>r. apply_workflow sample_apply True apply_to_g ''w'' stored = Inr (r, stored\<lparr>wd_base := essay_final\<rparr>)"
proof -
  obtain r where r: "build_plan sample_apply essay_workflow ''g'' essay_copies (supersede 0 (Some published_plan) copied_library) =
      Inr (r, essay_final)" using essay_built by blast
  have "latest_published ''g'' (wd_base library) = Some published_plan"
    by (simp add: latest_published_def library_def plan_store_def order_desc_def) (simp add: published_plan_def)
  moreover have "''g'' \<in> set (map fst (xd_groups (wd_base library)))" by (simp add: library_def plan_store_def empty_store_def)
  moreover have "wf_id essay_workflow = ''w''" "wf_revision essay_workflow = 1" "wf_definition essay_workflow = essay_definition"
    "pn_version published_plan = 1" "ae_workflow sample_apply = read_one" "ae_clock sample_apply 0 = 0"
    by (simp_all add: essay_workflow_def published_plan_def sample_apply_def)
  ultimately show ?thesis
    using r by (simp add: apply_workflow_def stored_rows stored_base apply_to_g_def essay_copied
        essay_issues [OF essay_read(3), folded essay_definition_def] Let_def)
qed

theorem apply_publishes_next_version_witness:
  "\<exists>result d' plan. apply_workflow sample_apply True apply_to_g ''w'' stored = Inr (result, d') \<and>
     filter (is_published ''g'') (xd_plans (wd_base d')) = [plan] \<and> 1 < pn_version plan \<and>
     pn_source_workflow_id plan = Some ''w'' \<and>
     xd_plans (wd_base d') = [published_plan\<lparr>pn_status := PN_SUPERSEDED, pn_updated_at := 0\<rparr>, plan]"
proof -
  obtain r where r: "apply_workflow sample_apply True apply_to_g ''w'' stored = Inr (r, stored\<lparr>wd_base := essay_final\<rparr>)"
    using apply_sample by blast
  have g: "ap_group_id apply_to_g = ''g''" by (simp add: apply_to_g_def)
  have old: "xd_plans (wd_base stored) = [published_plan]" "pn_version published_plan = 1" "is_published ''g'' published_plan"
    by (simp_all add: stored_base library_def plan_store_def) (simp_all add: published_plan_def)
  then have "length (filter (is_published (ap_group_id apply_to_g)) (xd_plans (wd_base stored))) \<le> 1" by (simp add: g)
  moreover have "conditions_have_plans (wd_base stored)"
    by (simp add: conditions_have_plans_def stored_base library_def plan_store_def empty_store_def)
  ultimately have effect: "length (filter (is_published (ap_group_id apply_to_g)) (xd_plans (wd_base stored))) \<le> 1"
    "conditions_have_plans (wd_base stored)" by blast+
  from apply_publishes_next_version [OF r effect] obtain w plan where w: "get_by wf_id ''w'' (wd_workflows stored) = Some w"
    "filter (is_published ''g'') (xd_plans essay_final) = [plan]" "pn_source_workflow_id plan = Some (wf_id w)"
    "xd_plans essay_final = map (superseded ''g'' (ae_clock sample_apply 0)) (xd_plans (wd_base stored)) @ [plan]"
    "\<forall>p \<in> set (xd_plans (wd_base stored)). pn_group_id p = ''g'' \<longrightarrow> pn_version p < pn_version plan"
    unfolding g by auto
  have "1 < pn_version plan" "wf_id w = ''w''" using w(5) old get_by_Some [OF w(1)] by auto
  moreover have "xd_plans essay_final = [published_plan\<lparr>pn_status := PN_SUPERSEDED, pn_updated_at := 0\<rparr>, plan]"
    using w(4) old by (simp add: superseded_def sample_apply_def)
  ultimately show ?thesis using r w(2,3) by auto
qed

subsection \<open>Two definitions that block the library\<close>

text \<open>Whether a condition leaves out its prompt injection or has the default one is the same to the plan form
  (its field has a default factory).\<close>

definition fills_injection :: "workflow_env \<Rightarrow> bool" where
  "fills_injection e \<longleftrightarrow> (\<forall>m items cs1 c c' cs2.
     map_of c ''prompt_injection'' = None \<and> map_of c' = (map_of c)(''prompt_injection'' \<mapsto> default_injection_json) \<longrightarrow>
     we_read_plan e (plan_json m items (cs1 @ JObj c # cs2)) = we_read_plan e (plan_json m items (cs1 @ JObj c' # cs2)))"

definition with_conditions :: "json list \<Rightarrow> (string \<times> json) list \<Rightarrow> (string \<times> json) list" where
  "with_conditions cs m = put_key ''conditions'' (JList cs) m"

lemma with_conditions_get: "get_or (with_conditions cs m) k j = (if k = ''conditions'' then JList cs else get_or m k j)"
  by (simp add: with_conditions_def put_key_def get_or_def update_conv')

lemma issues_filled:
  assumes "fills_injection e" and "conditions_of m = cs1 @ JObj c # cs2" and "map_of c ''prompt_injection'' = None"
  shows "validation_issues e b d (with_conditions (cs1 @ JObj (put_key ''prompt_injection'' default_injection_json c) # cs2) m) =
    validation_issues e b d m"
proof -
  let ?fill = "put_key ''prompt_injection'' default_injection_json"
  let ?m = "with_conditions (cs1 @ JObj (?fill c) # cs2) m"
  let ?id = "\<lambda>m. put_key ''id'' (first_truthy [jget m ''key'', jget m ''id'']) (AList.delete ''key'' m)"
  have items: "items_of ?m = items_of m" by (simp add: items_of_def with_conditions_get)
  have q: "question_issues e b d ?m = question_issues e b d m" by (intro ext) (simp only: question_issues_def items)
  have r: "referenced_ids ?m = referenced_ids m" by (simp add: referenced_ids_def items)
  have c: "conditions_of ?m = cs1 @ JObj (?fill c) # cs2" by (simp add: conditions_of_def with_conditions_get)
  have array: "\<exists>cs. get_or m ''conditions'' (JList []) = JList cs"
    using assms(2) by (auto simp: conditions_of_def split: json.splits)
  have "map_of (?id (?fill c)) = (map_of (?id c))(''prompt_injection'' \<mapsto> default_injection_json)"
    by (simp add: put_key_def update_conv' delete_conv' jget_def fun_eq_iff)
  moreover have "map_of (?id c) ''prompt_injection'' = None" using assms(3) by (simp add: put_key_def update_conv' delete_conv')
  ultimately have "we_read_plan e (plan_json m p (map condition_json (cs1 @ JObj c # cs2))) =
      we_read_plan e (plan_json m p (map condition_json (cs1 @ JObj (?fill c) # cs2)))" for p
    using assms(1) by (simp add: fills_injection_def condition_json_def)
  then have "plan_issues e (plan_json ?m p (map condition_json (conditions_of ?m))) =
      plan_issues e (plan_json m p (map condition_json (conditions_of m)))" for p
    by (simp add: plan_issues_def c assms(2)) (simp add: plan_json_def with_conditions_get)
  then show ?thesis
    using array by (auto simp: validation_issues_def r q validate_definition_def with_conditions_get split: json.split prod.split)
qed

text \<open>
  C34. A workflow with a condition that leaves out its prompt injection is READY whenever it would be with the
  default written out (the plan form fills it in), and can never be applied: every attempt fails.
\<close>

theorem ready_workflow_cannot_apply:
  assumes "fills_injection e" and "get_by wf_id i (wd_workflows d) = Some w"
    and "conditions_of (wf_definition w) = cs1 @ JObj c # cs2" and "map_of c ''prompt_injection'' = None"
    and "validation_issues e b (wd_base d) (with_conditions
      (cs1 @ JObj (put_key ''prompt_injection'' default_injection_json c) # cs2) (wf_definition w)) = Inr []"
  shows "(\<exists>m. get_workflow e b i d = Inr (Some m) \<and> wm_status m = WF_READY) \<and> isl (apply_workflow e' b' form i d)"
proof
  have "validation_issues e b (wd_base d) (wf_definition w) = Inr []"
    using assms(5) by (simp only: issues_filled [OF assms(1,3,4)])
  then show "\<exists>m. get_workflow e b i d = Inr (Some m) \<and> wm_status m = WF_READY"
    by (simp add: get_workflow_def assms(2) workflow_model_of_def)
  show "isl (apply_workflow e' b' form i d)"
    by (rule apply_needs_prompt [OF assms(2) _ assms(4)]) (simp add: assms(3))
qed

text \<open>The concrete reader fills the default in.\<close>

lemma read_condition_filled:
  assumes "map_of c ''prompt_injection'' = None" and "map_of c' = (map_of c)(''prompt_injection'' \<mapsto> default_injection_json)"
  shows "read_condition (JObj c') = read_condition (JObj c)"
proof -
  have default: "read_injection default_injection_json = Some default_injection" by code_simp
  have "fst ` set c' = insert ''prompt_injection'' (fst ` set c)"
    using assms(2) by (metis dom_map_of_conv_image_fst dom_fun_upd option.distinct(1))
  then have only: "rd_only ks (JObj c') = map_option (\<lambda>_. c') (rd_only ks (JObj c))" if "''prompt_injection'' \<in> set ks" for ks
    using that by (simp add: rd_only_def)
  have may: "may c' k x r = may c k x r" "must c' k r' = must c k r'" if "k \<noteq> ''prompt_injection''" for k x r r'
    using that by (simp_all add: may_def must_def assms(2))
  have inj: "may c' ''prompt_injection'' default_injection read_injection = may c ''prompt_injection'' default_injection read_injection"
    by (simp add: may_def assms default)
  show ?thesis unfolding read_condition_def
    by (subst only, simp) (simp add: rd_only_def may inj)
qed

lemma rd_all_replaced: "r x = r y \<Longrightarrow> rd_all r (xs @ x # ys) = rd_all r (xs @ y # ys)"
  by (induction xs) (simp_all only: append_Nil append_Cons rd_all.simps)

lemma read_one_fills: "fills_injection read_one"
proof -
  have "read_plan (plan_json m items (cs1 @ JObj c # cs2)) = read_plan (plan_json m items (cs1 @ JObj c' # cs2))"
    if "map_of c ''prompt_injection'' = None" "map_of c' = (map_of c)(''prompt_injection'' \<mapsto> default_injection_json)"
    for m items cs1 cs2 c c'
    using rd_all_replaced [of read_condition "JObj c'" "JObj c" cs1 cs2, OF read_condition_filled [OF that]]
    by (simp add: read_plan_def plan_json_def rd_obj_def may_def must_def rd_list_def)
  note same = this
  show ?thesis unfolding fills_injection_def read_one_def workflow_env.select_convs
    by (intro allI impI, elim conjE) (simp only: same)
qed

lemma bare_stored:
  "\<exists>row. wd_workflows (snd (store_workflow bare_condition library)) = [row] \<and> wf_id row = ''w'' \<and>
     wd_base (snd (store_workflow bare_condition library)) = wd_base library \<and> wf_definition row = essay_with [JObj bare_json]"
proof -
  have "bare_condition \<noteq> []" by (simp add: bare_condition_def)
  then show ?thesis
    by (simp add: create_workflow_def workflow_of_def bare_normal library_empty add_row_def seed_draws_def Let_def bare_expanded)
qed

theorem ready_workflow_cannot_apply_witness:
  "\<exists>m. get_workflow read_one True ''w'' (snd (store_workflow bare_condition library)) = Inr (Some m) \<and> wm_status m = WF_READY \<and>
     isl (apply_workflow sample_apply True apply_to_g ''w'' (snd (store_workflow bare_condition library)))"
proof -
  let ?d = "snd (store_workflow bare_condition library)"
  obtain row where row: "wd_workflows ?d = [row]" "wf_id row = ''w''" "wd_base ?d = wd_base library"
    and def: "wf_definition row = essay_with [JObj bare_json]" using bare_stored by blast
  have "get_by wf_id ''w'' (wd_workflows ?d) = Some row" by (simp add: row)
  moreover have "conditions_of (wf_definition row) = [] @ JObj bare_json # []" by (simp add: def conditions_of_def get_or_def essay_with_def)
  moreover have "map_of bare_json ''prompt_injection'' = None" by (simp add: bare_json_def)
  moreover have "with_conditions [filled_condition] (essay_with [JObj bare_json]) = essay_with [filled_condition]"
    by (simp add: with_conditions_def essay_with_def put_key_def)
  then have "validation_issues read_one True (wd_base ?d) (with_conditions
      ([] @ JObj (put_key ''prompt_injection'' default_injection_json bare_json) # []) (wf_definition row)) = Inr []"
    using essay_issues [OF essay_read(2)] by (simp add: def row(3) filled_condition_def)
  ultimately have "(\<exists>m. get_workflow read_one True ''w'' ?d = Inr (Some m) \<and> wm_status m = WF_READY) \<and>
      isl (apply_workflow sample_apply True apply_to_g ''w'' ?d)"
    by (rule ready_workflow_cannot_apply [OF read_one_fills])
  then show ?thesis by blast
qed

end
