(* ===== verification/Usage_Attribution.thy ===== *)
theory Usage_Attribution
  imports Experiment_Plan Completion_Observer
begin

text \<open>
  Which session a chat message counts for (\<open>usage_by_session\<close> in \<open>utils/workflow_results.py\<close>).
  A message or its chat can name a session or a task of one; an older message, which names neither,
  is attributed to the one session without a plan in whose time window it falls. The token counts a
  provider reports are JSON values; adding one that is no number raises.
\<close>

definition NS :: int where
  "NS = 1000000000"

record chat_row =
  ch_id :: string
  ch_user_id :: "string option"
  ch_experiment_session_id :: "string option"
  ch_experiment_session_task_id :: "string option"

record message_row =
  me_id :: string
  me_chat_id :: string
  me_user_id :: "string option"
  me_role :: string
  me_usage :: "(string \<times> json) list option"
  me_created_at :: "int option"
  me_experiment_session_task_id :: "string option"

record account =
  ac_id :: string
  ac_name :: string
  ac_username :: "string option"
  ac_email :: string
  ac_role :: string
  ac_info :: "json option"

record results_db =
  rd_base :: experiment_db
  rd_accounts :: "account list"
  rd_group_names :: "(string \<times> string) list"
  rd_chats :: "chat_row list"
  rd_messages :: "message_row list"

subsection \<open>Usage\<close>

record usage =
  ug_prompts :: int
  ug_responses :: int
  ug_input_tokens :: rat
  ug_output_tokens :: rat
  ug_total_tokens :: rat

definition empty_usage :: usage where
  "empty_usage = \<lparr>ug_prompts = 0, ug_responses = 0, ug_input_tokens = 0, ug_output_tokens = 0, ug_total_tokens = 0\<rparr>"

definition add_usage :: "usage \<Rightarrow> usage \<Rightarrow> usage" where
  "add_usage target source =
     \<lparr>ug_prompts = ug_prompts target + ug_prompts source, ug_responses = ug_responses target + ug_responses source,
      ug_input_tokens = ug_input_tokens target + ug_input_tokens source,
      ug_output_tokens = ug_output_tokens target + ug_output_tokens source,
      ug_total_tokens = ug_total_tokens target + ug_total_tokens source\<rparr>"

datatype attribution = NO_MESSAGES | LINKED | LEGACY_TIME_WINDOW

record session_usage =
  su_usage :: usage
  su_by_task :: "(string \<times> usage) list"
  su_unattributed :: usage
  su_attribution :: attribution
  su_message_ids :: "string list"

definition empty_session_usage :: session_usage where
  "empty_session_usage = \<lparr>su_usage = empty_usage, su_by_task = [], su_unattributed = empty_usage,
     su_attribution = NO_MESSAGES, su_message_ids = []\<rparr>"

text \<open>\<open>tokens.get(key, tokens.get(older, 0)) or 0\<close>\<close>

definition token_count :: "(string \<times> json) list \<Rightarrow> string \<Rightarrow> string \<Rightarrow> err + rat" where
  "token_count tokens k older =
     (let v = (case map_of tokens k of
          Some v \<Rightarrow> v
        | None \<Rightarrow> (case map_of tokens older of Some v \<Rightarrow> v | None \<Rightarrow> JNum 0))
      in if \<not> truthy_json v then Inr 0
         else (case v of JNum n \<Rightarrow> Inr n | JBool b \<Rightarrow> Inr (if b then 1 else 0) | _ \<Rightarrow> Inl TypeError))"

definition message_usage :: "message_row \<Rightarrow> err + usage" where
  "message_usage m =
     (let usage = empty_usage\<lparr>ug_prompts := (if me_role m = ''user'' then 1 else 0),
            ug_responses := (if me_role m = ''assistant'' then 1 else 0)\<rparr>
      in if me_role m \<noteq> ''assistant'' then Inr usage
         else
           let tokens = (case me_usage m of None \<Rightarrow> [] | Some t \<Rightarrow> t) in
           bindE (token_count tokens ''input_tokens'' ''prompt_tokens'') (\<lambda>input.
           bindE (token_count tokens ''output_tokens'' ''completion_tokens'') (\<lambda>output.
             Inr (usage\<lparr>ug_input_tokens := input, ug_output_tokens := output, ug_total_tokens := input + output\<rparr>))))"

subsection \<open>Attribution\<close>

text \<open>\<open>task_map.get(task_id)\<close>\<close>

definition task_session :: "session_task list \<Rightarrow> string option \<Rightarrow> string option" where
  "task_session tasks task_id =
     (case task_id of None \<Rightarrow> None | Some t \<Rightarrow> map_option st_experiment_session_id (get_by st_id t tasks))"

definition names_experiment :: "message_row \<Rightarrow> chat_row option \<Rightarrow> bool" where
  "names_experiment m chat \<longleftrightarrow> truthy_str (me_experiment_session_task_id m) \<or>
     (case chat of None \<Rightarrow> False
      | Some c \<Rightarrow> truthy_str (ch_experiment_session_id c) \<or> truthy_str (ch_experiment_session_task_id c))"

definition named_session :: "session_task list \<Rightarrow> message_row \<Rightarrow> chat_row option \<Rightarrow> string option" where
  "named_session tasks m chat =
     (if truthy_str (me_experiment_session_task_id m) then task_session tasks (me_experiment_session_task_id m)
      else case chat of
          None \<Rightarrow> None
        | Some c \<Rightarrow> if truthy_str (ch_experiment_session_id c) then ch_experiment_session_id c
                    else task_session tasks (ch_experiment_session_task_id c))"

definition named_task :: "session_task list \<Rightarrow> message_row \<Rightarrow> chat_row option \<Rightarrow> string option" where
  "named_task tasks m chat =
     (let t = (if truthy_str (me_experiment_session_task_id m) then me_experiment_session_task_id m
               else case chat of
                   None \<Rightarrow> me_experiment_session_task_id m
                 | Some c \<Rightarrow> if truthy_str (ch_experiment_session_task_id c) then ch_experiment_session_task_id c
                             else me_experiment_session_task_id m)
      in if task_session tasks t = None then None else t)"

type_synonym link = "string \<times> string option \<times> message_row"

fun classify ::
    "experiment_session list \<Rightarrow> session_task list \<Rightarrow> (message_row \<times> chat_row option) list \<Rightarrow> link list \<times> message_row list" where
  "classify sessions tasks [] = ([], [])"
| "classify sessions tasks ((m, chat) # records) =
     (case classify sessions tasks records of (linked, legacy) \<Rightarrow>
        (case named_session tasks m chat of
           Some sid \<Rightarrow>
             (case get_by xs_id sid sessions of
                Some s \<Rightarrow>
                  if Some (xs_user_id s) = me_user_id m then ((sid, named_task tasks m chat, m) # linked, legacy)
                  else if \<not> names_experiment m chat then (linked, m # legacy) else (linked, legacy)
              | None \<Rightarrow> if \<not> names_experiment m chat then (linked, m # legacy) else (linked, legacy))
         | None \<Rightarrow> if \<not> names_experiment m chat then (linked, m # legacy) else (linked, legacy)))"

text \<open>The whole seconds between which a session without a plan collects older messages.\<close>

definition in_window :: "int \<Rightarrow> experiment_session \<Rightarrow> message_row \<Rightarrow> bool" where
  "in_window now s m \<longleftrightarrow>
     or_int (xs_writing_started_at s) (xs_created_at s) div NS \<le> or_int (me_created_at m) 0 \<and>
     or_int (me_created_at m) 0 \<le> or_int (xs_completed_at s) (or_int (xs_essay_submitted_at s) now) div NS"

definition legacy_candidates ::
    "int \<Rightarrow> experiment_session list \<Rightarrow> string set \<Rightarrow> message_row \<Rightarrow> string list" where
  "legacy_candidates now all_sessions taken m =
     map xs_id (filter (\<lambda>s. \<not> truthy_str (xs_plan_id s) \<and> xs_id s \<notin> taken \<and> Some (xs_user_id s) = me_user_id m \<and>
       in_window now s m) all_sessions)"

definition legacy_links ::
    "int \<Rightarrow> experiment_session list \<Rightarrow> string set \<Rightarrow> string set \<Rightarrow> message_row list \<Rightarrow> link list" where
  "legacy_links now all_sessions taken wanted legacy =
     concat (map (\<lambda>m. case legacy_candidates now all_sessions taken m of
         [c] \<Rightarrow> if c \<in> wanted then [(c, None, m)] else []
       | _ \<Rightarrow> []) legacy)"

definition put_task :: "string \<Rightarrow> usage \<Rightarrow> (string \<times> usage) list \<Rightarrow> (string \<times> usage) list" where
  "put_task t u m = AList.update t (add_usage (case map_of m t of None \<Rightarrow> empty_usage | Some v \<Rightarrow> v) u) m"

definition count_message :: "string set \<Rightarrow> link \<Rightarrow> usage \<Rightarrow> session_usage \<Rightarrow> session_usage" where
  "count_message linked_sessions = (\<lambda>(sid, task_id, m) u row.
     row\<lparr>su_usage := add_usage (su_usage row) u,
         su_by_task := (if truthy_str task_id then put_task (the task_id) u (su_by_task row) else su_by_task row),
         su_unattributed := (if truthy_str task_id then su_unattributed row else add_usage (su_unattributed row) u),
         su_attribution := (if sid \<in> linked_sessions then LINKED else LEGACY_TIME_WINDOW),
         su_message_ids := su_message_ids row @ [me_id m]\<rparr>)"

definition count_link ::
    "string set \<Rightarrow> link \<Rightarrow> (string \<times> session_usage) list \<times> string set \<Rightarrow> err + (string \<times> session_usage) list \<times> string set" where
  "count_link linked_sessions = (\<lambda>(sid, task_id, m) (result, seen).
     if me_id m \<in> seen then Inr (result, seen)
     else bindE (message_usage m) (\<lambda>u.
       Inr (map (\<lambda>(k, row). (k, if k = sid then count_message linked_sessions (sid, task_id, m) u row else row)) result,
            insert (me_id m) seen)))"

definition usage_by_session ::
    "int \<Rightarrow> string list \<Rightarrow> results_db \<Rightarrow> err + (string \<times> session_usage) list" where
  "usage_by_session now session_ids d =
     (if session_ids = [] then Inr []
      else
        let base = rd_base d;
            sessions = filter (\<lambda>s. xs_id s \<in> set session_ids) (xd_sessions base);
            tasks = filter (\<lambda>t. st_experiment_session_id t \<in> set session_ids) (xd_tasks base);
            users = Some ` xs_user_id ` set sessions;
            records = map (\<lambda>m. (m, get_by ch_id (me_chat_id m) (rd_chats d)))
              (filter (\<lambda>m. me_user_id m \<in> users) (rd_messages d));
            result = map (\<lambda>s. (xs_id s, empty_session_usage)) sessions
        in (case classify sessions tasks records of (linked, legacy) \<Rightarrow>
          let linked_sessions = fst ` set linked;
              explicit_sessions = set (concat (map (\<lambda>c. case ch_experiment_session_id c of
                  Some s \<Rightarrow> if ch_user_id c \<in> users then [s] else [] | None \<Rightarrow> []) (rd_chats d)));
              all_sessions = filter (\<lambda>s. Some (xs_user_id s) \<in> users) (xd_sessions base);
              found = legacy_links now all_sessions (explicit_sessions \<union> linked_sessions) (fst ` set result) legacy
          in bindE (foldE (count_link linked_sessions) (linked @ found) (result, {})) (\<lambda>(result, _). Inr result)))"

subsection \<open>Conservation\<close>

definition usage_sum :: "(string \<times> usage) list \<Rightarrow> usage" where
  "usage_sum m = foldr (\<lambda>(_, u) s. add_usage u s) m empty_usage"

lemma add_usage_ac [simp]:
  "add_usage (add_usage a b) c = add_usage a (add_usage b c)" "add_usage empty_usage a = a" "add_usage a empty_usage = a"
  by (simp_all add: add_usage_def empty_usage_def)

lemma add_usage_commute: "add_usage a b = add_usage b a"
  by (simp add: add_usage_def)

lemma add_usage_left_commute: "add_usage a (add_usage b c) = add_usage b (add_usage a c)"
  by (simp add: add_usage_def)

lemma usage_sum_put: "usage_sum (put_task t u m) = add_usage (usage_sum m) u"
proof (induction m)
  case Nil
  then show ?case by (simp add: usage_sum_def put_task_def)
next
  case (Cons kv m)
  obtain k v where kv: "kv = (k, v)" by force
  show ?case
  proof (cases "k = t")
    case True
    then show ?thesis by (simp add: usage_sum_def put_task_def kv add_usage_commute [of u])
  next
    case False
    then have "put_task t u (kv # m) = kv # put_task t u m" by (simp add: put_task_def kv)
    then show ?thesis using Cons.IH by (simp add: usage_sum_def kv)
  qed
qed

definition balanced :: "session_usage \<Rightarrow> bool" where
  "balanced row \<longleftrightarrow> su_usage row = add_usage (usage_sum (su_by_task row)) (su_unattributed row)"

lemma balanced_empty: "balanced empty_session_usage"
  by (simp add: balanced_def empty_session_usage_def usage_sum_def)

lemma balanced_count: "balanced row \<Longrightarrow> balanced (count_message ls l u row)"
  by (auto simp: balanced_def count_message_def usage_sum_put add_usage_commute [of u] add_usage_left_commute split: prod.split)

subsection \<open>Where a counted message comes from\<close>

lemma classify_linked:
  assumes "classify sessions tasks records = (linked, legacy)" and "(sid, t, m) \<in> set linked"
  shows "\<exists>chat s. (m, chat) \<in> set records \<and> named_session tasks m chat = Some sid \<and> s \<in> set sessions \<and> xs_id s = sid \<and>
    me_user_id m = Some (xs_user_id s)"
  using assms
proof (induction records arbitrary: linked legacy)
  case Nil
  then show ?case by simp
next
  case (Cons r records)
  obtain m' chat where r: "r = (m', chat)" by force
  obtain linked' legacy' where c: "classify sessions tasks records = (linked', legacy')" by force
  consider "(sid, t, m) \<in> set linked'" | s where "m = m'" "named_session tasks m' chat = Some sid" "get_by xs_id sid sessions = Some s"
      "Some (xs_user_id s) = me_user_id m'"
    using Cons.prems by (auto simp: r c split: option.splits if_splits)
  then show ?case
  proof cases
    case 1
    with Cons.IH [OF c] show ?thesis by auto
  next
    case 2
    then show ?thesis using get_by_Some [OF 2(3)] by (intro exI [of _ chat] exI [of _ s]) (simp add: r)
  qed
qed

lemma classify_legacy:
  assumes "classify sessions tasks records = (linked, legacy)" and "m \<in> set legacy"
  shows "\<exists>chat. (m, chat) \<in> set records \<and> \<not> names_experiment m chat"
  using assms
proof (induction records arbitrary: linked legacy)
  case (Cons r records)
  obtain m' chat where r: "r = (m', chat)" by force
  obtain linked' legacy' where c: "classify sessions tasks records = (linked', legacy')" by force
  have "m \<in> set legacy' \<or> (m = m' \<and> \<not> names_experiment m' chat)"
    using Cons.prems by (auto simp: r c split: option.splits if_splits)
  then show ?case using Cons.IH [OF c] by (auto simp: r)
qed simp

lemma legacy_link:
  assumes "(sid, t, m) \<in> set (legacy_links now all taken wanted legacy)"
  shows "m \<in> set legacy \<and> sid \<in> wanted \<and> (\<exists>s \<in> set all. xs_id s = sid \<and> \<not> truthy_str (xs_plan_id s) \<and> Some (xs_user_id s) = me_user_id m)"
proof -
  obtain m' where m': "m' \<in> set legacy" "(sid, t, m) \<in> set (case legacy_candidates now all taken m' of
      [c] \<Rightarrow> if c \<in> wanted then [(c, None, m')] else [] | _ \<Rightarrow> [])"
    using assms by (auto simp: legacy_links_def)
  then have c: "legacy_candidates now all taken m' = [sid]" "m' = m" "sid \<in> wanted"
    by (auto split: list.splits if_splits)
  then have "sid \<in> set (legacy_candidates now all taken m)" by simp
  then show ?thesis using m'(1) c(2,3) by (auto simp: legacy_candidates_def)
qed

subsection \<open>Every message counts once\<close>

definition counted_ids :: "(string \<times> session_usage) list \<Rightarrow> string list" where
  "counted_ids result = concat (map (\<lambda>(k, row). su_message_ids row) result)"

lemma counted_ids_simps [simp]:
  "counted_ids [] = []" "counted_ids ((k, row) # result) = su_message_ids row @ counted_ids result"
  by (simp_all add: counted_ids_def)

lemma counted_ids_iff: "i \<in> set (counted_ids result) \<longleftrightarrow> (\<exists>(k, row) \<in> set result. i \<in> set (su_message_ids row))"
  by (auto simp: counted_ids_def)

definition links_ok :: "link list \<Rightarrow> string list \<Rightarrow> (string \<times> session_usage) list \<times> string set \<Rightarrow> bool" where
  "links_ok links ids = (\<lambda>(result, seen).
     map fst result = ids \<and> (\<forall>(k, row) \<in> set result. balanced row) \<and>
     distinct (counted_ids result) \<and> (\<forall>(k, row) \<in> set result. set (su_message_ids row) \<subseteq> seen) \<and>
     (\<forall>(k, row) \<in> set result. \<forall>i \<in> set (su_message_ids row). \<exists>t m. (k, t, m) \<in> set links \<and> me_id m = i))"

lemma distinct_insert_one:
  fixes sid :: string
  assumes "distinct (counted_ids result)" and "distinct (map fst result)" and "i \<notin> set (counted_ids result)"
    and f: "\<And>row. su_message_ids (f row) = su_message_ids row @ [i]"
  defines "put \<equiv> map (\<lambda>(k, row). (k, if k = sid then f row else row))"
  shows "distinct (counted_ids (put result)) \<and> set (counted_ids (put result)) \<subseteq> insert i (set (counted_ids result))"
  using assms(1-3)
proof (induction result)
  case Nil
  then show ?case by (simp add: put_def)
next
  case (Cons kr result)
  obtain k row where kr: "kr = (k, row)" by force
  have ih: "distinct (counted_ids (put result))" "set (counted_ids (put result)) \<subseteq> insert i (set (counted_ids result))"
    using Cons by (simp_all add: kr)
  show ?case
  proof (cases "k = sid")
    case True
    have "put result = result"
      using Cons.prems(2) True by (auto simp: put_def kr rev_image_eqI intro!: map_idI)
    then have "put (kr # result) = (k, f row) # result" by (simp add: put_def kr True)
    then show ?thesis using Cons.prems by (auto simp: kr f)
  next
    case False
    then have "put (kr # result) = (k, row) # put result" by (simp add: put_def kr)
    then show ?thesis using ih Cons.prems by (auto simp: kr)
  qed
qed

lemma count_link_ok:
  assumes "links_ok links ids (result, seen)" and "distinct ids" and "l \<in> set links"
    and "count_link ls l (result, seen) = Inr s'"
  shows "links_ok links ids s'"
proof -
  obtain sid t m where l: "l = (sid, t, m)" by (cases l) auto
  show ?thesis
  proof (cases "me_id m \<in> seen")
    case True
    then show ?thesis using assms by (simp add: count_link_def l)
  next
    case new: False
    then obtain u where u: "message_usage m = Inr u"
      and s': "s' = (map (\<lambda>(k, row). (k, if k = sid then count_message ls (sid, t, m) u row else row)) result, insert (me_id m) seen)"
      using assms(4) by (auto simp: count_link_def l bindE_Inr_iff)
    have f: "su_message_ids (count_message ls (sid, t, m) u row) = su_message_ids row @ [me_id m]" for row
      by (simp add: count_message_def)
    note ok = assms(1) [unfolded links_ok_def prod.case]
    let ?put = "map (\<lambda>(k, row). (k, if k = sid then count_message ls (sid, t, m) u row else row)) result"
    have "me_id m \<notin> set (counted_ids result)" using ok new unfolding counted_ids_iff by blast
    then have "distinct (counted_ids ?put)"
      using distinct_insert_one [OF _ _ _ f, of result sid] ok assms(2) by simp
    moreover have "map fst ?put = map fst result" by (simp add: case_prod_beta')
    then have "map fst ?put = ids" using ok by simp
    moreover have "\<forall>(k, row) \<in> set ?put. balanced row" using ok by (fastforce simp: balanced_count split: if_splits)
    moreover have "\<forall>(k, row) \<in> set ?put. set (su_message_ids row) \<subseteq> insert (me_id m) seen" using ok by (fastforce simp: f split: if_splits)
    moreover have "\<forall>(k, row) \<in> set ?put. \<forall>i \<in> set (su_message_ids row). \<exists>t m. (k, t, m) \<in> set links \<and> me_id m = i"
    proof (rule ballI, clarify)
      fix k row i assume h: "(k, row) \<in> set ?put" "i \<in> set (su_message_ids row)"
      then obtain row' where row': "(k, row') \<in> set result"
          "row = (if k = sid then count_message ls (sid, t, m) u row' else row')" by auto
      then have "i \<in> set (su_message_ids row') \<or> k = sid \<and> i = me_id m" using h(2) by (auto simp: f split: if_splits)
      then show "\<exists>t m. (k, t, m) \<in> set links \<and> me_id m = i" using ok row'(1) assms(3) l by blast
    qed
    ultimately show ?thesis unfolding s' links_ok_def by simp
  qed
qed

lemma usage_cases:
  assumes "usage_by_session now ids d = Inr res" and "ids \<noteq> []"
  obtains tasks linked legacy taken seen
  where "tasks = filter (\<lambda>t. st_experiment_session_id t \<in> set ids) (xd_tasks (rd_base d))"
    and "classify (filter (\<lambda>s. xs_id s \<in> set ids) (xd_sessions (rd_base d))) tasks
      (map (\<lambda>m. (m, get_by ch_id (me_chat_id m) (rd_chats d))) (filter (\<lambda>m. me_user_id m \<in>
        Some ` xs_user_id ` set (filter (\<lambda>s. xs_id s \<in> set ids) (xd_sessions (rd_base d)))) (rd_messages d))) = (linked, legacy)"
    and "links_ok (linked @ legacy_links now (filter (\<lambda>s. Some (xs_user_id s) \<in>
        Some ` xs_user_id ` set (filter (\<lambda>s. xs_id s \<in> set ids) (xd_sessions (rd_base d)))) (xd_sessions (rd_base d))) taken
        (xs_id ` set (filter (\<lambda>s. xs_id s \<in> set ids) (xd_sessions (rd_base d)))) legacy)
      (map xs_id (filter (\<lambda>s. xs_id s \<in> set ids) (xd_sessions (rd_base d)))) (res, seen) \<or>
      \<not> distinct (map xs_id (xd_sessions (rd_base d)))"
proof -
  let ?sessions = "filter (\<lambda>s. xs_id s \<in> set ids) (xd_sessions (rd_base d))"
  let ?tasks = "filter (\<lambda>t. st_experiment_session_id t \<in> set ids) (xd_tasks (rd_base d))"
  let ?users = "Some ` xs_user_id ` set ?sessions"
  let ?records = "map (\<lambda>m. (m, get_by ch_id (me_chat_id m) (rd_chats d))) (filter (\<lambda>m. me_user_id m \<in> ?users) (rd_messages d))"
  let ?result = "map (\<lambda>s. (xs_id s, empty_session_usage)) ?sessions"
  let ?all = "filter (\<lambda>s. Some (xs_user_id s) \<in> ?users) (xd_sessions (rd_base d))"
  obtain linked legacy where c: "classify ?sessions ?tasks ?records = (linked, legacy)" by force
  have wanted: "fst ` set ?result = xs_id ` set ?sessions" by force
  obtain taken seen where fold: "foldE (count_link (fst ` set linked))
      (linked @ legacy_links now ?all taken (xs_id ` set ?sessions) legacy) (?result, {}) = Inr (res, seen)"
    using assms c unfolding usage_by_session_def by (auto simp: Let_def bindE_Inr_iff wanted image_image)
  have "links_ok (linked @ legacy_links now ?all taken (xs_id ` set ?sessions) legacy) (map xs_id ?sessions) (res, seen)"
    if d: "distinct (map xs_id (xd_sessions (rd_base d)))"
  proof (rule foldE_invariant [OF fold])
    have "counted_ids ?result = []" by (simp add: counted_ids_def empty_session_usage_def)
    then show "links_ok (linked @ legacy_links now ?all taken (xs_id ` set ?sessions) legacy) (map xs_id ?sessions) (?result, {})"
      by (auto simp: links_ok_def balanced_empty) (simp_all add: empty_session_usage_def)
    have dist: "distinct (map xs_id ?sessions)" using d by (rule distinct_map_filter)
    fix l s s' assume l: "l \<in> set (linked @ legacy_links now ?all taken (xs_id ` set ?sessions) legacy)"
      and ok: "links_ok (linked @ legacy_links now ?all taken (xs_id ` set ?sessions) legacy) (map xs_id ?sessions) s"
      and st: "count_link (fst ` set linked) l s = Inr s'"
    obtain r sn where s: "s = (r, sn)" by force
    show "links_ok (linked @ legacy_links now ?all taken (xs_id ` set ?sessions) legacy) (map xs_id ?sessions) s'"
      by (rule count_link_ok [OF ok [unfolded s] dist l st [unfolded s]])
  qed
  then show ?thesis using that [OF refl c] by blast
qed

lemma usage_accounts:
  assumes "usage_by_session now ids d = Inr res" and "distinct (map xs_id (xd_sessions (rd_base d)))"
  shows "distinct (counted_ids res) \<and> (\<forall>(sid, row) \<in> set res. balanced row)"
proof (cases "ids = []")
  case True
  then show ?thesis using assms by (simp add: usage_by_session_def)
next
  case False
  from assms(1) this show ?thesis by (rule usage_cases) (use assms(2) in \<open>auto simp: links_ok_def\<close>)
qed

lemma usage_source:
  assumes "usage_by_session now ids d = Inr res" and "distinct (map xs_id (xd_sessions (rd_base d)))"
    and "(sid, row) \<in> set res" and "i \<in> set (su_message_ids row)"
  shows "\<exists>m \<in> set (rd_messages d). me_id m = i \<and> (\<exists>s \<in> set (xd_sessions (rd_base d)). xs_id s = sid \<and>
    me_user_id m = Some (xs_user_id s) \<and>
    (truthy_str (xs_plan_id s) \<longrightarrow> named_session (filter (\<lambda>t. st_experiment_session_id t \<in> set ids) (xd_tasks (rd_base d))) m
       (get_by ch_id (me_chat_id m) (rd_chats d)) = Some sid))"
proof -
  have "ids \<noteq> []" using assms(1,3) by (auto simp: usage_by_session_def)
  from assms(1) this show ?thesis
  proof (rule usage_cases, goal_cases)
    case (1 tasks linked legacy taken seen)
    then obtain t m where m: "me_id m = i" and l: "(sid, t, m) \<in> set linked \<or> (sid, t, m) \<in> set (legacy_links now
        (filter (\<lambda>s. Some (xs_user_id s) \<in> Some ` xs_user_id ` set (filter (\<lambda>s. xs_id s \<in> set ids) (xd_sessions (rd_base d))))
          (xd_sessions (rd_base d))) taken (xs_id ` set (filter (\<lambda>s. xs_id s \<in> set ids) (xd_sessions (rd_base d)))) legacy)"
      using assms(2-4) by (fastforce simp: links_ok_def)
    from l show ?case
    proof
      assume "(sid, t, m) \<in> set linked"
      from classify_linked [OF 1(2) this] m 1(1) show ?thesis by auto
    next
      assume "(sid, t, m) \<in> set (legacy_links now
        (filter (\<lambda>s. Some (xs_user_id s) \<in> Some ` xs_user_id ` set (filter (\<lambda>s. xs_id s \<in> set ids) (xd_sessions (rd_base d))))
          (xd_sessions (rd_base d))) taken (xs_id ` set (filter (\<lambda>s. xs_id s \<in> set ids) (xd_sessions (rd_base d)))) legacy)"
      from legacy_link [OF this] classify_legacy [OF 1(2), of m] m show ?thesis by fastforce
    qed
  qed
qed

end
