(* ===== verification/Workflow_Results.thy ===== *)
theory Workflow_Results
  imports Usage_Attribution Experiment_Session Decimal_Arith
begin

text \<open>
  The results of workflows (\<open>utils/workflow_results.py\<close>) and the filters of the dashboard
  (\<open>routers/experiment_analytics.py\<close>): which workflow and configuration a plan belongs to, which
  sessions a filter selects, the listing of workflows and the states of tasks. The key
  \<open>synthetic\<close> of a user's information holds a boolean.
\<close>

subsection \<open>Identity\<close>

definition or_key :: "string option \<Rightarrow> string \<Rightarrow> string" where
  "or_key x y = (case x of None \<Rightarrow> y | Some v \<Rightarrow> if v = [] then y else v)"

definition workflow_key :: "plan_row \<Rightarrow> string" where
  "workflow_key p = or_key (pn_source_workflow_id p) (''legacy:'' @ pn_id p)"

definition configuration_key :: "plan_row \<Rightarrow> string" where
  "configuration_key p = or_key (pn_configuration_fingerprint p) (''legacy:'' @ pn_id p)"

definition condition_step :: "condition_row \<Rightarrow> string" where
  "condition_step c = or_key (ec_source_condition_key c) (''position:'' @ int_str (ec_position c))"

definition step_key :: "item_row \<Rightarrow> string" where
  "step_key i = or_key (it_source_step_key i) (''position:'' @ int_str (it_position i))"

record identity =
  id_workflow :: "string option"
  id_name :: string
  id_configuration :: "string option"
  id_source_revision :: "int option"
  id_origin :: string
  id_plan_version :: "int option"

text \<open>The dash of the historical name is outside the code points the model's strings have; a
  hyphen stands for it.\<close>

definition identity_of :: "plan_row option \<Rightarrow> string option \<Rightarrow> identity" where
  "identity_of plan group_name =
     (case plan of
        None \<Rightarrow> \<lparr>id_workflow = None, id_name = ''Historical experiment'', id_configuration = None,
          id_source_revision = None, id_origin = ''unknown'', id_plan_version = None\<rparr>
      | Some p \<Rightarrow> \<lparr>id_workflow = Some (workflow_key p),
          id_name = or_key (pn_source_workflow_name p)
            (''Historical workflow - '' @ (case group_name of None \<Rightarrow> pn_group_id p | Some n \<Rightarrow> n) @ '' / v'' @
              int_str (pn_version p)),
          id_configuration = Some (configuration_key p), id_source_revision = pn_source_workflow_revision p,
          id_origin = or_key (pn_workflow_origin p) ''unknown'', id_plan_version = Some (pn_version p)\<rparr>)"

definition is_demo :: "account option \<Rightarrow> bool" where
  "is_demo user =
     (case user of
        None \<Rightarrow> False
      | Some u \<Rightarrow> (case ac_info u of Some (JObj m) \<Rightarrow> jget m ''synthetic'' = JBool True | _ \<Rightarrow> False))"

subsection \<open>Filters\<close>

datatype data_kind = DK_ALL | DK_DEMO | DK_NON_DEMO

record dashboard_filters =
  df_workflow_id :: "string option"
  df_configuration_id :: "string option"
  df_condition_key :: "string option"
  df_data_kind :: data_kind
  df_group_id :: "string option"
  df_topic_id :: "string option"
  df_date_from :: "int option"
  df_date_to :: "int option"
  df_state :: "string option"
  df_completed :: "bool option"

text \<open>A filter that is absent or empty selects everything.\<close>

definition wanted :: "string option \<Rightarrow> (string \<Rightarrow> bool) \<Rightarrow> bool" where
  "wanted f P \<longleftrightarrow> truthy_str f \<longrightarrow> P (the f)"

definition coalesce :: "'a option \<Rightarrow> 'a \<Rightarrow> 'a" where
  "coalesce x y = (case x of None \<Rightarrow> y | Some v \<Rightarrow> v)"

definition in_plans :: "(plan_row \<Rightarrow> bool) \<Rightarrow> experiment_db \<Rightarrow> experiment_session \<Rightarrow> bool" where
  "in_plans P d s \<longleftrightarrow> list_ex (\<lambda>p. P p \<and> xs_plan_id s = Some (pn_id p)) (xd_plans d)"

definition selects :: "dashboard_filters \<Rightarrow> results_db \<Rightarrow> experiment_session \<Rightarrow> bool" where
  "selects f d s \<longleftrightarrow> (let base = rd_base d in
     wanted (df_workflow_id f) (\<lambda>w. in_plans (\<lambda>p. coalesce (pn_source_workflow_id p) (''legacy:'' @ pn_id p) = w) base s) \<and>
     wanted (df_configuration_id f)
       (\<lambda>c. in_plans (\<lambda>p. coalesce (pn_configuration_fingerprint p) (''legacy:'' @ pn_id p) = c) base s) \<and>
     wanted (df_condition_key f) (\<lambda>k. list_ex (\<lambda>c. xs_condition_id s = Some (ec_id c) \<and>
       coalesce (ec_source_condition_key c) (''position:'' @ int_str (ec_position c)) = k) (xd_conditions base)) \<and>
     (df_data_kind f = DK_ALL \<or>
       list_ex (\<lambda>u. ac_id u = xs_user_id s \<and> is_demo (Some u) = (df_data_kind f = DK_DEMO)) (rd_accounts d)) \<and>
     df_state f \<noteq> Some ''NOT_STARTED'' \<and>
     wanted (df_group_id f) (\<lambda>g. xs_group_id s = g) \<and>
     wanted (df_topic_id f) (\<lambda>t. xs_topic_id s = Some t \<or>
       list_ex (\<lambda>r. st_experiment_session_id r = xs_id s \<and> st_essay_topic_id r = Some t) (xd_tasks base)) \<and>
     (truthy_int (df_date_from f) \<longrightarrow> the (df_date_from f) * NS \<le> xs_created_at s) \<and>
     (truthy_int (df_date_to f) \<longrightarrow> xs_created_at s < (the (df_date_to f) + 1) * NS) \<and>
     wanted (df_state f) (\<lambda>st. state_name (xs_state s) = st) \<and>
     (df_completed f = Some True \<longrightarrow> xs_state s = X_COMPLETED) \<and>
     (df_completed f = Some False \<longrightarrow> xs_state s \<noteq> X_COMPLETED))"

definition filtered_sessions :: "results_db \<Rightarrow> dashboard_filters \<Rightarrow> experiment_session list" where
  "filtered_sessions d f = order_desc xs_created_at (filter (selects f d) (xd_sessions (rd_base d)))"

definition catalog_plans :: "results_db \<Rightarrow> plan_row list" where
  "catalog_plans d = order_desc pn_created_at (xd_plans (rd_base d))"

definition catalog_conditions :: "results_db \<Rightarrow> condition_row list" where
  "catalog_conditions d = order_by ec_position (xd_conditions (rd_base d))"

subsection \<open>Listing workflows\<close>

record configuration_entry =
  cnf_id :: string
  cnf_source_revision :: "int option"
  cnf_origin :: string
  cnf_created_at :: int
  cnf_runs :: nat
  cnf_plan_ids :: "string list"

record workflow_entry =
  wl_id :: string
  wl_identity :: identity
  wl_runs :: nat
  wl_completed :: nat
  wl_active :: nat
  wl_configurations :: "configuration_entry list"
  wl_groups :: "(string \<times> string) list"

definition runs_of :: "experiment_session list \<Rightarrow> plan_row \<Rightarrow> nat" where
  "runs_of sessions p = length (filter (\<lambda>s. xs_plan_id s = Some (pn_id p)) sessions)"

definition runs_in :: "experiment_state set \<Rightarrow> experiment_session list \<Rightarrow> plan_row \<Rightarrow> nat" where
  "runs_in states sessions p = length (filter (\<lambda>s. xs_plan_id s = Some (pn_id p) \<and> xs_state s \<in> states) sessions)"

definition shown :: "results_db \<Rightarrow> dashboard_filters \<Rightarrow> plan_row \<Rightarrow> bool" where
  "shown d f p \<longleftrightarrow> (runs_of (xd_sessions (rd_base d)) p \<noteq> 0 \<or> pn_status p = PN_PUBLISHED) \<and>
     wanted (df_workflow_id f) (\<lambda>w. workflow_key p = w) \<and> wanted (df_group_id f) (\<lambda>g. pn_group_id p = g) \<and>
     wanted (df_configuration_id f) (\<lambda>c. configuration_key p = c)"

text \<open>\<open>setdefault\<close> followed by an update of the entry.\<close>

definition upsert :: "('r \<Rightarrow> 'k) \<Rightarrow> 'k \<Rightarrow> 'r \<Rightarrow> ('r \<Rightarrow> 'r) \<Rightarrow> 'r list \<Rightarrow> 'r list" where
  "upsert key k new f rows = upd_by key k f (if get_by key k rows = None then add_row new rows else rows)"

definition add_configuration :: "nat \<Rightarrow> plan_row \<Rightarrow> configuration_entry list \<Rightarrow> configuration_entry list" where
  "add_configuration runs p = upsert cnf_id (configuration_key p)
     \<lparr>cnf_id = configuration_key p, cnf_source_revision = pn_source_workflow_revision p,
      cnf_origin = or_key (pn_workflow_origin p) ''unknown'', cnf_created_at = pn_created_at p div NS, cnf_runs = 0,
      cnf_plan_ids = []\<rparr>
     (\<lambda>c. c\<lparr>cnf_runs := cnf_runs c + runs, cnf_plan_ids := cnf_plan_ids c @ [pn_id p]\<rparr>)"

definition group_name :: "results_db \<Rightarrow> string \<Rightarrow> string option" where
  "group_name d g = map_of (rd_group_names d) g"

definition add_plan ::
    "results_db \<Rightarrow> experiment_session list \<Rightarrow> plan_row \<Rightarrow> workflow_entry list \<Rightarrow> workflow_entry list" where
  "add_plan d sessions p =
     (let group = (pn_group_id p, case group_name d (pn_group_id p) of None \<Rightarrow> pn_group_id p | Some n \<Rightarrow> n)
      in upsert wl_id (workflow_key p)
           \<lparr>wl_id = workflow_key p, wl_identity = identity_of (Some p) (group_name d (pn_group_id p)), wl_runs = 0,
            wl_completed = 0, wl_active = 0, wl_configurations = [], wl_groups = []\<rparr>
           (\<lambda>w. w\<lparr>
             wl_runs := wl_runs w + runs_of sessions p,
             wl_completed := wl_completed w + runs_in {X_COMPLETED} sessions p,
             wl_active := wl_active w + runs_in active_states sessions p,
             wl_configurations := add_configuration (runs_of sessions p) p (wl_configurations w),
             wl_groups := (if group \<in> set (wl_groups w) then wl_groups w else wl_groups w @ [group])\<rparr>))"

definition workflow_list :: "results_db \<Rightarrow> dashboard_filters \<Rightarrow> workflow_entry list" where
  "workflow_list d f = fold (add_plan d (filtered_sessions d f)) (filter (shown d f) (catalog_plans d)) []"

subsection \<open>The states of tasks\<close>

datatype native_state = N_FINALIZED | N_SKIPPED | N_IN_PROGRESS | N_PENDING

text \<open>A finalized task without its native submission is still missing work.\<close>

definition native_task_state :: "experiment_db \<Rightarrow> session_task \<Rightarrow> native_state" where
  "native_task_state d t =
     (let question = get_by qs_session_task_id (st_id t) (sd_submissions (xd_question_subs d));
          survey = get_by ss_session_task_id (st_id t) (ssd_submissions (xd_survey_subs d));
          essay = (case st_essay_id t of None \<Rightarrow> False | Some e \<Rightarrow> e \<noteq> [] \<and> get_by ey_id e (xd_essays d) \<noteq> None)
      in if st_task_type t = SURVEY \<and> \<not> st_survey_required t \<and>
            (st_status t = SKIPPED \<or> map_option ss_status survey = Some SS_SKIPPED)
         then N_SKIPPED
         else if st_status t = FINALIZED \<and>
            (case st_task_type t of
               ESSAY \<Rightarrow> essay
             | QUESTION \<Rightarrow> map_option qs_status question = Some S_FINALIZED
             | SURVEY \<Rightarrow> map_option ss_status survey = Some SS_SUBMITTED)
         then N_FINALIZED
         else if truthy_int (st_started_at t) then N_IN_PROGRESS else N_PENDING)"

subsection \<open>The listing adds up\<close>

lemma upsert_cases:
  "key new = k \<Longrightarrow> upsert key k new f rows =
     (if k \<in> key ` set rows then upd_by key k f rows else rows @ [f new])"
proof -
  assume new: "key new = k"
  show ?thesis
  proof (cases "k \<in> key ` set rows")
    case True
    then have "\<not> get_by key k rows = None" by (simp add: get_by_None)
    then show ?thesis using True by (simp only: upsert_def if_True if_False)
  next
    case False
    then have "get_by key k rows = None" by (simp add: get_by_None)
    then have "upsert key k new f rows = upd_by key k f rows @ [f new]"
      by (simp add: upsert_def add_row_def upd_by_def upd_rows_append new)
    then show ?thesis using False by (simp add: upd_by_absent)
  qed
qed

lemma upd_by_keys: "(\<And>r. key (f r) = key r) \<Longrightarrow> map key (upd_by key k f rows) = map key rows"
  by (induction rows) auto

lemma upsert_distinct:
  assumes "distinct (map key rows)" and "key new = k" and "\<And>r. key (f r) = key r"
  shows "distinct (map key (upsert key k new f rows))"
  using assms by (auto simp: upsert_cases upd_by_keys)

lemma upd_by_sum:
  fixes g :: "'r \<Rightarrow> nat"
  assumes "distinct (map key rows)" and "\<And>r. g (f r) = g r + n"
  shows "sum_list (map g (upd_by key k f rows)) = sum_list (map g rows) + (if k \<in> key ` set rows then n else 0)"
  using assms(1)
proof (induction rows)
  case (Cons r rows)
  then show ?case using assms(2) by (auto simp: upd_by_absent)
qed simp

lemma upsert_sum:
  fixes g :: "'r \<Rightarrow> nat"
  assumes "distinct (map key rows)" and "key new = k" and "\<And>r. g (f r) = g r + n" and "g new = 0"
  shows "sum_list (map g (upsert key k new f rows)) = sum_list (map g rows) + n"
  using assms(2,4) upd_by_sum [where g = g and f = f and n = n, OF assms(1,3)] by (simp add: upsert_cases assms(3))

lemma upsert_all:
  assumes "\<forall>r \<in> set rows. P r" and "P new" and "\<And>r. P r \<Longrightarrow> P (f r)" and "key new = k"
  shows "\<forall>r \<in> set (upsert key k new f rows). P r"
  using assms by (auto simp: upsert_cases set_upd_by)

definition entry_adds_up :: "workflow_entry \<Rightarrow> bool" where
  "entry_adds_up w \<longleftrightarrow> distinct (map cnf_id (wl_configurations w)) \<and>
     wl_runs w = sum_list (map cnf_runs (wl_configurations w)) \<and> wl_completed w + wl_active w \<le> wl_runs w"

lemma runs_disjoint: "runs_in {X_COMPLETED} sessions p + runs_in active_states sessions p \<le> runs_of sessions p"
  by (induction sessions) (auto simp: runs_in_def runs_of_def active_states_def)

lemma add_plan_adds_up:
  assumes "\<forall>w \<in> set entries. entry_adds_up w"
  shows "\<forall>w \<in> set (add_plan d sessions p entries). entry_adds_up w"
  unfolding add_plan_def Let_def
proof (rule upsert_all [OF assms])
  fix w assume w: "entry_adds_up w"
  have "sum_list (map cnf_runs (add_configuration (runs_of sessions p) p (wl_configurations w))) =
      sum_list (map cnf_runs (wl_configurations w)) + runs_of sessions p"
    unfolding add_configuration_def by (rule upsert_sum) (use w in \<open>simp_all add: entry_adds_up_def\<close>)
  moreover have "distinct (map cnf_id (add_configuration (runs_of sessions p) p (wl_configurations w)))"
    unfolding add_configuration_def by (rule upsert_distinct) (use w in \<open>simp_all add: entry_adds_up_def\<close>)
  ultimately show "entry_adds_up (w\<lparr>wl_runs := wl_runs w + runs_of sessions p,
             wl_completed := wl_completed w + runs_in {X_COMPLETED} sessions p,
             wl_active := wl_active w + runs_in active_states sessions p,
             wl_configurations := add_configuration (runs_of sessions p) p (wl_configurations w),
             wl_groups := (if (pn_group_id p, case group_name d (pn_group_id p) of None \<Rightarrow> pn_group_id p | Some n \<Rightarrow> n) \<in> set (wl_groups w)
               then wl_groups w else wl_groups w @ [(pn_group_id p, case group_name d (pn_group_id p) of None \<Rightarrow> pn_group_id p | Some n \<Rightarrow> n)])\<rparr>)"
    using w runs_disjoint [of sessions p] by (simp add: entry_adds_up_def)
qed (simp_all add: entry_adds_up_def)

lemma add_plan_runs:
  assumes "distinct (map wl_id entries)"
  shows "distinct (map wl_id (add_plan d sessions p entries)) \<and>
    sum_list (map wl_runs (add_plan d sessions p entries)) = sum_list (map wl_runs entries) + runs_of sessions p"
  unfolding add_plan_def Let_def
  by (intro conjI upsert_distinct upsert_sum assms) simp_all

lemma fold_add_plan:
  assumes "distinct (map wl_id entries)" and "\<forall>w \<in> set entries. entry_adds_up w"
  shows "(\<forall>w \<in> set (fold (add_plan d sessions) plans entries). entry_adds_up w) \<and>
    sum_list (map wl_runs (fold (add_plan d sessions) plans entries)) =
      sum_list (map wl_runs entries) + sum_list (map (runs_of sessions) plans)"
  using assms
proof (induction plans arbitrary: entries)
  case (Cons p plans)
  note now = add_plan_runs [OF Cons.prems(1), of d sessions p] add_plan_adds_up [OF Cons.prems(2), of d sessions p]
  show ?case using Cons.IH [OF conjunct1 [OF now(1)] now(2)] now(1) by (simp only: fold.simps comp_apply list.map sum_list_simps) simp
qed simp

lemma runs_partition:
  assumes "distinct (map pn_id plans)"
  shows "sum_list (map (runs_of sessions) plans) = length (filter (\<lambda>s. list_ex (\<lambda>p. xs_plan_id s = Some (pn_id p)) plans) sessions)"
  using assms
proof (induction plans)
  case Nil
  then show ?case by simp
next
  case (Cons p plans)
  have "length (filter (\<lambda>s. xs_plan_id s = Some (pn_id p) \<or> list_ex (\<lambda>q. xs_plan_id s = Some (pn_id q)) plans) sessions) =
    runs_of sessions p + length (filter (\<lambda>s. list_ex (\<lambda>q. xs_plan_id s = Some (pn_id q)) plans) sessions)"
  proof (induction sessions)
    case (Cons s sessions)
    have "\<not> (xs_plan_id s = Some (pn_id p) \<and> list_ex (\<lambda>q. xs_plan_id s = Some (pn_id q)) plans)"
      using \<open>distinct (map pn_id (p # plans))\<close> by (auto simp: list_ex_iff)
    then show ?case using Cons.IH by (auto simp: runs_of_def)
  qed (simp add: runs_of_def)
  then show ?case using Cons by simp
qed

lemma listing_adds_up:
  assumes "distinct (map pn_id (xd_plans (rd_base d)))"
  shows "(\<forall>w \<in> set (workflow_list d f). wl_runs w = sum_list (map cnf_runs (wl_configurations w)) \<and>
      wl_completed w + wl_active w \<le> wl_runs w) \<and>
    sum_list (map wl_runs (workflow_list d f)) = length (filter (\<lambda>s. list_ex (\<lambda>p. shown d f p \<and> xs_plan_id s = Some (pn_id p))
      (xd_plans (rd_base d))) (filtered_sessions d f))"
proof -
  let ?plans = "filter (shown d f) (catalog_plans d)"
  have "distinct (map pn_id (catalog_plans d))"
    using assms by (simp add: catalog_plans_def order_desc_def distinct_map)
  then have "distinct (map pn_id ?plans)" by (rule distinct_map_filter)
  from runs_partition [OF this, of "filtered_sessions d f"] show ?thesis
    using fold_add_plan [of "[]" d "filtered_sessions d f" ?plans]
    by (auto simp: workflow_list_def entry_adds_up_def catalog_plans_def order_desc_def list_ex_iff intro!: arg_cong [where f = length] filter_cong)
qed

end
