(* ===== verification/Workflow_Detail.thy ===== *)
theory Workflow_Detail
  imports Workflow_Results
begin

text \<open>
  The results of one configuration of a workflow, step by step (\<open>workflow_detail\<close> in
  \<open>utils/workflow_results.py\<close>). Means are exact where the code divides doubles.
\<close>

record topic_stats =
  tp_title :: "string option"
  tp_question :: "string option"
  tp_submissions :: nat
  tp_average_words :: rat
  tp_minimum_words :: int
  tp_maximum_words :: int

record step_summary =
  sm_key :: string
  sm_position :: int
  sm_title :: string
  sm_task_type :: experiment_task_type
  sm_required :: bool
  sm_llm_prompt_budget :: "prompt_budget option"
  sm_assigned :: nat
  sm_started :: nat
  sm_completed :: nat
  sm_skipped :: nat
  sm_pending :: nat
  sm_average_elapsed_seconds :: "rat option"
  sm_average_score :: "rat option"
  sm_maximum_score :: "rat option"
  sm_graded :: nat
  sm_pending_grades :: nat
  sm_essay_topics :: "topic_stats list"
  sm_usage :: usage

record condition_entry =
  cn_key :: string
  cn_name :: string
  cn_allocation_percent :: int
  cn_runs :: nat

record workflow_detail =
  wt_entry :: workflow_entry
  wt_configuration_id :: string
  wt_runs :: nat
  wt_completed :: nat
  wt_progression_mode :: progression_mode
  wt_chat_mode :: chat_mode
  wt_consent_enabled :: bool
  wt_steps :: "step_summary list"
  wt_conditions :: "condition_entry list"

definition mean :: "rat list \<Rightarrow> rat" where
  "mean xs = sum_list xs / of_nat (length xs)"

definition round_to :: "nat \<Rightarrow> rat \<Rightarrow> rat" where
  "round_to n x = of_int (round_half_even (x * 10 ^ n)) / 10 ^ n"

definition rounded_mean :: "rat list \<Rightarrow> rat option" where
  "rounded_mean xs = (if xs = [] then None else Some (round_to 2 (mean xs)))"

definition elapsed :: "session_task list \<Rightarrow> rat list" where
  "elapsed ts = map (\<lambda>t. (of_int (or_int (st_finalized_at t) (the (st_completed_at t))) - of_int (the (st_started_at t))) / of_int NS)
     (filter (\<lambda>t. truthy_int (st_started_at t) \<and> (truthy_int (st_finalized_at t) \<or> truthy_int (st_completed_at t))) ts)"

definition topics_of :: "experiment_db \<Rightarrow> session_task list \<Rightarrow> topic_stats list" where
  "topics_of d ts =
     (let written_by = concat (map (\<lambda>t. case st_essay_id t of
            None \<Rightarrow> []
          | Some e \<Rightarrow> (case get_by ey_id e (xd_essays d) of
              None \<Rightarrow> []
            | Some e \<Rightarrow> if ey_id e = [] then [] else [((st_essay_topic_title t, st_essay_topic_question t), or_int (ey_word_count e) 0)])) ts)
      in map (\<lambda>topic. let words = map snd (filter (\<lambda>(k, _). k = topic) written_by) in
           \<lparr>tp_title = fst topic, tp_question = snd topic, tp_submissions = length words,
            tp_average_words = round_to 1 (mean (map of_int words)), tp_minimum_words = Min (set words),
            tp_maximum_words = Max (set words)\<rparr>) (rev (remdups (rev (map fst written_by)))))"

definition task_usage :: "(string \<times> session_usage) list \<Rightarrow> session_task \<Rightarrow> usage" where
  "task_usage usage t =
     (case map_of usage (st_experiment_session_id t) of
        None \<Rightarrow> empty_usage
      | Some row \<Rightarrow> (case map_of (su_by_task row) (st_id t) of None \<Rightarrow> empty_usage | Some u \<Rightarrow> u))"

definition count_state :: "experiment_db \<Rightarrow> native_state set \<Rightarrow> session_task list \<Rightarrow> nat" where
  "count_state d states ts = length (filter (\<lambda>t. native_task_state d t \<in> states) ts)"

definition grades_of :: "experiment_db \<Rightarrow> session_task list \<Rightarrow> question_submission list" where
  "grades_of d ts = concat (map (\<lambda>t. case get_by qs_session_task_id (st_id t) (sd_submissions (xd_question_subs d)) of
     None \<Rightarrow> [] | Some s \<Rightarrow> [s]) ts)"

definition step_summary_of ::
    "experiment_db \<Rightarrow> (string \<times> session_usage) list \<Rightarrow> session_task list \<Rightarrow> item_row list \<Rightarrow> int \<Rightarrow> step_summary" where
  "step_summary_of d usage tasks items position =
     (let sources = filter (\<lambda>i. it_position i = position \<and> it_enabled i) items;
          item = hd sources;
          relevant = filter (\<lambda>t. st_plan_item_id t \<in> Some ` it_id ` set sources) tasks;
          grades = grades_of d relevant;
          final = filter (\<lambda>s. qs_grading_status s = GRADED \<and> qs_current_score s \<noteq> None) grades
      in \<lparr>sm_key = step_key item, sm_position = position, sm_title = it_title item, sm_task_type = it_task_type item,
          sm_required = (if it_task_type item = SURVEY then it_survey_required item else True),
          sm_llm_prompt_budget = it_llm_prompt_budget item, sm_assigned = length relevant,
          sm_started = length (filter (\<lambda>t. st_started_at t \<noteq> None) relevant),
          sm_completed = count_state d {N_FINALIZED} relevant, sm_skipped = count_state d {N_SKIPPED} relevant,
          sm_pending = count_state d {N_IN_PROGRESS, N_PENDING} relevant,
          sm_average_elapsed_seconds = rounded_mean (elapsed relevant),
          sm_average_score = rounded_mean (map (\<lambda>s. the (qs_current_score s)) final),
          sm_maximum_score = (case grades of [] \<Rightarrow> None | s # _ \<Rightarrow> Some (qs_maximum_score s)),
          sm_graded = length final, sm_pending_grades = length grades - length final,
          sm_essay_topics = topics_of d relevant,
          sm_usage = fold (\<lambda>t u. add_usage u (task_usage usage t)) relevant empty_usage\<rparr>)"

definition add_condition ::
    "experiment_session list \<Rightarrow> condition_row \<Rightarrow> condition_entry list \<Rightarrow> condition_entry list" where
  "add_condition sessions c = upsert cn_key (condition_step c)
     \<lparr>cn_key = condition_step c, cn_name = ec_name c, cn_allocation_percent = ec_allocation_percent c, cn_runs = 0\<rparr>
     (\<lambda>e. e\<lparr>cn_runs := cn_runs e + length (filter (\<lambda>s. xs_condition_id s = Some (ec_id c)) sessions)\<rparr>)"

definition chosen_configuration :: "dashboard_filters \<Rightarrow> workflow_entry \<Rightarrow> string option" where
  "chosen_configuration f w =
     (if truthy_str (df_configuration_id f) then df_configuration_id f
      else case find (\<lambda>c. cnf_runs c \<noteq> 0) (wl_configurations w) of
          Some c \<Rightarrow> Some (cnf_id c)
        | None \<Rightarrow> (case wl_configurations w of [] \<Rightarrow> None | c # _ \<Rightarrow> Some (cnf_id c)))"

text \<open>The detail of a configuration: its sessions, the plans that have it, their usage.\<close>

definition configuration_detail ::
    "experiment_db \<Rightarrow> condition_row list \<Rightarrow> (string \<times> session_usage) list \<Rightarrow> experiment_session list \<Rightarrow> workflow_entry \<Rightarrow>
     string \<Rightarrow> plan_row list \<Rightarrow> plan_row \<Rightarrow> workflow_detail" where
  "configuration_detail base conditions usage sessions entry chosen matching plan =
     (let plan_ids = pn_id ` set matching;
          items = order_by it_position (filter (\<lambda>i. it_plan_id i \<in> plan_ids) (xd_items base));
          tasks = filter (\<lambda>t. st_experiment_session_id t \<in> set (map xs_id sessions)) (xd_tasks base);
          positions = sorted_list_of_set (it_position ` {i \<in> set items. it_enabled i})
      in \<lparr>wt_entry = entry, wt_configuration_id = chosen, wt_runs = length sessions,
          wt_completed = length (filter (\<lambda>s. xs_state s = X_COMPLETED) sessions),
          wt_progression_mode = pn_progression_mode plan, wt_chat_mode = pn_chat_mode plan,
          wt_consent_enabled = pn_consent_enabled plan,
          wt_steps = map (step_summary_of base usage tasks items) positions,
          wt_conditions = fold (add_condition sessions) (filter (\<lambda>c. ec_plan_id c \<in> plan_ids) conditions) []\<rparr>)"

definition workflow_detail_of ::
    "int \<Rightarrow> results_db \<Rightarrow> string \<Rightarrow> dashboard_filters \<Rightarrow> err + workflow_detail" where
  "workflow_detail_of now d workflow_id f =
     (let scoped = f\<lparr>df_workflow_id := Some workflow_id\<rparr> in
      case workflow_list d (scoped\<lparr>df_configuration_id := None\<rparr>) of
        [] \<Rightarrow> Inl (http 404 ''Workflow has no matching deployments'')
      | entry # _ \<Rightarrow>
          (case chosen_configuration f entry of
             None \<Rightarrow> Inl IndexError
           | Some chosen \<Rightarrow>
               if chosen \<notin> cnf_id ` set (wl_configurations entry)
               then Inl (http 404 ''Workflow configuration is unavailable'')
               else
                 let sessions = filtered_sessions d (scoped\<lparr>df_configuration_id := Some chosen\<rparr>);
                     matching = filter (\<lambda>p. workflow_key p = workflow_id \<and> configuration_key p = chosen \<and>
                       wanted (df_group_id f) (\<lambda>g. pn_group_id p = g)) (catalog_plans d)
                 in bindE (usage_by_session now (map xs_id sessions) d) (\<lambda>usage.
                      case matching of
                        [] \<Rightarrow> Inl IndexError
                      | plan # _ \<Rightarrow>
                          Inr (configuration_detail (rd_base d) (catalog_conditions d) usage sessions entry chosen matching plan))))"

subsection \<open>The steps add up\<close>

lemma states_partition: "count_state d {N_FINALIZED} ts + count_state d {N_SKIPPED} ts + count_state d {N_IN_PROGRESS, N_PENDING} ts = length ts"
proof (induction ts)
  case (Cons t ts)
  then show ?case by (cases "native_task_state d t") (simp_all add: count_state_def)
qed (simp add: count_state_def)

lemma length_grades: "length (grades_of d ts) \<le> length ts"
  by (induction ts) (auto simp: grades_of_def split: option.split)

lemma step_adds_up:
  "sm_completed (step_summary_of d usage tasks items p) + sm_skipped (step_summary_of d usage tasks items p) +
     sm_pending (step_summary_of d usage tasks items p) = sm_assigned (step_summary_of d usage tasks items p) \<and>
   sm_graded (step_summary_of d usage tasks items p) + sm_pending_grades (step_summary_of d usage tasks items p) \<le>
     sm_assigned (step_summary_of d usage tasks items p)"
proof -
  have "length (filter P xs) + (length xs - length (filter P xs)) = length xs" for P and xs :: "question_submission list"
    using length_filter_le [of P xs] by linarith
  then show ?thesis by (simp add: step_summary_of_def Let_def states_partition length_grades)
qed

text \<open>The runs of the conditions.\<close>

lemma condition_runs:
  assumes "distinct (map cn_key entries)"
  shows "distinct (map cn_key (fold (add_condition sessions) cs entries)) \<and>
    sum_list (map cn_runs (fold (add_condition sessions) cs entries)) = sum_list (map cn_runs entries) +
      sum_list (map (\<lambda>c. length (filter (\<lambda>s. xs_condition_id s = Some (ec_id c)) sessions)) cs)"
  using assms
proof (induction cs arbitrary: entries)
  case (Cons c cs)
  have d: "distinct (map cn_key (add_condition sessions c entries))"
    unfolding add_condition_def by (rule upsert_distinct) (use Cons.prems in simp_all)
  have s: "sum_list (map cn_runs (add_condition sessions c entries)) =
      sum_list (map cn_runs entries) + length (filter (\<lambda>s. xs_condition_id s = Some (ec_id c)) sessions)"
    unfolding add_condition_def by (rule upsert_sum) (use Cons.prems in simp_all)
  show ?case using Cons.IH [OF d] s by simp
qed simp

lemma configuration_adds_up:
  "wt_completed (configuration_detail base cs usage sessions entry chosen matching plan) \<le>
     wt_runs (configuration_detail base cs usage sessions entry chosen matching plan) \<and>
   (\<forall>s \<in> set (wt_steps (configuration_detail base cs usage sessions entry chosen matching plan)).
      sm_completed s + sm_skipped s + sm_pending s = sm_assigned s \<and> sm_graded s + sm_pending_grades s \<le> sm_assigned s)"
  using step_adds_up by (simp add: configuration_detail_def Let_def)

lemma head_case: "(case xs of [] \<Rightarrow> Inl e | x # _ \<Rightarrow> Inr (g x)) = Inr r \<longleftrightarrow> xs \<noteq> [] \<and> r = g (hd xs)"
  by (cases xs) auto

lemma detail_adds_up:
  assumes "workflow_detail_of now d w f = Inr r"
  shows "wt_completed r \<le> wt_runs r \<and> (\<forall>s \<in> set (wt_steps r). sm_completed s + sm_skipped s + sm_pending s = sm_assigned s \<and>
    sm_graded s + sm_pending_grades s \<le> sm_assigned s)"
proof -
  obtain base cs usage sessions entry chosen matching plan
    where "r = configuration_detail base cs usage sessions entry chosen matching plan"
    using assms unfolding workflow_detail_of_def Let_def bindE_Inr_iff head_case
    by (auto simp: bindE_Inr_iff head_case split: list.split_asm option.split_asm if_split_asm)
  then show ?thesis using configuration_adds_up by simp
qed

end
