(* ===== verification/Session_Reports.thy ===== *)
theory Session_Reports
  imports Workflow_Results Plan_Store
begin

text \<open>
  Reports about sessions (\<open>routers/experiment_analytics.py\<close>): the milestones of a session, the
  charts of the dashboard, and what an anonymized export leaves out. The keyed digest that stands
  for a user and the text of a value that is no string are parameters.
\<close>

subsection \<open>Times\<close>

definition seconds :: "int option \<Rightarrow> int option" where
  "seconds v = (if truthy_int v then map_option (\<lambda>v. v div NS) v else None)"

definition duration :: "int option \<Rightarrow> int option \<Rightarrow> rat option" where
  "duration a b = (case (a, b) of
       (Some a, Some b) \<Rightarrow> if a \<noteq> 0 \<and> b \<noteq> 0 \<and> a \<le> b
         then Some (of_int (round_half_even (of_int (b - a) / of_int NS * 100)) / 100) else None
     | _ \<Rightarrow> None)"

definition latest :: "int option list \<Rightarrow> int option" where
  "latest vs = (let vs = concat (map (\<lambda>v. case v of None \<Rightarrow> [] | Some v \<Rightarrow> [v]) vs) in
     if vs = [] then None else Some (Max (set vs)))"

definition earliest :: "int option list \<Rightarrow> int option" where
  "earliest vs = (let vs = concat (map (\<lambda>v. case v of None \<Rightarrow> [] | Some v \<Rightarrow> [v]) vs) in
     if vs = [] then None else Some (Min (set vs)))"

subsection \<open>Milestones\<close>

datatype phase = PRE | POST

record phase_milestones =
  ph_completed :: bool
  ph_started_at :: "int option"
  ph_submitted_at :: "int option"
  ph_skipped_at :: "int option"
  ph_duration :: "rat option"

record milestones =
  mi_pre :: phase_milestones
  mi_post :: phase_milestones
  mi_essay_submitted :: bool
  mi_essay_submitted_at :: "int option"
  mi_writing_started_at :: "int option"
  mi_writing_duration :: "rat option"
  mi_task_submitted_at :: "int option"

definition work_of :: "session_task list \<Rightarrow> session_task list" where
  "work_of tasks = filter (\<lambda>t. st_task_type t \<noteq> SURVEY) tasks"

definition phase_surveys :: "phase \<Rightarrow> session_task list \<Rightarrow> session_task list" where
  "phase_surveys phase tasks =
     (let positions = st_position ` set (work_of tasks) in
      filter (\<lambda>t. st_task_type t = SURVEY \<and> positions \<noteq> {} \<and>
        (if phase = PRE then st_position t < Min positions else Max positions < st_position t)) tasks)"

definition phase_resolved :: "(string \<Rightarrow> survey_submission option) \<Rightarrow> session_task list \<Rightarrow> bool" where
  "phase_resolved sub surveys \<longleftrightarrow> list_all (\<lambda>t. case sub (st_id t) of None \<Rightarrow> False
     | Some s \<Rightarrow> ss_status s \<in> {SS_SUBMITTED, SS_SKIPPED}) surveys"

definition phase_submitted :: "(string \<Rightarrow> survey_submission option) \<Rightarrow> session_task list \<Rightarrow> survey_submission list" where
  "phase_submitted sub surveys = concat (map (\<lambda>t. case sub (st_id t) of None \<Rightarrow> []
     | Some s \<Rightarrow> if ss_status s = SS_SUBMITTED then [s] else []) surveys)"

definition phase_report ::
    "phase \<Rightarrow> experiment_session \<Rightarrow> session_task list \<Rightarrow> (string \<Rightarrow> survey_submission option) \<Rightarrow> phase_milestones" where
  "phase_report phase s tasks sub =
     (let surveys = phase_surveys phase tasks;
          resolved = phase_resolved sub surveys;
          submitted = phase_submitted sub surveys;
          completed = (if surveys = []
            then (if phase = PRE then xs_pre_survey s \<noteq> None else xs_post_survey s \<noteq> None)
            else resolved \<and> submitted \<noteq> []);
          submitted_at = (if surveys = []
            then (if phase = PRE then xs_pre_survey_submitted_at s else xs_post_survey_submitted_at s)
            else if completed then latest (map ss_submitted_at submitted) else None);
          started_at = (if surveys = [] then None else earliest (map st_started_at surveys));
          skipped_at = (if surveys \<noteq> [] \<and> resolved \<and> submitted = []
            then latest (map (\<lambda>t. case sub (st_id t) of None \<Rightarrow> None | Some x \<Rightarrow> ss_skipped_at x) surveys) else None)
      in \<lparr>ph_completed = completed, ph_started_at = seconds started_at, ph_submitted_at = seconds submitted_at,
          ph_skipped_at = seconds skipped_at,
          ph_duration = duration (if phase = POST \<and> surveys = [] then xs_essay_submitted_at s else started_at) submitted_at\<rparr>)"

definition all_finalized :: "session_task list \<Rightarrow> bool" where
  "all_finalized ts = list_all (\<lambda>t. st_status t = FINALIZED) ts"

definition session_milestones ::
    "experiment_session \<Rightarrow> session_task list \<Rightarrow> (string \<Rightarrow> survey_submission option) \<Rightarrow> milestones" where
  "session_milestones s tasks sub =
     (let work = work_of tasks;
          essays = filter (\<lambda>t. st_task_type t = ESSAY) work;
          writing_started_at = (if essays = [] then xs_writing_started_at s else earliest (map st_started_at essays));
          essay_submitted_at = (if essays = [] then xs_essay_submitted_at s
            else if all_finalized essays then latest (map st_finalized_at essays) else None);
          task_submitted_at = (if work \<noteq> [] \<and> all_finalized work then latest (map st_finalized_at work)
            else xs_task_submitted_at s)
      in \<lparr>mi_pre = phase_report PRE s tasks sub, mi_post = phase_report POST s tasks sub,
          mi_essay_submitted = (if essays = [] then xs_essay_id s \<noteq> None else all_finalized essays),
          mi_essay_submitted_at = seconds essay_submitted_at, mi_writing_started_at = seconds writing_started_at,
          mi_writing_duration = duration writing_started_at essay_submitted_at,
          mi_task_submitted_at = seconds task_submitted_at\<rparr>)"

definition session_progress ::
    "experiment_db \<Rightarrow> experiment_session list \<Rightarrow> (string \<times> milestones) list" where
  "session_progress d sessions =
     map (\<lambda>s. (xs_id s, session_milestones s
       (order_by st_position (filter (\<lambda>t. st_experiment_session_id t = xs_id s) (xd_tasks d)))
       (\<lambda>t. get_by ss_session_task_id t (ssd_submissions (xd_survey_subs d))))) sessions"

lemma duration_nonneg: "duration a b = Some x \<Longrightarrow> 0 \<le> x"
proof -
  assume d: "duration a b = Some x"
  then obtain u v where uv: "u \<le> v" "x = of_int (round_half_even (of_int (v - u) / of_int NS * 100)) / 100"
    unfolding duration_def by (auto split: option.splits if_splits)
  have "(0 :: rat) \<le> of_int (v - u) / of_int NS * 100" using uv(1) by (simp add: NS_def)
  then have "0 \<le> round_half_even (of_int (v - u) / of_int NS * 100)" using round_half_even_ge [of 0] by simp
  then show ?thesis unfolding uv(2) by simp
qed

lemma phase_consistent:
  fixes s :: experiment_session and sub :: "string \<Rightarrow> survey_submission option"
  assumes "phase_surveys phase tasks \<noteq> []"
  defines "r \<equiv> phase_report phase s tasks sub"
  shows "(ph_completed r \<longrightarrow> ph_skipped_at r = None \<and>
      (\<forall>t \<in> set (phase_surveys phase tasks). \<exists>x. sub (st_id t) = Some x \<and> ss_status x \<noteq> SS_DRAFT)) \<and>
    (ph_submitted_at r \<noteq> None \<longrightarrow> ph_completed r) \<and>
    (ph_skipped_at r \<noteq> None \<longrightarrow> (\<forall>t \<in> set (phase_surveys phase tasks). \<exists>x. sub (st_id t) = Some x \<and> ss_status x = SS_SKIPPED))"
proof -
  have res: "\<exists>x. sub (st_id t) = Some x \<and> ss_status x \<in> {SS_SUBMITTED, SS_SKIPPED}"
    if "phase_resolved sub (phase_surveys phase tasks)" "t \<in> set (phase_surveys phase tasks)" for t
    using that by (auto simp: phase_resolved_def list_all_iff split: option.splits)
  have none: "\<not> (\<exists>x. sub (st_id t) = Some x \<and> ss_status x = SS_SUBMITTED)"
    if "phase_submitted sub (phase_surveys phase tasks) = []" "t \<in> set (phase_surveys phase tasks)" for t
    using that by (auto simp: phase_submitted_def)
  have "ph_completed r \<longleftrightarrow> phase_resolved sub (phase_surveys phase tasks) \<and> phase_submitted sub (phase_surveys phase tasks) \<noteq> []"
    using assms(1) by (simp add: r_def phase_report_def Let_def)
  moreover have "ph_skipped_at r \<noteq> None \<Longrightarrow>
      phase_resolved sub (phase_surveys phase tasks) \<and> phase_submitted sub (phase_surveys phase tasks) = []"
    using assms(1) by (auto simp: r_def phase_report_def Let_def seconds_def split: if_splits)
  moreover have "ph_submitted_at r \<noteq> None \<Longrightarrow> ph_completed r"
    using assms(1) by (auto simp: r_def phase_report_def Let_def seconds_def split: if_splits)
  ultimately show ?thesis using res none by fastforce
qed

subsection \<open>Charts\<close>

definition BUCKETS :: int where
  "BUCKETS = 8"

definition bucket_width :: "int list \<Rightarrow> int" where
  "bucket_width values = max 1 ((Max (set values) + BUCKETS - 1) div BUCKETS)"

definition bucket_of :: "int \<Rightarrow> int \<Rightarrow> int" where
  "bucket_of width v = min (v div width) (BUCKETS - 1)"

text \<open>The buckets with the bounds of their labels.\<close>

definition histogram :: "int list \<Rightarrow> ((int \<times> int) \<times> nat) list" where
  "histogram values =
     (if values = [] then []
      else let width = bucket_width values in
        map (\<lambda>i. ((i * width, (i + 1) * width - 1), length (filter (\<lambda>v. bucket_of width v = i) values)))
          [0..BUCKETS - 1])"

lemma count_partition:
  assumes "\<forall>v \<in> set vs. f v \<in> set is" and "distinct is"
  shows "sum_list (map (\<lambda>i. length (filter (\<lambda>v. f v = i) vs)) is) = length vs"
  using assms
proof (induction vs)
  case (Cons v vs)
  have "sum_list (map (\<lambda>i. length (filter (\<lambda>v. f v = i) (v # vs))) is) =
    sum_list (map (\<lambda>i. length (filter (\<lambda>v. f v = i) vs)) is) + sum_list (map (\<lambda>i. if f v = i then 1 else 0) is)"
    by (simp add: sum_list_addf [symmetric] cong: if_cong) (rule arg_cong [where f = sum_list], auto)
  also have "sum_list (map (\<lambda>i. if f v = i then 1 else 0 :: nat) is) = 1"
    using Cons.prems by (simp add: sum_list_distinct_conv_sum_set)
  finally show ?case using Cons by simp
qed simp

lemma bucket_width_pos: "0 < bucket_width values"
  by (simp add: bucket_width_def)

lemma histogram_counts:
  assumes "\<forall>v \<in> set values. 0 \<le> v"
  shows "sum_list (map snd (histogram values)) = length values"
proof (cases "values = []")
  case False
  have "\<forall>v \<in> set values. bucket_of (bucket_width values) v \<in> set [0..BUCKETS - 1]"
    using assms bucket_width_pos by (auto simp: bucket_of_def BUCKETS_def min_def div_int_pos_iff less_imp_le)
  from count_partition [OF this] False show ?thesis by (simp add: histogram_def Let_def comp_def)
qed (simp add: histogram_def)

text \<open>The largest value, when it is a multiple of the number of buckets, is counted in a bucket whose
  label ends below it.\<close>

lemma largest_mislabelled:
  assumes "Max (set values) = BUCKETS * k" and "0 < k" and "values \<noteq> []"
  shows "\<exists>lo hi n. ((lo, hi), n) \<in> set (histogram values) \<and> hi < Max (set values) \<and>
    bucket_of (bucket_width values) (Max (set values)) * bucket_width values = lo \<and>
    (\<forall>((lo', hi'), _) \<in> set (histogram values). hi' \<le> hi) \<and> 0 < n"
proof -
  have w: "bucket_width values = k" using assms(1,2) by (simp add: bucket_width_def BUCKETS_def)
  have b: "bucket_of k (Max (set values)) = BUCKETS - 1" using assms(1,2) by (simp add: bucket_of_def BUCKETS_def)
  let ?n = "length (filter (\<lambda>v. bucket_of k v = BUCKETS - 1) values)"
  have "Max (set values) \<in> set values" using assms(3) by simp
  then have "Max (set values) \<in> set (filter (\<lambda>v. bucket_of k v = BUCKETS - 1) values)" using b by simp
  then have "0 < ?n" by (metis length_pos_if_in_set)
  moreover have "(((BUCKETS - 1) * k, BUCKETS * k - 1), ?n) \<in> set (histogram values)"
    using assms(3) by (auto simp: histogram_def Let_def w BUCKETS_def intro!: image_eqI [of _ _ 7])
  moreover have "\<forall>((lo', hi'), _) \<in> set (histogram values). hi' \<le> BUCKETS * k - 1"
  proof -
    have "(i + 1) * k \<le> 8 * k" if "i \<le> 7" for i using that assms(2) by (intro mult_right_mono) auto
    then show ?thesis using assms(3) by (fastforce simp: histogram_def Let_def w BUCKETS_def)
  qed
  ultimately show ?thesis using assms(1) b w by (intro exI [of _ "(BUCKETS - 1) * k"] exI [of _ "BUCKETS * k - 1"] exI [of _ ?n]) auto
qed

subsection \<open>Anonymized exports\<close>

definition identity_keys :: "string list" where
  "identity_keys = [''user_id'', ''admin_id'']"

fun anonymize :: "(json \<Rightarrow> string) \<Rightarrow> (string \<Rightarrow> string) \<Rightarrow> json \<Rightarrow> json" where
  "anonymize str anonymous (JList xs) = JList (map (anonymize str anonymous) xs)"
| "anonymize str anonymous (JObj m) = JObj (map (\<lambda>(k, v).
     (k, if k \<in> set identity_keys \<and> truthy_json v then JStr (anonymous (str v)) else anonymize str anonymous v)) m)"
| "anonymize str anonymous JNull = JNull"
| "anonymize str anonymous (JBool b) = JBool b"
| "anonymize str anonymous (JNum n) = JNum n"
| "anonymize str anonymous (JStr s) = JStr s"

definition derived_payload :: "(json \<Rightarrow> string) \<Rightarrow> (string \<Rightarrow> string) \<Rightarrow> bool \<Rightarrow> (string \<times> json) list \<Rightarrow> json" where
  "derived_payload str anonymous anonymized row =
     (if anonymized
      then (case anonymize str anonymous (JObj row) of
          JObj m \<Rightarrow> JObj (filter (\<lambda>(k, _). k \<notin> {''name'', ''username'', ''email''}) m) | v \<Rightarrow> v)
      else JObj row)"

definition export_rows :: "bool \<Rightarrow> bool \<Rightarrow> (string \<times> json) list list \<Rightarrow> (string \<times> json) list list" where
  "export_rows anonymized csv rows =
     map (filter (\<lambda>(k, _). (anonymized \<longrightarrow> k \<notin> {''user_id'', ''name'', ''username'', ''email''}) \<and>
       (csv \<longrightarrow> k \<noteq> ''telemetry_summary''))) rows"

definition csv_headers :: "(string \<times> json) list list \<Rightarrow> string list" where
  "csv_headers rows = unique_list (map fst (concat rows))"

definition participant_payload :: "(string \<Rightarrow> string) \<Rightarrow> bool \<Rightarrow> account option \<Rightarrow> (string \<times> json) list" where
  "participant_payload anonymous anonymized user =
     (case user of
        None \<Rightarrow> []
      | Some u \<Rightarrow>
          [(''id'', JStr (if anonymized then anonymous (ac_id u) else ac_id u)), (''participant_id'', JStr (anonymous (ac_id u))),
           (''role'', JStr (ac_role u))] @
          (if anonymized then []
           else [(''name'', JStr (ac_name u)), (''username'', case ac_username u of None \<Rightarrow> JNull | Some n \<Rightarrow> JStr n),
                 (''email'', JStr (ac_email u))]))"

text \<open>Under an identity key there is at most an anonymous identifier, at any depth.\<close>

fun identities_hidden :: "(string \<Rightarrow> string) \<Rightarrow> json \<Rightarrow> bool" where
  "identities_hidden anonymous (JList xs) = list_all (identities_hidden anonymous) xs"
| "identities_hidden anonymous (JObj m) = list_all (\<lambda>(k, v). identities_hidden anonymous v \<and>
     (k \<in> set identity_keys \<longrightarrow> \<not> truthy_json v \<or> (\<exists>s. v = JStr (anonymous s)))) m"
| "identities_hidden anonymous _ = True"

lemma anonymize_falsy: "\<not> truthy_json v \<Longrightarrow> anonymize str anonymous v = v"
  by (cases v) auto

lemma anonymize_hides: "identities_hidden anonymous (anonymize str anonymous j)"
proof (induction str anonymous j rule: anonymize.induct)
  case (1 str anonymous xs)
  then show ?case by (simp add: list_all_iff)
next
  case (2 str anonymous m)
  have "identities_hidden anonymous (JStr s)" for s by simp
  with 2 show ?case using anonymize_falsy by (fastforce simp: list_all_iff)
qed simp_all

end
