(* ===== verification/Result_Samples.thy ===== *)
theory Result_Samples
  imports Workflow_Detail Session_Reports Sample_Store
begin

text \<open>A small store of messages, and what the results of workflows guarantee.\<close>

definition planned_session :: experiment_session where
  "planned_session = (session_in IN_PROGRESS)\<lparr>xs_plan_id := Some ''p''\<rparr>"

definition sample_chat :: chat_row where
  "sample_chat = \<lparr>ch_id = ''c'', ch_user_id = Some ''u'', ch_experiment_session_id = Some ''s'',
     ch_experiment_session_task_id = None\<rparr>"

definition sample_message :: "string \<Rightarrow> string \<Rightarrow> string \<Rightarrow> message_row" where
  "sample_message i chat role = \<lparr>me_id = i, me_chat_id = chat, me_user_id = Some ''u'', me_role = role,
     me_usage = Some [(''prompt_tokens'', JNum 3), (''output_tokens'', JNum 4)], me_created_at = Some 1,
     me_experiment_session_task_id = None\<rparr>"

definition sample_plan :: plan_row where
  "sample_plan = \<lparr>pn_id = ''p'', pn_source_workflow_id = Some ''w'', pn_source_workflow_name = None,
     pn_source_workflow_revision = None, pn_workflow_origin = None, pn_configuration_fingerprint = Some ''f'',
     pn_group_id = ''g'', pn_version = 1, pn_status = PN_SUPERSEDED, pn_progression_mode = STRICT_SEQUENTIAL,
     pn_chat_mode = SHARED_EXPERIMENT, pn_survey_variant = TASK_NEUTRAL, pn_consent_enabled = True,
     pn_locked_at = None, pn_created_at = 0, pn_updated_at = 0\<rparr>"

definition sample_results :: results_db where
  "sample_results = \<lparr>rd_base = empty_store\<lparr>xd_sessions := [planned_session], xd_plans := [sample_plan]\<rparr>, rd_accounts = [], rd_group_names = [],
     rd_chats = [sample_chat],
     rd_messages = [sample_message ''m1'' ''c'' ''user'', sample_message ''m2'' ''c'' ''assistant'', sample_message ''m3'' ''d'' ''user'']\<rparr>"

definition no_filters :: dashboard_filters where
  "no_filters = \<lparr>df_workflow_id = None, df_configuration_id = None, df_condition_key = None, df_data_kind = DK_ALL,
     df_group_id = None, df_topic_id = None, df_date_from = None, df_date_to = None, df_state = None, df_completed = None\<rparr>"

lemma sample_usage:
  "\<exists>row. usage_by_session 0 [''s''] sample_results = Inr [(''s'', row)] \<and> su_message_ids row = [''m1'', ''m2''] \<and>
     ug_total_tokens (su_usage row) = 7"
proof -
  have "(case usage_by_session 0 [''s''] sample_results of
      Inr res \<Rightarrow> length res = 1 \<and> fst (hd res) = ''s'' \<and> su_message_ids (snd (hd res)) = [''m1'', ''m2''] \<and>
        ug_total_tokens (su_usage (snd (hd res))) = 7 | Inl _ \<Rightarrow> False)"
    by code_simp
  then obtain res where res: "usage_by_session 0 [''s''] sample_results = Inr res" "length res = 1" "fst (hd res) = ''s''"
      "su_message_ids (snd (hd res)) = [''m1'', ''m2'']" "ug_total_tokens (su_usage (snd (hd res))) = 7"
    by (auto split: sum.splits)
  then have "res = [(''s'', snd (hd res))]" by (cases res) (auto simp: prod_eq_iff)
  with res show ?thesis by metis
qed

lemma sample_sessions: "xd_sessions (rd_base sample_results) = [planned_session]" "xd_plans (rd_base sample_results) = [sample_plan]"
  by (simp_all add: sample_results_def)

text \<open>
  C35. No chat message counts twice, whichever sessions are asked for, and the usage of every session
  is exactly the usage of its tasks together with what belongs to no task.
\<close>

theorem usage_counts_once:
  assumes "usage_by_session now ids d = Inr res" and "distinct (map xs_id (xd_sessions (rd_base d)))"
  shows "distinct (counted_ids res) \<and>
    (\<forall>(sid, row) \<in> set res. su_usage row = add_usage (usage_sum (su_by_task row)) (su_unattributed row))"
  using usage_accounts [OF assms] by (simp add: balanced_def)

theorem usage_counts_once_witness:
  "\<exists>row. usage_by_session 0 [''s''] sample_results = Inr [(''s'', row)] \<and> distinct (su_message_ids row) \<and>
     su_message_ids row = [''m1'', ''m2''] \<and> su_usage row = add_usage (usage_sum (su_by_task row)) (su_unattributed row)"
proof -
  obtain row where row: "usage_by_session 0 [''s''] sample_results = Inr [(''s'', row)]" "su_message_ids row = [''m1'', ''m2'']"
    using sample_usage by blast
  have "distinct (map xs_id (xd_sessions (rd_base sample_results)))" by (simp add: sample_sessions)
  from usage_counts_once [OF row(1) this] row show ?thesis by simp
qed

text \<open>
  C36. A message counts only for a session of its own author, and for a session with a plan only when
  the message or its chat names that session or one of its tasks: personal chats never count for a
  run of an experiment.
\<close>

theorem usage_belongs_to_session:
  assumes "usage_by_session now ids d = Inr res" and "distinct (map xs_id (xd_sessions (rd_base d)))"
    and "(sid, row) \<in> set res" and "i \<in> set (su_message_ids row)"
  shows "\<exists>m \<in> set (rd_messages d). me_id m = i \<and> (\<exists>s \<in> set (xd_sessions (rd_base d)). xs_id s = sid \<and>
    me_user_id m = Some (xs_user_id s) \<and>
    (truthy_str (xs_plan_id s) \<longrightarrow> named_session (filter (\<lambda>t. st_experiment_session_id t \<in> set ids) (xd_tasks (rd_base d))) m
       (get_by ch_id (me_chat_id m) (rd_chats d)) = Some sid))"
  by (rule usage_source [OF assms])

theorem usage_belongs_to_session_witness:
  "\<exists>m \<in> set (rd_messages sample_results). me_id m = ''m2'' \<and> me_user_id m = Some ''u'' \<and>
     named_session [] m (get_by ch_id (me_chat_id m) (rd_chats sample_results)) = Some ''s''"
proof -
  obtain row where row: "usage_by_session 0 [''s''] sample_results = Inr [(''s'', row)]" "su_message_ids row = [''m1'', ''m2'']"
    using sample_usage by blast
  have "distinct (map xs_id (xd_sessions (rd_base sample_results)))" by (simp add: sample_sessions)
  from usage_belongs_to_session [OF row(1) this, of "''s''" row "''m2''"] row(2)
  obtain m where "m \<in> set (rd_messages sample_results)" "me_id m = ''m2''" "me_user_id m = Some (xs_user_id planned_session)"
    "truthy_str (xs_plan_id planned_session) \<longrightarrow> named_session (filter (\<lambda>t. st_experiment_session_id t \<in> set [''s'']) (xd_tasks (rd_base sample_results))) m
       (get_by ch_id (me_chat_id m) (rd_chats sample_results)) = Some ''s''"
    by (auto simp: sample_sessions)
  moreover have "xs_user_id planned_session = ''u''" "truthy_str (xs_plan_id planned_session)"
    by (simp_all add: planned_session_def)
  moreover have "xd_tasks (rd_base sample_results) = []" by (simp add: sample_results_def empty_store_def)
  ultimately show ?thesis by auto
qed

text \<open>
  The listing of workflows adds up under every filter: the runs of a workflow are those of its
  configurations, finished and active runs are among them, and all runs together are the selected
  sessions whose plan is listed.
\<close>

theorem workflow_listing_adds_up:
  assumes "distinct (map pn_id (xd_plans (rd_base d)))"
  shows "(\<forall>w \<in> set (workflow_list d f). wl_runs w = sum_list (map cnf_runs (wl_configurations w)) \<and>
      wl_completed w + wl_active w \<le> wl_runs w) \<and>
    sum_list (map wl_runs (workflow_list d f)) = length (filter (\<lambda>s. list_ex (\<lambda>p. shown d f p \<and> xs_plan_id s = Some (pn_id p))
      (xd_plans (rd_base d))) (filtered_sessions d f))"
  by (rule listing_adds_up [OF assms])

theorem workflow_listing_adds_up_witness:
  "map wl_runs (workflow_list sample_results no_filters) = [1] \<and>
   map (\<lambda>w. sum_list (map cnf_runs (wl_configurations w))) (workflow_list sample_results no_filters) = [1]"
proof -
  have r: "map wl_runs (workflow_list sample_results no_filters) = [1]" by code_simp
  have "distinct (map pn_id (xd_plans (rd_base sample_results)))" by (simp add: sample_sessions)
  from workflow_listing_adds_up [OF this, of no_filters]
  have "\<forall>w \<in> set (workflow_list sample_results no_filters). wl_runs w = sum_list (map cnf_runs (wl_configurations w))" by blast
  then have "map (\<lambda>w. sum_list (map cnf_runs (wl_configurations w))) (workflow_list sample_results no_filters) =
      map wl_runs (workflow_list sample_results no_filters)" by (metis (mono_tags, lifting) map_cong)
  with r show ?thesis by simp
qed

end
