(* ===== verification/Member_Groups.thy ===== *)
theory Member_Groups
  imports Usage_Attribution
begin

text \<open>
  Groups and their members (\<open>models/groups.py\<close>, \<open>utils/groups.py\<close>). The table \<open>group_member\<close> has a
  unique constraint on group and user (migration \<open>37f288994c47\<close>). Whether the database enforces its
  foreign key, which deletes the members of a deleted group, depends on the engine (SQLite does
  not unless told so) and is the parameter \<open>fk\<close>. The columns \<open>data\<close> and \<open>meta\<close>, which hold
  the sharing settings of a group, are not in the model.
\<close>

record group_row =
  gp_id :: string
  gp_user_id :: string
  gp_name :: string
  gp_description :: string
  gp_permissions :: "(string \<times> json) list option"
  gp_created_at :: int
  gp_updated_at :: int

record member_row =
  gm_id :: string
  gm_group_id :: string
  gm_user_id :: string
  gm_created_at :: int
  gm_updated_at :: int

record group_db =
  gd_groups :: "group_row list"
  gd_members :: "member_row list"

record group_form =
  gf_name :: string
  gf_description :: string
  gf_permissions :: "(string \<times> json) list option"

definition member_key :: "member_row \<Rightarrow> string \<times> string" where
  "member_key m = (gm_group_id m, gm_user_id m)"

text \<open>What the keys of the two tables enforce.\<close>

definition groups_ok :: "group_db \<Rightarrow> bool" where
  "groups_ok d \<longleftrightarrow> distinct (map gp_id (gd_groups d)) \<and> distinct (map member_key (gd_members d)) \<and>
     distinct (map gm_id (gd_members d))"

text \<open>The membership relation the tables stand for.\<close>

definition member_of :: "group_db \<Rightarrow> string \<Rightarrow> string \<Rightarrow> bool" where
  "member_of d u g \<longleftrightarrow> (g, u) \<in> member_key ` set (gd_members d)"

subsection \<open>Reading\<close>

definition get_groups_by_member_id :: "string \<Rightarrow> group_db \<Rightarrow> group_row list" where
  "get_groups_by_member_id user_id d =
     order_desc gp_updated_at
       (concat (map (\<lambda>g. map (\<lambda>m. g) (filter (\<lambda>m. gm_group_id m = gp_id g \<and> gm_user_id m = user_id) (gd_members d)))
         (gd_groups d)))"

definition get_group_by_id :: "string \<Rightarrow> group_db \<Rightarrow> group_row option" where
  "get_group_by_id i d = get_by gp_id i (gd_groups d)"

definition get_group_user_ids_by_id :: "string \<Rightarrow> group_db \<Rightarrow> string list" where
  "get_group_user_ids_by_id i d = map gm_user_id (filter (\<lambda>m. gm_group_id m = i) (gd_members d))"

definition get_group_member_count_by_id :: "string \<Rightarrow> group_db \<Rightarrow> int" where
  "get_group_member_count_by_id i d = count_rows (\<lambda>m. gm_group_id m = i) (gd_members d)"

definition has_any_group :: "string \<Rightarrow> group_db \<Rightarrow> bool" where
  "has_any_group user_id d = list_ex (\<lambda>m. gm_user_id m = user_id) (gd_members d)"

subsection \<open>Groups\<close>

text \<open>A failed insertion is swallowed and answered with \<open>None\<close>.\<close>

definition insert_new_group ::
    "string \<Rightarrow> int \<Rightarrow> string \<Rightarrow> group_form \<Rightarrow> group_db \<Rightarrow> group_row option \<times> group_db" where
  "insert_new_group uid now user_id form d =
     (if get_by gp_id uid (gd_groups d) \<noteq> None then (None, d)
      else
        let g = \<lparr>gp_id = uid, gp_user_id = user_id, gp_name = gf_name form, gp_description = gf_description form,
              gp_permissions = gf_permissions form, gp_created_at = now, gp_updated_at = now\<rparr>
        in (Some g, d\<lparr>gd_groups := add_row g (gd_groups d)\<rparr>))"

definition update_group_by_id :: "int \<Rightarrow> string \<Rightarrow> group_form \<Rightarrow> group_db \<Rightarrow> group_row option \<times> group_db" where
  "update_group_by_id now i form d =
     (let d = d\<lparr>gd_groups := upd_rows (\<lambda>g. gp_id g = i)
            (\<lambda>g. g\<lparr>gp_name := gf_name form, gp_description := gf_description form,
               gp_permissions := (case gf_permissions form of None \<Rightarrow> gp_permissions g | Some p \<Rightarrow> Some p),
               gp_updated_at := now\<rparr>) (gd_groups d)\<rparr>
      in (get_group_by_id i d, d))"

definition delete_group_by_id :: "bool \<Rightarrow> string \<Rightarrow> group_db \<Rightarrow> bool \<times> group_db" where
  "delete_group_by_id fk i d =
     (True, d\<lparr>gd_groups := del_rows (\<lambda>g. gp_id g = i) (gd_groups d),
        gd_members := (if fk then del_rows (\<lambda>m. gm_group_id m = i) (gd_members d) else gd_members d)\<rparr>)"

definition delete_all_groups :: "bool \<Rightarrow> group_db \<Rightarrow> bool \<times> group_db" where
  "delete_all_groups fk d = (True, d\<lparr>gd_groups := [], gd_members := (if fk then [] else gd_members d)\<rparr>)"

text \<open>The names that exist are read once, before the loop.\<close>

definition create_groups_by_group_names ::
    "(nat \<Rightarrow> string) \<Rightarrow> int \<Rightarrow> string \<Rightarrow> string list \<Rightarrow> group_db \<Rightarrow> group_row list \<times> group_db" where
  "create_groups_by_group_names uid now user_id names d =
     (let existing = gp_name ` set (gd_groups d)
      in foldl (\<lambda>(new, d) (n, name).
           if name \<in> existing then (new, d)
           else case insert_new_group (uid n) now user_id \<lparr>gf_name = name, gf_description = '''', gf_permissions = None\<rparr> d of
               (Some g, d) \<Rightarrow> (new @ [g], d)
             | (None, d) \<Rightarrow> (new, d))
         ([], d) (enumerate 0 names))"

subsection \<open>Members\<close>

definition new_member :: "string \<Rightarrow> int \<Rightarrow> string \<Rightarrow> string \<Rightarrow> member_row" where
  "new_member uid now group_id user_id =
     \<lparr>gm_id = uid, gm_group_id = group_id, gm_user_id = user_id, gm_created_at = now, gm_updated_at = now\<rparr>"

text \<open>An insertion the keys of the table allow.\<close>

definition may_insert :: "member_row \<Rightarrow> member_row list \<Rightarrow> bool" where
  "may_insert m ms \<longleftrightarrow> gm_id m \<notin> gm_id ` set ms \<and> member_key m \<notin> member_key ` set ms"

definition touch_groups :: "int \<Rightarrow> string set \<Rightarrow> group_db \<Rightarrow> group_db" where
  "touch_groups now is d = d\<lparr>gd_groups := upd_rows (\<lambda>g. gp_id g \<in> is) (\<lambda>g. g\<lparr>gp_updated_at := now\<rparr>) (gd_groups d)\<rparr>"

definition insert_members :: "member_row list \<Rightarrow> group_db \<Rightarrow> err + group_db" where
  "insert_members new d =
     foldE (\<lambda>m d. if may_insert m (gd_members d) then Inr (d\<lparr>gd_members := add_row m (gd_members d)\<rparr>)
                  else Inl IntegrityError) new d"

definition set_group_user_ids_by_id ::
    "(nat \<Rightarrow> string) \<Rightarrow> int \<Rightarrow> string \<Rightarrow> string list \<Rightarrow> group_db \<Rightarrow> err + group_db" where
  "set_group_user_ids_by_id uid now group_id user_ids d =
     insert_members (map (\<lambda>(n, u). new_member (uid n) now group_id u) (enumerate 0 user_ids))
       (d\<lparr>gd_members := del_rows (\<lambda>m. gm_group_id m = group_id) (gd_members d)\<rparr>)"

text \<open>
  The loop of \<open>add_users_to_group\<close>. A refused insertion is answered by \<open>db.rollback()\<close>, which undoes
  the whole transaction: the members inserted before it are lost as well, and the loop goes on from
  the table \<open>start\<close> the transaction found.
\<close>

definition add_member ::
    "(nat \<Rightarrow> string) \<Rightarrow> int \<Rightarrow> string \<Rightarrow> member_row list \<Rightarrow> member_row list \<Rightarrow> nat \<times> string \<Rightarrow> member_row list" where
  "add_member uid now group_id start ms nu =
     (let m = new_member (uid (fst nu)) now group_id (snd nu) in if may_insert m ms then add_row m ms else start)"

definition add_users_to_group ::
    "(nat \<Rightarrow> string) \<Rightarrow> int \<Rightarrow> string \<Rightarrow> string list option \<Rightarrow> group_db \<Rightarrow> group_row option \<times> group_db" where
  "add_users_to_group uid now i user_ids d =
     (case get_group_by_id i d of
        None \<Rightarrow> (None, d)
      | Some g \<Rightarrow>
          (let us = (case user_ids of None \<Rightarrow> [] | Some us \<Rightarrow> us);
               ms = foldl (add_member uid now i (gd_members d)) (gd_members d) (enumerate 0 us);
               d = touch_groups now {i} (d\<lparr>gd_members := ms\<rparr>)
           in (get_group_by_id i d, d)))"

definition remove_users_from_group ::
    "int \<Rightarrow> string \<Rightarrow> string list option \<Rightarrow> group_db \<Rightarrow> group_row option \<times> group_db" where
  "remove_users_from_group now i user_ids d =
     (case get_group_by_id i d of
        None \<Rightarrow> (None, d)
      | Some g \<Rightarrow>
          (case user_ids of
             None \<Rightarrow> (Some g, d)
           | Some [] \<Rightarrow> (Some g, d)
           | Some us \<Rightarrow>
               (let d = touch_groups now {i}
                     (d\<lparr>gd_members := del_rows (\<lambda>m. gm_group_id m = i \<and> gm_user_id m \<in> set us) (gd_members d)\<rparr>)
                in (get_group_by_id i d, d))))"

definition remove_user_from_all_groups :: "int \<Rightarrow> string \<Rightarrow> group_db \<Rightarrow> bool \<times> group_db" where
  "remove_user_from_all_groups now user_id d =
     (True, foldl (\<lambda>d g. touch_groups now {gp_id g}
          (d\<lparr>gd_members := del_rows (\<lambda>m. gm_group_id m = gp_id g \<and> gm_user_id m = user_id) (gd_members d)\<rparr>))
        d (get_groups_by_member_id user_id d))"

text \<open>
  The order in which the missing memberships are inserted is the iteration order of a Python set;
  the model takes the order of the table of groups.
\<close>

definition sync_groups_by_group_names ::
    "(nat \<Rightarrow> string) \<Rightarrow> int \<Rightarrow> string \<Rightarrow> string list \<Rightarrow> group_db \<Rightarrow> bool \<times> group_db" where
  "sync_groups_by_group_names uid now user_id names d =
     (let target = map gp_id (filter (\<lambda>g. gp_name g \<in> set names) (gd_groups d));
          existing = map gp_id (get_groups_by_member_id user_id d);
          to_add = remdups (filter (\<lambda>i. i \<notin> set existing) target);
          to_remove = set existing - set target;
          d1 = touch_groups now to_remove
            (d\<lparr>gd_members := del_rows (\<lambda>m. gm_user_id m = user_id \<and> gm_group_id m \<in> to_remove) (gd_members d)\<rparr>)
      in case insert_members (map (\<lambda>(n, i). new_member (uid n) now i user_id) (enumerate 0 to_add))
             d1 of
           Inl e \<Rightarrow> (False, d)
         | Inr d \<Rightarrow> (True, touch_groups now (set to_add) d))"

text \<open>\<open>utils/groups.py\<close>\<close>

definition apply_default_group_assignment ::
    "(nat \<Rightarrow> string) \<Rightarrow> int \<Rightarrow> string option \<Rightarrow> string \<Rightarrow> group_db \<Rightarrow> group_db" where
  "apply_default_group_assignment uid now default_group user_id d =
     (case default_group of
        None \<Rightarrow> d
      | Some i \<Rightarrow> if i = [] then d else snd (add_users_to_group uid now i (Some [user_id]) d))"

subsection \<open>Membership\<close>

text \<open>Identifiers that are drawn afresh for new members.\<close>

definition fresh_ids :: "(nat \<Rightarrow> string) \<Rightarrow> group_db \<Rightarrow> bool" where
  "fresh_ids uid d \<longleftrightarrow> inj uid \<and> range uid \<inter> gm_id ` set (gd_members d) = {}"

lemma set_order_desc [table_simps]: "set (order_desc key rows) = set rows"
  by (simp add: order_desc_def)

lemma member_of_iff: "member_of d u i \<longleftrightarrow> (\<exists>m \<in> set (gd_members d). gm_group_id m = i \<and> gm_user_id m = u)"
  by (auto simp: member_of_def member_key_def image_iff)

lemma in_groups_of_member:
  "g \<in> set (get_groups_by_member_id u d) \<longleftrightarrow> g \<in> set (gd_groups d) \<and> member_of d u (gp_id g)"
  by (fastforce simp: get_groups_by_member_id_def member_of_iff set_order_desc)

lemma in_group_user_ids: "u \<in> set (get_group_user_ids_by_id i d) \<longleftrightarrow> member_of d u i"
  by (auto simp: get_group_user_ids_by_id_def member_of_iff)

lemma has_any_group_iff: "has_any_group u d \<longleftrightarrow> (\<exists>i. member_of d u i)"
  by (auto simp: has_any_group_def member_of_iff list_ex_iff)

lemma member_count:
  assumes "groups_ok d"
  shows "get_group_member_count_by_id i d = int (card {u. member_of d u i})"
proof -
  let ?ms = "filter (\<lambda>m. gm_group_id m = i) (gd_members d)"
  have inj: "inj_on gm_user_id (set ?ms)"
    using assms by (auto simp: groups_ok_def distinct_map inj_on_def member_key_def)
  have "distinct ?ms" using assms by (simp add: groups_ok_def distinct_map)
  then have "length ?ms = card (gm_user_id ` set ?ms)" using inj by (simp add: card_image distinct_card del: set_filter)
  also have "gm_user_id ` set ?ms = {u. member_of d u i}" by (auto simp: member_of_iff)
  finally show ?thesis by (simp add: get_group_member_count_by_id_def count_rows_def)
qed

lemma touch_groups_simps [simp]:
  "gd_members (touch_groups now is d) = gd_members d"
  "map gp_id (gd_groups (touch_groups now is d)) = map gp_id (gd_groups d)"
  "member_of (touch_groups now is d) u g = member_of d u g"
  "groups_ok (touch_groups now is d) = groups_ok d"
  by (auto simp: touch_groups_def member_of_def groups_ok_def map_upd_rows)

lemma new_member_simps [simp]:
  "member_key (new_member uid now i u) = (i, u)"
  "gm_id (new_member uid now i u) = uid"
  by (simp_all add: new_member_def member_key_def)

lemma insert_members_Inr:
  "insert_members new d = Inr d' \<Longrightarrow> d' = d\<lparr>gd_members := gd_members d @ new\<rparr> \<and> (groups_ok d \<longrightarrow> groups_ok d')"
proof (induction new arbitrary: d)
  case Nil
  then show ?case by (simp add: insert_members_def)
next
  case (Cons m new)
  let ?d = "d\<lparr>gd_members := add_row m (gd_members d)\<rparr>"
  have ok: "may_insert m (gd_members d)" and "insert_members new ?d = Inr d'"
    using Cons.prems by (auto simp: insert_members_def split: if_splits)
  then have "d' = ?d\<lparr>gd_members := gd_members ?d @ new\<rparr>" "groups_ok ?d \<longrightarrow> groups_ok d'" using Cons.IH [of ?d] by auto
  moreover have "groups_ok d \<longrightarrow> groups_ok ?d" using ok by (auto simp: groups_ok_def may_insert_def map_add_row)
  ultimately show ?case by (simp add: add_row_def)
qed

lemma insert_members_total:
  assumes "distinct (map gm_id new)" "distinct (map member_key new)"
    and "gm_id ` set new \<inter> gm_id ` set (gd_members d) = {}"
    and "member_key ` set new \<inter> member_key ` set (gd_members d) = {}"
  shows "insert_members new d = Inr (d\<lparr>gd_members := gd_members d @ new\<rparr>)"
  using assms
proof (induction new arbitrary: d)
  case Nil
  then show ?case by (simp add: insert_members_def)
next
  case (Cons m new)
  have "may_insert m (gd_members d)" using Cons.prems by (auto simp: may_insert_def)
  then show ?case using Cons.IH [of "d\<lparr>gd_members := add_row m (gd_members d)\<rparr>"] Cons.prems
    by (auto simp: insert_members_def add_row_def)
qed

text \<open>New members of one group or of one user, with fresh identifiers.\<close>

lemma enumerated_members:
  assumes "inj uid"
  shows "distinct (map gm_id (map (\<lambda>(n, x). new_member (uid n) now (g x) (u x)) (enumerate k xs)))"
    and "gm_id ` set (map (\<lambda>(n, x). new_member (uid n) now (g x) (u x)) (enumerate k xs)) \<subseteq> range uid"
    and "map member_key (map (\<lambda>(n, x). new_member (uid n) now (g x) (u x)) (enumerate k xs)) = map (\<lambda>x. (g x, u x)) xs"
  using assms by (induction xs arbitrary: k)
    (auto simp: inj_eq in_set_enumerate_eq dest!: set_mp [OF equalityD1 [OF set_map]])

subsection \<open>What the operations do to the membership\<close>

lemma groups_ok_members:
  "groups_ok d \<Longrightarrow> groups_ok (d\<lparr>gd_members := del_rows P (gd_members d)\<rparr>)"
  by (auto simp: groups_ok_def del_rows_def distinct_map intro: inj_on_subset)

lemma member_of_members: "member_of (d\<lparr>gd_members := ms\<rparr>) u i \<longleftrightarrow> (i, u) \<in> member_key ` set ms"
  by (simp add: member_of_def)

lemma member_of_deleted:
  "member_of (d\<lparr>gd_members := del_rows (\<lambda>m. P (gm_group_id m) (gm_user_id m)) (gd_members d)\<rparr>) u i \<longleftrightarrow>
     member_of d u i \<and> \<not> P i u"
  by (auto simp: member_of_iff set_del_rows)

text \<open>A group has exactly the members it is given, and the other groups keep theirs.\<close>

lemma set_group_user_ids_members:
  assumes "groups_ok d" "fresh_ids uid d" "distinct us"
  shows "\<exists>d'. set_group_user_ids_by_id uid now i us d = Inr d' \<and> groups_ok d' \<and> gd_groups d' = gd_groups d \<and>
    (\<forall>u j. member_of d' u j \<longleftrightarrow> (if j = i then u \<in> set us else member_of d u j))"
proof -
  let ?new = "map (\<lambda>(n, u). new_member (uid n) now i u) (enumerate 0 us)"
  let ?d = "d\<lparr>gd_members := del_rows (\<lambda>m. gm_group_id m = i) (gd_members d)\<rparr>"
  have inj: "inj uid" using assms(2) by (simp add: fresh_ids_def)
  note new = enumerated_members [OF inj, of now "\<lambda>_. i" "\<lambda>u. u" 0 us]
  have keys: "member_key ` set ?new = Pair i ` set us" using arg_cong [OF new(3), of set] by (simp add: image_image)
  have ok: "groups_ok ?d" using assms(1) by (rule groups_ok_members)
  have ins: "insert_members ?new ?d = Inr (?d\<lparr>gd_members := gd_members ?d @ ?new\<rparr>)"
  proof (rule insert_members_total)
    show "distinct (map member_key ?new)" unfolding new(3) using assms(3) by (simp add: distinct_map inj_on_def)
    show "gm_id ` set ?new \<inter> gm_id ` set (gd_members ?d) = {}"
      using new(2) assms(2) by (force simp: fresh_ids_def set_del_rows)
    show "member_key ` set ?new \<inter> member_key ` set (gd_members ?d) = {}"
      unfolding keys by (auto simp: member_key_def set_del_rows)
  qed (rule new(1))
  have "groups_ok (?d\<lparr>gd_members := gd_members ?d @ ?new\<rparr>)" using insert_members_Inr [OF ins] ok by blast
  moreover have "member_of (?d\<lparr>gd_members := gd_members ?d @ ?new\<rparr>) u j \<longleftrightarrow> (if j = i then u \<in> set us else member_of d u j)"
    for u j
    unfolding member_of_members set_append image_Un keys
    by (auto simp: member_of_def set_del_rows member_key_def)
  ultimately show ?thesis using ins by (auto simp: set_group_user_ids_by_id_def)
qed

text \<open>Synchronization makes the groups of a user those with the given names, and touches no one else.\<close>

lemma sync_sets_groups_of_user:
  assumes "groups_ok d" "fresh_ids uid d"
  shows "\<exists>d'. sync_groups_by_group_names uid now u names d = (True, d') \<and> groups_ok d' \<and>
    map gp_id (gd_groups d') = map gp_id (gd_groups d) \<and>
    (\<forall>g \<in> set (gd_groups d). member_of d' u (gp_id g) \<longleftrightarrow> gp_name g \<in> set names) \<and>
    (\<forall>v j. v \<noteq> u \<longrightarrow> member_of d' v j = member_of d v j)"
proof -
  define target where "target = map gp_id (filter (\<lambda>g. gp_name g \<in> set names) (gd_groups d))"
  define existing where "existing = map gp_id (get_groups_by_member_id u d)"
  define to_add where "to_add = remdups (filter (\<lambda>i. i \<notin> set existing) target)"
  define to_remove where "to_remove = set existing - set target"
  define new where "new = map (\<lambda>(n, i). new_member (uid n) now i u) (enumerate 0 to_add)"
  define d1 where "d1 = touch_groups now to_remove
      (d\<lparr>gd_members := del_rows (\<lambda>m. gm_user_id m = u \<and> gm_group_id m \<in> to_remove) (gd_members d)\<rparr>)"
  have inj: "inj uid" using assms(2) by (simp add: fresh_ids_def)
  note rows = enumerated_members [OF inj, of now "\<lambda>i. i" "\<lambda>_. u" 0 to_add, folded new_def]
  have keys: "member_key ` set new = (\<lambda>i. (i, u)) ` set to_add" using arg_cong [OF rows(3), of set] by simp
  have ok: "groups_ok d1" unfolding d1_def touch_groups_simps using assms(1) by (rule groups_ok_members)
  have in_existing: "i \<in> set existing \<longleftrightarrow> i \<in> gp_id ` set (gd_groups d) \<and> member_of d u i" for i
    by (auto simp: existing_def in_groups_of_member)
  have ins: "insert_members new d1 = Inr (d1\<lparr>gd_members := gd_members d1 @ new\<rparr>)"
  proof (rule insert_members_total)
    show "distinct (map member_key new)" unfolding rows(3) by (simp add: distinct_map inj_on_def to_add_def)
    show "gm_id ` set new \<inter> gm_id ` set (gd_members d1) = {}"
      using rows(2) assms(2) by (force simp: d1_def fresh_ids_def set_del_rows)
    show "member_key ` set new \<inter> member_key ` set (gd_members d1) = {}"
      unfolding keys by (auto simp: d1_def to_add_def member_key_def set_del_rows in_existing member_of_iff target_def)
  qed (rule rows(1))
  let ?d = "touch_groups now (set to_add) (d1\<lparr>gd_members := gd_members d1 @ new\<rparr>)"
  have "sync_groups_by_group_names uid now u names d = (True, ?d)"
    using ins by (simp add: sync_groups_by_group_names_def Let_def target_def existing_def to_add_def to_remove_def new_def d1_def)
  moreover have "groups_ok ?d" using insert_members_Inr [OF ins] ok by simp
  moreover have "map gp_id (gd_groups ?d) = map gp_id (gd_groups d)" by (simp add: d1_def touch_groups_def map_upd_rows)
  moreover have members: "member_of ?d v j \<longleftrightarrow> (member_of d v j \<and> \<not> (v = u \<and> j \<in> to_remove)) \<or> (v = u \<and> j \<in> set to_add)" for v j
    unfolding touch_groups_simps member_of_members set_append image_Un keys
    by (auto simp: d1_def member_of_def set_del_rows member_key_def)
  moreover have "member_of ?d u (gp_id g) \<longleftrightarrow> gp_name g \<in> set names" if g: "g \<in> set (gd_groups d)" for g
  proof -
    have "gp_id g \<in> set target \<longleftrightarrow> gp_name g \<in> set names"
      using g assms(1) by (auto simp: target_def groups_ok_def distinct_map inj_on_def)
    then show ?thesis unfolding members using g by (auto simp: to_remove_def to_add_def in_existing)
  qed
  ultimately show ?thesis by blast
qed

text \<open>
  Adding users adds them all when none of them is a member yet, and forgets those it has inserted
  before one who is.
\<close>

lemma add_member_fold:
  assumes "inj uid" "range uid \<inter> gm_id ` set start = {}" "distinct us" "\<forall>u \<in> set us. (i, u) \<notin> member_key ` set ms"
    and "gm_id ` set ms \<subseteq> gm_id ` set start \<union> uid ` {..<k}"
  shows "foldl (add_member uid now i start) ms (enumerate k us) =
    ms @ map (\<lambda>(n, u). new_member (uid n) now i u) (enumerate k us)"
  using assms(3-5)
proof (induction us arbitrary: ms k)
  case Nil
  then show ?case by simp
next
  case (Cons u us)
  have "may_insert (new_member (uid k) now i u) ms"
  proof -
    have "uid k \<notin> gm_id ` set start \<union> uid ` {..<k}" using assms(1,2) by (auto simp: inj_eq)
    then have "uid k \<notin> gm_id ` set ms" using Cons.prems(3) by blast
    then show ?thesis using Cons.prems(2) by (simp add: may_insert_def)
  qed
  then show ?case
    using Cons.IH [of "ms @ [new_member (uid k) now i u]" "Suc k"] Cons.prems
    by (auto simp: add_member_def add_row_def lessThan_Suc)
qed

lemma add_users_adds:
  assumes "groups_ok d" "fresh_ids uid d" "get_group_by_id i d = Some g" "distinct us" "\<forall>u \<in> set us. \<not> member_of d u i"
  shows "member_of (snd (add_users_to_group uid now i (Some us) d)) u j \<longleftrightarrow> member_of d u j \<or> (j = i \<and> u \<in> set us)"
proof -
  have inj: "inj uid" using assms(2) by (simp add: fresh_ids_def)
  have "foldl (add_member uid now i (gd_members d)) (gd_members d) (enumerate 0 us) =
      gd_members d @ map (\<lambda>(n, u). new_member (uid n) now i u) (enumerate 0 us)"
    by (rule add_member_fold) (use assms inj in \<open>auto simp: fresh_ids_def member_of_def\<close>)
  moreover have "member_key ` set (map (\<lambda>(n, u). new_member (uid n) now i u) (enumerate 0 us)) = Pair i ` set us"
    using arg_cong [OF enumerated_members(3) [OF inj, of now "\<lambda>_. i" "\<lambda>u. u" 0 us], of set]
    by (simp add: image_image)
  ultimately show ?thesis using assms(3)
    by (auto simp: add_users_to_group_def Let_def member_of_members image_Un simp del: set_map) (auto simp: member_of_def)
qed

lemma add_users_forgets:
  assumes "get_group_by_id i d = Some g" "member_of d v i"
  shows "gd_members (snd (add_users_to_group uid now i (Some (us @ [v])) d)) = gd_members d"
proof -
  have start: "set (gd_members d) \<subseteq> set (foldl (add_member uid now i (gd_members d)) (gd_members d) xs)" for xs
    by (induction xs rule: rev_induct) (auto simp: add_member_def Let_def add_row_def)
  then have "(i, v) \<in> member_key ` set (foldl (add_member uid now i (gd_members d)) (gd_members d) xs)" for xs
    using assms(2) unfolding member_of_def by blast
  then show ?thesis using assms(1)
    by (simp add: add_users_to_group_def enumerate_append_eq add_member_def [of _ _ _ _ "foldl _ _ _"] may_insert_def Let_def)
qed

end
