(* ===== verification/Access_Grants.thy ===== *)
theory Access_Grants
  imports Member_Groups
begin

text \<open>
  Grants of access to resources (\<open>models/access_grants.py\<close>): the older access-control objects and the
  lists of grants that replaced them, the table of grants, and the four ways to ask it for access.
  The access-control objects are the typed objects the forms declare; the lists of grants come from
  requests as JSON.
\<close>

subsection \<open>Conversions\<close>

record grant =
  ga_id :: string
  ga_resource_type :: string
  ga_resource_id :: string
  ga_principal_type :: string
  ga_principal_id :: string
  ga_permission :: string
  ga_created_at :: int

record slim_grant =
  sg_id :: string
  sg_principal_type :: string
  sg_principal_id :: string
  sg_permission :: string

record principal_lists =
  pl_group_ids :: "string list"
  pl_user_ids :: "string list"

text \<open>A missing entry and an empty one are alike: both are falsy where the code reads them.\<close>

record legacy_control =
  lc_read :: "principal_lists option"
  lc_write :: "principal_lists option"

type_synonym grant_key = "string \<times> string \<times> string"

definition key_of :: "grant \<Rightarrow> grant_key" where
  "key_of g = (ga_principal_type g, ga_principal_id g, ga_permission g)"

definition listed_grants :: "string \<Rightarrow> principal_lists option \<Rightarrow> grant_key list" where
  "listed_grants permission data =
     (case data of
        None \<Rightarrow> []
      | Some l \<Rightarrow> map (\<lambda>g. (''group'', g, permission)) (pl_group_ids l) @ map (\<lambda>u. (''user'', u, permission)) (pl_user_ids l))"

definition access_control_to_grants :: "string \<Rightarrow> legacy_control option \<Rightarrow> grant_key list" where
  "access_control_to_grants resource_type control =
     (case control of
        None \<Rightarrow> if resource_type \<noteq> ''file'' then [(''user'', ''*'', ''read'')] else []
      | Some c \<Rightarrow> listed_grants ''read'' (lc_read c) @ listed_grants ''write'' (lc_write c))"

definition add_once :: "'a \<Rightarrow> 'a list \<Rightarrow> 'a list" where
  "add_once x xs = (if x \<in> set xs then xs else xs @ [x])"

definition collect_step :: "string \<Rightarrow> string \<Rightarrow> string list \<Rightarrow> grant_key \<Rightarrow> string list" where
  "collect_step permission type ids = (\<lambda>(t, i, p).
     if (t, i, p) \<noteq> (''user'', ''*'', ''read'') \<and> p = permission \<and> t = type then add_once i ids else ids)"

definition collected :: "string \<Rightarrow> string \<Rightarrow> grant_key list \<Rightarrow> string list" where
  "collected permission type gs = foldl (collect_step permission type) [] gs"

text \<open>\<open>None\<close> is a public resource, \<open>Some\<close> of the empty object a private one.\<close>

definition grants_to_access_control :: "grant list \<Rightarrow> legacy_control option" where
  "grants_to_access_control grants =
     (let gs = map key_of grants;
          lists = (\<lambda>p. Some \<lparr>pl_group_ids = collected p ''group'' gs, pl_user_ids = collected p ''user'' gs\<rparr>)
      in if gs = [] then Some \<lparr>lc_read = None, lc_write = None\<rparr>
         else if (''user'', ''*'', ''read'') \<in> set gs then None
         else Some \<lparr>lc_read = lists ''read'', lc_write = lists ''write''\<rparr>)"

definition valid_grant :: "json \<Rightarrow> grant_key option" where
  "valid_grant v =
     (case v of
        JObj m \<Rightarrow>
          (case (jget m ''principal_type'', jget m ''principal_id'', jget m ''permission'') of
             (JStr t, JStr i, JStr p) \<Rightarrow>
               if t \<in> {''user'', ''group''} \<and> p \<in> {''read'', ''write''} \<and> i \<noteq> [] then Some (t, i, p) else None
           | _ \<Rightarrow> None)
      | _ \<Rightarrow> None)"

definition grant_id :: "string \<Rightarrow> json \<Rightarrow> string" where
  "grant_id fresh v = (case v of JObj m \<Rightarrow> (case jget m ''id'' of JStr (c # s) \<Rightarrow> c # s | _ \<Rightarrow> fresh) | _ \<Rightarrow> fresh)"

text \<open>The dictionary of the normalized grants keeps the place of the first and the value of the last.\<close>

definition dedup_step ::
    "(nat \<Rightarrow> string) \<Rightarrow> (grant_key \<times> string) list \<Rightarrow> nat \<times> json \<Rightarrow> (grant_key \<times> string) list" where
  "dedup_step uid d nv =
     (case valid_grant (snd nv) of None \<Rightarrow> d | Some k \<Rightarrow> AList.update k (grant_id (uid (fst nv)) (snd nv)) d)"

definition deduped :: "(nat \<Rightarrow> string) \<Rightarrow> json list \<Rightarrow> (grant_key \<times> string) list" where
  "deduped uid grants = foldl (dedup_step uid) [] (enumerate 0 grants)"

definition slim :: "grant_key \<times> string \<Rightarrow> slim_grant" where
  "slim = (\<lambda>((t, i, p), s). \<lparr>sg_id = s, sg_principal_type = t, sg_principal_id = i, sg_permission = p\<rparr>)"

definition normalize_access_grants :: "(nat \<Rightarrow> string) \<Rightarrow> json list option \<Rightarrow> slim_grant list" where
  "normalize_access_grants uid grants =
     (case grants of None \<Rightarrow> [] | Some gs \<Rightarrow> map slim (deduped uid gs))"

definition slim_key :: "slim_grant \<Rightarrow> grant_key" where
  "slim_key g = (sg_principal_type g, sg_principal_id g, sg_permission g)"

definition public_read_access_grants :: "json list" where
  "public_read_access_grants =
     [JObj [(''principal_type'', JStr ''user''), (''principal_id'', JStr ''*''), (''permission'', JStr ''read'')]]"

definition has_public_read_access_grant :: "(nat \<Rightarrow> string) \<Rightarrow> json list option \<Rightarrow> bool" where
  "has_public_read_access_grant uid grants =
     list_ex (\<lambda>g. sg_principal_type g = ''user'' \<and> sg_principal_id g = ''*'' \<and> sg_permission g = ''read'')
       (normalize_access_grants uid grants)"

definition has_public_write_access_grant :: "(nat \<Rightarrow> string) \<Rightarrow> json list option \<Rightarrow> bool" where
  "has_public_write_access_grant uid grants =
     list_ex (\<lambda>g. sg_principal_type g = ''user'' \<and> sg_principal_id g = ''*'' \<and> sg_permission g = ''write'')
       (normalize_access_grants uid grants)"

definition has_user_access_grant :: "(nat \<Rightarrow> string) \<Rightarrow> json list option \<Rightarrow> bool" where
  "has_user_access_grant uid grants =
     list_ex (\<lambda>g. sg_principal_type g = ''user'' \<and> sg_principal_id g \<noteq> ''*'') (normalize_access_grants uid grants)"

text \<open>\<open>grant.get(k)\<close>, and \<open>getattr\<close> with the default \<open>None\<close> on what is no object.\<close>

definition grant_field :: "string \<Rightarrow> json \<Rightarrow> json" where
  "grant_field k v = (case v of JObj m \<Rightarrow> jget m k | _ \<Rightarrow> JNull)"

definition strip_user_access_grants :: "json list option \<Rightarrow> json list" where
  "strip_user_access_grants grants =
     (case grants of
        None \<Rightarrow> []
      | Some gs \<Rightarrow> filter (\<lambda>v. \<not> (grant_field ''principal_type'' v = JStr ''user'' \<and>
            grant_field ''principal_id'' v \<noteq> JStr ''*'')) gs)"

subsection \<open>The table\<close>

text \<open>The unique constraint and the key of the table.\<close>

definition row_key :: "grant \<Rightarrow> string \<times> string \<times> grant_key" where
  "row_key g = (ga_resource_type g, ga_resource_id g, key_of g)"

definition grants_ok :: "grant list \<Rightarrow> bool" where
  "grants_ok t \<longleftrightarrow> distinct (map ga_id t) \<and> distinct (map row_key t)"

definition new_grant :: "string \<Rightarrow> int \<Rightarrow> string \<Rightarrow> string \<Rightarrow> grant_key \<Rightarrow> grant" where
  "new_grant uid now rt rid = (\<lambda>(t, i, p). \<lparr>ga_id = uid, ga_resource_type = rt, ga_resource_id = rid,
     ga_principal_type = t, ga_principal_id = i, ga_permission = p, ga_created_at = now\<rparr>)"

definition insert_grant :: "grant \<Rightarrow> grant list \<Rightarrow> err + grant list" where
  "insert_grant g t = (if ga_id g \<in> ga_id ` set t \<or> row_key g \<in> row_key ` set t then Inl IntegrityError else Inr (add_row g t))"

definition on_resource :: "string \<Rightarrow> string \<Rightarrow> grant \<Rightarrow> bool" where
  "on_resource rt rid g \<longleftrightarrow> ga_resource_type g = rt \<and> ga_resource_id g = rid"

definition grant_access ::
    "string \<Rightarrow> int \<Rightarrow> string \<Rightarrow> string \<Rightarrow> string \<Rightarrow> string \<Rightarrow> string \<Rightarrow> grant list \<Rightarrow> err + grant \<times> grant list" where
  "grant_access uid now rt rid principal_type principal_id permission t =
     (case find_row (\<lambda>g. row_key g = (rt, rid, principal_type, principal_id, permission)) t of
        Some g \<Rightarrow> Inr (g, t)
      | None \<Rightarrow>
          (let g = new_grant uid now rt rid (principal_type, principal_id, permission)
           in bindE (insert_grant g t) (\<lambda>t. Inr (g, t))))"

definition revoke_access :: "string \<Rightarrow> string \<Rightarrow> string \<Rightarrow> string \<Rightarrow> string \<Rightarrow> grant list \<Rightarrow> bool \<times> grant list" where
  "revoke_access rt rid principal_type principal_id permission t =
     (let P = (\<lambda>g. row_key g = (rt, rid, principal_type, principal_id, permission))
      in (0 < count_rows P t, del_rows P t))"

definition revoke_all_access :: "string \<Rightarrow> string \<Rightarrow> grant list \<Rightarrow> int \<times> grant list" where
  "revoke_all_access rt rid t = (count_rows (on_resource rt rid) t, del_rows (on_resource rt rid) t)"

definition replace_grants ::
    "(nat \<Rightarrow> string) \<Rightarrow> int \<Rightarrow> string \<Rightarrow> string \<Rightarrow> grant_key list \<Rightarrow> grant list \<Rightarrow> err + grant list \<times> grant list" where
  "replace_grants uid now rt rid keys t =
     (let new = map (\<lambda>(n, k). new_grant (uid n) now rt rid k) (enumerate 0 keys)
      in bindE (foldE insert_grant new (del_rows (on_resource rt rid) t)) (\<lambda>t. Inr (new, t)))"

definition set_access_control ::
    "(nat \<Rightarrow> string) \<Rightarrow> int \<Rightarrow> string \<Rightarrow> string \<Rightarrow> legacy_control option \<Rightarrow> grant list \<Rightarrow> err + grant list \<times> grant list" where
  "set_access_control uid now rt rid control t = replace_grants uid now rt rid (access_control_to_grants rt control) t"

definition set_access_grants ::
    "(nat \<Rightarrow> string) \<Rightarrow> (nat \<Rightarrow> string) \<Rightarrow> int \<Rightarrow> string \<Rightarrow> string \<Rightarrow> json list option \<Rightarrow> grant list \<Rightarrow>
     err + grant list \<times> grant list" where
  "set_access_grants uid row_uid now rt rid grants t =
     replace_grants row_uid now rt rid (map slim_key (normalize_access_grants uid grants)) t"

definition get_grants_by_resource :: "string \<Rightarrow> string \<Rightarrow> grant list \<Rightarrow> grant list" where
  "get_grants_by_resource rt rid t = filter (on_resource rt rid) t"

definition get_access_control :: "string \<Rightarrow> string \<Rightarrow> grant list \<Rightarrow> legacy_control option" where
  "get_access_control rt rid t = grants_to_access_control (get_grants_by_resource rt rid t)"

definition get_grants_by_resources :: "string \<Rightarrow> string list \<Rightarrow> grant list \<Rightarrow> (string \<times> grant list) list" where
  "get_grants_by_resources rt rids t =
     map (\<lambda>rid. (rid, filter (\<lambda>g. ga_resource_type g = rt \<and> ga_resource_id g \<in> set rids \<and> ga_resource_id g = rid) t))
       (remdups rids)"

subsection \<open>Asking for access\<close>

record access_db =
  ad_grants :: "grant list"
  ad_groups :: group_db
  ad_accounts :: "account list"

definition principal_matches :: "string \<Rightarrow> string set \<Rightarrow> grant \<Rightarrow> bool" where
  "principal_matches user_id group_ids g \<longleftrightarrow>
     (ga_principal_type g = ''user'' \<and> ga_principal_id g = ''*'') \<or>
     (ga_principal_type g = ''user'' \<and> ga_principal_id g = user_id) \<or>
     (group_ids \<noteq> {} \<and> ga_principal_type g = ''group'' \<and> ga_principal_id g \<in> group_ids)"

definition group_ids_of :: "string \<Rightarrow> string set option \<Rightarrow> access_db \<Rightarrow> string set" where
  "group_ids_of user_id given d =
     (case given of Some ids \<Rightarrow> ids | None \<Rightarrow> gp_id ` set (get_groups_by_member_id user_id (ad_groups d)))"

definition table_has_access ::
    "string \<Rightarrow> string \<Rightarrow> string \<Rightarrow> string \<Rightarrow> string set option \<Rightarrow> access_db \<Rightarrow> bool" where
  "table_has_access user_id rt rid permission given d =
     (let ids = group_ids_of user_id given d in
      list_ex (\<lambda>g. on_resource rt rid g \<and> ga_permission g = permission \<and> principal_matches user_id ids g) (ad_grants d))"

definition get_accessible_resource_ids ::
    "string \<Rightarrow> string \<Rightarrow> string list \<Rightarrow> string \<Rightarrow> string set option \<Rightarrow> access_db \<Rightarrow> string set" where
  "get_accessible_resource_ids user_id rt rids permission given d =
     (let ids = group_ids_of user_id given d in
      ga_resource_id ` set (filter (\<lambda>g. ga_resource_type g = rt \<and> ga_resource_id g \<in> set rids \<and>
        ga_permission g = permission \<and> principal_matches user_id ids g) (ad_grants d)))"

text \<open>Queries of accounts without an order answer in the order of the table.\<close>

definition get_users_with_access :: "string \<Rightarrow> string \<Rightarrow> string \<Rightarrow> access_db \<Rightarrow> account list" where
  "get_users_with_access rt rid permission d =
     (let gs = filter (\<lambda>g. on_resource rt rid g \<and> ga_permission g = permission) (ad_grants d) in
      if list_ex (\<lambda>g. ga_principal_type g = ''user'' \<and> ga_principal_id g = ''*'') gs
      then filter (\<lambda>a. ac_role a \<noteq> ''pending'') (ad_accounts d)
      else
        let ids = concat (map (\<lambda>g. if ga_principal_type g = ''user'' then [ga_principal_id g]
              else if ga_principal_type g = ''group'' then get_group_user_ids_by_id (ga_principal_id g) (ad_groups d)
              else []) gs)
        in filter (\<lambda>a. ac_id a \<in> set ids) (ad_accounts d))"

text \<open>
  The filters of queries. A row of the filtered table is given by its identifier and its owner; an
  absent or empty user and an empty list of groups switch their conditions off. A disjunction of
  no conditions is dropped from the query, which then does not ask for a principal.
\<close>

definition exists_grant :: "(grant \<Rightarrow> bool) \<Rightarrow> string \<Rightarrow> string \<Rightarrow> string \<Rightarrow> access_db \<Rightarrow> bool" where
  "exists_grant P rt rid permission d =
     list_ex (\<lambda>g. on_resource rt rid g \<and> ga_permission g = permission \<and> P g) (ad_grants d)"

definition own_principal :: "string option \<Rightarrow> string list \<Rightarrow> grant \<Rightarrow> bool" where
  "own_principal user_id group_ids g \<longleftrightarrow>
     (\<not> truthy_str user_id \<and> group_ids = []) \<or>
     (truthy_str user_id \<and> ga_principal_type g = ''user'' \<and> Some (ga_principal_id g) = user_id) \<or>
     (group_ids \<noteq> [] \<and> ga_principal_type g = ''group'' \<and> ga_principal_id g \<in> set group_ids)"

definition public_principal :: "grant \<Rightarrow> bool" where
  "public_principal g \<longleftrightarrow> ga_principal_type g = ''user'' \<and> ga_principal_id g = ''*''"

definition read_only_filter :: "string option \<Rightarrow> string list \<Rightarrow> string \<Rightarrow> access_db \<Rightarrow> string \<times> string \<Rightarrow> bool" where
  "read_only_filter user_id group_ids rt d = (\<lambda>(rid, owner).
     exists_grant (own_principal user_id group_ids) rt rid ''read'' d \<and>
     \<not> exists_grant (own_principal user_id group_ids) rt rid ''write'' d \<and>
     \<not> exists_grant public_principal rt rid ''read'' d \<and>
     (truthy_str user_id \<longrightarrow> Some owner \<noteq> user_id))"

definition has_permission_filter ::
    "string option \<Rightarrow> string list \<Rightarrow> string \<Rightarrow> string \<Rightarrow> access_db \<Rightarrow> (string \<times> string) list \<Rightarrow> (string \<times> string) list" where
  "has_permission_filter user_id group_ids rt permission d rows =
     (if permission = ''read_only'' then filter (read_only_filter user_id group_ids rt d) rows
      else if group_ids = [] \<and> \<not> truthy_str user_id then rows
      else filter (\<lambda>(rid, owner).
          exists_grant (\<lambda>g. public_principal g \<or> own_principal user_id group_ids g) rt rid permission d \<or>
          (truthy_str user_id \<and> Some owner = user_id)) rows)"

subsection \<open>Normal form of a list of grants\<close>

lemma deduped_keys:
  "distinct (map fst (deduped uid gs))"
  "fst ` set (deduped uid gs) = {k. \<exists>v \<in> set gs. valid_grant v = Some k}"
proof -
  have folded: "distinct (map fst (foldl (dedup_step uid) [] xs)) \<and>
      fst ` set (foldl (dedup_step uid) [] xs) = {k. \<exists>v \<in> snd ` set xs. valid_grant v = Some k}" for xs
  proof (induction xs rule: rev_induct)
    case (snoc nv xs)
    then show ?case
      by (cases "valid_grant (snd nv)") (auto simp: dedup_step_def distinct_update dom_update)
  qed simp
  have rows: "snd ` set (enumerate 0 gs) = set gs" by (metis list.set_map map_snd_enumerate)
  show "distinct (map fst (deduped uid gs))" using folded unfolding deduped_def by blast
  show "fst ` set (deduped uid gs) = {k. \<exists>v \<in> set gs. valid_grant v = Some k}"
    using folded [of "enumerate 0 gs"] unfolding deduped_def rows by blast
qed

lemma slim_key_slim [simp]: "slim_key (slim ks) = fst ks"
  by (cases ks) (auto simp: slim_key_def slim_def split: prod.splits)

lemma normalized_keys:
  "distinct (map slim_key (normalize_access_grants uid grants))"
  "slim_key ` set (normalize_access_grants uid grants) =
     {k. \<exists>gs. grants = Some gs \<and> (\<exists>v \<in> set gs. valid_grant v = Some k)}"
proof -
  have "slim_key ` set (normalize_access_grants uid (Some gs)) = fst ` set (deduped uid gs)" for gs
    by (simp add: normalize_access_grants_def image_image)
  then show "slim_key ` set (normalize_access_grants uid grants) =
     {k. \<exists>gs. grants = Some gs \<and> (\<exists>v \<in> set gs. valid_grant v = Some k)}"
    by (cases grants) (simp_all add: deduped_keys(2), simp add: normalize_access_grants_def)
  show "distinct (map slim_key (normalize_access_grants uid grants))"
    using deduped_keys(1) by (auto simp: normalize_access_grants_def o_def split: option.splits)
qed

lemma public_grant_iff:
  "has_public_read_access_grant uid (Some gs) \<longleftrightarrow> (\<exists>v \<in> set gs. valid_grant v = Some (''user'', ''*'', ''read''))"
  "has_public_write_access_grant uid (Some gs) \<longleftrightarrow> (\<exists>v \<in> set gs. valid_grant v = Some (''user'', ''*'', ''write''))"
proof -
  have "list_ex (\<lambda>g. sg_principal_type g = t \<and> sg_principal_id g = i \<and> sg_permission g = p) gs' \<longleftrightarrow>
      (t, i, p) \<in> slim_key ` set gs'" for t i p gs'
    by (auto simp: list_ex_iff slim_key_def image_iff)
  then show "has_public_read_access_grant uid (Some gs) \<longleftrightarrow> (\<exists>v \<in> set gs. valid_grant v = Some (''user'', ''*'', ''read''))"
    "has_public_write_access_grant uid (Some gs) \<longleftrightarrow> (\<exists>v \<in> set gs. valid_grant v = Some (''user'', ''*'', ''write''))"
    unfolding has_public_read_access_grant_def has_public_write_access_grant_def by (simp_all add: normalized_keys(2))
qed

lemma public_read_is_public: "has_public_read_access_grant uid (Some public_read_access_grants)"
  by (simp add: public_grant_iff(1) public_read_access_grants_def valid_grant_def jget_def)

lemma user_grant_iff:
  "has_user_access_grant uid (Some gs) \<longleftrightarrow> (\<exists>v \<in> set gs. \<exists>i p. i \<noteq> ''*'' \<and> valid_grant v = Some (''user'', i, p))"
proof -
  have "has_user_access_grant uid (Some gs) \<longleftrightarrow>
      (\<exists>i p. i \<noteq> ''*'' \<and> (''user'', i, p) \<in> slim_key ` set (normalize_access_grants uid (Some gs)))"
    by (auto simp: has_user_access_grant_def list_ex_iff slim_key_def image_iff) metis+
  then show ?thesis unfolding normalized_keys(2) by auto
qed

lemma valid_grant_fields:
  "valid_grant v = Some (t, i, p) \<Longrightarrow> grant_field ''principal_type'' v = JStr t \<and> grant_field ''principal_id'' v = JStr i \<and>
     t \<in> {''user'', ''group''} \<and> p \<in> {''read'', ''write''} \<and> i \<noteq> []"
  by (auto simp: valid_grant_def grant_field_def split: json.splits if_splits)

text \<open>Stripping the grants of single users leaves none, and keeps all others.\<close>

lemma strip_user_grants:
  "\<not> has_user_access_grant uid (Some (strip_user_access_grants (Some gs)))"
  "v \<in> set gs \<Longrightarrow> valid_grant v = Some (t, i, p) \<Longrightarrow> t = ''group'' \<or> i = ''*'' \<Longrightarrow>
     v \<in> set (strip_user_access_grants (Some gs))"
  by (auto simp: user_grant_iff strip_user_access_grants_def dest!: valid_grant_fields)

subsection \<open>Round trip of the access-control object\<close>

lemma collect_same:
  "distinct (acc @ is) \<Longrightarrow> (t, p) = (''user'', ''read'') \<longrightarrow> ''*'' \<notin> set is \<Longrightarrow>
   foldl (collect_step p t) acc (map (\<lambda>i. (t, i, p)) is) = acc @ is"
  by (induction "is" arbitrary: acc) (auto simp: collect_step_def add_once_def)

lemma collect_other:
  "t' \<noteq> t \<or> p' \<noteq> p \<Longrightarrow> foldl (collect_step p t) acc (map (\<lambda>i. (t', i, p')) is) = acc"
  by (induction "is") (auto simp: collect_step_def)

definition lists_ok :: "bool \<Rightarrow> principal_lists \<Rightarrow> bool" where
  "lists_ok wildcard l \<longleftrightarrow> distinct (pl_group_ids l) \<and> distinct (pl_user_ids l) \<and> (wildcard \<longrightarrow> ''*'' \<notin> set (pl_user_ids l))"

lemma control_round_trip:
  assumes "lists_ok True r" "lists_ok False w"
    and "map key_of grants = access_control_to_grants rt (Some \<lparr>lc_read = Some r, lc_write = Some w\<rparr>)" "grants \<noteq> []"
  shows "grants_to_access_control grants = Some \<lparr>lc_read = Some r, lc_write = Some w\<rparr>"
proof -
  let ?ks = "map key_of grants"
  have ks: "?ks = (map (\<lambda>g. (''group'', g, ''read'')) (pl_group_ids r) @ map (\<lambda>u. (''user'', u, ''read'')) (pl_user_ids r)) @
      map (\<lambda>g. (''group'', g, ''write'')) (pl_group_ids w) @ map (\<lambda>u. (''user'', u, ''write'')) (pl_user_ids w)"
    using assms(3) by (simp add: access_control_to_grants_def listed_grants_def)
  have "collected ''read'' ''group'' ?ks = pl_group_ids r" "collected ''read'' ''user'' ?ks = pl_user_ids r"
    "collected ''write'' ''group'' ?ks = pl_group_ids w" "collected ''write'' ''user'' ?ks = pl_user_ids w"
    unfolding ks using assms(1,2)
    by (simp_all add: collected_def lists_ok_def collect_same collect_other)
  moreover have "(''user'', ''*'', ''read'') \<notin> set ?ks" unfolding ks using assms(1) by (auto simp: lists_ok_def)
  moreover have "?ks \<noteq> []" using assms(4) by simp
  ultimately show ?thesis by (simp add: grants_to_access_control_def Let_def)
qed

subsection \<open>Replacing the grants of a resource\<close>

lemma new_grant_simps [simp]:
  "ga_id (new_grant uid now rt rid k) = uid"
  "key_of (new_grant uid now rt rid k) = k"
  "row_key (new_grant uid now rt rid k) = (rt, rid, k)"
  "on_resource rt' rid' (new_grant uid now rt rid k) \<longleftrightarrow> rt = rt' \<and> rid = rid'"
  by (auto simp: new_grant_def key_of_def row_key_def on_resource_def split: prod.splits)

lemma insert_grants_total:
  assumes "distinct (map ga_id new)" "distinct (map row_key new)"
    and "ga_id ` set new \<inter> ga_id ` set t = {}" "row_key ` set new \<inter> row_key ` set t = {}"
  shows "foldE insert_grant new t = Inr (t @ new)"
  using assms by (induction new arbitrary: t) (auto simp: insert_grant_def add_row_def)

lemma insert_grants_distinct:
  "foldE insert_grant new t = Inr t' \<Longrightarrow> distinct (map row_key new) \<and> t' = t @ new \<and> (grants_ok t \<longrightarrow> grants_ok t') \<and>
     row_key ` set new \<inter> row_key ` set t = {}"
proof (induction new arbitrary: t)
  case Nil
  then show ?case by simp
next
  case (Cons g new)
  then have g: "ga_id g \<notin> ga_id ` set t" "row_key g \<notin> row_key ` set t" "foldE insert_grant new (t @ [g]) = Inr t'"
    by (auto simp: insert_grant_def [of g] add_row_def split: if_splits)
  have "grants_ok t \<longrightarrow> grants_ok (t @ [g])" using g(1,2) by (auto simp: grants_ok_def)
  with Cons.IH [OF g(3)] g(2) show ?case by auto
qed

definition fresh_grant_ids :: "(nat \<Rightarrow> string) \<Rightarrow> grant list \<Rightarrow> bool" where
  "fresh_grant_ids uid t \<longleftrightarrow> inj uid \<and> range uid \<inter> ga_id ` set t = {}"

lemma enumerated_grants:
  assumes "inj uid"
  shows "distinct (map ga_id (map (\<lambda>(n, k). new_grant (uid n) now rt rid k) (enumerate m ks)))"
    and "ga_id ` set (map (\<lambda>(n, k). new_grant (uid n) now rt rid k) (enumerate m ks)) \<subseteq> range uid"
    and "map key_of (map (\<lambda>(n, k). new_grant (uid n) now rt rid k) (enumerate m ks)) = ks"
    and "map row_key (map (\<lambda>(n, k). new_grant (uid n) now rt rid k) (enumerate m ks)) = map (\<lambda>k. (rt, rid, k)) ks"
    and "list_all (on_resource rt rid) (map (\<lambda>(n, k). new_grant (uid n) now rt rid k) (enumerate m ks))"
  using assms by (induction ks arbitrary: m) (auto simp: inj_eq in_set_enumerate_eq)

lemma grants_ok_del: "grants_ok t \<Longrightarrow> grants_ok (del_rows P t)"
  by (auto simp: grants_ok_def del_rows_def distinct_map intro: inj_on_subset)

lemma replace_grants_ok:
  assumes "grants_ok t" "fresh_grant_ids uid t" "distinct keys"
  shows "\<exists>new. replace_grants uid now rt rid keys t = Inr (new, del_rows (on_resource rt rid) t @ new) \<and>
    map key_of new = keys \<and> list_all (on_resource rt rid) new \<and> grants_ok (del_rows (on_resource rt rid) t @ new)"
proof -
  let ?new = "map (\<lambda>(n, k). new_grant (uid n) now rt rid k) (enumerate 0 keys)"
  have inj: "inj uid" using assms(2) by (simp add: fresh_grant_ids_def)
  note new = enumerated_grants [OF inj, where now = now and rt = rt and rid = rid and m = 0 and ks = keys]
  have rows: "row_key ` set ?new = (\<lambda>k. (rt, rid, k)) ` set keys"
    using arg_cong [OF new(4), of set] by (simp add: image_image)
  have ins: "foldE insert_grant ?new (del_rows (on_resource rt rid) t) = Inr (del_rows (on_resource rt rid) t @ ?new)"
  proof (rule insert_grants_total)
    show "distinct (map row_key ?new)" unfolding new(4) using assms(3) by (simp add: distinct_map inj_on_def)
    show "ga_id ` set ?new \<inter> ga_id ` set (del_rows (on_resource rt rid) t) = {}"
      using new(2) assms(2) by (force simp: fresh_grant_ids_def set_del_rows)
    show "row_key ` set ?new \<inter> row_key ` set (del_rows (on_resource rt rid) t) = {}"
      unfolding rows by (auto simp: row_key_def on_resource_def set_del_rows)
  qed (rule new(1))
  have "grants_ok (del_rows (on_resource rt rid) t @ ?new)"
    using insert_grants_distinct [OF ins] grants_ok_del [OF assms(1)] by blast
  with ins new(3,5) show ?thesis by (auto simp: replace_grants_def Let_def)
qed

text \<open>A list of principals that names one twice violates the unique constraint.\<close>

lemma replace_grants_duplicates:
  assumes "\<not> distinct keys"
  shows "\<exists>e. replace_grants uid now rt rid keys t = Inl e"
proof (cases "replace_grants uid now rt rid keys t")
  case (Inr a)
  then obtain t' where t': "foldE insert_grant (map (\<lambda>(n, k). new_grant (uid n) now rt rid k) (enumerate 0 keys))
      (del_rows (on_resource rt rid) t) = Inr t'"
    by (auto simp: replace_grants_def Let_def bindE_Inr_iff)
  have "map row_key (map (\<lambda>(n, k). new_grant (uid n) now rt rid k) (enumerate m keys)) = map (\<lambda>k. (rt, rid, k)) keys" for m
    by (induction keys arbitrary: m) auto
  then have "distinct (map (\<lambda>k. (rt, rid, k)) keys)" using insert_grants_distinct [OF t'] by metis
  then show ?thesis using assms by (simp add: distinct_map)
qed auto

end
