(* ===== verification/Permission_Tree.thy ===== *)
theory Permission_Tree
  imports Access_Grants Condition_Assignment "HOL-Library.Sublist"
begin

text \<open>
  Permissions of users and access settings in memory (\<open>utils/access_control/__init__.py\<close>): the trees
  of permissions that the groups of a user add up to, grants kept in settings, and what a user may
  share. The tree \<open>DEFAULT_USER_PERMISSIONS\<close> of the settings is the parameter \<open>template\<close>.
  \<open>has_permission\<close> fills the missing entries of the tree it is given, the settings of the platform, in
  place: the model returns the settings a check leaves behind, which the next check or the next
  tree reads.
\<close>

type_synonym obj = "(string \<times> json) list"

subsection \<open>Trees of permissions\<close>

fun fill_missing_permissions :: "obj \<Rightarrow> obj \<Rightarrow> obj" where
  "fill_missing_permissions p [] = p"
| "fill_missing_permissions p ((k, v) # ds) =
     fill_missing_permissions
       (case map_of p k of
          None \<Rightarrow> put_key k v p
        | Some x \<Rightarrow>
            (case (x, v) of
               (JObj px, JObj dv) \<Rightarrow> put_key k (JObj (fill_missing_permissions px dv)) p
             | _ \<Rightarrow> p)) ds"

text \<open>Looking up a key in what is no dictionary raises, an empty dictionary adds nothing.\<close>

fun combine_permissions :: "obj \<Rightarrow> obj \<Rightarrow> err + obj" where
  "combine_permissions p [] = Inr p"
| "combine_permissions p ((k, JObj v) # gs) =
     (case (case map_of p k of None \<Rightarrow> JObj [] | Some x \<Rightarrow> x) of
        JObj px \<Rightarrow> bindE (combine_permissions px v) (\<lambda>px. combine_permissions (put_key k (JObj px) p) gs)
      | x \<Rightarrow> if v = [] then combine_permissions (put_key k x p) gs else Inl TypeError)"
| "combine_permissions p ((k, v) # gs) =
     combine_permissions (put_key k (case map_of p k of None \<Rightarrow> v | Some x \<Rightarrow> if truthy_json x then x else v) p) gs"

fun get_permission :: "json \<Rightarrow> string list \<Rightarrow> err + bool" where
  "get_permission v [] = Inr (truthy_json v)"
| "get_permission v (k # ks) =
     (case v of
        JObj m \<Rightarrow> (case map_of m k of None \<Rightarrow> Inr False | Some x \<Rightarrow> get_permission x ks)
      | JStr s \<Rightarrow> if sublist k s then Inl TypeError else Inr False
      | JList xs \<Rightarrow> if JStr k \<in> set xs then Inl TypeError else Inr False
      | _ \<Rightarrow> Inl TypeError)"

text \<open>\<open>permission_key.split('.')\<close>\<close>

fun split_dots :: "string \<Rightarrow> string list" where
  "split_dots [] = [[]]"
| "split_dots (c # s) =
     (case split_dots s of [] \<Rightarrow> [[c]] | w # ws \<Rightarrow> if c = CHR ''.'' then [] # w # ws else (c # w) # ws)"

definition group_permissions :: "string \<Rightarrow> access_db \<Rightarrow> obj list" where
  "group_permissions user_id d =
     map (\<lambda>g. case gp_permissions g of None \<Rightarrow> [] | Some p \<Rightarrow> p) (get_groups_by_member_id user_id (ad_groups d))"

definition get_permissions :: "obj \<Rightarrow> string \<Rightarrow> access_db \<Rightarrow> err + obj" where
  "get_permissions defaults user_id d =
     bindE (foldE (\<lambda>g p. combine_permissions p g) (group_permissions user_id d) defaults)
       (\<lambda>p. Inr (fill_missing_permissions p defaults))"

fun any_permission :: "obj list \<Rightarrow> string list \<Rightarrow> err + bool" where
  "any_permission [] ks = Inr False"
| "any_permission (g # gs) ks = bindE (get_permission (JObj g) ks) (\<lambda>b. if b then Inr True else any_permission gs ks)"

definition has_permission :: "obj \<Rightarrow> string \<Rightarrow> string \<Rightarrow> obj \<Rightarrow> access_db \<Rightarrow> (err + bool) \<times> obj" where
  "has_permission template user_id permission_key defaults d =
     (case any_permission (group_permissions user_id d) (split_dots permission_key) of
        Inl err \<Rightarrow> (Inl err, defaults)
      | Inr True \<Rightarrow> (Inr True, defaults)
      | Inr False \<Rightarrow>
          let defaults = fill_missing_permissions defaults template
          in (get_permission (JObj defaults) (split_dots permission_key), defaults))"

subsection \<open>Grants in settings\<close>

text \<open>A membership test hashes its left side, which lists and objects do not allow.\<close>

definition in_ids :: "json \<Rightarrow> string set \<Rightarrow> err + bool" where
  "in_ids v ids = (case v of JStr s \<Rightarrow> Inr (s \<in> ids) | JList _ \<Rightarrow> Inl TypeError | JObj _ \<Rightarrow> Inl TypeError | _ \<Rightarrow> Inr False)"

fun any_grant :: "string \<Rightarrow> string \<Rightarrow> string set \<Rightarrow> json list \<Rightarrow> err + bool" where
  "any_grant user_id permission ids [] = Inr False"
| "any_grant user_id permission ids (JObj m # gs) =
     (if jget m ''permission'' \<noteq> JStr permission then any_grant user_id permission ids gs
      else if jget m ''principal_type'' = JStr ''user'' \<and> jget m ''principal_id'' \<in> {JStr ''*'', JStr user_id} then Inr True
      else if jget m ''principal_type'' = JStr ''group'' \<and> ids \<noteq> {}
      then bindE (in_ids (jget m ''principal_id'') ids) (\<lambda>b. if b then Inr True else any_grant user_id permission ids gs)
      else any_grant user_id permission ids gs)"
| "any_grant user_id permission ids (_ # gs) = any_grant user_id permission ids gs"

definition has_access ::
    "string \<Rightarrow> string \<Rightarrow> json list option \<Rightarrow> string set option \<Rightarrow> access_db \<Rightarrow> err + bool" where
  "has_access user_id permission grants given d =
     (case grants of
        None \<Rightarrow> Inr False
      | Some [] \<Rightarrow> Inr False
      | Some gs \<Rightarrow> any_grant user_id permission (group_ids_of user_id given d) gs)"

text \<open>Iterating over a value: the keys of an object, the characters of a string.\<close>

definition iterate :: "json \<Rightarrow> err + json list" where
  "iterate v = (case v of
       JList xs \<Rightarrow> Inr xs
     | JStr s \<Rightarrow> Inr (map (\<lambda>c. JStr [c]) s)
     | JObj m \<Rightarrow> Inr (map (\<lambda>kv. JStr (fst kv)) m)
     | _ \<Rightarrow> Inl TypeError)"

text \<open>\<open>value.get(k, default)\<close>\<close>

definition get_of :: "json \<Rightarrow> string \<Rightarrow> json \<Rightarrow> err + json" where
  "get_of v k other =
     (case v of JObj m \<Rightarrow> Inr (case map_of m k of None \<Rightarrow> other | Some x \<Rightarrow> x) | _ \<Rightarrow> Inl AttributeError)"

definition or_obj :: "json \<Rightarrow> json" where
  "or_obj v = (if truthy_json v then v else JObj [])"

definition has_connection_access ::
    "bool \<Rightarrow> account \<Rightarrow> obj \<Rightarrow> string set option \<Rightarrow> access_db \<Rightarrow> err + bool" where
  "has_connection_access bypass user connection given d =
     (if ac_role user = ''admin'' \<and> bypass then Inr True
      else
        let ids = group_ids_of (ac_id user) given d in
        bindE (get_of (or_obj (jget connection ''config'')) ''access_grants'' (JList [])) (\<lambda>grants.
          if \<not> truthy_json grants then Inr False
          else bindE (iterate grants) (\<lambda>gs. has_access (ac_id user) ''read'' (Some gs) (Some ids) d)))"

definition migrated_entries :: "string \<Rightarrow> string \<Rightarrow> json \<Rightarrow> err + json list" where
  "migrated_entries permission type ids =
     bindE (iterate ids) (\<lambda>ids. Inr (map (\<lambda>i. JObj [(''principal_type'', JStr type), (''principal_id'', i),
       (''permission'', JStr permission)]) ids))"

definition migrated_permission :: "json \<Rightarrow> string \<Rightarrow> err + json list" where
  "migrated_permission control permission =
     bindE (get_of control permission (JObj [])) (\<lambda>data.
       if \<not> truthy_json data then Inr []
       else bindE (get_of data ''group_ids'' (JList [])) (\<lambda>groups.
         bindE (migrated_entries permission ''group'' groups) (\<lambda>gs.
           bindE (get_of data ''user_ids'' (JList [])) (\<lambda>users.
             bindE (migrated_entries permission ''user'' users) (\<lambda>us. Inr (gs @ us))))))"

definition migrate_access_control :: "string \<Rightarrow> string \<Rightarrow> obj \<Rightarrow> err + obj" where
  "migrate_access_control ac_key grants_key data =
     (if map_of data grants_key \<noteq> None \<or> map_of data ac_key = None then Inr data
      else
        let control = jget data ac_key in
        bindE (if truthy_json control \<and> (case control of JObj _ \<Rightarrow> True | _ \<Rightarrow> False)
               then bindE (migrated_permission control ''read'') (\<lambda>rs.
                 bindE (migrated_permission control ''write'') (\<lambda>ws. Inr (rs @ ws)))
               else Inr [])
          (\<lambda>grants. Inr (AList.delete ac_key (put_key grants_key (JList grants) data))))"

subsection \<open>What a user may share\<close>

definition is_wildcard :: "json \<Rightarrow> bool" where
  "is_wildcard v \<longleftrightarrow> grant_field ''principal_type'' v = JStr ''user'' \<and> grant_field ''principal_id'' v = JStr ''*''"

text \<open>\<open>uid\<close> stands for the identifiers the normalization draws and throws away.\<close>

definition filter_allowed_access_grants ::
    "(nat \<Rightarrow> string) \<Rightarrow> obj \<Rightarrow> obj \<Rightarrow> string \<Rightarrow> string \<Rightarrow> json list \<Rightarrow> string \<Rightarrow> access_db \<Rightarrow> (err + json list) \<times> obj" where
  "filter_allowed_access_grants uid template defaults user_id user_role grants public_key d =
     (if user_role = ''admin'' \<or> grants = [] then (Inr grants, defaults)
      else
        (case (if has_public_read_access_grant uid (Some grants) \<or> has_public_write_access_grant uid (Some grants)
               then has_permission template user_id public_key defaults d
               else (Inr True, defaults)) of
           (Inl err, defaults) \<Rightarrow> (Inl err, defaults)
         | (Inr public, defaults) \<Rightarrow>
             let grants = (if public then grants else filter (\<lambda>v. \<not> is_wildcard v) grants) in
             if has_user_access_grant uid (Some grants)
             then (case has_permission template user_id ''access_grants.allow_users'' defaults d of
                     (Inl err, defaults) \<Rightarrow> (Inl err, defaults)
                   | (Inr users, defaults) \<Rightarrow>
                       (Inr (if users then grants else strip_user_access_grants (Some grants)), defaults))
             else (Inr grants, defaults)))"

subsection \<open>Trees that follow the template\<close>

text \<open>
  A tree conforms to a template when it has distinct keys, only keys of the template, truth values
  where the template has them and objects where the template has objects.
\<close>

fun conforms :: "json \<Rightarrow> json \<Rightarrow> bool" where
  "conforms (JBool a) t = (case t of JBool b \<Rightarrow> True | _ \<Rightarrow> False)"
| "conforms (JObj m) t = (case t of
       JObj s \<Rightarrow> distinct (map fst m) \<and>
         list_all (\<lambda>(k, v). case map_of s k of None \<Rightarrow> False | Some t \<Rightarrow> conforms v t) m
     | _ \<Rightarrow> False)"
| "conforms _ t = False"

fun node :: "json \<Rightarrow> string list \<Rightarrow> json option" where
  "node v [] = Some v"
| "node v (k # ks) = (case v of JObj m \<Rightarrow> (case map_of m k of None \<Rightarrow> None | Some x \<Rightarrow> node x ks) | _ \<Rightarrow> None)"

definition flag :: "json \<Rightarrow> string list \<Rightarrow> bool" where
  "flag v ks \<longleftrightarrow> node v ks = Some (JBool True)"

lemma flag_simps [simp]:
  "flag (JObj m) [] = False"
  "flag (JBool b) ks = (ks = [] \<and> b)"
  "flag (JObj m) (k # ks) = (case map_of m k of None \<Rightarrow> False | Some x \<Rightarrow> flag x ks)"
  by (cases ks; auto simp: flag_def split: option.splits)+

declare conforms.simps(2) [simp del]

lemma list_all_map_of:
  "distinct (map fst m) \<Longrightarrow> list_all P m \<longleftrightarrow> (\<forall>k v. map_of m k = Some v \<longrightarrow> P (k, v))"
  by (auto simp: list_all_iff)

lemma conforms_obj:
  "conforms (JObj m) (JObj s) \<longleftrightarrow> distinct (map fst m) \<and>
     (\<forall>k v. map_of m k = Some v \<longrightarrow> (\<exists>t. map_of s k = Some t \<and> conforms v t))"
proof (cases "distinct (map fst m)")
  case True
  have "(case map_of s k of None \<Rightarrow> False | Some t \<Rightarrow> conforms v t) \<longleftrightarrow> (\<exists>t. map_of s k = Some t \<and> conforms v t)" for k v
    by (cases "map_of s k") auto
  then show ?thesis using list_all_map_of [OF True] by (simp add: conforms.simps(2))
qed (simp add: conforms.simps(2))

lemma conforms_at:
  "conforms (JObj m) (JObj s) \<Longrightarrow> map_of m k = Some v \<Longrightarrow> map_of s k = Some t \<Longrightarrow> conforms v t"
  unfolding conforms_obj by fastforce

lemma conforms_put:
  assumes "conforms (JObj p) (JObj s)" "map_of s k = Some t" "conforms v t"
  shows "conforms (JObj (put_key k v p)) (JObj s)"
  using assms by (auto simp: conforms_obj put_key_def update_conv' distinct_update)

lemma conforms_cons:
  "conforms (JObj ((k, v) # m)) (JObj s) \<longleftrightarrow>
     k \<notin> fst ` set m \<and> conforms (JObj m) (JObj s) \<and> (\<exists>t. map_of s k = Some t \<and> conforms v t)"
  by (auto simp: conforms.simps(2) split: option.splits)

lemma conforms_empty [simp]: "conforms (JObj []) (JObj s)"
  by (simp add: conforms.simps)

lemma map_of_put [simp]: "map_of (put_key k v p) = (map_of p)(k \<mapsto> v)"
  by (simp add: put_key_def update_conv')

lemma conforms_JBool: "conforms v (JBool b) \<longleftrightarrow> (\<exists>a. v = JBool a)"
  by (cases v) (auto simp: conforms.simps)

lemma conforms_JObj: "conforms v (JObj s) \<Longrightarrow> \<exists>m. v = JObj m"
  by (cases v) auto

lemma get_permission_flag:
  "conforms v t \<Longrightarrow> node t ks = Some (JBool b) \<Longrightarrow> get_permission v ks = Inr (flag v ks)"
proof (induction ks arbitrary: v t)
  case Nil
  then show ?case by (auto simp: conforms_JBool)
next
  case (Cons k ks)
  then obtain s x where t: "t = JObj s" "map_of s k = Some x" "node x ks = Some (JBool b)"
    by (auto split: json.splits option.splits)
  obtain m where v: "v = JObj m" using Cons.prems(1) conforms_JObj t(1) by blast
  show ?case
  proof (cases "map_of m k")
    case None
    then show ?thesis by (simp add: v)
  next
    case (Some y)
    then have "conforms y x" using conforms_at Cons.prems(1) t(2) unfolding v t(1) by blast
    from Cons.IH [OF this t(3)] Some show ?thesis by (simp add: v)
  qed
qed

lemma flag_empty [simp]: "\<not> flag (JObj []) ks"
  by (cases ks) simp_all

text \<open>Combining is the disjunction of the flags.\<close>

lemma combine_step_flags:
  assumes gs: "map_of gs k = None"
    and x: "\<And>l. flag x l \<longleftrightarrow> (case map_of p k of None \<Rightarrow> False | Some y \<Rightarrow> flag y l) \<or> flag v l"
    and q: "\<And>ks. flag (JObj q) ks \<longleftrightarrow> flag (JObj (put_key k x p)) ks \<or> flag (JObj gs) ks"
  shows "flag (JObj q) ks \<longleftrightarrow> flag (JObj p) ks \<or> flag (JObj ((k, v) # gs)) ks"
proof (cases ks)
  case (Cons a l)
  show ?thesis
  proof (cases "a = k")
    case True
    then show ?thesis unfolding q using gs x [of l] by (simp add: Cons)
  next
    case False
    then show ?thesis unfolding q by (simp add: Cons)
  qed
qed simp

lemma combine_flags:
  assumes "conforms (JObj p) (JObj s)" "conforms (JObj g) (JObj s)"
  shows "\<exists>r. combine_permissions p g = Inr r \<and> conforms (JObj r) (JObj s) \<and>
    (\<forall>ks. flag (JObj r) ks \<longleftrightarrow> flag (JObj p) ks \<or> flag (JObj g) ks)"
  using assms
proof (induction p g arbitrary: s rule: combine_permissions.induct [case_names none dict null flag num str list])
  case (none p)
  then show ?case by simp
next
  case (dict p k v gs)
  obtain t where t: "map_of s k = Some t" "conforms (JObj v) t" and gs: "conforms (JObj gs) (JObj s)" "map_of gs k = None"
    using dict.prems(2) by (auto simp: conforms_cons map_of_eq_None_iff)
  obtain s' where s': "t = JObj s'" using t(2) by (cases t) (auto simp: conforms.simps)
  obtain px where px: "(case map_of p k of None \<Rightarrow> JObj [] | Some x \<Rightarrow> x) = JObj px" "conforms (JObj px) (JObj s')"
  proof (cases "map_of p k")
    case None
    then show ?thesis using that by simp
  next
    case (Some x)
    then have "conforms x (JObj s')" using conforms_at dict.prems(1) t(1) unfolding s' by blast
    then show ?thesis using that Some conforms_JObj by fastforce
  qed
  obtain r where r: "combine_permissions px v = Inr r" "conforms (JObj r) (JObj s')"
      "\<forall>ks. flag (JObj r) ks \<longleftrightarrow> flag (JObj px) ks \<or> flag (JObj v) ks"
    using dict(6) [OF px(1) px(2)] t(2) s' by auto
  have "conforms (JObj (put_key k (JObj r) p)) (JObj s)" using conforms_put [OF dict.prems(1) t(1)] r(2) s' by simp
  from dict(7) [OF px(1) this gs(1)] obtain q where
    q: "combine_permissions (put_key k (JObj r) p) gs = Inr q" "conforms (JObj q) (JObj s)"
      "\<forall>ks. flag (JObj q) ks \<longleftrightarrow> flag (JObj (put_key k (JObj r) p)) ks \<or> flag (JObj gs) ks" by blast
  have "flag (JObj px) l \<longleftrightarrow> (case map_of p k of None \<Rightarrow> False | Some y \<Rightarrow> flag y l)" for l
    using px(1) by (cases "map_of p k") auto
  then have "flag (JObj q) ks \<longleftrightarrow> flag (JObj p) ks \<or> flag (JObj ((k, JObj v) # gs)) ks" for ks
    using combine_step_flags [OF gs(2), of "JObj r" p "JObj v" q] r(3) q(3) by blast
  moreover have "combine_permissions p ((k, JObj v) # gs) = Inr q" using q(1) r(1) px(1) by simp
  ultimately show ?case using q(2) by blast
next
  case (flag p k b gs)
  obtain t0 where t0: "map_of s k = Some t0" "conforms (JBool b) t0" and gs: "conforms (JObj gs) (JObj s)" "map_of gs k = None"
    using flag.prems(2) by (auto simp: conforms_cons map_of_eq_None_iff simp del: conforms.simps)
  then obtain c where t: "map_of s k = Some (JBool c)" by (cases t0) simp_all
  define x where "x = (case map_of p k of None \<Rightarrow> JBool b | Some x \<Rightarrow> if truthy_json x then x else JBool b)"
  have p: "\<exists>a. y = JBool a" if "map_of p k = Some y" for y
    using conforms_at [OF flag.prems(1) that t] by (simp add: conforms_JBool)
  have x: "conforms x (JBool c) \<and>
      (flag x l \<longleftrightarrow> (case map_of p k of None \<Rightarrow> False | Some y \<Rightarrow> flag y l) \<or> flag (JBool b) l)" for l
    using p by (cases "map_of p k") (auto simp: x_def conforms_JBool)
  have "conforms (JObj (put_key k x p)) (JObj s)" using conforms_put [OF flag.prems(1) t] x by blast
  from flag.IH [folded x_def, OF this gs(1)] obtain q where
    q: "combine_permissions (put_key k x p) gs = Inr q" "conforms (JObj q) (JObj s)"
      "\<forall>ks. flag (JObj q) ks \<longleftrightarrow> flag (JObj (put_key k x p)) ks \<or> flag (JObj gs) ks" by blast
  have "flag (JObj q) ks \<longleftrightarrow> flag (JObj p) ks \<or> flag (JObj ((k, JBool b) # gs)) ks" for ks
    using combine_step_flags [OF gs(2), of x p "JBool b" q] x q(3) by blast
  then show ?case using q(1,2) by (simp add: x_def)
qed (auto simp: conforms_cons)

text \<open>Filling in adds the flags of the paths that are missing.\<close>

lemma fill_flags:
  assumes "conforms (JObj p) (JObj s)" "conforms (JObj d) (JObj s)"
  shows "conforms (JObj (fill_missing_permissions p d)) (JObj s) \<and>
    (\<forall>ks. flag (JObj (fill_missing_permissions p d)) ks \<longleftrightarrow>
      flag (JObj p) ks \<or> (node (JObj p) ks = None \<and> flag (JObj d) ks))"
  using assms
proof (induction p d arbitrary: s rule: fill_missing_permissions.induct)
  case (1 p)
  then show ?case by simp
next
  case (2 p k v ds)
  obtain t where t: "map_of s k = Some t" "conforms v t" and ds: "conforms (JObj ds) (JObj s)" "map_of ds k = None"
    using "2.prems"(2) by (auto simp: conforms_cons map_of_eq_None_iff)
  define q where "q = (case map_of p k of None \<Rightarrow> put_key k v p | Some x \<Rightarrow>
      (case x of JObj px \<Rightarrow> (case v of JObj dv \<Rightarrow> put_key k (JObj (fill_missing_permissions px dv)) p | _ \<Rightarrow> p) | _ \<Rightarrow> p))"
  have single: "flag (JObj [(k, v)]) (a # l) \<longleftrightarrow> a = k \<and> flag v l" for a l by simp
  have q: "conforms (JObj q) (JObj s) \<and>
      (\<forall>a l. flag (JObj q) (a # l) \<longleftrightarrow> flag (JObj p) (a # l) \<or> (node (JObj p) (a # l) = None \<and> a = k \<and> flag v l)) \<and>
      (\<forall>a l. a \<noteq> k \<longrightarrow> node (JObj q) (a # l) = node (JObj p) (a # l))"
  proof (cases "map_of p k")
    case None
    then show ?thesis using conforms_put [OF "2.prems"(1) t] by (auto simp: q_def)
  next
    case (Some x)
    have x: "conforms x t" using conforms_at [OF "2.prems"(1) Some t(1)] .
    show ?thesis
    proof (cases t)
      case (JBool c)
      then obtain a b where "x = JBool a" "v = JBool b" using x t(2) by (auto simp: conforms_JBool)
      then show ?thesis using Some "2.prems"(1) by (auto simp: q_def)
    next
      case (JObj s')
      obtain px dv where o: "x = JObj px" "v = JObj dv" using x t(2) conforms_JObj unfolding JObj by blast
      have f: "conforms (JObj (fill_missing_permissions px dv)) (JObj s') \<and>
          (\<forall>ks. flag (JObj (fill_missing_permissions px dv)) ks \<longleftrightarrow> flag x ks \<or> (node x ks = None \<and> flag v ks))"
        using "2.IH"(1) [OF Some _ o] x t(2) unfolding JObj o by blast
      then show ?thesis using Some conforms_put [OF "2.prems"(1) t(1)] by (auto simp: q_def o JObj)
    qed (use t(2) in \<open>cases v; simp add: conforms.simps\<close>)+
  qed
  have r: "conforms (JObj (fill_missing_permissions q ds)) (JObj s) \<and> (\<forall>ks. flag (JObj (fill_missing_permissions q ds)) ks \<longleftrightarrow>
      flag (JObj q) ks \<or> (node (JObj q) ks = None \<and> flag (JObj ds) ks))"
    by (rule "2.IH"(2) [folded q_def, OF conjunct1 [OF q] ds(1)])
  have "flag (JObj (fill_missing_permissions q ds)) ks \<longleftrightarrow>
      flag (JObj p) ks \<or> (node (JObj p) ks = None \<and> flag (JObj ((k, v) # ds)) ks)" for ks
  proof (cases ks)
    case (Cons a l)
    have ds_a: "flag (JObj ((k, v) # ds)) (a # l) \<longleftrightarrow> (if a = k then flag v l else flag (JObj ds) (a # l))"
      "flag (JObj ds) (k # l) = False" using ds(2) by auto
    show ?thesis
    proof (cases "a = k")
      case True
      then show ?thesis using r q ds_a unfolding Cons by metis
    next
      case False
      then show ?thesis using r q ds_a unfolding Cons by metis
    qed
  qed (use r in simp)
  moreover have "fill_missing_permissions p ((k, v) # ds) = fill_missing_permissions q ds"
    by (cases "map_of p k") (auto simp: q_def split: json.split)
  ultimately show ?case using r by simp
qed

lemma put_keeps:
  "(case map_of p k of None \<Rightarrow> True | Some x \<Rightarrow> (\<forall>ks. node x ks \<noteq> None \<longrightarrow> node v ks \<noteq> None)) \<Longrightarrow>
   node (JObj p) ks \<noteq> None \<Longrightarrow> node (JObj (put_key k v p)) ks \<noteq> None"
  by (cases ks) (auto split: option.splits)

lemma fill_keeps: "node (JObj p) ks \<noteq> None \<Longrightarrow> node (JObj (fill_missing_permissions p d)) ks \<noteq> None"
proof (induction p d arbitrary: ks rule: fill_missing_permissions.induct)
  case (1 p)
  then show ?case by simp
next
  case (2 p k v ds)
  define q where "q = (case map_of p k of None \<Rightarrow> put_key k v p | Some x \<Rightarrow>
      (case x of JObj px \<Rightarrow> (case v of JObj dv \<Rightarrow> put_key k (JObj (fill_missing_permissions px dv)) p | _ \<Rightarrow> p) | _ \<Rightarrow> p))"
  have "node (JObj q) ks \<noteq> None"
  proof (cases "\<exists>px dv. map_of p k = Some (JObj px) \<and> v = JObj dv")
    case True
    then obtain px dv where o: "map_of p k = Some (JObj px)" "v = JObj dv" by blast
    have "node (JObj px) ks \<noteq> None \<Longrightarrow> node (JObj (fill_missing_permissions px dv)) ks \<noteq> None" for ks
      by (rule "2.IH"(1) [OF o(1) refl refl o(2)])
    then show ?thesis using put_keeps [OF _ "2.prems", where k = k] o by (simp add: q_def)
  next
    case False
    then have "q = p \<or> map_of p k = None \<and> q = put_key k v p"
      by (cases "map_of p k") (auto simp: q_def split: json.split)
    then show ?thesis using put_keeps [OF _ "2.prems", where k = k and v = v] "2.prems" by auto
  qed
  then have "node (JObj (fill_missing_permissions q ds)) ks \<noteq> None" by (rule "2.IH"(2) [folded q_def])
  moreover have "fill_missing_permissions p ((k, v) # ds) = fill_missing_permissions q ds"
    by (cases "map_of p k") (auto simp: q_def split: json.split)
  ultimately show ?case by simp
qed

text \<open>
  Filling in twice is filling in once, for a template with distinct keys at every level, as a
  dictionary has. \<open>filled p d\<close>: \<open>p\<close> has every entry of \<open>d\<close>.
\<close>

fun dict_keys :: "json \<Rightarrow> bool" where
  "dict_keys (JObj m) = (distinct (map fst m) \<and> list_all (\<lambda>(k, v). dict_keys v) m)"
| "dict_keys _ = True"

fun filled :: "obj \<Rightarrow> obj \<Rightarrow> bool" where
  "filled p [] = True"
| "filled p ((k, v) # ds) =
     ((case map_of p k of
         None \<Rightarrow> False
       | Some x \<Rightarrow> (case (x, v) of (JObj px, JObj dv) \<Rightarrow> filled px dv | _ \<Rightarrow> True)) \<and> filled p ds)"

definition filled_at :: "obj \<Rightarrow> string \<Rightarrow> json \<Rightarrow> bool" where
  "filled_at p k v \<longleftrightarrow> (case map_of p k of
      None \<Rightarrow> False
    | Some x \<Rightarrow> (case (x, v) of (JObj px, JObj dv) \<Rightarrow> filled px dv | _ \<Rightarrow> True))"

lemma filled_iff: "filled p d \<longleftrightarrow> (\<forall>(k, v) \<in> set d. filled_at p k v)"
  by (induction d) (auto simp: filled_at_def)

lemma put_same: "map_of p k = Some x \<Longrightarrow> put_key k x p = p"
  by (induction p) (auto simp: put_key_def)

lemma filled_unchanged: "filled p d \<Longrightarrow> fill_missing_permissions p d = p"
proof (induction p d rule: fill_missing_permissions.induct)
  case (2 p k v ds)
  then show ?case by (auto split: option.splits json.splits simp: put_same)
qed simp

lemma filled_refl: "dict_keys v \<Longrightarrow> v = JObj d \<Longrightarrow> filled d d"
proof (induction v arbitrary: d rule: dict_keys.induct)
  case (1 m)
  have "filled_at m k v" if kv: "(k, v) \<in> set m" for k v
  proof -
    have "map_of m k = Some v" using 1(2) kv by simp
    moreover have "filled dv dv" if "v = JObj dv" for dv
      using 1(1) [OF kv refl, of dv] 1(2) kv that by (auto simp: list_all_iff)
    ultimately show ?thesis by (simp add: filled_at_def split: json.split)
  qed
  with 1(3) show ?case by (auto simp: filled_iff)
qed simp_all

definition fill_step :: "string \<Rightarrow> json \<Rightarrow> obj \<Rightarrow> obj" where
  "fill_step k v p = (case map_of p k of
      None \<Rightarrow> put_key k v p
    | Some x \<Rightarrow> (case x of JObj px \<Rightarrow>
        (case v of JObj dv \<Rightarrow> put_key k (JObj (fill_missing_permissions px dv)) p | _ \<Rightarrow> p) | _ \<Rightarrow> p))"

lemma fill_Cons: "fill_missing_permissions p ((k, v) # ds) = fill_missing_permissions (fill_step k v p) ds"
  by (cases "map_of p k") (auto simp: fill_step_def split: json.split)

lemma fill_keeps_filled: "filled p d \<Longrightarrow> filled (fill_missing_permissions p e) d"
proof (induction p e arbitrary: d rule: fill_missing_permissions.induct)
  case (2 p k v es)
  have "filled_at (fill_step k v p) a w" if "filled_at p a w" for a w
  proof (cases "a = k")
    case False
    then have "map_of (fill_step k v p) a = map_of p a"
      by (simp add: fill_step_def split: option.split json.split)
    with that show ?thesis by (simp add: filled_at_def)
  next
    case True
    from that obtain x where x: "map_of p k = Some x" by (auto simp: filled_at_def True split: option.splits)
    show ?thesis
    proof (cases "\<exists>px dv. x = JObj px \<and> v = JObj dv")
      case False
      then have "fill_step k v p = p" by (auto simp: fill_step_def x split: json.split)
      with that show ?thesis by simp
    next
      case True
      then obtain px dv where o: "x = JObj px" "v = JObj dv" by blast
      have "filled (fill_missing_permissions px dv) w'" if "filled px w'" for w'
        using 2(1) [OF x refl o(1) o(2) that] .
      with that x o show ?thesis by (auto simp: filled_at_def fill_step_def \<open>a = k\<close> split: json.splits)
    qed
  qed
  then have "filled (fill_step k v p) d" using 2(3) by (auto simp: filled_iff)
  from 2(2) [folded fill_step_def, OF this] show ?case by (simp only: fill_Cons)
qed simp

lemma filled_fill: "dict_keys (JObj d) \<Longrightarrow> filled (fill_missing_permissions p d) d"
proof (induction p d rule: fill_missing_permissions.induct)
  case (2 p k v ds)
  have v: "dict_keys v" and ds: "dict_keys (JObj ds)" using 2(3) by (simp_all add: list_all_iff)
  have "filled_at (fill_step k v p) k v"
  proof (cases "map_of p k")
    case None
    then show ?thesis using filled_refl [OF v] by (simp add: filled_at_def fill_step_def split: json.split)
  next
    case (Some x)
    show ?thesis
    proof (cases "\<exists>px dv. x = JObj px \<and> v = JObj dv")
      case True
      then obtain px dv where o: "x = JObj px" "v = JObj dv" by blast
      have "filled (fill_missing_permissions px dv) dv" using 2(1) [OF Some refl o(1) o(2)] v o(2) by simp
      with Some o show ?thesis by (simp add: filled_at_def fill_step_def)
    next
      case False
      with Some show ?thesis by (auto simp: filled_at_def fill_step_def split: json.split)
    qed
  qed
  then have "filled (fill_step k v p) [(k, v)]" by (simp add: filled_iff)
  then have "filled (fill_missing_permissions (fill_step k v p) ds) [(k, v)]" by (rule fill_keeps_filled)
  moreover have "filled (fill_missing_permissions (fill_step k v p) ds) ds"
    by (rule 2(2) [folded fill_step_def, OF ds])
  ultimately show ?case by (simp only: fill_Cons filled_iff) simp
qed simp

lemma fill_missing_idem:
  "dict_keys (JObj d) \<Longrightarrow>
   fill_missing_permissions (fill_missing_permissions p d) d = fill_missing_permissions p d"
  by (rule filled_unchanged [OF filled_fill])

lemma conforms_dict: "conforms v t \<Longrightarrow> dict_keys v"
proof (induction v arbitrary: t rule: dict_keys.induct)
  case (1 m)
  obtain s where "t = JObj s" using 1(2) by (cases t) (auto simp: conforms.simps(2))
  with 1 show ?case by (fastforce simp: conforms.simps(2) list_all_iff split: option.splits)
qed simp_all

text \<open>A check answers the same in the settings as they are and in those an earlier check left behind.\<close>

lemma has_permission_again:
  assumes "dict_keys (JObj T)"
  shows "fst (has_permission T u key (snd (has_permission T u key' D d)) d) = fst (has_permission T u key D d)"
proof -
  have "snd (has_permission T u key' D d) \<in> {D, fill_missing_permissions D T}"
    by (auto simp: has_permission_def Let_def split: sum.split bool.split)
  then show ?thesis
    by (auto simp: has_permission_def Let_def fill_missing_idem [OF assms] split: sum.split bool.split)
qed

subsection \<open>Both readings of the permissions agree\<close>

lemma combined_flags:
  assumes "conforms (JObj p) (JObj s)" "\<forall>g \<in> set gs. conforms (JObj g) (JObj s)"
  shows "\<exists>r. foldE (\<lambda>g p. combine_permissions p g) gs p = Inr r \<and> conforms (JObj r) (JObj s) \<and>
    (\<forall>ks. flag (JObj r) ks \<longleftrightarrow> flag (JObj p) ks \<or> (\<exists>g \<in> set gs. flag (JObj g) ks))"
  using assms
proof (induction gs arbitrary: p)
  case Nil
  then show ?case by simp
next
  case (Cons g gs)
  then obtain q where q: "combine_permissions p g = Inr q" "conforms (JObj q) (JObj s)"
      "\<forall>ks. flag (JObj q) ks \<longleftrightarrow> flag (JObj p) ks \<or> flag (JObj g) ks"
    using combine_flags [of p s g] by auto
  show ?case using Cons.IH [OF q(2)] Cons.prems(2) q(1,3) by auto
qed

lemma any_permission_flags:
  assumes "\<forall>g \<in> set gs. conforms (JObj g) (JObj s)" "node (JObj s) ks = Some (JBool b)"
  shows "any_permission gs ks = Inr (\<exists>g \<in> set gs. flag (JObj g) ks)"
  using assms by (induction gs) (auto simp: get_permission_flag)

text \<open>What a check finds in the settings: the entry, or the one of the template when there is none.\<close>

definition default_flag :: "obj \<Rightarrow> obj \<Rightarrow> string list \<Rightarrow> bool" where
  "default_flag T D ks \<longleftrightarrow> (case node (JObj D) ks of None \<Rightarrow> flag (JObj T) ks | Some v \<Rightarrow> v = JBool True)"

definition group_flag :: "string \<Rightarrow> string list \<Rightarrow> access_db \<Rightarrow> bool" where
  "group_flag u ks d \<longleftrightarrow> (\<exists>g \<in> set (group_permissions u d). flag (JObj g) ks)"

lemma default_flag_filled:
  assumes "conforms (JObj T) (JObj T)" "conforms (JObj D) (JObj T)"
  shows "flag (JObj (fill_missing_permissions D T)) ks = default_flag T D ks"
  using fill_flags [OF assms(2,1)] by (auto simp: default_flag_def flag_def split: option.split)

lemma check_reading:
  assumes template: "conforms (JObj T) (JObj T)" "node (JObj T) (split_dots key) = Some (JBool b)"
    and "conforms (JObj D) (JObj T)" and "\<forall>g \<in> set (group_permissions u d). conforms (JObj g) (JObj T)"
  shows "has_permission T u key D d =
    (Inr (group_flag u (split_dots key) d \<or> default_flag T D (split_dots key)),
     if group_flag u (split_dots key) d then D else fill_missing_permissions D T)"
proof -
  let ?ks = "split_dots key"
  have "conforms (JObj (fill_missing_permissions D T)) (JObj T)" using fill_flags [OF assms(3) template(1)] by blast
  then have "get_permission (JObj (fill_missing_permissions D T)) ?ks = Inr (default_flag T D ?ks)"
    using get_permission_flag [OF _ template(2)] default_flag_filled [OF template(1) assms(3)] by simp
  then show ?thesis
    unfolding has_permission_def any_permission_flags [OF assms(4) template(2)]
    by (simp add: group_flag_def Let_def split: bool.split)
qed

lemma tree_reading:
  assumes "node (JObj T) (split_dots key) = Some (JBool b)"
    and "conforms (JObj D) (JObj T)" and "\<forall>g \<in> set (group_permissions u d). conforms (JObj g) (JObj T)"
  shows "bindE (get_permissions D u d) (\<lambda>p. get_permission (JObj p) (split_dots key)) =
      Inr (group_flag u (split_dots key) d \<or> flag (JObj D) (split_dots key))"
proof -
  let ?ks = "split_dots key"
  obtain r where r: "foldE (\<lambda>g p. combine_permissions p g) (group_permissions u d) D = Inr r" "conforms (JObj r) (JObj T)"
      "\<forall>ks. flag (JObj r) ks \<longleftrightarrow> flag (JObj D) ks \<or> (\<exists>g \<in> set (group_permissions u d). flag (JObj g) ks)"
    using combined_flags [OF assms(2,3)] by blast
  have f: "conforms (JObj (fill_missing_permissions r D)) (JObj T)"
      "flag (JObj (fill_missing_permissions r D)) ?ks \<longleftrightarrow> flag (JObj r) ?ks \<or> (node (JObj r) ?ks = None \<and> flag (JObj D) ?ks)"
    using fill_flags [OF r(2) assms(2)] by blast+
  then have "flag (JObj (fill_missing_permissions r D)) ?ks \<longleftrightarrow> group_flag u ?ks d \<or> flag (JObj D) ?ks"
    using r(3) by (auto simp: group_flag_def)
  then show ?thesis
    using get_permission_flag [OF f(1) assms(1)] by (simp add: get_permissions_def r(1))
qed

end
