(* ===== verification/Model_Access.thy ===== *)
theory Model_Access
  imports Permission_Tree
begin

text \<open>
  Access to models (\<open>utils/access_control/__init__.py\<close>): a model of the workspace is built on a base
  model, which may itself be built on another one, and a user needs to read every registered model
  on the way. The walk ends at a model it has seen before; the measure of its termination is the
  number of registered models not yet seen.
\<close>

record model_row =
  md_id :: string
  md_user_id :: string
  md_base_model_id :: "string option"

definition may_read :: "string \<Rightarrow> string set option \<Rightarrow> access_db \<Rightarrow> model_row \<Rightarrow> bool" where
  "may_read user_id given d m \<longleftrightarrow>
     user_id = md_user_id m \<or> table_has_access user_id ''model'' (md_id m) ''read'' given d"

lemma unseen_decreases:
  "b \<notin> seen \<Longrightarrow> get_by md_id b ms = Some m \<Longrightarrow>
   card (md_id ` set ms - insert b seen) < card (md_id ` set ms - seen)"
  by (rule psubset_card_mono) (auto dest!: get_by_Some)

function base_model_walk ::
    "string \<Rightarrow> string set option \<Rightarrow> access_db \<Rightarrow> model_row list \<Rightarrow> string set \<Rightarrow> string option \<Rightarrow> bool" where
  "base_model_walk user_id given d ms seen base =
     (case base of
        None \<Rightarrow> True
      | Some b \<Rightarrow>
          if b = [] \<or> b \<in> seen then True
          else (case get_by md_id b ms of
              None \<Rightarrow> True
            | Some m \<Rightarrow>
                if \<not> may_read user_id given d m then False
                else base_model_walk user_id given d ms (insert b seen) (md_base_model_id m)))"
  by pat_completeness auto

termination
  by (relation "measure (\<lambda>(u, g, d, ms, seen, base). card (md_id ` set ms - seen))")
    (auto simp del: get_by_code intro: unseen_decreases)

declare base_model_walk.simps [simp del]

definition has_base_model_access ::
    "string \<Rightarrow> model_row \<Rightarrow> string set option \<Rightarrow> model_row list \<Rightarrow> access_db \<Rightarrow> bool" where
  "has_base_model_access user_id info given ms d =
     base_model_walk user_id given d ms {md_id info} (md_base_model_id info)"

definition check_model_access :: "account \<Rightarrow> model_row option \<Rightarrow> bool \<Rightarrow> model_row list \<Rightarrow> access_db \<Rightarrow> err + unit" where
  "check_model_access user info bypass ms d =
     (if bypass then Inr ()
      else case info of
        None \<Rightarrow> Inr ()
      | Some m \<Rightarrow>
          if ac_role user \<noteq> ''user'' then Inr ()
          else
            let ids = Some (gp_id ` set (get_groups_by_member_id (ac_id user) (ad_groups d))) in
            if \<not> may_read (ac_id user) ids d m then Inl (http 403 ''Model not found'')
            else if \<not> has_base_model_access (ac_id user) m ids ms d then Inl (http 403 ''Model not found'')
            else Inr ())"

text \<open>The models a model is built on, as the table has them.\<close>

inductive built_on :: "model_row list \<Rightarrow> model_row \<Rightarrow> model_row \<Rightarrow> bool" for ms where
  direct: "md_base_model_id m = Some b \<Longrightarrow> b \<noteq> [] \<Longrightarrow> get_by md_id b ms = Some n \<Longrightarrow> built_on ms m n"
| further: "md_base_model_id m = Some b \<Longrightarrow> b \<noteq> [] \<Longrightarrow> get_by md_id b ms = Some n \<Longrightarrow> built_on ms n k \<Longrightarrow>
    built_on ms m k"

inductive_cases built_onE: "built_on ms m n"

subsection \<open>The walk reads what the model is built on\<close>

lemma walk_denied:
  assumes "\<not> base_model_walk u given d ms seen (md_base_model_id m)"
  shows "\<exists>n. built_on ms m n \<and> md_id n \<notin> seen \<and> \<not> may_read u given d n"
proof -
  have "\<not> base_model_walk u given d ms seen base \<Longrightarrow> md_base_model_id m = base \<Longrightarrow>
      \<exists>n. built_on ms m n \<and> md_id n \<notin> seen \<and> \<not> may_read u given d n" for base
  proof (induction u given d ms seen base arbitrary: m rule: base_model_walk.induct)
    case (1 u given d ms seen base)
    from "1.prems"(1) obtain b n where b: "base = Some b" "b \<noteq> []" "b \<notin> seen" "get_by md_id b ms = Some n"
      and walk: "\<not> may_read u given d n \<or> \<not> base_model_walk u given d ms (insert b seen) (md_base_model_id n)"
      by (subst (asm) base_model_walk.simps) (auto split: option.splits if_splits)
    have n: "built_on ms m n" "md_id n = b" using direct b "1.prems"(2) get_by_Some by metis+
    show ?case
    proof (cases "may_read u given d n")
      case True
      then obtain k where "built_on ms n k" "md_id k \<notin> insert b seen" "\<not> may_read u given d k"
        using "1.IH" [OF b(1) _ b(4) _ _ refl] b(2,3) walk by blast
      then show ?thesis using further b "1.prems"(2) by blast
    qed (use n b(3) in blast)
  qed
  then show ?thesis using assms by blast
qed

text \<open>Where the walk may stop, and sets of identifiers that are closed under taking the base.\<close>

definition ends_in :: "model_row list \<Rightarrow> string set \<Rightarrow> string option \<Rightarrow> bool" where
  "ends_in ms S base \<longleftrightarrow> (\<forall>b. base = Some b \<and> b \<noteq> [] \<and> get_by md_id b ms \<noteq> None \<longrightarrow> b \<in> S)"

lemma ends_in_mono: "ends_in ms S base \<Longrightarrow> S \<subseteq> S' \<Longrightarrow> ends_in ms S' base"
  by (auto simp: ends_in_def)

lemma walk_granted:
  assumes "base_model_walk u given d ms seen base"
    and "\<forall>s \<in> seen. \<forall>r. get_by md_id s ms = Some r \<longrightarrow> md_base_model_id r = base \<or> ends_in ms seen (md_base_model_id r)"
  shows "\<exists>S. seen \<subseteq> S \<and> ends_in ms S base \<and>
    (\<forall>s \<in> S. \<forall>r. get_by md_id s ms = Some r \<longrightarrow> ends_in ms S (md_base_model_id r)) \<and>
    (\<forall>s \<in> S - seen. \<forall>r. get_by md_id s ms = Some r \<longrightarrow> may_read u given d r)"
  using assms
proof (induction u given d ms seen base rule: base_model_walk.induct)
  case (1 u given d ms seen base)
  show ?case
  proof (cases "ends_in ms seen base")
    case True
    then show ?thesis using "1.prems"(2) by (intro exI [of _ seen]) auto
  next
    case False
    then obtain b n where b: "base = Some b" "b \<noteq> []" "b \<notin> seen" "get_by md_id b ms = Some n"
      by (auto simp: ends_in_def)
    have walk: "may_read u given d n" "base_model_walk u given d ms (insert b seen) (md_base_model_id n)"
      using "1.prems"(1) b by (subst (asm) base_model_walk.simps, simp split: if_splits)+
    have "\<forall>s \<in> insert b seen. \<forall>r. get_by md_id s ms = Some r \<longrightarrow>
        md_base_model_id r = md_base_model_id n \<or> ends_in ms (insert b seen) (md_base_model_id r)"
    proof (intro ballI allI impI)
      fix s r
      assume s: "s \<in> insert b seen" "get_by md_id s ms = Some r"
      consider "s = b" | "s \<in> seen" using s(1) by blast
      then show "md_base_model_id r = md_base_model_id n \<or> ends_in ms (insert b seen) (md_base_model_id r)"
      proof cases
        case 1
        then show ?thesis using s(2) b(4) by simp
      next
        case 2
        then have "md_base_model_id r = base \<or> ends_in ms seen (md_base_model_id r)" using "1.prems"(2) s(2) by blast
        then show ?thesis
        proof
          assume "md_base_model_id r = base"
          then show ?thesis by (simp add: ends_in_def b(1))
        next
          assume "ends_in ms seen (md_base_model_id r)"
          then show ?thesis using ends_in_mono by blast
        qed
      qed
    qed
    from "1.IH" [OF b(1) _ b(4) _ walk(2) this] walk(1) b(2,3) obtain S where
      S: "insert b seen \<subseteq> S" "ends_in ms S (md_base_model_id n)"
        "\<forall>s \<in> S. \<forall>r. get_by md_id s ms = Some r \<longrightarrow> ends_in ms S (md_base_model_id r)"
        "\<forall>s \<in> S - insert b seen. \<forall>r. get_by md_id s ms = Some r \<longrightarrow> may_read u given d r" by blast
    have "ends_in ms S base" using S(1) by (auto simp: ends_in_def b(1))
    moreover have "\<forall>s \<in> S - seen. \<forall>r. get_by md_id s ms = Some r \<longrightarrow> may_read u given d r"
    proof (intro ballI allI impI)
      fix s r
      assume "s \<in> S - seen" "get_by md_id s ms = Some r"
      then show "may_read u given d r" using S(4) walk(1) b(4) by (cases "s = b") auto
    qed
    ultimately show ?thesis using S(1,3) by (intro exI [of _ S]) blast
  qed
qed

lemma built_on_inside:
  assumes "built_on ms m n" "ends_in ms S (md_base_model_id m)"
    and closed: "\<forall>s \<in> S. \<forall>r. get_by md_id s ms = Some r \<longrightarrow> ends_in ms S (md_base_model_id r)"
  shows "md_id n \<in> S \<and> get_by md_id (md_id n) ms = Some n"
  using assms(1,2)
proof (induction rule: built_on.induct)
  case (direct m b n)
  then show ?case by (auto simp: ends_in_def dest: get_by_Some simp del: get_by_code)
next
  case (further m b n k)
  then have "b \<in> S" by (simp add: ends_in_def)
  then have "ends_in ms S (md_base_model_id n)" using closed further(3) by blast
  then show ?case by (rule further.IH)
qed

lemma base_access_iff:
  assumes "get_by md_id (md_id info) ms \<in> {None, Some info}"
  shows "has_base_model_access u info given ms d \<longleftrightarrow>
    (\<forall>n. built_on ms info n \<longrightarrow> md_id n \<noteq> md_id info \<longrightarrow> may_read u given d n)"
proof
  assume "has_base_model_access u info given ms d"
  then have walk: "base_model_walk u given d ms {md_id info} (md_base_model_id info)" by (simp add: has_base_model_access_def)
  have "\<forall>s \<in> {md_id info}. \<forall>r. get_by md_id s ms = Some r \<longrightarrow>
      md_base_model_id r = md_base_model_id info \<or> ends_in ms {md_id info} (md_base_model_id r)" using assms by auto
  from walk_granted [OF walk this] obtain S where
    S: "ends_in ms S (md_base_model_id info)"
      "\<forall>s \<in> S. \<forall>r. get_by md_id s ms = Some r \<longrightarrow> ends_in ms S (md_base_model_id r)"
      "\<forall>s \<in> S - {md_id info}. \<forall>r. get_by md_id s ms = Some r \<longrightarrow> may_read u given d r" by blast
  show "\<forall>n. built_on ms info n \<longrightarrow> md_id n \<noteq> md_id info \<longrightarrow> may_read u given d n"
    using built_on_inside [OF _ S(1,2)] S(3) by blast
next
  assume all: "\<forall>n. built_on ms info n \<longrightarrow> md_id n \<noteq> md_id info \<longrightarrow> may_read u given d n"
  show "has_base_model_access u info given ms d"
    using walk_denied [of u given d ms "{md_id info}" info] all by (auto simp: has_base_model_access_def)
qed

section \<open>What access control promises\<close>

text \<open>
  What access control promises: the ways to ask the table of grants agree, what is stored for a
  resource is what the user may share, and the two readings of a permission agree.
\<close>

subsection \<open>Asking for access\<close>

text \<open>Every membership belongs to a group that exists, which a foreign key would enforce.\<close>

definition linked :: "group_db \<Rightarrow> bool" where
  "linked d \<longleftrightarrow> (\<forall>m \<in> set (gd_members d). gm_group_id m \<in> gp_id ` set (gd_groups d))"

lemma in_group_ids: "i \<in> group_ids_of u None d \<longleftrightarrow> i \<in> gp_id ` set (gd_groups (ad_groups d)) \<and> member_of (ad_groups d) u i"
  by (auto simp: group_ids_of_def in_groups_of_member)

lemma linked_group_ids: "linked (ad_groups d) \<Longrightarrow> i \<in> group_ids_of u None d \<longleftrightarrow> member_of (ad_groups d) u i"
  unfolding in_group_ids by (auto simp: linked_def member_of_iff)

definition resource_grants :: "string \<Rightarrow> string \<Rightarrow> string \<Rightarrow> access_db \<Rightarrow> grant list" where
  "resource_grants rt rid permission d = filter (\<lambda>g. on_resource rt rid g \<and> ga_permission g = permission) (ad_grants d)"

definition is_public :: "string \<Rightarrow> string \<Rightarrow> string \<Rightarrow> access_db \<Rightarrow> bool" where
  "is_public rt rid permission d \<longleftrightarrow> list_ex public_principal (resource_grants rt rid permission d)"

lemma table_has_access_iff:
  "table_has_access u rt rid permission given d \<longleftrightarrow>
     list_ex (principal_matches u (group_ids_of u given d)) (resource_grants rt rid permission d)"
  by (auto simp: table_has_access_def resource_grants_def list_ex_iff)

lemma in_concat_map: "x \<in> set (concat (map f xs)) \<longleftrightarrow> (\<exists>y \<in> set xs. x \<in> set (f y))"
  by auto

lemma users_with_access_iff:
  assumes "linked (ad_groups d)" "a \<in> set (ad_accounts d)"
  shows "a \<in> set (get_users_with_access rt rid permission d) \<longleftrightarrow>
    table_has_access (ac_id a) rt rid permission None d \<and> (is_public rt rid permission d \<longrightarrow> ac_role a \<noteq> ''pending'')"
proof -
  let ?gs = "resource_grants rt rid permission d"
  have matches: "principal_matches (ac_id a) (group_ids_of (ac_id a) None d) g \<longleftrightarrow> public_principal g \<or>
      (ga_principal_type g = ''user'' \<and> ga_principal_id g = ac_id a) \<or>
      (ga_principal_type g = ''group'' \<and> member_of (ad_groups d) (ac_id a) (ga_principal_id g))" for g
    using linked_group_ids [OF assms(1)] by (auto simp: principal_matches_def public_principal_def)
  have users: "get_users_with_access rt rid permission d =
      (if list_ex public_principal ?gs then filter (\<lambda>a. ac_role a \<noteq> ''pending'') (ad_accounts d)
       else filter (\<lambda>a. ac_id a \<in> set (concat (map (\<lambda>g. if ga_principal_type g = ''user'' then [ga_principal_id g]
            else if ga_principal_type g = ''group'' then get_group_user_ids_by_id (ga_principal_id g) (ad_groups d)
            else []) ?gs))) (ad_accounts d))"
    unfolding get_users_with_access_def resource_grants_def Let_def public_principal_def ..
  show ?thesis
  proof (cases "list_ex public_principal ?gs")
    case True
    then have "table_has_access (ac_id a) rt rid permission None d"
      unfolding table_has_access_iff by (auto simp: list_ex_iff matches)
    then show ?thesis using True assms(2) by (simp add: users is_public_def)
  next
    case False
    then have granted: "table_has_access (ac_id a) rt rid permission None d \<longleftrightarrow> (\<exists>g \<in> set ?gs.
        (ga_principal_type g = ''user'' \<and> ga_principal_id g = ac_id a) \<or>
        (ga_principal_type g = ''group'' \<and> member_of (ad_groups d) (ac_id a) (ga_principal_id g)))"
      unfolding table_has_access_iff by (auto simp: list_ex_iff matches)
    have listed: "ac_id a \<in> set (if ga_principal_type g = ''user'' then [ga_principal_id g]
          else if ga_principal_type g = ''group'' then get_group_user_ids_by_id (ga_principal_id g) (ad_groups d)
          else []) \<longleftrightarrow> (ga_principal_type g = ''user'' \<and> ga_principal_id g = ac_id a) \<or>
        (ga_principal_type g = ''group'' \<and> member_of (ad_groups d) (ac_id a) (ga_principal_id g))" for g
      by (auto simp: in_group_user_ids)
    have "a \<in> set (get_users_with_access rt rid permission d) \<longleftrightarrow>
        table_has_access (ac_id a) rt rid permission None d"
      using assms(2) unfolding users if_not_P [OF False] set_filter mem_Collect_eq in_concat_map listed granted
      by (simp only: simp_thms)
    then show ?thesis using False by (simp add: is_public_def)
  qed
qed

lemma accessible_ids_iff:
  "rid \<in> get_accessible_resource_ids u rt rids permission given d \<longleftrightarrow>
     rid \<in> set rids \<and> table_has_access u rt rid permission given d"
  by (auto simp: get_accessible_resource_ids_def table_has_access_def on_resource_def list_ex_iff Let_def)

lemma permission_filter_eq:
  assumes "u \<noteq> []" "permission \<noteq> ''read_only''"
  shows "has_permission_filter (Some u) ids rt permission d rows =
    filter (\<lambda>(rid, owner). owner = u \<or> table_has_access u rt rid permission (Some (set ids)) d) rows"
proof -
  have "public_principal g \<or> own_principal (Some u) ids g \<longleftrightarrow> principal_matches u (set ids) g" for g
    using assms(1) by (auto simp: public_principal_def own_principal_def principal_matches_def)
  then have "exists_grant (\<lambda>g. public_principal g \<or> own_principal (Some u) ids g) rt rid permission d \<longleftrightarrow>
      table_has_access u rt rid permission (Some (set ids)) d" for rid
    by (simp add: exists_grant_def table_has_access_def group_ids_of_def Let_def)
  then show ?thesis using assms by (auto simp: has_permission_filter_def intro!: filter_cong)
qed

text \<open>The filter for resources a user can only read asks for grants of the user and of the groups.\<close>

lemma read_only_iff:
  assumes "u \<noteq> []"
  shows "read_only_filter (Some u) ids rt d (rid, owner) \<longleftrightarrow> owner \<noteq> u \<and>
    \<not> is_public rt rid ''read'' d \<and> table_has_access u rt rid ''read'' (Some (set ids)) d \<and>
    \<not> exists_grant (own_principal (Some u) ids) rt rid ''write'' d"
proof -
  have "principal_matches u (set ids) g \<longleftrightarrow> public_principal g \<or> own_principal (Some u) ids g" for g
    using assms by (auto simp: public_principal_def own_principal_def principal_matches_def)
  then show ?thesis using assms
    by (auto simp: read_only_filter_def exists_grant_def is_public_def resource_grants_def table_has_access_iff
        group_ids_of_def list_ex_iff)
qed

subsection \<open>What is stored for a resource\<close>

lemma replace_grants_Inr:
  assumes "replace_grants uid now rt rid keys t = Inr (new, t')"
  shows "t' = del_rows (on_resource rt rid) t @ new" "map key_of new = keys" "list_all (on_resource rt rid) new"
    "grants_ok t \<Longrightarrow> grants_ok t'"
proof -
  let ?new = "map (\<lambda>(n, k). new_grant (uid n) now rt rid k) (enumerate 0 keys)"
  have ins: "foldE insert_grant ?new (del_rows (on_resource rt rid) t) = Inr t'" and new: "new = ?new"
    using assms by (auto simp: replace_grants_def Let_def bindE_Inr_iff)
  show "t' = del_rows (on_resource rt rid) t @ new" using insert_grants_distinct [OF ins] new by simp
  show "grants_ok t \<Longrightarrow> grants_ok t'" using insert_grants_distinct [OF ins] grants_ok_del by blast
  have "map key_of (map (\<lambda>(n, k). new_grant (uid n) now rt rid k) (enumerate m keys)) = keys \<and>
      list_all (on_resource rt rid) (map (\<lambda>(n, k). new_grant (uid n) now rt rid k) (enumerate m keys))" for m
    by (induction keys arbitrary: m) auto
  then show "map key_of new = keys" "list_all (on_resource rt rid) new" using new by blast+
qed

lemma stored_keys:
  assumes "set_access_grants uid row_uid now rt rid (Some gs) t = Inr (new, t')"
  shows "key_of ` {g \<in> set t'. on_resource rt rid g} = {k. \<exists>v \<in> set gs. valid_grant v = Some k}"
proof -
  note r = replace_grants_Inr [OF assms [unfolded set_access_grants_def]]
  have "{g \<in> set t'. on_resource rt rid g} = set new"
    unfolding r(1) using r(3) by (auto simp: set_del_rows list_all_iff)
  then show ?thesis using arg_cong [OF r(2), of set] normalized_keys(2) [of uid "Some gs"] by simp
qed

lemma wildcard_valid: "valid_grant v = Some (''user'', ''*'', p) \<Longrightarrow> is_wildcard v"
  by (auto simp: is_wildcard_def dest: valid_grant_fields)

lemma filtered_grants:
  assumes "filter_allowed_access_grants uid T D u role grants key d = (Inr gs, D')" "role \<noteq> ''admin''"
    and dict: "dict_keys (JObj T)"
  shows "set gs \<subseteq> set grants"
    and "v \<in> set gs \<Longrightarrow> valid_grant v = Some (''user'', ''*'', p) \<Longrightarrow> fst (has_permission T u key D d) = Inr True"
    and "v \<in> set gs \<Longrightarrow> valid_grant v = Some (''user'', i, p) \<Longrightarrow> i \<noteq> ''*'' \<Longrightarrow>
      fst (has_permission T u ''access_grants.allow_users'' D d) = Inr True"
    and "v \<in> set grants \<Longrightarrow> valid_grant v = Some (''group'', i, p) \<Longrightarrow> v \<in> set gs"
proof -
  let ?public = "has_public_read_access_grant uid (Some grants) \<or> has_public_write_access_grant uid (Some grants)"
  let ?users = "''access_grants.allow_users''"
  have public: "?public \<longleftrightarrow> (\<exists>v \<in> set grants. \<exists>p. valid_grant v = Some (''user'', ''*'', p))"
    by (auto simp: public_grant_iff dest: valid_grant_fields)
  obtain mid where
    mid: "set mid \<subseteq> set grants" "\<forall>v \<in> set grants. \<not> is_wildcard v \<longrightarrow> v \<in> set mid"
      "?public \<longrightarrow> fst (has_permission T u key D d) = Inr True \<or> (\<forall>v \<in> set mid. \<not> is_wildcard v)"
    and gs: "fst (has_permission T u ?users D d) = Inr True \<and> gs = mid \<or>
      \<not> has_user_access_grant uid (Some gs) \<and> (gs = mid \<or> gs = strip_user_access_grants (Some mid))"
  proof (cases "grants = []")
    case True
    then have "gs = []" using assms(1) by (simp add: filter_allowed_access_grants_def)
    then show ?thesis using that [of "[]"] True by (simp add: user_grant_iff)
  next
    case False
    obtain r1 D1 where c1: "(if ?public then has_permission T u key D d else (Inr True, D)) = (r1, D1)" by force
    obtain r2 D2 where c2: "has_permission T u ?users D1 d = (r2, D2)" by force
    have r1: "?public \<longrightarrow> fst (has_permission T u key D d) = r1"
      and D1: "D1 = D \<or> D1 = snd (has_permission T u key D d)" using c1 by (auto split: if_splits)
    have r2: "fst (has_permission T u ?users D d) = r2"
      using D1 c2 has_permission_again [OF dict, of u ?users key D d] by auto
    note run = assms(1) [unfolded filter_allowed_access_grants_def c1]
    obtain b1 where b1: "r1 = Inr b1" using run assms(2) False by (cases r1) auto
    define mid where "mid = (if b1 then grants else filter (\<lambda>v. \<not> is_wildcard v) grants)"
    have second: "(if has_user_access_grant uid (Some mid)
        then (case (r2, D2) of (Inl err, defaults) \<Rightarrow> (Inl err, defaults)
          | (Inr users, defaults) \<Rightarrow> (Inr (if users then mid else strip_user_access_grants (Some mid)), defaults))
        else (Inr mid, D1)) = (Inr gs, D')"
      using run assms(2) False
      by (simp only: if_False simp_thms b1 prod.case sum.case Let_def c2 mid_def [symmetric])
    have kept: "mid = grants \<or> mid = filter (\<lambda>v. \<not> is_wildcard v) grants" by (simp add: mid_def)
    have allowed: "?public \<longrightarrow> fst (has_permission T u key D d) = Inr True \<or> mid = filter (\<lambda>v. \<not> is_wildcard v) grants"
      using r1 b1 by (simp add: mid_def)
    have users: "fst (has_permission T u ?users D d) = Inr True \<and> gs = mid \<or>
        \<not> has_user_access_grant uid (Some mid) \<and> gs = mid \<or> gs = strip_user_access_grants (Some mid)"
      using second r2 by (cases r2) (auto split: if_splits)
    show ?thesis
    proof (rule that)
      show "set mid \<subseteq> set grants" "\<forall>v \<in> set grants. \<not> is_wildcard v \<longrightarrow> v \<in> set mid"
        using kept by (elim disjE; simp)+
      show "?public \<longrightarrow> fst (has_permission T u key D d) = Inr True \<or> (\<forall>v \<in> set mid. \<not> is_wildcard v)"
        using allowed by fastforce
      show "fst (has_permission T u ''access_grants.allow_users'' D d) = Inr True \<and> gs = mid \<or>
          \<not> has_user_access_grant uid (Some gs) \<and> (gs = mid \<or> gs = strip_user_access_grants (Some mid))"
        using users strip_user_grants(1) [of uid mid] by (elim disjE conjE; simp)
    qed
  qed
  have strip: "set (strip_user_access_grants (Some mid)) \<subseteq> set mid" by (auto simp: strip_user_access_grants_def)
  then have sub: "set gs \<subseteq> set mid" using gs by blast
  show "set gs \<subseteq> set grants" using sub mid(1) by blast
  show "fst (has_permission T u key D d) = Inr True" if v: "v \<in> set gs" "valid_grant v = Some (''user'', ''*'', p)"
    using mid(1,3) public sub v wildcard_valid [OF v(2)] by blast
  show "fst (has_permission T u ''access_grants.allow_users'' D d) = Inr True"
    if "v \<in> set gs" "valid_grant v = Some (''user'', i, p)" "i \<noteq> ''*''"
    using gs that unfolding user_grant_iff by blast
  show "v \<in> set gs" if v: "v \<in> set grants" "valid_grant v = Some (''group'', i, p)"
  proof -
    have "\<not> is_wildcard v" using v(2) by (auto simp: is_wildcard_def dest: valid_grant_fields)
    then have "v \<in> set mid" using mid(2) v(1) by blast
    then show ?thesis using gs strip_user_grants(2) [OF _ v(2)] by blast
  qed
qed

end
