(* ===== verification/Request_Guards.thy ===== *)
theory Request_Guards
  imports Model_Access Session_Access
begin

text \<open>
  What guards the rest of the platform during an experiment (\<open>utils/experiments.py\<close>): the
  dependencies of the routes for chats, for features an experiment excludes, and for direct requests
  to a model. The groups of the experiment store are those of the group table.
\<close>

definition in_path :: "string \<Rightarrow> string \<Rightarrow> bool" where
  "in_path part path \<longleftrightarrow> sublist part path"

definition archive_path :: "string \<Rightarrow> bool" where
  "archive_path path \<longleftrightarrow> in_path ''/archived'' path \<or> suffix ''/archive'' path \<or> suffix ''/archive/all'' path \<or>
     suffix ''/unarchive/all'' path"

definition require_experiment_access_dependency ::
    "session_env \<Rightarrow> user \<Rightarrow> experiment_db \<Rightarrow> (err + experiment_state) \<times> experiment_db" where
  "require_experiment_access_dependency e user d = require_experiment_chat_access e user d"

definition require_chat_access_dependency ::
    "session_env \<Rightarrow> string \<Rightarrow> user \<Rightarrow> experiment_db \<Rightarrow> (err + experiment_state) \<times> experiment_db" where
  "require_chat_access_dependency e path user d =
     (if us_admin user
      then (if path = ''/api/v1/chats/all/db'' then Inr NOT_APPLICABLE
            else Inl (http 403 ''Administrators can only access the Admin Panel.''), d)
      else case require_experiment_chat_access e user d of
          (Inl err, d) \<Rightarrow> (Inl err, d)
        | (Inr state, d) \<Rightarrow>
            if state \<noteq> NOT_APPLICABLE \<and> archive_path path
            then (Inl (http 403 ''Archived chats are not available during this experiment session.''), d)
            else (Inr state, d))"

definition require_non_experiment_user_dependency ::
    "session_env \<Rightarrow> user \<Rightarrow> experiment_db \<Rightarrow> (err + user) \<times> experiment_db" where
  "require_non_experiment_user_dependency e user d =
     (if us_admin user then (Inl (http 403 ''Administrators can only access the Admin Panel.''), d)
      else case get_current e user d of
          (Inl err, d) \<Rightarrow> (Inl err, d)
        | (Inr (state, _, _), d) \<Rightarrow>
            if state \<noteq> NOT_APPLICABLE
            then (Inl (http 403 ''This feature is not available during the experiment session.''), d)
            else (Inr user, d))"

definition generation_path :: "string \<Rightarrow> bool" where
  "generation_path path \<longleftrightarrow> list_ex (\<lambda>part. in_path part path)
     [''/chat'', ''/generate'', ''/completions'', ''/responses'', ''/messages'']"

definition require_guarded_experiment_generation ::
    "session_env \<Rightarrow> string \<Rightarrow> string \<Rightarrow> user \<Rightarrow> experiment_db \<Rightarrow> (err + unit) \<times> experiment_db" where
  "require_guarded_experiment_generation e request_method path user d =
     (if request_method = ''POST'' \<and> generation_path path
      then (case get_current e user d of
          (Inl err, d) \<Rightarrow> (Inl err, d)
        | (Inr (state, _, _), d) \<Rightarrow>
            if state \<noteq> NOT_APPLICABLE then (Inl (http 403 ''Use the experiment chat endpoint for LLM requests.''), d)
            else (Inr (), d))
      else (Inr (), d))"

subsection \<open>During a session\<close>

text \<open>A user with an active session has no access to a model but through the experiment.\<close>

lemma active_session_state:
  assumes "\<not> us_admin user" "filter (\<lambda>s. xs_state s \<in> active_states) (sessions_for_user (us_id user) d) \<noteq> []"
  shows "\<exists>state s m. get_current e user d = (Inr (state, s, m), d) \<and> state \<noteq> NOT_APPLICABLE"
proof -
  have "NOT_APPLICABLE \<notin> active_states" by (auto simp: active_states_def)
  then show ?thesis using assms unfolding get_current_def Let_def
    by (auto split: list.splits dest: filter_eq_ConsD)
qed

lemma generation_guarded:
  assumes "\<not> us_admin user" "filter (\<lambda>s. xs_state s \<in> active_states) (sessions_for_user (us_id user) d) \<noteq> []"
    and "generation_path path"
  shows "require_guarded_experiment_generation e ''POST'' path user d =
      (Inl (http 403 ''Use the experiment chat endpoint for LLM requests.''), d) \<and>
    require_non_experiment_user_dependency e user d =
      (Inl (http 403 ''This feature is not available during the experiment session.''), d)"
proof -
  obtain state s m where "get_current e user d = (Inr (state, s, m), d)" "state \<noteq> NOT_APPLICABLE"
    using active_session_state [OF assms(1,2)] by blast
  then show ?thesis using assms(1,3)
    by (simp add: require_guarded_experiment_generation_def require_non_experiment_user_dependency_def)
qed

subsection \<open>Groups of the experiment\<close>

definition group_lists :: "group_db \<Rightarrow> (string \<times> string list) list" where
  "group_lists d = map (\<lambda>g. (gp_id g, get_group_user_ids_by_id (gp_id g) d)) (order_desc gp_updated_at (gd_groups d))"

lemma single_membership:
  assumes "distinct (map member_key ms)"
  shows "map (\<lambda>m. g) (filter (\<lambda>m. gm_group_id m = i \<and> gm_user_id m = u) ms) =
    (if (i, u) \<in> member_key ` set ms then [g] else [])"
  using assms
proof (induction ms)
  case (Cons m ms)
  have "gm_group_id m = i \<and> gm_user_id m = u \<longleftrightarrow> (i, u) = member_key m" by (auto simp: member_key_def)
  then show ?case using Cons by auto
qed simp

lemma groups_of_lists:
  assumes "groups_ok gd" "xd_groups d = group_lists gd"
  shows "groups_of u d = map gp_id (get_groups_by_member_id u gd)"
proof -
  have ok: "distinct (map member_key (gd_members gd))" using assms(1) by (simp add: groups_ok_def)
  have joined: "concat (map (\<lambda>g. map (\<lambda>m. g) (filter (\<lambda>m. gm_group_id m = gp_id g \<and> gm_user_id m = u) (gd_members gd))) gs) =
      filter (\<lambda>g. member_of gd u (gp_id g)) gs" for gs
    by (induction gs) (simp_all add: single_membership [OF ok] member_of_def)
  have "get_groups_by_member_id u gd = filter (\<lambda>g. member_of gd u (gp_id g)) (order_desc gp_updated_at (gd_groups gd))"
    unfolding get_groups_by_member_id_def joined order_desc_def filter_sort by (rule refl)
  then show ?thesis
    by (simp add: groups_of_def assms(2) group_lists_def filter_map o_def case_prod_unfold in_group_user_ids)
qed

end
