(* ===== verification/Access_Samples.thy ===== *)
theory Access_Samples
  imports Request_Guards Sample_Store
begin

text \<open>A class with one member, its grants and permissions, and what access control guarantees.\<close>

definition sample_account :: "string \<Rightarrow> string \<Rightarrow> account" where
  "sample_account i role = \<lparr>ac_id = i, ac_name = i, ac_username = None, ac_email = i @ ''@localhost'', ac_role = role, ac_info = None\<rparr>"

definition sample_group :: group_row where
  "sample_group = \<lparr>gp_id = ''g'', gp_user_id = ''a'', gp_name = ''class'', gp_description = [],
     gp_permissions = Some [(''sharing'', JObj [(''public_models'', JBool True)])], gp_created_at = 0, gp_updated_at = 0\<rparr>"

definition sample_groups :: group_db where
  "sample_groups = \<lparr>gd_groups = [sample_group], gd_members = [new_member ''m'' 0 ''g'' ''u'']\<rparr>"

definition sample_template :: obj where
  "sample_template = [(''sharing'', JObj [(''public_models'', JBool False)]), (''access_grants'', JObj [(''allow_users'', JBool False)])]"

definition sample_access :: access_db where
  "sample_access = \<lparr>ad_grants = [new_grant ''1'' 0 ''model'' ''top'' (''user'', ''*'', ''read''),
       new_grant ''2'' 0 ''model'' ''base'' (''group'', ''g'', ''read''),
       new_grant ''3'' 0 ''note'' ''n'' (''user'', ''u'', ''read''), new_grant ''4'' 0 ''note'' ''n'' (''user'', ''*'', ''write'')],
     ad_groups = sample_groups, ad_accounts = [sample_account ''u'' ''user'', sample_account ''v'' ''pending'']\<rparr>"

definition sample_models :: "model_row list" where
  "sample_models = [\<lparr>md_id = ''top'', md_user_id = ''a'', md_base_model_id = Some ''base''\<rparr>,
     \<lparr>md_id = ''base'', md_user_id = ''a'', md_base_model_id = Some ''top''\<rparr>]"

definition wildcard_grant :: json where
  "wildcard_grant = JObj [(''principal_type'', JStr ''user''), (''principal_id'', JStr ''*''), (''permission'', JStr ''read'')]"

definition user_grant :: json where
  "user_grant = JObj [(''principal_type'', JStr ''user''), (''principal_id'', JStr ''v''), (''permission'', JStr ''write'')]"

lemmas sample_access_defs = sample_access_def sample_groups_def sample_group_def sample_account_def new_member_def new_grant_def

lemma sample_groups_of: "get_groups_by_member_id ''u'' sample_groups = [sample_group]"
  by code_simp

lemma sample_group_permissions: "group_permissions ''u'' sample_access = [[(''sharing'', JObj [(''public_models'', JBool True)])]]"
  by code_simp

lemma sample_conforms: "conforms (JObj sample_template) (JObj sample_template)"
  by code_simp

subsection \<open>Where access control falls short\<close>

text \<open>A note everyone may write is listed among those the user can only read.\<close>

lemma read_only_though_writable:
  "read_only_filter (Some ''u'') [''g''] ''note'' sample_access (''n'', ''a'') \<and>
   table_has_access ''u'' ''note'' ''n'' ''write'' None sample_access"
  by code_simp

text \<open>Without foreign keys the members of a deleted group still count as users with access.\<close>

lemma deleted_group_keeps_users:
  defines "d \<equiv> sample_access\<lparr>ad_groups := snd (delete_group_by_id False ''g'' sample_groups)\<rparr>"
  shows "sample_account ''u'' ''user'' \<in> set (get_users_with_access ''model'' ''base'' ''read'' d) \<and>
    \<not> table_has_access ''u'' ''model'' ''base'' ''read'' None d"
  unfolding d_def by code_simp

text \<open>A new member in front of one who is a member already is lost, though the request succeeds.\<close>

lemma new_member_lost:
  "(case add_users_to_group (\<lambda>n. if n = 0 then ''x'' else ''y'') 1 ''g'' (Some [''v'', ''u'']) sample_groups of
     (answer, d) \<Rightarrow> answer \<noteq> None \<and> get_group_user_ids_by_id ''g'' d = [''u''])"
  by code_simp

subsection \<open>Properties\<close>

text \<open>
  C39. The ways to ask for access agree when every membership is of an existing group: the users with
  access to a resource are those the check admits (pending users excepted where the resource is
  public), the accessible ones among given resources are those the check admits, and the filter of a
  query for a permission other than \<open>read_only\<close> keeps the rows the user owns or may access. Where a
  deleted group leaves members behind, or for the \<open>read_only\<close> filter, they differ
  (\<open>deleted_group_keeps_users\<close>, \<open>read_only_though_writable\<close>).
\<close>

theorem access_views_agree:
  assumes "linked (ad_groups d)" and "set ids = group_ids_of u None d" and "u \<noteq> []" and "permission \<noteq> ''read_only''"
  shows "(\<forall>a \<in> set (ad_accounts d). a \<in> set (get_users_with_access rt rid permission d) \<longleftrightarrow>
      table_has_access (ac_id a) rt rid permission None d \<and> (is_public rt rid permission d \<longrightarrow> ac_role a \<noteq> ''pending'')) \<and>
    (rid \<in> get_accessible_resource_ids u rt rids permission None d \<longleftrightarrow>
      rid \<in> set rids \<and> table_has_access u rt rid permission None d) \<and>
    has_permission_filter (Some u) ids rt permission d rows =
      filter (\<lambda>(r, owner). owner = u \<or> table_has_access u rt r permission None d) rows"
proof (intro conjI ballI)
  have "table_has_access u rt r permission (Some (set ids)) d = table_has_access u rt r permission None d" for r
    by (simp add: table_has_access_iff assms(2) group_ids_of_def)
  then show "has_permission_filter (Some u) ids rt permission d rows =
      filter (\<lambda>(r, owner). owner = u \<or> table_has_access u rt r permission None d) rows"
    by (simp add: permission_filter_eq [OF assms(3,4)])
qed (simp_all add: users_with_access_iff [OF assms(1)] accessible_ids_iff)

theorem access_views_agree_witness:
  "get_users_with_access ''model'' ''base'' ''read'' sample_access = [sample_account ''u'' ''user''] \<and>
   table_has_access ''u'' ''model'' ''base'' ''read'' None sample_access \<and>
   get_accessible_resource_ids ''u'' ''model'' [''base'', ''other''] ''read'' None sample_access = {''base''} \<and>
   has_permission_filter (Some ''u'') [''g''] ''model'' ''read'' sample_access [(''base'', ''a''), (''other'', ''a''), (''mine'', ''u'')] =
     [(''base'', ''a''), (''mine'', ''u'')]"
proof -
  let ?d = sample_access
  have given: "linked (ad_groups ?d)" "set [''g''] = group_ids_of ''u'' None ?d" by code_simp+
  have eval: "get_users_with_access ''model'' ''base'' ''read'' ?d = [sample_account ''u'' ''user'']"
    "get_accessible_resource_ids ''u'' ''model'' [''base'', ''other''] ''read'' None ?d = {''base''}"
    "filter (\<lambda>(r, owner). owner = ''u'' \<or> table_has_access ''u'' ''model'' r ''read'' None ?d)
       [(''base'', ''a''), (''other'', ''a''), (''mine'', ''u'')] = [(''base'', ''a''), (''mine'', ''u'')]" by code_simp+
  note agree = access_views_agree [OF given, of "''read''" "''model''" "''base''" "[''base'', ''other'']"
    "[(''base'', ''a''), (''other'', ''a''), (''mine'', ''u'')]"]
  have "''base'' \<in> get_accessible_resource_ids ''u'' ''model'' [''base'', ''other''] ''read'' None ?d" by (simp add: eval(2))
  then have "table_has_access ''u'' ''model'' ''base'' ''read'' None ?d" using agree by auto
  then show ?thesis using agree eval by simp
qed

text \<open>
  C37. Saving the grants that the check of what a user may share lets through stores a public grant only
  if the user may share publicly, and a grant to a single user only if the user may share with
  users. Every grant to a group is stored, nothing is stored that was not asked for, other resources
  keep their grants, and no grant is stored twice. The template is a dictionary, with distinct keys.
\<close>

theorem saved_grants_allowed:
  assumes "filter_allowed_access_grants uid T D u role grants key d = (Inr gs, D')" and "role \<noteq> ''admin''"
    and "set_access_grants uid' row_uid now rt rid (Some gs) t = Inr (new, t')" and "grants_ok t"
    and "dict_keys (JObj T)"
  shows "(\<forall>g \<in> set t'. on_resource rt rid g \<longrightarrow>
      (public_principal g \<longrightarrow> fst (has_permission T u key D d) = Inr True) \<and>
      (ga_principal_type g = ''user'' \<and> \<not> public_principal g \<longrightarrow>
        fst (has_permission T u ''access_grants.allow_users'' D d) = Inr True) \<and>
      (\<exists>v \<in> set grants. valid_grant v = Some (key_of g))) \<and>
    (\<forall>v \<in> set grants. \<forall>i p. valid_grant v = Some (''group'', i, p) \<longrightarrow>
      (\<exists>g \<in> set t'. on_resource rt rid g \<and> key_of g = (''group'', i, p))) \<and>
    filter (\<lambda>g. \<not> on_resource rt rid g) t' = filter (\<lambda>g. \<not> on_resource rt rid g) t \<and> grants_ok t'"
proof -
  note f = filtered_grants [OF assms(1,2,5)]
  note keys = stored_keys [OF assms(3)]
  note r = replace_grants_Inr [OF assms(3) [unfolded set_access_grants_def]]
  have others: "filter (\<lambda>g. \<not> on_resource rt rid g) t' = filter (\<lambda>g. \<not> on_resource rt rid g) t"
    unfolding r(1) using r(3) by (auto simp: del_rows_def list_all_iff filter_empty_conv)
  have stored: "(public_principal g \<longrightarrow> fst (has_permission T u key D d) = Inr True) \<and>
      (ga_principal_type g = ''user'' \<and> \<not> public_principal g \<longrightarrow>
        fst (has_permission T u ''access_grants.allow_users'' D d) = Inr True) \<and>
      (\<exists>v \<in> set grants. valid_grant v = Some (key_of g))" if g: "g \<in> set t'" "on_resource rt rid g" for g
  proof -
    obtain v where v: "v \<in> set gs" "valid_grant v = Some (key_of g)" using keys g by blast
    have "fst (has_permission T u key D d) = Inr True" if "public_principal g"
      using f(2) [OF v(1), of "ga_permission g"] v(2) that by (simp add: key_of_def public_principal_def)
    moreover have "fst (has_permission T u ''access_grants.allow_users'' D d) = Inr True"
      if "ga_principal_type g = ''user''" "\<not> public_principal g"
      using f(3) [OF v(1), of "ga_principal_id g" "ga_permission g"] v(2) that by (simp add: key_of_def public_principal_def)
    moreover have "\<exists>v \<in> set grants. valid_grant v = Some (key_of g)" using f(1) v by blast
    ultimately show ?thesis by (intro conjI impI) (elim conjE, assumption | assumption)+
  qed
  have groups: "\<exists>g \<in> set t'. on_resource rt rid g \<and> key_of g = (''group'', i, p)"
    if "v \<in> set grants" "valid_grant v = Some (''group'', i, p)" for v i p
  proof -
    have "(''group'', i, p) \<in> {k. \<exists>v \<in> set gs. valid_grant v = Some k}" using f(4) [OF that] that(2) by blast
    then show ?thesis unfolding keys [symmetric] by force
  qed
  show ?thesis using stored groups others r(4) [OF assms(4)] by blast
qed

theorem saved_grants_allowed_witness:
  "\<exists>t'. set_access_grants (\<lambda>n. ''i'') (\<lambda>n. ''5'') 7 ''model'' ''mine'' (Some [wildcard_grant]) (ad_grants sample_access) =
      Inr ([new_grant ''5'' 7 ''model'' ''mine'' (''user'', ''*'', ''read'')], t') \<and>
    filter_allowed_access_grants (\<lambda>n. ''i'') sample_template sample_template ''u'' ''user'' [wildcard_grant, user_grant]
      ''sharing.public_models'' sample_access = (Inr [wildcard_grant], sample_template) \<and>
    fst (has_permission sample_template ''u'' ''sharing.public_models'' sample_template sample_access) = Inr True \<and> grants_ok t'"
proof -
  let ?t' = "ad_grants sample_access @ [new_grant ''5'' 7 ''model'' ''mine'' (''user'', ''*'', ''read'')]"
  have "has_permission sample_template ''u'' ''sharing.public_models'' sample_template sample_access = (Inr True, sample_template)"
    "has_permission sample_template ''u'' ''access_grants.allow_users'' sample_template sample_access = (Inr False, sample_template)"
    "has_public_read_access_grant (\<lambda>n. ''i'') (Some [wildcard_grant, user_grant])"
    "has_user_access_grant (\<lambda>n. ''i'') (Some [wildcard_grant, user_grant])"
    "strip_user_access_grants (Some [wildcard_grant, user_grant]) = [wildcard_grant]" by code_simp+
  then have f: "filter_allowed_access_grants (\<lambda>n. ''i'') sample_template sample_template ''u'' ''user'' [wildcard_grant, user_grant]
      ''sharing.public_models'' sample_access = (Inr [wildcard_grant], sample_template)" by (simp add: filter_allowed_access_grants_def)
  have s: "set_access_grants (\<lambda>n. ''i'') (\<lambda>n. ''5'') 7 ''model'' ''mine'' (Some [wildcard_grant]) (ad_grants sample_access) =
      Inr ([new_grant ''5'' 7 ''model'' ''mine'' (''user'', ''*'', ''read'')], ?t')" by code_simp
  have ok: "grants_ok (ad_grants sample_access)" by code_simp
  have "''user'' \<noteq> ''admin''" by simp
  note all = saved_grants_allowed [OF f this s ok conforms_dict [OF sample_conforms]]
  let ?g = "new_grant ''5'' 7 ''model'' ''mine'' (''user'', ''*'', ''read'')"
  have g: "?g \<in> set ?t'" "on_resource ''model'' ''mine'' ?g" "public_principal ?g"
    by (simp_all add: public_principal_def new_grant_def on_resource_def)
  have "fst (has_permission sample_template ''u'' ''sharing.public_models'' sample_template sample_access) = Inr True"
    by (rule all [THEN conjunct1, THEN bspec, OF g(1), THEN mp, OF g(2), THEN conjunct1, THEN mp, OF g(3)])
  moreover have "grants_ok ?t'" by (rule all [THEN conjunct2, THEN conjunct2, THEN conjunct2])
  ultimately show ?thesis using f s by blast
qed

text \<open>
  C38. The two readings of a permission, for trees that follow the template. A check grants it exactly
  when a group of the user does, or the entry of the settings, or, where the settings have no entry,
  the entry of the template. The tree of all permissions read after the check says the same, and so
  does another check, which leaves the settings alone. The tree read before says the same when a group
  grants the permission or the settings have the entry; otherwise it denies it.
\<close>

theorem permissions_agree:
  assumes "conforms (JObj T) (JObj T)" and "node (JObj T) (split_dots key) = Some (JBool b)"
    and "conforms (JObj D) (JObj T)" and "\<forall>g \<in> set (group_permissions u d). conforms (JObj g) (JObj T)"
    and "granted = ((\<exists>g \<in> set (group_permissions u d). flag (JObj g) (split_dots key)) \<or>
      (case node (JObj D) (split_dots key) of None \<Rightarrow> b | Some v \<Rightarrow> v = JBool True))"
    and "has_permission T u key D d = (answer, D')"
  shows "answer = Inr granted \<and>
    bindE (get_permissions D' u d) (\<lambda>p. get_permission (JObj p) (split_dots key)) = Inr granted \<and>
    has_permission T u key D' d = (Inr granted, D') \<and>
    bindE (get_permissions D u d) (\<lambda>p. get_permission (JObj p) (split_dots key)) =
      Inr (granted \<and> ((\<exists>g \<in> set (group_permissions u d). flag (JObj g) (split_dots key)) \<or>
        node (JObj D) (split_dots key) \<noteq> None))"
proof -
  let ?ks = "split_dots key" and ?F = "fill_missing_permissions D T" and ?G = "group_flag u (split_dots key) d"
  have b: "flag (JObj T) ?ks = b" using assms(2) by (simp add: flag_def)
  have granted: "granted = (?G \<or> default_flag T D ?ks)"
    unfolding assms(5) group_flag_def default_flag_def b by (simp split: option.split)
  note check = check_reading [OF assms(1,2) _ assms(4)] and tree = tree_reading [OF assms(2) _ assms(4)]
  have F: "conforms (JObj ?F) (JObj T)" "flag (JObj ?F) ?ks = default_flag T D ?ks"
    using fill_flags [OF assms(3,1)] default_flag_filled [OF assms(1,3)] by blast+
  have idem: "fill_missing_permissions ?F T = ?F" by (rule fill_missing_idem [OF conforms_dict [OF assms(1)]])
  then have again: "default_flag T ?F ?ks = default_flag T D ?ks"
    using default_flag_filled [OF assms(1) F(1), of ?ks] F(2) by simp
  have first: "answer = Inr granted" "D' = (if ?G then D else ?F)"
    using check [OF assms(3)] assms(6) by (simp_all add: granted)
  moreover have "bindE (get_permissions D' u d) (\<lambda>p. get_permission (JObj p) ?ks) = Inr granted"
    using tree [OF assms(3)] tree [OF F(1)] F(2) by (simp add: first(2) granted)
  moreover have "has_permission T u key D' d = (Inr granted, D')"
    using check [OF assms(3)] check [OF F(1)] by (simp add: first(2) granted idem again)
  moreover have "flag (JObj D) ?ks = (default_flag T D ?ks \<and> node (JObj D) ?ks \<noteq> None)"
    by (auto simp: default_flag_def flag_def)
  then have "bindE (get_permissions D u d) (\<lambda>p. get_permission (JObj p) ?ks) =
      Inr (granted \<and> (?G \<or> node (JObj D) ?ks \<noteq> None))"
    using tree [OF assms(3)] by (auto simp: granted)
  ultimately show ?thesis unfolding group_flag_def by blast
qed

text \<open>A permission the template grants and the settings leave out is granted by the check alone, until a
  check has filled the settings.\<close>

definition open_template :: obj where
  "open_template = [(''chat'', JObj [(''delete'', JBool True)]), (''sharing'', JObj [(''public_models'', JBool False)])]"

lemma tree_before_check:
  "bindE (get_permissions [] ''v'' sample_access) (\<lambda>p. get_permission (JObj p) [''chat'', ''delete'']) = Inr False \<and>
   has_permission open_template ''v'' ''chat.delete'' [] sample_access = (Inr True, open_template) \<and>
   bindE (get_permissions open_template ''v'' sample_access) (\<lambda>p. get_permission (JObj p) [''chat'', ''delete'']) = Inr True"
  by code_simp

theorem permissions_agree_witness:
  "has_permission open_template ''u'' ''chat.delete'' [] sample_access = (Inr True, open_template) \<and>
   bindE (get_permissions open_template ''u'' sample_access) (\<lambda>p. get_permission (JObj p) [''chat'', ''delete'']) = Inr True \<and>
   bindE (get_permissions [] ''u'' sample_access) (\<lambda>p. get_permission (JObj p) [''chat'', ''delete'']) = Inr False"
proof -
  have T: "conforms (JObj open_template) (JObj open_template)"
    "node (JObj open_template) (split_dots ''chat.delete'') = Some (JBool True)"
    "conforms (JObj []) (JObj open_template)" by code_simp+
  have "conforms (JObj [(''sharing'', JObj [(''public_models'', JBool True)])]) (JObj open_template)" by code_simp
  then have g: "\<forall>g \<in> set (group_permissions ''u'' sample_access). conforms (JObj g) (JObj open_template)"
    unfolding sample_group_permissions by (simp only: list.set ball_simps)
  have s: "split_dots ''chat.delete'' = [''chat'', ''delete'']" by code_simp
  have none: "\<not> (\<exists>g \<in> set (group_permissions ''u'' sample_access). flag (JObj g) [''chat'', ''delete''])"
    unfolding sample_group_permissions by code_simp
  have check: "has_permission open_template ''u'' ''chat.delete'' [] sample_access = (Inr True, open_template)" by code_simp
  have "True = ((\<exists>g \<in> set (group_permissions ''u'' sample_access). flag (JObj g) (split_dots ''chat.delete'')) \<or>
      (case node (JObj []) (split_dots ''chat.delete'') of None \<Rightarrow> True | Some v \<Rightarrow> v = JBool True))"
    by (simp add: s)
  from permissions_agree [OF T g this check] none show ?thesis unfolding s by (simp add: check)
qed

text \<open>
  C40. A user who is no administrator gets past the check of a model exactly when the model and every
  registered model it is built on, however long the chain and even when it runs in a circle, is the
  user's own or readable by a grant.
\<close>

theorem base_models_readable:
  fixes user :: account and d :: access_db
  assumes "ac_role user = ''user''" and "get_by md_id (md_id m) ms \<in> {None, Some m}"
  defines "ids \<equiv> Some (gp_id ` set (get_groups_by_member_id (ac_id user) (ad_groups d)))"
  shows "check_model_access user (Some m) False ms d =
    (if may_read (ac_id user) ids d m \<and>
        (\<forall>n. built_on ms m n \<longrightarrow> md_id n \<noteq> md_id m \<longrightarrow> may_read (ac_id user) ids d n)
     then Inr () else Inl (http 403 ''Model not found''))"
  using assms(1) base_access_iff [OF assms(2)] by (simp add: check_model_access_def ids_def Let_def)

theorem base_models_readable_witness:
  "check_model_access (sample_account ''u'' ''user'') (Some (hd sample_models)) False sample_models sample_access = Inr () \<and>
   check_model_access (sample_account ''w'' ''user'') (Some (hd sample_models)) False sample_models sample_access =
     Inl (http 403 ''Model not found'') \<and>
   built_on sample_models (hd sample_models) (sample_models ! 1) \<and>
   \<not> may_read ''w'' (Some {}) sample_access (sample_models ! 1)"
proof -
  have g: "get_by md_id (md_id (hd sample_models)) sample_models \<in> {None, Some (hd sample_models)}" by code_simp
  have pass: "check_model_access (sample_account ''u'' ''user'') (Some (hd sample_models)) False sample_models sample_access = Inr ()"
    by code_simp
  have b: "built_on sample_models (hd sample_models) (sample_models ! 1)"
    by (rule built_on.direct [of _ "''base''"]) (simp_all add: sample_models_def)
  have other: "md_id (sample_models ! 1) \<noteq> md_id (hd sample_models)" by (simp add: sample_models_def)
  have no: "get_groups_by_member_id ''w'' (ad_groups sample_access) = []" "\<not> may_read ''w'' (Some {}) sample_access (sample_models ! 1)"
    by code_simp+
  have "ac_role (sample_account ''w'' ''user'') = ''user''" "ac_id (sample_account ''w'' ''user'') = ''w''"
    by (simp_all add: sample_account_def)
  then show ?thesis
    using base_models_readable [of "sample_account ''w'' ''user''" "hd sample_models" sample_models sample_access, OF _ g]
      pass b other no by auto
qed

end
