(* ===== verification/Spec2Isabelle.thy ===== *)
theory Spec2Isabelle
  imports Budget_Properties Question_Authoring Submission_Grading Plan_Store Condition_Properties Chunker_Properties Session_Access Plan_Samples Synthetic_Properties Telemetry_Samples Grading_Samples Workflow_Samples Result_Samples Access_Samples
begin

text \<open>
  This development models the experiment platform that the repository adds to Open WebUI: classroom
  experiments in which participants work through essays, question tasks and surveys with the help
  of a language model, under conditions that change the prompts, the warnings they see and the
  timing of the responses. Paths below are relative to \<open>src/backend/open_webui\<close>.

  \<^bold>\<open>The program.\<close> An administrator authors question tasks, survey tasks and essay topics, combines
  them in a plan for a group, or in a workflow that is applied to groups, and gives the plan
  conditions. A participant's session is created from the published plan: it draws a condition,
  instantiates the tasks of the plan and moves through a life cycle of states, while the tasks move
  through their own. Answers are graded at once or by a model; chat requests pass the prompt
  budgets, get the condition's instruction injected and come back with the condition's timing.
  Browser telemetry is recorded beside it, and the dashboard reports what happened.

  \<^bold>\<open>How code becomes definitions.\<close> A table is the list of its rows, a row a record whose fields have
  a two-letter prefix, and the store (\<open>experiment_db\<close>) the record of the tables; an enumeration is
  a datatype. An operation is a function on the store: what runs in one transaction has the type
  \<open>db \<Rightarrow> err + 'a \<times> db\<close>, an error meaning that nothing is committed; a request that commits several
  times has the type \<open>db \<Rightarrow> (err + 'a) \<times> db\<close>, the store being what is committed in either case. Every
  raise of the source is a value of \<open>err\<close> (theory \<open>Prelude\<close>), \<open>bindE\<close>, \<open>mapE\<close> and \<open>foldE\<close> run code
  that can raise, one step or a loop. Clock readings and UUIDs are functions from the place of the
  reading to its value. Other requests that commit between two transactions of a request are a
  function on the store, which the theorems quantify over and restrict by what every request of the
  model is proved to keep (\<open>tame\<close>, \<open>keeps\<close>). Numbers are unbounded as in Python; a decimal is a
  rational with the rounding of the default context written out; the draw of a condition and the point
  it gives are doubles, rounded to nearest even (\<open>round_double\<close>); any other double is the exact
  rational, where only order or a rounded mean matters. A call that changes an argument in place
  returns its new value (\<open>has_permission\<close> fills the settings it is given). A generator is the list of
  its actions, which a stop from outside cuts off: a consumer that closes it at a yield, a cancellation
  at an await (\<open>stopped_run\<close>, \<open>client_reads\<close>). Characters are code points below 256.

  \<^bold>\<open>Theories, in the order of the code they model.\<close>
  \<^item> \<open>Prelude\<close>: JSON and error values, Python truthiness and \<open>strip\<close>, tables; the locale
    \<open>keyed_table\<close> of a table with a key, interpreted on the operations every model uses.
  \<^item> Prompt budgets (\<open>models/experiment_prompt_budgets.py\<close>, \<open>utils/experiment_prompt_budgets.py\<close>):
    \<open>Prompt_Budget\<close> the budget forms, buckets and reservations (\<open>reserve\<close>, \<open>renew\<close>, \<open>settle\<close>);
    \<open>Prompt_Ledger\<close> the ledger as a step relation with its invariant; \<open>Prompt_Accounting\<close> the locale
    \<open>charge_ledger\<close> of what a request relies on; \<open>Completion_Observer\<close> and \<open>Budget_Run\<close> the observer
    of a response and one generation; \<open>Budget_Properties\<close>.
  \<^item> Question tasks (\<open>models/question_tasks.py\<close>): \<open>Question_Forms\<close>, \<open>Decimal_Arith\<close>,
    \<open>Question_Grade\<close> (the graders, with the locale of their common contract), \<open>Question_Task\<close> (the
    table), \<open>Question_Store\<close>, \<open>Question_Authoring\<close>; survey tasks (\<open>models/survey_tasks.py\<close>):
    \<open>Survey_Task\<close>.
  \<^item> Submissions (\<open>models/question_submissions.py\<close>, \<open>models/survey_submissions.py\<close>):
    \<open>Question_Submission\<close>, \<open>Submission_Grading\<close>, \<open>Submission_Totals\<close>, \<open>Survey_Submission\<close>; the row of
    a session task in \<open>Session_Task\<close>.
  \<^item> Grading by a model (\<open>utils/question_grading.py\<close>, the review routes of
    \<open>routers/experiment_analytics.py\<close>): \<open>Text_Pattern\<close> the backtracking matcher its patterns need,
    \<open>Grade_Parser\<close>, \<open>Grading_Run\<close>, \<open>Grading_Properties\<close>, \<open>Thought_Removal\<close>,
    \<open>Grading_Samples\<close>.
  \<^item> Plans (\<open>models/experiment_plans.py\<close>, \<open>models/experiment_perturbations.py\<close>):
    \<open>Perturbation_Config\<close> the conditions and their validators, \<open>Experiment_Plan\<close> the plan forms and
    the shared store, \<open>Plan_Store\<close> saving a plan, \<open>Plan_Properties\<close>, \<open>Plan_Samples\<close>.
  \<^item> Conditions at work (\<open>utils/experiment_perturbations.py\<close>): \<open>Condition_Assignment\<close>,
    \<open>Condition_Properties\<close>; the pieces of a response in \<open>Response_Chunker\<close> and
    \<open>Chunker_Properties\<close>, a timed stream in \<open>Response_Stream\<close>, \<open>Stream_Properties\<close> and
    \<open>Stream_Outcome\<close>, a whole response in \<open>Response_Synthetic\<close> and \<open>Synthetic_Properties\<close>.
  \<^item> Sessions (\<open>models/experiments.py\<close>, \<open>models/experiment_plans.py\<close>, \<open>models/essays.py\<close>,
    \<open>routers/experiments.py\<close>): \<open>Task_Progression\<close>, \<open>Essay_Topic\<close>, \<open>Experiment_Session\<close>,
    \<open>Experiment_Routes\<close>, \<open>Warning_Runtime\<close>; \<open>Session_Lifecycle\<close>, \<open>Session_Moves\<close>
    and \<open>Session_Properties\<close> on the life cycle under interference; \<open>Session_Rows\<close>,
    \<open>Strict_Progress\<close>, \<open>Stage_Closing\<close> (the locale \<open>stage_closer\<close> of the four requests that end a
    stage), \<open>Strict_Sessions\<close>, \<open>Stage_Progress\<close> and \<open>Stage_Liveness\<close> on strictly sequential
    sessions; \<open>Warning_Properties\<close>, \<open>Session_Access\<close>, \<open>Sample_Store\<close>.
  \<^item> Telemetry (\<open>routers/experiment_telemetry.py\<close>, \<open>models/experiment_telemetry.py\<close>):
    \<open>Telemetry_Forms\<close>, \<open>Telemetry_Routes\<close>, \<open>Extension_Presence\<close>, \<open>Telemetry_Properties\<close>,
    \<open>Telemetry_Samples\<close>.
  \<^item> Workflows (\<open>models/experiment_workflows.py\<close>): \<open>Workflow_Definition\<close> normalization and
    validation, \<open>Workflow_Store\<close> the library, \<open>Workflow_Apply\<close> publishing a plan from a workflow,
    \<open>Workflow_Normal\<close>, \<open>Workflow_Properties\<close>, \<open>Workflow_Claims\<close>, \<open>Workflow_Samples\<close>.
  \<^item> Results (\<open>utils/workflow_results.py\<close>, \<open>routers/experiment_analytics.py\<close>):
    \<open>Usage_Attribution\<close>, \<open>Workflow_Results\<close>, \<open>Workflow_Detail\<close>, \<open>Session_Reports\<close>,
    \<open>Result_Samples\<close>.
  \<^item> Access control (\<open>models/groups.py\<close>, \<open>models/access_grants.py\<close>,
    \<open>utils/access_control/__init__.py\<close>, \<open>utils/experiments.py\<close>): \<open>Member_Groups\<close> groups and their
    members, \<open>Access_Grants\<close> the table of grants and its queries, \<open>Permission_Tree\<close> the permissions of
    a user and what a user may share, \<open>Model_Access\<close> the chain of base models and what access
    control promises, \<open>Request_Guards\<close> the guards of other routes during a session,
    \<open>Access_Samples\<close>.

  \<^bold>\<open>What the lemmas show.\<close> The ledger never grants more than a limit and charges a reservation at
  most once, whatever the order of its steps. Grades lie between zero and the maximum and are cents,
  the totals of a submission follow its responses through grading, override and retry, a grading
  attempt that was claimed, the newest and only open one of its response, is settled. A task reads back as its form, published content is never
  changed, saved plans and applied workflows add a version and supersede the one before; a revision of a
  workflow that was used is refused in every later state. The five requests of the life cycle move a
  session only along its edges under each other's interference (requests that close a task write the state without a
  condition and are treated without interference); a warning waits through the other warning requests; a strictly sequential session refines a counter of
  finished stages, which bounds the requests until it ends and says when the chat is open. Timing a
  response keeps its text, the modes that lose text excepted, and the stored request records how the
  response ended unless the consumer stopped reading. The telemetry summary counts the stored events, and the results count
  every message once and only for its own session. The ways to ask for access agree while no deleted group leaves members behind, what is stored
  for a resource is what its owner may share, permissions are the disjunction over groups, the
  settings and, where these have no entry, the template, once a check has filled them, and the walk along base models ends and reads the whole chain. Where the code does something else than it means
  to, the theorem says what it does (\<open>chunk_boundary_matters\<close>, \<open>blank_condition_blocks_plan\<close>,
  \<open>ready_workflow_cannot_apply\<close>, \<open>listing_fails\<close>, \<open>largest_mislabelled\<close>, \<open>add_users_forgets\<close>,
  \<open>abandoned_stays_pending\<close>, \<open>tree_before_check\<close> and others).

  \<^bold>\<open>Bounds and termination.\<close> No definition takes fuel. Loops over rows are structural recursion;
  the ones that consume text (\<open>find_words\<close>, the drain of the chunker, \<open>sliced\<close>, \<open>join_runs\<close>, the
  observer's buffer) and the backtracking matcher terminate by a measure on what is left, the walk
  along base models by the number of models not yet seen. The bounds
  of the forms (lengths, counts, scores, sizes of batches) are those of the source.

  \<^bold>\<open>Parameters.\<close> What is not under the repository's control is an argument: JSON encoding and
  decoding, SHA-256 and HMAC, \<open>urlsplit\<close>, the typed reading that pydantic does before a validator
  runs, clocks, UUIDs and random draws, the language model that grades, copying a stored file, the
  fingerprint of a plan, and the requests that interleave. Hypotheses about them state documented
  behaviour (a decoded value is encoded to the same value again, draws are fresh), and every
  property with such a hypothesis has a witness with concrete functions; for the plans of workflows it
  is a reader that knows the fields, the defaults and the required fields of the forms and refuses
  what they refuse (\<open>Workflow_Samples\<close>).

  \<^bold>\<open>Not modelled.\<close> Open WebUI itself - chat middleware, retrieval, model back ends, OAuth, channels,
  notes, tools, files, configuration, start-up and migrations - is the platform the experiments run on and
  is left aside, except its access control and where an experiment's code reads its rows. The
  sharing settings of groups and the access check of files, which asks tables outside the model, are
  not modelled. Of the experiment's own code:
  workflow archives (zip files and images), the fingerprint of a configuration, the pages of the
  dashboard and the exports that only assemble rows, and the web client, browser extension and
  research toolbox, which are other programs. SQL isolation is modelled as transactions that run
  one after the other; row locks, \<open>IntegrityError\<close> on key clashes and conditional updates are in
  the model, time-outs and lost connections are not.
\<close>

end
